(* ===== verification/Prelude.thy ===== *)
theory Prelude
  imports "HOL-Library.Word" "HOL-Library.State_Monad" "HOL-Library.Signed_Division"
    "HOL-Library.Monad_Syntax"
begin

text \<open>
  What all the components share: C integer conversions, the state monad the functions of
  the program are written in, the world they run in (the operating system and the libraries
  as an oracle over the trace of calls), invariants of monadic programs, and the two pieces
  of the C library the code leans on most, \<open>sprintf\<close> and \<open>sscanf\<close> of integers.
\<close>

named_theorems keeps_rules
named_theorems run_simps
named_theorems hoare_rules

section \<open>C integers\<close>

text \<open>
  A C \<open>int\<close> is an \<open>int\<close>; \<open>swrap n\<close> and \<open>uwrap n\<close> are the conversions to a signed or
  unsigned integer (or bit-field) of \<open>n\<close> bits.
\<close>

definition swrap :: "nat \<Rightarrow> int \<Rightarrow> int" where
  "swrap n x = (x + 2 ^ (n - 1)) mod 2 ^ n - 2 ^ (n - 1)"

definition uwrap :: "nat \<Rightarrow> int \<Rightarrow> int" where
  "uwrap n x = x mod 2 ^ n"

lemma swrap_id [simp]:
  assumes "- (2 ^ (n - 1)) \<le> x" "x < 2 ^ (n - 1)" "0 < n"
  shows "swrap n x = x"
proof -
  have "(2::int) ^ n = 2 * 2 ^ (n - 1)"
    using assms(3) by (cases n) auto
  then have "(x + 2 ^ (n - 1)) mod 2 ^ n = x + 2 ^ (n - 1)"
    using assms(1,2) by (intro mod_pos_pos_trivial) auto
  then show ?thesis by (simp add: swrap_def)
qed

lemma swrap_range:
  assumes "0 < n"
  shows "- (2 ^ (n - 1)) \<le> swrap n x \<and> swrap n x < 2 ^ (n - 1)"
proof -
  have "(2::int) ^ n = 2 * 2 ^ (n - 1)"
    using assms by (cases n) auto
  moreover have "0 \<le> (x + 2 ^ (n - 1)) mod 2 ^ n" "(x + 2 ^ (n - 1)) mod 2 ^ n < 2 ^ n"
    by auto
  ultimately show ?thesis
    by (simp add: swrap_def)
qed

lemma uwrap_id [simp]: "0 \<le> x \<Longrightarrow> x < 2 ^ n \<Longrightarrow> uwrap n x = x"
  by (simp add: uwrap_def)

lemma uwrap_range: "0 \<le> uwrap n x \<and> uwrap n x < 2 ^ n"
  by (simp add: uwrap_def)

lemma swrap_sint: "swrap 32 x = sint (word_of_int x :: 32 word)"
  by (simp add: swrap_def sint_uint uint_word_of_int signed_take_bit_eq_take_bit_shift
      take_bit_eq_mod mod_simps)

text \<open>\<open>!!x\<close> and a truth value as an \<open>int\<close>.\<close>

definition of_cbool :: "bool \<Rightarrow> int" where
  "of_cbool b = (if b then 1 else 0)"

text \<open>The error numbers the code uses (Linux, ARM).\<close>

abbreviation (input) EINTR :: int where "EINTR \<equiv> 4"
abbreviation (input) EIO :: int where "EIO \<equiv> 5"
abbreviation (input) EBUSY :: int where "EBUSY \<equiv> 16"
abbreviation (input) EEXIST :: int where "EEXIST \<equiv> 17"
abbreviation (input) ENODEV :: int where "ENODEV \<equiv> 19"
abbreviation (input) ENOTDIR :: int where "ENOTDIR \<equiv> 20"
abbreviation (input) EINVAL :: int where "EINVAL \<equiv> 22"
abbreviation (input) ETIMEDOUT :: int where "ETIMEDOUT \<equiv> 110"

section \<open>The state monad\<close>

abbreviation ret :: "'a \<Rightarrow> ('s, 'a) state" where
  "ret \<equiv> State_Monad.return"

definition gets :: "('s \<Rightarrow> 'a) \<Rightarrow> ('s, 'a) state" where
  "gets f = State (\<lambda>s. (f s, s))"

definition modify :: "('s \<Rightarrow> 's) \<Rightarrow> ('s, unit) state" where
  "modify f = State (\<lambda>s. ((), f s))"

lemma run_gets [simp, run_simps]: "run_state (gets f) s = (f s, s)"
  by (simp add: gets_def)

lemma run_modify [simp, run_simps]: "run_state (modify f) s = ((), f s)"
  by (simp add: modify_def)

lemma run_if [simp]: "run_state (if b then m else m') s = (if b then run_state m s else run_state m' s)"
  by simp

text \<open>A loop \<open>for\<close> over the elements of an array, in order.\<close>

primrec for_each :: "'a list \<Rightarrow> ('a \<Rightarrow> ('s, unit) state) \<Rightarrow> ('s, unit) state" where
  "for_each [] f = ret ()"
| "for_each (x # xs) f = do { f x; for_each xs f }"

section \<open>Invariants of monadic programs\<close>

text \<open>\<open>keeps I m\<close>: run from a state with \<open>I\<close>, the program \<open>m\<close> ends in one.\<close>

definition keeps :: "('s \<Rightarrow> bool) \<Rightarrow> ('s, 'a) state \<Rightarrow> bool" where
  "keeps I m \<longleftrightarrow> (\<forall>s. I s \<longrightarrow> I (snd (run_state m s)))"

lemma keepsI: "(\<And>s. I s \<Longrightarrow> I (snd (run_state m s))) \<Longrightarrow> keeps I m"
  by (simp add: keeps_def)

lemma keepsD: "keeps I m \<Longrightarrow> I s \<Longrightarrow> I (snd (run_state m s))"
  by (simp add: keeps_def)

lemma keeps_run: "keeps I m \<Longrightarrow> I s \<Longrightarrow> run_state m s = (a, s') \<Longrightarrow> I s'"
  by (metis keepsD snd_conv)

lemma keeps_ret [keeps_rules]: "keeps I (ret x)"
  by (simp add: keeps_def)

lemma keeps_gets [keeps_rules]: "keeps I (gets f)"
  by (simp add: keeps_def)

lemma keeps_modify [keeps_rules]: "(\<And>s. I s \<Longrightarrow> I (f s)) \<Longrightarrow> keeps I (modify f)"
  by (simp add: keeps_def)

lemma keeps_bind [keeps_rules]:
  "keeps I m \<Longrightarrow> (\<And>a. keeps I (f a)) \<Longrightarrow> keeps I (State_Monad.bind m f)"
  by (simp add: keeps_def split_beta)

lemma keeps_if [keeps_rules]: "(b \<Longrightarrow> keeps I m) \<Longrightarrow> (\<not> b \<Longrightarrow> keeps I m') \<Longrightarrow> keeps I (if b then m else m')"
  by simp

lemma keeps_Let [keeps_rules]: "(\<And>x. x = a \<Longrightarrow> keeps I (f x)) \<Longrightarrow> keeps I (Let a f)"
  by simp

lemma keeps_case_option [keeps_rules]:
  "(x = None \<Longrightarrow> keeps I m) \<Longrightarrow> (\<And>y. x = Some y \<Longrightarrow> keeps I (f y)) \<Longrightarrow>
   keeps I (case x of None \<Rightarrow> m | Some y \<Rightarrow> f y)"
  by (cases x) auto

lemma keeps_case_prod [keeps_rules]:
  "(\<And>a b. x = (a, b) \<Longrightarrow> keeps I (f a b)) \<Longrightarrow> keeps I (case x of (a, b) \<Rightarrow> f a b)"
  by (cases x) auto

lemma run_for_each_append: "run_state (for_each (xs @ ys) f) s = run_state (do { for_each xs f; for_each ys f }) s"
  by (induction xs arbitrary: s) (simp_all add: split_beta)

lemma keeps_for_each [keeps_rules]: "(\<And>x. x \<in> set xs \<Longrightarrow> keeps I (f x)) \<Longrightarrow> keeps I (for_each xs f)"
  by (induction xs) (auto intro!: keeps_rules)

text \<open>The result of a program, under a precondition.\<close>

definition hoare :: "('s \<Rightarrow> bool) \<Rightarrow> ('s, 'a) state \<Rightarrow> ('a \<Rightarrow> 's \<Rightarrow> bool) \<Rightarrow> bool" where
  "hoare P m Q \<longleftrightarrow> (\<forall>s. P s \<longrightarrow> (case run_state m s of (a, s') \<Rightarrow> Q a s'))"

lemma hoareD: "hoare P m Q \<Longrightarrow> P s \<Longrightarrow> run_state m s = (a, s') \<Longrightarrow> Q a s'"
  by (fastforce simp: hoare_def)

lemma hoareI: "(\<And>s a s'. P s \<Longrightarrow> run_state m s = (a, s') \<Longrightarrow> Q a s') \<Longrightarrow> hoare P m Q"
  by (auto simp: hoare_def)

lemma hoare_bind:
  "hoare P m R \<Longrightarrow> (\<And>a. hoare (R a) (f a) Q) \<Longrightarrow> hoare P (State_Monad.bind m f) Q"
  by (fastforce simp: hoare_def split: prod.splits)

lemma hoare_ret: "(\<And>s. P s \<Longrightarrow> Q x s) \<Longrightarrow> hoare P (ret x) Q"
  by (simp add: hoare_def)

lemma hoare_gets: "(\<And>s. P s \<Longrightarrow> Q (f s) s) \<Longrightarrow> hoare P (gets f) Q"
  by (simp add: hoare_def)

lemma hoare_modify: "(\<And>s. P s \<Longrightarrow> Q () (f s)) \<Longrightarrow> hoare P (modify f) Q"
  by (simp add: hoare_def)

lemma hoare_if:
  "(b \<Longrightarrow> hoare P m Q) \<Longrightarrow> (\<not> b \<Longrightarrow> hoare P m' Q) \<Longrightarrow> hoare P (if b then m else m') Q"
  by simp

lemma hoare_Let: "(\<And>x. x = a \<Longrightarrow> hoare P (f x) Q) \<Longrightarrow> hoare P (Let a f) Q"
  by simp

text \<open>
  Weak forms: a property of the result alone, whatever happened before. They compose without
  naming what holds in between.
\<close>

lemma hoare_bind_any [hoare_rules]:
  "(\<And>a. hoare (\<lambda>_. True) (f a) Q) \<Longrightarrow> hoare (\<lambda>_. True) (State_Monad.bind m f) Q"
  by (fastforce simp: hoare_def split: prod.splits)

lemmas [hoare_rules] = hoare_ret hoare_gets hoare_if hoare_Let

lemma hoare_weaken: "hoare P m Q \<Longrightarrow> (\<And>s. P' s \<Longrightarrow> P s) \<Longrightarrow> (\<And>a s. Q a s \<Longrightarrow> Q' a s) \<Longrightarrow> hoare P' m Q'"
  by (fastforce simp: hoare_def)

lemma keeps_hoare: "keeps I m \<longleftrightarrow> hoare I m (\<lambda>_. I)"
  by (simp add: keeps_def hoare_def split_beta)

text \<open>
  A state machine whose steps keep an invariant: every run from a good state ends in a good
  state. Components instantiate it with their operations.
\<close>

locale invariant_machine =
  fixes step :: "'s \<Rightarrow> 'e \<Rightarrow> 's" and inv :: "'s \<Rightarrow> bool" and ok :: "'e \<Rightarrow> bool"
  assumes step_inv: "inv s \<Longrightarrow> ok e \<Longrightarrow> inv (step s e)"
begin

lemma run_inv: "inv s \<Longrightarrow> list_all ok es \<Longrightarrow> inv (foldl step s es)"
  by (induction es arbitrary: s) (auto intro: step_inv)

lemma run_inv_prefix: "inv s \<Longrightarrow> list_all ok (es @ es') \<Longrightarrow> inv (foldl step s es)"
  by (auto intro: run_inv)

end

text \<open>
  Reference counts: \<open>up k\<close> and \<open>down k\<close> count the users of \<open>k\<close>, \<open>on k\<close> is what the count switches.
  \<open>mx\<close> is the largest count the field holds.
\<close>

datatype 'k ref_op = Up 'k | Down 'k

fun net :: "'k \<Rightarrow> 'k ref_op list \<Rightarrow> int" where
  "net k [] = 0"
| "net k (Up j # ops) = (if j = k then 1 else 0) + net k ops"
| "net k (Down j # ops) = (if j = k then - 1 else 0) + net k ops"

fun op_key :: "'k ref_op \<Rightarrow> 'k" where
  "op_key (Up k) = k"
| "op_key (Down k) = k"

definition apply_op :: "('k \<Rightarrow> 's \<Rightarrow> 's) \<Rightarrow> ('k \<Rightarrow> 's \<Rightarrow> 's) \<Rightarrow> 's \<Rightarrow> 'k ref_op \<Rightarrow> 's" where
  "apply_op up down s x = (case x of Up k \<Rightarrow> up k s | Down k \<Rightarrow> down k s)"

text \<open>No count is taken below 0 or above \<open>mx\<close>: every release has its acquisition.\<close>

definition counts_within :: "('k \<Rightarrow> int) \<Rightarrow> int \<Rightarrow> 'k ref_op list \<Rightarrow> bool" where
  "counts_within c mx ops \<longleftrightarrow> (\<forall>n \<le> length ops. \<forall>k \<in> op_key ` set ops.
     0 \<le> c k + net k (take n ops) \<and> c k + net k (take n ops) \<le> mx)"

text \<open>\<open>has k s\<close>: there is such a thing as \<open>k\<close> in \<open>s\<close>.\<close>

locale ref_counter =
  fixes up :: "'k \<Rightarrow> 's \<Rightarrow> 's" and down :: "'k \<Rightarrow> 's \<Rightarrow> 's" and cnt :: "'k \<Rightarrow> 's \<Rightarrow> int"
    and on :: "'k \<Rightarrow> 's \<Rightarrow> bool" and good :: "'s \<Rightarrow> bool" and has :: "'k \<Rightarrow> 's \<Rightarrow> bool" and mx :: int
  assumes up_good: "good s \<Longrightarrow> has k s \<Longrightarrow> cnt k s < mx \<Longrightarrow> good (up k s)"
    and up_has: "good s \<Longrightarrow> has k s \<Longrightarrow> cnt k s < mx \<Longrightarrow> has j (up k s) = has j s"
    and up_cnt: "good s \<Longrightarrow> has k s \<Longrightarrow> cnt k s < mx \<Longrightarrow> cnt j (up k s) = cnt j s + (if j = k then 1 else 0)"
    and down_good: "good s \<Longrightarrow> has k s \<Longrightarrow> 0 < cnt k s \<Longrightarrow> good (down k s)"
    and down_has: "good s \<Longrightarrow> has k s \<Longrightarrow> 0 < cnt k s \<Longrightarrow> has j (down k s) = has j s"
    and down_cnt: "good s \<Longrightarrow> has k s \<Longrightarrow> 0 < cnt k s \<Longrightarrow> cnt j (down k s) = cnt j s - (if j = k then 1 else 0)"
    and on_cnt: "good s \<Longrightarrow> has k s \<Longrightarrow> on k s \<longleftrightarrow> 0 < cnt k s"
begin

lemma within_Cons:
  assumes "good s" "has (op_key x) s" "counts_within (\<lambda>k. cnt k s) mx (x # ops)"
  shows "good (apply_op up down s x)" "has k (apply_op up down s x) = has k s"
    "cnt k (apply_op up down s x) = cnt k s + net k [x]" "counts_within (\<lambda>k. cnt k (apply_op up down s x)) mx ops"
proof -
  have 1: "0 \<le> cnt (op_key x) s + net (op_key x) [x] \<and> cnt (op_key x) s + net (op_key x) [x] \<le> mx"
    using assms(3) unfolding counts_within_def by (auto dest: spec [of _ "Suc 0"])
  show "good (apply_op up down s x)"
    using 1 assms(1,2) by (cases x) (auto simp: apply_op_def intro: up_good down_good)
  show "has k (apply_op up down s x) = has k s"
    using 1 assms(1,2) by (cases x) (auto simp: apply_op_def up_has down_has)
  show c: "cnt k (apply_op up down s x) = cnt k s + net k [x]" for k
    using 1 assms(1,2) by (cases x) (auto simp: apply_op_def up_cnt down_cnt)
  show "counts_within (\<lambda>k. cnt k (apply_op up down s x)) mx ops"
    unfolding counts_within_def
  proof (intro allI impI ballI)
    fix n k assume "n \<le> length ops" "k \<in> op_key ` set ops"
    then have "Suc n \<le> length (x # ops)" "k \<in> op_key ` set (x # ops)"
      by auto
    then have "0 \<le> cnt k s + net k (take (Suc n) (x # ops)) \<and> cnt k s + net k (take (Suc n) (x # ops)) \<le> mx"
      using assms(3) unfolding counts_within_def by blast
    then show "0 \<le> cnt k (apply_op up down s x) + net k (take n ops) \<and> cnt k (apply_op up down s x) + net k (take n ops) \<le> mx"
      using c [of k] by (cases x) auto
  qed
qed

lemma run_ops:
  "good s \<Longrightarrow> \<forall>x \<in> set ops. has (op_key x) s \<Longrightarrow> counts_within (\<lambda>k. cnt k s) mx ops \<Longrightarrow>
   good (foldl (apply_op up down) s ops) \<and> has k (foldl (apply_op up down) s ops) = has k s \<and>
   cnt k (foldl (apply_op up down) s ops) = cnt k s + net k ops"
proof (induction ops arbitrary: s)
  case (Cons x ops)
  have n: "net k (x # ops) = net k [x] + net k ops"
    by (cases x) auto
  note w = within_Cons [OF Cons.prems(1) _ Cons.prems(3)]
  have h: "\<forall>y \<in> set ops. has (op_key y) (apply_op up down s x)"
    using Cons.prems w(2) by auto
  show ?case
    using Cons.IH [OF w(1) h w(4)] w(2,3) n Cons.prems(2) by (simp add: add.assoc)
qed simp

lemma run_ops_on:
  "good s \<Longrightarrow> \<forall>x \<in> set ops. has (op_key x) s \<Longrightarrow> counts_within (\<lambda>k. cnt k s) mx ops \<Longrightarrow> has k s \<Longrightarrow>
   on k (foldl (apply_op up down) s ops) \<longleftrightarrow> 0 < cnt k s + net k ops"
  using run_ops on_cnt by metis

end

section \<open>Queues\<close>

text \<open>
  A queue with a single interface: \<open>put x\<close> takes a value in or refuses it, \<open>get\<close> gives one out if there is one. A run of
  operations, \<open>Some x\<close> to put \<open>x\<close> and \<open>None\<close> to get: the values taken in, the values given out, the state.
\<close>

fun fifo_run :: "('a \<Rightarrow> 's \<Rightarrow> bool \<times> 's) \<Rightarrow> ('s \<Rightarrow> 'a option \<times> 's) \<Rightarrow> 'a option list \<Rightarrow> 's \<Rightarrow> 'a list \<times> 'a list \<times> 's" where
  "fifo_run put get [] s = ([], [], s)"
| "fifo_run put get (Some x # ops) s =
     (case put x s of (b, s1) \<Rightarrow> case fifo_run put get ops s1 of
        (ins, outs, s2) \<Rightarrow> (if b then x # ins else ins, outs, s2))"
| "fifo_run put get (None # ops) s =
     (case get s of (r, s1) \<Rightarrow> case fifo_run put get ops s1 of
        (ins, outs, s2) \<Rightarrow> (ins, (case r of None \<Rightarrow> outs | Some x \<Rightarrow> x # outs), s2))"

text \<open>What a put relies on holds at every put of the run.\<close>

fun fifo_ok :: "('a \<Rightarrow> 's \<Rightarrow> bool) \<Rightarrow> ('a \<Rightarrow> 's \<Rightarrow> bool \<times> 's) \<Rightarrow> ('s \<Rightarrow> 'a option \<times> 's) \<Rightarrow> 'a option list \<Rightarrow> 's \<Rightarrow> bool" where
  "fifo_ok ok put get [] s = True"
| "fifo_ok ok put get (Some x # ops) s = (ok x s \<and> fifo_ok ok put get ops (snd (put x s)))"
| "fifo_ok ok put get (None # ops) s = fifo_ok ok put get ops (snd (get s))"

locale fifo =
  fixes holds :: "'s \<Rightarrow> 'a list \<Rightarrow> bool" and ok :: "'a \<Rightarrow> 's \<Rightarrow> bool"
    and put :: "'a \<Rightarrow> 's \<Rightarrow> bool \<times> 's" and get :: "'s \<Rightarrow> 'a option \<times> 's"
  assumes put: "holds s xs \<Longrightarrow> ok x s \<Longrightarrow> put x s = (b, s') \<Longrightarrow> holds s' (if b then xs @ [x] else xs)"
    and get: "holds s (x # xs) \<Longrightarrow> get s = (r, s') \<Longrightarrow> r = Some x \<and> holds s' xs"
    and get_empty: "holds s [] \<Longrightarrow> get s = (r, s') \<Longrightarrow> r = None \<and> holds s' []"
begin

text \<open>First in, first out: what was there and what was taken in is what was given out and what is left, in order.\<close>

lemma run_fifo:
  "holds s xs \<Longrightarrow> fifo_ok ok put get ops s \<Longrightarrow> fifo_run put get ops s = (ins, outs, s') \<Longrightarrow>
   \<exists>ys. xs @ ins = outs @ ys \<and> holds s' ys"
proof (induction ops arbitrary: s xs ins outs)
  case (Cons op ops)
  show ?case
  proof (cases op)
    case (Some x)
    obtain b s1 where p: "put x s = (b, s1)" by fastforce
    obtain ins1 where r: "fifo_run put get ops s1 = (ins1, outs, s')" "ins = (if b then x # ins1 else ins1)"
      using Cons.prems(3) Some p by (auto split: prod.splits)
    have "holds s1 (if b then xs @ [x] else xs)"
      using put [OF _ _ p] Cons.prems(1,2) Some by auto
    from Cons.IH [OF this _ r(1)] obtain ys
      where "(if b then xs @ [x] else xs) @ ins1 = outs @ ys" "holds s' ys"
      using Cons.prems(2) Some p by auto
    with r show ?thesis by (auto split: if_splits)
  next
    case None
    obtain v s1 where g: "get s = (v, s1)" by fastforce
    obtain outs1 where r: "fifo_run put get ops s1 = (ins, outs1, s')" "outs = (case v of None \<Rightarrow> outs1 | Some x \<Rightarrow> x # outs1)"
      using Cons.prems(3) None g by (auto split: prod.splits)
    have ok1: "fifo_ok ok put get ops s1"
      using Cons.prems(2) None g by simp
    show ?thesis
    proof (cases xs)
      case Nil
      then have v: "v = None" "holds s1 []"
        using get_empty g Cons.prems(1) by auto
      with Cons.IH [OF v(2) ok1 r(1)] Nil r(2) show ?thesis by auto
    next
      case xs: (Cons x xs')
      then have v: "v = Some x" "holds s1 xs'"
        using get g Cons.prems(1) by auto
      with Cons.IH [OF v(2) ok1 r(1)] xs r(2) show ?thesis by auto
    qed
  qed
qed auto

end

text \<open>A queue that can be closed: from then on it neither takes a value in nor gives one out.\<close>

locale closable_fifo = fifo +
  fixes shut and closed
  assumes shut: "holds s xs \<Longrightarrow> closed (shut s)"
    and closed_put: "closed s \<Longrightarrow> ok x s \<Longrightarrow> put x s = (b, s') \<Longrightarrow> \<not> b \<and> closed s'"
    and closed_get: "closed s \<Longrightarrow> get s = (r, s') \<Longrightarrow> r = None \<and> closed s'"
begin

lemma closed_run:
  "closed s \<Longrightarrow> fifo_ok ok put get ops s \<Longrightarrow> fifo_run put get ops s = (ins, outs, s') \<Longrightarrow> ins = [] \<and> outs = [] \<and> closed s'"
proof (induction ops arbitrary: s ins outs)
  case (Cons op ops)
  show ?case
  proof (cases op)
    case (Some x)
    obtain b s1 where p: "put x s = (b, s1)" by fastforce
    with closed_put [OF Cons.prems(1) _ p] Cons.prems(2,3) Cons.IH Some show ?thesis
      by (fastforce split: prod.splits)
  next
    case None
    obtain v s1 where g: "get s = (v, s1)" by fastforce
    with closed_get [OF Cons.prems(1) g] Cons.prems(2,3) Cons.IH None show ?thesis
      by (fastforce split: prod.splits)
  qed
qed auto

lemma shut_run:
  "holds s xs \<Longrightarrow> fifo_ok ok put get ops (shut s) \<Longrightarrow> fifo_run put get ops (shut s) = (ins, outs, s') \<Longrightarrow> ins = [] \<and> outs = []"
  using closed_run shut by blast

end

end
