(* ===== verification/World.thy ===== *)
theory World
  imports Prelude Complex_Main
begin

text \<open>
  The world the program runs in. Every call that leaves the code under \<open>src/\<close> (system calls,
  pthread operations, the allocator, the prebuilt BSC library \<open>libalgobmc.a\<close>) is an \<open>event\<close>.
  What such a call answers is not ours to define: \<open>env\<close> is a parameter that maps the trace of
  all earlier calls and the call itself to a \<open>reply\<close>, so a theorem over an arbitrary \<open>env\<close>
  holds for every behaviour of the operating system and of the library. The trace \<open>tr\<close>
  records every call, the most recent first. \<open>ub\<close> is set when the code would execute undefined
  behaviour (a null or dangling dereference, an access out of bounds). \<open>fl\<close> is the rounding
  of a real result to a C \<open>float\<close>.
\<close>

datatype oflag = O_RDONLY | O_WRONLY | O_RDWR | O_CREAT | O_TRUNC | O_APPEND | O_NONBLOCK | O_SYNC

datatype lock = L_sp nat | L_ch nat | L_hw nat | L_algo_ref | L_fifo | L_display | L_msgq | L_timer
  | L_init_sensors | L_init_modules | L_queue | L_light_wrapper | L_light | L_ni nat | L_camera

datatype path_op = P_access | P_unlink | P_mkfifo | P_mkdir | P_stat | P_chmod nat | P_readlink nat
  | P_open "oflag list"

datatype fd_op = F_close | F_read nat | F_write string | F_lseek_set | F_lseek_end | F_fsync
  | F_fchmod nat | F_ioctl_name nat | F_unlock nat

datatype time_op = T_gettimeofday | T_clock_gettime | T_clock_getres | T_nanosleep int | T_sleep int

datatype thread_op = C_signal | C_broadcast | C_wait | C_timedwait int int
  | C_init | C_destroy | M_init | M_destroy | A_init | A_destroy | Th_create | Th_join

datatype proc_op = Pr_getpid | Pr_exit int | Pr_sync | Pr_printf | Pr_sigaction nat | Pr_sigaltstack
  | Pr_poll "int list" | Pr_malloc nat | Pr_free nat

datatype event =
    E_path path_op string
  | E_fd fd_op int
  | E_time time_op
  | E_thread thread_op nat
  | E_proc proc_op
  | E_lock lock
  | E_unlock lock
  | E_hook string "int list"
  | E_bsc string "int list" "rat list"

abbreviation "E_open p fs \<equiv> E_path (P_open fs) p"
abbreviation "E_access p \<equiv> E_path P_access p"
abbreviation "E_unlink p \<equiv> E_path P_unlink p"
abbreviation "E_mkfifo p \<equiv> E_path P_mkfifo p"
abbreviation "E_mkdir p \<equiv> E_path P_mkdir p"
abbreviation "E_stat p \<equiv> E_path P_stat p"
abbreviation "E_chmod p m \<equiv> E_path (P_chmod m) p"
abbreviation "E_readlink p n \<equiv> E_path (P_readlink n) p"
abbreviation "E_close fd \<equiv> E_fd F_close fd"
abbreviation "E_read fd n \<equiv> E_fd (F_read n) fd"
abbreviation "E_write fd bs \<equiv> E_fd (F_write bs) fd"
abbreviation "E_lseek_set fd \<equiv> E_fd F_lseek_set fd"
abbreviation "E_lseek_end fd \<equiv> E_fd F_lseek_end fd"
abbreviation "E_fsync fd \<equiv> E_fd F_fsync fd"
abbreviation "E_fchmod fd m \<equiv> E_fd (F_fchmod m) fd"
abbreviation "E_exit x \<equiv> E_proc (Pr_exit x)"
abbreviation "E_getpid \<equiv> E_proc Pr_getpid"
abbreviation "E_malloc n \<equiv> E_proc (Pr_malloc n)"
abbreviation "E_free a \<equiv> E_proc (Pr_free a)"

text \<open>
  A reply: the returned value, \<open>errno\<close>, the bytes put into the caller's buffer, and the numbers
  (integers, floats) put into the caller's variables.
\<close>

record reply =
  rv :: int
  rerr :: int
  rbuf :: string
  rnum :: "int list"
  rflt :: "rat list"

record world =
  env :: "event list \<Rightarrow> event \<Rightarrow> reply"
  tr :: "event list"
  ub :: bool
  fl :: "rat \<Rightarrow> rat"

text \<open>The \<open>i\<close>-th number of a reply.\<close>

definition num :: "reply \<Rightarrow> nat \<Rightarrow> int" where
  "num r i = (if i < length (rnum r) then rnum r ! i else 0)"

definition call :: "event \<Rightarrow> ('a world_scheme, reply) state" where
  "call e = State (\<lambda>s. (env s (tr s) e, s\<lparr>tr := e # tr s\<rparr>))"

text \<open>A call whose answer the code does not look at.\<close>

definition emit :: "event \<Rightarrow> ('a world_scheme, unit) state" where
  "emit e = State (\<lambda>s. ((), s\<lparr>tr := e # tr s\<rparr>))"

text \<open>A condition the code relies on without checking it: its failure is undefined behaviour.\<close>

definition must :: "bool \<Rightarrow> ('a world_scheme, unit) state" where
  "must b = State (\<lambda>s. ((), if b then s else s\<lparr>ub := True\<rparr>))"

lemma run_call [simp, run_simps]:
  "run_state (call e) s = (env s (tr s) e, s\<lparr>tr := e # tr s\<rparr>)"
  by (simp add: call_def)

lemma run_emit [simp, run_simps]: "run_state (emit e) s = ((), s\<lparr>tr := e # tr s\<rparr>)"
  by (simp add: emit_def)

lemma run_must [simp, run_simps]:
  "run_state (must b) s = ((), if b then s else s\<lparr>ub := True\<rparr>)"
  by (simp add: must_def)

lemma keeps_call [keeps_rules]: "(\<And>s. I s \<Longrightarrow> I (s\<lparr>tr := e # tr s\<rparr>)) \<Longrightarrow> keeps I (call e)"
  by (simp add: keeps_def)

lemma keeps_emit [keeps_rules]: "(\<And>s. I s \<Longrightarrow> I (s\<lparr>tr := e # tr s\<rparr>)) \<Longrightarrow> keeps I (emit e)"
  by (simp add: keeps_def)

lemma keeps_must [keeps_rules]: "(\<And>s. I s \<Longrightarrow> b \<or> I (s\<lparr>ub := True\<rparr>)) \<Longrightarrow> keeps I (must b)"
  by (auto simp: keeps_def)

text \<open>The calls of the trace, in the order they were made.\<close>

definition events :: "'a world_scheme \<Rightarrow> event list" where
  "events s = rev (tr s)"

text \<open>
  \<open>grows m\<close>: running \<open>m\<close> only adds calls to the trace, in front, and never changes the
  oracle or the rounding function. Every program of the model does.
\<close>

definition grows :: "('a world_scheme, 'b) state \<Rightarrow> bool" where
  "grows m \<longleftrightarrow> (\<forall>s. (\<exists>es. tr (snd (run_state m s)) = es @ tr s) \<and>
     env (snd (run_state m s)) = env s \<and> fl (snd (run_state m s)) = fl s)"

lemma grows_env [simp]: "grows m \<Longrightarrow> env (snd (run_state m s)) = env s"
  by (simp add: grows_def)

lemma growsE:
  assumes "grows m" "run_state m s = (a, s')"
  obtains es where "tr s' = es @ tr s"
  using assms by (metis grows_def snd_conv)

named_theorems grows_rules

lemma grows_ret [grows_rules]: "grows (ret x)"
  by (simp add: grows_def)

lemma grows_gets [grows_rules]: "grows (gets f)"
  by (simp add: grows_def)

lemma grows_modify [grows_rules]:
  "(\<And>s. tr (f s) = tr s \<and> env (f s) = env s \<and> fl (f s) = fl s) \<Longrightarrow> grows (modify f)"
  by (simp add: grows_def)

lemma grows_call [grows_rules]: "grows (call e)"
  by (simp add: grows_def)

lemma grows_emit [grows_rules]: "grows (emit e)"
  by (simp add: grows_def)

lemma grows_must [grows_rules]: "grows (must b)"
  by (simp add: grows_def)

lemma grows_bind [grows_rules]:
  assumes "grows m" "\<And>a. grows (f a)"
  shows "grows (State_Monad.bind m f)"
proof -
  have "\<exists>es. tr (snd (run_state (State_Monad.bind m f) s)) = es @ tr s"
    and "env (snd (run_state (State_Monad.bind m f) s)) = env s"
    and "fl (snd (run_state (State_Monad.bind m f) s)) = fl s" for s
  proof -
    obtain a s1 where 1: "run_state m s = (a, s1)" by fastforce
    obtain b s2 where 2: "run_state (f a) s1 = (b, s2)" by fastforce
    obtain es1 where e1: "tr s1 = es1 @ tr s" "env s1 = env s" "fl s1 = fl s"
      using assms(1) 1 by (metis grows_def snd_conv)
    obtain es2 where e2: "tr s2 = es2 @ tr s1" "env s2 = env s1" "fl s2 = fl s1"
      using assms(2) 2 by (metis grows_def snd_conv)
    show "\<exists>es. tr (snd (run_state (State_Monad.bind m f) s)) = es @ tr s"
      using 1 2 e1 e2 by (intro exI [of _ "es2 @ es1"]) simp
    show "env (snd (run_state (State_Monad.bind m f) s)) = env s"
      and "fl (snd (run_state (State_Monad.bind m f) s)) = fl s"
      using 1 2 e1 e2 by simp_all
  qed
  then show ?thesis by (simp add: grows_def)
qed

lemma grows_if [grows_rules]: "(b \<Longrightarrow> grows m) \<Longrightarrow> (\<not> b \<Longrightarrow> grows m') \<Longrightarrow> grows (if b then m else m')"
  by simp

lemma grows_Let [grows_rules]: "(\<And>x. grows (f x)) \<Longrightarrow> grows (Let a f)"
  by simp

lemma grows_case_option [grows_rules]:
  "grows m \<Longrightarrow> (\<And>y. grows (f y)) \<Longrightarrow> grows (case x of None \<Rightarrow> m | Some y \<Rightarrow> f y)"
  by (cases x) auto

lemma grows_case_prod [grows_rules]:
  "(\<And>a b. grows (f a b)) \<Longrightarrow> grows (case x of (a, b) \<Rightarrow> f a b)"
  by (cases x) auto

lemma grows_for_each [grows_rules]: "(\<And>x. grows (f x)) \<Longrightarrow> grows (for_each xs f)"
  by (induction xs) (auto intro!: grows_rules)

section \<open>The lock discipline of a trace\<close>

text \<open>
  The order in which the daemon takes its locks when it holds several: the display lock, those of the providers, of the
  channels, of the devices, and those that nothing is locked under.
\<close>

fun lock_rank :: "lock \<Rightarrow> nat \<times> nat" where
  "lock_rank L_display = (0, 0)"
| "lock_rank (L_sp n) = (1, n)"
| "lock_rank (L_ch n) = (2, n)"
| "lock_rank (L_hw n) = (3, n)"
| "lock_rank L_algo_ref = (4, 0)"
| "lock_rank L_fifo = (5, 0)"
| "lock_rank L_msgq = (6, 0)"
| "lock_rank L_timer = (7, 0)"
| "lock_rank L_init_sensors = (8, 0)"
| "lock_rank L_init_modules = (9, 0)"
| "lock_rank L_queue = (10, 0)"
| "lock_rank L_light_wrapper = (11, 0)"
| "lock_rank L_light = (12, 0)"
| "lock_rank (L_ni n) = (13, n)"
| "lock_rank L_camera = (14, 0)"

lemma lock_rank_inj: "lock_rank l = lock_rank m \<longleftrightarrow> l = m"
  by (cases l; cases m) auto

instantiation lock :: linorder
begin

definition less_lock :: "lock \<Rightarrow> lock \<Rightarrow> bool" where
  "less_lock l m \<longleftrightarrow> fst (lock_rank l) < fst (lock_rank m) \<or>
     fst (lock_rank l) = fst (lock_rank m) \<and> snd (lock_rank l) < snd (lock_rank m)"

definition less_eq_lock :: "lock \<Rightarrow> lock \<Rightarrow> bool" where
  "less_eq_lock l m \<longleftrightarrow> l < m \<or> l = (m :: lock)"

instance
proof
  fix l m n :: lock
  show "l < m \<longleftrightarrow> l \<le> m \<and> \<not> m \<le> l"
    by (auto simp: less_eq_lock_def less_lock_def)
  show "l \<le> m \<or> m \<le> l"
    using lock_rank_inj [of l m] by (auto simp: less_eq_lock_def less_lock_def prod_eq_iff)
qed (auto simp: less_eq_lock_def less_lock_def)

end

text \<open>
  \<open>held es\<close>: the locks held after the calls \<open>es\<close> (in the order made), starting with \<open>ls\<close>;
  \<open>None\<close> when a lock is taken that is not above all those held, or released without being the last one taken.
\<close>

definition hold :: "lock list \<Rightarrow> event \<Rightarrow> lock list option" where
  "hold ls e = (case e of
       E_lock l \<Rightarrow> if \<forall>m \<in> set ls. m < l then Some (l # ls) else None
     | E_unlock l \<Rightarrow> (case ls of [] \<Rightarrow> None | l' # ls' \<Rightarrow> if l = l' then Some ls' else None)
     | _ \<Rightarrow> Some ls)"

primrec held :: "lock list \<Rightarrow> event list \<Rightarrow> lock list option" where
  "held ls [] = Some ls"
| "held ls (e # es) = (case hold ls e of None \<Rightarrow> None | Some ls' \<Rightarrow> held ls' es)"

lemma held_append:
  "held ls (es @ es') = (case held ls es of None \<Rightarrow> None | Some ls' \<Rightarrow> held ls' es')"
  by (induction es arbitrary: ls) (auto split: option.splits)

text \<open>
  \<open>lockt ls m ls'\<close>: a thread that holds the locks \<open>ls\<close> (the innermost first) and runs \<open>m\<close> never takes
  a lock that is not above all it has nor releases one that is not its innermost, and ends holding \<open>ls'\<close>.
\<close>

definition lockt :: "lock list \<Rightarrow> ('a world_scheme, 'b) state \<Rightarrow> lock list \<Rightarrow> bool" where
  "lockt ls m ls' \<longleftrightarrow> (\<forall>s. \<exists>es. tr (snd (run_state m s)) = es @ tr s \<and> held ls (rev es) = Some ls')"

named_theorems lock_rules

lemma lockt_run:
  "lockt ls m ls' \<Longrightarrow> run_state m s = (a, s') \<Longrightarrow> \<exists>es. tr s' = es @ tr s \<and> held ls (rev es) = Some ls'"
  by (metis lockt_def snd_conv)

lemma lockt_silent: "(\<And>s. tr (snd (run_state m s)) = tr s) \<Longrightarrow> lockt ls m ls"
  by (simp add: lockt_def)

lemma lockt_ret [lock_rules]: "lockt ls (ret x) ls"
  by (simp add: lockt_silent)

lemma lockt_gets [lock_rules]: "lockt ls (gets f) ls"
  by (simp add: lockt_silent)

lemma lockt_must [lock_rules]: "lockt ls (must b) ls"
  by (simp add: lockt_silent)

lemma lockt_modify [lock_rules]: "(\<And>s. tr (f s) = tr s) \<Longrightarrow> lockt ls (modify f) ls"
  by (simp add: lockt_silent)

lemma lockt_bind [lock_rules]:
  assumes "lockt ls m ls1" "\<And>a. lockt ls1 (f a) ls2"
  shows "lockt ls (State_Monad.bind m f) ls2"
  unfolding lockt_def
proof
  fix s
  obtain a s1 where 1: "run_state m s = (a, s1)" by fastforce
  obtain b s2 where 2: "run_state (f a) s1 = (b, s2)" by fastforce
  obtain es1 where e1: "tr s1 = es1 @ tr s" "held ls (rev es1) = Some ls1"
    using lockt_run [OF assms(1) 1] by blast
  obtain es2 where e2: "tr s2 = es2 @ tr s1" "held ls1 (rev es2) = Some ls2"
    using lockt_run [OF assms(2) 2] by blast
  show "\<exists>es. tr (snd (run_state (State_Monad.bind m f) s)) = es @ tr s \<and> held ls (rev es) = Some ls2"
    using 1 2 e1 e2 by (intro exI [of _ "es2 @ es1"]) (simp add: held_append)
qed

lemma lockt_if [lock_rules]:
  "(b \<Longrightarrow> lockt ls m ls') \<Longrightarrow> (\<not> b \<Longrightarrow> lockt ls m' ls') \<Longrightarrow> lockt ls (if b then m else m') ls'"
  by simp

lemma lockt_Let [lock_rules]: "(\<And>x. lockt ls (f x) ls') \<Longrightarrow> lockt ls (Let a f) ls'"
  by simp

lemma lockt_case_option [lock_rules]:
  "lockt ls m ls' \<Longrightarrow> (\<And>y. x = Some y \<Longrightarrow> lockt ls (f y) ls') \<Longrightarrow> lockt ls (case x of None \<Rightarrow> m | Some y \<Rightarrow> f y) ls'"
  by (cases x) auto

lemma lockt_case_prod [lock_rules]:
  "(\<And>a b. lockt ls (f a b) ls') \<Longrightarrow> lockt ls (case x of (a, b) \<Rightarrow> f a b) ls'"
  by (cases x) auto

lemma lockt_for_each [lock_rules]: "(\<And>x. lockt ls (f x) ls) \<Longrightarrow> lockt ls (for_each xs f) ls"
  by (induction xs) (auto intro!: lock_rules)

lemma lockt_take [lock_rules]: "\<forall>m \<in> set ls. m < l \<Longrightarrow> lockt ls (emit (E_lock l)) (l # ls)"
  by (auto simp: lockt_def hold_def)

lemma lockt_release [lock_rules]: "lockt (l # ls) (emit (E_unlock l)) ls"
  by (auto simp: lockt_def hold_def)

definition locks_nothing :: "event \<Rightarrow> bool" where
  "locks_nothing e = (case e of E_lock l \<Rightarrow> False | E_unlock l \<Rightarrow> False | _ \<Rightarrow> True)"

lemma locks_nothing_simps [simp]:
  "locks_nothing (E_path p x)" "locks_nothing (E_fd f fd)" "locks_nothing (E_time t)"
  "locks_nothing (E_thread h n)" "locks_nothing (E_proc q)" "locks_nothing (E_hook y ns)"
  "locks_nothing (E_bsc y ns qs)" "\<not> locks_nothing (E_lock l)" "\<not> locks_nothing (E_unlock l)"
  by (simp_all add: locks_nothing_def)

lemma hold_nothing [simp]: "locks_nothing e \<Longrightarrow> hold ls e = Some ls"
  by (auto simp: hold_def locks_nothing_def split: event.splits)

lemma lockt_call [lock_rules]: "locks_nothing e \<Longrightarrow> lockt ls (call e) ls"
  by (auto simp: lockt_def)

lemma lockt_emit [lock_rules]: "locks_nothing e \<Longrightarrow> lockt ls (emit e) ls"
  by (auto simp: lockt_def)

end
