(* ===== verification/C_Strings.thy ===== *)
theory C_Strings
  imports Prelude Complex_Main
begin

text \<open>
  The C library's text conversions the code uses: \<open>sprintf\<close> of \<open>%d\<close> and \<open>sscanf\<close> of
  integers, characters, words and literals. A C string is a \<open>string\<close> without its final NUL; a
  buffer that may hold bytes after a NUL is read through \<open>cstr\<close>.
\<close>

section \<open>Digits\<close>

definition digit_chr :: "nat \<Rightarrow> char" where
  "digit_chr d = char_of (48 + d)"

definition is_digit :: "char \<Rightarrow> bool" where
  "is_digit c \<longleftrightarrow> 48 \<le> (of_char c :: nat) \<and> (of_char c :: nat) \<le> 57"

definition digit_val :: "char \<Rightarrow> nat" where
  "digit_val c = of_char c - 48"

lemma of_char_digit: "d < 10 \<Longrightarrow> (of_char (digit_chr d) :: nat) = 48 + d"
  by (simp add: digit_chr_def)

lemma is_digit_chr [simp]: "d < 10 \<Longrightarrow> is_digit (digit_chr d)"
  by (simp add: is_digit_def of_char_digit)

lemma digit_val_chr [simp]: "d < 10 \<Longrightarrow> digit_val (digit_chr d) = d"
  by (simp add: digit_val_def of_char_digit)

section \<open>Printing integers\<close>

fun nat_str :: "nat \<Rightarrow> string" where
  "nat_str n = (if n < 10 then [digit_chr n] else nat_str (n div 10) @ [digit_chr (n mod 10)])"

declare nat_str.simps [simp del]

text \<open>\<open>sprintf(buf, "%d", x)\<close>\<close>

definition int_str :: "int \<Rightarrow> string" where
  "int_str x = (if x < 0 then CHR ''-'' # nat_str (nat (- x)) else nat_str (nat x))"

lemma nat_str_digits: "\<forall>c \<in> set (nat_str n). is_digit c"
proof (induction n rule: nat_str.induct)
  case (1 n)
  then show ?case by (cases "n < 10") (auto simp: nat_str.simps [of n])
qed

lemma nat_str_nonempty [simp]: "nat_str n \<noteq> []"
  by (subst nat_str.simps) simp

lemma nat_str_pos: "0 < length (nat_str n)"
  by simp

lemma nat_str_length: "n < 10 ^ k \<Longrightarrow> 0 < k \<Longrightarrow> length (nat_str n) \<le> k"
proof (induction n arbitrary: k rule: nat_str.induct)
  case (1 n)
  show ?case
  proof (cases "n < 10")
    case True
    with "1.prems" show ?thesis by (subst nat_str.simps) simp
  next
    case False
    then obtain j where k: "k = Suc j" "0 < j"
      using "1.prems" by (cases k; cases "k - 1") auto
    with "1.prems" have "n div 10 < 10 ^ j"
      by (simp add: less_mult_imp_div_less mult.commute)
    with "1.IH" False k have "length (nat_str (n div 10)) \<le> j" by blast
    with False k show ?thesis by (subst nat_str.simps) simp
  qed
qed

text \<open>Every 32-bit value prints in at most 11 characters, the width \<open>%11d\<close> reads.\<close>

lemma int_str_length:
  assumes "- (2 ^ 31) \<le> x" "x < 2 ^ 31"
  shows "length (int_str x) \<le> 11"
proof -
  have "length (nat_str (nat (- x))) \<le> 10" "length (nat_str (nat x)) \<le> 10"
    using assms by (auto intro!: nat_str_length)
  then show ?thesis by (simp add: int_str_def)
qed

section \<open>Scanning\<close>

definition is_space :: "char \<Rightarrow> bool" where
  "is_space c \<longleftrightarrow> (let n = (of_char c :: nat) in n = 32 \<or> 9 \<le> n \<and> n \<le> 13)"

definition cstr :: "string \<Rightarrow> string" where
  "cstr = takeWhile (\<lambda>c. c \<noteq> CHR 0x00)"

lemma cstr_append_nul: "CHR 0x00 \<notin> set t \<Longrightarrow> cstr (t @ CHR 0x00 # r) = t"
  by (induction t) (auto simp: cstr_def)

lemma cstr_no_nul: "CHR 0x00 \<notin> set t \<Longrightarrow> cstr t = t"
  by (induction t) (auto simp: cstr_def)

text \<open>The longest run of digits of at most \<open>w\<close> characters, and its value.\<close>

fun scan_digits :: "nat \<Rightarrow> nat \<Rightarrow> string \<Rightarrow> nat \<times> string" where
  "scan_digits 0 acc s = (acc, s)"
| "scan_digits (Suc w) acc [] = (acc, [])"
| "scan_digits (Suc w) acc (c # s) =
     (if is_digit c then scan_digits w (10 * acc + digit_val c) s else (acc, c # s))"

text \<open>One \<open>%wd\<close>: white space, a sign that counts in the width, at least one digit.\<close>

definition scan_d :: "nat \<Rightarrow> string \<Rightarrow> (int \<times> string) option" where
  "scan_d w s =
     (case dropWhile is_space s of
        [] \<Rightarrow> None
      | c # t \<Rightarrow>
          if c = CHR ''-'' \<or> c = CHR ''+'' then
            (case t of
               d # _ \<Rightarrow>
                 if is_digit d \<and> 1 < w then
                   (let (n, r) = scan_digits (w - 1) 0 t
                    in Some (swrap 32 (if c = CHR ''-'' then - int n else int n), r))
                 else None
             | [] \<Rightarrow> None)
          else if is_digit c \<and> 0 < w then
            (let (n, r) = scan_digits w 0 (c # t) in Some (swrap 32 (int n), r))
          else None)"

text \<open>
  \<open>%wf\<close>: an optional sign, digits with an optional point, and an optional exponent, in at most \<open>w\<close>
  characters after the blanks (the hexadecimal forms, infinities and NaNs of \<open>strtod\<close> are not
  recognised). The rational is the number written; the \<open>float\<close> is its rounding.
\<close>

definition take_sign :: "string \<Rightarrow> rat \<times> string" where
  "take_sign s = (case s of [] \<Rightarrow> (1, [])
     | c # t \<Rightarrow> if c = CHR ''-'' then (- 1, t) else if c = CHR ''+'' then (1, t) else (1, s))"

definition digits_val :: "string \<Rightarrow> rat" where
  "digits_val ds = of_nat (fold (\<lambda>d n. n * 10 + digit_val d) ds 0)"

definition take_frac :: "string \<Rightarrow> string \<times> string" where
  "take_frac s = (case s of [] \<Rightarrow> ([], [])
     | c # t \<Rightarrow> if c = CHR ''.'' then (takeWhile is_digit t, dropWhile is_digit t) else ([], s))"

definition take_exp :: "string \<Rightarrow> rat \<times> string" where
  "take_exp s = (case s of [] \<Rightarrow> (1, [])
     | c # t \<Rightarrow>
         if c = CHR ''e'' \<or> c = CHR ''E'' then
           (let (sg, u) = take_sign t; ds = takeWhile is_digit u; n = nat (floor (digits_val ds))
            in if ds = [] then (1, s)
               else (if sg < 0 then 1 / 10 ^ n else 10 ^ n, drop (length ds) u))
         else (1, s))"

definition scan_f :: "nat \<Rightarrow> string \<Rightarrow> (rat \<times> string) option" where
  "scan_f w s =
     (let t = dropWhile is_space s; (sg, u) = take_sign (take w t); ip = takeWhile is_digit u;
          (fp, v) = take_frac (drop (length ip) u); (e, r) = take_exp v
      in if ip = [] \<and> fp = [] then None
         else Some (sg * (digits_val ip + digits_val fp / 10 ^ length fp) * e, r @ drop w t))"

text \<open>
  A format of \<open>sscanf\<close>: \<open>F_d w\<close> is \<open>%wd\<close>, \<open>F_f w\<close> is \<open>%wf\<close>, \<open>F_c\<close> is \<open>%c\<close>, \<open>F_s w\<close> is \<open>%ws\<close>,
  \<open>F_ws\<close> a blank, \<open>F_lit c\<close> any other character. The result is the list of converted values
  (its length is what \<open>sscanf\<close> returns, 0 standing for 0 or \<open>EOF\<close>).
\<close>

datatype fmt = F_d nat | F_f nat | F_c | F_s nat | F_ws | F_lit char

datatype fval = V_d int | V_f rat | V_c char | V_s string

fun sscanf :: "fmt list \<Rightarrow> string \<Rightarrow> fval list" where
  "sscanf [] s = []"
| "sscanf (F_ws # fs) s = sscanf fs (dropWhile is_space s)"
| "sscanf (F_lit c # fs) s = (case s of [] \<Rightarrow> [] | d # t \<Rightarrow> if c = d then sscanf fs t else [])"
| "sscanf (F_c # fs) s = (case s of [] \<Rightarrow> [] | d # t \<Rightarrow> V_c d # sscanf fs t)"
| "sscanf (F_s w # fs) s =
     (let t = dropWhile is_space s; v = take w (takeWhile (\<lambda>c. \<not> is_space c) t)
      in if v = [] then [] else V_s v # sscanf fs (drop (length v) t))"
| "sscanf (F_d w # fs) s =
     (case scan_d w s of None \<Rightarrow> [] | Some (x, t) \<Rightarrow> V_d x # sscanf fs t)"
| "sscanf (F_f w # fs) s =
     (case scan_f w s of None \<Rightarrow> [] | Some (x, t) \<Rightarrow> V_f x # sscanf fs t)"

definition lits :: "string \<Rightarrow> fmt list" where
  "lits = map F_lit"

fun as_int :: "fval \<Rightarrow> int" where
  "as_int (V_d x) = x"
| "as_int _ = 0"

fun as_rat :: "fval \<Rightarrow> rat" where
  "as_rat (V_f x) = x"
| "as_rat _ = 0"

section \<open>Scanning undoes printing\<close>

lemma scan_digits_nat_str:
  assumes "length (nat_str n) \<le> w" "w = length (nat_str n) \<or> r = [] \<or> \<not> is_digit (hd r)"
  shows "scan_digits w acc (nat_str n @ r) = (acc * 10 ^ length (nat_str n) + n, r)"
  using assms
proof (induction n arbitrary: w r rule: nat_str.induct)
  case (1 n)
  show ?case
  proof (cases "n < 10")
    case True
    then have s: "nat_str n = [digit_chr n]" by (subst nat_str.simps) simp
    from "1.prems" s obtain w' where w: "w = Suc w'" by (cases w) auto
    have "scan_digits w' (10 * acc + n) r = (10 * acc + n, r)"
      using "1.prems"(2) s w by (cases w'; cases r) auto
    with True s w show ?thesis by (simp add: mult.commute)
  next
    case False
    have s: "nat_str n = nat_str (n div 10) @ [digit_chr (n mod 10)]"
      using False by (subst nat_str.simps) simp
    let ?m = "length (nat_str (n div 10))"
    have split: "scan_digits (?m + v) acc (nat_str (n div 10) @ t) =
        scan_digits v (acc * 10 ^ ?m + n div 10) t" for v t
    proof -
      have gen: "scan_digits (length ds + v) a (ds @ t) = scan_digits v (fst (scan_digits (length ds) a ds)) t"
        if "\<forall>c \<in> set ds. is_digit c" for ds a
        using that by (induction ds arbitrary: a) auto
      have "scan_digits ?m acc (nat_str (n div 10) @ []) = (acc * 10 ^ ?m + n div 10, [])"
        using "1.IH" False by blast
      with gen [OF nat_str_digits] show ?thesis by simp
    qed
    from "1.prems" s obtain v where w: "w = ?m + Suc v"
      by (metis Suc_le_eq add_Suc_right length_append_singleton less_iff_Suc_add)
    have "scan_digits v x r = (x, r)" for x
      using "1.prems"(2) s w by (cases v; cases r) auto
    moreover have "scan_digits w acc (nat_str n @ r) =
        scan_digits (Suc v) (acc * 10 ^ ?m + n div 10) ((digit_chr (n mod 10)) # r)"
      using s w split [of "Suc v" "(digit_chr (n mod 10)) # r"] by simp
    ultimately show ?thesis
      using s by (simp add: algebra_simps)
  qed
qed

lemma int_str_nonspace: "dropWhile is_space (int_str x @ r) = int_str x @ r"
proof -
  have "\<not> is_space (hd (int_str x))"
  proof (cases "x < 0")
    case True
    then show ?thesis by (simp add: int_str_def is_space_def)
  next
    case False
    then have "is_digit (hd (int_str x))"
      using nat_str_digits [of "nat x"] by (simp add: int_str_def hd_in_set)
    then show ?thesis by (auto simp: is_digit_def is_space_def Let_def)
  qed
  moreover have "int_str x \<noteq> []" by (simp add: int_str_def)
  ultimately show ?thesis by (cases "int_str x") auto
qed

lemma scan_int_str:
  assumes x: "- (2 ^ 31) \<le> x" "x < 2 ^ 31" and r: "r = [] \<or> \<not> is_digit (hd r)"
    and w: "length (int_str x) \<le> w"
  shows "scan_d w (int_str x @ r) = Some (x, r)"
proof (cases "x < 0")
  case True
  let ?n = "nat (- x)"
  have l: "length (nat_str ?n) \<le> w - 1" "1 < w"
    using w True nat_str_pos [of ?n] by (auto simp: int_str_def simp del: length_greater_0_conv)
  have "scan_digits (w - 1) 0 (nat_str ?n @ r) = (?n, r)"
    using scan_digits_nat_str [of ?n "w - 1" r 0] l r by auto
  moreover obtain d t where dt: "nat_str ?n = d # t" and "is_digit d"
    using nat_str_digits [of ?n] by (cases "nat_str ?n") auto
  ultimately show ?thesis
    using True l x int_str_nonspace [of x r] by (simp add: scan_d_def int_str_def)
next
  case False
  let ?n = "nat x"
  have l: "length (nat_str ?n) \<le> w" "0 < w"
    using w False nat_str_pos [of ?n] by (auto simp: int_str_def simp del: length_greater_0_conv)
  have "scan_digits w 0 (nat_str ?n @ r) = (?n, r)"
    using scan_digits_nat_str [of ?n w r 0] l r by auto
  moreover obtain d t where dt: "nat_str ?n = d # t" and d: "is_digit d"
    using nat_str_digits [of ?n] by (cases "nat_str ?n") auto
  moreover have "d \<noteq> CHR ''-''" "d \<noteq> CHR ''+''"
    using d by (auto simp: is_digit_def)
  ultimately show ?thesis
    using False l x int_str_nonspace [of x r] by (simp add: scan_d_def int_str_def)
qed

text \<open>\<open>strtol\<close> with base 10 and \<open>atoi\<close>; a \<open>long\<close> has 32 bits, and what is beyond it becomes its limit.\<close>

definition clamp_long :: "int \<Rightarrow> int" where
  "clamp_long x = max (- (2 ^ 31)) (min (2 ^ 31 - 1) x)"

definition atoi :: "string \<Rightarrow> int" where
  "atoi s = (let (sg, t) = take_sign (dropWhile is_space s); n = int (fst (scan_digits (length t) 0 t))
     in clamp_long (if sg < 0 then - n else n))"

lemma atoi_int_str:
  assumes x: "- (2 ^ 31) \<le> x" "x < 2 ^ 31" and r: "r = [] \<or> \<not> is_digit (hd r)"
  shows "atoi (int_str x @ r) = x"
proof (cases "x < 0")
  case True
  let ?n = "nat (- x)"
  have "scan_digits (length (nat_str ?n @ r)) 0 (nat_str ?n @ r) = (?n, r)"
    using scan_digits_nat_str [of ?n "length (nat_str ?n @ r)" r 0] r by auto
  then show ?thesis
    using True x int_str_nonspace [of x r] by (simp add: atoi_def int_str_def take_sign_def clamp_long_def)
next
  case False
  let ?n = "nat x"
  have "scan_digits (length (nat_str ?n @ r)) 0 (nat_str ?n @ r) = (?n, r)"
    using scan_digits_nat_str [of ?n "length (nat_str ?n @ r)" r 0] r by auto
  moreover obtain d t where dt: "nat_str ?n = d # t" and d: "is_digit d"
    using nat_str_digits [of ?n] by (cases "nat_str ?n") auto
  moreover have "d \<noteq> CHR ''-''" "d \<noteq> CHR ''+''"
    using d by (auto simp: is_digit_def)
  ultimately show ?thesis
    using False x int_str_nonspace [of x r] by (simp add: atoi_def int_str_def take_sign_def clamp_long_def)
qed

section \<open>Integers in memory\<close>

text \<open>A little-endian \<open>int32_t\<close> at an offset.\<close>

definition le32_at :: "string \<Rightarrow> nat \<Rightarrow> int" where
  "le32_at bs k = swrap 32 (of_char (bs ! k) + of_char (bs ! (k + 1)) * 2 ^ 8 +
     of_char (bs ! (k + 2)) * 2 ^ 16 + of_char (bs ! (k + 3)) * 2 ^ 24)"

text \<open>The four bytes of a 32-bit integer, the lowest first, and their value as an unsigned one.\<close>

definition le32 :: "int \<Rightarrow> string" where
  "le32 x = map (\<lambda>k. char_of (nat ((x div 256 ^ k) mod 256))) [0..<4]"

definition ule32_at :: "string \<Rightarrow> nat \<Rightarrow> int" where
  "ule32_at bs k = uwrap 32 (le32_at bs k)"

lemma length_le32 [simp]: "length (le32 x) = 4"
  by (simp add: le32_def)

lemma of_char_char_of_int: "0 \<le> x \<Longrightarrow> x < 256 \<Longrightarrow> (of_char (char_of (nat x)) :: int) = x"
  by (simp add: of_char_of take_bit_eq_mod flip: of_nat_of_char [where ?'a = int])

lemma swrap_bytes: "swrap n (x mod 2 ^ n) = swrap n x"
  by (simp add: swrap_def mod_simps)

lemma uwrap_swrap: "0 < n \<Longrightarrow> uwrap n (swrap n x) = uwrap n x"
  by (simp add: uwrap_def swrap_def mod_simps)

lemma mod_split: "0 \<le> a \<Longrightarrow> (x::int) mod (a * 256) = a * (x div a mod 256) + x mod a"
  using zmod_zmult2_eq [of 256 x a] by simp

lemma bytes_sum:
  "x mod 256 + (x div 256 mod 256) * 256 + (x div 65536 mod 256) * 65536 + (x div 16777216 mod 256) * 16777216
     = (x mod 4294967296 :: int)"
proof -
  have "x mod 4294967296 = 16777216 * (x div 16777216 mod 256) + x mod (16777216::int)"
    using mod_split [of 16777216 x] by (simp only: arith_simps)
  moreover have "x mod 16777216 = 65536 * (x div 65536 mod 256) + x mod (65536::int)"
    using mod_split [of 65536 x] by (simp only: arith_simps)
  moreover have "x mod 65536 = 256 * (x div 256 mod 256) + x mod (256::int)"
    using mod_split [of 256 x] by (simp only: arith_simps)
  ultimately show ?thesis
    by (simp only: mult.commute add.commute add.left_commute)
qed

lemma le32_at_cons:
  "le32_at (a # b # c # d # bs) 0 = swrap 32 (of_char a + of_char b * 256 + of_char c * 65536 + of_char d * 16777216)"
  by (simp add: le32_at_def)

lemma le32_bytes:
  "le32 x = [char_of (nat (x mod 256)), char_of (nat (x div 256 mod 256)), char_of (nat (x div 65536 mod 256)),
     char_of (nat (x div 16777216 mod 256))]"
  by (simp add: le32_def upt_rec)

lemma of_char_byte: "(of_char (char_of (nat (x mod 256))) :: int) = x mod 256"
  by (simp add: of_char_char_of_int)

lemma le32_roundtrip: "le32_at (le32 x @ bs) 0 = swrap 32 x"
proof -
  have "le32_at (le32 x @ bs) 0 = swrap 32 (x mod 4294967296)"
    by (simp only: le32_bytes append_Cons append_Nil le32_at_cons of_char_byte bytes_sum)
  then show ?thesis
    using swrap_bytes [of 32 x] by simp
qed

lemma ule32_roundtrip: "0 \<le> x \<Longrightarrow> x < 2 ^ 32 \<Longrightarrow> ule32_at (le32 x @ bs) 0 = x"
  by (simp add: ule32_at_def le32_roundtrip uwrap_swrap)

end
