(* ===== verification/Util_Misc.thy ===== *)
theory Util_Misc
  imports World C_Strings
begin

text \<open>
  \<open>sensors/daemon/src/lib/util_misc.c\<close>: token splitting, integers in text files, the singly
  linked list of \<open>struct list_node\<close>, and small integer routines. The nodes of a list live in a
  heap \<open>h\<close>: \<open>h a\<close> is the \<open>next\<close> pointer of the node at \<open>a\<close>, \<open>None\<close> is \<open>NULL\<close>.
\<close>

unbundle bit_operations_syntax

section \<open>Token pairs\<close>

text \<open>The first loop: the characters before the separator, and what follows it if it occurs.\<close>

fun token_loop :: "char \<Rightarrow> string \<Rightarrow> string \<times> string option" where
  "token_loop sep [] = ([], None)"
| "token_loop sep (c # s) =
     (if c = sep then ([], Some s)
      else (let (l, r) = token_loop sep s in (c # l, r)))"

definition get_token_pairs :: "string \<Rightarrow> char \<Rightarrow> string \<times> string" where
  "get_token_pairs psz_line seperator =
     (case token_loop seperator psz_line of
        (l, Some r) \<Rightarrow> (l, r)
      | (l, None) \<Rightarrow> (l, []))"

lemma token_loop_spec:
  "token_loop sep s = (takeWhile (\<lambda>c. c \<noteq> sep) s,
     if sep \<in> set s then Some (tl (dropWhile (\<lambda>c. c \<noteq> sep) s)) else None)"
  by (induction s) auto

section \<open>Integers in text files\<close>

text \<open>The result is the error code and the value stored through \<open>pvalue\<close>, if one is.\<close>

definition txt_file_read_int :: "int \<Rightarrow> bool \<Rightarrow> ('a world_scheme, int \<times> int option) state" where
  "txt_file_read_int fd rewind = do {
     (if rewind then emit (E_lseek_set fd) else ret ());
     r \<leftarrow> call (E_read fd 15);
     if 0 < rv r then
       (case sscanf [F_d 11] (cstr (take (nat (rv r)) (rbuf r))) of
          [v] \<Rightarrow> ret (0, Some (as_int v))
        | _ \<Rightarrow> ret (- EINVAL, None))
     else ret (- EIO, None)
   }"

definition txt_file_write_int :: "int \<Rightarrow> int \<Rightarrow> bool \<Rightarrow> bool \<Rightarrow> ('a world_scheme, int) state" where
  "txt_file_write_int fd value rewind nl = do {
     (if rewind then emit (E_lseek_set fd) else ret ());
     let buf = int_str value @ (if nl then [CHR 0x0A] else []);
     r \<leftarrow> call (E_write fd (buf @ [CHR 0x00]));
     if rv r \<le> 0 then ret (- 1) else ret 0
   }"

text \<open>
  Reading a file back: if the bytes \<open>read\<close> returns are those \<open>txt_file_write_int\<close> handed to
  \<open>write\<close> (at most 15 of them are asked for), the value read is the value written.
\<close>

lemma sscanf_written:
  assumes x: "- (2 ^ 31) \<le> x" "x < 2 ^ 31"
  shows "sscanf [F_d 11] (cstr (take 15 (int_str x @ (if nl then [CHR 0x0A] else []) @ [CHR 0x00]))) = [V_d x]"
proof -
  let ?sfx = "if nl then [CHR 0x0A] else []"
  have len: "length (int_str x) \<le> 11" using x by (rule int_str_length)
  then have "take 15 (int_str x @ ?sfx @ [CHR 0x00]) = (int_str x @ ?sfx) @ [CHR 0x00]"
    by (subst take_all) auto
  moreover have "CHR 0x00 \<notin> set (int_str x @ ?sfx)"
    using nat_str_digits [of "nat x"] nat_str_digits [of "nat (- x)"]
    by (auto simp: int_str_def is_digit_def split: if_splits)
  ultimately have "cstr (take 15 (int_str x @ ?sfx @ [CHR 0x00])) = int_str x @ ?sfx"
    using cstr_append_nul [of "int_str x @ ?sfx" "[]"] by simp
  moreover have "scan_d 11 (int_str x @ ?sfx) = Some (x, ?sfx)"
    by (rule scan_int_str) (use x len in \<open>auto simp: is_digit_def\<close>)
  ultimately show ?thesis by (simp only: sscanf.simps option.case prod.case)
qed

section \<open>The singly linked list\<close>

type_synonym lheap = "nat \<Rightarrow> nat option"

definition list_init :: "lheap \<Rightarrow> nat \<Rightarrow> lheap" where
  "list_init h head = h(head := None)"

definition list_add_head :: "lheap \<Rightarrow> nat option \<Rightarrow> nat \<Rightarrow> lheap" where
  "list_add_head h head new = h(new := head)"

text \<open>The loops run as long as the list: on a cyclic list they do not return (\<open>None\<close>).\<close>

partial_function (option) rear_loop :: "lheap \<Rightarrow> nat \<Rightarrow> nat option" where
  "rear_loop h cur = (case h cur of None \<Rightarrow> Some cur | Some n \<Rightarrow> rear_loop h n)"

definition list_add_rear :: "lheap \<Rightarrow> nat \<Rightarrow> nat \<Rightarrow> lheap option" where
  "list_add_rear h head new =
     (case rear_loop h head of None \<Rightarrow> None
      | Some cur \<Rightarrow> Some (h(cur := Some new, new := None)))"

partial_function (option) list_find_node :: "lheap \<Rightarrow> nat option \<Rightarrow> nat \<Rightarrow> nat option option" where
  "list_find_node h cur nod =
     (case cur of None \<Rightarrow> Some None
      | Some c \<Rightarrow> if c = nod then Some (Some c) else list_find_node h (h c) nod)"

partial_function (option) del_loop ::
  "lheap \<Rightarrow> nat option \<Rightarrow> nat option \<Rightarrow> nat option \<Rightarrow> nat \<Rightarrow> (nat option \<times> lheap) option" where
  "del_loop h head prev cur nod =
     (case cur of None \<Rightarrow> Some (head, h)
      | Some c \<Rightarrow>
          if c = nod then
            (let new_head = (if cur = head then h c else head);
                 h' = (case prev of None \<Rightarrow> h | Some p \<Rightarrow> h(p := h c))
             in Some (new_head, h'))
          else del_loop h head cur (h c) nod)"

definition list_del_node :: "lheap \<Rightarrow> nat option \<Rightarrow> nat \<Rightarrow> (nat option \<times> lheap) option" where
  "list_del_node h head nod = del_loop h head None head nod"

text \<open>\<open>chain h p xs\<close>: the list that starts at \<open>p\<close> has exactly the nodes \<open>xs\<close>, in order.\<close>

primrec chain :: "lheap \<Rightarrow> nat option \<Rightarrow> nat list \<Rightarrow> bool" where
  "chain h p [] \<longleftrightarrow> p = None"
| "chain h p (x # xs) \<longleftrightarrow> p = Some x \<and> chain h (h x) xs"

lemma chain_None [simp]: "chain h None xs \<longleftrightarrow> xs = []"
  by (cases xs) auto

lemma chain_unique: "chain h p xs \<Longrightarrow> chain h p ys \<Longrightarrow> xs = ys"
proof (induction xs arbitrary: p ys)
  case Nil
  then show ?case by simp
next
  case (Cons x xs)
  then obtain ys' where "ys = x # ys'" by (cases ys) auto
  with Cons show ?case by auto
qed

lemma chain_suffix: "chain h p (xs @ x # ys) \<Longrightarrow> chain h (Some x) (x # ys)"
  by (induction xs arbitrary: p) auto

lemma chain_distinct: "chain h p xs \<Longrightarrow> distinct xs"
proof (induction xs arbitrary: p)
  case Nil
  then show ?case by simp
next
  case (Cons x xs)
  have "x \<notin> set xs"
  proof
    assume "x \<in> set xs"
    then obtain us vs where "xs = us @ x # vs" by (meson split_list)
    with Cons.prems have "chain h (Some x) (x # vs)" "chain h (Some x) (x # xs)"
      using chain_suffix [of h "h x" us x vs] by auto
    then have "x # vs = x # xs" by (rule chain_unique)
    with \<open>xs = us @ x # vs\<close> show False by (metis append_eq_conv_conj drop_eq_Nil length_Cons
      length_append less_irrefl list.inject not_add_less2 lessI)
  qed
  with Cons show ?case by auto
qed

lemma chain_upd [simp]: "x \<notin> set xs \<Longrightarrow> chain (h(x := q)) p xs = chain h p xs"
  by (induction xs arbitrary: p) auto

lemma chain_add_head:
  "chain h p xs \<Longrightarrow> x \<notin> set xs \<Longrightarrow> chain (list_add_head h p x) (Some x) (x # xs)"
  by (simp add: list_add_head_def)

lemma find_node_chain:
  "chain h p xs \<Longrightarrow> list_find_node h p x = Some (if x \<in> set xs then Some x else None)"
proof (induction xs arbitrary: p)
  case Nil
  then show ?case by (simp add: list_find_node.simps)
next
  case (Cons y ys)
  then have p: "p = Some y" and "chain h (h y) ys" by auto
  with Cons.IH have "list_find_node h (h y) x = Some (if x \<in> set ys then Some x else None)" by blast
  with p show ?case by (subst list_find_node.simps) auto
qed

lemma rear_loop_chain: "chain h (Some x) (x # xs) \<Longrightarrow> rear_loop h x = Some (last (x # xs))"
proof (induction xs arbitrary: x)
  case Nil
  then show ?case by (simp add: rear_loop.simps)
next
  case (Cons y ys)
  then show ?case by (subst rear_loop.simps) auto
qed

lemma chain_snoc:
  "chain h p xs \<Longrightarrow> xs \<noteq> [] \<Longrightarrow> new \<notin> set xs \<Longrightarrow>
   chain (h(last xs := Some new, new := None)) p (xs @ [new])"
proof (induction xs arbitrary: p)
  case Nil
  then show ?case by simp
next
  case (Cons x xs)
  show ?case
  proof (cases "xs = []")
    case True
    with Cons.prems show ?thesis by auto
  next
    case False
    have "x \<noteq> last (x # xs)" "x \<noteq> new"
      using chain_distinct [OF Cons.prems(1)] Cons.prems(3) False by auto
    with Cons False show ?thesis by auto
  qed
qed

lemma add_rear_chain:
  assumes "chain h (Some x) (x # xs)" "new \<notin> set (x # xs)"
  shows "\<exists>h'. list_add_rear h x new = Some h' \<and> chain h' (Some x) (x # xs @ [new])"
  using rear_loop_chain [OF assms(1)] chain_snoc [OF assms(1) _ assms(2)]
  by (auto simp: list_add_rear_def simp del: chain.simps)

lemma chain_del_inner:
  assumes "chain h p (us @ a # x # vs)"
  shows "chain (h(a := h x)) p (us @ a # vs)"
  using assms
proof (induction us arbitrary: p)
  case Nil
  then have "a \<notin> set vs" using chain_distinct [of h p "a # x # vs"] by auto
  then have "chain (h(a := h x)) (h x) vs = chain h (h x) vs" by (rule chain_upd)
  with Nil show ?case by (simp only: append.simps chain.simps fun_upd_same)
next
  case (Cons u us)
  then have "u \<noteq> a" using chain_distinct [OF Cons.prems] by auto
  with Cons show ?case by simp
qed

lemma del_loop_chain:
  assumes "chain h head (us @ vs)" "chain h cur vs" "prev = (if us = [] then None else Some (last us))"
    "nod \<notin> set us"
  shows "\<exists>p h'. del_loop h head prev cur nod = Some (p, h') \<and> chain h' p (remove1 nod (us @ vs)) \<and>
           (\<forall>a. a \<notin> set us \<union> set vs \<longrightarrow> h' a = h a)"
  using assms
proof (induction vs arbitrary: us cur prev)
  case Nil
  then show ?case by (auto simp: del_loop.simps remove1_idem)
next
  case (Cons v vs)
  have cur: "cur = Some v" and rest: "chain h (h v) vs" using Cons.prems(2) by auto
  have dist: "distinct (us @ v # vs)" using Cons.prems(1) by (rule chain_distinct)
  show ?case
  proof (cases "v = nod")
    case False
    have "del_loop h head prev cur nod = del_loop h head (Some v) (h v) nod"
      using cur False by (subst del_loop.simps) simp
    moreover have "\<exists>p h'. del_loop h head (Some v) (h v) nod = Some (p, h') \<and>
        chain h' p (remove1 nod ((us @ [v]) @ vs)) \<and> (\<forall>a. a \<notin> set (us @ [v]) \<union> set vs \<longrightarrow> h' a = h a)"
      using Cons.prems False rest by (intro Cons.IH) auto
    ultimately show ?thesis using False by auto
  next
    case True
    have rem: "remove1 nod (us @ v # vs) = us @ vs"
      using True Cons.prems(4) by (simp add: remove1_append)
    show ?thesis
    proof (cases us rule: rev_cases)
      case Nil
      with Cons.prems True cur rest rem show ?thesis by (subst del_loop.simps) auto
    next
      case (snoc us' u)
      have "cur \<noteq> head"
        using Cons.prems(1) cur dist snoc by (cases us') auto
      moreover have "chain (h(u := h v)) head (us @ vs)"
        using chain_del_inner [of h head us' u v vs] Cons.prems(1) snoc by simp
      ultimately show ?thesis
        using Cons.prems True cur rem snoc by (subst del_loop.simps) auto
    qed
  qed
qed

lemma del_node_chain:
  assumes "chain h p xs"
  shows "\<exists>q h'. list_del_node h p x = Some (q, h') \<and> chain h' q (remove1 x xs) \<and>
           (\<forall>a. a \<notin> set xs \<longrightarrow> h' a = h a)"
  using del_loop_chain [of h p "[]" xs p None x] assms by (simp add: list_del_node_def)

section \<open>Integer routines\<close>

text \<open>
  The loop of \<open>get_max_comm_div\<close>; its second argument is never 0 (the function returns before).
\<close>

function mcd_loop :: "int \<Rightarrow> int \<Rightarrow> int" where
  "mcd_loop a b = (if b \<noteq> 0 \<and> a smod b \<noteq> 0 then mcd_loop b (a smod b) else b)"
  by pat_completeness auto
termination
proof (relation "measure (\<lambda>(a, b). nat \<bar>b\<bar>)", goal_cases)
  case 1
  then show ?case by simp
next
  case (2 a b)
  then show ?case using smod_int_range [of b a] by auto
qed

declare mcd_loop.simps [simp del]

definition get_max_comm_div :: "int \<Rightarrow> int \<Rightarrow> int" where
  "get_max_comm_div a b =
     (if a = 0 then b else if b = 0 then a
      else (let a = (if a < 0 then - a else a); b = (if b < 0 then - b else b);
                (a, b) = (if a < b then (b, a) else (a, b))
            in mcd_loop a b))"

text \<open>The search of \<open>get_nearest_divisible_int\<close>, downwards from \<open>ret\<close>.\<close>

fun divisor_loop :: "int \<Rightarrow> nat \<Rightarrow> nat" where
  "divisor_loop a 0 = 0"
| "divisor_loop a (Suc n) = (if a mod int (Suc n) = 0 then Suc n else divisor_loop a n)"

definition get_nearest_divisible_int :: "int \<Rightarrow> int \<Rightarrow> int" where
  "get_nearest_divisible_int a b =
     (if b = 0 then - 1
      else if a = 0 then swrap 32 b
      else if a \<le> b then swrap 32 a
      else (let r = swrap 32 b in if r \<le> 0 then r else int (divisor_loop a (nat r))))"

definition get_num_set_bits_u32 :: "32 word \<Rightarrow> nat" where
  "get_num_set_bits_u32 n = fold (\<lambda>i ret. if push_bit i 1 AND n \<noteq> 0 then Suc ret else ret) [0..<32] 0"

lemma smod_pos: "0 \<le> (a::int) \<Longrightarrow> 0 < b \<Longrightarrow> a smod b = a mod b"
  by (simp add: signed_modulo_int_def signed_divide_int_def sgn_if minus_mult_div_eq_mod)

lemma mcd_loop_gcd: "0 \<le> a \<Longrightarrow> 0 < b \<Longrightarrow> mcd_loop a b = gcd a b"
proof (induction a b rule: mcd_loop.induct)
  case (1 a b)
  show ?case
  proof (cases "a smod b = 0")
    case True
    with 1 show ?thesis
      by (subst mcd_loop.simps) (simp add: smod_pos mod_eq_0_iff_dvd gcd_proj2_iff)
  next
    case False
    have pos: "0 < a smod b" using 1 False by (simp add: smod_pos order_less_le)
    have "mcd_loop a b = mcd_loop b (a smod b)"
      using 1 False by (subst mcd_loop.simps) simp
    also have "\<dots> = gcd b (a smod b)" using 1 False pos by simp
    also have "\<dots> = gcd a b" using 1 by (simp add: smod_pos gcd_red_int [symmetric])
    finally show ?thesis .
  qed
qed

lemma max_comm_div_gcd: "a \<noteq> 0 \<Longrightarrow> b \<noteq> 0 \<Longrightarrow> get_max_comm_div a b = gcd a b"
  by (auto simp: get_max_comm_div_def mcd_loop_gcd gcd.commute Let_def)

lemma max_comm_div_pos: "0 < a \<Longrightarrow> 0 < b \<Longrightarrow> 0 < get_max_comm_div a b"
  by (simp add: max_comm_div_gcd)

lemma divisor_loop_spec:
  assumes "0 < a" "0 < n"
  shows "0 < divisor_loop a n \<and> divisor_loop a n \<le> n \<and> int (divisor_loop a n) dvd a \<and>
         (\<forall>d. 0 < d \<and> d \<le> n \<and> int d dvd a \<longrightarrow> d \<le> divisor_loop a n)"
  using assms(2)
proof (induction n)
  case 0
  then show ?case by simp
next
  case (Suc n)
  show ?case
  proof (cases "a mod int (Suc n) = 0")
    case True
    then show ?thesis by (auto simp: mod_eq_0_iff_dvd)
  next
    case False
    then have "n \<noteq> 0" by (intro notI) simp
    with Suc False show ?thesis
      by (auto simp: mod_eq_0_iff_dvd le_Suc_eq)
  qed
qed

lemma set_bits_fold:
  "fold (\<lambda>i ret. if P i then Suc ret else ret) [0..<n] k = k + card {i. i < n \<and> P i}"
proof (induction n)
  case 0
  then show ?case by simp
next
  case (Suc n)
  have "{i. i < Suc n \<and> P i} = (if P n then insert n {i. i < n \<and> P i} else {i. i < n \<and> P i})"
    by (auto simp: less_Suc_eq)
  with Suc show ?case by simp
qed

end
