(* ===== verification/Util_Time.thy ===== *)
theory Util_Time
  imports World C_Strings
begin

text \<open>
  \<open>sensors/daemon/src/lib/util_time.c\<close>: the clock providers, the millisecond tick the sensor
  threads are scheduled by, the time stamp text and the sleeping functions.
\<close>

abbreviation (input) TIME_SCALE_S2NS :: int where "TIME_SCALE_S2NS \<equiv> 1000000000"
abbreviation (input) TIME_SCALE_US2NS :: int where "TIME_SCALE_US2NS \<equiv> 1000"
abbreviation (input) TIME_SCALE_S2US :: int where "TIME_SCALE_S2US \<equiv> 1000000"

record clock_provider =
  cp_res_sec :: int
  cp_res_nsec :: int
  cp_start_sec :: int
  cp_start_nsec :: int
  cp_ref_sec :: int
  cp_ref_nsec :: int

datatype which_clock = CP_HR | CP_RT

record time_st = world +
  g_start_sec :: int
  g_start_usec :: int
  g_cp_hr :: clock_provider
  g_cp_rt :: clock_provider
  g_cp_dft :: "which_clock option"

section \<open>Clock providers\<close>

definition cp_init_hr :: "('a time_st_scheme, int) state" where
  "cp_init_hr = do {
     r \<leftarrow> call (E_time T_clock_gettime);
     (if rv r = 0 then
        modify (\<lambda>s. s\<lparr>g_cp_hr := (g_cp_hr s)\<lparr>cp_start_sec := num r 0, cp_start_nsec := num r 1,
          cp_ref_sec := num r 0, cp_ref_nsec := num r 1\<rparr>\<rparr>)
      else ret ());
     r \<leftarrow> call (E_time T_clock_getres);
     (if rv r = 0 then
        modify (\<lambda>s. s\<lparr>g_cp_hr := (g_cp_hr s)\<lparr>cp_res_sec := num r 0, cp_res_nsec := num r 1\<rparr>\<rparr>)
      else ret ());
     ret (rv r)
   }"

definition cp_get_tick_ns_hr :: "('a time_st_scheme, int) state" where
  "cp_get_tick_ns_hr = do {
     r \<leftarrow> call (E_time T_clock_gettime);
     ret (if rv r = 0 then swrap 64 (num r 0 * TIME_SCALE_S2NS + num r 1) else 0)
   }"

definition cp_init_rt :: "('a time_st_scheme, int) state" where
  "cp_init_rt = do {
     r \<leftarrow> call (E_time T_gettimeofday);
     (if rv r = 0 then
        modify (\<lambda>s. s\<lparr>g_cp_rt := (g_cp_rt s)\<lparr>cp_start_sec := num r 0, cp_start_nsec := num r 1 * 1000,
          cp_ref_sec := num r 0, cp_ref_nsec := num r 1 * 1000\<rparr>\<rparr>)
      else ret ());
     modify (\<lambda>s. s\<lparr>g_cp_rt := (g_cp_rt s)\<lparr>cp_res_sec := 0, cp_res_nsec := 1000\<rparr>\<rparr>);
     ret (rv r)
   }"

definition cp_get_tick_ns_rt :: "('a time_st_scheme, int) state" where
  "cp_get_tick_ns_rt = do {
     r \<leftarrow> call (E_time T_gettimeofday);
     cp \<leftarrow> gets g_cp_rt;
     (if (num r 1 < cp_ref_nsec cp sdiv 1000 \<and> num r 0 = cp_ref_sec cp) \<or> num r 0 < cp_ref_sec cp then
        modify (\<lambda>s. s\<lparr>g_cp_rt := (g_cp_rt s)\<lparr>cp_ref_sec := num r 0, cp_ref_nsec := num r 1 * 1000\<rparr>\<rparr>)
      else ret ());
     cp \<leftarrow> gets g_cp_rt;
     ret (swrap 64 ((num r 0 - cp_ref_sec cp) * TIME_SCALE_S2NS
       + (num r 1 * TIME_SCALE_US2NS - cp_ref_nsec cp)))
   }"

section \<open>The tick\<close>

text \<open>\<open>tick_of s0 u0 s u\<close>: the milliseconds from \<open>(s0, u0)\<close> to \<open>(s, u)\<close> as the code computes them.\<close>

definition tick_of :: "int \<Rightarrow> int \<Rightarrow> int \<Rightarrow> int \<Rightarrow> int" where
  "tick_of s0 u0 s u = (s - s0) * 1000 + (u - u0) sdiv 1000"

definition get_time_tick :: "('a time_st_scheme, int) state" where
  "get_time_tick = do {
     r \<leftarrow> call (E_time T_gettimeofday);
     s0 \<leftarrow> gets g_start_sec;
     u0 \<leftarrow> gets g_start_usec;
     (if (num r 1 < u0 \<and> num r 0 = s0) \<or> num r 0 < s0 then
        modify (\<lambda>s. s\<lparr>g_start_sec := num r 0, g_start_usec := num r 1\<rparr>)
      else ret ());
     s0 \<leftarrow> gets g_start_sec;
     u0 \<leftarrow> gets g_start_usec;
     ret (uwrap 32 (tick_of s0 u0 (num r 0) (num r 1)))
   }"

section \<open>The time as text\<close>

text \<open>\<open>%04d\<close> and \<open>%02d\<close> of a number that is not negative.\<close>

definition pad_str :: "nat \<Rightarrow> int \<Rightarrow> string" where
  "pad_str w x = (let s = int_str x in replicate (w - length s) (CHR ''0'') @ s)"

text \<open>
  \<open>localtime_r\<close> answers year - 1900, month - 1, day, hour, minute and second. The result is what
  \<open>buf_str[0 .. len - 1]\<close> holds afterwards, \<open>None\<close> if the function leaves it alone; \<open>buf\<close> has 32
  bytes, the unused ones 0.
\<close>

definition time_text :: "reply \<Rightarrow> string" where
  "time_text r = pad_str 4 (num r 0 + 1900) @ ''-'' @ pad_str 2 (num r 1 + 1) @ ''-'' @ pad_str 2 (num r 2)
     @ ''_'' @ pad_str 2 (num r 3) @ ''-'' @ pad_str 2 (num r 4) @ ''-'' @ pad_str 2 (num r 5)"

definition get_curr_time_str :: "nat \<Rightarrow> ('a world_scheme, string option) state" where
  "get_curr_time_str len = do {
     r \<leftarrow> call (E_hook ''localtime_r'' []);
     let buf = time_text r @ replicate (32 - length (time_text r)) (CHR 0x00);
     must (length (time_text r) < 32 \<and> (1 < len \<longrightarrow> len - 1 \<le> 32));
     ret (if 1 < len then Some (take (len - 1) buf @ [CHR 0x00]) else None)
   }"

definition time_init :: "('a time_st_scheme, unit) state" where
  "time_init = do {
     r \<leftarrow> call (E_time T_gettimeofday);
     modify (\<lambda>s. s\<lparr>g_start_sec := num r 0, g_start_usec := num r 1\<rparr>);
     modify (\<lambda>s. s\<lparr>g_cp_dft := Some CP_HR\<rparr>);
     err \<leftarrow> cp_init_hr;
     _ \<leftarrow> get_curr_time_str 32;
     ret ()
   }"

section \<open>Sleeping\<close>

text \<open>
  The loop of \<open>adv_nsleep_short\<close>. It goes on with the time that was left when a signal
  interrupted the sleep; POSIX has that time below the requested one. A kernel that answers
  otherwise could keep the loop from ending, which the model marks with \<open>ub\<close>.
\<close>

function adv_nsleep_short :: "int \<Rightarrow> bool \<Rightarrow> ('a world_scheme, unit) state" where
  "adv_nsleep_short ns restart = do {
     r \<leftarrow> call (E_time (T_nanosleep ns));
     if rv r = 0 then ret ()
     else if rerr r = EINTR \<and> restart then
       (if 0 \<le> num r 0 \<and> num r 0 < ns then adv_nsleep_short (num r 0) restart else must False)
     else ret ()
   }"
  by pat_completeness auto
termination
  by (relation "measure (\<lambda>(ns, _). nat ns)") auto

declare adv_nsleep_short.simps [simp del]

definition eusleep :: "int \<Rightarrow> ('a world_scheme, unit) state" where
  "eusleep us =
     (if TIME_SCALE_S2US \<le> us then
        (let tmp = (us - TIME_SCALE_S2US) div TIME_SCALE_S2US + 1; us' = us - tmp * TIME_SCALE_S2US
         in do {
              emit (E_time (T_sleep tmp));
              if us' = 0 then ret () else adv_nsleep_short (us' * 1000) True
            })
      else adv_nsleep_short (us * 1000) True)"

text \<open>The sleeping calls among some events (\<open>sleep\<close>, \<open>nanosleep\<close>), and the microseconds they ask for.\<close>

fun sleep_us :: "event \<Rightarrow> rat" where
  "sleep_us (E_time (T_sleep s)) = of_int s * 1000000"
| "sleep_us (E_time (T_nanosleep ns)) = of_int ns / 1000"
| "sleep_us e = 0"

fun is_sleep :: "event \<Rightarrow> bool" where
  "is_sleep (E_time (T_sleep s)) = True"
| "is_sleep (E_time (T_nanosleep ns)) = True"
| "is_sleep e = False"

lemma nsleep_uninterrupted:
  "rv (env s (tr s) (E_time (T_nanosleep ns))) = 0 \<Longrightarrow>
   run_state (adv_nsleep_short ns b) s = ((), s\<lparr>tr := E_time (T_nanosleep ns) # tr s\<rparr>)"
  by (subst adv_nsleep_short.simps) simp

lemma keeps_nsleep:
  assumes "\<And>e s. I s \<Longrightarrow> I (s\<lparr>tr := e # tr s\<rparr>)" "\<And>s. I s \<Longrightarrow> I (s\<lparr>ub := True\<rparr>)"
  shows "keeps I (adv_nsleep_short ns b)"
proof (induction ns b rule: adv_nsleep_short.induct)
  case (1 ns b)
  show ?case
    by (subst adv_nsleep_short.simps) (auto intro!: keeps_rules assms 1)
qed

lemma keeps_eusleep [keeps_rules]:
  assumes "\<And>e s. I s \<Longrightarrow> I (s\<lparr>tr := e # tr s\<rparr>)" "\<And>s. I s \<Longrightarrow> I (s\<lparr>ub := True\<rparr>)"
  shows "keeps I (eusleep us)"
  unfolding eusleep_def by (auto intro!: keeps_rules keeps_nsleep assms)

lemma grows_nsleep [grows_rules]: "grows (adv_nsleep_short ns b)"
proof (induction ns b rule: adv_nsleep_short.induct)
  case (1 ns b)
  show ?case by (subst adv_nsleep_short.simps) (auto intro!: grows_rules 1)
qed

lemma grows_eusleep [grows_rules]: "grows (eusleep us)"
  unfolding eusleep_def by (auto intro!: grows_rules)

lemma grows_get_time_tick [grows_rules]: "grows get_time_tick"
  unfolding get_time_tick_def by (auto intro!: grows_rules)

text \<open>
  \<open>sleeps_only s s'\<close>: \<open>s'\<close> is \<open>s\<close> but for sleeping calls added to the trace (and possibly \<open>ub\<close>).
\<close>

definition sleeps_only :: "'a world_scheme \<Rightarrow> 'a world_scheme \<Rightarrow> bool" where
  "sleeps_only s s' \<longleftrightarrow> (\<exists>es. list_all is_sleep es \<and>
     (s' = s\<lparr>tr := es @ tr s\<rparr> \<or> s' = s\<lparr>tr := es @ tr s, ub := True\<rparr>))"

lemma sleeps_nsleep: "sleeps_only s (snd (run_state (adv_nsleep_short ns b) s))"
proof (induction ns b arbitrary: s rule: adv_nsleep_short.induct)
  case (1 ns b)
  let ?e = "E_time (T_nanosleep ns)"
  let ?r = "env s (tr s) ?e"
  have base: "sleeps_only s (s\<lparr>tr := ?e # tr s\<rparr>)" "sleeps_only s (s\<lparr>tr := ?e # tr s, ub := True\<rparr>)"
    unfolding sleeps_only_def by (rule exI [of _ "[?e]"], simp)+
  have rec: "sleeps_only s (snd (run_state (adv_nsleep_short (num ?r 0) b) (s\<lparr>tr := ?e # tr s\<rparr>)))"
    if "rv ?r \<noteq> 0" "rerr ?r = EINTR \<and> b" "0 \<le> num ?r 0 \<and> num ?r 0 < ns"
  proof -
    from 1 [OF that] have "sleeps_only (s\<lparr>tr := ?e # tr s\<rparr>)
      (snd (run_state (adv_nsleep_short (num ?r 0) b) (s\<lparr>tr := ?e # tr s\<rparr>)))" .
    then obtain es where "list_all is_sleep es" and
      "snd (run_state (adv_nsleep_short (num ?r 0) b) (s\<lparr>tr := ?e # tr s\<rparr>)) =
         s\<lparr>tr := (es @ [?e]) @ tr s\<rparr> \<or>
       snd (run_state (adv_nsleep_short (num ?r 0) b) (s\<lparr>tr := ?e # tr s\<rparr>)) =
         s\<lparr>tr := (es @ [?e]) @ tr s, ub := True\<rparr>"
      by (auto simp: sleeps_only_def)
    then show ?thesis unfolding sleeps_only_def by (intro exI [of _ "es @ [?e]"]) simp
  qed
  show ?case
    using base rec by (subst adv_nsleep_short.simps) simp
qed

section \<open>The tick is monotone and exact to a millisecond\<close>

lemma sdiv_1000:
  "(x :: int) sdiv 1000 = (if x < 0 then - ((- x) div 1000) else x div 1000)"
  by (simp add: signed_divide_int_def sgn_if abs_if)

lemma sdiv_1000_bounds:
  fixes x :: int
  shows "0 \<le> x \<Longrightarrow> 0 \<le> x sdiv 1000 \<and> 1000 * (x sdiv 1000) \<le> x \<and> x < 1000 * (x sdiv 1000) + 1000"
    and "x < 0 \<Longrightarrow> x sdiv 1000 \<le> 0 \<and> x \<le> 1000 * (x sdiv 1000) \<and> 1000 * (x sdiv 1000) < x + 1000"
proof -
  have d: "1000 * (y div 1000) \<le> y \<and> y < 1000 * (y div 1000) + 1000" for y :: int
    by presburger
  show "0 \<le> x \<Longrightarrow> 0 \<le> x sdiv 1000 \<and> 1000 * (x sdiv 1000) \<le> x \<and> x < 1000 * (x sdiv 1000) + 1000"
    using d [of x] by (simp add: sdiv_1000 pos_imp_zdiv_nonneg_iff)
  show "x < 0 \<Longrightarrow> x sdiv 1000 \<le> 0 \<and> x \<le> 1000 * (x sdiv 1000) \<and> 1000 * (x sdiv 1000) < x + 1000"
    using d [of "- x"] pos_imp_zdiv_nonneg_iff [of 1000 "- x"] by (simp add: sdiv_1000)
qed

lemma tick_of_error:
  "\<bar>1000 * tick_of s0 u0 s u - ((s - s0) * 1000000 + (u - u0))\<bar> < 1000"
  using sdiv_1000_bounds [of "u - u0"] by (cases "0 \<le> u - u0") (auto simp: tick_of_def abs_less_iff)

lemma tick_of_mono:
  assumes "s < s' \<or> (s = s' \<and> u \<le> u')"
    and "0 \<le> u" "u < 1000000" "0 \<le> u'" "u' < 1000000" "0 \<le> u0" "u0 < 1000000"
  shows "tick_of s0 u0 s u \<le> tick_of s0 u0 s' u'"
proof (cases "s = s'")
  case True
  with assms have "u \<le> u'" by auto
  then have "(u - u0) sdiv 1000 \<le> (u' - u0) sdiv 1000"
    using sdiv_1000_bounds [of "u - u0"] sdiv_1000_bounds [of "u' - u0"] by linarith
  then show ?thesis using True by (simp add: tick_of_def)
next
  case False
  with assms(1) have "(s' - s0) * 1000 \<ge> (s - s0) * 1000 + 1000" by simp
  moreover have "(u - u0) sdiv 1000 \<le> 1000 + (u' - u0) sdiv 1000"
    using sdiv_1000_bounds [of "u - u0"] sdiv_1000_bounds [of "u' - u0"] assms by linarith
  ultimately show ?thesis by (simp add: tick_of_def)
qed

section \<open>No lock is taken\<close>

lemma lockt_nsleep [lock_rules]: "lockt ls (adv_nsleep_short ns b) ls"
proof (induction ns b rule: adv_nsleep_short.induct)
  case (1 ns b)
  show ?case by (subst adv_nsleep_short.simps) (auto intro!: lock_rules 1)
qed

lemma lockt_eusleep [lock_rules]: "lockt ls (eusleep us) ls"
  unfolding eusleep_def by (auto intro!: lock_rules)

lemma lockt_get_time_tick [lock_rules]: "lockt ls get_time_tick ls"
  unfolding get_time_tick_def by (auto intro!: lock_rules)

end
