(* ===== verification/Util_Sysfs.thy ===== *)
theory Util_Sysfs
  imports World C_Strings
begin

text \<open>
  \<open>sensors/daemon/src/lib/util_sysfs.c\<close> and \<open>util_input_dev.c\<close>: integers in sysfs nodes, and the
  search for an input device by name. A path is the text \<open>sprintf\<close> puts together.
\<close>

definition MAX_INPUT_DEV_NUM :: nat where "MAX_INPUT_DEV_NUM = 32"

definition SYSFS_PATH_INPUT_DEV :: string where "SYSFS_PATH_INPUT_DEV = ''/sys/class/input''"

text \<open>\<open>"%s/input%d/%s"\<close>\<close>

definition input_path :: "int \<Rightarrow> string \<Rightarrow> string" where
  "input_path n node = SYSFS_PATH_INPUT_DEV @ ''/input'' @ int_str n @ ''/'' @ node"

text \<open>
  \<open>sprintf\<close> into a buffer of \<open>size\<close> bytes, which must hold the text and its NUL.
\<close>

definition sprintf_to :: "nat \<Rightarrow> string \<Rightarrow> ('a world_scheme, string) state" where
  "sprintf_to sz txt = do { must (length txt < sz); ret txt }"

lemma input_path_length:
  "- (2 ^ 31) \<le> n \<Longrightarrow> n < 2 ^ 31 \<Longrightarrow> length (input_path n node) \<le> 34 + length node"
  using int_str_length [of n] by (simp add: input_path_def SYSFS_PATH_INPUT_DEV_def)

text \<open>\<open>read\<close> into the front of a buffer, whose other bytes keep their values.\<close>

definition overwrite :: "string \<Rightarrow> string \<Rightarrow> string" where
  "overwrite new buf = new @ drop (length new) buf"

text \<open>\<open>dev_name\<close> is declared outside the loop, so a short or failed read leaves old bytes in it.\<close>

fun dev_num_loop :: "string \<Rightarrow> nat list \<Rightarrow> string \<Rightarrow> ('a world_scheme, int) state" where
  "dev_num_loop pname [] dev_name = ret (- 1)"
| "dev_num_loop pname (i # is) dev_name = do {
     path \<leftarrow> sprintf_to 128 (input_path (int i) ''name'');
     r \<leftarrow> call (E_open path [O_RDONLY]);
     if rv r \<noteq> - 1 then do {
       d \<leftarrow> call (E_read (rv r) 127);
       let dev_name = overwrite (take (min 127 (nat (rv d))) (rbuf d)) dev_name;
       emit (E_close (rv r));
       if take (length pname) (cstr dev_name) = pname then ret (int i)
       else dev_num_loop pname is dev_name
     } else dev_num_loop pname is dev_name
   }"

definition sysfs_get_input_dev_num :: "string \<Rightarrow> ('a world_scheme, int) state" where
  "sysfs_get_input_dev_num pname =
     dev_num_loop pname [0..<MAX_INPUT_DEV_NUM] (replicate 128 (CHR 0x00))"

text \<open>
  The result is the error code and the value stored, if one is: text that is no number is no
  error, and leaves the variable alone.
\<close>

definition sysfs_read_int :: "string \<Rightarrow> ('a world_scheme, int \<times> int option) state" where
  "sysfs_read_int path = do {
     r \<leftarrow> call (E_open path [O_RDONLY]);
     if rv r = - 1 then ret (- EIO, None)
     else do {
       d \<leftarrow> call (E_read (rv r) 31);
       let res =
         (if 0 < rv d then
            (case sscanf [F_d 11] (cstr (take (nat (rv d)) (rbuf d))) of
               [] \<Rightarrow> (0, None) | v # _ \<Rightarrow> (0, Some (as_int v)))
          else (- EIO, None));
       emit (E_close (rv r));
       ret res
     }
   }"

definition sysfs_write_int :: "string \<Rightarrow> int \<Rightarrow> ('a world_scheme, int) state" where
  "sysfs_write_int path value = do {
     r \<leftarrow> call (E_open path [O_WRONLY]);
     if rv r \<noteq> - 1 then do {
       buffer \<leftarrow> sprintf_to 16 (int_str value @ [CHR 0x0A]);
       w \<leftarrow> call (E_write (rv r) buffer);
       let err = (if rv w < int (length buffer) then - EIO else 0);
       emit (E_close (rv r));
       ret err
     } else ret (- EIO)
   }"

definition sysfs_open_input_dev_node :: "int \<Rightarrow> string \<Rightarrow> oflag list \<Rightarrow> ('a world_scheme, int) state" where
  "sysfs_open_input_dev_node input_dev_num name mode = do {
     path \<leftarrow> sprintf_to 64 (input_path input_dev_num name);
     r \<leftarrow> call (E_open path mode);
     ret (rv r)
   }"

text \<open>The loop of \<open>input_get_event_num\<close>: \<open>ev_name\<close> is what the \<open>ioctl\<close> puts there.\<close>

definition event_path :: "int \<Rightarrow> string" where
  "event_path n = ''/dev/input/event'' @ int_str n"

fun event_num_loop :: "string \<Rightarrow> nat list \<Rightarrow> ('a world_scheme, int) state" where
  "event_num_loop pname [] = ret (- 1)"
| "event_num_loop pname (i # is) = do {
     path \<leftarrow> sprintf_to 64 (event_path (int i));
     r \<leftarrow> call (E_open path [O_RDONLY]);
     if 0 \<le> rv r then do {
       d \<leftarrow> call (E_fd (F_ioctl_name 63) (rv r));
       let ev_name = (if rv d < 1 then [] else cstr (rbuf d));
       emit (E_close (rv r));
       if ev_name = pname then ret (int i) else event_num_loop pname is
     } else event_num_loop pname is
   }"

definition input_get_event_num :: "string \<Rightarrow> ('a world_scheme, int) state" where
  "input_get_event_num pname = event_num_loop pname [0..<MAX_INPUT_DEV_NUM]"

definition input_open_ev_fd :: "int \<Rightarrow> ('a world_scheme, int) state" where
  "input_open_ev_fd n = do {
     path \<leftarrow> sprintf_to 64 (event_path n);
     r \<leftarrow> call (E_open path [O_RDONLY]);
     ret (rv r)
   }"

section \<open>Invariants and growth\<close>

lemma keeps_sprintf_to [keeps_rules]:
  "(\<And>s. I s \<Longrightarrow> length txt < sz \<or> I (s\<lparr>ub := True\<rparr>)) \<Longrightarrow> keeps I (sprintf_to sz txt)"
  unfolding sprintf_to_def by (auto intro!: keeps_rules)

lemma grows_sprintf_to [grows_rules]: "grows (sprintf_to sz txt)"
  unfolding sprintf_to_def by (auto intro!: grows_rules)

lemma run_sprintf_to [simp]:
  "run_state (sprintf_to sz txt) s = (txt, if length txt < sz then s else s\<lparr>ub := True\<rparr>)"
  by (simp add: sprintf_to_def)

lemma grows_sysfs_write_int [grows_rules]: "grows (sysfs_write_int path v)"
  unfolding sysfs_write_int_def by (auto intro!: grows_rules)

lemma grows_sysfs_read_int [grows_rules]: "grows (sysfs_read_int path)"
  unfolding sysfs_read_int_def by (auto intro!: grows_rules)

lemma grows_dev_num_loop [grows_rules]: "grows (dev_num_loop pname is buf)"
  by (induction "is" arbitrary: buf) (auto intro!: grows_rules)

text \<open>
  An invariant that only \<open>ub\<close> and the trace could break: preserved by every sysfs operation, if
  the integers printed have 32 bits and the node names are short.
\<close>

lemma keeps_sysfs_write_int [keeps_rules]:
  assumes "\<And>e s. I s \<Longrightarrow> I (s\<lparr>tr := e # tr s\<rparr>)" "- (2 ^ 31) \<le> v" "v < 2 ^ 31"
  shows "keeps I (sysfs_write_int path v)"
proof -
  have "length (int_str v @ [CHR 0x0A]) < 16" using int_str_length [of v] assms(2,3) by simp
  then show ?thesis
    unfolding sysfs_write_int_def by (intro keeps_rules assms(1)) auto
qed

lemma keeps_sysfs_read_int [keeps_rules]:
  assumes "\<And>e s. I s \<Longrightarrow> I (s\<lparr>tr := e # tr s\<rparr>)"
  shows "keeps I (sysfs_read_int path)"
  unfolding sysfs_read_int_def by (intro keeps_rules assms)

lemma keeps_open_input_dev_node [keeps_rules]:
  assumes "\<And>e s. I s \<Longrightarrow> I (s\<lparr>tr := e # tr s\<rparr>)" "- (2 ^ 31) \<le> n" "n < 2 ^ 31" "length name < 30"
  shows "keeps I (sysfs_open_input_dev_node n name mode)"
proof -
  have "length (input_path n name) < 64" using input_path_length [of n name] assms(2-4) by simp
  then show ?thesis
    unfolding sysfs_open_input_dev_node_def by (intro keeps_rules assms(1)) auto
qed

lemma keeps_input_open_ev_fd [keeps_rules]:
  assumes "\<And>e s. I s \<Longrightarrow> I (s\<lparr>tr := e # tr s\<rparr>)" "- (2 ^ 31) \<le> n" "n < 2 ^ 31"
  shows "keeps I (input_open_ev_fd n)"
proof -
  have "length (event_path n) < 64" using int_str_length [of n] assms(2,3) by (simp add: event_path_def)
  then show ?thesis
    unfolding input_open_ev_fd_def by (intro keeps_rules assms(1)) auto
qed

lemma keeps_dev_num_loop:
  assumes "\<And>e s. I s \<Longrightarrow> I (s\<lparr>tr := e # tr s\<rparr>)" "\<forall>i \<in> set is. i < 2 ^ 31"
  shows "keeps I (dev_num_loop pname is buf)"
  using assms(2)
proof (induction "is" arbitrary: buf)
  case Nil
  show ?case by (simp add: keeps_ret)
next
  case (Cons i "is")
  have "length (input_path (int i) ''name'') < 128"
    using input_path_length [of "int i" "''name''"] Cons.prems by simp
  with Cons show ?case
    unfolding dev_num_loop.simps by (intro keeps_rules assms(1)) auto
qed

lemma keeps_get_input_dev_num [keeps_rules]:
  "(\<And>e s. I s \<Longrightarrow> I (s\<lparr>tr := e # tr s\<rparr>)) \<Longrightarrow> keeps I (sysfs_get_input_dev_num pname)"
  unfolding sysfs_get_input_dev_num_def
  by (rule keeps_dev_num_loop) (auto simp: MAX_INPUT_DEV_NUM_def)

lemma dev_num_loop_range:
  "int ` set is \<subseteq> A \<Longrightarrow> hoare (\<lambda>_. True) (dev_num_loop pname is buf) (\<lambda>n _. n = - 1 \<or> n \<in> A)"
  by (induction "is" arbitrary: buf) (auto intro!: hoare_rules)

section \<open>No lock is taken\<close>

lemma lockt_sprintf_to [lock_rules]: "lockt ls (sprintf_to sz txt) ls"
  unfolding sprintf_to_def by (auto intro!: lock_rules)

lemma lockt_sysfs_write_int [lock_rules]: "lockt ls (sysfs_write_int path v) ls"
  unfolding sysfs_write_int_def by (auto intro!: lock_rules)

lemma lockt_sysfs_read_int [lock_rules]: "lockt ls (sysfs_read_int path) ls"
  unfolding sysfs_read_int_def by (auto intro!: lock_rules)

lemma lockt_dev_num_loop [lock_rules]: "lockt ls (dev_num_loop pname is buf) ls"
  by (induction "is" arbitrary: buf) (auto intro!: lock_rules)

lemma lockt_get_input_dev_num [lock_rules]: "lockt ls (sysfs_get_input_dev_num pname) ls"
  unfolding sysfs_get_input_dev_num_def by (rule lockt_dev_num_loop)

lemma lockt_open_input_dev_node [lock_rules]: "lockt ls (sysfs_open_input_dev_node n name mode) ls"
  unfolding sysfs_open_input_dev_node_def by (auto intro!: lock_rules)

lemma lockt_input_open_ev_fd [lock_rules]: "lockt ls (input_open_ev_fd n) ls"
  unfolding input_open_ev_fd_def by (auto intro!: lock_rules)

section \<open>Frames\<close>

text \<open>
  An invariant the trace and \<open>ub\<close> do not matter to is kept by every operation here: the rules by
  which the clients show what an operation leaves alone.
\<close>

named_theorems frame_rules

lemma frame_sprintf_to [frame_rules]:
  "(\<And>s. I s \<Longrightarrow> I (s\<lparr>ub := True\<rparr>)) \<Longrightarrow> keeps I (sprintf_to sz txt)"
  unfolding sprintf_to_def by (auto intro!: keeps_rules)

lemma frame_must [frame_rules]: "(\<And>s. I s \<Longrightarrow> I (s\<lparr>ub := True\<rparr>)) \<Longrightarrow> keeps I (must b)"
  by (auto simp: keeps_def)

lemmas [frame_rules] = keeps_ret keeps_gets keeps_modify keeps_bind keeps_if keeps_Let
  keeps_case_option keeps_case_prod keeps_for_each keeps_call keeps_emit

lemma frame_sysfs_write_int [frame_rules]:
  assumes "\<And>e s. I s \<Longrightarrow> I (s\<lparr>tr := e # tr s\<rparr>)" "\<And>s. I s \<Longrightarrow> I (s\<lparr>ub := True\<rparr>)"
  shows "keeps I (sysfs_write_int path v)"
  unfolding sysfs_write_int_def by (intro frame_rules assms)

lemma frame_sysfs_read_int [frame_rules]:
  assumes "\<And>e s. I s \<Longrightarrow> I (s\<lparr>tr := e # tr s\<rparr>)" "\<And>s. I s \<Longrightarrow> I (s\<lparr>ub := True\<rparr>)"
  shows "keeps I (sysfs_read_int path)"
  unfolding sysfs_read_int_def by (intro frame_rules assms)

lemma frame_open_input_dev_node [frame_rules]:
  assumes "\<And>e s. I s \<Longrightarrow> I (s\<lparr>tr := e # tr s\<rparr>)" "\<And>s. I s \<Longrightarrow> I (s\<lparr>ub := True\<rparr>)"
  shows "keeps I (sysfs_open_input_dev_node n name mode)"
  unfolding sysfs_open_input_dev_node_def by (intro frame_rules assms)

lemma frame_input_open_ev_fd [frame_rules]:
  assumes "\<And>e s. I s \<Longrightarrow> I (s\<lparr>tr := e # tr s\<rparr>)" "\<And>s. I s \<Longrightarrow> I (s\<lparr>ub := True\<rparr>)"
  shows "keeps I (input_open_ev_fd n)"
  unfolding input_open_ev_fd_def by (intro frame_rules assms)

lemmas [frame_rules] = keeps_get_input_dev_num

end
