(* ===== verification/Axis_Remap.thy ===== *)
theory Axis_Remap
  imports Prelude
begin

text \<open>
  The placement of a sensor chip on the board: \<open>hw_remap_sensor_data\<close> of
  \<open>sensors/daemon/src/hw/hw_cntl.c\<close> and the tables of \<open>axis_remap_a.c\<close> and \<open>axis_remap_m.c\<close>.
\<close>

record ival =
  vx :: int
  vy :: int
  vz :: int

record axis_remap =
  rx :: nat
  ry :: nat
  rz :: nat
  sx :: nat
  sy :: nat
  sz :: nat

text \<open>
  \<open>tmp.v\<close> has four elements of which three are set. The selectors are two bits wide, so they can
  select the fourth: \<open>None\<close>, the code reads an indeterminate value.
\<close>

definition sel :: "int list \<Rightarrow> nat \<Rightarrow> int option" where
  "sel v i = (if i < length v then Some (v ! i) else None)"

definition hw_remap_sensor_data :: "ival \<Rightarrow> axis_remap \<Rightarrow> ival option" where
  "hw_remap_sensor_data data remap = do {
     let tmp = [vx data, vy data, vz data];
     x \<leftarrow> sel tmp (rx remap);
     let tmp = [tmp ! 1, tmp ! 0, tmp ! 2];
     y \<leftarrow> sel tmp (ry remap);
     let tmp = [tmp ! 2, tmp ! 1, tmp ! 0];
     z \<leftarrow> sel tmp (rz remap);
     let x = (if sx remap \<noteq> 0 then swrap 32 (0 - x) else x);
     let y = (if sy remap \<noteq> 0 then swrap 32 (0 - y) else y);
     let z = (if sz remap \<noteq> 0 then swrap 32 (0 - z) else z);
     Some \<lparr>vx = x, vy = y, vz = z\<rparr>
   }"

fun remap_of :: "nat list \<Rightarrow> axis_remap" where
  "remap_of [a, b, c, d, e, f] = \<lparr>rx = a, ry = b, rz = c, sx = d, sy = e, sz = f\<rparr>"
| "remap_of _ = \<lparr>rx = 0, ry = 0, rz = 0, sx = 0, sy = 0, sz = 0\<rparr>"

text \<open>The table of the accelerometer; \<open>bmc056\<close>: \<open>HW_ID_A == HW_ID_A_BMC056\<close>.\<close>

definition axis_remap_tab_a :: "bool \<Rightarrow> axis_remap list" where
  "axis_remap_tab_a bmc056 = map remap_of
    (if bmc056 then
      [[0, 0, 0, 1, 1, 0],
       [1, 1, 0, 1, 0, 0],
       [1, 1, 0, 0, 1, 0],
       [0, 0, 0, 0, 0, 0],
       [1, 1, 0, 0, 0, 1],
       [0, 0, 0, 0, 1, 1],
       [0, 0, 0, 1, 0, 1],
       [1, 1, 0, 1, 1, 1]]
     else
      [[1, 1, 0, 1, 0, 0],
       [0, 0, 0, 0, 0, 0],
       [0, 0, 0, 1, 1, 0],
       [1, 1, 0, 0, 1, 0],
       [0, 0, 0, 1, 0, 1],
       [1, 1, 0, 0, 0, 1],
       [1, 1, 0, 1, 1, 1],
       [0, 0, 0, 0, 1, 1]])"

text \<open>The table of the magnetometer; \<open>bmm150\<close>: \<open>HW_ID_M == HW_ID_M_BMM150\<close>.\<close>

definition axis_remap_tab_m :: "bool \<Rightarrow> axis_remap list" where
  "axis_remap_tab_m bmm150 = map remap_of
    (if bmm150 then
      [[1, 1, 0, 0, 0, 1],
       [0, 0, 0, 0, 1, 1],
       [0, 0, 0, 1, 0, 1],
       [1, 1, 0, 1, 1, 1],
       [0, 0, 0, 1, 1, 0],
       [1, 1, 0, 1, 0, 0],
       [1, 1, 0, 0, 1, 0],
       [0, 0, 0, 0, 0, 0]]
     else
      [[1, 1, 0, 1, 0, 0],
       [0, 0, 0, 0, 0, 0],
       [0, 0, 0, 1, 1, 0],
       [1, 1, 0, 0, 1, 0],
       [0, 0, 0, 1, 0, 1],
       [1, 1, 0, 0, 0, 1],
       [1, 1, 0, 1, 1, 1],
       [0, 0, 0, 0, 1, 1]])"

section \<open>Every placement is a rotation\<close>

definition cross :: "ival \<Rightarrow> ival \<Rightarrow> ival" where
  "cross u v = \<lparr>vx = vy u * vz v - vz u * vy v, vy = vz u * vx v - vx u * vz v,
     vz = vx u * vy v - vy u * vx v\<rparr>"

definition norm2 :: "ival \<Rightarrow> int" where
  "norm2 v = vx v * vx v + vy v * vy v + vz v * vz v"

text \<open>The components of \<open>v\<close> can be negated in 32 bits.\<close>

definition in_s32 :: "ival \<Rightarrow> bool" where
  "in_s32 v \<longleftrightarrow> (\<forall>x \<in> {vx v, vy v, vz v}. - (2 ^ 31) < x \<and> x < 2 ^ 31)"

text \<open>The rotation an entry stands for, without the wrap-around.\<close>

definition rotation_of :: "axis_remap \<Rightarrow> ival \<Rightarrow> ival" where
  "rotation_of e v =
    (let x = (if rx e = 0 then vx v else vy v); y = (if rx e = 0 then vy v else vx v) in
     \<lparr>vx = (if sx e = 0 then x else - x), vy = (if sy e = 0 then y else - y),
      vz = (if sz e = 0 then vz v else - vz v)\<rparr>)"

text \<open>
  An entry is a rotation when it swaps the first two axes or none, and the number of signs it
  changes is odd exactly when it swaps.
\<close>

definition rotation_entry :: "axis_remap \<Rightarrow> bool" where
  "rotation_entry e \<longleftrightarrow> (rx e, ry e, rz e) \<in> {(0, 0, 0), (1, 1, 0)} \<and>
     {sx e, sy e, sz e} \<subseteq> {0, 1} \<and> (rx e = 0 \<longleftrightarrow> even (sx e + sy e + sz e))"

lemmas remap_simps = hw_remap_sensor_data_def sel_def

lemma rotation_norm: "norm2 (rotation_of e v) = norm2 v"
  by (simp add: rotation_of_def norm2_def Let_def)

lemma bit_cases: "{x, y, z} \<subseteq> {0, 1} \<Longrightarrow> (x = 0 \<or> x = Suc 0) \<and> (y = 0 \<or> y = Suc 0) \<and> (z = 0 \<or> z = Suc 0)"
  by auto

lemma rotation_entry_cases:
  assumes "rotation_entry e"
  shows "(rx e, sx e, sy e, sz e) \<in>
    {(0, 0, 0, 0), (0, 1, 1, 0), (0, 1, 0, 1), (0, 0, 1, 1), (1, 1, 0, 0), (1, 0, 1, 0), (1, 0, 0, 1), (1, 1, 1, 1)}"
proof -
  have "(sx e = 0 \<or> sx e = Suc 0) \<and> (sy e = 0 \<or> sy e = Suc 0) \<and> (sz e = 0 \<or> sz e = Suc 0)"
    using assms bit_cases unfolding rotation_entry_def by blast
  moreover have "rx e = 0 \<or> rx e = Suc 0" "rx e = 0 \<longleftrightarrow> even (sx e + sy e + sz e)"
    using assms by (auto simp: rotation_entry_def)
  ultimately show ?thesis
    by (elim disjE conjE) simp_all
qed

lemma rotation_cross:
  assumes "rotation_entry e"
  shows "cross (rotation_of e u) (rotation_of e v) = rotation_of e (cross u v)"
proof -
  have "rx e = 0 \<and> sx e = 0 \<and> sy e = 0 \<and> sz e = 0 \<or> rx e = 0 \<and> sx e = 1 \<and> sy e = 1 \<and> sz e = 0
    \<or> rx e = 0 \<and> sx e = 1 \<and> sy e = 0 \<and> sz e = 1 \<or> rx e = 0 \<and> sx e = 0 \<and> sy e = 1 \<and> sz e = 1
    \<or> rx e = 1 \<and> sx e = 1 \<and> sy e = 0 \<and> sz e = 0 \<or> rx e = 1 \<and> sx e = 0 \<and> sy e = 1 \<and> sz e = 0
    \<or> rx e = 1 \<and> sx e = 0 \<and> sy e = 0 \<and> sz e = 1 \<or> rx e = 1 \<and> sx e = 1 \<and> sy e = 1 \<and> sz e = 1"
    using rotation_entry_cases [OF assms] by simp
  then show ?thesis
    by (elim disjE) (simp_all add: rotation_of_def cross_def Let_def algebra_simps)
qed

lemma tab_entries:
  "\<forall>e \<in> set (axis_remap_tab_a b). rotation_entry e" "\<forall>e \<in> set (axis_remap_tab_m b). rotation_entry e"
  by (cases b; simp add: axis_remap_tab_a_def axis_remap_tab_m_def rotation_entry_def)+

lemma tab_length [simp]: "length (axis_remap_tab_a b) = 8" "length (axis_remap_tab_m b) = 8"
  by (auto simp: axis_remap_tab_a_def axis_remap_tab_m_def)

lemma in_s32D:
  "in_s32 v \<Longrightarrow> swrap 32 (- vx v) = - vx v" "in_s32 v \<Longrightarrow> swrap 32 (- vy v) = - vy v"
  "in_s32 v \<Longrightarrow> swrap 32 (- vz v) = - vz v"
  by (auto simp: in_s32_def)

lemma rotation_entry_rotates:
  assumes "rotation_entry e" "in_s32 v"
  shows "hw_remap_sensor_data v e = Some (rotation_of e v)"
proof -
  have "rx e = 0 \<and> ry e = 0 \<and> rz e = 0 \<or> rx e = 1 \<and> ry e = 1 \<and> rz e = 0"
    using assms(1) by (auto simp: rotation_entry_def)
  then show ?thesis
    using in_s32D [OF assms(2)] by (elim disjE) (simp_all add: rotation_of_def remap_simps Let_def)
qed

end
