(* ===== verification/Hw_Types.thy ===== *)
theory Hw_Types
  imports Util_Misc Util_Time Util_Sysfs Axis_Remap
begin

text \<open>
  The data of the hardware layer of \<open>sensord\<close>: the configuration macros the preprocessor reads
  (\<open>configure.h\<close>, \<open>configure_hw.h\<close>, \<open>options.h\<close>, \<open>hw_if_a.h\<close>, \<open>feature.h\<close> and the flags of
  \<open>Android.mk\<close>), the devices of \<open>sensor_hw.h\<close>, and the globals of \<open>hw_cntl_a.c\<close> and
  \<open>hw_cntl_m.c\<close>. The macros are fields of a constant of the state, so one definition covers every
  configuration; \<open>nicki_build\<close> is the one that is built for the phone.
\<close>

record build_opts =
  spt_a :: bool
  spt_g :: bool
  spt_m :: bool
  spt_o :: bool
  spt_p :: bool
  spt_vg :: bool
  spt_vla :: bool
  spt_vrv :: bool
  spt_gest_flip :: bool
  g_emu :: bool
  bypass_proc_a :: bool
  spt_hw_a :: bool
  spt_hw_m :: bool
  input_event_a :: bool
  input_event_cache_a :: bool
  input_event_m :: bool
  data_fullrange_a :: bool
  offset_use_fs :: bool
  cfg_lost_a :: bool
  cfg_lost_m :: bool
  no_scale_mag :: bool
  id_a_bmc056 :: bool
  id_m_bmm150 :: bool
  use_data_log :: bool
  fix_quat_sign :: bool
  algo_gest_flip :: bool
  adv_pre_filter :: bool
  predefined_si :: bool
  cust_sic_matrix :: bool
  axis_from_file :: bool
  discard_old_cmd :: bool
  handle_fault_sig :: bool
  log_to_file :: bool
  early_log :: bool

definition nicki_build :: build_opts where
  "nicki_build = \<lparr>spt_a = True, spt_g = False, spt_m = True, spt_o = True, spt_p = False, spt_vg = False,
     spt_vla = False, spt_vrv = False, spt_gest_flip = False, g_emu = True, bypass_proc_a = True,
     spt_hw_a = True, spt_hw_m = True, input_event_a = False, input_event_cache_a = True,
     input_event_m = False, data_fullrange_a = True, offset_use_fs = True, cfg_lost_a = False,
     cfg_lost_m = False, no_scale_mag = False, id_a_bmc056 = False, id_m_bmm150 = False,
     use_data_log = False, fix_quat_sign = False, algo_gest_flip = True, adv_pre_filter = True,
     predefined_si = True, cust_sic_matrix = False, axis_from_file = True, discard_old_cmd = True,
     handle_fault_sig = True, log_to_file = True, early_log = False\<rparr>"

text \<open>\<open>enum SENSOR_HW_TYPE\<close>\<close>

abbreviation (input) SENSOR_HW_TYPE_A :: nat where "SENSOR_HW_TYPE_A \<equiv> 0"
abbreviation (input) SENSOR_HW_TYPE_M :: nat where "SENSOR_HW_TYPE_M \<equiv> 4"
abbreviation (input) SENSOR_HW_TYPE_P :: nat where "SENSOR_HW_TYPE_P \<equiv> 5"
abbreviation (input) SENSOR_HW_TYPE_MAX :: nat where "SENSOR_HW_TYPE_MAX \<equiv> 7"

text \<open>The two devices with code: \<open>g_hw_a.hw\<close> and \<open>g_hw_m.hw\<close>.\<close>

datatype hw_dev = HW_A | HW_M

record sensor_hw =
  hw_type :: nat
  hw_available :: bool
  hw_fd_pollable :: bool
  hw_ref :: int
  hw_enabled :: bool
  hw_drdy :: bool
  hw_delay :: int
  hw_fd_poll :: int
  hw_ts_last_update :: int

record hw_st = time_st +
  build :: build_opts
  g_hw_a :: sensor_hw
  g_hw_m :: sensor_hw
  hwa_bw :: int
  hwa_range :: int
  hwa_data_bits :: int
  g_input_dev_num_a :: int
  g_fd_value_a :: int
  g_fd_update_a :: int
  g_fd_input_ev_a :: int
  g_place_a :: int
  g_input_dev_num_m :: int
  g_fd_value_m :: int
  g_fd_op_mode_m :: int
  g_fd_input_ev_m :: int
  g_place_m :: int
  g_rept_xy :: int
  g_rept_z :: int

definition hw_of :: "hw_dev \<Rightarrow> 'a hw_st_scheme \<Rightarrow> sensor_hw" where
  "hw_of d s = (case d of HW_A \<Rightarrow> g_hw_a s | HW_M \<Rightarrow> g_hw_m s)"

definition upd_hw :: "hw_dev \<Rightarrow> (sensor_hw \<Rightarrow> sensor_hw) \<Rightarrow> ('a hw_st_scheme, unit) state" where
  "upd_hw d f = modify (\<lambda>s. case d of HW_A \<Rightarrow> s\<lparr>g_hw_a := f (g_hw_a s)\<rparr> | HW_M \<Rightarrow> s\<lparr>g_hw_m := f (g_hw_m s)\<rparr>)"

definition dev_type :: "hw_dev \<Rightarrow> nat" where
  "dev_type d = (case d of HW_A \<Rightarrow> SENSOR_HW_TYPE_A | HW_M \<Rightarrow> SENSOR_HW_TYPE_M)"

lemma dev_type_inj [simp]: "dev_type d = dev_type d' \<longleftrightarrow> d = d'"
  by (cases d; cases d') (auto simp: dev_type_def)

text \<open>The state changed in the record of one device only.\<close>

definition with_hw :: "hw_dev \<Rightarrow> (sensor_hw \<Rightarrow> sensor_hw) \<Rightarrow> 'a hw_st_scheme \<Rightarrow> 'a hw_st_scheme" where
  "with_hw d f s = (case d of HW_A \<Rightarrow> s\<lparr>g_hw_a := f (g_hw_a s)\<rparr> | HW_M \<Rightarrow> s\<lparr>g_hw_m := f (g_hw_m s)\<rparr>)"

lemma run_upd_hw [simp]: "run_state (upd_hw d f) s = ((), with_hw d f s)"
  by (simp add: upd_hw_def with_hw_def)

lemma hw_of_with_hw [simp]: "hw_of d' (with_hw d f s) = (if d' = d then f (hw_of d s) else hw_of d' s)"
  by (cases d; cases d') (auto simp: hw_of_def with_hw_def)

lemma with_hw_frame [simp]:
  "tr (with_hw d f s) = tr s" "env (with_hw d f s) = env s" "fl (with_hw d f s) = fl s"
  "ub (with_hw d f s) = ub s" "build (with_hw d f s) = build s"
  by (cases d; simp add: with_hw_def)+

lemma hw_of_frame [simp]:
  "hw_of d (s\<lparr>tr := es\<rparr>) = hw_of d s" "hw_of d (s\<lparr>ub := b\<rparr>) = hw_of d s"
  by (cases d; simp add: hw_of_def)+

lemma grows_upd_hw [grows_rules]: "grows (upd_hw d f)"
  by (simp add: grows_def)

lemma keeps_upd_hw [keeps_rules]: "(\<And>s. I s \<Longrightarrow> I (with_hw d f s)) \<Longrightarrow> keeps I (upd_hw d f)"
  by (simp add: keeps_def)

section \<open>Input events\<close>

text \<open>
  \<open>read\<close> of a \<open>struct input_event\<close> (16 bytes): the reply's numbers are \<open>type\<close>, \<open>code\<close>, \<open>value\<close>.
\<close>

abbreviation (input) EV_SYN :: int where "EV_SYN \<equiv> 0"
abbreviation (input) EV_ABS :: int where "EV_ABS \<equiv> 3"

definition put_abs :: "reply \<Rightarrow> ival \<Rightarrow> ival" where
  "put_abs r val =
     (if num r 0 = EV_ABS then
        (if num r 1 = 0 then val\<lparr>vx := num r 2\<rparr>
         else if num r 1 = 1 then val\<lparr>vy := num r 2\<rparr>
         else if num r 1 = 2 then val\<lparr>vz := num r 2\<rparr>
         else val)
      else val)"

text \<open>
  The loop up to \<open>EV_SYN\<close>: \<open>Inl (- 1)\<close> when a read fails. \<open>fuel\<close> bounds the events of one report;
  a report that never ends is one the call does not return from, which sets \<open>ub\<close>.
\<close>

fun input_ev_loop :: "nat \<Rightarrow> int \<Rightarrow> ival \<Rightarrow> ('a world_scheme, (int \<times> ival) + ival) state" where
  "input_ev_loop 0 fd val = do { must False; ret (Inr val) }"
| "input_ev_loop (Suc fuel) fd val = do {
     r \<leftarrow> call (E_read fd 16);
     if rv r < 16 then ret (Inl (- 1, val))
     else if num r 0 = EV_SYN then ret (Inr val)
     else input_ev_loop fuel fd (put_abs r val)
   }"

definition INPUT_EV_FUEL :: nat where "INPUT_EV_FUEL = 64"

definition scan3 :: "string \<Rightarrow> fval list" where
  "scan3 txt = sscanf [F_d 11, F_ws, F_d 11, F_ws, F_d 11] txt"

text \<open>The variables \<open>sscanf\<close> stores to, for the conversions that succeeded.\<close>

definition put3 :: "fval list \<Rightarrow> ival \<Rightarrow> ival" where
  "put3 vs val = \<lparr>vx = (if 0 < length vs then as_int (vs ! 0) else vx val),
     vy = (if 1 < length vs then as_int (vs ! 1) else vy val),
     vz = (if 2 < length vs then as_int (vs ! 2) else vz val)\<rparr>"

text \<open>
  \<open>hw_remap_sensor_data(val, tab + place)\<close> of a place that is not negative: the entry must exist.
\<close>

definition remap_at :: "axis_remap list \<Rightarrow> int \<Rightarrow> ival \<Rightarrow> ('a world_scheme, ival) state" where
  "remap_at tab place val =
     (if 0 \<le> place then
        (if nat place < length tab then
           (case hw_remap_sensor_data val (tab ! nat place) of
              Some v \<Rightarrow> ret v | None \<Rightarrow> do { must False; ret val })
         else do { must False; ret val })
      else ret val)"

lemma grows_input_ev_loop [grows_rules]: "grows (input_ev_loop n fd val)"
  by (induction n arbitrary: val) (auto intro!: grows_rules)

lemma grows_remap_at [grows_rules]: "grows (remap_at tab place val)"
  unfolding remap_at_def by (auto intro!: grows_rules)

lemma run_remap_at:
  assumes "\<forall>e \<in> set tab. rotation_entry e" "place < int (length tab)" "in_s32 val"
  shows "run_state (remap_at tab place val) s =
    (if 0 \<le> place then rotation_of (tab ! nat place) val else val, s)"
proof (cases "0 \<le> place")
  case True
  then have "nat place < length tab" using assms(2) by auto
  then have "rotation_entry (tab ! nat place)" using assms(1) by auto
  with True \<open>nat place < length tab\<close> assms(3) show ?thesis
    by (simp add: remap_at_def rotation_entry_rotates)
qed (simp add: remap_at_def)

section \<open>What the operations on a device leave alone\<close>

text \<open>The two device records, the configuration and all the state above the hardware layer.\<close>

definition hw_view :: "'a hw_st_scheme \<Rightarrow> sensor_hw \<times> sensor_hw \<times> build_opts \<times> 'a" where
  "hw_view s = (g_hw_a s, g_hw_m s, build s, hw_st.more s)"

text \<open>\<open>m\<close> changes nothing of it.\<close>

definition hw_quiet :: "('a hw_st_scheme, 'b) state \<Rightarrow> bool" where
  "hw_quiet m \<longleftrightarrow> (\<forall>v. keeps (\<lambda>s. hw_view s = v) m)"

lemma hw_quietI: "(\<And>v. keeps (\<lambda>s. hw_view s = v) m) \<Longrightarrow> hw_quiet m"
  by (simp add: hw_quiet_def)

lemma hw_quiet_view: "hw_quiet m \<Longrightarrow> hw_view (snd (run_state m s)) = hw_view s"
  unfolding hw_quiet_def keeps_def by blast

lemma hw_quiet_frame:
  assumes "hw_quiet m"
  shows "hw_of d (snd (run_state m s)) = hw_of d s" "build (snd (run_state m s)) = build s"
    "hw_st.more (snd (run_state m s)) = hw_st.more s"
  using hw_quiet_view [OF assms, of s] by (auto simp: hw_view_def hw_of_def split: hw_dev.splits)

named_theorems quiet_rules

lemma hw_quiet_basic [quiet_rules]:
  "hw_quiet (ret x)" "hw_quiet (gets f)" "hw_quiet (must b)" "hw_quiet (call e)" "hw_quiet (emit e)"
  by (auto simp: hw_quiet_def keeps_def hw_view_def)

lemma hw_quiet_modify [quiet_rules]: "(\<And>s. hw_view (f s) = hw_view s) \<Longrightarrow> hw_quiet (modify f)"
  by (auto simp: hw_quiet_def keeps_def)

lemma hw_quiet_bind [quiet_rules]:
  "hw_quiet m \<Longrightarrow> (\<And>a. hw_quiet (f a)) \<Longrightarrow> hw_quiet (State_Monad.bind m f)"
  by (auto simp: hw_quiet_def intro!: keeps_bind)

lemma hw_quiet_if [quiet_rules]: "(b \<Longrightarrow> hw_quiet m) \<Longrightarrow> (\<not> b \<Longrightarrow> hw_quiet m') \<Longrightarrow> hw_quiet (if b then m else m')"
  by simp

lemma hw_quiet_Let [quiet_rules]: "(\<And>x. hw_quiet (f x)) \<Longrightarrow> hw_quiet (Let a f)"
  by simp

lemma hw_quiet_case_prod [quiet_rules]:
  "(\<And>a b. hw_quiet (f a b)) \<Longrightarrow> hw_quiet (case x of (a, b) \<Rightarrow> f a b)"
  by (cases x) auto

lemma hw_quiet_lib [quiet_rules]:
  "hw_quiet (sprintf_to n txt)" "hw_quiet (sysfs_write_int path v)" "hw_quiet (sysfs_read_int path)"
  "hw_quiet (sysfs_open_input_dev_node n name mode)" "hw_quiet (input_open_ev_fd n)"
  "hw_quiet (sysfs_get_input_dev_num pname)" "hw_quiet (eusleep us)"
  by (auto intro!: hw_quietI frame_rules keeps_eusleep simp: hw_view_def)

lemma hw_quiet_input_ev_loop [quiet_rules]: "hw_quiet (input_ev_loop n fd val)"
  by (induction n arbitrary: val) (auto intro!: quiet_rules)

lemma hw_quiet_remap_at [quiet_rules]: "hw_quiet (remap_at tab place val)"
  unfolding remap_at_def by (auto intro!: quiet_rules split: option.splits)

lemma lockt_upd_hw [lock_rules]: "lockt ls (upd_hw d f) ls"
  by (auto intro!: lockt_silent)

lemma lockt_input_ev_loop [lock_rules]: "lockt ls (input_ev_loop n fd val) ls"
  by (induction n arbitrary: val) (auto intro!: lock_rules)

lemma lockt_remap_at [lock_rules]: "lockt ls (remap_at tab place val) ls"
  unfolding remap_at_def by (auto intro!: lock_rules split: option.splits)

end
