(* ===== verification/Hw_A.thy ===== *)
theory Hw_A
  imports Hw_Types
begin

text \<open>
  \<open>sensors/daemon/src/hw/a/hw_cntl_a.c\<close>: the accelerometer BMA250 behind its sysfs nodes. The
  readers return the error code and the vector \<open>*data\<close> afterwards.
\<close>

abbreviation (input) HW_INFO_DATA_BITS_A :: nat where "HW_INFO_DATA_BITS_A \<equiv> 10"
abbreviation (input) HW_INFO_DELAY_WAKE_UP_A :: int where "HW_INFO_DELAY_WAKE_UP_A \<equiv> 10000"
abbreviation (input) HW_A_OPMODE_NORMAL :: int where "HW_A_OPMODE_NORMAL \<equiv> 0"
abbreviation (input) HW_A_OPMODE_SUSPEND :: int where "HW_A_OPMODE_SUSPEND \<equiv> 2"
abbreviation (input) HW_A_RANGE_2G :: int where "HW_A_RANGE_2G \<equiv> 0"
abbreviation (input) HW_A_BW_INVALID :: int where "HW_A_BW_INVALID \<equiv> - 1"

text \<open>The arrays have the lengths of the enumerations; the rows that are not written are zero.\<close>

definition map_a_range :: "(int \<times> int) list" where
  "map_a_range = [(0, 3), (1, 5), (2, 8), (3, 12), (0, 0)]"

definition map_a_bw :: "(int \<times> int) list" where
  "map_a_bw = [(0, 0x08), (1, 0x09), (2, 0x0a), (3, 0x0b), (4, 0x0c), (0, 0), (0, 0), (0, 0), (0, 0)]"

definition DELAY_REF_BW_MAX :: int where "DELAY_REF_BW_MAX = 256000"

text \<open>The index at which the search loops stop: the first row with the key, or the length.\<close>

fun map_index :: "(int \<times> int) list \<Rightarrow> int \<Rightarrow> nat" where
  "map_index [] x = 0"
| "map_index ((l, r) # m) x = (if l = x then 0 else Suc (map_index m x))"

definition node_path_a :: "string \<Rightarrow> ('a hw_st_scheme, string) state" where
  "node_path_a node = do { n \<leftarrow> gets g_input_dev_num_a; sprintf_to 128 (input_path n node) }"

definition hw_set_fast_calib_offset :: "('a hw_st_scheme, unit) state" where
  "hw_set_fast_calib_offset = do {
     b \<leftarrow> gets build;
     if offset_use_fs b then do {
       r \<leftarrow> call (E_open ''/data/misc/sensor/fast_calib_a'' [O_RDONLY]);
       if rv r \<noteq> - 1 then do {
         d \<leftarrow> call (E_read (rv r) 63);
         emit (E_close (rv r));
         if 0 < rv d then
           (case sscanf [F_d 11, F_lit (CHR '',''), F_d 11, F_lit (CHR '',''), F_d 11]
                (cstr (take (min 63 (nat (rv d))) (rbuf d))) of
              [ox, oy, oz] \<Rightarrow> do {
                path \<leftarrow> node_path_a ''offset_x'';
                _ \<leftarrow> sysfs_write_int path (as_int ox);
                path \<leftarrow> node_path_a ''offset_y'';
                _ \<leftarrow> sysfs_write_int path (as_int oy);
                path \<leftarrow> node_path_a ''offset_z'';
                _ \<leftarrow> sysfs_write_int path (as_int oz);
                ret ()
              }
            | _ \<Rightarrow> ret ())
         else ret ()
       } else ret ()
     } else ret ()
   }"

definition hw_acc_read_xyzdata_fr :: "('a hw_st_scheme, int \<times> ival) state" where
  "hw_acc_read_xyzdata_fr = do {
     let val = \<lparr>vx = 0, vy = 0, vz = 0\<rparr>;
     b \<leftarrow> gets build;
     fd_update \<leftarrow> gets g_fd_update_a;
     (if \<not> input_event_cache_a b \<and> \<not> input_event_a b \<and> fd_update \<noteq> - 1 then do {
        emit (E_lseek_set fd_update);
        emit (E_write fd_update ''1'')
      } else ret ());
     fd \<leftarrow> gets g_fd_value_a;
     if fd \<noteq> - 1 then do {
       emit (E_lseek_set fd);
       d \<leftarrow> call (E_read fd 63);
       if 0 < rv d then
         let vs = scan3 (cstr (take (min 63 (nat (rv d))) (rbuf d))) in
         ret (if length vs = 3 then 0 else - EINVAL, put3 vs val)
       else ret (- EIO, val)
     } else ret (0, val)
   }"

text \<open>\<open>>>\<close> of each component, which keeps the sign.\<close>

definition shift3 :: "nat \<Rightarrow> ival \<Rightarrow> ival" where
  "shift3 n val = \<lparr>vx = drop_bit n (vx val), vy = drop_bit n (vy val), vz = drop_bit n (vz val)\<rparr>"

definition hw_acc_read_xyzdata :: "('a hw_st_scheme, int \<times> ival) state" where
  "hw_acc_read_xyzdata = do {
     (err, val) \<leftarrow> hw_acc_read_xyzdata_fr;
     b \<leftarrow> gets build;
     place \<leftarrow> gets g_place_a;
     val \<leftarrow> remap_at (axis_remap_tab_a (id_a_bmc056 b)) place val;
     let val = (if data_fullrange_a b then shift3 (16 - HW_INFO_DATA_BITS_A) val else val);
     ret (err, val)
   }"

definition hw_acc_read_xyzdata_input_ev :: "ival \<Rightarrow> ('a hw_st_scheme, int \<times> ival) state" where
  "hw_acc_read_xyzdata_input_ev val = do {
     fd \<leftarrow> gets g_fd_input_ev_a;
     x \<leftarrow> input_ev_loop INPUT_EV_FUEL fd val;
     case x of
       Inl e \<Rightarrow> ret e
     | Inr val \<Rightarrow> do {
         b \<leftarrow> gets build;
         let val = (if data_fullrange_a b then shift3 (16 - HW_INFO_DATA_BITS_A) val else val);
         place \<leftarrow> gets g_place_a;
         val \<leftarrow> remap_at (axis_remap_tab_a (id_a_bmc056 b)) place val;
         ret (0, val)
       }
   }"

definition hw_acc_set_grange :: "int \<Rightarrow> ('a hw_st_scheme, int) state" where
  "hw_acc_set_grange rng = do {
     path \<leftarrow> node_path_a ''range'';
     let i = map_index map_a_range (swrap 32 rng);
     if i < length map_a_range then do {
       err \<leftarrow> sysfs_write_int path (snd (map_a_range ! i));
       (if err = 0 then modify (\<lambda>s. s\<lparr>hwa_range := uwrap 6 rng\<rparr>) else ret ());
       ret err
     } else ret (- EINVAL)
   }"

definition hw_acc_set_opmode :: "int \<Rightarrow> ('a hw_st_scheme, int) state" where
  "hw_acc_set_opmode mode = do {
     path \<leftarrow> node_path_a ''mode'';
     sysfs_write_int path (uwrap 8 mode)
   }"

definition hw_acc_set_enable_inputev :: "int \<Rightarrow> ('a hw_st_scheme, int) state" where
  "hw_acc_set_enable_inputev enable = do {
     path \<leftarrow> node_path_a ''enable'';
     sysfs_write_int path (of_cbool (enable \<noteq> 0))
   }"

definition hw_acc_set_delay :: "int \<Rightarrow> ('a hw_st_scheme, int) state" where
  "hw_acc_set_delay delay = do {
     path \<leftarrow> node_path_a ''delay'';
     err \<leftarrow> sysfs_write_int path delay;
     (if err = 0 then upd_hw HW_A (\<lambda>h. h\<lparr>hw_delay := swrap 10 delay\<rparr>) else ret ());
     ret err
   }"

definition hw_acc_set_bandwidth :: "int \<Rightarrow> ('a hw_st_scheme, int) state" where
  "hw_acc_set_bandwidth bw = do {
     bw0 \<leftarrow> gets hwa_bw;
     if bw = bw0 then ret 0
     else do {
       path \<leftarrow> node_path_a ''bandwidth'';
       let i = map_index map_a_bw (swrap 32 bw);
       if i < length map_a_bw then do {
         err \<leftarrow> sysfs_write_int path (uwrap 8 (snd (map_a_bw ! i)));
         if err = 0 then do {
           modify (\<lambda>s. s\<lparr>hwa_bw := uwrap 12 bw\<rparr>);
           eusleep (drop_bit i DELAY_REF_BW_MAX);
           ret err
         } else ret err
       } else ret (- EINVAL)
     }
   }"

definition hw_init_a_settings :: "('a hw_st_scheme, unit) state" where
  "hw_init_a_settings = do {
     _ \<leftarrow> hw_acc_set_opmode HW_A_OPMODE_NORMAL;
     eusleep HW_INFO_DELAY_WAKE_UP_A;
     _ \<leftarrow> hw_acc_set_grange HW_A_RANGE_2G;
     modify (\<lambda>s. s\<lparr>hwa_bw := uwrap 12 HW_A_BW_INVALID\<rparr>)
   }"

definition hw_init_a :: "('a hw_st_scheme, int) state" where
  "hw_init_a = do {
     n \<leftarrow> sysfs_get_input_dev_num ''bma250'';
     modify (\<lambda>s. s\<lparr>g_input_dev_num_a := n\<rparr>);
     fd \<leftarrow> sysfs_open_input_dev_node n ''value'' [O_RDONLY];
     modify (\<lambda>s. s\<lparr>g_fd_value_a := fd\<rparr>);
     fd \<leftarrow> sysfs_open_input_dev_node n ''update'' [O_WRONLY];
     modify (\<lambda>s. s\<lparr>g_fd_update_a := fd\<rparr>);
     hw_set_fast_calib_offset;
     hw_init_a_settings;
     upd_hw HW_A (\<lambda>h. h\<lparr>hw_fd_pollable := True\<rparr>);
     fd \<leftarrow> input_open_ev_fd n;
     upd_hw HW_A (\<lambda>h. h\<lparr>hw_fd_poll := fd\<rparr>);
     modify (\<lambda>s. s\<lparr>g_fd_input_ev_a := fd, hwa_data_bits := int HW_INFO_DATA_BITS_A\<rparr>);
     path \<leftarrow> node_path_a ''place'';
     (err, place) \<leftarrow> sysfs_read_int path;
     must (err = 0 \<longrightarrow> place \<noteq> None);
     (if err = 0 \<and> place \<noteq> Some (- 1) then modify (\<lambda>s. s\<lparr>g_place_a := - 1\<rparr>) else ret ());
     ret 0
   }"

definition hw_enable_a :: "int \<Rightarrow> ('a hw_st_scheme, int) state" where
  "hw_enable_a enable = do {
     err \<leftarrow>
       (if enable \<noteq> 0 then do {
          err \<leftarrow> hw_acc_set_opmode HW_A_OPMODE_NORMAL;
          eusleep HW_INFO_DELAY_WAKE_UP_A;
          bw \<leftarrow> gets hwa_bw;
          let i = map_index map_a_bw bw;
          let i = (if length map_a_bw \<le> i then 0 else i);
          eusleep (drop_bit i DELAY_REF_BW_MAX);
          ret err
        } else hw_acc_set_opmode HW_A_OPMODE_SUSPEND);
     b \<leftarrow> gets build;
     if input_event_a b \<or> input_event_cache_a b then do {
       e \<leftarrow> hw_acc_set_enable_inputev enable;
       ret (or err e)
     } else ret err
   }"

definition hw_restore_cfg_a :: "('a hw_st_scheme, int) state" where
  "hw_restore_cfg_a = do {
     b \<leftarrow> gets build;
     if cfg_lost_a b then do {
       bw \<leftarrow> gets hwa_bw;
       err \<leftarrow> hw_acc_set_bandwidth bw;
       rng \<leftarrow> gets hwa_range;
       e \<leftarrow> hw_acc_set_grange rng;
       ret (or err e)
     } else ret 0
   }"

section \<open>What the operations leave alone\<close>

lemma quiet_hw_a [quiet_rules]:
  "hw_quiet (node_path_a node)" "hw_quiet hw_set_fast_calib_offset" "hw_quiet hw_acc_read_xyzdata_fr"
  unfolding node_path_a_def hw_set_fast_calib_offset_def hw_acc_read_xyzdata_fr_def
  by (auto intro!: quiet_rules split: list.splits)

lemma quiet_read_a [quiet_rules]: "hw_quiet hw_acc_read_xyzdata" "hw_quiet (hw_acc_read_xyzdata_input_ev val)"
  unfolding hw_acc_read_xyzdata_def hw_acc_read_xyzdata_input_ev_def
  by (auto intro!: quiet_rules split: sum.splits)

lemma quiet_set_a [quiet_rules]:
  "hw_quiet (hw_acc_set_grange r)" "hw_quiet (hw_acc_set_opmode m)" "hw_quiet (hw_acc_set_enable_inputev e)"
  "hw_quiet (hw_acc_set_bandwidth bw)" "hw_quiet hw_init_a_settings"
  unfolding hw_acc_set_grange_def hw_acc_set_opmode_def hw_acc_set_enable_inputev_def
    hw_acc_set_bandwidth_def hw_init_a_settings_def node_path_a_def
  by (auto intro!: quiet_rules simp: hw_view_def)

lemma quiet_enable_a [quiet_rules]: "hw_quiet (hw_enable_a e)" "hw_quiet hw_restore_cfg_a"
  unfolding hw_enable_a_def hw_restore_cfg_a_def by (auto intro!: quiet_rules)

lemma lockt_hw_a [lock_rules]:
  "lockt ls (node_path_a node) ls" "lockt ls hw_set_fast_calib_offset ls" "lockt ls hw_acc_read_xyzdata_fr ls"
  unfolding node_path_a_def hw_set_fast_calib_offset_def hw_acc_read_xyzdata_fr_def
  by (auto intro!: lock_rules split: list.splits)

lemma lockt_read_a [lock_rules]:
  "lockt ls hw_acc_read_xyzdata ls" "lockt ls (hw_acc_read_xyzdata_input_ev val) ls"
  unfolding hw_acc_read_xyzdata_def hw_acc_read_xyzdata_input_ev_def
  by (auto intro!: lock_rules split: sum.splits)

lemma lockt_set_a [lock_rules]:
  "lockt ls (hw_acc_set_grange r) ls" "lockt ls (hw_acc_set_opmode m) ls"
  "lockt ls (hw_acc_set_enable_inputev e) ls" "lockt ls (hw_acc_set_bandwidth bw) ls"
  "lockt ls hw_init_a_settings ls" "lockt ls (hw_acc_set_delay dl) ls"
  unfolding hw_acc_set_grange_def hw_acc_set_opmode_def hw_acc_set_enable_inputev_def
    hw_acc_set_bandwidth_def hw_init_a_settings_def hw_acc_set_delay_def
  by (auto intro!: lock_rules)

lemma lockt_enable_a [lock_rules]:
  "lockt ls (hw_enable_a e) ls" "lockt ls hw_restore_cfg_a ls" "lockt ls hw_init_a ls"
  unfolding hw_enable_a_def hw_restore_cfg_a_def hw_init_a_def by (auto intro!: lock_rules)

end
