(* ===== verification/Hw_M.thy ===== *)
theory Hw_M
  imports Hw_Types
begin

text \<open>
  \<open>sensors/daemon/src/hw/m/hw_cntl_m.c\<close>: the magnetometer BMM050 behind its sysfs nodes.
\<close>

abbreviation (input) HW_INFO_DELAY_WAKE_UP_M :: int where "HW_INFO_DELAY_WAKE_UP_M \<equiv> 10000"
abbreviation (input) HW_M_OMMODE_FORCED :: int where "HW_M_OMMODE_FORCED \<equiv> 1"
abbreviation (input) HW_M_OMMODE_SUSPEND :: int where "HW_M_OMMODE_SUSPEND \<equiv> 2"
abbreviation (input) HW_M_OMMODE_SLEEP :: int where "HW_M_OMMODE_SLEEP \<equiv> 3"
abbreviation (input) BMM_REGULAR_REPXY :: int where "BMM_REGULAR_REPXY \<equiv> 4"
abbreviation (input) BMM_REGULAR_REPZ :: int where "BMM_REGULAR_REPZ \<equiv> 15"

definition node_path_m :: "string \<Rightarrow> ('a hw_st_scheme, string) state" where
  "node_path_m node = do { n \<leftarrow> gets g_input_dev_num_m; sprintf_to 128 (input_path n node) }"

definition hw_mag_set_opmode :: "int \<Rightarrow> ('a hw_st_scheme, int) state" where
  "hw_mag_set_opmode mode = do {
     path \<leftarrow> node_path_m ''op_mode'';
     sysfs_write_int path (uwrap 8 mode)
   }"

text \<open>A raw component of \<open>INT_MIN\<close> is an overflow of the chip and becomes \<open>- SHRT_MAX\<close>.\<close>

definition validate_mag :: "bool \<Rightarrow> int \<Rightarrow> int" where
  "validate_mag no_scale x =
     (if x = - (2 ^ 31) then - 32767 else if no_scale then x else drop_bit 2 x)"

definition hw_mag_validate_val :: "bool \<Rightarrow> ival \<Rightarrow> ival" where
  "hw_mag_validate_val no_scale val = \<lparr>vx = validate_mag no_scale (vx val),
     vy = validate_mag no_scale (vy val), vz = validate_mag no_scale (vz val)\<rparr>"

definition remap_m :: "ival \<Rightarrow> ('a hw_st_scheme, ival) state" where
  "remap_m val = do {
     b \<leftarrow> gets build;
     place \<leftarrow> gets g_place_m;
     remap_at (axis_remap_tab_m (id_m_bmm150 b)) place (hw_mag_validate_val (no_scale_mag b) val)
   }"

definition hw_mag_read_xyzdata :: "('a hw_st_scheme, int \<times> ival) state" where
  "hw_mag_read_xyzdata = do {
     let val = \<lparr>vx = 0, vy = 0, vz = 0\<rparr>;
     fd \<leftarrow> gets g_fd_value_m;
     (err, val) \<leftarrow>
       (if fd \<noteq> - 1 then do {
          emit (E_lseek_set fd);
          d \<leftarrow> call (E_read fd 63);
          if 0 < rv d then
            let vs = scan3 (cstr (take (min 63 (nat (rv d))) (rbuf d))) in
            ret (if length vs = 3 then 0 else - EINVAL, put3 vs val)
          else ret (- EIO, val)
        } else ret (0, val));
     fd_op_mode \<leftarrow> gets g_fd_op_mode_m;
     (if fd_op_mode \<noteq> - 1 then do {
        emit (E_lseek_set fd_op_mode);
        emit (E_write fd_op_mode ''1'')
      } else ret ());
     val \<leftarrow> remap_m val;
     ret (err, val)
   }"

definition hw_mag_read_xyzdata_input_ev :: "ival \<Rightarrow> ('a hw_st_scheme, int \<times> ival) state" where
  "hw_mag_read_xyzdata_input_ev val = do {
     fd \<leftarrow> gets g_fd_input_ev_m;
     x \<leftarrow> input_ev_loop INPUT_EV_FUEL fd val;
     case x of
       Inl e \<Rightarrow> ret e
     | Inr val \<Rightarrow> do { val \<leftarrow> remap_m val; ret (0, val) }
   }"

definition hw_mag_set_enable_input_ev :: "int \<Rightarrow> ('a hw_st_scheme, int) state" where
  "hw_mag_set_enable_input_ev enable = do {
     path \<leftarrow> node_path_m ''enable'';
     sysfs_write_int path (of_cbool (uwrap 8 enable \<noteq> 0))
   }"

definition hw_mag_set_delay :: "int \<Rightarrow> ('a hw_st_scheme, int) state" where
  "hw_mag_set_delay delay = do {
     path \<leftarrow> node_path_m ''delay'';
     err \<leftarrow> sysfs_write_int path delay;
     (if err = 0 then upd_hw HW_M (\<lambda>h. h\<lparr>hw_delay := swrap 10 delay\<rparr>) else ret ());
     ret err
   }"

definition hw_init_m_settings :: "('a hw_st_scheme, unit) state" where
  "hw_init_m_settings = modify (\<lambda>s. s\<lparr>g_rept_xy := BMM_REGULAR_REPXY, g_rept_z := BMM_REGULAR_REPZ\<rparr>)"

definition hw_init_m :: "('a hw_st_scheme, int) state" where
  "hw_init_m = do {
     n \<leftarrow> sysfs_get_input_dev_num ''bmm050'';
     modify (\<lambda>s. s\<lparr>g_input_dev_num_m := n\<rparr>);
     fd \<leftarrow> sysfs_open_input_dev_node n ''op_mode'' [O_WRONLY];
     modify (\<lambda>s. s\<lparr>g_fd_op_mode_m := fd\<rparr>);
     fd \<leftarrow> sysfs_open_input_dev_node n ''value'' [O_RDONLY];
     modify (\<lambda>s. s\<lparr>g_fd_value_m := fd\<rparr>);
     upd_hw HW_M (\<lambda>h. h\<lparr>hw_fd_pollable := True\<rparr>);
     fd \<leftarrow> input_open_ev_fd n;
     upd_hw HW_M (\<lambda>h. h\<lparr>hw_fd_poll := fd\<rparr>);
     modify (\<lambda>s. s\<lparr>g_fd_input_ev_m := fd\<rparr>);
     path \<leftarrow> node_path_m ''place'';
     (err, place) \<leftarrow> sysfs_read_int path;
     must (err = 0 \<longrightarrow> place \<noteq> None);
     (if err = 0 \<and> place \<noteq> Some (- 1) then modify (\<lambda>s. s\<lparr>g_place_m := - 1\<rparr>) else ret ());
     hw_init_m_settings;
     ret 0
   }"

definition hw_enable_m :: "int \<Rightarrow> ('a hw_st_scheme, int) state" where
  "hw_enable_m enable = do {
     err \<leftarrow>
       (if enable \<noteq> 0 then do {
          err \<leftarrow> hw_mag_set_opmode HW_M_OMMODE_SLEEP;
          eusleep HW_INFO_DELAY_WAKE_UP_M;
          hw_init_m_settings;
          ret err
        } else hw_mag_set_opmode HW_M_OMMODE_SUSPEND);
     b \<leftarrow> gets build;
     if input_event_m b then do {
       e \<leftarrow> hw_mag_set_enable_input_ev enable;
       ret (or err e)
     } else ret err
   }"

definition hw_restore_cfg_m :: "('a hw_st_scheme, int) state" where
  "hw_restore_cfg_m = do {
     b \<leftarrow> gets build;
     if cfg_lost_m b then do {
       path \<leftarrow> node_path_m ''rept_xy'';
       xy \<leftarrow> gets g_rept_xy;
       err \<leftarrow> sysfs_write_int path xy;
       path \<leftarrow> node_path_m ''rept_z'';
       z \<leftarrow> gets g_rept_z;
       e \<leftarrow> sysfs_write_int path z;
       eusleep 2000;
       _ \<leftarrow> hw_mag_set_opmode HW_M_OMMODE_FORCED;
       eusleep 18000;
       ret (or err e)
     } else ret 0
   }"

section \<open>What the operations leave alone\<close>

lemma quiet_hw_m [quiet_rules]:
  "hw_quiet (node_path_m node)" "hw_quiet (hw_mag_set_opmode m)" "hw_quiet (remap_m val)"
  "hw_quiet (hw_mag_set_enable_input_ev e)" "hw_quiet hw_init_m_settings"
  unfolding node_path_m_def hw_mag_set_opmode_def remap_m_def hw_mag_set_enable_input_ev_def
    hw_init_m_settings_def
  by (auto intro!: quiet_rules simp: hw_view_def)

lemma quiet_read_m [quiet_rules]: "hw_quiet hw_mag_read_xyzdata" "hw_quiet (hw_mag_read_xyzdata_input_ev val)"
  unfolding hw_mag_read_xyzdata_def hw_mag_read_xyzdata_input_ev_def
  by (auto intro!: quiet_rules split: sum.splits)

lemma quiet_enable_m [quiet_rules]: "hw_quiet (hw_enable_m e)" "hw_quiet hw_restore_cfg_m"
  unfolding hw_enable_m_def hw_restore_cfg_m_def by (auto intro!: quiet_rules)

lemma lockt_hw_m [lock_rules]:
  "lockt ls (node_path_m node) ls" "lockt ls (hw_mag_set_opmode m) ls" "lockt ls (remap_m val) ls"
  "lockt ls (hw_mag_set_enable_input_ev e) ls" "lockt ls hw_init_m_settings ls" "lockt ls (hw_mag_set_delay dl) ls"
  unfolding node_path_m_def hw_mag_set_opmode_def remap_m_def hw_mag_set_enable_input_ev_def
    hw_init_m_settings_def hw_mag_set_delay_def
  by (auto intro!: lock_rules)

lemma lockt_read_m [lock_rules]:
  "lockt ls hw_mag_read_xyzdata ls" "lockt ls (hw_mag_read_xyzdata_input_ev val) ls"
  unfolding hw_mag_read_xyzdata_def hw_mag_read_xyzdata_input_ev_def
  by (auto intro!: lock_rules split: sum.splits)

lemma lockt_enable_m [lock_rules]:
  "lockt ls (hw_enable_m e) ls" "lockt ls hw_restore_cfg_m ls" "lockt ls hw_init_m ls"
  unfolding hw_enable_m_def hw_restore_cfg_m_def hw_init_m_def by (auto intro!: lock_rules)

end
