(* ===== verification/Hw_Cntl.thy ===== *)
theory Hw_Cntl
  imports Hw_A Hw_M
begin

text \<open>
  \<open>sensors/daemon/src/hw/hw_cntl.c\<close>: the list of devices, their reference counts, and which of them
  have data ready. A device is a \<open>hw_dev\<close>; its callbacks are the functions its initialiser names.
\<close>

definition g_list_hw :: "build_opts \<Rightarrow> hw_dev list" where
  "g_list_hw b = (if spt_hw_a b then [HW_A] else []) @ (if spt_hw_m b then [HW_M] else [])"

definition hw_init :: "hw_dev \<Rightarrow> ('a hw_st_scheme, int) state" where
  "hw_init d = (case d of HW_A \<Rightarrow> hw_init_a | HW_M \<Rightarrow> hw_init_m)"

definition hw_enable :: "hw_dev \<Rightarrow> int \<Rightarrow> ('a hw_st_scheme, int) state" where
  "hw_enable d e = (case d of HW_A \<Rightarrow> hw_enable_a e | HW_M \<Rightarrow> hw_enable_m e)"

definition hw_restore_cfg :: "hw_dev \<Rightarrow> ('a hw_st_scheme, int) state" where
  "hw_restore_cfg d = (case d of HW_A \<Rightarrow> hw_restore_cfg_a | HW_M \<Rightarrow> hw_restore_cfg_m)"

definition hw_set_delay :: "hw_dev \<Rightarrow> int \<Rightarrow> ('a hw_st_scheme, int) state" where
  "hw_set_delay d e = (case d of HW_A \<Rightarrow> hw_acc_set_delay e | HW_M \<Rightarrow> hw_mag_set_delay e)"

definition hw_get_data_nb :: "hw_dev \<Rightarrow> ('a hw_st_scheme, int \<times> ival) state" where
  "hw_get_data_nb d = (case d of HW_A \<Rightarrow> hw_acc_read_xyzdata | HW_M \<Rightarrow> hw_mag_read_xyzdata)"

definition hw_get_data :: "hw_dev \<Rightarrow> ival \<Rightarrow> ('a hw_st_scheme, int \<times> ival) state" where
  "hw_get_data d v = (case d of HW_A \<Rightarrow> hw_acc_read_xyzdata_input_ev v | HW_M \<Rightarrow> hw_mag_read_xyzdata_input_ev v)"

fun find_hw :: "hw_dev list \<Rightarrow> nat \<Rightarrow> 'a hw_st_scheme \<Rightarrow> hw_dev option" where
  "find_hw [] hw_id s = None"
| "find_hw (d # ds) hw_id s =
     (if dev_type d = hw_id \<and> hw_available (hw_of d s) then Some d else find_hw ds hw_id s)"

definition hw_get_hw_by_id :: "nat \<Rightarrow> ('a hw_st_scheme, hw_dev option) state" where
  "hw_get_hw_by_id hw_id = gets (\<lambda>s. find_hw (g_list_hw (build s)) hw_id s)"

definition hw_ref_up :: "nat \<Rightarrow> ('a hw_st_scheme, int) state" where
  "hw_ref_up hw_id = do {
     hw \<leftarrow> hw_get_hw_by_id hw_id;
     case hw of
       None \<Rightarrow> ret (- ENODEV)
     | Some d \<Rightarrow> do {
         emit (E_lock (L_hw (dev_type d)));
         upd_hw d (\<lambda>h. h\<lparr>hw_ref := swrap 8 (hw_ref h + 1)\<rparr>);
         h \<leftarrow> gets (hw_of d);
         err \<leftarrow>
           (if hw_ref h = 1 then do {
              err \<leftarrow> hw_enable d 1;
              if err \<noteq> 0 then ret err
              else do {
                upd_hw d (\<lambda>h. h\<lparr>hw_enabled := True\<rparr>);
                hw_restore_cfg d
              }
            } else ret 0);
         emit (E_unlock (L_hw (dev_type d)));
         ret err
       }
   }"

definition hw_ref_down :: "nat \<Rightarrow> ('a hw_st_scheme, int) state" where
  "hw_ref_down hw_id = do {
     hw \<leftarrow> hw_get_hw_by_id hw_id;
     case hw of
       None \<Rightarrow> ret (- ENODEV)
     | Some d \<Rightarrow> do {
         emit (E_lock (L_hw (dev_type d)));
         h \<leftarrow> gets (hw_of d);
         err \<leftarrow>
           (if hw_ref h = 1 then do {
              err \<leftarrow> hw_enable d 0;
              (if err \<noteq> 0 then ret () else upd_hw d (\<lambda>h. h\<lparr>hw_enabled := False\<rparr>));
              ret err
            } else ret 0);
         upd_hw d (\<lambda>h. if 0 < hw_ref h then h\<lparr>hw_ref := hw_ref h - 1\<rparr> else h);
         emit (E_unlock (L_hw (dev_type d)));
         ret err
       }
   }"

text \<open>The body of the loop of \<open>hw_cntl_init\<close>.\<close>

definition hw_init_one :: "hw_dev \<Rightarrow> ('a hw_st_scheme, unit) state" where
  "hw_init_one d = do {
     upd_hw d (\<lambda>h. h\<lparr>hw_available := False, hw_ref := 0\<rparr>);
     emit (E_thread M_init (dev_type d));
     upd_hw d (\<lambda>h. h\<lparr>hw_drdy := False, hw_fd_poll := - 1, hw_ts_last_update := 0\<rparr>);
     err \<leftarrow> hw_init d;
     if err \<noteq> 0 then ret ()
     else do {
       upd_hw d (\<lambda>h. h\<lparr>hw_available := True\<rparr>);
       _ \<leftarrow> hw_enable d 0;
       ret ()
     }
   }"

definition hw_cntl_init :: "('a hw_st_scheme, int) state" where
  "hw_cntl_init = do {
     b \<leftarrow> gets build;
     for_each (g_list_hw b) hw_init_one;
     ret 0
   }"

abbreviation (input) POLLIN :: int where "POLLIN \<equiv> 1"

text \<open>
  The devices of \<open>bitmap_hw_ids\<close> that are polled: their type and file descriptor. No device has
  a \<open>get_drdy_status\<close>, so one that is not pollable would be a call through a null pointer.
\<close>

fun collect_fds :: "int \<Rightarrow> nat list \<Rightarrow> ('a hw_st_scheme, (nat \<times> int) list) state" where
  "collect_fds bitmap [] = ret []"
| "collect_fds bitmap (i # is) = do {
     hw \<leftarrow> (if bit bitmap i then hw_get_hw_by_id i else ret None);
     h \<leftarrow> gets (\<lambda>s. map_option (\<lambda>d. hw_of d s) hw);
     fds \<leftarrow>
       (case h of
          None \<Rightarrow> ret []
        | Some h \<Rightarrow> if \<not> hw_fd_pollable h then do { must False; ret [] } else ret [(i, hw_fd_poll h)]);
     rest \<leftarrow> collect_fds bitmap is;
     ret (fds @ rest)
   }"

fun poll_bits :: "reply \<Rightarrow> nat \<Rightarrow> nat list \<Rightarrow> int \<Rightarrow> int" where
  "poll_bits r k [] st = st"
| "poll_bits r k (i # is) st =
     poll_bits r (Suc k) is (if and (num r k) POLLIN \<noteq> 0 then or st (2 ^ i) else st)"

definition hw_peek_data_status :: "int \<Rightarrow> ('a hw_st_scheme, int) state" where
  "hw_peek_data_status bitmap = do {
     fds \<leftarrow> collect_fds bitmap [0..<SENSOR_HW_TYPE_MAX];
     if 0 < length fds then do {
       r \<leftarrow> call (E_proc (Pr_poll (map snd fds)));
       ret (if 0 \<le> rv r then poll_bits r 0 (map fst fds) 0 else 0)
     } else ret 0
   }"

section \<open>Finding a device\<close>

lemma find_hw_Some:
  "find_hw ds i s = Some d \<Longrightarrow> d \<in> set ds \<and> dev_type d = i \<and> hw_available (hw_of d s)"
  by (induction ds) (auto split: if_splits)

lemma find_hw_dev [simp]:
  "find_hw ds (dev_type d) s = (if d \<in> set ds \<and> hw_available (hw_of d s) then Some d else None)"
  by (induction ds) auto

lemma quiet_dispatch [quiet_rules]:
  "hw_quiet (hw_enable d e)" "hw_quiet (hw_restore_cfg d)" "hw_quiet (hw_get_data_nb d)"
  "hw_quiet (hw_get_data d v)" "hw_quiet (hw_get_hw_by_id i)"
  unfolding hw_enable_def hw_restore_cfg_def hw_get_data_nb_def hw_get_data_def hw_get_hw_by_id_def
  by (cases d; auto intro!: quiet_rules)+

lemma lockt_dispatch [lock_rules]:
  "lockt ls (hw_enable d e) ls" "lockt ls (hw_restore_cfg d) ls" "lockt ls (hw_get_data_nb d) ls"
  "lockt ls (hw_get_data d v) ls" "lockt ls (hw_get_hw_by_id i) ls" "lockt ls (hw_init d) ls"
  "lockt ls (hw_set_delay d dl) ls"
  unfolding hw_enable_def hw_restore_cfg_def hw_get_data_nb_def hw_get_data_def hw_get_hw_by_id_def
    hw_init_def hw_set_delay_def
  by (cases d; auto intro!: lock_rules)+

lemmas hw_frame [simp] = quiet_dispatch [THEN hw_quiet_frame(1)] quiet_dispatch [THEN hw_quiet_frame(2)]
  quiet_dispatch [THEN hw_quiet_frame(3)]

lemma with_hw_more [simp]: "hw_st.more (with_hw d f s) = hw_st.more s"
  by (cases d; simp add: with_hw_def)

section \<open>Reference counts\<close>

lemma lockt_ref [lock_rules]:
  assumes "\<And>j m. m \<in> set ls \<Longrightarrow> m < L_hw j"
  shows "lockt ls (hw_ref_up i) ls" "lockt ls (hw_ref_down i) ls"
  unfolding hw_ref_up_def hw_ref_down_def by (auto intro!: lock_rules assms)

lemma lockt_init_one [lock_rules]: "lockt ls (hw_init_one d) ls"
  unfolding hw_init_one_def by (auto intro!: lock_rules)

text \<open>What \<open>hw_enable\<close> answers when \<open>hw_ref_up\<close> or \<open>hw_ref_down\<close> calls it from state \<open>s\<close>.\<close>

definition up_answer :: "hw_dev \<Rightarrow> 'a hw_st_scheme \<Rightarrow> int" where
  "up_answer d s = fst (run_state (hw_enable d 1)
     (with_hw d (\<lambda>h. h\<lparr>hw_ref := swrap 8 (hw_ref h + 1)\<rparr>) (s\<lparr>tr := E_lock (L_hw (dev_type d)) # tr s\<rparr>)))"

definition down_answer :: "hw_dev \<Rightarrow> 'a hw_st_scheme \<Rightarrow> int" where
  "down_answer d s = fst (run_state (hw_enable d 0) (s\<lparr>tr := E_lock (L_hw (dev_type d)) # tr s\<rparr>))"

text \<open>The two operations as functions of the device's record.\<close>

definition ref_up_rec :: "bool \<Rightarrow> sensor_hw \<Rightarrow> sensor_hw" where
  "ref_up_rec ok h = (let n = swrap 8 (hw_ref h + 1) in
     if n = 1 \<and> ok then h\<lparr>hw_ref := n, hw_enabled := True\<rparr> else h\<lparr>hw_ref := n\<rparr>)"

definition ref_down_rec :: "bool \<Rightarrow> sensor_hw \<Rightarrow> sensor_hw" where
  "ref_down_rec ok h =
     (if hw_ref h = 1 then (if ok then h\<lparr>hw_ref := 0, hw_enabled := False\<rparr> else h\<lparr>hw_ref := 0\<rparr>)
      else if 0 < hw_ref h then h\<lparr>hw_ref := hw_ref h - 1\<rparr> else h)"

lemma hw_ref_up_spec:
  assumes "find_hw (g_list_hw (build s)) i s = Some d" "run_state (hw_ref_up i) s = (err, s')"
  shows "hw_of d' s' = (if d' = d then ref_up_rec (up_answer d s = 0) (hw_of d s) else hw_of d' s)"
    "build s' = build s" "hw_st.more s' = hw_st.more s"
  using assms(2)
  by (auto simp: hw_ref_up_def hw_get_hw_by_id_def assms(1) split_beta ref_up_rec_def up_answer_def Let_def
      split: if_splits)

lemma hw_ref_down_spec:
  assumes "find_hw (g_list_hw (build s)) i s = Some d" "run_state (hw_ref_down i) s = (err, s')"
  shows "hw_of d' s' = (if d' = d then ref_down_rec (down_answer d s = 0) (hw_of d s) else hw_of d' s)"
    "build s' = build s" "hw_st.more s' = hw_st.more s"
  using assms(2)
  by (auto simp: hw_ref_down_def hw_get_hw_by_id_def assms(1) split_beta ref_down_rec_def down_answer_def Let_def
      split: if_splits)

lemma hw_ref_none:
  "find_hw (g_list_hw (build s)) i s = None \<Longrightarrow> run_state (hw_ref_up i) s = (- ENODEV, s)"
  "find_hw (g_list_hw (build s)) i s = None \<Longrightarrow> run_state (hw_ref_down i) s = (- ENODEV, s)"
  by (simp_all add: hw_ref_up_def hw_ref_down_def hw_get_hw_by_id_def)

section \<open>When the nodes can be written\<close>

definition io_ok :: "'a world_scheme \<Rightarrow> bool" where
  "io_ok s \<longleftrightarrow> (\<forall>t p fs. rv (env s t (E_open p fs)) \<noteq> - 1) \<and>
     (\<forall>t fd bs. rv (env s t (E_write fd bs)) = int (length bs))"

lemma io_ok_upd [simp]: "io_ok (s\<lparr>tr := es\<rparr>) = io_ok s" "io_ok (s\<lparr>ub := b\<rparr>) = io_ok s"
  by (simp_all add: io_ok_def)

lemma io_ok_rept [simp]: "io_ok (s\<lparr>g_rept_xy := x, g_rept_z := z\<rparr>) = io_ok s"
  by (simp add: io_ok_def)

lemma io_ok_grows [simp]: "grows m \<Longrightarrow> io_ok (snd (run_state m s)) = io_ok s"
  by (simp add: io_ok_def)

lemma io_ok_with_hw [simp]: "io_ok (with_hw d f s) = io_ok s"
  by (simp add: io_ok_def)

lemma io_ok_write [simp]: "io_ok s \<Longrightarrow> fst (run_state (sysfs_write_int path v) s) = 0"
  by (auto simp: sysfs_write_int_def io_ok_def split_beta)

lemma grows_enable [grows_rules]: "grows (hw_enable d e)" "grows (hw_restore_cfg d)"
  unfolding hw_enable_def hw_enable_a_def hw_enable_m_def hw_acc_set_opmode_def hw_mag_set_opmode_def
    hw_acc_set_enable_inputev_def hw_mag_set_enable_input_ev_def node_path_a_def node_path_m_def
    hw_init_m_settings_def hw_restore_cfg_def hw_restore_cfg_a_def hw_restore_cfg_m_def
    hw_acc_set_bandwidth_def hw_acc_set_grange_def
  by (cases d; auto intro!: grows_rules)+

lemma io_ok_enable [simp]: "io_ok s \<Longrightarrow> fst (run_state (hw_enable d e) s) = 0"
  by (cases d)
    (simp_all add: hw_enable_def hw_enable_a_def hw_enable_m_def hw_acc_set_opmode_def hw_mag_set_opmode_def
      hw_acc_set_enable_inputev_def hw_mag_set_enable_input_ev_def node_path_a_def node_path_m_def
      hw_init_m_settings_def split_beta grows_rules Let_def)

lemma grows_ref [grows_rules]: "grows (hw_ref_up i)" "grows (hw_ref_down i)"
  unfolding hw_ref_up_def hw_ref_down_def hw_get_hw_by_id_def
  by (auto intro!: grows_rules)

definition up_act :: "hw_dev \<Rightarrow> 'a hw_st_scheme \<Rightarrow> 'a hw_st_scheme" where
  "up_act d s = snd (run_state (hw_ref_up (dev_type d)) s)"

definition down_act :: "hw_dev \<Rightarrow> 'a hw_st_scheme \<Rightarrow> 'a hw_st_scheme" where
  "down_act d s = snd (run_state (hw_ref_down (dev_type d)) s)"

text \<open>The counts of the available devices in the range of the field, and those on that are counted.\<close>

definition hw_has :: "hw_dev \<Rightarrow> 'a hw_st_scheme \<Rightarrow> bool" where
  "hw_has d s \<longleftrightarrow> d \<in> set (g_list_hw (build s)) \<and> hw_available (hw_of d s)"

definition hw_good :: "'a hw_st_scheme \<Rightarrow> bool" where
  "hw_good s \<longleftrightarrow> io_ok s \<and> (\<forall>d. hw_has d s \<longrightarrow>
     0 \<le> hw_ref (hw_of d s) \<and> hw_ref (hw_of d s) \<le> 127 \<and> (hw_enabled (hw_of d s) \<longleftrightarrow> 0 < hw_ref (hw_of d s)))"

lemma answers_ok: "io_ok s \<Longrightarrow> up_answer d s = 0" "io_ok s \<Longrightarrow> down_answer d s = 0"
  by (simp_all add: up_answer_def down_answer_def)

lemma up_act_rec:
  assumes "hw_good s" "hw_has d s"
  shows "hw_of d' (up_act d s) = (if d' = d then ref_up_rec True (hw_of d s) else hw_of d' s)"
    "build (up_act d s) = build s" "io_ok (up_act d s)"
proof -
  have io: "io_ok s" and f: "find_hw (g_list_hw (build s)) (dev_type d) s = Some d"
    using assms by (auto simp: hw_good_def hw_has_def)
  obtain e s' where r: "run_state (hw_ref_up (dev_type d)) s = (e, s')" by fastforce
  show "hw_of d' (up_act d s) = (if d' = d then ref_up_rec True (hw_of d s) else hw_of d' s)"
    "build (up_act d s) = build s"
    using hw_ref_up_spec [OF f r] answers_ok [OF io] by (auto simp: up_act_def r)
  show "io_ok (up_act d s)"
    using io by (simp add: up_act_def grows_ref)
qed

lemma down_act_rec:
  assumes "hw_good s" "hw_has d s"
  shows "hw_of d' (down_act d s) = (if d' = d then ref_down_rec True (hw_of d s) else hw_of d' s)"
    "build (down_act d s) = build s" "io_ok (down_act d s)"
proof -
  have io: "io_ok s" and f: "find_hw (g_list_hw (build s)) (dev_type d) s = Some d"
    using assms by (auto simp: hw_good_def hw_has_def)
  obtain e s' where r: "run_state (hw_ref_down (dev_type d)) s = (e, s')" by fastforce
  show "hw_of d' (down_act d s) = (if d' = d then ref_down_rec True (hw_of d s) else hw_of d' s)"
    "build (down_act d s) = build s"
    using hw_ref_down_spec [OF f r] answers_ok [OF io] by (auto simp: down_act_def r)
  show "io_ok (down_act d s)"
    using io by (simp add: down_act_def grows_ref)
qed

lemma act_has:
  "hw_good s \<Longrightarrow> hw_has d s \<Longrightarrow> hw_has j (up_act d s) = hw_has j s"
  "hw_good s \<Longrightarrow> hw_has d s \<Longrightarrow> hw_has j (down_act d s) = hw_has j s"
  using up_act_rec [of s d] down_act_rec [of s d]
  by (auto simp: hw_has_def ref_up_rec_def ref_down_rec_def Let_def)

interpretation hw_refs: ref_counter up_act down_act "\<lambda>d s. hw_ref (hw_of d s)"
  "\<lambda>d s. hw_enabled (hw_of d s)" hw_good hw_has 127
proof
  fix s :: "'a hw_st_scheme" and d j
  assume g: "hw_good s" and h: "hw_has d s"
  then have le: "hw_ref (hw_of d s) \<le> 128"
    by (auto simp: hw_good_def dest: spec [of _ d])
  show "hw_enabled (hw_of d s) \<longleftrightarrow> 0 < hw_ref (hw_of d s)"
    using g h by (simp add: hw_good_def)
  show "hw_good (up_act d s)" if "hw_ref (hw_of d s) < 127"
    using that g up_act_rec [OF g h] act_has(1) [OF g h] h by (auto simp: hw_good_def ref_up_rec_def Let_def)
  show "hw_ref (hw_of j (up_act d s)) = hw_ref (hw_of j s) + (if j = d then 1 else 0)"
    if "hw_ref (hw_of d s) < 127"
    using that g h up_act_rec [OF g h] by (auto simp: hw_good_def ref_up_rec_def Let_def)
  show "hw_good (down_act d s)" if "0 < hw_ref (hw_of d s)"
    using that g le down_act_rec [OF g h] act_has(2) [OF g h] h by (auto simp: hw_good_def ref_down_rec_def)
  show "hw_ref (hw_of j (down_act d s)) = hw_ref (hw_of j s) - (if j = d then 1 else 0)"
    if "0 < hw_ref (hw_of d s)"
    using that g h down_act_rec [OF g h] by (auto simp: hw_good_def ref_down_rec_def)
qed (simp_all add: act_has)

end
