(* ===== verification/Fusion_Products.thy ===== *)
theory Fusion_Products
  imports Hw_Cntl
begin

text \<open>
  The state of the fusion provider (\<open>sensor_fusion.c\<close>, \<open>algo_adapter.c\<close>, \<open>algo_init.c\<close>): the products
  (one per channel type), the modules of the BSC library they need, and the data rates. This theory
  has the part of \<open>sensor_fusion.c\<close> the adapter calls: the lookup of a product and the arbitration.
\<close>

text \<open>The types of \<open>sensor_def.h\<close>.\<close>

abbreviation (input) SENSOR_TYPE_A :: nat where "SENSOR_TYPE_A \<equiv> 1"
abbreviation (input) SENSOR_TYPE_M :: nat where "SENSOR_TYPE_M \<equiv> 2"
abbreviation (input) SENSOR_TYPE_O :: nat where "SENSOR_TYPE_O \<equiv> 3"
abbreviation (input) SENSOR_TYPE_G :: nat where "SENSOR_TYPE_G \<equiv> 4"
abbreviation (input) SENSOR_TYPE_P :: nat where "SENSOR_TYPE_P \<equiv> 6"
abbreviation (input) SENSOR_TYPE_VG :: nat where "SENSOR_TYPE_VG \<equiv> 9"
abbreviation (input) SENSOR_TYPE_VLA :: nat where "SENSOR_TYPE_VLA \<equiv> 10"
abbreviation (input) SENSOR_TYPE_VRV :: nat where "SENSOR_TYPE_VRV \<equiv> 11"
abbreviation (input) SENSOR_TYPE_GEST_FLIP :: nat where "SENSOR_TYPE_GEST_FLIP \<equiv> 24"

record algo_product =
  ap_type :: nat
  ap_enable :: bool
  ap_bypass :: bool
  dr_a :: int
  dr_m :: int
  dr_g :: int
  dr_acc_min :: int
  dr_acc_max :: int
  dr_mag_min :: int
  dr_mag_max :: int
  dr_gyro_min :: int
  dr_gyro_max :: int

datatype mod_id = MOD_ACC | MOD_MAG | MOD_CMP | MOD_VLA | MOD_M4G | MOD_GEST_FLIP

record algo_module =
  am_id :: mod_id
  am_op_mode :: int
  am_ref :: int

text \<open>\<open>ts_calibProfile\<close> as its ten bytes, of which the ninth is the accuracy.\<close>

record calib_profile =
  cp_profile :: string
  cp_status :: int

record algo_cust =
  g_acc_dyndistdect :: int
  g_filter_mode_o :: int
  g_ori_thres_m :: int
  g_accuracy_thres_m :: int
  g_accuracy_thres_m_init :: int
  g_gest_flip_dect_time :: int

record fusion_st = hw_st +
  g_products :: "algo_product list"
  g_modules :: "algo_module list"
  g_dr_a :: int
  g_dr_m :: int
  g_dr_g :: int
  g_tab_hz :: "int list"
  g_data_a :: ival
  g_data_m :: ival
  g_last_ts_a :: int
  g_last_ts_m :: int
  g_p_hw_a :: bool
  g_p_hw_m :: bool
  g_active_hws :: int
  g_last_value_gest_flip :: int
  g_ref_hw_a :: int
  g_ref_hw_m :: int
  g_fd_profile_calib_a :: int
  g_fd_profile_calib_m :: int
  g_profile_calib_a :: calib_profile
  g_profile_calib_m :: calib_profile
  cust :: algo_cust

section \<open>Products\<close>

text \<open>The entries of \<open>g_products_fusion\<close>, by type.\<close>

definition product_types :: "build_opts \<Rightarrow> nat list" where
  "product_types b =
     (if spt_a b then [SENSOR_TYPE_A] else []) @ (if spt_g b then [SENSOR_TYPE_G] else []) @
     (if spt_m b then [SENSOR_TYPE_M] else []) @ (if spt_o b then [SENSOR_TYPE_O] else []) @
     (if spt_vg b then [SENSOR_TYPE_VG] else []) @ (if spt_vla b then [SENSOR_TYPE_VLA] else []) @
     (if spt_vrv b then [SENSOR_TYPE_VRV] else []) @ (if spt_gest_flip b then [SENSOR_TYPE_GEST_FLIP] else [])"

fun find_product :: "algo_product list \<Rightarrow> nat \<Rightarrow> nat \<Rightarrow> nat option" where
  "find_product [] i ty = None"
| "find_product (ap # aps) i ty = (if ty = ap_type ap then Some i else find_product aps (Suc i) ty)"

text \<open>A pointer to a product is its index in the array.\<close>

definition fusion_get_product :: "nat \<Rightarrow> ('a fusion_st_scheme, nat option) state" where
  "fusion_get_product ty = gets (\<lambda>s. find_product (g_products s) 0 ty)"

definition upd_product :: "nat \<Rightarrow> (algo_product \<Rightarrow> algo_product) \<Rightarrow> ('a fusion_st_scheme, unit) state" where
  "upd_product i f = modify (\<lambda>s. s\<lparr>g_products := (g_products s)[i := f (g_products s ! i)]\<rparr>)"

text \<open>The maximum of a rate over the enabled products, 0 if there is none.\<close>

fun max_rate :: "(algo_product \<Rightarrow> int) \<Rightarrow> algo_product list \<Rightarrow> int \<Rightarrow> int" where
  "max_rate f [] dr = dr"
| "max_rate f (ap # aps) dr = max_rate f aps (if ap_enable ap \<and> dr < f ap then f ap else dr)"

definition fusion_arbitrate_dr :: "('a fusion_st_scheme, unit) state" where
  "fusion_arbitrate_dr = modify (\<lambda>s. s\<lparr>g_dr_a := max_rate dr_a (g_products s) 0,
     g_dr_m := max_rate dr_m (g_products s) 0, g_dr_g := max_rate dr_g (g_products s) 0\<rparr>)"

text \<open>\<open>ALGO_PRODUCT_REGULATE_DR\<close>\<close>

definition regulate :: "int \<Rightarrow> int \<Rightarrow> int \<Rightarrow> int" where
  "regulate lo hi dr = (let dr = (if dr < lo then lo else dr) in if hi < dr then hi else dr)"

definition regulate_dr :: "algo_product \<Rightarrow> algo_product" where
  "regulate_dr ap = ap\<lparr>dr_a := regulate (dr_acc_min ap) (dr_acc_max ap) (dr_a ap),
     dr_m := regulate (dr_mag_min ap) (dr_mag_max ap) (dr_m ap),
     dr_g := regulate (dr_gyro_min ap) (dr_gyro_max ap) (dr_g ap)\<rparr>"

lemma find_product_Some:
  "find_product aps i ty = Some j \<Longrightarrow> i \<le> j \<and> j < i + length aps \<and> ap_type (aps ! (j - i)) = ty"
proof (induction aps arbitrary: i)
  case (Cons ap aps)
  show ?case
  proof (cases "ty = ap_type ap")
    case False
    then have "Suc i \<le> j \<and> j < Suc i + length aps \<and> ap_type (aps ! (j - Suc i)) = ty"
      using Cons.IH [of "Suc i"] Cons.prems by auto
    then show ?thesis by (auto simp: nth_Cons')
  qed (use Cons.prems in auto)
qed simp

lemma find_product_upd [simp]:
  assumes "\<And>ap. ap_type (f ap) = ap_type ap" "k < length aps"
  shows "find_product (aps[k := f (aps ! k)]) i ty = find_product aps i ty"
  using assms(2) by (induction aps arbitrary: i k) (auto simp: assms(1) split: nat.splits)

lemma regulate_bounds: "lo \<le> hi \<Longrightarrow> lo \<le> regulate lo hi dr \<and> regulate lo hi dr \<le> hi"
  by (auto simp: regulate_def Let_def)

lemma regulate_id: "lo \<le> dr \<Longrightarrow> dr \<le> hi \<Longrightarrow> regulate lo hi dr = dr"
  by (auto simp: regulate_def Let_def)

lemma max_rate_ge: "dr \<le> max_rate f aps dr"
proof (induction aps arbitrary: dr)
  case (Cons ap aps)
  show ?case
    using Cons.IH [of "f ap"] Cons.IH [of dr] by auto
qed simp

lemma max_rate_enabled: "ap \<in> set aps \<Longrightarrow> ap_enable ap \<Longrightarrow> f ap \<le> max_rate f aps dr"
proof (induction aps arbitrary: dr)
  case (Cons a aps)
  show ?case
    using Cons max_rate_ge [of "f a" f aps] max_rate_ge [of dr f aps] by auto
qed simp

lemma max_rate_in:
  "max_rate f aps dr = dr \<or> (\<exists>ap \<in> set aps. ap_enable ap \<and> max_rate f aps dr = f ap)"
proof (induction aps arbitrary: dr)
  case (Cons a aps)
  show ?case
    using Cons.IH [of "f a"] Cons.IH [of dr] by auto
qed simp

end
