(* ===== verification/Algo_Adapter.thy ===== *)
theory Algo_Adapter
  imports Fusion_Products
begin

text \<open>
  \<open>sensors/daemon/src/algo/algo_adapter.c\<close>: the modules of the BSC library behind reference counts,
  the data rates, and the data that goes into and comes out of the library. A call of the prebuilt
  library is an event \<open>E_bsc\<close> with its integer and its float arguments; a profile is passed as its bytes.
  The data log (\<open>CFG_USE_DATA_LOG\<close>, not defined) is left out.
\<close>

abbreviation "bsc name ns \<equiv> E_bsc name ns []"

definition prof_bytes :: "string \<Rightarrow> int list" where
  "prof_bytes p = map of_char p"

definition prof_accuracy :: "string \<Rightarrow> int" where
  "prof_accuracy p = of_char (p ! 8)"

text \<open>The library fills the ten bytes of the profile.\<close>

definition prof_of :: "reply \<Rightarrow> string" where
  "prof_of r = take 10 (rbuf r @ replicate 10 (CHR 0x00))"

abbreviation (input) SENSOR_ACCURACY_HIGH :: int where "SENSOR_ACCURACY_HIGH \<equiv> 3"
abbreviation (input) SENSOR_ACCURACY_UNRELIABLE :: int where "SENSOR_ACCURACY_UNRELIABLE \<equiv> 0"
abbreviation (input) SENSOR_MAGIC_A :: char where "SENSOR_MAGIC_A \<equiv> CHR ''a''"
abbreviation (input) SENSOR_MAGIC_M :: char where "SENSOR_MAGIC_M \<equiv> CHR ''m''"
abbreviation (input) SENSOR_MAGIC_G :: char where "SENSOR_MAGIC_G \<equiv> CHR ''g''"
abbreviation (input) ALGO_CALIB_PROFILE_VER :: char where "ALGO_CALIB_PROFILE_VER \<equiv> CHR ''2''"

definition g_tab_intvl :: "int list" where
  "g_tab_intvl = [1000, 200, 100, 50, 40, 20, 10, 5]"

definition g_tab_ref_bw :: "int list" where
  "g_tab_ref_bw = [0, 0, 0, 1, 1, 2, 3, 4]"

definition ALGO_NUM_DR :: nat where "ALGO_NUM_DR = 8"

text \<open>An entry of a table of eight, which must exist.\<close>

definition tab_at :: "int list \<Rightarrow> int \<Rightarrow> ('a world_scheme, int) state" where
  "tab_at tab i = do { must (0 \<le> i \<and> i < int (length tab)); ret (tab ! nat i) }"

section \<open>Calibration profiles\<close>

definition algo_load_calib_profile :: "char \<Rightarrow> ('a fusion_st_scheme, unit) state" where
  "algo_load_calib_profile magic = do {
     a \<leftarrow> gets g_profile_calib_a;
     m \<leftarrow> gets g_profile_calib_m;
     if magic = SENSOR_MAGIC_A then
       (if prof_accuracy (cp_profile a) = SENSOR_ACCURACY_HIGH
        then emit (bsc ''bsc_set_acccalibprofile'' (prof_bytes (cp_profile a))) else ret ())
     else if magic = SENSOR_MAGIC_M then
       (if prof_accuracy (cp_profile m) = SENSOR_ACCURACY_HIGH
        then emit (bsc ''bsc_set_magcalibprofile'' (prof_bytes (cp_profile m))) else ret ())
     else ret ()
   }"

definition save_profile :: "char \<Rightarrow> int \<Rightarrow> string \<Rightarrow> ('a world_scheme, unit) state" where
  "save_profile magic fd pprofile =
     (if fd \<noteq> - 1 then do {
        emit (E_lseek_set fd);
        emit (E_write fd [magic]);
        emit (E_write fd [ALGO_CALIB_PROFILE_VER]);
        emit (E_write fd [CHR 0x0A]);
        emit (E_write fd pprofile);
        emit (E_fsync fd)
      } else ret ())"

definition algo_save_calib_profile :: "char \<Rightarrow> ('a fusion_st_scheme, unit) state" where
  "algo_save_calib_profile magic =
     (if magic = SENSOR_MAGIC_A then do {
        r \<leftarrow> call (bsc ''bsc_get_acccalibprofile'' []);
        fd \<leftarrow> gets g_fd_profile_calib_a;
        if SENSOR_ACCURACY_UNRELIABLE \<le> swrap 8 (prof_accuracy (prof_of r)) then do {
          modify (\<lambda>s. s\<lparr>g_profile_calib_a := (g_profile_calib_a s)\<lparr>cp_profile := prof_of r\<rparr>\<rparr>);
          save_profile magic fd (prof_of r)
        } else ret ()
      } else if magic = SENSOR_MAGIC_M then do {
        r \<leftarrow> call (bsc ''bsc_get_magcalibprofile'' []);
        fd \<leftarrow> gets g_fd_profile_calib_m;
        if SENSOR_ACCURACY_UNRELIABLE \<le> swrap 8 (prof_accuracy (prof_of r)) then do {
          modify (\<lambda>s. s\<lparr>g_profile_calib_m := (g_profile_calib_m s)\<lparr>cp_profile := prof_of r\<rparr>\<rparr>);
          save_profile magic fd (prof_of r)
        } else ret ()
      } else ret ())"

section \<open>Modules\<close>

definition upd_module :: "mod_id \<Rightarrow> (algo_module \<Rightarrow> algo_module) \<Rightarrow> ('a fusion_st_scheme, unit) state" where
  "upd_module k f = modify (\<lambda>s. s\<lparr>g_modules := map (\<lambda>md. if am_id md = k then f md else md) (g_modules s)\<rparr>)"

definition algo_enable_a :: "int \<Rightarrow> ('a fusion_st_scheme, unit) state" where
  "algo_enable_a enable = do {
     (if enable \<noteq> 0 then do {
        emit (bsc ''bsc_set_accopmode'' [2]);
        emit (bsc ''bsc_set_acccalibmode'' [2]);
        algo_load_calib_profile SENSOR_MAGIC_A
      } else do {
        algo_save_calib_profile SENSOR_MAGIC_A;
        emit (bsc ''bsc_set_accopmode'' [0]);
        emit (bsc ''bsc_set_acccalibmode'' [0])
      });
     upd_module MOD_ACC (\<lambda>md. md\<lparr>am_op_mode := swrap 3 enable\<rparr>)
   }"

definition algo_enable_m :: "int \<Rightarrow> ('a fusion_st_scheme, unit) state" where
  "algo_enable_m enable = do {
     (if enable \<noteq> 0 then do {
        emit (bsc ''bsc_set_magopmode'' [2]);
        emit (bsc ''bsc_set_magcalibmode'' [2]);
        algo_load_calib_profile SENSOR_MAGIC_M
      } else do {
        algo_save_calib_profile SENSOR_MAGIC_M;
        emit (bsc ''bsc_set_magopmode'' [0]);
        emit (bsc ''bsc_set_magcalibmode'' [0])
      });
     upd_module MOD_MAG (\<lambda>md. md\<lparr>am_op_mode := swrap 3 enable\<rparr>)
   }"

definition algo_enable_o :: "int \<Rightarrow> ('a fusion_st_scheme, unit) state" where
  "algo_enable_o enable = do {
     (if enable = 0 then emit (bsc ''bsc_set_orientopmode'' [0]) else ret ());
     upd_module MOD_CMP (\<lambda>md. md\<lparr>am_op_mode := swrap 3 enable\<rparr>)
   }"

definition algo_enable_vla :: "int \<Rightarrow> ('a fusion_st_scheme, unit) state" where
  "algo_enable_vla enable = do {
     emit (bsc ''bsc_set_linaccopmode'' [if enable \<noteq> 0 then 1 else 0]);
     upd_module MOD_VLA (\<lambda>md. md\<lparr>am_op_mode := swrap 3 enable\<rparr>)
   }"

definition algo_enable_m4g :: "int \<Rightarrow> ('a fusion_st_scheme, unit) state" where
  "algo_enable_m4g enable = do {
     (if enable = 0 then emit (bsc ''bsc_set_m4gopmode'' [0]) else ret ());
     upd_module MOD_M4G (\<lambda>md. md\<lparr>am_op_mode := swrap 3 enable\<rparr>)
   }"

definition algo_enable_gest_flip :: "int \<Rightarrow> ('a fusion_st_scheme, unit) state" where
  "algo_enable_gest_flip enable = do {
     emit (bsc ''bsc_set_flipgesture_opmode'' [if enable \<noteq> 0 then 1 else 0]);
     upd_module MOD_GEST_FLIP (\<lambda>md. md\<lparr>am_op_mode := swrap 3 enable\<rparr>)
   }"

text \<open>The modules that are compiled in, and the callback of each.\<close>

definition module_ids :: "build_opts \<Rightarrow> mod_id list" where
  "module_ids b = [MOD_ACC, MOD_MAG, MOD_CMP] @ (if spt_vg b \<or> spt_vla b then [MOD_VLA] else []) @
     (if spt_g b \<and> g_emu b \<or> spt_vrv b then [MOD_M4G] else []) @
     (if spt_gest_flip b \<and> algo_gest_flip b then [MOD_GEST_FLIP] else [])"

definition mod_enable :: "mod_id \<Rightarrow> int \<Rightarrow> ('a fusion_st_scheme, unit) state" where
  "mod_enable k e = (case k of MOD_ACC \<Rightarrow> algo_enable_a e | MOD_MAG \<Rightarrow> algo_enable_m e
     | MOD_CMP \<Rightarrow> algo_enable_o e | MOD_VLA \<Rightarrow> algo_enable_vla e | MOD_M4G \<Rightarrow> algo_enable_m4g e
     | MOD_GEST_FLIP \<Rightarrow> algo_enable_gest_flip e)"

fun find_module :: "algo_module list \<Rightarrow> mod_id \<Rightarrow> algo_module option" where
  "find_module [] k = None"
| "find_module (md # mds) k = (if am_id md = k then Some md else find_module mds k)"

definition algo_get_mod :: "mod_id \<Rightarrow> ('a fusion_st_scheme, algo_module option) state" where
  "algo_get_mod k = gets (\<lambda>s. find_module (g_modules s) k)"

definition mod_ref :: "mod_id \<Rightarrow> 'a fusion_st_scheme \<Rightarrow> int" where
  "mod_ref k s = (case find_module (g_modules s) k of None \<Rightarrow> 0 | Some md \<Rightarrow> am_ref md)"

definition algo_mod_ref_change :: "mod_id \<Rightarrow> int \<Rightarrow> ('a fusion_st_scheme, unit) state" where
  "algo_mod_ref_change k updown =
     (if updown \<noteq> 0 then do {
        upd_module k (\<lambda>md. md\<lparr>am_ref := swrap 5 (am_ref md + 1)\<rparr>);
        n \<leftarrow> gets (mod_ref k);
        if n = 1 then mod_enable k 1 else ret ()
      } else do {
        n \<leftarrow> gets (mod_ref k);
        (if n = 1 then mod_enable k 0 else ret ());
        upd_module k (\<lambda>md. if 0 < am_ref md then md\<lparr>am_ref := am_ref md - 1\<rparr> else md)
      })"

text \<open>\<open>ALGO_MOD_ENABLE\<close> and \<open>ALGO_MOD_IS_ENABLED\<close>\<close>

definition ALGO_MOD_ENABLE :: "mod_id \<Rightarrow> int \<Rightarrow> ('a fusion_st_scheme, unit) state" where
  "ALGO_MOD_ENABLE k enable = do {
     md \<leftarrow> algo_get_mod k;
     (case md of None \<Rightarrow> ret () | Some _ \<Rightarrow> algo_mod_ref_change k enable)
   }"

definition ALGO_MOD_IS_ENABLED :: "mod_id \<Rightarrow> ('a fusion_st_scheme, int) state" where
  "ALGO_MOD_IS_ENABLED k = do {
     md \<leftarrow> algo_get_mod k;
     ret (case md of None \<Rightarrow> 0 | Some md \<Rightarrow> am_op_mode md)
   }"

section \<open>Initialisation\<close>

definition with_product :: "nat \<Rightarrow> (algo_product \<Rightarrow> algo_product) \<Rightarrow> ('a fusion_st_scheme, unit) state" where
  "with_product ty f = do {
     i \<leftarrow> fusion_get_product ty;
     (case i of None \<Rightarrow> ret () | Some i \<Rightarrow> upd_product i f)
   }"

abbreviation (input) ALGO_DR_5HZ :: int where "ALGO_DR_5HZ \<equiv> 1"
abbreviation (input) ALGO_DR_10HZ :: int where "ALGO_DR_10HZ \<equiv> 2"
abbreviation (input) ALGO_DR_50HZ :: int where "ALGO_DR_50HZ \<equiv> 5"
abbreviation (input) ALGO_DR_100HZ :: int where "ALGO_DR_100HZ \<equiv> 6"

definition set_acc_limits :: "int \<Rightarrow> int \<Rightarrow> algo_product \<Rightarrow> algo_product" where
  "set_acc_limits lo hi ap = ap\<lparr>dr_acc_min := lo, dr_acc_max := hi\<rparr>"

definition set_mag_limits :: "int \<Rightarrow> int \<Rightarrow> algo_product \<Rightarrow> algo_product" where
  "set_mag_limits lo hi ap = ap\<lparr>dr_mag_min := lo, dr_mag_max := hi\<rparr>"

definition algo_products_init :: "('a fusion_st_scheme, unit) state" where
  "algo_products_init = do {
     with_product SENSOR_TYPE_A (set_acc_limits ALGO_DR_5HZ ALGO_DR_100HZ);
     with_product SENSOR_TYPE_M (set_mag_limits ALGO_DR_10HZ ALGO_DR_10HZ);
     with_product SENSOR_TYPE_G (set_acc_limits ALGO_DR_50HZ ALGO_DR_50HZ);
     with_product SENSOR_TYPE_G (set_mag_limits ALGO_DR_50HZ ALGO_DR_50HZ);
     with_product SENSOR_TYPE_O (set_acc_limits ALGO_DR_10HZ ALGO_DR_50HZ);
     with_product SENSOR_TYPE_O (set_mag_limits ALGO_DR_10HZ ALGO_DR_10HZ);
     with_product SENSOR_TYPE_VG (set_acc_limits ALGO_DR_10HZ ALGO_DR_100HZ);
     with_product SENSOR_TYPE_VLA (set_acc_limits ALGO_DR_10HZ ALGO_DR_100HZ);
     with_product SENSOR_TYPE_VRV (set_acc_limits ALGO_DR_50HZ ALGO_DR_50HZ);
     with_product SENSOR_TYPE_VRV (set_mag_limits ALGO_DR_50HZ ALGO_DR_50HZ);
     with_product SENSOR_TYPE_GEST_FLIP (set_acc_limits ALGO_DR_10HZ ALGO_DR_100HZ)
   }"

definition algo_mod_init_one :: "mod_id \<Rightarrow> ('a fusion_st_scheme, unit) state" where
  "algo_mod_init_one k = do {
     upd_module k (\<lambda>md. md\<lparr>am_ref := 0, am_op_mode := 0\<rparr>);
     mod_enable k 0
   }"

text \<open>The modules are an array of the build; a mutex is the number 100 in the trace.\<close>

definition algo_adapter_init :: "('a fusion_st_scheme, unit) state" where
  "algo_adapter_init = do {
     modify (\<lambda>s. s\<lparr>g_tab_hz := map (\<lambda>itvl. uwrap 16 (1000 sdiv itvl)) g_tab_intvl\<rparr>);
     b \<leftarrow> gets build;
     for_each (module_ids b) algo_mod_init_one;
     algo_products_init;
     hw \<leftarrow> hw_get_hw_by_id SENSOR_HW_TYPE_A;
     (if hw \<noteq> None then modify (\<lambda>s. s\<lparr>g_p_hw_a := True\<rparr>) else ret ());
     hw \<leftarrow> hw_get_hw_by_id SENSOR_HW_TYPE_M;
     (if hw \<noteq> None then modify (\<lambda>s. s\<lparr>g_p_hw_m := True\<rparr>) else ret ());
     emit (E_thread M_init 100)
   }"

section \<open>Data rates\<close>

definition algo_resolve_internal_state :: "('a fusion_st_scheme, unit) state" where
  "algo_resolve_internal_state = do {
     mode \<leftarrow> ALGO_MOD_IS_ENABLED MOD_ACC;
     dr \<leftarrow> gets g_dr_a;
     (if mode \<noteq> 0 then emit (bsc ''bsc_set_accdatarate'' [dr]) else ret ());
     mode \<leftarrow> ALGO_MOD_IS_ENABLED MOD_MAG;
     dr \<leftarrow> gets g_dr_m;
     (if mode \<noteq> 0 then emit (bsc ''bsc_set_magdatarate'' [dr]) else ret ());
     mode \<leftarrow> ALGO_MOD_IS_ENABLED MOD_CMP;
     (if mode \<noteq> 0 then emit (bsc ''bsc_set_orientopmode'' [1]) else ret ());
     mode \<leftarrow> ALGO_MOD_IS_ENABLED MOD_M4G;
     (if mode \<noteq> 0 then emit (bsc ''bsc_set_m4gopmode'' [1]) else ret ());
     c \<leftarrow> gets cust;
     (if g_ori_thres_m c \<noteq> - 1 then emit (bsc ''bsc_set_orientMagNoiseThreshold'' [swrap 16 (g_ori_thres_m c)]) else ret ());
     emit (bsc ''bsc_get_orientAccFilterParam'' []);
     emit (bsc ''bsc_get_orientMagFilterParam'' [])
   }"

text \<open>The search: the first of the rates in hertz that is at least \<open>hz\<close>, or the number of rates.\<close>

fun first_rate :: "int list \<Rightarrow> int \<Rightarrow> nat" where
  "first_rate [] hz = 0"
| "first_rate (r # rs) hz = (if hz \<le> r then 0 else Suc (first_rate rs hz))"

definition algo_hz2data_rate :: "int \<Rightarrow> ('a fusion_st_scheme, int) state" where
  "algo_hz2data_rate hz = gets (\<lambda>s. let i = first_rate (g_tab_hz s) hz in
     int (if ALGO_NUM_DR \<le> i then ALGO_NUM_DR - 1 else i))"

definition algo_update_hw_ref :: "nat \<Rightarrow> int \<Rightarrow> ('a fusion_st_scheme, unit) state" where
  "algo_update_hw_ref ty enable = do {
     emit (E_lock L_algo_ref);
     (if ty = SENSOR_HW_TYPE_A then
        modify (\<lambda>s. if enable \<noteq> 0 then s\<lparr>g_ref_hw_a := swrap 32 (g_ref_hw_a s + 1)\<rparr>
          else if 0 < g_ref_hw_a s then s\<lparr>g_ref_hw_a := g_ref_hw_a s - 1\<rparr> else s)
      else if ty = SENSOR_HW_TYPE_M then
        modify (\<lambda>s. if enable \<noteq> 0 then s\<lparr>g_ref_hw_m := swrap 32 (g_ref_hw_m s + 1)\<rparr>
          else if 0 < g_ref_hw_m s then s\<lparr>g_ref_hw_m := g_ref_hw_m s - 1\<rparr> else s)
      else ret ());
     emit (E_unlock L_algo_ref)
   }"

text \<open>The modules and the devices a product needs, in the order the code goes through them.\<close>

definition mod_deps :: "nat \<Rightarrow> mod_id list" where
  "mod_deps ty =
     (if ty = SENSOR_TYPE_A then [MOD_ACC]
      else if ty = SENSOR_TYPE_M then [MOD_MAG]
      else if ty = SENSOR_TYPE_G then [MOD_ACC, MOD_MAG, MOD_M4G]
      else if ty = SENSOR_TYPE_O then [MOD_ACC, MOD_MAG, MOD_CMP]
      else if ty = SENSOR_TYPE_VG then [MOD_ACC, MOD_VLA]
      else if ty = SENSOR_TYPE_VLA then [MOD_ACC, MOD_VLA]
      else if ty = SENSOR_TYPE_VRV then [MOD_ACC, MOD_MAG, MOD_M4G]
      else if ty = SENSOR_TYPE_GEST_FLIP then [MOD_ACC, MOD_GEST_FLIP]
      else [])"

definition hw_deps :: "nat \<Rightarrow> nat list" where
  "hw_deps ty =
     (if ty = SENSOR_TYPE_A then [SENSOR_HW_TYPE_A]
      else if ty = SENSOR_TYPE_M then [SENSOR_HW_TYPE_M]
      else if ty = SENSOR_TYPE_G then [SENSOR_HW_TYPE_A, SENSOR_HW_TYPE_M]
      else if ty = SENSOR_TYPE_O then [SENSOR_HW_TYPE_A, SENSOR_HW_TYPE_M]
      else if ty = SENSOR_TYPE_VG then [SENSOR_HW_TYPE_A]
      else if ty = SENSOR_TYPE_VLA then [SENSOR_HW_TYPE_A]
      else if ty = SENSOR_TYPE_VRV then [SENSOR_HW_TYPE_A, SENSOR_HW_TYPE_M]
      else if ty = SENSOR_TYPE_GEST_FLIP then [SENSOR_HW_TYPE_A]
      else [])"

definition algo_update_mod_dep :: "algo_product \<Rightarrow> int \<Rightarrow> ('a fusion_st_scheme, unit) state" where
  "algo_update_mod_dep ap enable =
     (if ap_bypass ap then ret ()
      else do {
        for_each (mod_deps (ap_type ap)) (\<lambda>k. ALGO_MOD_ENABLE k enable);
        (if ap_type ap = SENSOR_TYPE_GEST_FLIP \<and> enable \<noteq> 0
         then modify (\<lambda>s. s\<lparr>g_last_value_gest_flip := - 1\<rparr>) else ret ())
      })"

definition algo_update_hw_dep :: "algo_product \<Rightarrow> int \<Rightarrow> ('a fusion_st_scheme, unit) state" where
  "algo_update_hw_dep ap enable = for_each (hw_deps (ap_type ap)) (\<lambda>ty. algo_update_hw_ref ty enable)"

definition algo_enable_product :: "nat \<Rightarrow> int \<Rightarrow> ('a fusion_st_scheme, int) state" where
  "algo_enable_product i enable = do {
     ap \<leftarrow> gets (\<lambda>s. g_products s ! i);
     algo_update_mod_dep ap enable;
     algo_update_hw_dep ap enable;
     upd_product i regulate_dr;
     fusion_arbitrate_dr;
     algo_resolve_internal_state;
     ret 0
   }"

text \<open>The rates of a product at a new interval.\<close>

definition set_rate :: "int \<Rightarrow> algo_product \<Rightarrow> algo_product" where
  "set_rate dr ap =
     (let ty = ap_type ap; dr = uwrap 8 dr in
      if ty = SENSOR_TYPE_A \<or> ty = SENSOR_TYPE_VG \<or> ty = SENSOR_TYPE_VLA then ap\<lparr>dr_a := dr\<rparr>
      else if ty = SENSOR_TYPE_M then ap\<lparr>dr_m := dr\<rparr>
      else if ty = SENSOR_TYPE_O then ap\<lparr>dr_a := dr, dr_m := dr\<rparr>
      else if ty = SENSOR_TYPE_G \<or> ty = SENSOR_TYPE_VRV then ap\<lparr>dr_a := dr, dr_m := dr\<rparr>
      else if ty = SENSOR_TYPE_GEST_FLIP then ap\<lparr>dr_a := dr\<rparr>
      else ap)"

text \<open>The bandwidth and the delay of the accelerometer follow its data rate.\<close>

definition tune_hw_a :: "('a fusion_st_scheme, int) state" where
  "tune_hw_a = do {
     hws \<leftarrow> gets g_active_hws;
     p \<leftarrow> gets g_p_hw_a;
     if bit hws SENSOR_HW_TYPE_A \<and> p then do {
       dr \<leftarrow> gets g_dr_a;
       bw \<leftarrow> tab_at g_tab_ref_bw dr;
       err \<leftarrow> hw_acc_set_bandwidth bw;
       dr \<leftarrow> gets g_dr_a;
       itvl \<leftarrow> tab_at g_tab_intvl dr;
       _ \<leftarrow> hw_acc_set_delay itvl;
       ret err
     } else ret 0
   }"

definition algo_on_interval_changed :: "nat \<Rightarrow> int \<Rightarrow> ('a fusion_st_scheme, int) state" where
  "algo_on_interval_changed i itvl =
     (if itvl \<le> 0 then ret itvl
      else do {
        let interval = get_nearest_divisible_int 1000 itvl;
        let hz = 1000 sdiv interval;
        dr \<leftarrow> algo_hz2data_rate hz;
        upd_product i (set_rate dr);
        upd_product i regulate_dr;
        fusion_arbitrate_dr;
        algo_resolve_internal_state;
        _ \<leftarrow> tune_hw_a;
        ret interval
      })"

definition algo_get_hint_interval :: "('a fusion_st_scheme, int) state" where
  "algo_get_hint_interval = do {
     dr \<leftarrow> gets g_dr_a;
     intv_a \<leftarrow> tab_at g_tab_intvl dr;
     dr \<leftarrow> gets g_dr_m;
     intv_m \<leftarrow> tab_at g_tab_intvl dr;
     md \<leftarrow> algo_get_mod MOD_ACC;
     let r = (case md of None \<Rightarrow> 1000 | Some md \<Rightarrow> if am_op_mode md \<noteq> 0 then get_max_comm_div 1000 intv_a else 1000);
     md \<leftarrow> algo_get_mod MOD_MAG;
     ret (case md of None \<Rightarrow> r | Some md \<Rightarrow> if am_op_mode md \<noteq> 0 then get_max_comm_div r intv_m else r)
   }"

definition algo_get_curr_hw_dep :: "('a fusion_st_scheme, int) state" where
  "algo_get_curr_hw_dep = do {
     emit (E_lock L_algo_ref);
     a \<leftarrow> gets g_ref_hw_a;
     m \<leftarrow> gets g_ref_hw_m;
     let dep = or (if 0 < a then 2 ^ SENSOR_HW_TYPE_A else 0) (if 0 < m then 2 ^ SENSOR_HW_TYPE_M else 0);
     emit (E_unlock L_algo_ref);
     ret dep
   }"

definition algo_on_hw_dep_checked :: "int \<Rightarrow> ('a fusion_st_scheme, int) state" where
  "algo_on_hw_dep_checked dep = do {
     modify (\<lambda>s. s\<lparr>g_active_hws := dep\<rparr>);
     tune_hw_a
   }"

end
