(* ===== verification/Algo_Data.thy ===== *)
theory Algo_Data
  imports Algo_Adapter
begin

text \<open>
  The rest of \<open>sensors/daemon/src/algo/algo_adapter.c\<close>: when the devices are read, what goes into the
  library, and the outputs of the channels. A \<open>float\<close> is a rational, rounded by \<open>fl\<close>.
\<close>

record sensor_data =
  sd_status :: int
  sd_data :: "rat list"
  sd_sensor :: int
  sd_type :: int
  sd_version :: int

abbreviation (input) CFG_TOLERANCE_TIME_PRECISION :: int where "CFG_TOLERANCE_TIME_PRECISION \<equiv> 2"

definition to_s16 :: "ival \<Rightarrow> ival" where
  "to_s16 v = \<lparr>vx = swrap 16 (vx v), vy = swrap 16 (vy v), vz = swrap 16 (vz v)\<rparr>"

text \<open>The interval since the last reading is over, up to the tolerance.\<close>

definition due :: "int \<Rightarrow> int \<Rightarrow> int \<Rightarrow> bool" where
  "due ts lastts intvl = (let tmp = swrap 32 (ts - lastts - intvl) in
     0 \<le> tmp \<or> 0 < tmp + CFG_TOLERANCE_TIME_PRECISION)"

definition update_a :: "int \<Rightarrow> ('a fusion_st_scheme, unit) state" where
  "update_a ts = do {
     lastts \<leftarrow> gets g_last_ts_a;
     if lastts < ts then do {
       dr \<leftarrow> gets g_dr_a;
       intvl \<leftarrow> tab_at g_tab_intvl dr;
       if due ts lastts intvl then do {
         b \<leftarrow> gets build;
         p \<leftarrow> gets g_p_hw_a;
         (if input_event_a b then do {
            st \<leftarrow> hw_peek_data_status (2 ^ SENSOR_HW_TYPE_A);
            (if bit st SENSOR_HW_TYPE_A \<and> p then do {
               d \<leftarrow> gets g_data_a;
               (_, v) \<leftarrow> hw_acc_read_xyzdata_input_ev d;
               modify (\<lambda>s. s\<lparr>g_data_a := to_s16 v\<rparr>)
             } else ret ())
          } else if p then do {
            (err, v) \<leftarrow> hw_acc_read_xyzdata;
            (if err = 0 then modify (\<lambda>s. s\<lparr>g_data_a := to_s16 v\<rparr>) else ret ())
          } else ret ());
         modify (\<lambda>s. s\<lparr>g_last_ts_a := ts\<rparr>)
       } else ret ()
     } else modify (\<lambda>s. s\<lparr>g_last_ts_a := ts\<rparr>)
   }"

definition update_m :: "int \<Rightarrow> ('a fusion_st_scheme, unit) state" where
  "update_m ts = do {
     lastts \<leftarrow> gets g_last_ts_m;
     if lastts < ts then do {
       dr \<leftarrow> gets g_dr_m;
       intvl \<leftarrow> tab_at g_tab_intvl dr;
       if due ts lastts intvl then do {
         p \<leftarrow> gets g_p_hw_m;
         (if p then do {
            (err, v) \<leftarrow> hw_mag_read_xyzdata;
            (if err = 0 then modify (\<lambda>s. s\<lparr>g_data_m := to_s16 v\<rparr>) else ret ())
          } else ret ());
         modify (\<lambda>s. s\<lparr>g_last_ts_m := ts\<rparr>)
       } else ret ()
     } else modify (\<lambda>s. s\<lparr>g_last_ts_m := ts\<rparr>)
   }"

definition algo_update_data :: "int \<Rightarrow> ('a fusion_st_scheme, unit) state" where
  "algo_update_data ts = do {
     hws \<leftarrow> gets g_active_hws;
     (if bit hws SENSOR_HW_TYPE_A then update_a ts else ret ());
     (if bit hws SENSOR_HW_TYPE_M then update_m ts else ret ())
   }"

definition algo_proc_data :: "int \<Rightarrow> ('a fusion_st_scheme, int) state" where
  "algo_proc_data ts = do {
     algo_update_data ts;
     a \<leftarrow> gets g_data_a;
     m \<leftarrow> gets g_data_m;
     emit (bsc ''bsc_run'' [ts, vx a, vy a, vz a, vx m, vy m, vz m]);
     ret 0
   }"

section \<open>The outputs\<close>

text \<open>The floats of a reply, and a status in its four bits.\<close>

definition fnum :: "reply \<Rightarrow> nat \<Rightarrow> rat" where
  "fnum r i = (if i < length (rflt r) then rflt r ! i else 0)"

definition put_data :: "rat \<Rightarrow> rat \<Rightarrow> rat \<Rightarrow> sensor_data \<Rightarrow> sensor_data" where
  "put_data x y z d = d\<lparr>sd_data := (sd_data d)[0 := x, 1 := y, 2 := z]\<rparr>"

definition put_status :: "reply \<Rightarrow> sensor_data \<Rightarrow> sensor_data" where
  "put_status r d = d\<lparr>sd_status := uwrap 4 (num r 0)\<rparr>"

definition algo_get_proc_data_a :: "sensor_data \<Rightarrow> ('a fusion_st_scheme, int \<times> sensor_data) state" where
  "algo_get_proc_data_a pdata = do {
     r \<leftarrow> call (bsc ''bsc_get_acccordata_ms2'' []);
     let pdata = put_data (fnum r 0) (fnum r 1) (fnum r 2) pdata;
     st \<leftarrow> call (bsc ''bsc_get_accdatastatus'' []);
     ret (rv r, put_status st pdata)
   }"

definition algo_get_proc_data_m :: "sensor_data \<Rightarrow> ('a fusion_st_scheme, int \<times> sensor_data) state" where
  "algo_get_proc_data_m pdata = do {
     r \<leftarrow> call (bsc ''bsc_get_magfiltdata_lsb'' []);
     f \<leftarrow> gets fl;
     let pdata = put_data (f (of_int (num r 0) / 4)) (f (of_int (num r 1) / 4)) (f (of_int (num r 2) / 4)) pdata;
     st \<leftarrow> call (bsc ''bsc_get_magdatastatus'' []);
     ret (rv r, put_status st pdata)
   }"

text \<open>\<open>(float)x * RADIAN2DEGREE / AXIS_RESOLUTION_FACTOR\<close>, each operation rounded.\<close>

definition degrees :: "(rat \<Rightarrow> rat) \<Rightarrow> int \<Rightarrow> rat" where
  "degrees f x = f (f (of_int x * f (180 / f (31415926 / 10000000))) / 4096)"

definition algo_get_proc_data_o :: "sensor_data \<Rightarrow> ('a fusion_st_scheme, int \<times> sensor_data) state" where
  "algo_get_proc_data_o pdata = do {
     r \<leftarrow> call (bsc ''bsc_get_orientdata_feuler'' []);
     f \<leftarrow> gets fl;
     let pdata = put_data (degrees f (num r 0)) (degrees f (num r 1)) (degrees f (num r 2)) pdata;
     st \<leftarrow> call (bsc ''bsc_get_orientdata_status'' []);
     ret (rv r, put_status st pdata)
   }"

definition algo_get_proc_data_g :: "sensor_data \<Rightarrow> ('a fusion_st_scheme, int \<times> sensor_data) state" where
  "algo_get_proc_data_g pdata = do {
     r \<leftarrow> call (bsc ''bsc_get_m4gdata_angularrate'' []);
     f \<leftarrow> gets fl;
     let pdata = put_data (f (of_int (num r 0) / 938)) (f (of_int (num r 1) / 938)) (f (of_int (num r 2) / 938)) pdata;
     st \<leftarrow> call (bsc ''bsc_get_m4gdatastatus'' []);
     ret (rv r, put_status st pdata)
   }"

definition algo_get_proc_data_vg :: "sensor_data \<Rightarrow> ('a fusion_st_scheme, int \<times> sensor_data) state" where
  "algo_get_proc_data_vg pdata = do {
     a \<leftarrow> call (bsc ''bsc_get_acccordata_ms2'' []);
     la \<leftarrow> call (bsc ''bsc_get_linaccdata_ms2'' []);
     f \<leftarrow> gets fl;
     ret (rv a, put_data (f (fnum a 0 - fnum la 0)) (f (fnum a 1 - fnum la 1)) (f (fnum a 2 - fnum la 2)) pdata)
   }"

definition algo_get_proc_data_vla :: "sensor_data \<Rightarrow> ('a fusion_st_scheme, int \<times> sensor_data) state" where
  "algo_get_proc_data_vla pdata = do {
     r \<leftarrow> call (bsc ''bsc_get_linaccdata_ms2'' []);
     ret (0, put_data (fnum r 0) (fnum r 1) (fnum r 2) pdata)
   }"

text \<open>The quaternion and its negation are the same rotation: the output is the one with \<open>0 \<le> w\<close>.\<close>

definition neg16 :: "int \<Rightarrow> int" where
  "neg16 x = swrap 16 (0 - x)"

definition quat_out :: "bool \<Rightarrow> int \<times> int \<times> int \<times> int \<Rightarrow> int \<times> int \<times> int" where
  "quat_out fix_sign q = (case q of (w, x, y, z) \<Rightarrow>
     let (x, y, z) = (if fix_sign then (neg16 x, neg16 y, neg16 z) else (x, y, z)) in
     if w < 0 then (neg16 x, neg16 y, neg16 z) else (x, y, z))"

definition algo_get_proc_data_vrv :: "sensor_data \<Rightarrow> ('a fusion_st_scheme, int \<times> sensor_data) state" where
  "algo_get_proc_data_vrv pdata = do {
     r \<leftarrow> call (bsc ''bsc_get_m4gdata_quat'' []);
     b \<leftarrow> gets build;
     f \<leftarrow> gets fl;
     let (x, y, z) = quat_out (fix_quat_sign b) (num r 0, num r 1, num r 2, num r 3);
     ret (rv r, put_data (f (of_int x / 16384)) (f (of_int y / 16384)) (f (of_int z / 16384)) pdata)
   }"

definition algo_get_proc_data_gest_flip :: "sensor_data \<Rightarrow> ('a fusion_st_scheme, int \<times> sensor_data) state" where
  "algo_get_proc_data_gest_flip pdata = do {
     b \<leftarrow> gets build;
     gest_flip \<leftarrow>
       (if algo_gest_flip b then do {
          r \<leftarrow> call (bsc ''bsc_get_flipgesture_status'' []);
          ret (uwrap 8 (num r 0))
        } else ret 255);
     lastts \<leftarrow> gets g_last_value_gest_flip;
     if gest_flip \<noteq> lastts then do {
       modify (\<lambda>s. s\<lparr>g_last_value_gest_flip := gest_flip\<rparr>);
       ret (1, put_data (of_int gest_flip) 0 0 pdata)
     } else ret (0, pdata)
   }"

end
