(* ===== verification/Algo_Init.thy ===== *)
theory Algo_Init
  imports Algo_Data
begin

text \<open>
  \<open>sensors/daemon/src/algo/algo_init.c\<close>: the stored calibration profiles, the customisation read from
  files, and the initialisation of the library.
\<close>

definition read_byte :: "int \<Rightarrow> ('a world_scheme, char option) state" where
  "read_byte fd = do {
     r \<leftarrow> call (E_read fd 1);
     ret (if rv r = 1 then Some (hd (rbuf r @ [CHR 0x00])) else None)
   }"

definition profile_file :: "char \<Rightarrow> string option" where
  "profile_file magic =
     (if magic = SENSOR_MAGIC_A then Some ''/data/misc/sensor/profile_calib_a''
      else if magic = SENSOR_MAGIC_M then Some ''/data/misc/sensor/profile_calib_m''
      else if magic = SENSOR_MAGIC_G then Some ''/data/misc/sensor/profile_calib_g''
      else None)"

text \<open>What is read from an open profile file into \<open>*cp\<close>: magic, version, size, profile.\<close>

definition read_profile :: "char \<Rightarrow> int \<Rightarrow> calib_profile \<Rightarrow> ('a world_scheme, calib_profile) state" where
  "read_profile magic fd cp = do {
     tmp \<leftarrow> read_byte fd;
     if tmp \<noteq> Some magic then do { emit (E_lseek_end fd); ret cp }
     else do {
       ver \<leftarrow> read_byte fd;
       if ver \<noteq> Some ALGO_CALIB_PROFILE_VER then do { emit (E_lseek_end fd); ret cp }
       else do {
         tmp \<leftarrow> read_byte fd;
         if tmp \<noteq> Some (CHR 0x0A) then do { emit (E_lseek_end fd); ret cp }
         else do {
           r \<leftarrow> call (E_read fd 10);
           let cp = cp\<lparr>cp_profile := overwrite (take (min 10 (nat (rv r))) (rbuf r)) (cp_profile cp)\<rparr>;
           ret (cp\<lparr>cp_status := of_cbool (rv r = 10)\<rparr>)
         }
       }
     }
   }"

text \<open>The result is \<open>*profile\<close> and \<open>*fd\<close>.\<close>

definition restore_sensor_profile :: "char \<Rightarrow> calib_profile \<Rightarrow> int \<Rightarrow> ('a world_scheme, calib_profile \<times> int) state" where
  "restore_sensor_profile magic cp fd =
     (let cp = cp\<lparr>cp_status := 0\<rparr> in
      case profile_file magic of
        None \<Rightarrow> ret (cp, fd)
      | Some filename \<Rightarrow> do {
          r \<leftarrow> call (E_open filename [O_RDWR]);
          fd_tmp \<leftarrow> (if rv r = - 1 then do {
             r \<leftarrow> call (E_open filename [O_RDWR, O_CREAT]);
             ret (rv r)
           } else ret (rv r));
          if fd_tmp = - 1 then ret (cp, - 1)
          else do {
            cp \<leftarrow> read_profile magic fd_tmp cp;
            ret (cp, fd_tmp)
          }
        })"

text \<open>A configuration file of at most \<open>n\<close> bytes: what is scanned in it, if it can be read.\<close>

definition cfg_scan :: "string \<Rightarrow> nat \<Rightarrow> fmt list \<Rightarrow> ('a world_scheme, fval list option) state" where
  "cfg_scan filename n fmts = do {
     r \<leftarrow> call (E_open filename [O_RDONLY]);
     if rv r \<noteq> - 1 then do {
       d \<leftarrow> call (E_read (rv r) n);
       emit (E_close (rv r));
       ret (if 0 \<le> rv d then Some (sscanf fmts (cstr (take (min n (nat (rv d))) (rbuf d)))) else None)
     } else ret None
   }"

abbreviation (input) comma :: fmt where "comma \<equiv> F_lit (CHR '','')"

definition algo_load_cust_param :: "('a fusion_st_scheme, unit) state" where
  "algo_load_cust_param = do {
     vs \<leftarrow> cfg_scan ''/system/etc/sensor/cfg_algo'' 63
       [F_d 11, comma, F_d 11, comma, F_d 11, comma, F_d 11, comma, F_d 11, comma, F_f 10];
     (case vs of
        None \<Rightarrow> ret ()
      | Some vs \<Rightarrow>
          if 6 \<le> length vs then
            modify (\<lambda>s. s\<lparr>cust := (cust s)\<lparr>g_acc_dyndistdect := as_int (vs ! 0), g_filter_mode_o := as_int (vs ! 4),
              g_ori_thres_m := as_int (vs ! 2), g_accuracy_thres_m := as_int (vs ! 3)\<rparr>\<rparr>)
          else ret ())
   }"

text \<open>A file that cannot be opened ends the function; one that cannot be read leaves the defaults.\<close>

definition algo_load_cust_param_gest_flip :: "('a fusion_st_scheme, unit) state" where
  "algo_load_cust_param_gest_flip = do {
     b \<leftarrow> gets build;
     f \<leftarrow> gets fl;
     if spt_gest_flip b \<and> algo_gest_flip b then do {
       r \<leftarrow> call (E_open ''/system/etc/sensor/cfg_algo_gest_flip'' [O_RDONLY]);
       if rv r \<noteq> - 1 then do {
         d \<leftarrow> call (E_read (rv r) 63);
         emit (E_close (rv r));
         let vs = (if 0 \<le> rv d then sscanf [F_f 10, comma, F_f 10, comma, F_d 11]
           (cstr (take (min 63 (nat (rv d))) (rbuf d))) else []);
         let up = (if 0 < length vs then f (as_rat (vs ! 0)) else - 1);
         let down = (if 1 < length vs then f (as_rat (vs ! 1)) else - 1);
         let ms = (if 2 < length vs then as_int (vs ! 2) else - 1);
         (if 0 < up \<and> 0 < down then do {
            must (up < 256 \<and> down < 256);
            emit (bsc ''bsc_set_flipgesture_angle'' [floor down, floor up])
          } else ret ());
         modify (\<lambda>s. s\<lparr>cust := (cust s)\<lparr>g_gest_flip_dect_time := ms\<rparr>\<rparr>);
         (if 0 < ms then emit (bsc ''bsc_set_flipgesture_detecttime'' [uwrap 16 ms]) else ret ())
       } else ret ()
     } else ret ()
   }"

definition unit_matrix :: "rat list" where
  "unit_matrix = [1, 0, 0, 0, 1, 0, 0, 0, 1]"

definition algo_apply_si_matrix :: "('a fusion_st_scheme, unit) state" where
  "algo_apply_si_matrix = do {
     b \<leftarrow> gets build;
     f \<leftarrow> gets fl;
     if predefined_si b then do {
       vs \<leftarrow> cfg_scan ''/system/etc/sensor/sic_matrix'' 255
         [F_f 10, comma, F_f 10, comma, F_f 10, comma, F_f 10, comma, F_f 10, comma, F_f 10, comma,
          F_f 10, comma, F_f 10, comma, F_f 10];
       let matrix = (case vs of None \<Rightarrow> None
         | Some vs \<Rightarrow> if length vs = 9 then Some (map (\<lambda>v. f (as_rat v)) vs) else None);
       let matrix = (if matrix = None \<and> cust_sic_matrix b then Some unit_matrix else matrix);
       (case matrix of
          None \<Rightarrow> ret ()
        | Some m \<Rightarrow> do {
            emit (bsc ''bsc_set_SoftIronCorrectionMode'' [1]);
            emit (E_bsc ''bsc_set_SoftIronCorrectionMatrix'' [] m)
          })
     } else ret ()
   }"

definition algo_init_cust :: "('a fusion_st_scheme, int) state" where
  "algo_init_cust = do {
     algo_load_cust_param;
     c \<leftarrow> gets cust;
     f \<leftarrow> gets fl;
     b \<leftarrow> gets build;
     (if g_acc_dyndistdect c \<noteq> - 1
      then emit (bsc ''bsc_set_accDyn4DistDetmode'' [of_cbool (g_acc_dyndistdect c \<noteq> 0)]) else ret ());
     (if g_accuracy_thres_m c \<noteq> - 1
      then emit (bsc ''bsc_set_magcalib_accuracy_threshold'' [uwrap 8 (g_accuracy_thres_m c)]) else ret ());
     (if g_accuracy_thres_m_init c \<noteq> - 1
      then emit (bsc ''bsc_set_magcalib_accuracy_threshold_initial'' [uwrap 8 (g_accuracy_thres_m_init c)]) else ret ());
     (if g_filter_mode_o c \<noteq> - 1
      then emit (bsc ''bsc_set_orientfiltermode'' [uwrap 8 (g_filter_mode_o c)]) else ret ());
     emit (E_bsc ''bsc_set_orientAccFilterParam'' [] [f (4 / 10), f (1 / 10)]);
     emit (E_bsc ''bsc_set_orientMagFilterParam'' [] [f (6 / 10), f (1 / 10)]);
     algo_apply_si_matrix;
     algo_load_cust_param_gest_flip;
     (if adv_pre_filter b then do {
        emit (bsc ''bsc_accAdvPreFilterMode'' [1]);
        emit (bsc ''bsc_set_accAdvPreFilterParam'' [20, 4]);
        emit (bsc ''bsc_magAdvPreFilterMode'' [1]);
        emit (bsc ''bsc_set_magAdvPreFilterParam'' [20, 5])
      } else ret ());
     emit (bsc ''bsc_set_orientopmode'' [1]);
     emit (bsc ''bsc_set_linaccopmode'' [0]);
     emit (bsc ''bsc_set_m4gopmode'' [0]);
     ret 0
   }"

definition no_profile :: calib_profile where
  "no_profile = \<lparr>cp_profile = replicate 10 (CHR 0x00), cp_status = 0\<rparr>"

definition algo_init_bst :: "('a fusion_st_scheme, int) state" where
  "algo_init_bst = do {
     r \<leftarrow> call (bsc ''algo_bst_set_hwid'' []);
     if rv r \<noteq> 0 then ret (rv r)
     else do {
       emit (bsc ''algo_bst_init_stk'' []);
       emit (bsc ''bsc_set_accremapparam'' [0, 0]);
       emit (bsc ''bsc_set_magremapparam'' [0, 0]);
       fd \<leftarrow> gets g_fd_profile_calib_a;
       (cp, fd) \<leftarrow> restore_sensor_profile SENSOR_MAGIC_A no_profile fd;
       modify (\<lambda>s. s\<lparr>g_profile_calib_a := cp, g_fd_profile_calib_a := fd\<rparr>);
       (if cp_status cp \<noteq> 0 then emit (bsc ''bsc_set_acccalibprofile'' (prof_bytes (cp_profile cp))) else ret ());
       fd \<leftarrow> gets g_fd_profile_calib_m;
       (cp, fd) \<leftarrow> restore_sensor_profile SENSOR_MAGIC_M no_profile fd;
       modify (\<lambda>s. s\<lparr>g_profile_calib_m := cp, g_fd_profile_calib_m := fd\<rparr>);
       (if cp_status cp \<noteq> 0 then emit (bsc ''bsc_set_magcalibprofile'' (prof_bytes (cp_profile cp))) else ret ());
       err \<leftarrow> algo_init_cust;
       algo_adapter_init;
       ret err
     }
   }"

end
