(* ===== verification/Sensor_Fusion.thy ===== *)
theory Sensor_Fusion
  imports Algo_Init
begin

text \<open>
  \<open>sensors/daemon/src/sensor_fusion.c\<close>: the provider \<open>SP_FUSION\<close> and its callbacks. Of the channel a
  callback is given it reads the type and \<open>cfg.bypass_proc\<close>; the interval it stores in the channel
  and the size of the output buffer it gives the provider are results.
\<close>

definition reset_product :: "algo_product \<Rightarrow> algo_product" where
  "reset_product ap = ap\<lparr>ap_enable := False, dr_a := 0, dr_m := 0, dr_g := 0, dr_acc_min := 0, dr_acc_max := 0,
     dr_mag_min := 0, dr_mag_max := 0, dr_gyro_min := 0, dr_gyro_max := 0\<rparr>"

text \<open>\<open>g_buf_out_fusion\<close> has an element for each product.\<close>

definition fusion_init :: "('a fusion_st_scheme, int \<times> nat) state" where
  "fusion_init = do {
     modify (\<lambda>s. s\<lparr>g_products := map reset_product (g_products s)\<rparr>);
     err \<leftarrow> algo_init_bst;
     n \<leftarrow> gets (\<lambda>s. length (g_products s));
     ret (err, n)
   }"

definition fusion_proc_data :: "int \<Rightarrow> ('a fusion_st_scheme, unit) state" where
  "fusion_proc_data ts = do { _ \<leftarrow> algo_proc_data ts; ret () }"

definition fusion_on_ch_enabled :: "nat \<Rightarrow> bool \<Rightarrow> int \<Rightarrow> ('a fusion_st_scheme, int) state" where
  "fusion_on_ch_enabled ty bypass enable = do {
     ap \<leftarrow> fusion_get_product ty;
     (case ap of
        None \<Rightarrow> ret (- EINVAL)
      | Some i \<Rightarrow> do {
          upd_product i (\<lambda>ap. ap\<lparr>ap_enable := bit enable 0, ap_bypass := bypass\<rparr>);
          _ \<leftarrow> algo_enable_product i enable;
          ret 0
        })
   }"

text \<open>The error and the new \<open>ch->interval\<close>, a 16-bit field.\<close>

definition fusion_on_ch_interval_changed :: "nat \<Rightarrow> int \<Rightarrow> ('a fusion_st_scheme, int \<times> int) state" where
  "fusion_on_ch_interval_changed ty interval = do {
     ap \<leftarrow> fusion_get_product ty;
     (case ap of
        None \<Rightarrow> ret (- EINVAL, swrap 16 interval)
      | Some i \<Rightarrow> do {
          new_intv \<leftarrow> algo_on_interval_changed i interval;
          ret (0, swrap 16 new_intv)
        })
   }"

definition fusion_get_hint_proc_interval :: "('a fusion_st_scheme, int) state" where
  "fusion_get_hint_proc_interval = algo_get_hint_interval"

definition fusion_get_curr_hw_dep :: "('a fusion_st_scheme, int) state" where
  "fusion_get_curr_hw_dep = algo_get_curr_hw_dep"

definition fusion_on_hw_dep_checked :: "int \<Rightarrow> ('a fusion_st_scheme, int) state" where
  "fusion_on_hw_dep_checked dep = algo_on_hw_dep_checked dep"

end
