(* ===== verification/Channels.thy ===== *)
theory Channels
  imports Sensor_Fusion
begin

text \<open>
  The channels and the providers (\<open>channel.h\<close>, \<open>sensor_provider.h\<close>, \<open>channels.c\<close>, the files \<open>channel_*.c\<close>):
  their records, the initial table of channels, and the functions that fetch a channel's data. A
  channel is its index in \<open>g_list_ch\<close>, which is also the address of its list node \<open>client\<close>; a provider
  is its index in \<open>g_list_sp\<close> (0 for \<open>SP_FUSION\<close>, 1 for \<open>SP_PRESSURE\<close>).
\<close>

abbreviation (input) CHANNEL_STATE_SLEEP :: int where "CHANNEL_STATE_SLEEP \<equiv> 0"
abbreviation (input) CHANNEL_STATE_NORMAL :: int where "CHANNEL_STATE_NORMAL \<equiv> 1"
abbreviation (input) CHANNEL_STATE_BG :: int where "CHANNEL_STATE_BG \<equiv> 2"

abbreviation (input) UNAVAILABLE :: int where "UNAVAILABLE \<equiv> 0"
abbreviation (input) AVAILABLE :: int where "AVAILABLE \<equiv> 1"
abbreviation (input) VIRTUAL :: int where "VIRTUAL \<equiv> 2"

text \<open>\<open>struct channel_cfg\<close>, without the fields that are never read.\<close>

record channel_cfg =
  cfg_sp_name :: string
  availability :: int
  no_delay :: bool
  bypass_proc :: bool
  interval_min :: int
  interval_max :: int
  dep_hw :: int

record channel =
  ch_type :: nat
  ch_handle :: int
  ch_cfg :: channel_cfg
  ch_prev_state :: int
  ch_state :: int
  ch_data_status :: int
  ch_interval :: int
  ch_ts_last_ev :: int
  ch_sp :: "nat option"

text \<open>\<open>struct exchange\<close> as a data packet; it has 56 bytes.\<close>

record exchange =
  x_magic :: int
  x_data :: sensor_data
  x_ts :: int

definition SIZEOF_EXCHANGE :: int where "SIZEOF_EXCHANGE = 56"

abbreviation (input) CHANNEL_PKT_MAGIC_DAT :: int where "CHANNEL_PKT_MAGIC_DAT \<equiv> 68"

text \<open>\<open>struct run_entity\<close> and \<open>struct sensor_provider\<close>.\<close>

record run_entity =
  re_started :: bool
  re_op_blk :: bool
  re_sleeping :: bool
  re_interval :: int

record sensor_provider =
  sp_name :: string
  sp_sensors :: int
  sp_available :: bool
  sp_client_num :: int
  sp_ref :: int
  sp_curr_hw_dep :: int
  sp_clients :: "nat option"
  sp_buf_out :: "exchange list option"
  sp_re :: run_entity

record sp_st = fusion_st +
  g_list_ch :: "channel list"
  g_next :: lheap
  g_list_sp :: "sensor_provider list"
  g_enable_p :: int
  g_fd_value_p :: int
  g_fd_fifo_cmd :: int
  g_fd_fifo_dat :: int

definition no_cfg :: "string \<Rightarrow> int \<Rightarrow> bool \<Rightarrow> channel_cfg" where
  "no_cfg name avail bypass = \<lparr>cfg_sp_name = name, availability = avail, no_delay = False,
     bypass_proc = bypass, interval_min = 0, interval_max = 0, dep_hw = 0\<rparr>"

definition mk_channel :: "nat \<Rightarrow> int \<Rightarrow> channel_cfg \<Rightarrow> channel" where
  "mk_channel ty hdl cfg = \<lparr>ch_type = ty, ch_handle = hdl, ch_cfg = cfg, ch_prev_state = 0, ch_state = 0,
     ch_data_status = 0, ch_interval = 0, ch_ts_last_ev = 0, ch_sp = None\<rparr>"

abbreviation (input) SENSOR_HANDLE_ACCELERATION :: int where "SENSOR_HANDLE_ACCELERATION \<equiv> 1"
abbreviation (input) SENSOR_HANDLE_MAGNETIC_FIELD :: int where "SENSOR_HANDLE_MAGNETIC_FIELD \<equiv> 2"
abbreviation (input) SENSOR_HANDLE_ORIENTATION :: int where "SENSOR_HANDLE_ORIENTATION \<equiv> 3"
abbreviation (input) SENSOR_HANDLE_GYROSCOPE :: int where "SENSOR_HANDLE_GYROSCOPE \<equiv> 4"
abbreviation (input) SENSOR_HANDLE_PRESSURE :: int where "SENSOR_HANDLE_PRESSURE \<equiv> 6"
abbreviation (input) SENSOR_HANDLE_PROXIMITY :: int where "SENSOR_HANDLE_PROXIMITY \<equiv> 8"
abbreviation (input) SENSOR_HANDLE_GRAVITY :: int where "SENSOR_HANDLE_GRAVITY \<equiv> 9"
abbreviation (input) SENSOR_HANDLE_LINEAR_ACCELERATION :: int where "SENSOR_HANDLE_LINEAR_ACCELERATION \<equiv> 10"
abbreviation (input) SENSOR_HANDLE_ROTATION_VECTOR :: int where "SENSOR_HANDLE_ROTATION_VECTOR \<equiv> 11"
abbreviation (input) SENSOR_HANDLE_GEST_FLIP :: int where "SENSOR_HANDLE_GEST_FLIP \<equiv> 13"

text \<open>The initialiser of \<open>g_list_ch\<close>.\<close>

definition init_list_ch :: "build_opts \<Rightarrow> channel list" where
  "init_list_ch b =
     (if spt_a b then [mk_channel SENSOR_TYPE_A SENSOR_HANDLE_ACCELERATION
        (no_cfg ''SP_FUSION'' AVAILABLE (bypass_proc_a b))] else []) @
     (if spt_g b then [mk_channel SENSOR_TYPE_G SENSOR_HANDLE_GYROSCOPE
        (no_cfg ''SP_FUSION'' (if g_emu b then VIRTUAL else AVAILABLE) False)] else []) @
     (if spt_m b then [mk_channel SENSOR_TYPE_M SENSOR_HANDLE_MAGNETIC_FIELD (no_cfg ''SP_FUSION'' AVAILABLE False)] else []) @
     (if spt_o b then [mk_channel SENSOR_TYPE_O SENSOR_HANDLE_ORIENTATION (no_cfg ''SP_FUSION'' VIRTUAL False)] else []) @
     (if spt_p b then [mk_channel SENSOR_TYPE_P SENSOR_HANDLE_PRESSURE (no_cfg ''SP_PRESSURE'' AVAILABLE False)] else []) @
     (if spt_vg b then [mk_channel SENSOR_TYPE_VG SENSOR_HANDLE_GRAVITY (no_cfg ''SP_FUSION'' VIRTUAL False)] else []) @
     (if spt_vla b then [mk_channel SENSOR_TYPE_VLA SENSOR_HANDLE_LINEAR_ACCELERATION (no_cfg ''SP_FUSION'' VIRTUAL False)] else []) @
     (if spt_vrv b then [mk_channel SENSOR_TYPE_VRV SENSOR_HANDLE_ROTATION_VECTOR (no_cfg ''SP_FUSION'' VIRTUAL False)] else []) @
     (if spt_gest_flip b then [mk_channel SENSOR_TYPE_GEST_FLIP SENSOR_HANDLE_GEST_FLIP (no_cfg ''SP_FUSION'' VIRTUAL False)] else [])"

definition channel_get_num :: "('a sp_st_scheme, nat) state" where
  "channel_get_num = gets (\<lambda>s. length (g_list_ch s))"

definition upd_ch :: "nat \<Rightarrow> (channel \<Rightarrow> channel) \<Rightarrow> ('a sp_st_scheme, unit) state" where
  "upd_ch c f = modify (\<lambda>s. s\<lparr>g_list_ch := (g_list_ch s)[c := f (g_list_ch s ! c)]\<rparr>)"

definition upd_sp :: "nat \<Rightarrow> (sensor_provider \<Rightarrow> sensor_provider) \<Rightarrow> ('a sp_st_scheme, unit) state" where
  "upd_sp p f = modify (\<lambda>s. s\<lparr>g_list_sp := (g_list_sp s)[p := f (g_list_sp s ! p)]\<rparr>)"

section \<open>Fetching data\<close>

text \<open>
  \<open>get_data_*(pbuf, n)\<close>: the number of packets written, and \<open>pmsg->data\<close> afterwards. The functions
  write at most the first packet and ignore \<open>n\<close>.
\<close>

definition get_data_a :: "sensor_data \<Rightarrow> ('a sp_st_scheme, int \<times> sensor_data) state" where
  "get_data_a d = do { (_, d) \<leftarrow> algo_get_proc_data_a d; ret (1, d) }"

definition get_data_m :: "sensor_data \<Rightarrow> ('a sp_st_scheme, int \<times> sensor_data) state" where
  "get_data_m d = do { (_, d) \<leftarrow> algo_get_proc_data_m d; ret (1, d) }"

definition get_data_o :: "sensor_data \<Rightarrow> ('a sp_st_scheme, int \<times> sensor_data) state" where
  "get_data_o d = do { (_, d) \<leftarrow> algo_get_proc_data_o d; ret (1, d) }"

definition get_data_g :: "sensor_data \<Rightarrow> ('a sp_st_scheme, int \<times> sensor_data) state" where
  "get_data_g d = do { (_, d) \<leftarrow> algo_get_proc_data_g d; ret (1, d) }"

definition get_data_vg :: "sensor_data \<Rightarrow> ('a sp_st_scheme, int \<times> sensor_data) state" where
  "get_data_vg d = do { (_, d) \<leftarrow> algo_get_proc_data_vg d; ret (1, d) }"

definition get_data_vla :: "sensor_data \<Rightarrow> ('a sp_st_scheme, int \<times> sensor_data) state" where
  "get_data_vla d = do { (_, d) \<leftarrow> algo_get_proc_data_vla d; ret (1, d) }"

definition get_data_vrv :: "sensor_data \<Rightarrow> ('a sp_st_scheme, int \<times> sensor_data) state" where
  "get_data_vrv d = do { (_, d) \<leftarrow> algo_get_proc_data_vrv d; ret (1, d) }"

text \<open>The conversion of a \<open>float\<close> to an \<open>int\<close>.\<close>

definition trunc :: "rat \<Rightarrow> int" where
  "trunc x = (if 0 \<le> x then floor x else ceiling x)"

text \<open>The filter on \<open>len_in\<close> input packets: those with a known gesture, in order.\<close>

definition data_filter_gest_flip :: "sensor_data list \<Rightarrow> nat \<Rightarrow> sensor_data list" where
  "data_filter_gest_flip din len_out =
     filter (\<lambda>d. 0 < trunc (sd_data d ! 0) \<and> trunc (sd_data d ! 0) < 4) (take (min (length din) len_out) din)"

definition get_data_gest_flip :: "sensor_data \<Rightarrow> ('a sp_st_scheme, int \<times> sensor_data) state" where
  "get_data_gest_flip d = do {
     (r, tmp) \<leftarrow> algo_get_proc_data_gest_flip d;
     if 0 < r then
       (case data_filter_gest_flip [tmp] 1 of
          [] \<Rightarrow> ret (0, d)
        | out # outs \<Rightarrow> ret (int (length (out # outs)), out))
     else ret (r, d)
   }"

definition get_data_p :: "sensor_data \<Rightarrow> ('a sp_st_scheme, int \<times> sensor_data) state" where
  "get_data_p d = do {
     fd \<leftarrow> gets g_fd_value_p;
     (err, v) \<leftarrow> txt_file_read_int fd True;
     f \<leftarrow> gets fl;
     let value = (if err \<noteq> 0 then 0 else case v of None \<Rightarrow> 0 | Some x \<Rightarrow> x);
     ret (1, d\<lparr>sd_data := (sd_data d)[0 := f (f (of_int value) / 100)]\<rparr>)
   }"

text \<open>The callback \<open>get_data\<close> of a channel, by its type.\<close>

definition ch_get_data :: "nat \<Rightarrow> sensor_data \<Rightarrow> ('a sp_st_scheme, int \<times> sensor_data) state" where
  "ch_get_data ty d =
     (if ty = SENSOR_TYPE_A then get_data_a d
      else if ty = SENSOR_TYPE_G then get_data_g d
      else if ty = SENSOR_TYPE_M then get_data_m d
      else if ty = SENSOR_TYPE_O then get_data_o d
      else if ty = SENSOR_TYPE_P then get_data_p d
      else if ty = SENSOR_TYPE_VG then get_data_vg d
      else if ty = SENSOR_TYPE_VLA then get_data_vla d
      else if ty = SENSOR_TYPE_VRV then get_data_vrv d
      else if ty = SENSOR_TYPE_GEST_FLIP then get_data_gest_flip d
      else do { must False; ret (0, d) })"

text \<open>The callback \<open>init\<close>: only that of the flip gesture does something.\<close>

definition channel_init_gest_flip :: "nat \<Rightarrow> ('a sp_st_scheme, int) state" where
  "channel_init_gest_flip c = do {
     upd_ch c (\<lambda>ch. ch\<lparr>ch_cfg := (ch_cfg ch)\<lparr>interval_min := 100, interval_max := 100, no_delay := True\<rparr>\<rparr>);
     ret 0
   }"

definition ch_init :: "nat \<Rightarrow> ('a sp_st_scheme, int) state" where
  "ch_init c = do {
     ty \<leftarrow> gets (\<lambda>s. ch_type (g_list_ch s ! c));
     if ty = SENSOR_TYPE_GEST_FLIP then channel_init_gest_flip c else ret 0
   }"

lemma gest_flip_filter:
  "set (data_filter_gest_flip din n) \<subseteq> set din" "length (data_filter_gest_flip din n) \<le> min (length din) n"
  "d \<in> set (data_filter_gest_flip din n) \<Longrightarrow> trunc (sd_data d ! 0) \<in> {1, 2, 3}"
proof -
  show "set (data_filter_gest_flip din n) \<subseteq> set din"
    by (auto simp: data_filter_gest_flip_def dest: in_set_takeD)
  show "length (data_filter_gest_flip din n) \<le> min (length din) n"
    using length_filter_le [of "\<lambda>d. 0 < trunc (sd_data d ! 0) \<and> trunc (sd_data d ! 0) < 4" "take (min (length din) n) din"]
    by (simp add: data_filter_gest_flip_def)
  show "d \<in> set (data_filter_gest_flip din n) \<Longrightarrow> trunc (sd_data d ! 0) \<in> {1, 2, 3}"
    by (auto simp: data_filter_gest_flip_def)
qed

end
