(* ===== verification/Sensor_Provider.thy ===== *)
theory Sensor_Provider
  imports Channels
begin

text \<open>
  \<open>sensors/daemon/src/sensor_provider.c\<close>, and the provider of \<open>channel_p.c\<close>. The callbacks of a
  provider are selected by its index; one that is \<open>NULL\<close> in the initialiser is \<open>None\<close> here.
\<close>

text \<open>\<open>while (cur) ... cur = cur->next\<close>: the nodes the loop visits, \<open>None\<close> if it never ends.\<close>

partial_function (option) walk :: "lheap \<Rightarrow> nat option \<Rightarrow> nat list option" where
  "walk h cur =
     (case cur of None \<Rightarrow> Some []
      | Some c \<Rightarrow> Option.bind (walk h (h c)) (\<lambda>cs. Some (c # cs)))"

lemma walk_chain: "chain h p xs \<Longrightarrow> walk h p = Some xs"
  by (induction xs arbitrary: p) (auto simp: walk.simps)

section \<open>The pressure provider\<close>

definition on_ch_enabled_p :: "int \<Rightarrow> ('a sp_st_scheme, int) state" where
  "on_ch_enabled_p enable = do { modify (\<lambda>s. s\<lparr>g_enable_p := enable\<rparr>); ret 0 }"

definition on_ch_interval_changed_p :: "int \<Rightarrow> ('a sp_st_scheme, int \<times> int) state" where
  "on_ch_interval_changed_p interval = ret (0, swrap 16 interval)"

definition get_curr_hw_dep_p :: "('a sp_st_scheme, int) state" where
  "get_curr_hw_dep_p = gets (\<lambda>s. if g_enable_p s \<noteq> 0 then 2 ^ SENSOR_HW_TYPE_P else 0)"

definition g_bmp_names :: "string list" where
  "g_bmp_names = [''bmp085'', ''bmpx85'', ''bmp18x'']"

text \<open>The number of the first device with one of the names, -1 if there is none.\<close>

fun first_dev_num :: "string list \<Rightarrow> ('a world_scheme, int) state" where
  "first_dev_num [] = ret (- 1)"
| "first_dev_num (name # names) = do {
     num \<leftarrow> sysfs_get_input_dev_num name;
     if num \<noteq> - 1 then ret num else first_dev_num names
   }"

definition sp_init_p :: "('a sp_st_scheme, int) state" where
  "sp_init_p = do {
     num \<leftarrow> first_dev_num g_bmp_names;
     (if num \<noteq> - 1 then do {
        path \<leftarrow> sprintf_to 128 (input_path num ''pressure0_input'');
        r \<leftarrow> call (E_open path [O_RDONLY]);
        modify (\<lambda>s. s\<lparr>g_fd_value_p := rv r\<rparr>)
      } else ret ());
     fd \<leftarrow> gets g_fd_value_p;
     ret (if fd = - 1 then - ENODEV else 0)
   }"

section \<open>The table of providers\<close>

definition bits :: "nat list \<Rightarrow> int" where
  "bits is = fold (\<lambda>i b. or b (2 ^ i)) is 0"

definition mk_sp :: "string \<Rightarrow> int \<Rightarrow> sensor_provider" where
  "mk_sp name sensors = \<lparr>sp_name = name, sp_sensors = sensors, sp_available = False, sp_client_num = 0, sp_ref = 0,
     sp_curr_hw_dep = 0, sp_clients = None, sp_buf_out = None,
     sp_re = \<lparr>re_started = False, re_op_blk = False, re_sleeping = False, re_interval = 0\<rparr>\<rparr>"

definition init_list_sp :: "build_opts \<Rightarrow> sensor_provider list" where
  "init_list_sp b = mk_sp ''SP_FUSION'' (bits [SENSOR_TYPE_A, SENSOR_TYPE_G, SENSOR_TYPE_M, SENSOR_TYPE_O,
       SENSOR_TYPE_VG, SENSOR_TYPE_VLA, SENSOR_TYPE_VRV, SENSOR_TYPE_GEST_FLIP]) #
     (if spt_p b then [mk_sp ''SP_PRESSURE'' (bits [SENSOR_TYPE_P])] else [])"

definition SP_FUSION :: nat where "SP_FUSION = 0"

definition no_packet :: exchange where
  "no_packet = \<lparr>x_magic = 0, x_data = \<lparr>sd_status = 0, sd_data = [0, 0, 0, 0], sd_sensor = 0, sd_type = 0,
     sd_version = 0\<rparr>, x_ts = 0\<rparr>"

text \<open>\<open>sp->init(sp)\<close>; the fusion provider brings its own output buffer, of zeroed packets.\<close>

definition sp_cb_init :: "nat \<Rightarrow> ('a sp_st_scheme, int) state" where
  "sp_cb_init p =
     (if p = SP_FUSION then do {
        (err, n) \<leftarrow> fusion_init;
        upd_sp p (\<lambda>sp. sp\<lparr>sp_buf_out := Some (replicate n no_packet)\<rparr>);
        ret err
      } else sp_init_p)"

text \<open>\<open>sp->on_ch_enabled(ch, enable)\<close>\<close>

definition sp_cb_on_ch_enabled :: "nat \<Rightarrow> nat \<Rightarrow> int \<Rightarrow> ('a sp_st_scheme, int) state" where
  "sp_cb_on_ch_enabled p c enable =
     (if p = SP_FUSION then do {
        ch \<leftarrow> gets (\<lambda>s. g_list_ch s ! c);
        fusion_on_ch_enabled (ch_type ch) (bypass_proc (ch_cfg ch)) enable
      } else on_ch_enabled_p enable)"

text \<open>\<open>sp->on_ch_interval_changed(ch, interval)\<close>, which stores \<open>ch->interval\<close>\<close>

definition sp_cb_on_ch_interval_changed :: "nat \<Rightarrow> nat \<Rightarrow> int \<Rightarrow> ('a sp_st_scheme, int) state" where
  "sp_cb_on_ch_interval_changed p c interval = do {
     ch \<leftarrow> gets (\<lambda>s. g_list_ch s ! c);
     (err, intv) \<leftarrow> (if p = SP_FUSION then fusion_on_ch_interval_changed (ch_type ch) interval
       else on_ch_interval_changed_p interval);
     upd_ch c (\<lambda>ch. ch\<lparr>ch_interval := intv\<rparr>);
     ret err
   }"

definition sp_cb_get_curr_hw_dep :: "nat \<Rightarrow> ('a sp_st_scheme, int) state" where
  "sp_cb_get_curr_hw_dep p = (if p = SP_FUSION then fusion_get_curr_hw_dep else get_curr_hw_dep_p)"

section \<open>Initialisation\<close>

definition sp_preinit_one :: "nat \<Rightarrow> ('a sp_st_scheme, unit) state" where
  "sp_preinit_one p = do {
     upd_sp p (\<lambda>sp. sp\<lparr>sp_available := False, sp_client_num := 0, sp_ref := 0, sp_curr_hw_dep := 0,
       sp_clients := None, sp_buf_out := None\<rparr>);
     emit (E_thread M_init p);
     upd_sp p (\<lambda>sp. sp\<lparr>sp_re := (sp_re sp)\<lparr>re_started := False, re_sleeping := False, re_interval := 1000\<rparr>\<rparr>);
     emit (E_thread C_init p);
     err \<leftarrow> sp_cb_init p;
     (if err \<noteq> 0 then ret () else upd_sp p (\<lambda>sp. sp\<lparr>sp_available := True\<rparr>))
   }"

definition sp_preinit :: "('a sp_st_scheme, unit) state" where
  "sp_preinit = do {
     n \<leftarrow> gets (\<lambda>s. length (g_list_sp s));
     for_each [0..<n] sp_preinit_one
   }"

text \<open>
  The thread of provider \<open>p\<close> marks itself started before its loop. \<open>sp_sync_re\<close> waits for that mark
  of every available provider; a provider without a thread would be waited for without end.
\<close>

definition re_start :: "nat \<Rightarrow> ('a sp_st_scheme, unit) state" where
  "re_start p = upd_sp p (\<lambda>sp. sp\<lparr>sp_re := (sp_re sp)\<lparr>re_started := True\<rparr>\<rparr>)"

definition sp_sync_re :: "('a sp_st_scheme, unit) state" where
  "sp_sync_re = do {
     sps \<leftarrow> gets g_list_sp;
     for_each sps (\<lambda>sp. must (sp_available sp \<longrightarrow> re_started (sp_re sp)))
   }"

text \<open>The loop that stamps the packets of the output buffer.\<close>

definition stamp_buf :: "nat \<Rightarrow> exchange list \<Rightarrow> exchange list" where
  "stamp_buf n buf = map (\<lambda>x. x\<lparr>x_magic := CHANNEL_PKT_MAGIC_DAT,
     x_data := (x_data x)\<lparr>sd_version := SIZEOF_EXCHANGE\<rparr>\<rparr>) (take n buf) @ drop n buf"

definition sp_init_one :: "nat \<Rightarrow> ('a sp_st_scheme, unit) state" where
  "sp_init_one p = do {
     sp \<leftarrow> gets (\<lambda>s. g_list_sp s ! p);
     let n = nat (sp_client_num sp);
     if sp_client_num sp = 0 then upd_sp p (\<lambda>sp. sp\<lparr>sp_available := False\<rparr>)
     else do {
       buf \<leftarrow>
         (case sp_buf_out sp of
            Some buf \<Rightarrow> ret (Some buf)
          | None \<Rightarrow> do {
              r \<leftarrow> call (E_malloc (n * nat SIZEOF_EXCHANGE));
              ret (if rv r = 0 then None else Some (replicate n no_packet))
            });
       (case buf of
          None \<Rightarrow> eusleep 100000
        | Some buf \<Rightarrow> do {
            must (n \<le> length buf);
            upd_sp p (\<lambda>sp. sp\<lparr>sp_buf_out := Some (stamp_buf n buf)\<rparr>);
            r \<leftarrow> call (E_thread Th_create p);
            (if rv r = 0 then re_start p else ret ())
          })
     }
   }"

definition sp_init :: "('a sp_st_scheme, unit) state" where
  "sp_init = do {
     emit (E_thread M_init 200);
     emit (E_thread A_init 200);
     n \<leftarrow> gets (\<lambda>s. length (g_list_sp s));
     for_each [0..<n] sp_init_one;
     sp_sync_re
   }"

fun scan_sp :: "channel \<Rightarrow> nat \<Rightarrow> sensor_provider list \<Rightarrow> nat option" where
  "scan_sp ch i [] = None"
| "scan_sp ch i (sp # sps) =
     (if bit (sp_sensors sp) (ch_type ch) \<and> cfg_sp_name (ch_cfg ch) = sp_name sp then Some i
      else scan_sp ch (Suc i) sps)"

definition sp_scan_for_provider :: "nat \<Rightarrow> ('a sp_st_scheme, nat option) state" where
  "sp_scan_for_provider c = gets (\<lambda>s. scan_sp (g_list_ch s ! c) 0 (g_list_sp s))"

definition sp_register_ch :: "nat \<Rightarrow> nat \<Rightarrow> ('a sp_st_scheme, unit) state" where
  "sp_register_ch p c = do {
     upd_sp p (\<lambda>sp. sp\<lparr>sp_client_num := uwrap 6 (sp_client_num sp + 1)\<rparr>);
     upd_ch c (\<lambda>ch. ch\<lparr>ch_sp := Some p\<rparr>)
   }"

section \<open>Dependencies and intervals\<close>

text \<open>
  The loop over the device types: the dependencies that could be changed, and the last error.
\<close>

fun dep_loop :: "nat list \<Rightarrow> int \<Rightarrow> int \<Rightarrow> int \<Rightarrow> ('a hw_st_scheme, int \<times> int) state" where
  "dep_loop [] changed new_dep_hw err = ret (new_dep_hw, err)"
| "dep_loop (i # is) changed new_dep_hw err =
     (if bit changed i then do {
        err \<leftarrow> (if bit new_dep_hw i then hw_ref_up i else hw_ref_down i);
        dep_loop is changed (if err \<noteq> 0 then xor new_dep_hw (2 ^ i) else new_dep_hw) err
      } else dep_loop is changed new_dep_hw err)"

definition sp_re_check_dep_hw :: "nat \<Rightarrow> ('a sp_st_scheme, int) state" where
  "sp_re_check_dep_hw p = do {
     new_dep_hw \<leftarrow> sp_cb_get_curr_hw_dep p;
     sp \<leftarrow> gets (\<lambda>s. g_list_sp s ! p);
     let changed = xor new_dep_hw (sp_curr_hw_dep sp);
     (new_dep_hw, err) \<leftarrow> dep_loop [0..<SENSOR_HW_TYPE_MAX] changed new_dep_hw 0;
     upd_sp p (\<lambda>sp. sp\<lparr>sp_curr_hw_dep := new_dep_hw\<rparr>);
     ret err
   }"

definition INTV_PROC_MIN :: int where "INTV_PROC_MIN = 5"

text \<open>The greatest common divisor of 1000 and the intervals of the channels that are not asleep.\<close>

fun clients_gcd :: "channel list \<Rightarrow> nat list \<Rightarrow> int \<Rightarrow> int" where
  "clients_gcd chs [] val = val"
| "clients_gcd chs (c # cs) val = clients_gcd chs cs
     (if ch_state (chs ! c) \<noteq> CHANNEL_STATE_SLEEP then get_max_comm_div val (ch_interval (chs ! c)) else val)"

definition sp_recalc_interval_re :: "nat \<Rightarrow> ('a sp_st_scheme, unit) state" where
  "sp_recalc_interval_re p = do {
     val \<leftarrow>
       (if p = SP_FUSION then fusion_get_hint_proc_interval
        else do {
          h \<leftarrow> gets g_next;
          sp \<leftarrow> gets (\<lambda>s. g_list_sp s ! p);
          chs \<leftarrow> gets g_list_ch;
          (case walk h (sp_clients sp) of
             None \<Rightarrow> do { must False; ret 1000 }
           | Some cs \<Rightarrow> ret (clients_gcd chs cs 1000))
        });
     upd_sp p (\<lambda>sp. sp\<lparr>sp_re := (sp_re sp)\<lparr>re_interval := uwrap 16 val\<rparr>\<rparr>);
     upd_sp p (\<lambda>sp. if re_interval (sp_re sp) < INTV_PROC_MIN
       then sp\<lparr>sp_re := (sp_re sp)\<lparr>re_interval := INTV_PROC_MIN\<rparr>\<rparr> else sp)
   }"

section \<open>Enabling a channel\<close>

definition sp_link_ch :: "nat \<Rightarrow> nat \<Rightarrow> int \<Rightarrow> ('a sp_st_scheme, unit) state" where
  "sp_link_ch p c enable = do {
     head \<leftarrow> gets (\<lambda>s. sp_clients (g_list_sp s ! p));
     h \<leftarrow> gets g_next;
     if enable \<noteq> 0 then do {
       (case list_find_node h head c of
          None \<Rightarrow> must False
        | Some None \<Rightarrow> modify (\<lambda>s. s\<lparr>g_next := list_add_head h head c\<rparr>)
        | Some (Some _) \<Rightarrow> ret ());
       upd_sp p (\<lambda>sp. sp\<lparr>sp_clients := Some c\<rparr>)
     } else
       (case list_del_node h head c of
          None \<Rightarrow> must False
        | Some (head', h') \<Rightarrow> do {
            modify (\<lambda>s. s\<lparr>g_next := h'\<rparr>);
            upd_sp p (\<lambda>sp. sp\<lparr>sp_clients := head'\<rparr>)
          })
   }"

definition sp_update_ref :: "nat \<Rightarrow> int \<Rightarrow> ('a sp_st_scheme, unit) state" where
  "sp_update_ref p enable =
     (if enable \<noteq> 0 then do {
        upd_sp p (\<lambda>sp. sp\<lparr>sp_ref := swrap 6 (sp_ref sp + 1)\<rparr>);
        sp \<leftarrow> gets (\<lambda>s. g_list_sp s ! p);
        (if sp_ref sp = 1 \<and> \<not> re_op_blk (sp_re sp) then emit (E_thread C_signal p) else ret ())
      } else upd_sp p (\<lambda>sp. if 0 < sp_ref sp then sp\<lparr>sp_ref := sp_ref sp - 1\<rparr> else sp))"

definition sp_enable_ch :: "nat \<Rightarrow> nat \<Rightarrow> int \<Rightarrow> ('a sp_st_scheme, unit) state" where
  "sp_enable_ch p c enable = do {
     sp_link_ch p c enable;
     _ \<leftarrow> sp_cb_on_ch_enabled p c enable;
     _ \<leftarrow> sp_re_check_dep_hw p;
     sp \<leftarrow> gets (\<lambda>s. g_list_sp s ! p);
     (if p = SP_FUSION then do { _ \<leftarrow> fusion_on_hw_dep_checked (sp_curr_hw_dep sp); ret () } else ret ());
     sp_recalc_interval_re p;
     ch \<leftarrow> gets (\<lambda>s. g_list_ch s ! c);
     if bypass_proc (ch_cfg ch) then ret () else sp_update_ref p enable
   }"

end
