(* ===== verification/Re_Proc.thy ===== *)
theory Re_Proc
  imports Sensor_Provider
begin

text \<open>
  \<open>re_proc\<close> of \<open>sensors/daemon/src/sensor_provider.c\<close>: the thread of a provider. One turn of its endless
  loop is \<open>re_block\<close> (up to the wait for a client), \<open>re_wake\<close> (after the wait) and \<open>re_body\<close>. A packet
  is written to the data FIFO as the event \<open>E_bsc\<close> of its numbers.
\<close>

definition SAMPLE_INTERVAL_MAX :: int where "SAMPLE_INTERVAL_MAX = 1000"

text \<open>The time beyond the interval of a channel, and whether it gets data now.\<close>

definition elapse_of :: "int \<Rightarrow> channel \<Rightarrow> int" where
  "elapse_of time_now ch =
     (let elapse = swrap 32 (time_now - ch_ts_last_ev ch) in
      if 0 < elapse then elapse - ch_interval ch
      else if elapse = 0 then - 1 - CFG_TOLERANCE_TIME_PRECISION
      else 0)"

definition gets_data :: "int \<Rightarrow> channel \<Rightarrow> bool" where
  "gets_data time_now ch \<longleftrightarrow> ch_state ch = CHANNEL_STATE_NORMAL \<and> \<not> bypass_proc (ch_cfg ch) \<and>
     (no_delay (ch_cfg ch) \<or> 0 \<le> elapse_of time_now ch \<or>
      0 < elapse_of time_now ch + CFG_TOLERANCE_TIME_PRECISION)"

text \<open>The loop that names the sensor of the packets \<open>n\<close> to \<open>n + tmp - 1\<close>.\<close>

definition name_packet :: "channel \<Rightarrow> exchange \<Rightarrow> exchange" where
  "name_packet ch x = x\<lparr>x_data := (x_data x)\<lparr>sd_sensor := ch_handle ch, sd_type := int (ch_type ch)\<rparr>\<rparr>"

definition name_packets :: "channel \<Rightarrow> nat \<Rightarrow> nat \<Rightarrow> exchange list \<Rightarrow> exchange list" where
  "name_packets ch n tmp data = fold (\<lambda>i data. data[n + i := name_packet ch (data ! (n + i))]) [0..<tmp] data"

text \<open>The loop over the clients: the number of packets and the output buffer.\<close>

fun collect :: "nat list \<Rightarrow> int \<Rightarrow> nat \<Rightarrow> exchange list \<Rightarrow> ('a sp_st_scheme, nat \<times> exchange list) state" where
  "collect [] time_now n data = ret (n, data)"
| "collect (c # cs) time_now n data = do {
     ch \<leftarrow> gets (\<lambda>s. g_list_ch s ! c);
     if gets_data time_now ch then do {
       must (n < length data);
       (tmp, d) \<leftarrow> ch_get_data (ch_type ch) (x_data (data ! n));
       upd_ch c (\<lambda>ch. ch\<lparr>ch_ts_last_ev := time_now\<rparr>);
       let data = data[n := (data ! n)\<lparr>x_data := d\<rparr>];
       must (n + nat tmp \<le> length data);
       collect cs time_now (n + nat tmp) (name_packets ch n (nat tmp) data)
     } else collect cs time_now n data
   }"

text \<open>\<open>data[i].ts = ts\<close> for the packets collected.\<close>

definition stamp_ts :: "nat \<Rightarrow> int \<Rightarrow> exchange list \<Rightarrow> exchange list" where
  "stamp_ts n ts data = map (\<lambda>x. x\<lparr>x_ts := ts\<rparr>) (take n data) @ drop n data"

definition packet_ints :: "exchange \<Rightarrow> int list" where
  "packet_ints x = [x_magic x, sd_version (x_data x), sd_status (x_data x), sd_sensor (x_data x),
     sd_type (x_data x), x_ts x]"

definition report_event :: "int \<Rightarrow> exchange list \<Rightarrow> event" where
  "report_event fd xs = E_bsc ''write_exchange'' (fd # int (length xs) * SIZEOF_EXCHANGE # concat (map packet_ints xs))
     (concat (map (\<lambda>x. sd_data (x_data x)) xs))"

definition sp_report_data :: "exchange list \<Rightarrow> nat \<Rightarrow> ('a sp_st_scheme, int) state" where
  "sp_report_data buf n =
     (if 0 < n then do {
        emit (E_lock L_fifo);
        fd \<leftarrow> gets g_fd_fifo_dat;
        r \<leftarrow> call (report_event fd (take n buf));
        emit (E_unlock L_fifo);
        ret (rv r)
      } else ret 0)"

text \<open>Up to the wait: \<open>True\<close> if the thread waits to be signalled.\<close>

definition set_sleeping :: "nat \<Rightarrow> bool \<Rightarrow> ('a sp_st_scheme, unit) state" where
  "set_sleeping p b = upd_sp p (\<lambda>sp. sp\<lparr>sp_re := (sp_re sp)\<lparr>re_sleeping := b\<rparr>\<rparr>)"

definition re_block :: "nat \<Rightarrow> ('a sp_st_scheme, bool) state" where
  "re_block p = do {
     sp \<leftarrow> gets (\<lambda>s. g_list_sp s ! p);
     if re_op_blk (sp_re sp) then ret False
     else do {
       emit (E_lock (L_sp p));
       sp \<leftarrow> gets (\<lambda>s. g_list_sp s ! p);
       if sp_ref sp = 0 then do { set_sleeping p True; ret True } else ret False
     }
   }"

text \<open>The return of \<open>pthread_cond_wait\<close>: \<open>False\<close> after an error, which starts the loop over.\<close>

definition re_wake :: "nat \<Rightarrow> ('a sp_st_scheme, bool) state" where
  "re_wake p = do {
     r \<leftarrow> call (E_thread C_wait p);
     set_sleeping p False;
     if rv r \<noteq> 0 then do { emit (E_unlock (L_sp p)); ret False } else ret True
   }"

definition re_sleep_time :: "int \<Rightarrow> int \<Rightarrow> int \<Rightarrow> int" where
  "re_sleep_time interval time_start time_now =
     (if swrap 32 (time_now - time_start) < 0 then - 1
      else swrap 32 (interval - uwrap 32 (time_now - time_start)))"

text \<open>The turn up to the release of the lock: the packets to report and the time it started.\<close>

definition re_collect :: "nat \<Rightarrow> ('a sp_st_scheme, nat \<times> int) state" where
  "re_collect p = do {
     time_start \<leftarrow> get_time_tick;
     (if p = SP_FUSION then fusion_proc_data (swrap 32 time_start) else ret ());
     time_now \<leftarrow> get_time_tick;
     r \<leftarrow> call (E_time T_clock_gettime);
     sp \<leftarrow> gets (\<lambda>s. g_list_sp s ! p);
     h \<leftarrow> gets g_next;
     let data = (case sp_buf_out sp of None \<Rightarrow> [] | Some data \<Rightarrow> data);
     (n, data) \<leftarrow>
       (case walk h (sp_clients sp) of
          None \<Rightarrow> do { must False; ret (0, data) }
        | Some cs \<Rightarrow> collect cs time_now 0 data);
     (if re_op_blk (sp_re sp) then ret () else emit (E_unlock (L_sp p)));
     upd_sp p (\<lambda>sp. sp\<lparr>sp_buf_out := Some (stamp_ts n (swrap 64 (num r 0 * TIME_SCALE_S2NS + num r 1)) data)\<rparr>);
     ret (n, time_start)
   }"

definition re_report :: "nat \<Rightarrow> nat \<Rightarrow> int \<Rightarrow> ('a sp_st_scheme, unit) state" where
  "re_report p n time_start = do {
     sp \<leftarrow> gets (\<lambda>s. g_list_sp s ! p);
     _ \<leftarrow> sp_report_data (case sp_buf_out sp of None \<Rightarrow> [] | Some data \<Rightarrow> data) n;
     if re_op_blk (sp_re sp) then ret ()
     else do {
       time_now \<leftarrow> get_time_tick;
       sp \<leftarrow> gets (\<lambda>s. g_list_sp s ! p);
       let sleep_time = re_sleep_time (re_interval (sp_re sp)) time_start time_now;
       if sleep_time \<le> 0 then ret () else eusleep (sleep_time * 1000)
     }
   }"

definition re_body :: "nat \<Rightarrow> ('a sp_st_scheme, unit) state" where
  "re_body p = do {
     (n, time_start) \<leftarrow> re_collect p;
     re_report p n time_start
   }"

text \<open>One turn of the loop, when nothing else runs during the wait.\<close>

definition re_turn :: "nat \<Rightarrow> ('a sp_st_scheme, unit) state" where
  "re_turn p = do {
     wait \<leftarrow> re_block p;
     ok \<leftarrow> (if wait then re_wake p else ret True);
     if ok then re_body p else ret ()
   }"

end
