(* ===== verification/Channel_Cntl.thy ===== *)
theory Channel_Cntl
  imports Re_Proc
begin

text \<open>
  \<open>sensors/daemon/src/channel_cntl.c\<close> and \<open>sensors/daemon/src/sensor_cfg.c\<close>: the commands to a channel,
  the initialisation of channels and providers, and the configuration of placements and intervals.
\<close>

abbreviation (input) SET_SENSOR_ACTIVE :: int where "SET_SENSOR_ACTIVE \<equiv> 1"
abbreviation (input) SET_SENSOR_DELAY :: int where "SET_SENSOR_DELAY \<equiv> 2"
abbreviation (input) SAMPLE_INTERVAL_MIN :: int where "SAMPLE_INTERVAL_MIN \<equiv> 0"

fun hdl2idx :: "channel list \<Rightarrow> nat \<Rightarrow> int \<Rightarrow> int" where
  "hdl2idx [] i handle = - 1"
| "hdl2idx (ch # chs) i handle = (if handle = ch_handle ch then int i else hdl2idx chs (Suc i) handle)"

definition channel_hdl2idx :: "int \<Rightarrow> ('a sp_st_scheme, int) state" where
  "channel_hdl2idx handle = gets (\<lambda>s. hdl2idx (g_list_ch s) 0 handle)"

definition channel_get_ch :: "int \<Rightarrow> ('a sp_st_scheme, nat option) state" where
  "channel_get_ch handle = do {
     i \<leftarrow> channel_hdl2idx handle;
     ret (if i \<noteq> - 1 then Some (nat i) else None)
   }"

definition channel_get_state :: "int \<Rightarrow> ('a sp_st_scheme, int) state" where
  "channel_get_state handle = do {
     ch \<leftarrow> channel_get_ch handle;
     case ch of
       None \<Rightarrow> ret CHANNEL_STATE_SLEEP
     | Some c \<Rightarrow> do {
         emit (E_lock (L_ch c));
         st \<leftarrow> gets (\<lambda>s. ch_state (g_list_ch s ! c));
         emit (E_unlock (L_ch c));
         ret st
       }
   }"

definition channel_set_state :: "nat \<Rightarrow> int \<Rightarrow> ('a sp_st_scheme, int) state" where
  "channel_set_state c st = do {
     ch \<leftarrow> gets (\<lambda>s. g_list_ch s ! c);
     must (ch_sp ch \<noteq> None);
     let p = (case ch_sp ch of None \<Rightarrow> 0 | Some p \<Rightarrow> p);
     emit (E_lock (L_ch c));
     err \<leftarrow>
       (if st = CHANNEL_STATE_SLEEP then do {
          (if ch_state ch \<noteq> CHANNEL_STATE_SLEEP then sp_enable_ch p c 0 else ret ());
          ret 0
        } else if st = CHANNEL_STATE_NORMAL \<or> st = CHANNEL_STATE_BG then do {
          (if ch_state ch = CHANNEL_STATE_SLEEP then sp_enable_ch p c 1 else ret ());
          ret 0
        } else ret (- EINVAL));
     (if err = 0 then upd_ch c (\<lambda>ch. ch\<lparr>ch_prev_state := ch_state ch, ch_state := swrap 4 st\<rparr>) else ret ());
     emit (E_unlock (L_ch c));
     ret err
   }"

definition channel_get_cfg :: "int \<Rightarrow> ('a sp_st_scheme, int \<times> channel_cfg option) state" where
  "channel_get_cfg handle = do {
     ch \<leftarrow> channel_get_ch handle;
     case ch of
       None \<Rightarrow> ret (- EINVAL, None)
     | Some c \<Rightarrow> do { cfg \<leftarrow> gets (\<lambda>s. ch_cfg (g_list_ch s ! c)); ret (0, Some cfg) }
   }"

definition channel_set_cfg :: "int \<Rightarrow> channel_cfg \<Rightarrow> ('a sp_st_scheme, int) state" where
  "channel_set_cfg handle cfg = do {
     ch \<leftarrow> channel_get_ch handle;
     case ch of
       None \<Rightarrow> ret (- EINVAL)
     | Some c \<Rightarrow> do { upd_ch c (\<lambda>ch. ch\<lparr>ch_cfg := cfg\<rparr>); ret 0 }
   }"

text \<open>The requested delay, brought into the limits of the channel.\<close>

definition clamp :: "channel_cfg \<Rightarrow> int \<Rightarrow> int" where
  "clamp cfg value =
     (let value = (if value < interval_min cfg then interval_min cfg else value) in
      if interval_max cfg < value then interval_max cfg else value)"

text \<open>\<open>lock_ref\<close> is taken unless the thread of the provider may block.\<close>

definition with_sp_lock :: "nat \<Rightarrow> ('a sp_st_scheme, unit) state \<Rightarrow> ('a sp_st_scheme, unit) state" where
  "with_sp_lock p m = do {
     sp \<leftarrow> gets (\<lambda>s. g_list_sp s ! p);
     (if \<not> re_op_blk (sp_re sp) then emit (E_lock (L_sp p)) else ret ());
     m;
     sp \<leftarrow> gets (\<lambda>s. g_list_sp s ! p);
     (if \<not> re_op_blk (sp_re sp) then emit (E_unlock (L_sp p)) else ret ())
   }"

definition channel_on_cmd_received :: "int \<Rightarrow> int \<Rightarrow> int \<Rightarrow> ('a sp_st_scheme, int) state" where
  "channel_on_cmd_received handle cmd value = do {
     ch \<leftarrow> channel_get_ch handle;
     case ch of
       None \<Rightarrow> ret (- 1)
     | Some c \<Rightarrow> do {
         ch \<leftarrow> gets (\<lambda>s. g_list_ch s ! c);
         if availability (ch_cfg ch) = 0 then ret (- 1)
         else do {
           must (ch_sp ch \<noteq> None);
           let p = (case ch_sp ch of None \<Rightarrow> 0 | Some p \<Rightarrow> p);
           if cmd = SET_SENSOR_ACTIVE then do {
             with_sp_lock p (do {
               _ \<leftarrow> channel_set_state c (if value \<noteq> 0 then CHANNEL_STATE_NORMAL else CHANNEL_STATE_SLEEP);
               ret ()
             });
             ret 0
           } else if cmd = SET_SENSOR_DELAY then
             (if value < SAMPLE_INTERVAL_MIN then ret (- EINVAL)
              else do {
                with_sp_lock p (do {
                  _ \<leftarrow> sp_cb_on_ch_interval_changed p c (clamp (ch_cfg ch) value);
                  sp_recalc_interval_re p
                });
                ret 0
              })
           else ret (- EINVAL)
         }
       }
   }"

text \<open>The display callback (\<open>CFG_CHECK_DISPLAY_STATE\<close>), for the channels but the proximity sensor.\<close>

definition channel_on_display_state_change :: "int \<Rightarrow> ('a sp_st_scheme, int) state" where
  "channel_on_display_state_change st = do {
     emit (E_lock L_display);
     n \<leftarrow> channel_get_num;
     for_each [0..<n] (\<lambda>c. do {
       ch \<leftarrow> gets (\<lambda>s. g_list_ch s ! c);
       if availability (ch_cfg ch) \<noteq> 0 \<and> ch_handle ch \<noteq> SENSOR_HANDLE_PROXIMITY then do {
         _ \<leftarrow> channel_set_state c (if st \<noteq> 0 then ch_prev_state ch else CHANNEL_STATE_SLEEP);
         ret ()
       } else ret ()
     });
     emit (E_unlock L_display);
     ret 0
   }"

section \<open>Initialisation\<close>

definition channel_init_one :: "nat \<Rightarrow> ('a sp_st_scheme, unit) state" where
  "channel_init_one c = do {
     upd_ch c (\<lambda>ch. ch\<lparr>ch_state := CHANNEL_STATE_SLEEP, ch_prev_state := CHANNEL_STATE_SLEEP, ch_data_status := 0,
       ch_interval := 200, ch_ts_last_ev := 0\<rparr>);
     modify (\<lambda>s. s\<lparr>g_next := (g_next s)(c := None)\<rparr>);
     emit (E_thread M_init (300 + c));
     ch \<leftarrow> gets (\<lambda>s. g_list_ch s ! c);
     if availability (ch_cfg ch) \<noteq> 0 then do {
       err \<leftarrow> ch_init c;
       if err = 0 then ret () else upd_ch c (\<lambda>ch. ch\<lparr>ch_cfg := (ch_cfg ch)\<lparr>availability := UNAVAILABLE\<rparr>\<rparr>)
     } else ret ()
   }"

definition channel_init :: "('a sp_st_scheme, unit) state" where
  "channel_init = do { n \<leftarrow> channel_get_num; for_each [0..<n] channel_init_one }"

definition channel_subscribe_one :: "nat \<Rightarrow> ('a sp_st_scheme, unit) state" where
  "channel_subscribe_one c = do {
     ch \<leftarrow> gets (\<lambda>s. g_list_ch s ! c);
     if availability (ch_cfg ch) = 0 then ret ()
     else do {
       sp \<leftarrow> sp_scan_for_provider c;
       ok \<leftarrow> gets (\<lambda>s. case sp of None \<Rightarrow> False | Some p \<Rightarrow> sp_available (g_list_sp s ! p));
       (if ok then sp_register_ch (the sp) c
        else upd_ch c (\<lambda>ch. ch\<lparr>ch_cfg := (ch_cfg ch)\<lparr>availability := UNAVAILABLE\<rparr>\<rparr>))
     }
   }"

definition channel_subscribe2sp :: "('a sp_st_scheme, unit) state" where
  "channel_subscribe2sp = do { n \<leftarrow> channel_get_num; for_each [0..<n] channel_subscribe_one }"

definition channel_cntl_init :: "('a sp_st_scheme, int) state" where
  "channel_cntl_init = do {
     channel_init;
     sp_preinit;
     channel_subscribe2sp;
     sp_init;
     ret 0
   }"

text \<open>No channel has an \<open>exit\<close> callback.\<close>

definition channel_cntl_destroy :: "('a sp_st_scheme, unit) state" where
  "channel_cntl_destroy = do {
     n \<leftarrow> channel_get_num;
     for_each [0..<n] (\<lambda>c. upd_ch c (\<lambda>ch. if availability (ch_cfg ch) \<noteq> 0 then ch\<lparr>ch_state := CHANNEL_STATE_SLEEP\<rparr> else ch))
   }"

section \<open>Configuration\<close>

text \<open>The lines of the file, split at line feeds and carriage returns, up to the NUL.\<close>

fun split_lines :: "string \<Rightarrow> string list" where
  "split_lines [] = [[]]"
| "split_lines (c # s) =
     (if c = CHR 0x0A \<or> c = CHR 0x0D then [] # split_lines s
      else (case split_lines s of [] \<Rightarrow> [[c]] | l # ls \<Rightarrow> (c # l) # ls))"

text \<open>The loop over the lines; it stops at the first line it does not understand.\<close>

fun axis_lines :: "string list \<Rightarrow> ('a hw_st_scheme, unit) state" where
  "axis_lines [] = ret ()"
| "axis_lines (l # ls) =
     (if l = [] then axis_lines ls
      else (case sscanf (lits ''place_'' @ [F_c, F_lit (CHR ''=''), F_d 11]) l of
          [V_c magic, V_d place] \<Rightarrow> do {
            b \<leftarrow> gets build;
            (if magic = SENSOR_MAGIC_A then do {
               (if spt_hw_a b then modify (\<lambda>s. s\<lparr>g_place_a := place\<rparr>) else ret ());
               axis_lines ls
             } else if magic = SENSOR_MAGIC_M then do {
               (if spt_hw_m b then modify (\<lambda>s. s\<lparr>g_place_m := place\<rparr>) else ret ());
               axis_lines ls
             } else if magic = SENSOR_MAGIC_G then axis_lines ls
             else ret ())
          }
        | _ \<Rightarrow> ret ()))"

definition set_cfg_axis :: "('a hw_st_scheme, unit) state" where
  "set_cfg_axis = do {
     r \<leftarrow> call (E_open ''/system/etc/sensor/sensord_cfg_axis'' [O_RDONLY]);
     if rv r = - 1 then ret ()
     else do {
       d \<leftarrow> call (E_read (rv r) 63);
       axis_lines (split_lines (cstr (take (min 63 (nat (rv d))) (rbuf d))));
       emit (E_close (rv r))
     }
   }"

text \<open>One block of \<open>set_cfg_misc\<close>: the interval limits of a channel.\<close>

definition set_limits :: "int \<Rightarrow> int \<Rightarrow> int \<Rightarrow> int \<Rightarrow> ('a sp_st_scheme, unit) state" where
  "set_limits handle lo hi dep = do {
     (_, cfg) \<leftarrow> channel_get_cfg handle;
     (case cfg of
        None \<Rightarrow> ret ()
      | Some cfg \<Rightarrow> do {
          _ \<leftarrow> channel_set_cfg handle (cfg\<lparr>interval_min := lo, interval_max := hi, dep_hw := dep\<rparr>);
          ret ()
        })
   }"

definition set_cfg_misc :: "('a sp_st_scheme, unit) state" where
  "set_cfg_misc = do {
     b \<leftarrow> gets build;
     (if spt_a b then set_limits SENSOR_HANDLE_ACCELERATION 10 200 1 else ret ());
     (if spt_g b then set_limits SENSOR_HANDLE_GYROSCOPE (if g_emu b then 20 else 10) 200 17 else ret ());
     (if spt_m b then set_limits SENSOR_HANDLE_MAGNETIC_FIELD 50 200 16 else ret ());
     (if spt_o b then set_limits SENSOR_HANDLE_ORIENTATION 50 200 17 else ret ());
     (if spt_p b then set_limits SENSOR_HANDLE_PRESSURE 20 200 32 else ret ());
     (if spt_vg b then set_limits SENSOR_HANDLE_GRAVITY 10 200 1 else ret ());
     (if spt_vla b then set_limits SENSOR_HANDLE_LINEAR_ACCELERATION 10 200 1 else ret ());
     (if spt_vrv b then set_limits SENSOR_HANDLE_ROTATION_VECTOR 20 200 17 else ret ())
   }"

definition sensor_cfg_init :: "('a sp_st_scheme, unit) state" where
  "sensor_cfg_init = do {
     b \<leftarrow> gets build;
     (if axis_from_file b then set_cfg_axis else ret ());
     set_cfg_misc
   }"

end
