(* ===== verification/Event_Handler.thy ===== *)
theory Event_Handler
  imports Channel_Cntl
begin

text \<open>
  \<open>sensors/daemon/src/event_handler.c\<close> and \<open>sensors/daemon/src/trace.c\<close>: the command FIFO and the packets
  read from it, the signal handlers, and the log files. The display code
  (\<open>CFG_CHECK_DISPLAY_STATE\<close>) uses a variable that is declared nowhere and is left out.
\<close>

record daemon_st = sp_st +
  g_fd_trace :: int
  g_fd_fault :: int

section \<open>Reading commands\<close>

text \<open>
  The loop of \<open>readn\<close>, with the bytes read so far; \<open>None\<close> for the result -1. It does not end by
  itself when \<open>read\<close> answers 0 for ever: \<open>fuel\<close> bounds the number of reads, and a call that needs
  more is one that does not return.
\<close>

fun readn_loop :: "nat \<Rightarrow> int \<Rightarrow> nat \<Rightarrow> string \<Rightarrow> ('a world_scheme, string option) state" where
  "readn_loop fuel fd 0 acc = ret (Some acc)"
| "readn_loop 0 fd (Suc nleft) acc = do { must False; ret None }"
| "readn_loop (Suc fuel) fd (Suc nleft) acc = do {
     r \<leftarrow> call (E_read fd (Suc nleft));
     if rv r < 0 then ret None
     else do {
       must (rv r \<le> int (Suc nleft));
       let n = min (nat (rv r)) (Suc nleft);
       readn_loop fuel fd (Suc nleft - n) (acc @ take n (rbuf r @ replicate n (CHR 0x00)))
     }
   }"

definition READN_FUEL :: nat where "READN_FUEL = 1000"

definition readn :: "int \<Rightarrow> nat \<Rightarrow> ('a world_scheme, string option) state" where
  "readn fd nbyte = readn_loop READN_FUEL fd nbyte []"

text \<open>\<open>struct exchange\<close>: \<open>magic\<close> at 0; the union is aligned to 8 and holds \<open>cmd\<close>, \<open>code\<close>, \<open>value\<close>.\<close>

record command =
  c_magic :: int
  c_cmd :: int
  c_code :: int
  c_value :: int

definition command_of :: "string \<Rightarrow> command" where
  "command_of bs = \<lparr>c_magic = le32_at bs 0, c_cmd = le32_at bs 8, c_code = le32_at bs 12, c_value = le32_at bs 16\<rparr>"

abbreviation (input) CHANNEL_PKT_MAGIC_CMD :: int where "CHANNEL_PKT_MAGIC_CMD \<equiv> 67"

definition check_cmd_event :: "('a sp_st_scheme, unit) state" where
  "check_cmd_event = do {
     fd \<leftarrow> gets g_fd_fifo_cmd;
     bs \<leftarrow> readn fd (nat SIZEOF_EXCHANGE);
     (case bs of
        None \<Rightarrow> ret ()
      | Some bs \<Rightarrow>
          if c_magic (command_of bs) = CHANNEL_PKT_MAGIC_CMD then do {
            _ \<leftarrow> channel_on_cmd_received (c_code (command_of bs)) (c_cmd (command_of bs)) (c_value (command_of bs));
            ret ()
          } else ret ())
   }"

text \<open>The endless loop \<open>ev_loop_check_cmd\<close>, for its first \<open>n\<close> turns.\<close>

primrec ev_loop_check_cmd :: "nat \<Rightarrow> ('a sp_st_scheme, unit) state" where
  "ev_loop_check_cmd 0 = ret ()"
| "ev_loop_check_cmd (Suc n) = do { check_cmd_event; ev_loop_check_cmd n }"

section \<open>Log files\<close>

text \<open>
  \<open>trace_log(fd, fmt, ...)\<close> of the text \<open>txt\<close> that the format stands for. \<open>vsnprintf\<close> puts at most 511
  bytes and a NUL into the buffer of 512 but answers the length of all the text, and that many
  bytes are written.
\<close>

definition trace_log :: "int \<Rightarrow> string \<Rightarrow> ('a world_scheme, unit) state" where
  "trace_log fd txt = do {
     let buf = take 511 txt @ [CHR 0x00];
     (if 0 < length txt then do {
        must (length txt \<le> 512);
        emit (E_write fd (take (length txt) buf))
      } else ret ());
     emit (E_fsync fd)
   }"

definition trace_flush :: "int \<Rightarrow> ('a world_scheme, unit) state" where
  "trace_flush fd = emit (E_fsync fd)"

definition early_trace_init :: "('a daemon_st_scheme, unit) state" where
  "early_trace_init = do {
     b \<leftarrow> gets build;
     if early_log b \<and> log_to_file b then do {
       r \<leftarrow> call (E_open ''/data/misc/sensor.log'' [O_CREAT, O_TRUNC, O_WRONLY, O_SYNC]);
       (if rv r \<noteq> - 1 then emit (E_fchmod (rv r) 438) else ret ());
       modify (\<lambda>s. s\<lparr>g_fd_trace := rv r\<rparr>)
     } else ret ()
   }"

definition trace_init :: "('a daemon_st_scheme, unit) state" where
  "trace_init = do {
     b \<leftarrow> gets build;
     if log_to_file b then do {
       fd \<leftarrow> gets g_fd_trace;
       (if early_log b \<and> fd \<noteq> - 1 then do {
          emit (E_close fd);
          emit (E_unlink ''/data/misc/sensor.log'')
        } else ret ());
       r \<leftarrow> call (E_open ''/data/misc/sensor/sensord.log'' [O_CREAT, O_TRUNC, O_WRONLY, O_SYNC]);
       modify (\<lambda>s. s\<lparr>g_fd_trace := rv r\<rparr>);
       (if rv r \<noteq> - 1 then emit (E_fchmod (rv r) 438) else ret ())
     } else ret ()
   }"

section \<open>Signals\<close>

abbreviation (input) SIGTRAP :: nat where "SIGTRAP \<equiv> 5"
abbreviation (input) SIGKILL :: nat where "SIGKILL \<equiv> 9"
abbreviation (input) SIGUSR1 :: nat where "SIGUSR1 \<equiv> 10"
abbreviation (input) SIGUSR2 :: nat where "SIGUSR2 \<equiv> 12"
abbreviation (input) SIGCONT :: nat where "SIGCONT \<equiv> 18"
abbreviation (input) SIGSTOP :: nat where "SIGSTOP \<equiv> 19"
abbreviation (input) SIGTTOU :: nat where "SIGTTOU \<equiv> 22"

text \<open>The dumps only log; they are one event.\<close>

definition handler_sig_user1 :: "('a world_scheme, unit) state" where
  "handler_sig_user1 = do { emit (E_hook ''dump'' []); emit (E_proc Pr_sync) }"

text \<open>The fault report is one event; a process that exits calls \<open>exit\<close> last.\<close>

definition sighandler_generic :: "nat \<Rightarrow> ('a daemon_st_scheme, unit) state" where
  "sighandler_generic signo =
     (if signo = SIGUSR1 then handler_sig_user1
      else if signo = SIGUSR2 \<or> signo = SIGCONT then ret ()
      else do {
        b \<leftarrow> gets build;
        if handle_fault_sig b then do {
          fd \<leftarrow> gets g_fd_fault;
          emit (E_hook ''fault_report'' [fd, int signo]);
          emit (E_hook ''dump'' []);
          channel_cntl_destroy;
          emit (E_proc Pr_sync);
          emit (E_exit (- EINVAL))
        } else ret ()
      })"

definition reg_signal :: "nat \<Rightarrow> ('a daemon_st_scheme, unit) state" where
  "reg_signal i = do {
     b \<leftarrow> gets build;
     (if i = SIGSTOP \<or> i = SIGKILL \<or> i = SIGTRAP then ret ()
      else if i = SIGUSR1 \<or> i = SIGUSR2 \<or> handle_fault_sig b then emit (E_proc (Pr_sigaction i))
      else ret ())
   }"

definition early_ev_init :: "('a daemon_st_scheme, unit) state" where
  "early_ev_init = do {
     b \<leftarrow> gets build;
     (if handle_fault_sig b then do {
        r \<leftarrow> call (E_open ''/data/misc/sensor/sensord.err'' [O_RDWR, O_APPEND, O_CREAT]);
        modify (\<lambda>s. s\<lparr>g_fd_fault := rv r\<rparr>)
      } else ret ());
     m \<leftarrow> call (E_malloc 8192);
     for_each [1..<SIGTTOU] reg_signal;
     (if rv m \<noteq> 0 then emit (E_proc Pr_sigaltstack) else ret ())
   }"

section \<open>The FIFOs\<close>

text \<open>\<open>access\<close>, and if that fails \<open>unlink\<close> and \<open>mkfifo\<close>: the error of the last.\<close>

definition make_fifo :: "string \<Rightarrow> ('a world_scheme, int) state" where
  "make_fifo filename = do {
     r \<leftarrow> call (E_access filename);
     if rv r \<noteq> 0 then do {
       emit (E_unlink filename);
       r \<leftarrow> call (E_mkfifo filename);
       ret (rv r)
     } else ret 0
   }"

text \<open>The loop that discards old commands reads on as long as it gets 16 bytes.\<close>

fun purge_loop :: "nat \<Rightarrow> int \<Rightarrow> ('a world_scheme, unit) state" where
  "purge_loop 0 fd = must False"
| "purge_loop (Suc fuel) fd = do {
     r \<leftarrow> call (E_read fd 16);
     if rv r < 16 then ret () else purge_loop fuel fd
   }"

definition PURGE_FUEL :: nat where "PURGE_FUEL = 4097"

definition fifo_init :: "('a sp_st_scheme, int) state" where
  "fifo_init = do {
     err \<leftarrow> make_fifo ''/data/misc/sensor/fifo_cmd'';
     if err \<noteq> 0 then ret err
     else do {
       b \<leftarrow> gets build;
       (if discard_old_cmd b then do {
          r \<leftarrow> call (E_open ''/data/misc/sensor/fifo_cmd'' [O_RDONLY, O_NONBLOCK]);
          modify (\<lambda>s. s\<lparr>g_fd_fifo_cmd := rv r\<rparr>);
          purge_loop PURGE_FUEL (rv r);
          emit (E_close (rv r))
        } else ret ());
       r \<leftarrow> call (E_open ''/data/misc/sensor/fifo_cmd'' [O_RDWR]);
       modify (\<lambda>s. s\<lparr>g_fd_fifo_cmd := rv r\<rparr>);
       if rv r < 0 then ret (rv r)
       else do {
         err \<leftarrow> make_fifo ''/data/misc/sensor/fifo_dat'';
         if err \<noteq> 0 then ret err
         else do {
           r \<leftarrow> call (E_open ''/data/misc/sensor/fifo_dat'' [O_RDWR]);
           modify (\<lambda>s. s\<lparr>g_fd_fifo_dat := rv r\<rparr>);
           if rv r < 0 then ret (- EIO)
           else do {
             fd \<leftarrow> gets g_fd_fifo_cmd;
             e1 \<leftarrow> call (E_fchmod fd 438);
             e2 \<leftarrow> call (E_fchmod (rv r) 438);
             ret (or (rv e1) (rv e2))
           }
         }
       }
     }
   }"

definition ev_init :: "('a sp_st_scheme, int) state" where
  "ev_init = fifo_init"

end
