(* ===== verification/Daemon.thy ===== *)
theory Daemon
  imports Event_Handler
begin

text \<open>
  \<open>sensors/daemon/src/main.c\<close> and \<open>sensors/daemon/src/misc.c\<close>: the start of \<open>sensord\<close>. A function that may
  call \<open>exit\<close> answers whether it did.
\<close>

text \<open>\<open>"/proc/%d/..."\<close>\<close>

definition proc_path :: "int \<Rightarrow> string \<Rightarrow> string" where
  "proc_path pid node = ''/proc/'' @ int_str pid @ node"

text \<open>\<open>strchr(set, c) != NULL\<close>: the terminating NUL counts.\<close>

definition strchr_in :: "string \<Rightarrow> char \<Rightarrow> bool" where
  "strchr_in cs c \<longleftrightarrow> c \<in> set cs \<or> c = CHR 0x00"

text \<open>The pid and the state letter in a \<open>stat\<close> line; what is not converted keeps its value.\<close>

definition scan_stat :: "string \<Rightarrow> int \<Rightarrow> char \<Rightarrow> int \<times> char" where
  "scan_stat txt pid st =
     (case sscanf [F_d 11, F_ws, F_s 63, F_ws, F_c] txt of
        V_d p # _ # V_c c # _ \<Rightarrow> (p, c)
      | V_d p # _ \<Rightarrow> (p, st)
      | _ \<Rightarrow> (pid, st))"

text \<open>The rest of \<open>singletonize\<close>, when the \<open>stat\<close> file of the other process could be opened.\<close>

definition check_other :: "int \<Rightarrow> int \<Rightarrow> ('a world_scheme, bool) state" where
  "check_other fd_proc pid_another = do {
     r \<leftarrow> call (E_read fd_proc 127);
     let (pid_another, st) = (if 0 < rv r
       then scan_stat (cstr (take (min 127 (nat (rv r))) (rbuf r))) pid_another (CHR 0x00)
       else (pid_another, CHR 0x00));
     emit (E_close fd_proc);
     me \<leftarrow> call E_getpid;
     if rv me = pid_another then ret False
     else do {
       path \<leftarrow> sprintf_to 64 (proc_path pid_another ''/exe'');
       r \<leftarrow> call (E_readlink path 127);
       if rv r \<le> 0 then ret False
       else do {
         let another = cstr (take (min 127 (nat (rv r))) (rbuf r));
         me \<leftarrow> call E_getpid;
         path \<leftarrow> sprintf_to 64 (proc_path (rv me) ''/exe'');
         r \<leftarrow> call (E_readlink path 127);
         if rv r \<le> 0 then ret False
         else if cstr (take (min 127 (nat (rv r))) (rbuf r)) \<noteq> another then ret False
         else if st \<noteq> CHR ''Z'' \<and> strchr_in ''RSDTW'' st then do {
           emit (E_proc Pr_printf);
           emit (E_exit 0);
           ret True
         } else ret False
       }
     }
   }"

definition singletonize :: "('a world_scheme, bool) state" where
  "singletonize = do {
     r \<leftarrow> call (E_open ''/data/misc/sensor/.id'' [O_RDONLY]);
     if rv r = - 1 then ret False
     else do {
       (_, v) \<leftarrow> txt_file_read_int (rv r) True;
       let pid_another = (case v of None \<Rightarrow> - 1 | Some p \<Rightarrow> p);
       emit (E_close (rv r));
       path \<leftarrow> sprintf_to 64 (proc_path pid_another ''/stat'');
       p \<leftarrow> call (E_open path [O_RDONLY]);
       if rv p = - 1 then ret False else check_other (rv p) pid_another
     }
   }"

definition parse_cmd_line :: "string list \<Rightarrow> ('a world_scheme, bool) state" where
  "parse_cmd_line argv =
     (if ''-v'' \<in> set argv then do { emit (E_hook ''dump_ver'' []); emit (E_exit 0); ret True } else ret False)"

definition mark_land_owner :: "('a world_scheme, unit) state" where
  "mark_land_owner = do {
     r \<leftarrow> call (E_open ''/data/misc/sensor/.id'' [O_RDWR, O_CREAT, O_TRUNC]);
     if rv r \<noteq> - 1 then do {
       emit (E_fchmod (rv r) 420);
       me \<leftarrow> call E_getpid;
       _ \<leftarrow> txt_file_write_int (rv r) (rv me) True True;
       emit (E_close (rv r))
     } else ret ()
   }"

text \<open>\<open>stat\<close> answers the mode as its first number; before the call \<open>st_mode\<close> is \<open>~S_IFDIR\<close>.\<close>

definition S_ISDIR :: "int \<Rightarrow> bool" where
  "S_ISDIR mode \<longleftrightarrow> and mode 0xF000 = 0x4000"

definition storage_init :: "('a world_scheme, unit) state" where
  "storage_init = do {
     r \<leftarrow> call (E_access ''/data/misc/sensor'');
     err \<leftarrow>
       (if rv r = 0 then do {
          st \<leftarrow> call (E_stat ''/data/misc/sensor'');
          let mode = (if rv st = 0 then num st 0 else uwrap 32 (not 0x4000));
          ret (if S_ISDIR mode then rv st else - ENOTDIR)
        } else ret (rv r));
     (if err \<noteq> 0 then do {
        emit (E_unlink ''/data/misc/sensor'');
        emit (E_mkdir ''/data/misc/sensor'')
      } else ret ());
     emit (E_chmod ''/data/misc/sensor'' 511)
   }"

definition misc_init :: "('a daemon_st_scheme, int) state" where
  "misc_init = do {
     storage_init;
     mark_land_owner;
     trace_init;
     emit (E_hook ''dump_ver'' []);
     time_init;
     ret 0
   }"

text \<open>
  \<open>main\<close>, with the first \<open>n\<close> turns of the command loop: the exit code if the process ended, \<open>None\<close> if
  the loop runs on.
\<close>

definition daemon_main :: "nat \<Rightarrow> string list \<Rightarrow> ('a daemon_st_scheme, int option) state" where
  "daemon_main n argv = do {
     early_trace_init;
     early_ev_init;
     stop \<leftarrow> parse_cmd_line argv;
     if stop then ret (Some 0)
     else do {
       stop \<leftarrow> singletonize;
       if stop then ret (Some 0)
       else do {
         _ \<leftarrow> misc_init;
         sensor_cfg_init;
         err \<leftarrow> hw_cntl_init;
         if err \<noteq> 0 then ret (Some err)
         else do {
           err \<leftarrow> channel_cntl_init;
           if err \<noteq> 0 then ret (Some err)
           else do {
             err \<leftarrow> ev_init;
             if err \<noteq> 0 then ret (Some err)
             else do { ev_loop_check_cmd n; ret None }
           }
         }
       }
     }
   }"

end
