(* ===== verification/Examples.thy ===== *)
theory Examples
  imports Daemon
begin

text \<open>
  States on which the properties are tried out: the daemon of the nicki build, with an operating system
  that is given as a function from calls to replies.
\<close>

definition answer :: "int \<Rightarrow> reply" where
  "answer v = \<lparr>rv = v, rerr = 0, rbuf = [], rnum = [], rflt = []\<rparr>"

text \<open>Every file opens as number 3, every write takes all its bytes, and any other call answers 0.\<close>

definition good_os :: "event \<Rightarrow> reply" where
  "good_os e = (case e of
       E_path (P_open fs) p \<Rightarrow> answer 3
     | E_fd (F_write bs) fd \<Rightarrow> answer (int (length bs))
     | _ \<Rightarrow> answer 0)"

definition ex_clock :: clock_provider where
  "ex_clock = \<lparr>cp_res_sec = 0, cp_res_nsec = 1, cp_start_sec = 0, cp_start_nsec = 0, cp_ref_sec = 0, cp_ref_nsec = 0\<rparr>"

definition ex_hw :: "nat \<Rightarrow> sensor_hw" where
  "ex_hw ty = \<lparr>hw_type = ty, hw_available = True, hw_fd_pollable = True, hw_ref = 0, hw_enabled = False,
     hw_drdy = False, hw_delay = 200, hw_fd_poll = 7, hw_ts_last_update = 0\<rparr>"

definition ex_product :: "nat \<Rightarrow> algo_product" where
  "ex_product ty = \<lparr>ap_type = ty, ap_enable = False, ap_bypass = False, dr_a = 0, dr_m = 0, dr_g = 0,
     dr_acc_min = 1, dr_acc_max = 6, dr_mag_min = 2, dr_mag_max = 2, dr_gyro_min = 0, dr_gyro_max = 0\<rparr>"

definition ex_chs :: "channel list" where
  "ex_chs = map (\<lambda>ch. ch\<lparr>ch_cfg := (ch_cfg ch)\<lparr>interval_min := 10, interval_max := 200\<rparr>, ch_sp := Some 0, ch_interval := 200\<rparr>)
     (init_list_ch nicki_build)"

definition ex_sps :: "sensor_provider list" where
  "ex_sps = map (\<lambda>sp. sp\<lparr>sp_available := True, sp_client_num := 3, sp_buf_out := Some (replicate 3 no_packet),
     sp_re := \<lparr>re_started = True, re_op_blk = False, re_sleeping = True, re_interval = 1000\<rparr>\<rparr>) (init_list_sp nicki_build)"

definition ex_st :: "(event list \<Rightarrow> event \<Rightarrow> reply) \<Rightarrow> daemon_st" where
  "ex_st os = \<lparr>env = os, tr = [], ub = False, fl = id,
     g_start_sec = 0, g_start_usec = 0, g_cp_hr = ex_clock, g_cp_rt = ex_clock, g_cp_dft = Some CP_HR,
     build = nicki_build, g_hw_a = ex_hw 0, g_hw_m = ex_hw 4, hwa_bw = 0, hwa_range = 0, hwa_data_bits = 10,
     g_input_dev_num_a = 1, g_fd_value_a = 5, g_fd_update_a = 6, g_fd_input_ev_a = 7, g_place_a = 2,
     g_input_dev_num_m = 2, g_fd_value_m = 8, g_fd_op_mode_m = 9, g_fd_input_ev_m = 10, g_place_m = - 1,
     g_rept_xy = 4, g_rept_z = 15,
     g_products = map ex_product (product_types nicki_build),
     g_modules = map (\<lambda>k. \<lparr>am_id = k, am_op_mode = 0, am_ref = 0\<rparr>) (module_ids nicki_build),
     g_dr_a = 0, g_dr_m = 0, g_dr_g = 0, g_tab_hz = [1, 5, 10, 20, 25, 50, 100, 200],
     g_data_a = \<lparr>vx = 0, vy = 0, vz = 0\<rparr>, g_data_m = \<lparr>vx = 0, vy = 0, vz = 0\<rparr>,
     g_last_ts_a = 0, g_last_ts_m = 0, g_p_hw_a = True, g_p_hw_m = True, g_active_hws = 0,
     g_last_value_gest_flip = - 1, g_ref_hw_a = 0, g_ref_hw_m = 0, g_fd_profile_calib_a = 11,
     g_fd_profile_calib_m = 12, g_profile_calib_a = no_profile, g_profile_calib_m = no_profile,
     cust = \<lparr>g_acc_dyndistdect = - 1, g_filter_mode_o = - 1, g_ori_thres_m = - 1, g_accuracy_thres_m = - 1,
       g_accuracy_thres_m_init = - 1, g_gest_flip_dect_time = - 1\<rparr>,
     g_list_ch = ex_chs, g_next = (\<lambda>_. None), g_list_sp = ex_sps, g_enable_p = 0, g_fd_value_p = - 1,
     g_fd_fifo_cmd = 20, g_fd_fifo_dat = 21, g_fd_trace = 22, g_fd_fault = 23\<rparr>"

definition ex_good :: daemon_st where
  "ex_good = ex_st (\<lambda>_. good_os)"

lemma ex_st_env [simp]: "env (ex_st os) = os" "tr (ex_st os) = []" "ub (ex_st os) = False" "build (ex_st os) = nicki_build"
  "g_fd_value_a (ex_st os) = 5" "g_place_a (ex_st os) = 2" "hwa_bw (ex_st os) = 0" "g_hw_a (ex_st os) = ex_hw 0"
  "g_hw_m (ex_st os) = ex_hw 4" "fl (ex_st os) = id"
  by (simp_all add: ex_st_def)

lemma good_os_io [simp]: "io_ok (ex_st (\<lambda>_. good_os))"
  by (simp add: io_ok_def good_os_def answer_def)

lemma ex_good_hw: "hw_good ex_good" "hw_has d ex_good"
  by (cases d; simp add: ex_good_def hw_good_def hw_has_def hw_of_def ex_hw_def g_list_hw_def nicki_build_def
      split: hw_dev.splits)+

end
