(* ===== verification/Props_Hw.thy ===== *)
theory Props_Hw
  imports Examples
begin

text \<open>
  What the hardware layer promises: the reference counts of the devices, what a reading is, and how the
  accelerometer's bandwidth is set.
\<close>

section \<open>Reference counts\<close>

text \<open>C12: over any sequence of acquisitions and releases of the two devices in which no count leaves the range of
  its 8-bit field, and if the sysfs nodes can be written, the count of a device (\<open>hw_ref_up\<close>, \<open>hw_ref_down\<close>) is its
  initial count plus acquisitions minus releases, and it is enabled exactly when that count is positive.\<close>

theorem hw_refs_count:
  assumes "hw_good s" "\<forall>x \<in> set ops. hw_has (op_key x) s" "counts_within (\<lambda>d. hw_ref (hw_of d s)) 127 ops" "hw_has d s"
  shows "hw_ref (hw_of d (foldl (apply_op up_act down_act) s ops)) = hw_ref (hw_of d s) + net d ops \<and>
    (hw_enabled (hw_of d (foldl (apply_op up_act down_act) s ops)) \<longleftrightarrow> 0 < hw_ref (hw_of d s) + net d ops)"
  using hw_refs.run_ops [OF assms(1-3)] hw_refs.run_ops_on [OF assms] by blast

theorem hw_refs_count_witness:
  "hw_ref (hw_of HW_A (foldl (apply_op up_act down_act) ex_good [Up HW_A, Up HW_M, Up HW_A, Down HW_A])) = 1 \<and>
   hw_enabled (hw_of HW_A (foldl (apply_op up_act down_act) ex_good [Up HW_A, Up HW_M, Up HW_A, Down HW_A]))"
proof -
  have "hw_ref (hw_of d ex_good) = 0" for d
    by (cases d) (simp_all add: ex_good_def hw_of_def ex_hw_def)
  moreover have "counts_within (\<lambda>_. 0) 127 [Up HW_A, Up HW_M, Up HW_A, Down HW_A]"
    by (auto simp: counts_within_def le_Suc_eq take_Cons')
  ultimately show ?thesis
    using hw_refs_count [of ex_good "[Up HW_A, Up HW_M, Up HW_A, Down HW_A]" HW_A] ex_good_hw by simp
qed

text \<open>C34: when the first acquisition fails to enable the device, \<open>hw_ref_up\<close> reports the error but keeps the count at 1,
  so that the next acquisition reports success although the device is still off.\<close>

theorem hw_ref_up_retry:
  assumes f: "find_hw (g_list_hw (build s)) i s = Some d" and h: "hw_ref (hw_of d s) = 0" "\<not> hw_enabled (hw_of d s)"
    and fails: "up_answer d s \<noteq> 0"
    and 1: "run_state (hw_ref_up i) s = (e1, s1)" and 2: "run_state (hw_ref_up i) s1 = (e2, s2)"
  shows "e1 = up_answer d s \<and> e2 = 0 \<and> hw_ref (hw_of d s2) = 2 \<and> \<not> hw_enabled (hw_of d s2)"
proof -
  note a = hw_ref_up_spec [OF f 1]
  have d1: "hw_of d s1 = (hw_of d s)\<lparr>hw_ref := 1\<rparr>"
    using a(1) [of d] h fails by (simp add: ref_up_rec_def)
  have av: "hw_available (hw_of d s)" "d \<in> set (g_list_hw (build s))" "dev_type d = i"
    using find_hw_Some [OF f] by auto
  then have f1: "find_hw (g_list_hw (build s1)) i s1 = Some d"
    using a(2) d1 by auto
  have "e1 = up_answer d s"
    using 1 fails h by (auto simp: hw_ref_up_def hw_get_hw_by_id_def f split_beta up_answer_def split: if_splits)
  moreover have "e2 = 0"
    using 2 d1 h by (auto simp: hw_ref_up_def hw_get_hw_by_id_def f1 split_beta split: if_splits)
  ultimately show ?thesis
    using hw_ref_up_spec(1) [OF f1 2, of d] d1 h by (simp add: ref_up_rec_def)
qed

definition no_files :: daemon_st where
  "no_files = ex_st (\<lambda>_ e. case e of E_path q p \<Rightarrow> answer (- 1) | _ \<Rightarrow> good_os e)"

theorem hw_ref_up_retry_witness:
  "\<exists>s1 s2. run_state (hw_ref_up SENSOR_HW_TYPE_M) no_files = (- EIO, s1) \<and> run_state (hw_ref_up SENSOR_HW_TYPE_M) s1 = (0, s2)
     \<and> \<not> hw_enabled (hw_of HW_M s2)"
proof -
  have f: "find_hw (g_list_hw (build no_files)) SENSOR_HW_TYPE_M no_files = Some HW_M"
    by (simp add: no_files_def g_list_hw_def nicki_build_def dev_type_def hw_of_def ex_hw_def)
  have h: "hw_ref (hw_of HW_M no_files) = 0" "\<not> hw_enabled (hw_of HW_M no_files)"
    by (simp_all add: no_files_def hw_of_def ex_hw_def)
  have u: "up_answer HW_M no_files = - EIO"
    by (simp add: up_answer_def no_files_def hw_enable_def hw_enable_m_def hw_mag_set_opmode_def node_path_m_def
        sysfs_write_int_def split_beta answer_def hw_quiet_frame(2) quiet_rules nicki_build_def)
  obtain e1 s1 e2 s2 where r: "run_state (hw_ref_up SENSOR_HW_TYPE_M) no_files = (e1, s1)"
      "run_state (hw_ref_up SENSOR_HW_TYPE_M) s1 = (e2, s2)"
    by (meson surj_pair)
  from hw_ref_up_retry [OF f h _ r] u r show ?thesis by auto
qed

section \<open>Readings\<close>

text \<open>What the driver prints for a vector.\<close>

definition xyz_text :: "ival \<Rightarrow> string" where
  "xyz_text v = int_str (vx v) @ '' '' @ int_str (vy v) @ '' '' @ int_str (vz v) @ [CHR 0x0A]"

lemma in_s32_bounds:
  "in_s32 v \<Longrightarrow> - (2 ^ 31) \<le> vx v \<and> vx v < 2 ^ 31 \<and> - (2 ^ 31) \<le> vy v \<and> vy v < 2 ^ 31 \<and> - (2 ^ 31) \<le> vz v \<and> vz v < 2 ^ 31"
  by (auto simp: in_s32_def)

lemma int_str_no_nul: "CHR 0x00 \<notin> set (int_str x)"
  using nat_str_digits [of "nat x"] nat_str_digits [of "nat (- x)"]
  by (auto simp: int_str_def is_digit_def split: if_splits)

lemma scan3_text:
  assumes "in_s32 v"
  shows "scan3 (xyz_text v) = [V_d (vx v), V_d (vy v), V_d (vz v)]"
proof -
  note b = in_s32_bounds [OF assms]
  have s: "scan_d 11 (int_str x @ r) = Some (x, r)"
    if "- (2 ^ 31) \<le> x \<and> x < 2 ^ 31" "r = [] \<or> \<not> is_digit (hd r)" for x r
    using scan_int_str [of x r 11] int_str_length [of x] that by auto
  have sp1: "is_space (CHR '' '')" by (simp add: is_space_def)
  have sp: "dropWhile is_space (CHR '' '' # int_str x @ r) = int_str x @ r" for x r
    using int_str_nonspace [of x r] by (simp add: sp1)
  show ?thesis
    unfolding scan3_def xyz_text_def using b by (simp add: s sp sp1 int_str_nonspace is_digit_def)
qed

lemma xyz_text_read:
  assumes "in_s32 v"
  shows "cstr (take (min 63 (length (xyz_text v))) (xyz_text v)) = xyz_text v" "0 < length (xyz_text v)"
proof -
  have "length (int_str (vx v)) \<le> 11" "length (int_str (vy v)) \<le> 11" "length (int_str (vz v)) \<le> 11"
    using in_s32_bounds [OF assms] int_str_length by auto
  then have "length (xyz_text v) \<le> 63"
    by (simp add: xyz_text_def)
  then show "cstr (take (min 63 (length (xyz_text v))) (xyz_text v)) = xyz_text v"
    by (simp add: cstr_no_nul xyz_text_def int_str_no_nul)
qed (simp add: xyz_text_def)

text \<open>C18: a reading of the accelerometer (\<open>hw_acc_read_xyzdata\<close>) in the phone's build: if the \<open>value\<close> node gives back
  the text the driver prints for a vector, the reading is that vector, turned by the placement and brought from 16 to
  10 bits, without an error and without undefined behaviour.\<close>

theorem acc_reading:
  assumes "build s = nicki_build" "g_fd_value_a s \<noteq> - 1" "g_place_a s < 8" "in_s32 v" "\<not> ub s"
    and r: "r = env s (E_lseek_set (g_fd_value_a s) # tr s) (E_read (g_fd_value_a s) 63)"
      "rv r = int (length (xyz_text v))" "rbuf r = xyz_text v"
    and run: "run_state hw_acc_read_xyzdata s = ((err, w), s')"
  shows "err = 0 \<and> \<not> ub s' \<and> w = shift3 6 (if 0 \<le> g_place_a s then rotation_of (axis_remap_tab_a False ! nat (g_place_a s)) v else v)"
proof -
  let ?s = "s\<lparr>tr := E_read (g_fd_value_a s) 63 # E_lseek_set (g_fd_value_a s) # tr s\<rparr>"
  have nb: "input_event_cache_a nicki_build" "data_fullrange_a nicki_build" "\<not> id_a_bmc056 nicki_build"
    by (simp_all add: nicki_build_def)
  have fr: "run_state hw_acc_read_xyzdata_fr s = ((0, v), ?s)"
    using assms(1,2) r nb xyz_text_read [OF assms(4)] scan3_text [OF assms(4)]
    by (simp add: hw_acc_read_xyzdata_fr_def Let_def put3_def)
  have "run_state (remap_at (axis_remap_tab_a False) (g_place_a s) v) ?s =
      (if 0 \<le> g_place_a s then rotation_of (axis_remap_tab_a False ! nat (g_place_a s)) v else v, ?s)"
    by (rule run_remap_at) (use assms tab_entries in auto)
  then show ?thesis
    using run fr assms(1,5) nb by (auto simp: hw_acc_read_xyzdata_def split: if_splits)
qed

definition acc_os :: "event list \<Rightarrow> event \<Rightarrow> reply" where
  "acc_os t e = (let txt = xyz_text \<lparr>vx = 640, vy = - 1280, vz = 16384\<rparr> in (answer (int (length txt)))\<lparr>rbuf := txt\<rparr>)"

theorem acc_reading_witness:
  "fst (run_state hw_acc_read_xyzdata (ex_st acc_os)) = (0, \<lparr>vx = - 10, vy = 20, vz = 256\<rparr>)"
proof -
  let ?v = "\<lparr>vx = 640, vy = - 1280, vz = 16384\<rparr> :: ival"
  obtain err w s' where run: "run_state hw_acc_read_xyzdata (ex_st acc_os) = ((err, w), s')"
    by (metis surj_pair)
  have "rv (acc_os t e) = int (length (xyz_text ?v))" "rbuf (acc_os t e) = xyz_text ?v" for t e
    by (simp_all add: acc_os_def answer_def Let_def)
  then have "err = 0 \<and> w = shift3 6 (rotation_of (axis_remap_tab_a False ! nat 2) ?v)"
    using acc_reading [OF _ _ _ _ _ refl _ _ run, of ?v] by (simp add: in_s32_def)
  with run show ?thesis
    by (simp add: shift3_def rotation_of_def axis_remap_tab_a_def Let_def drop_bit_int_def)
qed

definition dot :: "ival \<Rightarrow> ival \<Rightarrow> int" where
  "dot u v = vx u * vx v + vy u * vy v + vz u * vz v"

text \<open>C35: every placement in the tables of both chips is a proper rotation: \<open>hw_remap_sensor_data\<close> with any entry, on vectors whose
  components can be negated, keeps the length, the scalar product and the orientation (the cross product).\<close>

theorem placements_rotate:
  assumes "e \<in> set (axis_remap_tab_a b) \<or> e \<in> set (axis_remap_tab_m b)" "in_s32 u" "in_s32 v"
  shows "\<exists>u' v'. hw_remap_sensor_data u e = Some u' \<and> hw_remap_sensor_data v e = Some v' \<and>
    norm2 u' = norm2 u \<and> dot u' v' = dot u v \<and> cross u' v' = rotation_of e (cross u v)"
proof -
  have e: "rotation_entry e" using assms(1) tab_entries by blast
  have "dot (rotation_of e u) (rotation_of e v) = dot u v"
    by (simp add: rotation_of_def dot_def Let_def)
  then show ?thesis
    using rotation_entry_rotates [OF e] assms(2,3) rotation_norm rotation_cross [OF e] by auto
qed

theorem placements_rotate_witness:
  "\<exists>u'. hw_remap_sensor_data \<lparr>vx = 1, vy = 2, vz = 3\<rparr> (axis_remap_tab_a False ! 4) = Some u' \<and> norm2 u' = 14"
  using placements_rotate [of "axis_remap_tab_a False ! 4" False "\<lparr>vx = 1, vy = 2, vz = 3\<rparr>" "\<lparr>vx = 1, vy = 2, vz = 3\<rparr>"]
  by (auto simp: in_s32_def norm2_def)

section \<open>The bandwidth of the accelerometer\<close>

definition write_events :: "'a world_scheme \<Rightarrow> string \<Rightarrow> int \<Rightarrow> event list" where
  "write_events s path v = (let fd = rv (env s (tr s) (E_open path [O_WRONLY])) in
     [E_close fd, E_write fd (int_str v @ [CHR 0x0A]), E_open path [O_WRONLY]])"

lemma write_int_run:
  assumes "io_ok s" "- (2 ^ 31) \<le> v" "v < 2 ^ 31"
  shows "run_state (sysfs_write_int path v) s = (0, s\<lparr>tr := write_events s path v @ tr s\<rparr>)"
  using assms int_str_length [OF assms(2,3)]
  by (auto simp: sysfs_write_int_def io_ok_def write_events_def sprintf_to_def Let_def)

lemma bw_rows:
  "map_index map_a_bw bw < length map_a_bw \<longleftrightarrow> bw \<in> {0, 1, 2, 3, 4}"
  "bw \<in> {0, 1, 2, 3, 4} \<Longrightarrow> map_index map_a_bw bw = nat bw \<and> snd (map_a_bw ! map_index map_a_bw bw) = 8 + bw"
  by (auto simp: map_a_bw_def)

text \<open>\<open>hw_acc_set_bandwidth\<close> with another bandwidth than the current one: one of the five writes its register value \<open>8 + bw\<close> to the
  \<open>bandwidth\<close> node, records it and only sleeps after; any other is refused with \<open>-EINVAL\<close>, and nothing is written or recorded.\<close>

theorem set_bandwidth_spec:
  assumes io: "io_ok s" and bw: "bw \<noteq> hwa_bw s" "- (2 ^ 31) \<le> bw" "bw < 2 ^ 31"
    and n: "- (2 ^ 31) \<le> g_input_dev_num_a s" "g_input_dev_num_a s < 2 ^ 31"
    and run: "run_state (hw_acc_set_bandwidth bw) s = (err, s')"
  shows "if bw \<in> {0, 1, 2, 3, 4}
    then err = 0 \<and> hwa_bw s' = bw \<and> (\<exists>es. list_all is_sleep es \<and>
      tr s' = es @ write_events s (input_path (g_input_dev_num_a s) ''bandwidth'') (8 + bw) @ tr s)
    else err = - EINVAL \<and> s' = s"
proof -
  let ?path = "input_path (g_input_dev_num_a s) ''bandwidth''"
  have p: "run_state (node_path_a ''bandwidth'') s = (?path, s)"
    using input_path_length [OF n, of "''bandwidth''"] by (simp add: node_path_a_def sprintf_to_def)
  show ?thesis
  proof (cases "bw \<in> {0, 1, 2, 3, 4}")
    case False
    with bw_rows(1) [of bw] run bw p show ?thesis
      by (auto simp: hw_acc_set_bandwidth_def Let_def)
  next
    case True
    have rows: "map_index map_a_bw bw = nat bw" "snd (map_a_bw ! nat bw) = 8 + bw"
      using bw_rows(2) [OF True] by auto
    have u: "uwrap 8 (8 + bw) = 8 + bw" "uwrap 12 bw = bw" "swrap 32 bw = bw"
      using True by auto
    let ?s1 = "s\<lparr>tr := write_events s ?path (8 + bw) @ tr s, hwa_bw := bw\<rparr>"
    have w: "run_state (sysfs_write_int ?path (8 + bw)) s = (0, s\<lparr>tr := write_events s ?path (8 + bw) @ tr s\<rparr>)"
      by (rule write_int_run [OF io]) (use True in auto)
    have us: "drop_bit (nat bw) DELAY_REF_BW_MAX < 1000000"
      using True by (auto simp: DELAY_REF_BW_MAX_def drop_bit_int_def)
    have "err = 0 \<and> s' = snd (run_state (eusleep (drop_bit (nat bw) DELAY_REF_BW_MAX)) ?s1)"
      using run bw(1) p w rows u bw_rows(1) [of bw, THEN iffD2, OF True]
      by (auto simp: hw_acc_set_bandwidth_def Let_def split: prod.splits)
    moreover have "sleeps_only ?s1 (snd (run_state (eusleep (drop_bit (nat bw) DELAY_REF_BW_MAX)) ?s1))"
      using us sleeps_nsleep by (simp add: eusleep_def)
    ultimately show ?thesis
      using True by (auto simp: sleeps_only_def)
  qed
qed

theorem set_bandwidth_spec_witness:
  "(\<exists>s'. run_state (hw_acc_set_bandwidth 3) ex_good = (0, s') \<and> hwa_bw s' = 3) \<and>
   run_state (hw_acc_set_bandwidth 5) ex_good = (- EINVAL, ex_good)"
proof -
  obtain e3 s3 e5 s5 where r: "run_state (hw_acc_set_bandwidth 3) ex_good = (e3, s3)"
      "run_state (hw_acc_set_bandwidth 5) ex_good = (e5, s5)"
    by (meson surj_pair)
  have n: "hwa_bw ex_good = 0" "g_input_dev_num_a ex_good = 1" "io_ok ex_good"
    by (simp_all add: ex_good_def) (simp add: ex_st_def)
  show ?thesis
    using set_bandwidth_spec [OF _ _ _ _ _ _ r(1)] set_bandwidth_spec [OF _ _ _ _ _ _ r(2)] n r by simp
qed

text \<open>\<open>hw_restore_cfg_a\<close>, which is to restore the configuration of a chip that loses it when it is suspended, never restores
  the bandwidth: the setter returns at once because the bandwidth it is given is the recorded one; only the range is set.\<close>

theorem restore_cfg_a_only_range:
  assumes "cfg_lost_a (build s)"
  shows "run_state hw_restore_cfg_a s = run_state (hw_acc_set_grange (hwa_range s)) s"
proof -
  obtain e s' where "run_state (hw_acc_set_grange (hwa_range s)) s = (e, s')" by fastforce
  then show ?thesis
    using assms by (simp add: hw_restore_cfg_a_def hw_acc_set_bandwidth_def)
qed

definition ex_lost :: daemon_st where
  "ex_lost = ex_good\<lparr>build := nicki_build\<lparr>cfg_lost_a := True\<rparr>\<rparr>"

theorem restore_cfg_a_only_range_witness:
  "run_state hw_restore_cfg_a ex_lost = run_state (hw_acc_set_grange 0) ex_lost"
  using restore_cfg_a_only_range [of ex_lost] by (simp add: ex_lost_def ex_good_def ex_st_def)

section \<open>Which devices have data\<close>

lemma collect_fds_spec:
  "run_state (collect_fds bm is) s = (fds, s') \<Longrightarrow>
   set (map fst fds) \<subseteq> {i \<in> set is. bit bm i \<and> (\<exists>d. find_hw (g_list_hw (build s)) i s = Some d)} \<and> build s' = build s
     \<and> (\<forall>d. hw_of d s' = hw_of d s)"
proof (induction "is" arbitrary: s fds s')
  case (Cons i "is")
  obtain hw s1 where 1: "run_state (if bit bm i then hw_get_hw_by_id i else ret None) s = (hw, s1)" by fastforce
  then have s1: "s1 = s" "hw = (if bit bm i then find_hw (g_list_hw (build s)) i s else None)"
    by (auto simp: hw_get_hw_by_id_def split: if_splits)
  have cong: "find_hw ds i (s\<lparr>ub := b\<rparr>) = find_hw ds i s" for ds i b
    by (induction ds) auto
  show ?case
  proof (cases hw)
    case None
    with Cons.prems Cons.IH [of s] 1 s1 show ?thesis
      by (auto simp: split_beta prod_eq_iff split: if_splits)
  next
    case (Some d)
    then have b: "bit bm i" "find_hw (g_list_hw (build s)) i s = Some d"
      using s1 by (auto split: if_splits)
    let ?s2 = "if hw_fd_pollable (hw_of d s) then s else s\<lparr>ub := True\<rparr>"
    obtain rest s3 where 3: "run_state (collect_fds bm is) ?s2 = (rest, s3)" by fastforce
    have "fds = (if hw_fd_pollable (hw_of d s) then [(i, hw_fd_poll (hw_of d s))] else []) @ rest" "s' = s3"
      using Cons.prems b 3 by (auto simp: hw_get_hw_by_id_def split: if_splits)
    with Cons.IH [OF 3] b show ?thesis
      by (auto simp: cong split: if_splits)
  qed
qed simp

lemma poll_bits_in: "bit (poll_bits r k is st) j \<Longrightarrow> bit st j \<or> j \<in> set is"
proof (induction "is" arbitrary: k st)
  case (Cons i "is")
  let ?st = "if and (num r k) POLLIN \<noteq> 0 then or st (2 ^ i) else st"
  have "bit ?st j \<or> j \<in> set is"
    using Cons.prems by (intro Cons.IH [of "Suc k"]) simp
  then show ?case
    by (auto simp: bit_or_iff bit_exp_iff split: if_splits)
qed simp

text \<open>\<open>hw_peek_data_status\<close> only reports devices that were asked for and are available.\<close>

theorem peek_only_asked:
  assumes "run_state (hw_peek_data_status bm) s = (st, s')" "bit st i"
  shows "bit bm i \<and> (\<exists>d. dev_type d = i \<and> hw_has d s)"
proof -
  obtain fds s1 where 1: "run_state (collect_fds bm [0..<SENSOR_HW_TYPE_MAX]) s = (fds, s1)" by fastforce
  then have "i \<in> set (map fst fds)"
    using assms poll_bits_in [of _ 0 "map fst fds" 0 i]
    by (auto simp: hw_peek_data_status_def split: if_splits)
  then obtain d where "bit bm i" "find_hw (g_list_hw (build s)) i s = Some d"
    using collect_fds_spec [OF 1] by blast
  then show ?thesis
    using find_hw_Some by (fastforce simp: hw_has_def)
qed

definition poll_os :: "event list \<Rightarrow> event \<Rightarrow> reply" where
  "poll_os t e = (answer 1)\<lparr>rnum := [1]\<rparr>"

theorem peek_only_asked_witness: "\<exists>d. dev_type d = 0 \<and> hw_has d (ex_st poll_os)"
proof -
  obtain st s' where r: "run_state (hw_peek_data_status 1) (ex_st poll_os) = (st, s')" by fastforce
  have "hw_available (hw_of HW_A (ex_st poll_os))" "hw_fd_pollable (hw_of HW_A (ex_st poll_os))"
    by (simp_all add: hw_of_def ex_hw_def)
  then have "bit st 0"
    using r by (auto simp: hw_peek_data_status_def hw_get_hw_by_id_def upt_rec g_list_hw_def nicki_build_def dev_type_def
        bit_1_iff poll_os_def num_def answer_def)
  from peek_only_asked [OF r this] show ?thesis by simp
qed

end
