(* ===== verification/Algo_Refs.thy ===== *)
theory Algo_Refs
  imports Examples
begin

text \<open>
  The reference counts of \<open>algo_adapter.c\<close>: those of the modules of the library (\<open>algo_mod_ref_change\<close>) and those of the
  devices (\<open>algo_update_hw_ref\<close>), as instances of the shared contract \<open>ref_counter\<close>.
\<close>

section \<open>Modules\<close>

lemma find_module_map:
  assumes "\<And>md. am_id (f md) = am_id md"
  shows "find_module (map (\<lambda>md. if am_id md = k then f md else md) mds) j =
    (if j = k then map_option f (find_module mds k) else find_module mds j)"
  by (induction mds) (auto simp: assms)

lemma run_upd_module [simp]:
  "run_state (upd_module k f) s = ((), s\<lparr>g_modules := map (\<lambda>md. if am_id md = k then f md else md) (g_modules s)\<rparr>)"
  by (simp add: upd_module_def)

lemma keeps_profiles [keeps_rules]:
  "keeps (\<lambda>s. g_modules s = mds) (algo_load_calib_profile magic)"
  "keeps (\<lambda>s. g_modules s = mds) (algo_save_calib_profile magic)"
  unfolding algo_load_calib_profile_def algo_save_calib_profile_def save_profile_def
  by (auto intro!: keeps_rules)

lemma profiles_modules [simp]:
  "g_modules (snd (run_state (algo_load_calib_profile magic) s)) = g_modules s"
  "g_modules (snd (run_state (algo_save_calib_profile magic) s)) = g_modules s"
  by (rule keepsD [OF keeps_profiles(1) refl] keepsD [OF keeps_profiles(2) refl])+

lemma mod_enable_modules [simp]:
  "g_modules (snd (run_state (mod_enable k e) s)) =
     map (\<lambda>md. if am_id md = k then md\<lparr>am_op_mode := swrap 3 e\<rparr> else md) (g_modules s)"
  by (cases k) (simp_all add: mod_enable_def algo_enable_a_def algo_enable_m_def algo_enable_o_def algo_enable_vla_def
      algo_enable_m4g_def algo_enable_gest_flip_def split_beta)

definition mod_up :: "mod_id \<Rightarrow> 'a fusion_st_scheme \<Rightarrow> 'a fusion_st_scheme" where
  "mod_up k s = snd (run_state (ALGO_MOD_ENABLE k 1) s)"

definition mod_down :: "mod_id \<Rightarrow> 'a fusion_st_scheme \<Rightarrow> 'a fusion_st_scheme" where
  "mod_down k s = snd (run_state (ALGO_MOD_ENABLE k 0) s)"

definition mod_has :: "mod_id \<Rightarrow> 'a fusion_st_scheme \<Rightarrow> bool" where
  "mod_has k s \<longleftrightarrow> find_module (g_modules s) k \<noteq> None"

definition mod_on :: "mod_id \<Rightarrow> 'a fusion_st_scheme \<Rightarrow> bool" where
  "mod_on k s \<longleftrightarrow> fst (run_state (ALGO_MOD_IS_ENABLED k) s) \<noteq> 0"

definition mod_good :: "'a fusion_st_scheme \<Rightarrow> bool" where
  "mod_good s \<longleftrightarrow> (\<forall>k md. find_module (g_modules s) k = Some md \<longrightarrow>
     0 \<le> am_ref md \<and> am_ref md \<le> 15 \<and> (am_op_mode md \<noteq> 0 \<longleftrightarrow> 0 < am_ref md))"

lemma mod_on_iff: "find_module (g_modules s) k = Some md \<Longrightarrow> mod_on k s \<longleftrightarrow> am_op_mode md \<noteq> 0"
  by (simp add: mod_on_def ALGO_MOD_IS_ENABLED_def algo_get_mod_def)

lemma mod_up_find:
  assumes "find_module (g_modules s) k = Some md" "0 \<le> am_ref md" "am_ref md < 15"
  shows "find_module (g_modules (mod_up k s)) j = (if j = k
    then Some (if am_ref md = 0 then md\<lparr>am_ref := 1, am_op_mode := 1\<rparr> else md\<lparr>am_ref := am_ref md + 1\<rparr>)
    else find_module (g_modules s) j)"
  using assms
  by (auto simp: mod_up_def ALGO_MOD_ENABLE_def algo_get_mod_def algo_mod_ref_change_def split_beta find_module_map
      mod_ref_def simp del: map_map list.map_comp)

lemma mod_down_find:
  assumes "find_module (g_modules s) k = Some md" "0 < am_ref md"
  shows "find_module (g_modules (mod_down k s)) j = (if j = k
    then Some (if am_ref md = 1 then md\<lparr>am_ref := 0, am_op_mode := 0\<rparr> else md\<lparr>am_ref := am_ref md - 1\<rparr>)
    else find_module (g_modules s) j)"
  using assms
  by (auto simp: mod_down_def ALGO_MOD_ENABLE_def algo_get_mod_def algo_mod_ref_change_def split_beta find_module_map
      mod_ref_def simp del: map_map list.map_comp)

interpretation mod_refs: ref_counter mod_up mod_down mod_ref mod_on mod_good mod_has 15
proof
  fix s :: "'a fusion_st_scheme" and k j
  assume g: "mod_good s" and h: "mod_has k s"
  then obtain md where md: "find_module (g_modules s) k = Some md" by (auto simp: mod_has_def)
  then have b: "0 \<le> am_ref md" "am_ref md \<le> 15" "am_op_mode md \<noteq> 0 \<longleftrightarrow> 0 < am_ref md" "mod_ref k s = am_ref md"
    using g by (auto simp: mod_good_def mod_ref_def)
  note up = mod_up_find [OF md b(1)] and down = mod_down_find [OF md]
  show "mod_on k s \<longleftrightarrow> 0 < mod_ref k s"
    using b md mod_on_iff by auto
  have other: "mod_good s'"
    if "\<And>i. i \<noteq> k \<Longrightarrow> find_module (g_modules s') i = find_module (g_modules s) i"
      "find_module (g_modules s') k = Some md'" "0 \<le> am_ref md'" "am_ref md' \<le> 15" "am_op_mode md' \<noteq> 0 \<longleftrightarrow> 0 < am_ref md'"
    for s' :: "'a fusion_st_scheme" and md'
    unfolding mod_good_def
  proof (intro allI impI)
    fix i md1 assume "find_module (g_modules s') i = Some md1"
    with that g show "0 \<le> am_ref md1 \<and> am_ref md1 \<le> 15 \<and> (am_op_mode md1 \<noteq> 0) = (0 < am_ref md1)"
      by (cases "i = k") (auto simp: mod_good_def)
  qed
  show "mod_good (mod_up k s)" if "mod_ref k s < 15"
    using that b up by (intro other [OF _ up [of k, simplified]]) auto
  show "mod_has j (mod_up k s) = mod_has j s" "mod_ref j (mod_up k s) = mod_ref j s + (if j = k then 1 else 0)"
    if "mod_ref k s < 15"
    using that b md up by (auto simp: mod_has_def mod_ref_def)
  show "mod_good (mod_down k s)" if "0 < mod_ref k s"
    using that b down by (intro other [OF _ down [of k, simplified]]) auto
  show "mod_has j (mod_down k s) = mod_has j s" "mod_ref j (mod_down k s) = mod_ref j s - (if j = k then 1 else 0)"
    if "0 < mod_ref k s"
    using that b md down by (auto simp: mod_has_def mod_ref_def)
qed

section \<open>Devices\<close>

definition dep_cnt :: "nat \<Rightarrow> 'a fusion_st_scheme \<Rightarrow> int" where
  "dep_cnt ty s = (if ty = SENSOR_HW_TYPE_A then g_ref_hw_a s else if ty = SENSOR_HW_TYPE_M then g_ref_hw_m s else 0)"

definition dep_up :: "nat \<Rightarrow> 'a fusion_st_scheme \<Rightarrow> 'a fusion_st_scheme" where
  "dep_up ty s = snd (run_state (algo_update_hw_ref ty 1) s)"

definition dep_down :: "nat \<Rightarrow> 'a fusion_st_scheme \<Rightarrow> 'a fusion_st_scheme" where
  "dep_down ty s = snd (run_state (algo_update_hw_ref ty 0) s)"

definition dep_on :: "nat \<Rightarrow> 'a fusion_st_scheme \<Rightarrow> bool" where
  "dep_on ty s \<longleftrightarrow> bit (fst (run_state algo_get_curr_hw_dep s)) ty"

definition dep_has :: "nat \<Rightarrow> 'a fusion_st_scheme \<Rightarrow> bool" where
  "dep_has ty s \<longleftrightarrow> ty \<in> {SENSOR_HW_TYPE_A, SENSOR_HW_TYPE_M}"

definition dep_good :: "'a fusion_st_scheme \<Rightarrow> bool" where
  "dep_good s \<longleftrightarrow> (\<forall>ty. 0 \<le> dep_cnt ty s \<and> dep_cnt ty s \<le> 2 ^ 31 - 1)"

lemma bit_16: "bit (16 :: int) i \<longleftrightarrow> i = 4"
  using bit_exp_iff [of 4 i, where ?'a = int] by auto

lemma dep_on_iff: "dep_on ty s \<longleftrightarrow> ty \<in> {SENSOR_HW_TYPE_A, SENSOR_HW_TYPE_M} \<and> 0 < dep_cnt ty s"
  by (auto simp: dep_on_def algo_get_curr_hw_dep_def dep_cnt_def Let_def bit_or_iff bit_16 bit_1_iff)

lemma dep_up_cnt:
  "ty \<in> {SENSOR_HW_TYPE_A, SENSOR_HW_TYPE_M} \<Longrightarrow> 0 \<le> dep_cnt ty s \<Longrightarrow> dep_cnt ty s < 2 ^ 31 - 1 \<Longrightarrow>
   dep_cnt j (dep_up ty s) = dep_cnt j s + (if j = ty then 1 else 0)"
  by (auto simp: dep_up_def algo_update_hw_ref_def dep_cnt_def)

lemma dep_down_cnt:
  "ty \<in> {SENSOR_HW_TYPE_A, SENSOR_HW_TYPE_M} \<Longrightarrow> 0 < dep_cnt ty s \<Longrightarrow>
   dep_cnt j (dep_down ty s) = dep_cnt j s - (if j = ty then 1 else 0)"
  by (auto simp: dep_down_def algo_update_hw_ref_def dep_cnt_def)

interpretation dep_refs: ref_counter dep_up dep_down dep_cnt dep_on dep_good dep_has "2 ^ 31 - 1"
proof
  fix s :: "'a fusion_st_scheme" and k j
  assume g: "dep_good s" and h: "dep_has k s"
  then have ty: "k \<in> {SENSOR_HW_TYPE_A, SENSOR_HW_TYPE_M}" and b: "0 \<le> dep_cnt i s" "dep_cnt i s \<le> 2 ^ 31 - 1" for i
    by (auto simp: dep_has_def dep_good_def)
  show "dep_on k s \<longleftrightarrow> 0 < dep_cnt k s"
    using ty by (simp add: dep_on_iff)
  show "dep_has j (dep_up k s) = dep_has j s" "dep_has j (dep_down k s) = dep_has j s"
    by (simp_all add: dep_has_def)
  show c: "dep_cnt j (dep_up k s) = dep_cnt j s + (if j = k then 1 else 0)" if "dep_cnt k s < 2 ^ 31 - 1" for j
    using dep_up_cnt [OF ty b(1) that] .
  then show "dep_good (dep_up k s)" if "dep_cnt k s < 2 ^ 31 - 1"
    using that b by (simp add: dep_good_def)
  show d: "dep_cnt j (dep_down k s) = dep_cnt j s - (if j = k then 1 else 0)" if "0 < dep_cnt k s" for j
    using dep_down_cnt [OF ty that] .
  then show "dep_good (dep_down k s)" if "0 < dep_cnt k s"
  proof -
    have "dep_cnt i s - (if i = k then 1 else 0) \<le> 2 ^ 31 - 1" "0 \<le> dep_cnt i s - (if i = k then 1 else 0)" for i
      using that b [of i] by auto
    with that d show ?thesis by (simp add: dep_good_def)
  qed
qed

end
