(* ===== verification/Props_Algo.thy ===== *)
theory Props_Algo
  imports Algo_Refs
begin

text \<open>
  What the adapter of the fusion library promises: the reference counts of modules and devices, the data rates and
  intervals, when the devices are read, and the stored profiles.
\<close>

section \<open>Reference counts\<close>

text \<open>C15: over any sequence of enabling and disabling modules that keeps every count in 0..15 (\<open>ALGO_MOD_ENABLE\<close>, \<open>algo_mod_ref_change\<close>), the
  count of a module that is there is its initial count plus the difference, and \<open>ALGO_MOD_IS_ENABLED\<close> holds exactly when it is positive.\<close>

theorem mod_refs_count:
  assumes "mod_good s" "\<forall>x \<in> set ops. mod_has (op_key x) s" "counts_within (\<lambda>k. mod_ref k s) 15 ops" "mod_has k s"
  shows "mod_ref k (foldl (apply_op mod_up mod_down) s ops) = mod_ref k s + net k ops \<and>
    (mod_on k (foldl (apply_op mod_up mod_down) s ops) \<longleftrightarrow> 0 < mod_ref k s + net k ops)"
  using mod_refs.run_ops [OF assms(1-3)] mod_refs.run_ops_on [OF assms] by blast

theorem mod_refs_count_witness:
  "mod_ref MOD_ACC (foldl (apply_op mod_up mod_down) ex_good [Up MOD_ACC, Up MOD_MAG, Up MOD_ACC, Down MOD_MAG]) = 2 \<and>
   \<not> mod_on MOD_MAG (foldl (apply_op mod_up mod_down) ex_good [Up MOD_ACC, Up MOD_MAG, Up MOD_ACC, Down MOD_MAG])"
proof -
  have f: "find_module (g_modules ex_good) k = (if k \<in> {MOD_ACC, MOD_MAG, MOD_CMP} then Some \<lparr>am_id = k, am_op_mode = 0, am_ref = 0\<rparr> else None)" for k
    by (auto simp: ex_good_def ex_st_def module_ids_def nicki_build_def)
  then have g: "mod_good ex_good" "mod_has MOD_ACC ex_good" "mod_has MOD_MAG ex_good" "\<And>k. mod_ref k ex_good = 0"
    by (auto simp: mod_good_def mod_has_def mod_ref_def)
  have "counts_within (\<lambda>_. 0) 15 [Up MOD_ACC, Up MOD_MAG, Up MOD_ACC, Down MOD_MAG]"
    by (auto simp: counts_within_def le_Suc_eq take_Cons')
  then show ?thesis
    using mod_refs_count [of ex_good "[Up MOD_ACC, Up MOD_MAG, Up MOD_ACC, Down MOD_MAG]" MOD_ACC]
      mod_refs_count [of ex_good "[Up MOD_ACC, Up MOD_MAG, Up MOD_ACC, Down MOD_MAG]" MOD_MAG] g by simp
qed

text \<open>The counter operations a sequence of enabled and disabled products stands for.\<close>

definition dep_ops :: "(algo_product \<times> bool) list \<Rightarrow> nat ref_op list" where
  "dep_ops xs = concat (map (\<lambda>(ap, e). map (if e then Up else Down) (hw_deps (ap_type ap))) xs)"

definition enable_deps :: "'a fusion_st_scheme \<Rightarrow> algo_product \<times> bool \<Rightarrow> 'a fusion_st_scheme" where
  "enable_deps s x = (case x of (ap, e) \<Rightarrow> snd (run_state (algo_update_hw_dep ap (of_cbool e)) s))"

lemma enable_deps_ops: "enable_deps s (ap, e) = foldl (apply_op dep_up dep_down) s (dep_ops [(ap, e)])"
proof -
  have "snd (run_state (for_each tys (\<lambda>ty. algo_update_hw_ref ty (of_cbool e))) s) =
      foldl (apply_op dep_up dep_down) s (map (if e then Up else Down) tys)" for tys
    by (induction tys arbitrary: s)
      (auto simp: apply_op_def dep_up_def dep_down_def of_cbool_def split_beta)
  then show ?thesis
    by (simp add: enable_deps_def algo_update_hw_dep_def dep_ops_def)
qed

lemma enable_deps_run: "foldl enable_deps s xs = foldl (apply_op dep_up dep_down) s (dep_ops xs)"
proof (induction xs arbitrary: s)
  case (Cons x xs)
  then show ?case
    using enable_deps_ops [of s "fst x" "snd x"] by (simp add: dep_ops_def)
qed (simp add: dep_ops_def)

lemma dep_ops_has: "x \<in> set (dep_ops xs) \<Longrightarrow> dep_has (op_key x) s"
proof -
  have "i \<in> set (hw_deps ty) \<Longrightarrow> i \<in> {SENSOR_HW_TYPE_A, SENSOR_HW_TYPE_M}" for i ty
    by (simp add: hw_deps_def split: if_split_asm)
  then show "x \<in> set (dep_ops xs) \<Longrightarrow> dep_has (op_key x) s"
    by (fastforce simp: dep_ops_def dep_has_def split: if_split_asm)
qed

text \<open>
  What is needed of the devices, without the table of \<open>algo_update_hw_dep\<close>: the accelerometer is needed by a product that enables the
  module of the acceleration, the magnetometer by one that enables that of the magnetic field. \<open>demand\<close> counts the times a device
  was needed by a product that was enabled, less those by one that was disabled.
\<close>

definition needs :: "nat \<Rightarrow> nat \<Rightarrow> bool" where
  "needs dev ty \<longleftrightarrow> dev = SENSOR_HW_TYPE_A \<and> MOD_ACC \<in> set (mod_deps ty) \<or> dev = SENSOR_HW_TYPE_M \<and> MOD_MAG \<in> set (mod_deps ty)"

fun demand :: "nat \<Rightarrow> (algo_product \<times> bool) list \<Rightarrow> int" where
  "demand dev [] = 0"
| "demand dev ((ap, e) # xs) = (if needs dev (ap_type ap) then if e then 1 else - 1 else 0) + demand dev xs"

lemma hw_deps_needs: "distinct (hw_deps ty)" "dev \<in> set (hw_deps ty) \<longleftrightarrow> needs dev ty"
  by (auto simp: hw_deps_def mod_deps_def needs_def)

lemma net_append: "net k (xs @ ys) = net k xs + net k ys"
proof (induction xs)
  case (Cons x xs)
  then show ?case by (cases x) auto
qed simp

lemma net_map: "distinct ks \<Longrightarrow> net k (map (if e then Up else Down) ks) = (if k \<in> set ks then if e then 1 else - 1 else 0)"
  by (induction ks) auto

lemma dep_ops_Cons: "dep_ops ((ap, e) # xs) = map (if e then Up else Down) (hw_deps (ap_type ap)) @ dep_ops xs"
  by (simp add: dep_ops_def)

lemma net_demand: "net dev (dep_ops xs) = demand dev xs"
proof (induction xs)
  case (Cons x xs)
  then show ?case by (cases x) (simp add: dep_ops_Cons net_append net_map hw_deps_needs)
qed (simp add: dep_ops_def)

text \<open>Within the changes of one product, the count of a device is that before or that after.\<close>

lemma prefix_demand: "\<exists>m \<le> length xs. net dev (take n (dep_ops xs)) = demand dev (take m xs)"
proof (induction xs arbitrary: n)
  case (Cons x xs)
  obtain ap e where x: "x = (ap, e)" by (cases x)
  let ?ops = "map (if e then Up else Down) (hw_deps (ap_type ap))"
  show ?case
  proof (cases "length ?ops \<le> n")
    case True
    obtain m where "m \<le> length xs" "net dev (take (n - length ?ops) (dep_ops xs)) = demand dev (take m xs)" using Cons.IH by blast
    with True show ?thesis
      by (intro exI [of _ "Suc m"]) (simp add: x dep_ops_Cons net_append net_map hw_deps_needs)
  next
    case False
    let ?ks = "take n (hw_deps (ap_type ap))"
    have "net dev (take n (dep_ops (x # xs))) = net dev (map (if e then Up else Down) ?ks)" using False by (simp add: x dep_ops_Cons take_map)
    also have "\<dots> = (if dev \<in> set ?ks then if e then 1 else - 1 else 0)" by (rule net_map) (simp add: hw_deps_needs)
    finally have n: "net dev (take n (dep_ops (x # xs))) = (if dev \<in> set ?ks then if e then 1 else - 1 else 0)" .
    have "dev \<in> set ?ks \<Longrightarrow> needs dev (ap_type ap)" using hw_deps_needs(2) by (blast dest: in_set_takeD)
    with n show ?thesis by (cases "dev \<in> set ?ks") (auto simp: x intro: exI [of _ "Suc 0"] exI [of _ 0])
  qed
qed (simp add: dep_ops_def)

text \<open>C17: after any sequence of products enabled and disabled (\<open>algo_update_hw_dep\<close>) during which the count of a device is never below 0 or
  above the range of its 32 bits, so that nothing is disabled more often than it was enabled, the device dependency that the adapter
  reports (\<open>algo_get_curr_hw_dep\<close>) has the bit of the accelerometer or the magnetometer exactly when more enabled than disabled
  products needed that device: those that enable the module of its readings.\<close>

theorem hw_dep_reported:
  assumes "dep_good s" "dev = SENSOR_HW_TYPE_A \<or> dev = SENSOR_HW_TYPE_M"
    and "\<forall>n \<le> length xs. \<forall>d \<in> {SENSOR_HW_TYPE_A, SENSOR_HW_TYPE_M}.
      0 \<le> dep_cnt d s + demand d (take n xs) \<and> dep_cnt d s + demand d (take n xs) < 2 ^ 31"
  shows "bit (fst (run_state algo_get_curr_hw_dep (foldl enable_deps s xs))) dev \<longleftrightarrow> 0 < dep_cnt dev s + demand dev xs"
proof -
  have has: "\<forall>x \<in> set (dep_ops xs). dep_has (op_key x) s" using dep_ops_has by blast
  have "0 \<le> dep_cnt k s + net k (take n (dep_ops xs)) \<and> dep_cnt k s + net k (take n (dep_ops xs)) \<le> 2 ^ 31 - 1"
    if "k \<in> op_key ` set (dep_ops xs)" for n k
  proof -
    obtain m where m: "m \<le> length xs" "net k (take n (dep_ops xs)) = demand k (take m xs)" using prefix_demand by blast
    have "k \<in> {SENSOR_HW_TYPE_A, SENSOR_HW_TYPE_M}" using has that by (auto simp: dep_has_def)
    with assms(3) m show ?thesis by fastforce
  qed
  then have "counts_within (\<lambda>ty. dep_cnt ty s) (2 ^ 31 - 1) (dep_ops xs)" by (simp add: counts_within_def)
  then show ?thesis
    using dep_refs.run_ops_on [OF assms(1) has, of dev] assms(2)
    by (simp add: enable_deps_run dep_on_def dep_has_def net_demand)
qed

theorem hw_dep_reported_witness:
  "bit (fst (run_state algo_get_curr_hw_dep (foldl enable_deps ex_good [(ex_product SENSOR_TYPE_O, True), (ex_product SENSOR_TYPE_A, True), (ex_product SENSOR_TYPE_O, False)]))) SENSOR_HW_TYPE_A \<and>
   \<not> bit (fst (run_state algo_get_curr_hw_dep (foldl enable_deps ex_good [(ex_product SENSOR_TYPE_O, True), (ex_product SENSOR_TYPE_A, True), (ex_product SENSOR_TYPE_O, False)]))) SENSOR_HW_TYPE_M"
proof -
  let ?xs = "[(ex_product SENSOR_TYPE_O, True), (ex_product SENSOR_TYPE_A, True), (ex_product SENSOR_TYPE_O, False)]"
  have c: "dep_cnt ty ex_good = 0" for ty
    by (simp add: dep_cnt_def ex_good_def ex_st_def)
  have d: "demand 0 ?xs = 1" "demand 4 ?xs = 0"
    by (simp_all add: needs_def mod_deps_def ex_product_def)
  have w: "\<forall>n \<le> length ?xs. \<forall>d \<in> {SENSOR_HW_TYPE_A, SENSOR_HW_TYPE_M}. 0 \<le> dep_cnt d ex_good + demand d (take n ?xs) \<and>
      dep_cnt d ex_good + demand d (take n ?xs) < 2 ^ 31"
    unfolding c by (auto simp: le_Suc_eq take_Cons' needs_def mod_deps_def ex_product_def)
  show ?thesis
    using hw_dep_reported [OF _ _ w, of 0] hw_dep_reported [OF _ _ w, of 4] d by (simp add: c dep_good_def)
qed

section \<open>Data rates\<close>



lemma first_rate_le: "first_rate rs hz \<le> length rs"
  by (induction rs) auto

lemma first_rate_spec:
  "(\<forall>j < first_rate rs hz. rs ! j < hz) \<and> (first_rate rs hz < length rs \<longrightarrow> hz \<le> rs ! first_rate rs hz)"
proof (induction rs)
  case (Cons r rs)
  then show ?case by (auto simp: less_Suc_eq_0_disj)
qed simp

text \<open>With the table of rates that \<open>algo_adapter_init\<close> makes of the intervals, \<open>algo_hz2data_rate\<close> answers the index of the slowest of the eight rates
  that is not below the frequency asked for, or of the fastest if all are.\<close>

theorem hz2data_rate_spec:
  assumes tab: "g_tab_hz s = map (\<lambda>itvl. uwrap 16 (1000 sdiv itvl)) g_tab_intvl" and run: "run_state (algo_hz2data_rate hz) s = (dr, s')"
  shows "0 \<le> dr \<and> dr < 8 \<and> s' = s \<and> (\<forall>j < nat dr. g_tab_hz s ! j < hz) \<and> (hz \<le> 200 \<longrightarrow> hz \<le> g_tab_hz s ! nat dr) \<and> (200 < hz \<longrightarrow> dr = 7)"
proof -
  have t: "g_tab_hz s = [1, 5, 10, 20, 25, 50, 100, 200]"
    using tab by (simp add: g_tab_intvl_def signed_divide_int_def uwrap_def)
  let ?i = "first_rate (g_tab_hz s) hz"
  have i: "?i \<le> 8" "hz \<le> 200 \<longrightarrow> ?i < 8" "200 < hz \<longrightarrow> ?i = 8" "\<forall>j < ?i. g_tab_hz s ! j < hz"
    using first_rate_le [of "g_tab_hz s" hz] first_rate_spec [of "g_tab_hz s" hz] by (auto simp: t)
  have "?i < 8 \<longrightarrow> hz \<le> g_tab_hz s ! ?i"
    using first_rate_spec [of "g_tab_hz s" hz] by (auto simp: t)
  moreover have "dr = int (if 8 \<le> ?i then 7 else ?i)" "s' = s"
    using run by (auto simp: algo_hz2data_rate_def Let_def ALGO_NUM_DR_def)
  ultimately show ?thesis using i by (auto split: if_splits)
qed

theorem hz2data_rate_spec_witness: "fst (run_state (algo_hz2data_rate 30) ex_good) = 5"
proof -
  have t: "g_tab_hz ex_good = [1, 5, 10, 20, 25, 50, 100, 200]"
    by (simp add: ex_good_def ex_st_def)
  have tab: "g_tab_hz ex_good = map (\<lambda>itvl. uwrap 16 (1000 sdiv itvl)) g_tab_intvl"
    unfolding t by (simp add: g_tab_intvl_def signed_divide_int_def uwrap_def)
  obtain dr s' where r: "run_state (algo_hz2data_rate 30) ex_good = (dr, s')" by fastforce
  have f: "0 \<le> dr" "dr < 8" "\<forall>j < nat dr. [1, 5, 10, 20, 25, 50, 100, 200] ! j < (30 :: int)"
      "30 \<le> ([1, 5, 10, 20, 25, 50, 100, 200] :: int list) ! nat dr"
    using hz2data_rate_spec [OF tab r] unfolding t by auto
  have "dr \<in> {0, 1, 2, 3, 4, 5, 6, 7}" using f(1,2) by auto
  then have "dr = 5" using f(3,4) by (auto simp: numeral_nat)
  with r show ?thesis by simp
qed

section \<open>Intervals\<close>

lemma products_more: "hw_st.more s = hw_st.more (s' :: 'a fusion_st_scheme) \<Longrightarrow>
    g_products s = g_products s' \<and> g_dr_a s = g_dr_a s' \<and> g_dr_m s = g_dr_m s' \<and> g_tab_hz s = g_tab_hz s' \<and> g_modules s = g_modules s'"
  by (cases s; cases s') simp

lemma quiet_tab_at [quiet_rules]: "hw_quiet (tab_at tab i)"
  unfolding tab_at_def by (auto intro!: quiet_rules)

lemma quiet_resolve [quiet_rules]: "hw_quiet algo_resolve_internal_state"
  unfolding algo_resolve_internal_state_def ALGO_MOD_IS_ENABLED_def algo_get_mod_def
  by (auto intro!: quiet_rules)

lemma keeps_quiet: "hw_quiet m \<Longrightarrow> keeps (\<lambda>s. hw_st.more s = v) m"
  by (auto simp: keeps_def hw_quiet_frame)

lemma keeps_set_delay_a: "keeps (\<lambda>s. hw_st.more s = v) (hw_acc_set_delay d)"
  unfolding hw_acc_set_delay_def
  by (intro keeps_bind keeps_if keeps_ret keeps_upd_hw keeps_quiet [OF quiet_hw_a(1)] keeps_quiet [OF hw_quiet_lib(2)]) simp

lemma keeps_tune: "keeps (\<lambda>s. hw_st.more s = v) tune_hw_a"
  unfolding tune_hw_a_def
  by (intro keeps_bind keeps_gets keeps_if keeps_ret keeps_quiet [OF quiet_tab_at] keeps_set_delay_a
      keeps_quiet [OF quiet_set_a(4)])

lemma tune_more [simp]: "hw_st.more (snd (run_state tune_hw_a s)) = hw_st.more s"
  using keepsD [OF keeps_tune [of "hw_st.more s"], of s] by simp

lemma nearest_divisor:
  assumes "0 < itvl" "itvl < 2 ^ 31"
  shows "get_nearest_divisible_int 1000 itvl dvd 1000 \<and> 0 < get_nearest_divisible_int 1000 itvl \<and>
    get_nearest_divisible_int 1000 itvl \<le> itvl \<and> (\<forall>d. 0 < d \<and> d \<le> itvl \<and> d dvd 1000 \<longrightarrow> d \<le> get_nearest_divisible_int 1000 itvl)"
proof (cases "1000 \<le> itvl")
  case True
  then show ?thesis
    using assms by (auto simp: get_nearest_divisible_int_def intro: zdvd_imp_le)
next
  case False
  then have n: "get_nearest_divisible_int 1000 itvl = int (divisor_loop 1000 (nat itvl))"
    using assms by (simp add: get_nearest_divisible_int_def Let_def)
  note sp = divisor_loop_spec [of 1000 "nat itvl"]
  have "d \<le> int (divisor_loop 1000 (nat itvl))" if "0 < d" "d \<le> itvl" "d dvd 1000" for d
    using sp assms that by (auto dest: spec [of _ "nat d"])
  with n sp assms show ?thesis by auto
qed

text \<open>\<open>algo_on_interval_changed\<close> for a positive interval answers the greatest divisor of 1000 ms not above it, brings the rates of the product into the
  product's limits, leaves the other products alone, and arbitrates the common rates anew.\<close>

theorem interval_changed_spec:
  assumes i: "i < length (g_products s)" and itvl: "0 < itvl" "itvl < 2 ^ 31"
    and lim: "ap = g_products s ! i" "dr_acc_min ap \<le> dr_acc_max ap" "dr_mag_min ap \<le> dr_mag_max ap"
    and run: "run_state (algo_on_interval_changed i itvl) s = (r, s')"
  shows "r dvd 1000 \<and> 0 < r \<and> r \<le> itvl \<and> (\<forall>d. 0 < d \<and> d \<le> itvl \<and> d dvd 1000 \<longrightarrow> d \<le> r) \<and>
    (\<exists>ap'. g_products s' = (g_products s)[i := ap'] \<and> dr_acc_min ap \<le> dr_a ap' \<and> dr_a ap' \<le> dr_acc_max ap \<and>
       dr_mag_min ap \<le> dr_m ap' \<and> dr_m ap' \<le> dr_mag_max ap) \<and>
    g_dr_a s' = max_rate dr_a (g_products s') 0 \<and> g_dr_m s' = max_rate dr_m (g_products s') 0"
proof -
  let ?r = "get_nearest_divisible_int 1000 itvl"
  obtain dr s1 where 1: "run_state (algo_hz2data_rate (1000 sdiv ?r)) s = (dr, s1)" by fastforce
  then have s1: "s1 = s" by (simp add: algo_hz2data_rate_def)
  let ?ap = "regulate_dr (set_rate dr ap)"
  let ?aps = "(g_products s)[i := ?ap]"
  let ?s2 = "s\<lparr>g_products := ?aps, g_dr_a := max_rate dr_a ?aps 0, g_dr_m := max_rate dr_m ?aps 0, g_dr_g := max_rate dr_g ?aps 0\<rparr>"
  let ?s3 = "snd (run_state algo_resolve_internal_state ?s2)"
  have "r = ?r" "s' = snd (run_state tune_hw_a ?s3)"
    using run itvl 1 i lim(1)
    by (auto simp: algo_on_interval_changed_def s1 upd_product_def fusion_arbitrate_dr_def Let_def split_beta)
  then have "hw_st.more s' = hw_st.more ?s2"
    using hw_quiet_frame(3) [OF quiet_resolve, of ?s2] by simp
  then have p: "g_products s' = ?aps" "g_dr_a s' = max_rate dr_a ?aps 0" "g_dr_m s' = max_rate dr_m ?aps 0"
    using products_more [of s' ?s2] by auto
  have keep: "dr_acc_min (set_rate dr ap) = dr_acc_min ap" "dr_acc_max (set_rate dr ap) = dr_acc_max ap"
    "dr_mag_min (set_rate dr ap) = dr_mag_min ap" "dr_mag_max (set_rate dr ap) = dr_mag_max ap"
    by (auto simp: set_rate_def Let_def)
  have "dr_acc_min ap \<le> dr_a ?ap \<and> dr_a ?ap \<le> dr_acc_max ap \<and> dr_mag_min ap \<le> dr_m ?ap \<and> dr_m ?ap \<le> dr_mag_max ap"
    using regulate_bounds [OF lim(2)] regulate_bounds [OF lim(3)] keep by (simp add: regulate_dr_def)
  with p \<open>r = ?r\<close> nearest_divisor [OF itvl] show ?thesis by auto
qed

theorem interval_changed_spec_witness: "fst (run_state (algo_on_interval_changed 0 9) ex_good) = 8"
proof -
  have p: "g_products ex_good = map ex_product [1, 2, 3]"
    by (simp add: ex_good_def ex_st_def product_types_def nicki_build_def)
  obtain r s' where run: "run_state (algo_on_interval_changed 0 9) ex_good = (r, s')" by fastforce
  have r: "r dvd 1000" "r \<le> 9" "\<forall>d. 0 < d \<and> d \<le> 9 \<and> d dvd 1000 \<longrightarrow> d \<le> r"
    using interval_changed_spec [OF _ _ _ refl _ _ run] by (auto simp: p ex_product_def)
  then have "8 \<le> r" using r(3) [rule_format, of 8] by simp
  with r(2) have "r = 8 \<or> r = 9" by auto
  then have "r = 8" using r(1) by auto
  with run show ?thesis by simp
qed

lemma tab_intvl_dvd: "0 \<le> dr \<Longrightarrow> dr < 8 \<Longrightarrow> 0 < g_tab_intvl ! nat dr \<and> g_tab_intvl ! nat dr dvd 1000"
proof -
  assume "0 \<le> dr" "dr < 8"
  then have "dr \<in> {0, 1, 2, 3, 4, 5, 6, 7}" by auto
  then show ?thesis by (auto simp: g_tab_intvl_def numeral_nat)
qed

text \<open>The interval the adapter hints at (\<open>algo_get_hint_interval\<close>) divides 1000 ms and the interval of every enabled device module, so that a
  loop with it meets every sampling time.\<close>

theorem hint_interval_spec:
  assumes "0 \<le> g_dr_a s" "g_dr_a s < 8" "0 \<le> g_dr_m s" "g_dr_m s < 8" and run: "run_state algo_get_hint_interval s = (r, s')"
  shows "0 < r \<and> r dvd 1000 \<and> s' = s \<and> (mod_on MOD_ACC s \<longrightarrow> r dvd g_tab_intvl ! nat (g_dr_a s)) \<and>
    (mod_on MOD_MAG s \<longrightarrow> r dvd g_tab_intvl ! nat (g_dr_m s))"
proof -
  let ?a = "g_tab_intvl ! nat (g_dr_a s)" and ?m = "g_tab_intvl ! nat (g_dr_m s)"
  have l: "length g_tab_intvl = 8" by (simp add: g_tab_intvl_def)
  have am: "0 < ?a" "?a dvd 1000" "0 < ?m" "?m dvd 1000"
    using assms tab_intvl_dvd by auto
  have on: "mod_on k s \<longleftrightarrow> (case find_module (g_modules s) k of None \<Rightarrow> False | Some md \<Rightarrow> am_op_mode md \<noteq> 0)" for k
    by (simp add: mod_on_def ALGO_MOD_IS_ENABLED_def algo_get_mod_def split: option.splits)
  let ?r1 = "if mod_on MOD_ACC s then gcd 1000 ?a else 1000"
  have s': "s' = s"
    using run by (auto simp: algo_get_hint_interval_def tab_at_def algo_get_mod_def assms l Let_def)
  have r: "r = (if mod_on MOD_MAG s then gcd ?r1 ?m else ?r1)" "s' = s"
    using run assms(1-4) am l on [of MOD_ACC] on [of MOD_MAG] s'
    by (cases "find_module (g_modules s) MOD_ACC"; cases "find_module (g_modules s) MOD_MAG";
        simp add: algo_get_hint_interval_def tab_at_def algo_get_mod_def max_comm_div_gcd Let_def split: if_splits)+
  have "r dvd ?r1" unfolding r(1) by (cases "mod_on MOD_MAG s") (simp_all only: if_True if_False gcd_dvd1 dvd_refl)
  moreover have "?r1 dvd 1000" by auto
  ultimately have "r dvd 1000" by (rule dvd_trans)
  moreover have "0 < r" using r am by auto
  moreover have "mod_on MOD_ACC s \<Longrightarrow> r dvd ?a"
    using dvd_trans [OF \<open>r dvd ?r1\<close>, of ?a] by (simp only: if_True gcd_dvd2 simp_thms)
  moreover have "mod_on MOD_MAG s \<Longrightarrow> r dvd ?m"
    using r by simp
  ultimately show ?thesis using s' by blast
qed

theorem hint_interval_spec_witness:
  "fst (run_state algo_get_hint_interval (mod_up MOD_MAG (ex_good\<lparr>g_dr_m := 2\<rparr>))) dvd 100"
proof -
  let ?s = "mod_up MOD_MAG (ex_good\<lparr>g_dr_m := 2\<rparr>)"
  have f: "find_module (g_modules ?s) MOD_MAG = Some \<lparr>am_id = MOD_MAG, am_op_mode = 1, am_ref = 1\<rparr>"
    using mod_up_find [of "ex_good\<lparr>g_dr_m := 2\<rparr>" MOD_MAG "\<lparr>am_id = MOD_MAG, am_op_mode = 0, am_ref = 0\<rparr>"]
    by (simp add: ex_good_def ex_st_def module_ids_def nicki_build_def)
  have d: "g_dr_a ?s = 0" "g_dr_m ?s = 2"
    by (simp_all add: mod_up_def ALGO_MOD_ENABLE_def algo_get_mod_def algo_mod_ref_change_def mod_ref_def ex_good_def ex_st_def
        module_ids_def nicki_build_def mod_enable_def algo_enable_m_def algo_load_calib_profile_def no_profile_def prof_accuracy_def)
  obtain r s' where run: "run_state algo_get_hint_interval ?s = (r, s')" by fastforce
  show ?thesis
    using hint_interval_spec [OF _ _ _ _ run] d mod_on_iff [OF f] run by (simp add: g_tab_intvl_def)
qed

end
