(* ===== verification/Linked_List.thy ===== *)
theory Linked_List
  imports World
begin

text \<open>
  \<open>gps/utils/linked_list.c\<close>: a doubly linked list with the newest element at its head. A pointer is a
  number, 0 is \<open>NULL\<close>; \<open>ll_lists\<close> and \<open>ll_elems\<close> are the allocated \<open>list_state\<close>s and \<open>list_element\<close>s. The
  deallocation function of an element is the number of the function, its call an event.
\<close>

datatype ll_err = LL_SUCCESS | LL_FAILURE_GENERAL | LL_INVALID_PARAMETER | LL_INVALID_HANDLE
  | LL_UNAVAILABLE_RESOURCE | LL_INSUFFICIENT_BUFFER

record list_element =
  le_next :: nat
  le_prev :: nat
  le_data :: nat
  le_dealloc :: nat

record list_state =
  p_head :: nat
  p_tail :: nat

record ll_st = world +
  ll_lists :: "nat \<Rightarrow> list_state option"
  ll_elems :: "nat \<Rightarrow> list_element option"

text \<open>Accesses through a pointer, which must be to an allocated object.\<close>

definition get_list :: "nat \<Rightarrow> ('a ll_st_scheme, list_state) state" where
  "get_list l = do {
     x \<leftarrow> gets (\<lambda>s. ll_lists s l);
     (case x of None \<Rightarrow> do { must False; ret \<lparr>p_head = 0, p_tail = 0\<rparr> } | Some x \<Rightarrow> ret x)
   }"

definition upd_list :: "nat \<Rightarrow> (list_state \<Rightarrow> list_state) \<Rightarrow> ('a ll_st_scheme, unit) state" where
  "upd_list l f = modify (\<lambda>s. s\<lparr>ll_lists := (ll_lists s)(l := map_option f (ll_lists s l))\<rparr>)"

definition get_elem :: "nat \<Rightarrow> ('a ll_st_scheme, list_element) state" where
  "get_elem e = do {
     x \<leftarrow> gets (\<lambda>s. ll_elems s e);
     (case x of
        None \<Rightarrow> do { must False; ret \<lparr>le_next = 0, le_prev = 0, le_data = 0, le_dealloc = 0\<rparr> }
      | Some x \<Rightarrow> ret x)
   }"

definition upd_elem :: "nat \<Rightarrow> (list_element \<Rightarrow> list_element) \<Rightarrow> ('a ll_st_scheme, unit) state" where
  "upd_elem e f = do {
     x \<leftarrow> gets (\<lambda>s. ll_elems s e);
     must (x \<noteq> None);
     modify (\<lambda>s. s\<lparr>ll_elems := (ll_elems s)(e := map_option f (ll_elems s e))\<rparr>)
   }"

definition free_elem :: "nat \<Rightarrow> ('a ll_st_scheme, unit) state" where
  "free_elem e = do {
     emit (E_free e);
     modify (\<lambda>s. s\<lparr>ll_elems := (ll_elems s)(e := None)\<rparr>)
   }"

definition dealloc_event :: "list_element \<Rightarrow> event list" where
  "dealloc_event x = (if le_dealloc x \<noteq> 0 then [E_hook ''dealloc'' [int (le_dealloc x), int (le_data x)]] else [])"

text \<open>\<open>list_data\<close> is the variable the handle is put in, \<open>False\<close> if its address is \<open>NULL\<close>.\<close>

definition linked_list_init :: "bool \<Rightarrow> ('a ll_st_scheme, ll_err \<times> nat option) state" where
  "linked_list_init list_data =
     (if \<not> list_data then ret (LL_INVALID_PARAMETER, None)
      else do {
        r \<leftarrow> call (E_malloc 8);
        if rv r = 0 then ret (LL_FAILURE_GENERAL, None)
        else do {
          modify (\<lambda>s. s\<lparr>ll_lists := (ll_lists s)(nat (rv r) := Some \<lparr>p_head = 0, p_tail = 0\<rparr>)\<rparr>);
          ret (LL_SUCCESS, Some (nat (rv r)))
        }
      })"

definition linked_list_add :: "nat \<Rightarrow> nat \<Rightarrow> nat \<Rightarrow> ('a ll_st_scheme, ll_err) state" where
  "linked_list_add list_data data_obj dealloc =
     (if list_data = 0 then ret LL_INVALID_HANDLE
      else if data_obj = 0 then ret LL_INVALID_PARAMETER
      else do {
        r \<leftarrow> call (E_malloc 16);
        if rv r = 0 then ret LL_FAILURE_GENERAL
        else do {
          let elem = nat (rv r);
          modify (\<lambda>s. s\<lparr>ll_elems := (ll_elems s)(elem := Some \<lparr>le_next = 0, le_prev = 0, le_data = data_obj,
            le_dealloc = dealloc\<rparr>)\<rparr>);
          l \<leftarrow> get_list list_data;
          let tmp = p_head l;
          upd_list list_data (\<lambda>l. l\<lparr>p_head := elem\<rparr>);
          upd_elem elem (\<lambda>x. x\<lparr>le_next := tmp\<rparr>);
          (if tmp \<noteq> 0 then upd_elem tmp (\<lambda>x. x\<lparr>le_prev := elem\<rparr>)
           else upd_list list_data (\<lambda>l. l\<lparr>p_tail := elem\<rparr>));
          ret LL_SUCCESS
        }
      })"

text \<open>The error and \<open>*data_obj\<close>, when it is stored; \<open>data_obj\<close> is \<open>False\<close> for \<open>NULL\<close>.\<close>

definition linked_list_remove :: "nat \<Rightarrow> bool \<Rightarrow> ('a ll_st_scheme, ll_err \<times> nat option) state" where
  "linked_list_remove list_data data_obj =
     (if list_data = 0 then ret (LL_INVALID_HANDLE, None)
      else if \<not> data_obj then ret (LL_INVALID_PARAMETER, None)
      else do {
        l \<leftarrow> get_list list_data;
        if p_tail l = 0 then ret (LL_UNAVAILABLE_RESOURCE, None)
        else do {
          let tmp = p_tail l;
          t \<leftarrow> get_elem tmp;
          upd_list list_data (\<lambda>l. l\<lparr>p_tail := le_prev t\<rparr>);
          (if le_prev t \<noteq> 0 then upd_elem (le_prev t) (\<lambda>x. x\<lparr>le_next := 0\<rparr>)
           else upd_list list_data (\<lambda>l. l\<lparr>p_head := 0\<rparr>));
          free_elem tmp;
          ret (LL_SUCCESS, Some (le_data t))
        }
      })"

definition linked_list_empty :: "nat \<Rightarrow> ('a ll_st_scheme, int) state" where
  "linked_list_empty list_data =
     (if list_data = 0 then ret (- 3)
      else do { l \<leftarrow> get_list list_data; ret (if p_head l = 0 then 1 else 0) })"

text \<open>
  The loop of \<open>linked_list_flush\<close>: the elements that are left and the calls made. \<open>None\<close> if it reaches
  an element that is not allocated, or does not end.
\<close>

partial_function (option) flush_loop ::
  "(nat \<Rightarrow> list_element option) \<Rightarrow> nat \<Rightarrow> event list \<Rightarrow> ((nat \<Rightarrow> list_element option) \<times> event list) option" where
  "flush_loop h p es =
     (if p = 0 then Some (h, es)
      else (case h p of None \<Rightarrow> None
        | Some x \<Rightarrow> flush_loop (h(p := None)) (le_next x) (es @ dealloc_event x @ [E_free p])))"

definition linked_list_flush :: "nat \<Rightarrow> ('a ll_st_scheme, ll_err) state" where
  "linked_list_flush list_data =
     (if list_data = 0 then ret LL_INVALID_HANDLE
      else do {
        l \<leftarrow> get_list list_data;
        h \<leftarrow> gets ll_elems;
        (case flush_loop h (p_head l) [] of
           None \<Rightarrow> must False
         | Some (h', es) \<Rightarrow> do { for_each es emit; modify (\<lambda>s. s\<lparr>ll_elems := h'\<rparr>) });
        upd_list list_data (\<lambda>l. l\<lparr>p_head := 0, p_tail := 0\<rparr>);
        ret LL_SUCCESS
      })"

text \<open>\<open>list_data\<close> is the address of the handle \<open>l\<close>, \<open>False\<close> for \<open>NULL\<close>; the handle is cleared.\<close>

definition linked_list_destroy :: "bool \<Rightarrow> nat \<Rightarrow> ('a ll_st_scheme, ll_err) state" where
  "linked_list_destroy list_data l =
     (if \<not> list_data then ret LL_INVALID_HANDLE
      else do {
        _ \<leftarrow> linked_list_flush l;
        emit (E_free l);
        modify (\<lambda>s. s\<lparr>ll_lists := (ll_lists s)(l := None)\<rparr>);
        ret LL_SUCCESS
      })"

text \<open>The search: the first element from \<open>p\<close> on whose data the callback accepts.\<close>

partial_function (option) search_loop ::
  "(nat \<Rightarrow> list_element option) \<Rightarrow> (nat \<Rightarrow> bool) \<Rightarrow> nat \<Rightarrow> nat option option" where
  "search_loop h equal p =
     (if p = 0 then Some None
      else (case h p of None \<Rightarrow> None
        | Some x \<Rightarrow> if equal (le_data x) then Some (Some p) else search_loop h equal (le_next x)))"

text \<open>
  \<open>equal\<close> is the callback with \<open>data_0\<close>, \<open>None\<close> for \<open>NULL\<close>; \<open>data_p\<close> is \<open>False\<close> for \<open>NULL\<close>. The second result is
  \<open>*data_p\<close> afterwards, when it is stored.
\<close>

definition unlink_elem :: "nat \<Rightarrow> nat \<Rightarrow> list_element \<Rightarrow> ('a ll_st_scheme, unit) state" where
  "unlink_elem list_data tmp x = do {
     (if le_prev x = 0 then upd_list list_data (\<lambda>l. l\<lparr>p_head := le_next x\<rparr>)
      else upd_elem (le_prev x) (\<lambda>y. y\<lparr>le_next := le_next x\<rparr>));
     (if le_next x = 0 then upd_list list_data (\<lambda>l. l\<lparr>p_tail := le_prev x\<rparr>)
      else upd_elem (le_next x) (\<lambda>y. y\<lparr>le_prev := le_prev x\<rparr>));
     upd_elem tmp (\<lambda>y. y\<lparr>le_prev := 0, le_next := 0\<rparr>)
   }"

definition linked_list_search ::
  "nat \<Rightarrow> bool \<Rightarrow> (nat \<Rightarrow> bool) option \<Rightarrow> bool \<Rightarrow> ('a ll_st_scheme, ll_err \<times> nat option) state" where
  "linked_list_search list_data data_p equal rm_if_found =
     (if list_data = 0 \<or> equal = None then ret (LL_INVALID_HANDLE, None)
      else do {
        l \<leftarrow> get_list list_data;
        if p_tail l = 0 then ret (LL_UNAVAILABLE_RESOURCE, None)
        else do {
          h \<leftarrow> gets ll_elems;
          (case search_loop h (the equal) (p_head l) of
             None \<Rightarrow> do { must False; ret (LL_SUCCESS, None) }
           | Some None \<Rightarrow> ret (LL_SUCCESS, if data_p then Some 0 else None)
           | Some (Some tmp) \<Rightarrow> do {
               x \<leftarrow> get_elem tmp;
               (if rm_if_found then do {
                  unlink_elem list_data tmp x;
                  (if \<not> data_p then for_each (dealloc_event x) emit else ret ());
                  free_elem tmp
                } else ret ());
               ret (LL_SUCCESS, if data_p then Some (le_data x) else None)
             })
        }
      })"

section \<open>The list a heap represents\<close>

type_synonym eheap = "nat \<Rightarrow> list_element option"

text \<open>From \<open>p\<close> on, the elements are \<open>as\<close>, each linked to its neighbours; \<open>prev\<close> comes before the first.\<close>

primrec dll :: "eheap \<Rightarrow> nat \<Rightarrow> nat \<Rightarrow> nat list \<Rightarrow> bool" where
  "dll h p prev [] \<longleftrightarrow> p = 0"
| "dll h p prev (a # as) \<longleftrightarrow> p = a \<and> a \<noteq> 0 \<and>
     (case h a of None \<Rightarrow> False | Some x \<Rightarrow> le_prev x = prev \<and> dll h (le_next x) a as)"

definition item :: "eheap \<Rightarrow> nat \<Rightarrow> nat \<times> nat" where
  "item h a = (case h a of None \<Rightarrow> (0, 0) | Some x \<Rightarrow> (le_data x, le_dealloc x))"

lemma dll_frame: "(\<And>a. a \<in> set as \<Longrightarrow> h' a = h a) \<Longrightarrow> dll h' p prev as = dll h p prev as"
proof (induction as arbitrary: p prev)
  case (Cons a as)
  then show ?case by (auto split: option.splits)
qed simp

lemma dll_alloc: "dll h p prev as \<Longrightarrow> a \<in> set as \<Longrightarrow> \<exists>x. h a = Some x"
  by (induction as arbitrary: p prev) (auto split: option.splits)

lemma dll_nonzero: "dll h p prev as \<Longrightarrow> 0 \<notin> set as"
  by (induction as arbitrary: p prev) (auto split: option.splits)

lemma dll_head: "dll h p prev as \<Longrightarrow> p = hd (as @ [0])"
  by (cases as) (auto split: option.splits)

lemma dll_cons:
  assumes "dll h p 0 as" "e \<notin> set as" "e \<noteq> 0" "distinct as" "le_next x = p" "le_prev x = 0"
    and h': "h' e = Some x" "\<And>a. a \<in> set as \<Longrightarrow> a \<noteq> p \<Longrightarrow> h' a = h a"
      "p \<noteq> 0 \<Longrightarrow> h' p = map_option (\<lambda>y. y\<lparr>le_prev := e\<rparr>) (h p)"
  shows "dll h' e 0 (e # as)"
proof (cases as)
  case Nil
  with assms show ?thesis by auto
next
  case (Cons a as')
  with assms(1) obtain y where y: "h a = Some y" "p = a" "a \<noteq> 0" "dll h (le_next y) a as'"
    by (auto split: option.splits)
  have "dll h' (le_next y) a as' = dll h (le_next y) a as'"
    using assms(4) Cons y(2) h'(2) by (intro dll_frame) auto
  with y Cons assms show ?thesis by auto
qed

text \<open>Taking out an element in the middle: its neighbours are linked with each other.\<close>

definition relink :: "eheap \<Rightarrow> nat \<Rightarrow> nat \<Rightarrow> eheap" where
  "relink h pv nx = (let h = (if pv = 0 then h else h(pv := map_option (\<lambda>y. y\<lparr>le_next := nx\<rparr>) (h pv))) in
     if nx = 0 then h else h(nx := map_option (\<lambda>y. y\<lparr>le_prev := pv\<rparr>) (h nx)))"

lemma item_relink [simp]: "item (relink h pv nx) a = item h a"
  by (auto simp: item_def relink_def Let_def split: option.splits)

lemma relink_other: "a \<noteq> pv \<Longrightarrow> a \<noteq> nx \<Longrightarrow> relink h pv nx a = h a"
  by (auto simp: relink_def Let_def)

lemma relink_none: "relink h pv nx a = None \<longleftrightarrow> h a = None"
  by (auto simp: relink_def Let_def)

text \<open>The predecessor and the successor of the first element of the second part.\<close>

definition pred_of :: "nat \<Rightarrow> nat list \<Rightarrow> nat" where
  "pred_of prev us = last (prev # us)"

definition succ_of :: "nat list \<Rightarrow> nat" where
  "succ_of vs = hd (vs @ [0])"

lemma dll_mid:
  assumes "dll h p prev (us @ a # vs)"
  shows "\<exists>x. h a = Some x \<and> le_prev x = pred_of prev us \<and> le_next x = succ_of vs"
  using assms
proof (induction us arbitrary: p prev)
  case Nil
  then show ?case by (auto simp: pred_of_def succ_of_def split: option.splits dest: dll_head)
next
  case (Cons u us)
  then obtain y where "h u = Some y" "dll h (le_next y) u (us @ a # vs)"
    by (auto split: option.splits)
  with Cons.IH show ?case by (fastforce simp: pred_of_def)
qed

lemma pred_of_in: "pred_of prev us = prev \<and> us = [] \<or> pred_of prev us \<in> set us"
  by (auto simp: pred_of_def)

lemma succ_of_in: "succ_of vs = 0 \<and> vs = [] \<or> succ_of vs \<in> set vs"
  by (cases vs) (auto simp: succ_of_def)

lemma dll_relink:
  assumes "dll h p prev (us @ a # vs)" "distinct (us @ a # vs)" "prev \<notin> set (us @ a # vs)"
  shows "dll (relink h (pred_of prev us) (succ_of vs)) (if us = [] then succ_of vs else p) prev (us @ vs)"
  using assms
proof (induction us arbitrary: p prev)
  case Nil
  then obtain x where x: "h a = Some x" "dll h (le_next x) a vs" by (auto split: option.splits)
  show ?case
  proof (cases vs)
    case Nil
    then show ?thesis by (simp add: succ_of_def)
  next
    case (Cons v vs')
    with x obtain y where y: "h v = Some y" "v \<noteq> 0" "dll h (le_next y) v vs'"
      by (auto split: option.splits)
    have "dll (relink h prev v) (le_next y) v vs' = dll h (le_next y) v vs'"
      using Nil.prems Cons by (intro dll_frame relink_other) auto
    moreover have "relink h prev v v = Some (y\<lparr>le_prev := prev\<rparr>)"
      using y Nil.prems Cons by (auto simp: relink_def Let_def)
    ultimately show ?thesis
      using Cons y by (simp add: pred_of_def succ_of_def)
  qed
next
  case (Cons u us)
  then obtain y where y: "h u = Some y" "p = u" "u \<noteq> 0" "le_prev y = prev" "dll h (le_next y) u (us @ a # vs)"
    by (auto split: option.splits)
  let ?h = "relink h (pred_of u us) (succ_of vs)"
  have IH: "dll ?h (if us = [] then succ_of vs else le_next y) u (us @ vs)"
    using y Cons.prems by (intro Cons.IH) auto
  have "?h u = (if us = [] then Some (y\<lparr>le_next := succ_of vs\<rparr>) else Some y)"
  proof (cases "us = []")
    case True
    have "succ_of vs \<noteq> u"
      using succ_of_in [of vs] Cons.prems y by auto
    with True y show ?thesis by (auto simp: relink_def Let_def pred_of_def)
  next
    case False
    have "u \<noteq> pred_of u us" "u \<noteq> succ_of vs"
      using False pred_of_in [of u us] succ_of_in [of vs] Cons.prems y by auto
    with False y show ?thesis by (simp add: relink_other)
  qed
  moreover have "pred_of prev (u # us) = pred_of u us"
    by (simp add: pred_of_def)
  ultimately show ?case
    using IH y by (cases "us = []") simp_all
qed

text \<open>\<open>rep s l as\<close>: the list at \<open>l\<close> has the elements \<open>as\<close>; \<open>items s as\<close> are their data.\<close>

definition rep :: "'a ll_st_scheme \<Rightarrow> nat \<Rightarrow> nat list \<Rightarrow> bool" where
  "rep s l as \<longleftrightarrow> ll_lists s l = Some \<lparr>p_head = hd (as @ [0]), p_tail = last (0 # as)\<rparr> \<and>
     dll (ll_elems s) (hd (as @ [0])) 0 as \<and> distinct as"

definition items :: "'a ll_st_scheme \<Rightarrow> nat list \<Rightarrow> (nat \<times> nat) list" where
  "items s as = map (item (ll_elems s)) as"

lemma rep_D:
  assumes "rep s l as"
  shows "ll_lists s l = Some \<lparr>p_head = hd (as @ [0]), p_tail = last (0 # as)\<rparr>" "0 \<notin> set as" "distinct as"
    "dll (ll_elems s) (hd (as @ [0])) 0 as"
  using assms dll_nonzero by (auto simp: rep_def)

text \<open>What \<open>malloc\<close> promises: 0, or an address that is not in use.\<close>

definition fresh :: "'a ll_st_scheme \<Rightarrow> nat \<Rightarrow> bool" where
  "fresh s n \<longleftrightarrow> (let v = rv (env s (tr s) (E_malloc n)) in
     v = 0 \<or> 0 < v \<and> ll_elems s (nat v) = None \<and> ll_lists s (nat v) = None)"

theorem add_spec:
  assumes rep: "rep s l as" and l: "l \<noteq> 0" "data \<noteq> 0" and fresh: "fresh s 16"
    and run: "run_state (linked_list_add l data dealloc) s = (err, s')"
  shows "err = LL_FAILURE_GENERAL \<and> rep s' l as \<and> items s' as = items s as \<and> ub s' = ub s \<or>
    (\<exists>e. err = LL_SUCCESS \<and> rep s' l (e # as) \<and> items s' (e # as) = (data, dealloc) # items s as \<and> ub s' = ub s)"
proof (cases "rv (env s (tr s) (E_malloc 16)) = 0")
  case True
  with run rep l show ?thesis by (auto simp: linked_list_add_def rep_def items_def)
next
  case False
  define e where "e = nat (rv (env s (tr s) (E_malloc 16)))"
  have e: "e \<noteq> 0" "ll_elems s e = None" using fresh False by (auto simp: fresh_def e_def Let_def)
  have ne: "e \<notin> set as" using dll_alloc [OF rep_D(4) [OF rep], of e] e by auto
  define p where "p = hd (as @ [0])"
  define x where "x = \<lparr>le_next = p, le_prev = 0, le_data = data, le_dealloc = dealloc\<rparr>"
  have pe: "p \<noteq> e" using e ne by (cases as) (auto simp: p_def)
  have hd0: "as \<noteq> [] \<Longrightarrow> hd as \<noteq> 0"
    using rep_D(2) [OF rep] by (cases as) auto
  have p_al: "p \<noteq> 0 \<Longrightarrow> \<exists>y. ll_elems s p = Some y"
    using dll_alloc [OF rep_D(4) [OF rep], of p] by (cases as) (auto simp: p_def)
  define h' where "h' = (if p = 0 then (ll_elems s)(e := Some x)
    else (ll_elems s)(e := Some x, p := map_option (\<lambda>y. y\<lparr>le_prev := e\<rparr>) (ll_elems s p)))"
  have s': "err = LL_SUCCESS" "ll_elems s' = h'" "ub s' = ub s"
      "ll_lists s' l = Some \<lparr>p_head = e, p_tail = last (0 # e # as)\<rparr>"
    using run l False rep_D(1) [OF rep] p_al pe hd0
    by (auto simp: linked_list_add_def get_list_def upd_list_def upd_elem_def e_def [symmetric] p_def [symmetric]
        h'_def x_def Let_def fun_upd_twist split: if_splits option.splits)
      (auto simp: p_def hd_append split: if_splits)
  have "dll h' e 0 (e # as)"
    using rep_D [OF rep] e ne pe by (intro dll_cons [where h = "ll_elems s" and p = p and x = x])
      (auto simp: p_def [symmetric] h'_def x_def)
  moreover have "items s' (e # as) = (data, dealloc) # items s as"
    using ne pe p_al by (auto simp: items_def s' h'_def item_def x_def)
  ultimately show ?thesis
    using s' ne rep_D(3) [OF rep] by (auto simp: rep_def)
qed

theorem remove_spec:
  assumes rep: "rep s l (as @ [a])" and l: "l \<noteq> 0"
    and run: "run_state (linked_list_remove l True) s = ((err, d), s')"
  shows "err = LL_SUCCESS" "d = Some (fst (item (ll_elems s) a))" "rep s' l as" "items s' as = items s as"
    "ub s' = ub s"
proof -
  have D: "0 \<notin> set (as @ [a])" "distinct (as @ [a])" "dll (ll_elems s) (hd (as @ [a])) 0 (as @ [a])"
    using rep_D [OF rep] by (auto simp: hd_append)
  obtain x where x: "ll_elems s a = Some x" "le_prev x = pred_of 0 as" "le_next x = 0"
    using dll_mid [of "ll_elems s" _ 0 as a "[]"] D by (auto simp: succ_of_def)
  have pv: "pred_of 0 as \<noteq> 0 \<longleftrightarrow> as \<noteq> []" "pred_of 0 as \<noteq> a"
    using D by (cases as rule: rev_cases; auto simp: pred_of_def)+
  have pv_al: "as \<noteq> [] \<Longrightarrow> \<exists>y. ll_elems s (pred_of 0 as) = Some y"
    using dll_alloc [OF D(3), of "pred_of 0 as"] pred_of_in [of 0 as] by auto
  have a0: "a \<noteq> 0" using D by auto
  let ?h = "(relink (ll_elems s) (pred_of 0 as) 0)(a := None)"
  have all: "err = LL_SUCCESS \<and> d = Some (le_data x) \<and> ub s' = ub s \<and> ll_elems s' = ?h \<and>
      ll_lists s' l = Some \<lparr>p_head = hd (as @ [0]), p_tail = last (0 # as)\<rparr>"
    using run l rep_D(1) [OF rep] x pv pv_al a0
    by (cases "as = []") (auto simp: linked_list_remove_def get_list_def get_elem_def upd_list_def upd_elem_def
        free_elem_def relink_def Let_def pred_of_def fun_upd_twist)
  then show "err = LL_SUCCESS" "d = Some (fst (item (ll_elems s) a))" "ub s' = ub s"
    using x by (auto simp: item_def)
  have "dll (relink (ll_elems s) (pred_of 0 as) 0) (hd (as @ [0])) 0 as"
    using dll_relink [of "ll_elems s" _ 0 as a "[]"] D by (cases "as = []") (auto simp: succ_of_def)
  then have "dll ?h (hd (as @ [0])) 0 as"
    using D(2) by (subst dll_frame [where h = "relink (ll_elems s) (pred_of 0 as) 0"]) auto
  then show "rep s' l as"
    using all D by (auto simp: rep_def)
  have "item ?h b = item (ll_elems s) b" if "b \<in> set as" for b
    using that D(2) item_relink [of "ll_elems s" "pred_of 0 as" 0 b] by (auto simp: item_def simp del: item_relink)
  then show "items s' as = items s as"
    using all by (simp add: items_def)
qed

theorem remove_empty:
  "rep s l [] \<Longrightarrow> l \<noteq> 0 \<Longrightarrow> run_state (linked_list_remove l True) s = ((LL_UNAVAILABLE_RESOURCE, None), s)"
  by (auto simp: linked_list_remove_def rep_def get_list_def)

lemma empty_spec:
  "rep s l as \<Longrightarrow> l \<noteq> 0 \<Longrightarrow> run_state (linked_list_empty l) s = (if as = [] then 1 else 0, s)"
  using rep_D(2) [of s l as] by (cases as) (auto simp: linked_list_empty_def rep_def get_list_def)

text \<open>The calls \<open>linked_list_flush\<close> makes: for each element the deallocation of its data and its own.\<close>

definition flush_events :: "eheap \<Rightarrow> nat list \<Rightarrow> event list" where
  "flush_events h as = concat (map (\<lambda>a. dealloc_event (the (h a)) @ [E_free a]) as)"

lemma flush_loop_dll:
  "dll h p prev as \<Longrightarrow> distinct as \<Longrightarrow>
   flush_loop h p es = Some (\<lambda>a. if a \<in> set as then None else h a, es @ flush_events h as)"
proof (induction as arbitrary: h p prev es)
  case Nil
  then show ?case by (simp add: flush_loop.simps flush_events_def)
next
  case (Cons a as)
  then obtain x where x: "h a = Some x" "p = a" "a \<noteq> 0" "dll h (le_next x) a as"
    by (auto split: option.splits)
  have "dll (h(a := None)) (le_next x) a as"
    using x Cons.prems by (subst dll_frame [where h = h]) auto
  then have "flush_loop (h(a := None)) (le_next x) (es @ dealloc_event x @ [E_free a]) =
      Some (\<lambda>b. if b \<in> set as then None else (h(a := None)) b,
        (es @ dealloc_event x @ [E_free a]) @ flush_events (h(a := None)) as)"
    by (rule Cons.IH) (use Cons.prems in auto)
  moreover have "flush_events (h(a := None)) as = flush_events h as"
    using Cons.prems by (auto simp: flush_events_def intro!: arg_cong [where f = concat])
  moreover have "(\<lambda>b. if b \<in> set as then None else (h(a := None)) b) = (\<lambda>b. if b \<in> set (a # as) then None else h b)"
    by auto
  ultimately show ?case
    using x by (subst flush_loop.simps) (simp add: flush_events_def)
qed

lemma run_emits: "run_state (for_each es emit) s = ((), s\<lparr>tr := rev es @ tr s\<rparr>)"
  by (induction es arbitrary: s) auto

theorem flush_spec:
  assumes rep: "rep s l as" and l: "l \<noteq> 0" and run: "run_state (linked_list_flush l) s = (err, s')"
  shows "err = LL_SUCCESS" "rep s' l []" "tr s' = rev (flush_events (ll_elems s) as) @ tr s" "ub s' = ub s"
    "ll_elems s' a = (if a \<in> set as then None else ll_elems s a)"
  using run l rep_D(1,3,4) [OF rep] flush_loop_dll [of "ll_elems s" "hd (as @ [0])" 0 as "[]"]
  by (auto simp: linked_list_flush_def get_list_def upd_list_def run_emits rep_def)

lemma search_loop_dll:
  "dll h p prev as \<Longrightarrow> search_loop h eq p = Some (find (\<lambda>a. eq (fst (item h a))) as)"
proof (induction as arbitrary: p prev)
  case Nil
  then show ?case by (simp add: search_loop.simps)
next
  case (Cons a as)
  then obtain x where x: "h a = Some x" "p = a" "a \<noteq> 0" "dll h (le_next x) a as"
    by (auto split: option.splits)
  with Cons.IH [OF x(4)] show ?case
    by (subst search_loop.simps) (simp add: item_def)
qed

theorem search_none:
  assumes "rep s l as" "l \<noteq> 0" "as \<noteq> []" "find (\<lambda>a. eq (fst (item (ll_elems s) a))) as = None"
  shows "run_state (linked_list_search l dp (Some eq) rm) s = ((LL_SUCCESS, if dp then Some 0 else None), s)"
proof -
  have "last as \<noteq> 0"
    using rep_D(2) [OF assms(1)] assms(3) by (metis last_in_set)
  then show ?thesis
    using assms rep_D(1,4) [OF assms(1)] search_loop_dll [of "ll_elems s" "hd (as @ [0])" 0 as eq]
    by (auto simp: linked_list_search_def get_list_def)
qed

theorem search_remove:
  assumes rep: "rep s l (us @ a # vs)" and l: "l \<noteq> 0"
    and found: "find (\<lambda>a. eq (fst (item (ll_elems s) a))) (us @ a # vs) = Some a"
    and run: "run_state (linked_list_search l dp (Some eq) True) s = ((err, d), s')"
  shows "err = LL_SUCCESS" "d = (if dp then Some (fst (item (ll_elems s) a)) else None)"
    "rep s' l (us @ vs)" "items s' (us @ vs) = items s (us @ vs)" "ub s' = ub s"
    "tr s' = E_free a # (if dp then [] else dealloc_event (the (ll_elems s a))) @ tr s"
proof -
  let ?as = "us @ a # vs"
  let ?pv = "pred_of 0 us" and ?nx = "succ_of vs"
  have D: "0 \<notin> set ?as" "distinct ?as" "dll (ll_elems s) (hd ?as) 0 ?as"
    using rep_D(2,3,4) [OF rep] by (auto simp: hd_append)
  obtain x where x: "ll_elems s a = Some x" "le_prev x = ?pv" "le_next x = ?nx"
    using dll_mid [OF D(3)] by auto
  have nz: "?pv = 0 \<longleftrightarrow> us = []" "?nx = 0 \<longleftrightarrow> vs = []" "?pv \<noteq> a" "?nx \<noteq> a" "?pv = ?nx \<longrightarrow> ?pv = 0"
    using D pred_of_in [of 0 us] succ_of_in [of vs] by (cases us rule: rev_cases; cases vs; auto simp: pred_of_def succ_of_def)+
  have al: "us \<noteq> [] \<Longrightarrow> \<exists>y. ll_elems s ?pv = Some y" "vs \<noteq> [] \<Longrightarrow> \<exists>y. ll_elems s ?nx = Some y"
    using dll_alloc [OF D(3), of ?pv] dll_alloc [OF D(3), of ?nx] pred_of_in [of 0 us] succ_of_in [of vs] nz by auto
  have lst: "ll_lists s l = Some \<lparr>p_head = hd ?as, p_tail = last ?as\<rparr>"
    using rep_D(1) [OF rep] by (simp add: hd_append)
  have tl0: "last ?as \<noteq> 0"
    using D(1) last_in_set [of ?as] by (metis append_is_Nil_conv list.distinct(1))
  have fnd: "search_loop (ll_elems s) eq (hd ?as) = Some (Some a)"
    using search_loop_dll [OF D(3)] found by simp
  have hdl: "us \<noteq> [] \<Longrightarrow> hd ?as = hd (us @ vs @ [0])" "vs \<noteq> [] \<Longrightarrow> last ?as = last (0 # us @ vs)"
      "us = [] \<Longrightarrow> ?nx = hd (us @ vs @ [0])" "vs = [] \<Longrightarrow> ?pv = last (0 # us @ vs)"
    by (auto simp: pred_of_def succ_of_def hd_append)
  let ?h = "(relink (ll_elems s) ?pv ?nx)(a := None)"
  have all: "err = LL_SUCCESS \<and> d = (if dp then Some (le_data x) else None) \<and> ub s' = ub s \<and> ll_elems s' = ?h \<and>
      tr s' = E_free a # (if dp then [] else dealloc_event x) @ tr s \<and>
      ll_lists s' l = Some \<lparr>p_head = hd (us @ vs @ [0]), p_tail = last (0 # us @ vs)\<rparr>"
    using run l lst tl0 fnd x nz al hdl
    by (cases "us = []"; cases "vs = []")
      (auto simp: linked_list_search_def get_list_def get_elem_def unlink_elem_def upd_list_def upd_elem_def
        free_elem_def relink_def run_emits Let_def dealloc_event_def split: if_splits)
  show "err = LL_SUCCESS" "d = (if dp then Some (fst (item (ll_elems s) a)) else None)" "ub s' = ub s"
    "tr s' = E_free a # (if dp then [] else dealloc_event (the (ll_elems s a))) @ tr s"
    using all x by (auto simp: item_def)
  have "dll (relink (ll_elems s) ?pv ?nx) (hd (us @ vs @ [0])) 0 (us @ vs)"
    using dll_relink [OF D(3)] D hdl by (cases "us = []") auto
  then have "dll ?h (hd (us @ vs @ [0])) 0 (us @ vs)"
    using D(2) by (subst dll_frame [where h = "relink (ll_elems s) ?pv ?nx"]) auto
  then show "rep s' l (us @ vs)"
    using all D by (auto simp: rep_def)
  have "item ?h b = item (ll_elems s) b" if "b \<in> set (us @ vs)" for b
    using that D(2) item_relink [of "ll_elems s" ?pv ?nx b] by (auto simp: item_def simp del: item_relink)
  then show "items s' (us @ vs) = items s (us @ vs)"
    using all by (simp add: items_def)
qed

section \<open>The list as a queue\<close>

text \<open>Adding at the head and removing at the tail: \<open>ds\<close> is the data in the list, the oldest first.\<close>

definition list_holds :: "nat \<Rightarrow> 'a ll_st_scheme \<Rightarrow> nat list \<Rightarrow> bool" where
  "list_holds l s ds \<longleftrightarrow> l \<noteq> 0 \<and> (\<exists>as. rep s l as \<and> map fst (items s as) = rev ds)"

definition list_put :: "nat \<Rightarrow> nat \<Rightarrow> nat \<Rightarrow> 'a ll_st_scheme \<Rightarrow> bool \<times> 'a ll_st_scheme" where
  "list_put l f d s = (case run_state (linked_list_add l d f) s of (e, s') \<Rightarrow> (e = LL_SUCCESS, s'))"

definition list_get :: "nat \<Rightarrow> 'a ll_st_scheme \<Rightarrow> nat option \<times> 'a ll_st_scheme" where
  "list_get l s = (case run_state (linked_list_remove l True) s of
     ((e, d), s') \<Rightarrow> (if e = LL_SUCCESS then d else None, s'))"

definition list_put_ok :: "nat \<Rightarrow> 'a ll_st_scheme \<Rightarrow> bool" where
  "list_put_ok d s \<longleftrightarrow> d \<noteq> 0 \<and> fresh s 16"

lemma list_put_holds:
  assumes "list_holds l s ds" "list_put_ok d s" "list_put l f d s = (b, s')"
  shows "list_holds l s' (if b then ds @ [d] else ds)"
proof -
  obtain as where l: "l \<noteq> 0" "rep s l as" "map fst (items s as) = rev ds"
    using assms(1) by (auto simp: list_holds_def)
  obtain e where e: "run_state (linked_list_add l d f) s = (e, s')" "b = (e = LL_SUCCESS)"
    using assms(3) by (auto simp: list_put_def split: prod.splits)
  show ?thesis
    using add_spec [OF l(2,1) _ _ e(1)] assms(2) l e(2) by (fastforce simp: list_holds_def list_put_ok_def)
qed

lemma list_get_holds:
  assumes "list_holds l s (d # ds)" "list_get l s = (r, s')"
  shows "r = Some d \<and> list_holds l s' ds"
proof -
  obtain as0 where l: "l \<noteq> 0" "rep s l as0" "map fst (items s as0) = rev (d # ds)"
    using assms(1) by (auto simp: list_holds_def)
  then obtain as a where as: "as0 = as @ [a]" by (cases as0 rule: rev_cases) (auto simp: items_def)
  obtain e v where e: "run_state (linked_list_remove l True) s = ((e, v), s')" "r = (if e = LL_SUCCESS then v else None)"
    using assms(2) by (auto simp: list_get_def split: prod.splits)
  show ?thesis
    using remove_spec [OF l(2) [unfolded as] l(1) e(1)] l(1,3) as e(2)
    by (auto simp: list_holds_def items_def simp del: map_eq_conv intro!: exI [of _ as]) (metis map_map)+
qed

lemma list_get_empty:
  "list_holds l s [] \<Longrightarrow> list_get l s = (r, s') \<Longrightarrow> r = None \<and> list_holds l s' []"
  using remove_empty by (fastforce simp: list_holds_def list_get_def items_def)

interpretation ll_queue: fifo "list_holds l" list_put_ok "list_put l f" "list_get l" for l f
  by unfold_locales (auto dest: list_put_holds list_get_holds list_get_empty)

end
