(* ===== verification/Msg_Q.thy ===== *)
theory Msg_Q
  imports Linked_List
begin

text \<open>
  \<open>gps/utils/msg_q.c\<close>: the blocking message queue of the GPS HAL, a linked list under a mutex with a
  condition variable. \<open>msg_q_rcv\<close> is split where it waits: \<open>None\<close> means that the thread now waits
  in \<open>pthread_cond_wait\<close>, with the mutex released, and goes on with \<open>rcv_loop\<close> when it is woken.
\<close>

datatype mq_err = MQ_SUCCESS | MQ_FAILURE_GENERAL | MQ_INVALID_PARAMETER | MQ_INVALID_HANDLE
  | MQ_UNAVAILABLE_RESOURCE | MQ_INSUFFICIENT_BUFFER

record msg_q =
  msg_list :: nat
  unblocked :: bool

record mq_st = ll_st +
  mqs :: "nat \<Rightarrow> msg_q option"

fun convert_linked_list_err_type :: "ll_err \<Rightarrow> mq_err" where
  "convert_linked_list_err_type LL_SUCCESS = MQ_SUCCESS"
| "convert_linked_list_err_type LL_INVALID_PARAMETER = MQ_INVALID_PARAMETER"
| "convert_linked_list_err_type LL_INVALID_HANDLE = MQ_INVALID_HANDLE"
| "convert_linked_list_err_type LL_UNAVAILABLE_RESOURCE = MQ_UNAVAILABLE_RESOURCE"
| "convert_linked_list_err_type LL_INSUFFICIENT_BUFFER = MQ_INSUFFICIENT_BUFFER"
| "convert_linked_list_err_type LL_FAILURE_GENERAL = MQ_FAILURE_GENERAL"

definition get_mq :: "nat \<Rightarrow> ('a mq_st_scheme, msg_q) state" where
  "get_mq q = do {
     x \<leftarrow> gets (\<lambda>s. mqs s q);
     (case x of None \<Rightarrow> do { must False; ret \<lparr>msg_list = 0, unblocked = False\<rparr> } | Some x \<Rightarrow> ret x)
   }"

definition set_unblocked :: "nat \<Rightarrow> bool \<Rightarrow> ('a mq_st_scheme, unit) state" where
  "set_unblocked q b = modify (\<lambda>s. s\<lparr>mqs := (mqs s)(q := map_option (\<lambda>m. m\<lparr>unblocked := b\<rparr>) (mqs s q))\<rparr>)"

text \<open>The error, and the handle that is stored.\<close>

definition msg_q_init :: "bool \<Rightarrow> ('a mq_st_scheme, mq_err \<times> nat option) state" where
  "msg_q_init msg_q_data =
     (if \<not> msg_q_data then ret (MQ_INVALID_PARAMETER, None)
      else do {
        r \<leftarrow> call (E_malloc 16);
        let q = nat (rv r);
        if rv r = 0 then ret (MQ_FAILURE_GENERAL, None)
        else do {
          (err, l) \<leftarrow> linked_list_init True;
          (case l of
             None \<Rightarrow> do { emit (E_free q); ret (MQ_FAILURE_GENERAL, None) }
           | Some l \<Rightarrow> do {
               m \<leftarrow> call (E_thread M_init q);
               if rv m \<noteq> 0 then do {
                 _ \<leftarrow> linked_list_destroy True l;
                 emit (E_free q);
                 ret (MQ_FAILURE_GENERAL, None)
               } else do {
                 c \<leftarrow> call (E_thread C_init q);
                 if rv c \<noteq> 0 then do {
                   _ \<leftarrow> linked_list_destroy True l;
                   emit (E_thread M_destroy q);
                   emit (E_free q);
                   ret (MQ_FAILURE_GENERAL, None)
                 } else do {
                   modify (\<lambda>s. s\<lparr>mqs := (mqs s)(q := Some \<lparr>msg_list = l, unblocked = False\<rparr>)\<rparr>);
                   ret (MQ_SUCCESS, Some q)
                 }
               }
             })
        }
      })"

definition msg_q_init2 :: "('a mq_st_scheme, nat) state" where
  "msg_q_init2 = do {
     (err, q) \<leftarrow> msg_q_init True;
     ret (if err \<noteq> MQ_SUCCESS then 0 else case q of None \<Rightarrow> 0 | Some q \<Rightarrow> q)
   }"

definition msg_q_destroy :: "bool \<Rightarrow> nat \<Rightarrow> ('a mq_st_scheme, mq_err) state" where
  "msg_q_destroy msg_q_data q =
     (if \<not> msg_q_data then ret MQ_INVALID_HANDLE
      else do {
        m \<leftarrow> get_mq q;
        _ \<leftarrow> linked_list_destroy True (msg_list m);
        emit (E_thread M_destroy q);
        emit (E_thread C_destroy q);
        set_unblocked q False;
        emit (E_free q);
        modify (\<lambda>s. s\<lparr>mqs := (mqs s)(q := None)\<rparr>);
        ret MQ_SUCCESS
      })"

definition msg_q_snd :: "nat \<Rightarrow> nat \<Rightarrow> nat \<Rightarrow> ('a mq_st_scheme, mq_err) state" where
  "msg_q_snd q msg_obj dealloc =
     (if q = 0 then ret MQ_INVALID_HANDLE
      else if msg_obj = 0 then ret MQ_INVALID_PARAMETER
      else do {
        emit (E_lock L_msgq);
        m \<leftarrow> get_mq q;
        if unblocked m then do {
          emit (E_unlock L_msgq);
          ret MQ_UNAVAILABLE_RESOURCE
        } else do {
          err \<leftarrow> linked_list_add (msg_list m) msg_obj dealloc;
          emit (E_thread C_signal q);
          emit (E_unlock L_msgq);
          ret (convert_linked_list_err_type err)
        }
      })"

text \<open>The loop around the wait, and what follows it.\<close>

definition rcv_loop :: "nat \<Rightarrow> ('a mq_st_scheme, (mq_err \<times> nat option) option) state" where
  "rcv_loop q = do {
     m \<leftarrow> get_mq q;
     e \<leftarrow> linked_list_empty (msg_list m);
     if e \<noteq> 0 \<and> \<not> unblocked m then do { emit (E_thread C_wait q); ret None }
     else do {
       (err, d) \<leftarrow> linked_list_remove (msg_list m) True;
       emit (E_unlock L_msgq);
       ret (Some (convert_linked_list_err_type err, d))
     }
   }"

definition msg_q_rcv :: "nat \<Rightarrow> bool \<Rightarrow> ('a mq_st_scheme, (mq_err \<times> nat option) option) state" where
  "msg_q_rcv q msg_obj =
     (if q = 0 then ret (Some (MQ_INVALID_HANDLE, None))
      else if \<not> msg_obj then ret (Some (MQ_INVALID_PARAMETER, None))
      else do {
        emit (E_lock L_msgq);
        m \<leftarrow> get_mq q;
        if unblocked m then do {
          emit (E_unlock L_msgq);
          ret (Some (MQ_UNAVAILABLE_RESOURCE, None))
        } else rcv_loop q
      })"

definition msg_q_flush :: "nat \<Rightarrow> ('a mq_st_scheme, mq_err) state" where
  "msg_q_flush q =
     (if q = 0 then ret MQ_INVALID_HANDLE
      else do {
        emit (E_lock L_msgq);
        m \<leftarrow> get_mq q;
        err \<leftarrow> linked_list_flush (msg_list m);
        emit (E_unlock L_msgq);
        ret (convert_linked_list_err_type err)
      })"

definition msg_q_unblock :: "nat \<Rightarrow> ('a mq_st_scheme, mq_err) state" where
  "msg_q_unblock q =
     (if q = 0 then ret MQ_INVALID_HANDLE
      else do {
        emit (E_lock L_msgq);
        m \<leftarrow> get_mq q;
        if unblocked m then do {
          emit (E_unlock L_msgq);
          ret MQ_UNAVAILABLE_RESOURCE
        } else do {
          set_unblocked q True;
          emit (E_thread C_broadcast q);
          emit (E_unlock L_msgq);
          ret MQ_SUCCESS
        }
      })"

section \<open>The queue a state represents\<close>

text \<open>The messages in the queue, the oldest first.\<close>

definition queue :: "nat \<Rightarrow> 'a mq_st_scheme \<Rightarrow> (nat \<times> nat) list \<Rightarrow> bool" where
  "queue q s xs \<longleftrightarrow> q \<noteq> 0 \<and> (\<exists>m as. mqs s q = Some m \<and> \<not> unblocked m \<and> msg_list m \<noteq> 0 \<and>
     rep s (msg_list m) as \<and> items s as = rev xs)"

lemma rep_upd [simp]:
  "rep (s\<lparr>tr := t\<rparr>) l as = rep s l as" "items (s\<lparr>tr := t\<rparr>) as = items s as"
  "rep (s\<lparr>mqs := f\<rparr>) l as = rep s l as" "items (s\<lparr>mqs := f\<rparr>) as = items s as"
  by (simp_all add: rep_def items_def)

lemma keeps_more:
  assumes "\<And>v. keeps (\<lambda>s. ll_st.more s = v) m"
  shows "ll_st.more (snd (run_state m s)) = ll_st.more s"
  using keepsD [OF assms [of "ll_st.more s"], of s] by simp

lemma more_ll:
  "ll_st.more (snd (run_state (linked_list_add l d f) s)) = ll_st.more s"
  "ll_st.more (snd (run_state (linked_list_remove l b) s)) = ll_st.more s"
  "ll_st.more (snd (run_state (linked_list_empty l) s)) = ll_st.more s"
  by (rule keeps_more;
      auto simp: linked_list_add_def linked_list_remove_def linked_list_empty_def get_list_def upd_list_def
        get_elem_def upd_elem_def free_elem_def intro!: keeps_rules)+

lemma mqs_more: "ll_st.more s = ll_st.more s' \<Longrightarrow> mqs s = mqs s'"
  by (cases s; cases s') simp

lemma mqs_ll [simp]:
  "mqs (snd (run_state (linked_list_add l d f) s)) = mqs s"
  "mqs (snd (run_state (linked_list_remove l b) s)) = mqs s"
  by (rule mqs_more, rule more_ll)+

text \<open>The state in which \<open>msg_q_snd\<close> calls \<open>malloc\<close>: the lock is taken.\<close>

definition locked :: "'a mq_st_scheme \<Rightarrow> 'a mq_st_scheme" where
  "locked s = s\<lparr>tr := E_lock L_msgq # tr s\<rparr>"

theorem snd_spec:
  assumes q: "queue q s xs" and msg: "msg \<noteq> 0" and fresh: "fresh (locked s) 16"
    and run: "run_state (msg_q_snd q msg dealloc) s = (err, s')"
  shows "err = MQ_SUCCESS \<and> queue q s' (xs @ [(msg, dealloc)]) \<or> err = MQ_FAILURE_GENERAL \<and> queue q s' xs"
proof -
  obtain m as where m: "mqs s q = Some m" "\<not> unblocked m" "msg_list m \<noteq> 0" "rep s (msg_list m) as"
      "items s as = rev xs" "q \<noteq> 0"
    using q by (auto simp: queue_def)
  obtain e s1 where r: "run_state (linked_list_add (msg_list m) msg dealloc) (locked s) = (e, s1)"
    by fastforce
  have mq1: "mqs s1 = mqs s"
    using arg_cong [OF r, of "\<lambda>p. mqs (snd p)"] by (simp add: locked_def)
  have res: "err = convert_linked_list_err_type e" "s' = s1\<lparr>tr := E_unlock L_msgq # E_thread C_signal q # tr s1\<rparr>"
    using run r m msg by (auto simp: msg_q_snd_def get_mq_def locked_def)
  have "rep (locked s) (msg_list m) as" "items (locked s) as = rev xs"
    using m by (simp_all add: locked_def)
  from add_spec [OF this(1) m(3) msg fresh r] this(2) show ?thesis
    unfolding res queue_def using m mq1 by fastforce
qed

theorem rcv_spec:
  assumes q: "queue q s (x # xs)" and run: "run_state (msg_q_rcv q True) s = (r, s')"
  shows "r = Some (MQ_SUCCESS, Some (fst x))" "queue q s' xs"
proof -
  obtain m as0 where m: "mqs s q = Some m" "\<not> unblocked m" "msg_list m \<noteq> 0" "rep s (msg_list m) as0"
      "items s as0 = rev (x # xs)" "q \<noteq> 0"
    using q by (auto simp: queue_def)
  then obtain as a where as: "as0 = as @ [a]" by (cases as0 rule: rev_cases) (auto simp: items_def)
  with m have it: "item (ll_elems s) a = x" "items s as = rev xs"
    by (auto simp: items_def)
  obtain e d s1 where r: "run_state (linked_list_remove (msg_list m) True) (locked s) = ((e, d), s1)"
    by (metis surj_pair)
  have rp: "rep (locked s) (msg_list m) (as @ [a])"
    using m as by (simp add: locked_def)
  note sp = remove_spec [OF rp m(3) r]
  have mq1: "mqs s1 = mqs s"
    using arg_cong [OF r, of "\<lambda>p. mqs (snd p)"] by (simp add: locked_def)
  have emp: "run_state (linked_list_empty (msg_list m)) (locked s) = (0, locked s)"
    using empty_spec [OF rp m(3)] by simp
  have res: "r = Some (convert_linked_list_err_type e, d)" "s' = s1\<lparr>tr := E_unlock L_msgq # tr s1\<rparr>"
    using run r m emp by (auto simp: msg_q_rcv_def rcv_loop_def get_mq_def locked_def)
  show "r = Some (MQ_SUCCESS, Some (fst x))"
    using res sp it by (simp add: locked_def)
  show "queue q s' xs"
    unfolding queue_def res using m mq1 sp it by (auto simp: locked_def)
qed

theorem rcv_waits:
  assumes q: "queue q s []" and run: "run_state (msg_q_rcv q True) s = (r, s')"
  shows "r = None" "queue q s' []" "tr s' = E_thread C_wait q # E_lock L_msgq # tr s"
proof -
  obtain m where m: "mqs s q = Some m" "\<not> unblocked m" "msg_list m \<noteq> 0" "rep s (msg_list m) []" "q \<noteq> 0"
    using q by (auto simp: queue_def items_def)
  then have "run_state (linked_list_empty (msg_list m)) (locked s) = (1, locked s)"
    using empty_spec [of "locked s" "msg_list m" "[]"] by (simp add: locked_def)
  with m run show "r = None" "queue q s' []" "tr s' = E_thread C_wait q # E_lock L_msgq # tr s"
    by (auto simp: msg_q_rcv_def rcv_loop_def get_mq_def locked_def queue_def items_def)
qed

text \<open>After \<open>msg_q_unblock\<close> no message is taken in, and no receiver waits, also one that was waiting.\<close>

definition unblocked_q :: "nat \<Rightarrow> 'a mq_st_scheme \<Rightarrow> bool" where
  "unblocked_q q s \<longleftrightarrow> (\<exists>m. mqs s q = Some m \<and> unblocked m)"

theorem unblock_spec:
  assumes "queue q s xs" "run_state (msg_q_unblock q) s = (err, s')"
  shows "err = MQ_SUCCESS \<and> unblocked_q q s' \<and> E_thread C_broadcast q \<in> set (tr s')"
  using assms by (auto simp: msg_q_unblock_def queue_def get_mq_def set_unblocked_def unblocked_q_def)

theorem unblocked_refuses:
  assumes "unblocked_q q s" "q \<noteq> 0" "msg \<noteq> 0"
  shows "run_state (msg_q_snd q msg f) s = (MQ_UNAVAILABLE_RESOURCE, s\<lparr>tr := E_unlock L_msgq # E_lock L_msgq # tr s\<rparr>)"
    "run_state (msg_q_rcv q True) s = (Some (MQ_UNAVAILABLE_RESOURCE, None), s\<lparr>tr := E_unlock L_msgq # E_lock L_msgq # tr s\<rparr>)"
    "fst (run_state (rcv_loop q) s) \<noteq> None"
  using assms by (auto simp: msg_q_snd_def msg_q_rcv_def rcv_loop_def unblocked_q_def get_mq_def split_beta)

section \<open>The queue as one that can be closed\<close>

definition mq_holds :: "nat \<Rightarrow> 'a mq_st_scheme \<Rightarrow> nat list \<Rightarrow> bool" where
  "mq_holds q s ms \<longleftrightarrow> (\<exists>xs. queue q s xs \<and> map fst xs = ms)"

definition mq_put :: "nat \<Rightarrow> nat \<Rightarrow> nat \<Rightarrow> 'a mq_st_scheme \<Rightarrow> bool \<times> 'a mq_st_scheme" where
  "mq_put q f msg s = (case run_state (msg_q_snd q msg f) s of (e, s') \<Rightarrow> (e = MQ_SUCCESS, s'))"

text \<open>A receive that waits gives nothing out.\<close>

definition mq_get :: "nat \<Rightarrow> 'a mq_st_scheme \<Rightarrow> nat option \<times> 'a mq_st_scheme" where
  "mq_get q s = (case run_state (msg_q_rcv q True) s of (r, s') \<Rightarrow>
     (case r of None \<Rightarrow> None | Some (e, d) \<Rightarrow> if e = MQ_SUCCESS then d else None, s'))"

definition mq_put_ok :: "nat \<Rightarrow> 'a mq_st_scheme \<Rightarrow> bool" where
  "mq_put_ok msg s \<longleftrightarrow> msg \<noteq> 0 \<and> fresh (locked s) 16"

definition mq_shut :: "nat \<Rightarrow> 'a mq_st_scheme \<Rightarrow> 'a mq_st_scheme" where
  "mq_shut q s = snd (run_state (msg_q_unblock q) s)"

definition mq_closed :: "nat \<Rightarrow> 'a mq_st_scheme \<Rightarrow> bool" where
  "mq_closed q s \<longleftrightarrow> q \<noteq> 0 \<and> unblocked_q q s"

lemma mq_put_holds:
  assumes "mq_holds q s ms" "mq_put_ok msg s" "mq_put q f msg s = (b, s')"
  shows "mq_holds q s' (if b then ms @ [msg] else ms)"
proof -
  obtain xs where q: "queue q s xs" "map fst xs = ms" using assms(1) by (auto simp: mq_holds_def)
  obtain e where e: "run_state (msg_q_snd q msg f) s = (e, s')" "b = (e = MQ_SUCCESS)"
    using assms(3) by (auto simp: mq_put_def split: prod.splits)
  from snd_spec [OF q(1) _ _ e(1)] assms(2)
  have "e = MQ_SUCCESS \<and> queue q s' (xs @ [(msg, f)]) \<or> e = MQ_FAILURE_GENERAL \<and> queue q s' xs"
    by (simp add: mq_put_ok_def)
  then show ?thesis
    using q(2) e(2) by (auto simp: mq_holds_def intro: exI [of _ "xs @ [(msg, f)]"])
qed

lemma mq_get_holds:
  assumes "mq_holds q s (m # ms)" "mq_get q s = (r, s')"
  shows "r = Some m \<and> mq_holds q s' ms"
proof -
  obtain x xs where q: "queue q s (x # xs)" "fst x = m" "map fst xs = ms"
    using assms(1) by (auto simp: mq_holds_def)
  obtain v where v: "run_state (msg_q_rcv q True) s = (v, s')"
      "r = (case v of None \<Rightarrow> None | Some (e, d) \<Rightarrow> if e = MQ_SUCCESS then d else None)"
    using assms(2) by (auto simp: mq_get_def split: prod.splits)
  show ?thesis
    using rcv_spec [OF q(1) v(1)] v(2) q by (auto simp: mq_holds_def)
qed

lemma mq_get_empty:
  assumes "mq_holds q s []" "mq_get q s = (r, s')"
  shows "r = None \<and> mq_holds q s' []"
proof -
  have q: "queue q s []" using assms(1) by (simp add: mq_holds_def)
  obtain v where v: "run_state (msg_q_rcv q True) s = (v, s')"
      "r = (case v of None \<Rightarrow> None | Some (e, d) \<Rightarrow> if e = MQ_SUCCESS then d else None)"
    using assms(2) by (auto simp: mq_get_def split: prod.splits)
  show ?thesis
    using rcv_waits [OF q v(1)] v(2) by (auto simp: mq_holds_def)
qed

interpretation mq_queue: closable_fifo "mq_holds q" mq_put_ok "mq_put q f" "mq_get q" "mq_shut q" "mq_closed q" for q f
proof unfold_locales
  fix s :: "'a mq_st_scheme" and xs
  assume "mq_holds q s xs"
  then obtain ys where ys: "queue q s ys" by (auto simp: mq_holds_def)
  obtain e s' where "run_state (msg_q_unblock q) s = (e, s')" by fastforce
  with unblock_spec [OF ys this] ys show "mq_closed q (mq_shut q s)"
    by (simp add: mq_shut_def mq_closed_def queue_def)
next
  fix s s' :: "'a mq_st_scheme" and x b
  assume "mq_closed q s" "mq_put_ok x s" "mq_put q f x s = (b, s')"
  then show "\<not> b \<and> mq_closed q s'"
    using unblocked_refuses(1) [of q s x f] by (auto simp: mq_put_def mq_closed_def mq_put_ok_def unblocked_q_def)
next
  fix s s' :: "'a mq_st_scheme" and r
  assume "mq_closed q s" "mq_get q s = (r, s')"
  then show "r = None \<and> mq_closed q s'"
    using unblocked_refuses(2) [of q s 1] by (auto simp: mq_get_def mq_closed_def unblocked_q_def)
qed (rule mq_put_holds mq_get_holds mq_get_empty; assumption)+

end
