(* ===== verification/Loc_Timer.thy ===== *)
theory Loc_Timer
  imports Linked_List C_Strings
begin

text \<open>
  \<open>gps/utils/loc_timer.c\<close>: a one-shot timer, a detached thread that waits on a condition variable until a
  deadline and calls back if nobody stopped it. A handle is a number, 0 is \<open>NULL\<close>; \<open>tms\<close> are the
  allocated \<open>timer_data\<close>.
\<close>

datatype timer_state = READY | WAITING | DONE | ABORT

record timer_data =
  callback_func :: nat
  user_data :: nat
  time_msec :: int
  t_state :: timer_state

record tm_st = ll_st +
  tms :: "nat \<Rightarrow> timer_data option"

definition get_timer :: "nat \<Rightarrow> ('a tm_st_scheme, timer_data) state" where
  "get_timer t = do {
     x \<leftarrow> gets (\<lambda>s. tms s t);
     (case x of
        None \<Rightarrow> do { must False; ret \<lparr>callback_func = 0, user_data = 0, time_msec = 0, t_state = DONE\<rparr> }
      | Some x \<Rightarrow> ret x)
   }"

definition upd_timer :: "nat \<Rightarrow> (timer_data \<Rightarrow> timer_data) \<Rightarrow> ('a tm_st_scheme, unit) state" where
  "upd_timer t f = modify (\<lambda>s. s\<lparr>tms := (tms s)(t := map_option f (tms s t))\<rparr>)"

text \<open>
  The deadline: \<open>tv_sec\<close> and \<open>tv_nsec\<close> (\<open>long\<close>, 32 bits) after \<open>ms\<close> (unsigned) milliseconds, and what is left in
  \<open>time_msec\<close>.
\<close>

definition deadline :: "int \<Rightarrow> int \<Rightarrow> int \<Rightarrow> int \<times> int \<times> int" where
  "deadline sec nsec ms =
     (let (sec, ms) = (if 1000 \<le> ms then (swrap 32 (sec + ms div 1000), ms mod 1000) else (sec, ms));
          nsec = (if ms \<noteq> 0 then swrap 32 (nsec + uwrap 32 (ms * 1000000)) else nsec);
          (sec, nsec) = (if 999999999 < nsec then (swrap 32 (sec + 1), nsec - 1000000000) else (sec, nsec))
      in (sec, nsec, ms))"

text \<open>
  The loop that destroys the mutex: \<open>n\<close> is \<open>6 - i\<close>. It waits a second after each of the first five failures and
  unlocks the mutex after the sixth.
\<close>

primrec destroy_retry :: "nat \<Rightarrow> nat \<Rightarrow> ('a world_scheme, unit) state" where
  "destroy_retry t 0 = do { _ \<leftarrow> call (E_thread M_destroy t); ret () }"
| "destroy_retry t (Suc n) = do {
     r \<leftarrow> call (E_thread M_destroy t);
     if rv r = EBUSY then do {
       (if 0 < n then emit (E_time (T_sleep 1)) else emit (E_unlock L_timer));
       destroy_retry t n
     } else ret ()
   }"

definition timer_wait :: "nat \<Rightarrow> int \<Rightarrow> int \<Rightarrow> ('a tm_st_scheme, int) state" where
  "timer_wait t sec nsec = do {
     emit (E_lock L_timer);
     x \<leftarrow> get_timer t;
     v \<leftarrow> (if t_state x = READY then do {
        upd_timer t (\<lambda>x. x\<lparr>t_state := WAITING\<rparr>);
        r \<leftarrow> call (E_thread (C_timedwait sec nsec) t);
        upd_timer t (\<lambda>x. x\<lparr>t_state := DONE\<rparr>);
        ret (rv r)
      } else ret (- ETIMEDOUT));
     emit (E_unlock L_timer);
     ret v
   }"

definition timer_thread :: "nat \<Rightarrow> ('a tm_st_scheme, unit) state" where
  "timer_thread t = do {
     emit (E_time T_gettimeofday);
     c \<leftarrow> call (E_time T_clock_gettime);
     x \<leftarrow> get_timer t;
     let (sec, nsec, ms) = deadline (num c 0) (num c 1) (time_msec x);
     upd_timer t (\<lambda>x. x\<lparr>time_msec := ms\<rparr>);
     v \<leftarrow> timer_wait t sec nsec;
     (if v = ETIMEDOUT then do {
        x \<leftarrow> get_timer t;
        emit (E_hook ''timer_callback'' [int (callback_func x), int (user_data x), v])
      } else ret ());
     destroy_retry t 6;
     emit (E_thread C_destroy t);
     emit (E_free t);
     modify (\<lambda>s. s\<lparr>tms := (tms s)(t := None)\<rparr>)
   }"

text \<open>The cleanup ladder: from which label on the resources are given back.\<close>

definition timer_cleanup :: "nat \<Rightarrow> nat \<Rightarrow> ('a tm_st_scheme, unit) state" where
  "timer_cleanup n t = do {
     (if 3 \<le> n then emit (E_thread A_destroy t) else ret ());
     (if 2 \<le> n then emit (E_thread M_destroy t) else ret ());
     (if 1 \<le> n then emit (E_thread C_destroy t) else ret ());
     emit (E_free t);
     modify (\<lambda>s. s\<lparr>tms := (tms s)(t := None)\<rparr>)
   }"

definition loc_timer_start :: "int \<Rightarrow> nat \<Rightarrow> nat \<Rightarrow> ('a tm_st_scheme, nat) state" where
  "loc_timer_start msec cb_func caller_data =
     (if cb_func = 0 \<or> msec = 0 then ret 0
      else do {
        r \<leftarrow> call (E_malloc 32);
        if rv r = 0 then ret 0
        else do {
          let t = nat (rv r);
          modify (\<lambda>s. s\<lparr>tms := (tms s)(t := Some \<lparr>callback_func = 0, user_data = 0, time_msec = 0, t_state = DONE\<rparr>)\<rparr>);
          c \<leftarrow> call (E_thread C_init t);
          if rv c \<noteq> 0 then do { timer_cleanup 0 t; ret t }
          else do {
            m \<leftarrow> call (E_thread M_init t);
            if rv m \<noteq> 0 then do { timer_cleanup 1 t; ret t }
            else do {
              upd_timer t (\<lambda>_. \<lparr>callback_func = cb_func, user_data = caller_data, time_msec = msec, t_state = READY\<rparr>);
              a \<leftarrow> call (E_thread A_init t);
              if rv a \<noteq> 0 then do { timer_cleanup 2 t; ret t }
              else do {
                th \<leftarrow> call (E_thread Th_create t);
                (if rv th \<noteq> 0 then timer_cleanup 3 t else ret ());
                ret t
              }
            }
          }
        }
      })"

definition loc_timer_stop :: "nat \<Rightarrow> ('a tm_st_scheme, unit) state" where
  "loc_timer_stop t =
     (if t = 0 then ret ()
      else do {
        x \<leftarrow> get_timer t;
        if t_state x = READY \<or> t_state x = WAITING then do {
          l \<leftarrow> call (E_lock L_timer);
          if rv l = 0 then do {
            x \<leftarrow> get_timer t;
            (if t_state x = READY \<or> t_state x = WAITING then do {
               emit (E_thread C_signal t);
               upd_timer t (\<lambda>x. x\<lparr>t_state := ABORT\<rparr>)
             } else ret ());
            emit (E_unlock L_timer)
          } else ret ()
        } else ret ()
      })"

section \<open>The thread\<close>

text \<open>\<open>sleeps es\<close>: the seconds slept in the calls \<open>es\<close>.\<close>

fun sleeps :: "event list \<Rightarrow> int" where
  "sleeps [] = 0"
| "sleeps (E_time (T_sleep n) # es) = n + sleeps es"
| "sleeps (_ # es) = sleeps es"

lemma destroy_retry_spec:
  assumes "run_state (destroy_retry t n) s = ((), s')"
  shows "\<exists>es. tr s' = es @ tr s \<and> sleeps es \<le> int n \<and> set es \<subseteq> {E_thread M_destroy t, E_time (T_sleep 1), E_unlock L_timer}"
  using assms
proof (induction n arbitrary: s)
  case 0
  then show ?case by (auto intro: exI [of _ "[E_thread M_destroy t]"])
next
  case (Suc n)
  let ?r = "env s (tr s) (E_thread M_destroy t)"
  show ?case
  proof (cases "rv ?r = EBUSY")
    case False
    with Suc.prems show ?thesis by (auto intro: exI [of _ "[E_thread M_destroy t]"])
  next
    case True
    let ?e = "if 0 < n then E_time (T_sleep 1) else E_unlock L_timer"
    have "run_state (destroy_retry t n) (s\<lparr>tr := ?e # E_thread M_destroy t # tr s\<rparr>) = ((), s')"
      using Suc.prems True by (auto split: if_splits)
    from Suc.IH [OF this] obtain es where es: "tr s' = es @ ?e # E_thread M_destroy t # tr s" "sleeps es \<le> int n"
        "set es \<subseteq> {E_thread M_destroy t, E_time (T_sleep 1), E_unlock L_timer}" by auto
    have app: "sleeps (xs @ ys) = sleeps xs + sleeps ys" for xs ys
      by (induction xs rule: sleeps.induct) auto
    show ?thesis
      using es by (intro exI [of _ "es @ [?e, E_thread M_destroy t]"]) (auto simp: app)
  qed
qed

text \<open>The callbacks made in the calls \<open>es\<close>.\<close>

definition callbacks :: "event list \<Rightarrow> event list" where
  "callbacks es = [e \<leftarrow> es. case e of E_hook f ns \<Rightarrow> f = ''timer_callback'' | _ \<Rightarrow> False]"

lemma callbacks_append [simp]: "callbacks (es @ es') = callbacks es @ callbacks es'"
  by (simp add: callbacks_def)

lemma destroy_retry_callbacks:
  "run_state (destroy_retry t n) s = ((), s') \<Longrightarrow> callbacks (tr s') = callbacks (tr s) \<and> tms s' = tms s \<and> ub s' = ub s"
  by (induction n arbitrary: s) (auto simp: callbacks_def split: if_splits)

lemma timer_thread_run:
  assumes "tms s t = Some x" "deadline (num c 0) (num c (Suc 0)) (time_msec x) = (sec, nsec, ms)"
    and c: "c = env s (E_time T_gettimeofday # tr s) (E_time T_clock_gettime)"
    and w: "run_state (timer_wait t sec nsec) (s\<lparr>tr := E_time T_clock_gettime # E_time T_gettimeofday # tr s,
        tms := (tms s)(t := Some (x\<lparr>time_msec := ms\<rparr>))\<rparr>) = (w, s1)" and "tms s1 t = Some y"
    and s2: "s2 = (if w = ETIMEDOUT then s1\<lparr>tr := E_hook ''timer_callback'' [int (callback_func y), int (user_data y), w] # tr s1\<rparr> else s1)"
    and 3: "run_state (destroy_retry t 6) s2 = ((), s3)"
  shows "run_state (timer_thread t) s = ((), s3\<lparr>tr := E_free t # E_thread C_destroy t # tr s3, tms := (tms s3)(t := None)\<rparr>)"
proof (cases "w = ETIMEDOUT")
  case True
  with 3 have "run_state (destroy_retry t 6) (s1\<lparr>tr := E_hook ''timer_callback'' [int (callback_func y), int (user_data y), 110] # tr s1\<rparr>) = ((), s3)"
    by (simp add: s2)
  with True w assms(1,2,5) show ?thesis
    by (simp add: timer_thread_def get_timer_def upd_timer_def c)
next
  case False
  with 3 w assms(1,2,5) show ?thesis
    by (simp add: timer_thread_def get_timer_def upd_timer_def c s2)
qed

text \<open>
  The thread of a timer that nobody stops before it runs waits for the deadline and calls back, once, exactly if
  the wait timed out; then the timer is freed.
\<close>

lemma timer_thread_fires:
  assumes x: "tms s t = Some x" "t_state x = READY"
    and run: "run_state (timer_thread t) s = ((), s')"
    and c: "c = env s (E_time T_gettimeofday # tr s) (E_time T_clock_gettime)"
    and d: "deadline (num c 0) (num c (Suc 0)) (time_msec x) = (sec, nsec, ms)"
    and w: "w = rv (env s (E_lock L_timer # E_time T_clock_gettime # E_time T_gettimeofday # tr s) (E_thread (C_timedwait sec nsec) t))"
  shows "callbacks (tr s') = (if w = ETIMEDOUT
      then [E_hook ''timer_callback'' [int (callback_func x), int (user_data x), ETIMEDOUT]] else []) @ callbacks (tr s)"
    "tms s' t = None" "ub s \<longleftrightarrow> ub s'"
proof -
  define s0 where "s0 = s\<lparr>tr := E_time T_clock_gettime # E_time T_gettimeofday # tr s, tms := (tms s)(t := Some (x\<lparr>time_msec := ms\<rparr>))\<rparr>"
  obtain s1 where 1: "run_state (timer_wait t sec nsec) s0 = (w, s1)"
    and s1: "tms s1 t = Some (x\<lparr>time_msec := ms, t_state := DONE\<rparr>)" "callbacks (tr s1) = callbacks (tr s)" "ub s1 = ub s"
    using x by (simp add: timer_wait_def get_timer_def upd_timer_def w s0_def callbacks_def)
  define s2 where "s2 = (if w = ETIMEDOUT
      then s1\<lparr>tr := E_hook ''timer_callback'' [int (callback_func x), int (user_data x), w] # tr s1\<rparr> else s1)"
  obtain s3 where 3: "run_state (destroy_retry t 6) s2 = ((), s3)"
    by (metis old.unit.exhaust surj_pair)
  have "run_state (timer_thread t) s = ((), s3\<lparr>tr := E_free t # E_thread C_destroy t # tr s3, tms := (tms s3)(t := None)\<rparr>)"
    by (rule timer_thread_run [OF x(1) d c 1 [unfolded s0_def] s1(1) _ 3]) (simp add: s2_def)
  with run have s': "s' = s3\<lparr>tr := E_free t # E_thread C_destroy t # tr s3, tms := (tms s3)(t := None)\<rparr>"
    by simp
  then show "tms s' t = None" "ub s \<longleftrightarrow> ub s'"
    using destroy_retry_callbacks [OF 3] s1 by (auto simp: s2_def)
  show "callbacks (tr s') = (if w = ETIMEDOUT
      then [E_hook ''timer_callback'' [int (callback_func x), int (user_data x), ETIMEDOUT]] else []) @ callbacks (tr s)"
    using s' destroy_retry_callbacks [OF 3] s1 by (auto simp: callbacks_def s2_def)
qed

text \<open>A timer that is stopped before its thread runs never calls back.\<close>

lemma timer_thread_stopped:
  assumes x: "tms s t = Some x" "t_state x \<noteq> READY" and run: "run_state (timer_thread t) s = ((), s')"
  shows "callbacks (tr s') = callbacks (tr s) \<and> tms s' t = None"
proof -
  let ?c = "env s (E_time T_gettimeofday # tr s) (E_time T_clock_gettime)"
  obtain sec nsec ms where d: "deadline (num ?c 0) (num ?c (Suc 0)) (time_msec x) = (sec, nsec, ms)"
    by (metis prod_cases3)
  define s0 where "s0 = s\<lparr>tr := E_time T_clock_gettime # E_time T_gettimeofday # tr s, tms := (tms s)(t := Some (x\<lparr>time_msec := ms\<rparr>))\<rparr>"
  obtain s1 where 1: "run_state (timer_wait t sec nsec) s0 = (- ETIMEDOUT, s1)"
    and s1: "tms s1 t = Some (x\<lparr>time_msec := ms\<rparr>)" "callbacks (tr s1) = callbacks (tr s)"
    using x by (simp add: timer_wait_def get_timer_def s0_def callbacks_def)
  obtain s3 where 3: "run_state (destroy_retry t 6) s1 = ((), s3)"
    by (metis old.unit.exhaust surj_pair)
  have "run_state (timer_thread t) s = ((), s3\<lparr>tr := E_free t # E_thread C_destroy t # tr s3, tms := (tms s3)(t := None)\<rparr>)"
    by (rule timer_thread_run [OF x(1) d refl 1 [unfolded s0_def] s1(1) _ 3]) simp
  with run show ?thesis
    using destroy_retry_callbacks [OF 3] s1 by (auto simp: callbacks_def)
qed

end
