(* ===== verification/Dmn_Conn.thy ===== *)
theory Dmn_Conn
  imports Loc_Timer
begin

text \<open>
  \<open>gps/loc_api/libloc_api_50001\<close>: the helper that launches a thread and waits until it is ready
  (\<open>loc_eng_dmn_conn_thread_helper.c\<close>), the pipes and the messages with a length prefix on them
  (\<open>loc_eng_dmn_conn_glue_pipe.c\<close>, \<open>loc_eng_dmn_conn_glue_msg.c\<close>), and the HAL entry (\<open>gps.c\<close>).
\<close>

section \<open>The thread helper\<close>

text \<open>The procedures are numbers, 0 is \<open>NULL\<close>; calling one is an event with the context.\<close>

record thelper =
  th_exit :: int
  th_ready :: int
  th_context :: nat
  proc_init :: nat
  proc_pre :: nat
  proc_main :: nat
  proc_post :: nat

record th_st = tm_st +
  th :: thelper

definition upd_th :: "(thelper \<Rightarrow> thelper) \<Rightarrow> ('a th_st_scheme, unit) state" where
  "upd_th f = modify (\<lambda>s. s\<lparr>th := f (th s)\<rparr>)"

abbreviation "L_th \<equiv> L_msgq"
abbreviation "th_cond \<equiv> 500"

definition thelper_signal_init :: "('a th_st_scheme, int) state" where
  "thelper_signal_init = do {
     upd_th (\<lambda>x. x\<lparr>th_exit := 0, th_ready := 0\<rparr>);
     r \<leftarrow> call (E_thread C_init th_cond);
     if rv r \<noteq> 0 then ret (rv r)
     else do {
       m \<leftarrow> call (E_thread M_init th_cond);
       (if rv m \<noteq> 0 then emit (E_thread C_destroy th_cond) else ret ());
       ret (rv m)
     }
   }"

definition thelper_signal_destroy :: "('a th_st_scheme, int) state" where
  "thelper_signal_destroy = do {
     c \<leftarrow> call (E_thread C_destroy th_cond);
     m \<leftarrow> call (E_thread M_destroy th_cond);
     ret (if rv m \<noteq> 0 then rv m else if rv c \<noteq> 0 then rv c else 0)
   }"

text \<open>\<open>other\<close> is what the other threads do while this one waits, with the mutex released.\<close>

definition thelper_signal_wait :: "('a th_st_scheme, unit) state \<Rightarrow> ('a th_st_scheme, int) state" where
  "thelper_signal_wait other = do {
     emit (E_lock L_th);
     x \<leftarrow> gets th;
     result \<leftarrow> (if th_ready x = 0 \<and> th_exit x = 0 then do {
        r \<leftarrow> call (E_thread C_wait th_cond);
        other;
        ret (rv r)
      } else ret 0);
     x \<leftarrow> gets th;
     emit (E_unlock L_th);
     ret (if th_exit x \<noteq> 0 then - 1 else result)
   }"

definition thelper_signal_ready :: "('a th_st_scheme, int) state" where
  "thelper_signal_ready = do {
     emit (E_lock L_th);
     upd_th (\<lambda>x. x\<lparr>th_ready := 1\<rparr>);
     r \<leftarrow> call (E_thread C_signal th_cond);
     emit (E_unlock L_th);
     ret (rv r)
   }"

definition thelper_signal_block :: "('a th_st_scheme, int) state" where
  "thelper_signal_block = do {
     result \<leftarrow> gets (\<lambda>s. th_ready (th s));
     emit (E_lock L_th);
     upd_th (\<lambda>x. x\<lparr>th_ready := 0\<rparr>);
     emit (E_unlock L_th);
     ret result
   }"

text \<open>
  A call of one of the procedures. While it runs, another thread may call \<open>loc_eng_dmn_conn_unblock_thelper\<close>:
  the first number of the reply is not 0 if one did.
\<close>

definition run_proc :: "nat \<Rightarrow> ('a th_st_scheme, int) state" where
  "run_proc f = do {
     ctx \<leftarrow> gets (\<lambda>s. th_context (th s));
     r \<leftarrow> call (E_hook ''thread_proc'' [int f, int ctx]);
     (if num r 0 \<noteq> 0 then upd_th (\<lambda>x. x\<lparr>th_exit := 1\<rparr>) else ret ());
     ret (rv r)
   }"

text \<open>One turn of the loop of \<open>thelper_main\<close>.\<close>

definition thelper_turn :: "int \<Rightarrow> ('a th_st_scheme, int) state" where
  "thelper_turn result = do {
     f \<leftarrow> gets (\<lambda>s. proc_main (th s));
     if f \<noteq> 0 then do {
       result \<leftarrow> run_proc f;
       (if result < 0 then upd_th (\<lambda>x. x\<lparr>th_exit := 1\<rparr>) else ret ());
       ret result
     } else ret result
   }"

text \<open>The loop; \<open>None\<close> if it never ends.\<close>

partial_function (option) thelper_loop :: "int \<Rightarrow> 'a th_st_scheme \<Rightarrow> (int \<times> 'a th_st_scheme) option" where
  "thelper_loop result s =
     (let x = run_state (thelper_turn result) s in
      if th_exit (th (snd x)) = 0 then thelper_loop (fst x) (snd x) else Some x)"

definition thelper_main :: "('a th_st_scheme, unit) state" where
  "thelper_main = do {
     x \<leftarrow> gets th;
     r0 \<leftarrow> (if proc_init x \<noteq> 0 then run_proc (proc_init x) else ret 0);
     if proc_init x \<noteq> 0 \<and> r0 < 0 then do {
       upd_th (\<lambda>x. x\<lparr>th_exit := 1\<rparr>);
       _ \<leftarrow> thelper_signal_ready;
       ret ()
     } else do {
       _ \<leftarrow> thelper_signal_ready;
       x \<leftarrow> gets th;
       r1 \<leftarrow> (if proc_pre x \<noteq> 0 then run_proc (proc_pre x) else ret r0);
       if proc_pre x \<noteq> 0 \<and> r1 < 0 then upd_th (\<lambda>x. x\<lparr>th_exit := 1\<rparr>)
       else do {
         s \<leftarrow> gets id;
         (case thelper_loop r1 s of
            None \<Rightarrow> must False
          | Some (_, s') \<Rightarrow> modify (\<lambda>_. s'));
         x \<leftarrow> gets th;
         (if proc_post x \<noteq> 0 then do { _ \<leftarrow> run_proc (proc_post x); ret () } else ret ())
       }
     }
   }"

text \<open>
  \<open>early\<close> is what the other threads, the new one among them, do before the launching thread takes the mutex,
  \<open>other\<close> what they do while it waits. \<open>create_thread_cb\<close> is 0 for \<open>NULL\<close>.
\<close>

definition loc_eng_dmn_conn_launch_thelper ::
  "nat \<Rightarrow> nat \<Rightarrow> nat \<Rightarrow> nat \<Rightarrow> nat \<Rightarrow> nat \<Rightarrow> ('a th_st_scheme, unit) state \<Rightarrow> ('a th_st_scheme, unit) state \<Rightarrow>
   ('a th_st_scheme, int) state" where
  "loc_eng_dmn_conn_launch_thelper f_init f_pre f_proc f_post create_thread_cb context early other = do {
     _ \<leftarrow> thelper_signal_init;
     (if context \<noteq> 0 then upd_th (\<lambda>x. x\<lparr>th_context := context\<rparr>) else ret ());
     upd_th (\<lambda>x. x\<lparr>proc_init := f_init, proc_pre := f_pre, proc_main := f_proc, proc_post := f_post\<rparr>);
     result \<leftarrow> (if create_thread_cb \<noteq> 0 then do {
         emit (E_hook ''create_thread_cb'' [int create_thread_cb]);
         ret 0
       } else do {
         r \<leftarrow> call (E_thread Th_create th_cond);
         ret (rv r)
       });
     if result \<noteq> 0 then ret (- 1)
     else do {
       early;
       _ \<leftarrow> thelper_signal_wait other;
       gets (\<lambda>s. th_exit (th s))
     }
   }"

definition loc_eng_dmn_conn_unblock_thelper :: "('a th_st_scheme, int) state" where
  "loc_eng_dmn_conn_unblock_thelper = do { upd_th (\<lambda>x. x\<lparr>th_exit := 1\<rparr>); ret 0 }"

definition loc_eng_dmn_conn_join_thelper :: "('a th_st_scheme, int) state" where
  "loc_eng_dmn_conn_join_thelper = do {
     r \<leftarrow> call (E_thread Th_join th_cond);
     _ \<leftarrow> thelper_signal_destroy;
     ret (rv r)
   }"

section \<open>Pipes\<close>

definition loc_eng_dmn_conn_glue_pipeget :: "string \<Rightarrow> oflag list \<Rightarrow> ('a world_scheme, int) state" where
  "loc_eng_dmn_conn_glue_pipeget pipe_name mode = do {
     r \<leftarrow> call (E_mkfifo pipe_name);
     if rv r = - 1 \<and> rerr r \<noteq> EEXIST then ret (rv r)
     else do {
       emit (E_chmod pipe_name 432);
       f \<leftarrow> call (E_open pipe_name mode);
       ret (rv f)
     }
   }"

text \<open>\<open>pipe_name\<close> is \<open>None\<close> for \<open>NULL\<close>.\<close>

definition loc_eng_dmn_conn_glue_piperemove :: "string option \<Rightarrow> int \<Rightarrow> ('a world_scheme, int) state" where
  "loc_eng_dmn_conn_glue_piperemove pipe_name fd = do {
     emit (E_close fd);
     (case pipe_name of None \<Rightarrow> ret () | Some p \<Rightarrow> emit (E_unlink p));
     ret 0
   }"

definition loc_eng_dmn_conn_glue_pipewrite :: "int \<Rightarrow> string \<Rightarrow> ('a world_scheme, int) state" where
  "loc_eng_dmn_conn_glue_pipewrite fd buf = do { r \<leftarrow> call (E_write fd buf); ret (rv r) }"

text \<open>The result and the bytes put into the buffer, whose room is \<open>room\<close> bytes.\<close>

definition loc_eng_dmn_conn_glue_piperead :: "int \<Rightarrow> nat \<Rightarrow> nat \<Rightarrow> ('a world_scheme, int \<times> string) state" where
  "loc_eng_dmn_conn_glue_piperead fd n room = do {
     r \<leftarrow> call (E_read fd n);
     must (rv r \<le> int room);
     ret (rv r, take (nat (rv r)) (rbuf r @ replicate (nat (rv r)) (CHR 0x00)))
   }"

definition loc_eng_dmn_conn_glue_pipeunblock :: "int \<Rightarrow> ('a world_scheme, int) state" where
  "loc_eng_dmn_conn_glue_pipeunblock fd = do { r \<leftarrow> call (E_fd (F_unlock 32) fd); ret (rv r) }"

section \<open>Messages\<close>

text \<open>A message starts with its length, a \<open>size_t\<close> of four bytes (\<open>struct ctrl_msgbuf\<close>).\<close>

definition loc_eng_dmn_conn_glue_msgget :: "string \<Rightarrow> oflag list \<Rightarrow> ('a world_scheme, int) state" where
  "loc_eng_dmn_conn_glue_msgget q_path mode = loc_eng_dmn_conn_glue_pipeget q_path mode"

definition loc_eng_dmn_conn_glue_msgremove :: "string option \<Rightarrow> int \<Rightarrow> ('a world_scheme, int) state" where
  "loc_eng_dmn_conn_glue_msgremove q_path msgqid = loc_eng_dmn_conn_glue_piperemove q_path msgqid"

definition loc_eng_dmn_conn_glue_msgsnd :: "int \<Rightarrow> string \<Rightarrow> int \<Rightarrow> ('a world_scheme, int) state" where
  "loc_eng_dmn_conn_glue_msgsnd msgqid msgp msgsz = do {
     must (4 \<le> length msgp \<and> nat msgsz \<le> length msgp);
     let msgp = le32 msgsz @ drop 4 msgp;
     result \<leftarrow> loc_eng_dmn_conn_glue_pipewrite msgqid (take (nat msgsz) msgp);
     ret (if result \<noteq> swrap 32 msgsz then - 1 else result)
   }"

text \<open>
  The result and the bytes of the message. The length that is read is unsigned, the one of the second
  read is the difference to 4 as an unsigned number.
\<close>

definition loc_eng_dmn_conn_glue_msgrcv :: "int \<Rightarrow> int \<Rightarrow> ('a world_scheme, int \<times> string) state" where
  "loc_eng_dmn_conn_glue_msgrcv msgqid msgbufsz = do {
     (result, hdr) \<leftarrow> loc_eng_dmn_conn_glue_piperead msgqid 4 (nat msgbufsz);
     if result \<noteq> 4 then ret (- 1, hdr)
     else do {
       let msgsz = ule32_at hdr 0;
       if msgbufsz < msgsz then ret (- 1, hdr)
       else do {
         (result, body) \<leftarrow> loc_eng_dmn_conn_glue_piperead msgqid (nat (uwrap 32 (msgsz - 4))) (nat (msgbufsz - 4));
         ret (if result \<noteq> swrap 32 (msgsz - 4) then - 1 else swrap 32 msgsz, hdr @ body)
       }
     }
   }"

definition loc_eng_dmn_conn_glue_msgunblock :: "int \<Rightarrow> ('a world_scheme, int) state" where
  "loc_eng_dmn_conn_glue_msgunblock msgqid = loc_eng_dmn_conn_glue_pipeunblock msgqid"

text \<open>The loop of \<open>msgflush\<close>, from the trace of the calls made so far; it only ends with the result 0.\<close>

partial_function (option) flush_reads :: "(event list \<Rightarrow> event \<Rightarrow> reply) \<Rightarrow> int \<Rightarrow> event list \<Rightarrow> event list option" where
  "flush_reads e fd t =
     (if rv (e t (E_read fd 128)) = 0 then Some (E_read fd 128 # t)
      else flush_reads e fd (E_read fd 128 # t))"

definition loc_eng_dmn_conn_glue_msgflush :: "int \<Rightarrow> ('a world_scheme, int) state" where
  "loc_eng_dmn_conn_glue_msgflush msgqid = do {
     s \<leftarrow> gets id;
     (case flush_reads (env s) msgqid (tr s) of
        None \<Rightarrow> must False
      | Some t \<Rightarrow> modify (\<lambda>s. s\<lparr>tr := t\<rparr>));
     ret 0
   }"

section \<open>The HAL entry\<close>

text \<open>\<open>open_gps\<close>: the result and the device, its tag, version, module and whether it has the
  interface getter. The size of \<open>struct gps_device_t\<close> and the tag are those of the Android headers.\<close>

record gps_device =
  dev_tag :: int
  dev_version :: int
  dev_module :: nat
  dev_has_interface :: bool

definition open_gps :: "nat \<Rightarrow> int \<Rightarrow> nat \<Rightarrow> ('a world_scheme, int \<times> gps_device option) state" where
  "open_gps sizeof_gps_device hardware_device_tag hw_module = do {
     r \<leftarrow> call (E_malloc sizeof_gps_device);
     ret (if rv r = 0 then (- 1, None)
       else (0, Some \<lparr>dev_tag = hardware_device_tag, dev_version = 0, dev_module = hw_module, dev_has_interface = True\<rparr>))
   }"

section \<open>Messages\<close>

text \<open>
  What one end sends the other end receives, if the pipe takes all the bytes and gives them back in two reads: the
  message with its length in the first four bytes.
\<close>

lemma msg_sent:
  assumes "4 \<le> msgsz" "msgsz = int (length msgp)" "msgsz < 2 ^ 31"
    and "rv (env s (tr s) (E_write fd (le32 msgsz @ drop 4 msgp))) = msgsz"
  shows "run_state (loc_eng_dmn_conn_glue_msgsnd fd msgp msgsz) s =
    (msgsz, s\<lparr>tr := E_write fd (le32 msgsz @ drop 4 msgp) # tr s\<rparr>)"
  using assms by (simp add: loc_eng_dmn_conn_glue_msgsnd_def loc_eng_dmn_conn_glue_pipewrite_def)

lemma msg_received:
  assumes n: "4 \<le> n" "n = int (length msg)" "n \<le> bufsz" "n < 2 ^ 31"
    and msg: "take 4 msg = le32 n"
    and r1: "r1 = env s (tr s) (E_read fd 4)" "rv r1 = 4" "rbuf r1 = take 4 msg"
    and r2: "r2 = env s (E_read fd 4 # tr s) (E_read fd (nat (n - 4)))" "rv r2 = n - 4" "rbuf r2 = drop 4 msg"
  shows "run_state (loc_eng_dmn_conn_glue_msgrcv fd bufsz) s =
    ((n, msg), s\<lparr>tr := E_read fd (nat (n - 4)) # E_read fd 4 # tr s\<rparr>)"
proof -
  have u: "ule32_at (take 4 msg) 0 = n" "uwrap 32 (n - 4) = n - 4" "swrap 32 n = n" "swrap 32 (n - 4) = n - 4"
    using ule32_roundtrip [of n "[]"] n msg by auto
  have len: "length (take 4 msg) = 4" "length (drop 4 msg) = nat (n - 4)" "length msg - nat (n - 4) = 4"
    using n by auto
  have h: "take 4 (take 4 msg @ replicate 4 (CHR 0x00)) = take 4 msg"
    "take (nat (n - 4)) (drop 4 msg @ replicate (nat (n - 4)) (CHR 0x00)) = drop 4 msg"
    using len by auto
  show ?thesis
    using n u h r1 r2 by (simp add: loc_eng_dmn_conn_glue_msgrcv_def loc_eng_dmn_conn_glue_piperead_def append_take_drop_id
        Let_def)
qed

text \<open>The flush ends when a read answers 0, and always answers 0.\<close>

lemma msgflush_ends:
  assumes "rv (e (replicate n (E_read fd 128) @ t) (E_read fd 128)) = 0"
  shows "\<exists>k \<le> n. flush_reads e fd t = Some (replicate (Suc k) (E_read fd 128) @ t)"
  using assms
proof (induction n arbitrary: t)
  case 0
  then show ?case by (subst flush_reads.simps) simp
next
  case (Suc n)
  show ?case
  proof (cases "rv (e t (E_read fd 128)) = 0")
    case True
    then show ?thesis by (intro exI [of _ 0]) (subst flush_reads.simps, simp)
  next
    case False
    have "rv (e (replicate n (E_read fd 128) @ E_read fd 128 # t) (E_read fd 128)) = 0"
      using Suc.prems by (simp flip: replicate_append_same)
    from Suc.IH [OF this] obtain k where k: "k \<le> n"
        "flush_reads e fd (E_read fd 128 # t) = Some (replicate (Suc k) (E_read fd 128) @ E_read fd 128 # t)" by blast
    have "flush_reads e fd t = Some (replicate (Suc (Suc k)) (E_read fd 128) @ t)"
      using False k(2) by (subst flush_reads.simps) (simp flip: replicate_append_same)
    with k(1) show ?thesis by (intro exI [of _ "Suc k"]) simp
  qed
qed

end
