(* ===== verification/Props_Gps.thy ===== *)
theory Props_Gps
  imports Msg_Q Loc_Timer Dmn_Conn Examples
begin

text \<open>
  The properties of the GPS library's C parts: the message queue and its list, the timer, the thread helper
  and the messages on the pipes.
\<close>

section \<open>The queue and the list\<close>

text \<open>An empty queue 200 over the list 100; memory is given out at addresses that grow with the calls made.\<close>

definition ex_mq :: mq_st where
  "ex_mq = \<lparr>env = (\<lambda>t e. case e of E_proc (Pr_malloc n) \<Rightarrow> answer (1000 + int (length t)) | _ \<Rightarrow> answer 0),
     tr = [], ub = False, fl = id, ll_lists = (\<lambda>_. None)(100 := Some \<lparr>p_head = 0, p_tail = 0\<rparr>), ll_elems = (\<lambda>_. None),
     mqs = (\<lambda>_. None)(200 := Some \<lparr>msg_list = 100, unblocked = False\<rparr>)\<rparr>"

lemma ex_mq_holds: "mq_holds 200 ex_mq []"
  by (simp add: mq_holds_def queue_def rep_def items_def ex_mq_def)

lemmas mq_ops = mq_put_ok_def mq_put_def mq_get_def mq_shut_def msg_q_snd_def msg_q_rcv_def rcv_loop_def msg_q_unblock_def
  set_unblocked_def get_mq_def fresh_def locked_def linked_list_add_def linked_list_remove_def linked_list_empty_def get_list_def
  upd_list_def get_elem_def upd_elem_def free_elem_def unlink_elem_def

text \<open>C14: over any sequence of sends and receives, of which those that would wait give nothing, the message queue is first in,
  first out: what was in it and what it accepted is what it gave out and what it holds, in order.\<close>

theorem queue_fifo:
  assumes "mq_holds q s ms" "fifo_ok mq_put_ok (mq_put q f) (mq_get q) ops s"
    "fifo_run (mq_put q f) (mq_get q) ops s = (ins, outs, s')"
  shows "\<exists>ys. ms @ ins = outs @ ys \<and> mq_holds q s' ys"
  by (rule mq_queue.run_fifo [OF assms])

theorem queue_fifo_witness:
  "\<exists>ins outs s'. fifo_run (mq_put 200 0) (mq_get 200) [Some 7, Some 8, None] ex_mq = (ins, outs, s') \<and>
     (\<exists>ys. [] @ ins = outs @ ys \<and> mq_holds 200 s' ys)"
proof -
  obtain ins outs s' where run: "fifo_run (mq_put 200 0) (mq_get 200) [Some 7, Some 8, None] ex_mq = (ins, outs, s')"
    by (metis prod_cases3)
  have "fifo_ok mq_put_ok (mq_put 200 0) (mq_get 200) [Some 7, Some 8, None] ex_mq"
    by (simp add: mq_ops ex_mq_def answer_def split_beta Let_def)
  from queue_fifo [OF ex_mq_holds this run] run show ?thesis by blast
qed

text \<open>C37: no call of \<open>msg_q_snd\<close> or \<open>msg_q_rcv\<close> that is made after the queue was unblocked accepts or gives out a message, whatever the
  queue held. A receiver that was waiting before is no such call: it takes a message that was queued before.\<close>

theorem queue_unblocked:
  assumes "mq_holds q s ms" "fifo_ok mq_put_ok (mq_put q f) (mq_get q) ops (mq_shut q s)"
    "fifo_run (mq_put q f) (mq_get q) ops (mq_shut q s) = (ins, outs, s')"
  shows "ins = [] \<and> outs = []"
  by (rule mq_queue.shut_run [OF assms])

theorem queue_unblocked_witness:
  "\<exists>ins outs s'. fifo_run (mq_put 200 0) (mq_get 200) [Some 7, None] (mq_shut 200 ex_mq) = (ins, outs, s') \<and> ins = [] \<and> outs = []"
proof -
  obtain ins outs s' where run: "fifo_run (mq_put 200 0) (mq_get 200) [Some 7, None] (mq_shut 200 ex_mq) = (ins, outs, s')"
    by (metis prod_cases3)
  have "fifo_ok mq_put_ok (mq_put 200 0) (mq_get 200) [Some 7, None] (mq_shut 200 ex_mq)"
    by (simp add: mq_ops ex_mq_def answer_def split_beta Let_def)
  from queue_unblocked [OF ex_mq_holds this run] run show ?thesis by blast
qed

text \<open>C38: a search that is to remove what it finds (\<open>linked_list_search\<close>) takes the first element that is equal out of the list and
  leaves the others as they were, and frees it, with its data unless that is handed out.\<close>

theorem search_removes_first:
  assumes rep: "rep s l (us @ a # vs)" and l: "l \<noteq> 0"
    and found: "find (\<lambda>a. eq (fst (item (ll_elems s) a))) (us @ a # vs) = Some a"
    and run: "run_state (linked_list_search l dp (Some eq) True) s = ((err, d), s')"
  shows "err = LL_SUCCESS \<and> d = (if dp then Some (fst (item (ll_elems s) a)) else None) \<and>
    rep s' l (us @ vs) \<and> items s' (us @ vs) = items s (us @ vs) \<and> ub s' = ub s \<and>
    tr s' = E_free a # (if dp then [] else dealloc_event (the (ll_elems s a))) @ tr s"
  using search_remove [OF assms] by blast

definition ex_list :: ll_st where
  "ex_list = \<lparr>env = (\<lambda>t e. answer 0), tr = [], ub = False, fl = id, ll_lists = (\<lambda>_. None)(100 := Some \<lparr>p_head = 1, p_tail = 2\<rparr>),
     ll_elems = (\<lambda>_. None)(1 := Some \<lparr>le_next = 2, le_prev = 0, le_data = 7, le_dealloc = 0\<rparr>,
       2 := Some \<lparr>le_next = 0, le_prev = 1, le_data = 8, le_dealloc = 9\<rparr>)\<rparr>"

theorem search_removes_first_witness:
  "\<exists>s'. run_state (linked_list_search 100 True (Some (\<lambda>d. 7 < d)) True) ex_list = ((LL_SUCCESS, Some 8), s') \<and> rep s' 100 [1]"
proof -
  obtain err d s' where run: "run_state (linked_list_search 100 True (Some (\<lambda>d. 7 < d)) True) ex_list = ((err, d), s')"
    by (metis prod_cases3 prod.collapse)
  have "rep ex_list 100 ([1] @ 2 # [])" "item (ll_elems ex_list) 2 = (8, 9)" "item (ll_elems ex_list) 1 = (7, 0)"
    by (simp_all add: rep_def ex_list_def item_def)
  with search_removes_first [of ex_list 100 "[1]" 2 "[]" "\<lambda>d. 7 < d", OF _ _ _ run] show ?thesis
    using run by simp
qed

section \<open>The timer\<close>

text \<open>The deadline of a timer is a normal \<open>timespec\<close> that lies exactly the given number of milliseconds after the clock.\<close>

theorem deadline_exact:
  assumes "0 \<le> nsec" "nsec \<le> 999999999" "0 \<le> ms" "0 \<le> sec" "sec + ms div 1000 + 1 < 2 ^ 31"
    and d: "deadline sec nsec ms = (sec', nsec', ms')"
  shows "0 \<le> nsec' \<and> nsec' \<le> 999999999 \<and> sec' * 1000000000 + nsec' = sec * 1000000000 + nsec + ms * 1000000"
proof -
  obtain q m where q: "ms div 1000 = q" and m: "ms mod 1000 = m" by blast
  have qm: "ms = q * 1000 + m" "0 \<le> m" "m < 1000" "0 \<le> q"
    using assms(3) q m by (auto simp: pos_imp_zdiv_nonneg_iff)
  have u: "uwrap 32 (m * 1000000) = m * 1000000"
    using qm by (intro uwrap_id) auto
  have n: "swrap 32 (nsec + m * 1000000) = nsec + m * 1000000"
    using qm assms(1,2) by (intro swrap_id) auto
  have s: "swrap 32 (sec + q) = sec + q" "swrap 32 (sec + q + 1) = sec + q + 1" "swrap 32 (sec + 1) = sec + 1"
    using qm q assms(4,5) by (auto intro!: swrap_id)
  have d': "(sec', nsec', ms') = (if 999999999 < nsec + m * 1000000
      then (sec + q + 1, nsec + m * 1000000 - 1000000000, m) else (sec + q, nsec + m * 1000000, m))"
  proof (cases "1000 \<le> ms")
    case True
    with d s u n show ?thesis unfolding deadline_def q m by (auto split: if_splits)
  next
    case False
    with qm have "q = 0" "m = ms" by auto
    with d s u n False show ?thesis unfolding deadline_def by (auto split: if_splits)
  qed
  with qm assms(1,2) show ?thesis by (auto split: if_splits)
qed

theorem deadline_exact_witness: "\<exists>s n m. deadline 5 999999999 1500 = (s, n, m) \<and> s * 1000000000 + n = 7499999999"
proof -
  obtain s n m where d: "deadline 5 999999999 1500 = (s, n, m)" by (metis prod_cases3)
  show ?thesis using deadline_exact [OF _ _ _ _ _ d] d by auto
qed

text \<open>C39: the thread of a timer calls back exactly if nobody stopped the timer before the thread took the lock and the wait for the
  deadline timed out, then once and with the caller's data; in any case the timer is freed.\<close>

theorem timer_fires:
  assumes x: "tms s t = Some x" and run: "run_state (timer_thread t) s = ((), s')"
    and c: "c = env s (E_time T_gettimeofday # tr s) (E_time T_clock_gettime)"
    and d: "deadline (num c 0) (num c (Suc 0)) (time_msec x) = (sec, nsec, ms)"
    and w: "w = rv (env s (E_lock L_timer # E_time T_clock_gettime # E_time T_gettimeofday # tr s) (E_thread (C_timedwait sec nsec) t))"
  shows "callbacks (tr s') = (if t_state x = READY \<and> w = ETIMEDOUT
      then [E_hook ''timer_callback'' [int (callback_func x), int (user_data x), ETIMEDOUT]] else []) @ callbacks (tr s) \<and> tms s' t = None"
  using timer_thread_fires [OF x _ run c d w] timer_thread_stopped [OF x _ run] by (cases "t_state x = READY") auto

definition ex_timer :: "timer_state \<Rightarrow> tm_st" where
  "ex_timer st = \<lparr>env = (\<lambda>t e. case e of E_thread (C_timedwait a b) c \<Rightarrow> answer ETIMEDOUT | _ \<Rightarrow> answer 0), tr = [], ub = False, fl = id,
     ll_lists = (\<lambda>_. None), ll_elems = (\<lambda>_. None), tms = (\<lambda>_. None)(50 := Some \<lparr>callback_func = 3, user_data = 4, time_msec = 20, t_state = st\<rparr>)\<rparr>"

theorem timer_fires_witness:
  "\<exists>s'. run_state (timer_thread 50) (ex_timer READY) = ((), s') \<and> callbacks (tr s') = [E_hook ''timer_callback'' [3, 4, ETIMEDOUT]]"
proof -
  obtain s' where run: "run_state (timer_thread 50) (ex_timer READY) = ((), s')"
    by (metis old.unit.exhaust surj_pair)
  have "deadline 0 0 20 = (0, 20000000, 20)"
    by (simp add: deadline_def)
  with timer_fires [of "ex_timer READY" 50, OF _ run refl _ refl] run show ?thesis
    by (simp add: ex_timer_def num_def answer_def callbacks_def)
qed

text \<open>Stopping a timer that is not yet done (\<open>loc_timer_stop\<close>) signals its thread and leaves the timer in a state in which
  the thread does not wait; stopping one that is done or stopped signals nobody.\<close>

theorem timer_stop:
  assumes "tms s t = Some x" "t \<noteq> 0" "rv (env s (tr s) (E_lock L_timer)) = 0"
    and run: "run_state (loc_timer_stop t) s = ((), s')"
  shows "(\<exists>x'. tms s' t = Some x' \<and> t_state x' \<notin> {READY, WAITING} \<and> ub s' = ub s) \<and>
    (E_thread C_signal t \<in> set (take (length (tr s') - length (tr s)) (tr s')) \<longleftrightarrow> t_state x \<in> {READY, WAITING})"
  using assms by (auto simp: loc_timer_stop_def get_timer_def upd_timer_def split: if_splits)

theorem timer_stop_witness:
  "\<exists>s'. run_state (loc_timer_stop 50) (ex_timer WAITING) = ((), s') \<and> E_thread C_signal 50 \<in> set (tr s')"
proof -
  obtain s' where run: "run_state (loc_timer_stop 50) (ex_timer WAITING) = ((), s')"
    by (metis old.unit.exhaust surj_pair)
  with timer_stop [of "ex_timer WAITING" 50, OF _ _ _ run] show ?thesis
    by (auto simp: ex_timer_def answer_def dest: in_set_takeD)
qed

text \<open>If a step of \<open>loc_timer_start\<close> after the allocation fails, the timer is freed, but its address is returned as
  after a success, and stopping the timer it names is undefined.\<close>

theorem timer_start_dangling:
  assumes args: "cb \<noteq> 0" "msec \<noteq> 0" and t: "rv (env s (tr s) (E_malloc 32)) = int t" "t \<noteq> 0"
    and es: "es = [E_thread Th_create t, E_thread A_init t, E_thread M_init t, E_thread C_init t, E_malloc 32]"
    and fails: "\<exists>i < 4. rv (env s (drop (Suc i) es @ tr s) (es ! i)) \<noteq> 0"
    and run: "run_state (loc_timer_start msec cb d) s = (r, s')"
  shows "r = t \<and> ub (snd (run_state (loc_timer_stop r) s'))"
proof -
  have "r = t \<and> tms s' t = None"
    using assms by (auto simp: loc_timer_start_def timer_cleanup_def upd_timer_def less_Suc_eq numeral_eq_Suc split: if_splits)
  with t(2) show ?thesis
    by (auto simp: loc_timer_stop_def get_timer_def)
qed

definition no_threads :: tm_st where
  "no_threads = \<lparr>env = (\<lambda>t e. case e of E_thread Th_create a \<Rightarrow> answer 11 | E_proc (Pr_malloc n) \<Rightarrow> answer 50 | _ \<Rightarrow> answer 0),
     tr = [], ub = False, fl = id, ll_lists = (\<lambda>_. None), ll_elems = (\<lambda>_. None), tms = (\<lambda>_. None)\<rparr>"

theorem timer_start_dangling_witness:
  "\<exists>s'. run_state (loc_timer_start 20 3 4) no_threads = (50, s') \<and> ub (snd (run_state (loc_timer_stop 50) s'))"
proof -
  obtain r s' where run: "run_state (loc_timer_start 20 3 4) no_threads = (r, s')" by fastforce
  have "\<exists>i < 4. rv (env no_threads (drop (Suc i) [E_thread Th_create 50, E_thread A_init 50, E_thread M_init 50, E_thread C_init 50, E_malloc 32] @
      tr no_threads) ([E_thread Th_create 50, E_thread A_init 50, E_thread M_init 50, E_thread C_init 50, E_malloc 32] ! i)) \<noteq> 0"
    by (intro exI [of _ 0]) (simp add: no_threads_def answer_def)
  then have a: "r = 50 \<and> ub (snd (run_state (loc_timer_stop r) s'))"
    by (intro timer_start_dangling [OF _ _ _ _ refl _ run]) (simp_all add: no_threads_def answer_def)
  show ?thesis
    using run conjunct2 [OF a] unfolding conjunct1 [OF a] by blast
qed

section \<open>The thread helper\<close>

text \<open>C40: the loop of a helper thread ends, with the exit flag set, at the latest when the thread procedure answers a negative
  number for the first time: after at most \<open>n + 1\<close> calls if the call after \<open>n\<close> calls answers one.\<close>

theorem thelper_loop_ends:
  assumes "proc_main (th s) = f" "f \<noteq> 0" "e = E_hook ''thread_proc'' [int f, int (th_context (th s))]"
    and "rv (env s (replicate n e @ tr s) e) < 0"
  shows "\<exists>r s' k. thelper_loop result s = Some (r, s') \<and> th_exit (th s') \<noteq> 0 \<and> k \<le> n \<and> tr s' = replicate (Suc k) e @ tr s"
  using assms
proof (induction n arbitrary: s result)
  case 0
  then have "thelper_loop result s = Some (run_state (thelper_turn result) s) \<and>
      th_exit (th (snd (run_state (thelper_turn result) s))) \<noteq> 0 \<and> tr (snd (run_state (thelper_turn result) s)) = e # tr s"
    by (subst thelper_loop.simps) (auto simp: thelper_turn_def run_proc_def upd_th_def Let_def)
  then show ?case
    by (metis append_Cons append_Nil bot_nat_0.extremum prod.collapse replicate_0 replicate_Suc)
next
  case (Suc n)
  obtain r1 s1 where 1: "run_state (thelper_turn result) s = (r1, s1)" by fastforce
  then have s1: "tr s1 = e # tr s" "env s1 = env s" "proc_main (th s1) = f" "th_context (th s1) = th_context (th s)"
    using Suc.prems by (auto simp: thelper_turn_def run_proc_def upd_th_def split: if_splits)
  show ?case
  proof (cases "th_exit (th s1) = 0")
    case False
    then have "thelper_loop result s = Some (r1, s1)"
      using 1 by (subst thelper_loop.simps) simp
    with False s1(1) show ?thesis by (intro exI [of _ r1] exI [of _ s1] exI [of _ 0]) simp
  next
    case True
    then have eq: "thelper_loop result s = thelper_loop r1 s1"
      using 1 by (subst thelper_loop.simps) simp
    have "rv (env s1 (replicate n e @ tr s1) e) < 0"
      using Suc.prems(4) s1 by (simp flip: replicate_append_same)
    then obtain r s' k where IH: "thelper_loop r1 s1 = Some (r, s')" "th_exit (th s') \<noteq> 0" "k \<le> n"
        "tr s' = replicate (Suc k) e @ tr s1"
      using Suc.IH [of s1 r1] Suc.prems s1 by auto
    then show ?thesis
      using eq s1(1) by (intro exI [of _ r] exI [of _ s'] exI [of _ "Suc k"]) (simp flip: replicate_append_same)
  qed
qed

definition ex_th :: "(event list \<Rightarrow> event \<Rightarrow> reply) \<Rightarrow> th_st" where
  "ex_th os = \<lparr>env = os, tr = [], ub = False, fl = id,
     ll_lists = (\<lambda>_. None), ll_elems = (\<lambda>_. None), tms = (\<lambda>_. None), th = \<lparr>th_exit = 0, th_ready = 0, th_context = 9, proc_init = 1, proc_pre = 2, proc_main = 3, proc_post = 4\<rparr>\<rparr>"

theorem thelper_loop_ends_witness:
  "\<exists>r s' k. thelper_loop 0 (ex_th (\<lambda>t e. answer (2 - int (length t)))) = Some (r, s') \<and> k \<le> 3 \<and> length (tr s') = Suc k"
proof -
  let ?s = "ex_th (\<lambda>t e. answer (2 - int (length t)))" and ?e = "E_hook ''thread_proc'' [3, 9]"
  have "proc_main (th ?s) = 3" "(3::nat) \<noteq> 0" "?e = E_hook ''thread_proc'' [int 3, int (th_context (th ?s))]"
    "rv (env ?s (replicate 3 ?e @ tr ?s) ?e) < 0"
    by (simp_all add: ex_th_def answer_def)
  from thelper_loop_ends [OF this, of 0] show ?thesis
    by (fastforce simp: ex_th_def)
qed

text \<open>If the new thread runs while the launching thread waits and its initialisation fails, the launch answers 1, and the
  helper is left with both flags, exit and ready, set.\<close>

theorem launch_init_fails:
  assumes ok: "rv (env s (tr s) (E_thread C_init th_cond)) = 0"
      "rv (env s (E_thread C_init th_cond # tr s) (E_thread M_init th_cond)) = 0"
      "rv (env s (E_thread M_init th_cond # E_thread C_init th_cond # tr s) (E_thread Th_create th_cond)) = 0"
    and f0: "f0 \<noteq> 0" and ctx: "ctx \<noteq> 0"
    and t: "t = E_thread C_wait th_cond # E_lock L_th # E_thread Th_create th_cond # E_thread M_init th_cond # E_thread C_init th_cond # tr s"
    and fails: "rv (env s t (E_hook ''thread_proc'' [int f0, int ctx])) < 0"
    and run: "run_state (loc_eng_dmn_conn_launch_thelper f0 f1 f2 f3 0 ctx (ret ()) thelper_main) s = (r, s')"
  shows "r = 1 \<and> th_exit (th s') = 1 \<and> th_ready (th s') = 1"
  using assms
  by (auto simp: loc_eng_dmn_conn_launch_thelper_def thelper_signal_init_def thelper_signal_wait_def upd_th_def
      thelper_main_def run_proc_def thelper_signal_ready_def split_beta Let_def split: if_splits)

theorem launch_init_fails_witness:
  "fst (run_state (loc_eng_dmn_conn_launch_thelper 1 2 3 4 0 9 (ret ()) thelper_main)
     (ex_th (\<lambda>t e. case e of E_hook f ns \<Rightarrow> answer (- 1) | _ \<Rightarrow> answer 0))) = 1"
proof -
  let ?s = "ex_th (\<lambda>t e. case e of E_hook f ns \<Rightarrow> answer (- 1) | _ \<Rightarrow> answer 0)"
  obtain r s' where run: "run_state (loc_eng_dmn_conn_launch_thelper 1 2 3 4 0 9 (ret ()) thelper_main) ?s = (r, s')" by fastforce
  show ?thesis using launch_init_fails [OF _ _ _ _ _ refl _ run] run by (simp add: ex_th_def answer_def)
qed

text \<open>A wake-up without a signal, which POSIX allows, ends the wait of the launch: it reports success although the thread
  has not run and is not ready.\<close>

theorem launch_spurious:
  assumes "\<And>es e. rv (env s es e) = 0"
    and "run_state (loc_eng_dmn_conn_launch_thelper f0 f1 f2 f3 0 ctx (ret ()) (ret ())) s = (r, s')"
  shows "r = 0 \<and> th_ready (th s') = 0"
  using assms
  by (cases "ctx = 0")
    (auto simp: loc_eng_dmn_conn_launch_thelper_def thelper_signal_init_def thelper_signal_wait_def upd_th_def)

theorem launch_spurious_witness:
  "\<exists>s'. run_state (loc_eng_dmn_conn_launch_thelper 1 2 3 4 0 9 (ret ()) (ret ())) (ex_th (\<lambda>t e. answer 0)) = (0, s') \<and> th_ready (th s') = 0"
proof -
  obtain r s' where run: "run_state (loc_eng_dmn_conn_launch_thelper 1 2 3 4 0 9 (ret ()) (ret ())) (ex_th (\<lambda>t e. answer 0)) = (r, s')"
    by fastforce
  show ?thesis using launch_spurious [OF _ run] run by (simp add: ex_th_def answer_def)
qed

section \<open>The messages\<close>

text \<open>C19: a message that one end sends over a pipe that takes all its bytes, and gives them back in the two reads of the other end,
  arrives there unchanged but for its length in its first four bytes, and both ends answer its length.\<close>

theorem msg_transported:
  assumes n: "4 \<le> n" "n = int (length msg)" "n \<le> bufsz" "n < 2 ^ 31"
    and w: "rv (env s (tr s) (E_write fd (le32 n @ drop 4 msg))) = n"
    and r1: "r1 = env s' (tr s') (E_read fd' 4)" "rv r1 = 4" "rbuf r1 = le32 n"
    and r2: "r2 = env s' (E_read fd' 4 # tr s') (E_read fd' (nat (n - 4)))" "rv r2 = n - 4" "rbuf r2 = drop 4 msg"
  shows "run_state (loc_eng_dmn_conn_glue_msgsnd fd msg n) s = (n, s\<lparr>tr := E_write fd (le32 n @ drop 4 msg) # tr s\<rparr>) \<and>
    (\<exists>t. run_state (loc_eng_dmn_conn_glue_msgrcv fd' bufsz) s' = ((n, le32 n @ drop 4 msg), s'\<lparr>tr := t\<rparr>))"
proof
  show "run_state (loc_eng_dmn_conn_glue_msgsnd fd msg n) s = (n, s\<lparr>tr := E_write fd (le32 n @ drop 4 msg) # tr s\<rparr>)"
    using msg_sent [OF n(1,2,4) w] .
  show "\<exists>t. run_state (loc_eng_dmn_conn_glue_msgrcv fd' bufsz) s' = ((n, le32 n @ drop 4 msg), s'\<lparr>tr := t\<rparr>)"
    using msg_received [of n "le32 n @ drop 4 msg" bufsz r1 s' fd' r2] n r1 r2 by auto
qed

definition pipe_os :: "event list \<Rightarrow> event \<Rightarrow> reply" where
  "pipe_os t e = (case e of
       E_fd (F_write bs) fd \<Rightarrow> answer (int (length bs))
     | E_fd (F_read n) fd \<Rightarrow> (answer (int n))\<lparr>rbuf := if t = [] then le32 6 else ''ok''\<rparr>
     | _ \<Rightarrow> answer 0)"

theorem msg_transported_witness:
  "fst (run_state (loc_eng_dmn_conn_glue_msgsnd 5 ''????ok'' 6) (ex_th pipe_os)) = 6 \<and>
   fst (run_state (loc_eng_dmn_conn_glue_msgrcv 6 128) (ex_th pipe_os)) = (6, le32 6 @ ''ok'')"
proof -
  have "rv (env (ex_th pipe_os) (tr (ex_th pipe_os)) (E_write 5 (le32 6 @ drop 4 ''????ok''))) = 6"
    by (simp add: ex_th_def pipe_os_def answer_def)
  moreover have "rv (env (ex_th pipe_os) (tr (ex_th pipe_os)) (E_read 6 4)) = 4"
    "rbuf (env (ex_th pipe_os) (tr (ex_th pipe_os)) (E_read 6 4)) = le32 6"
    "rv (env (ex_th pipe_os) (E_read 6 4 # tr (ex_th pipe_os)) (E_read 6 (nat (6 - 4)))) = 6 - 4"
    "rbuf (env (ex_th pipe_os) (E_read 6 4 # tr (ex_th pipe_os)) (E_read 6 (nat (6 - 4)))) = drop 4 ''????ok''"
    by (simp_all add: ex_th_def pipe_os_def answer_def)
  moreover have "(6::int) = int (length ''????ok'')" by simp
  ultimately have "run_state (loc_eng_dmn_conn_glue_msgsnd 5 ''????ok'' 6) (ex_th pipe_os) =
      (6, (ex_th pipe_os)\<lparr>tr := E_write 5 (le32 6 @ drop 4 ''????ok'') # tr (ex_th pipe_os)\<rparr>) \<and>
    (\<exists>t. run_state (loc_eng_dmn_conn_glue_msgrcv 6 128) (ex_th pipe_os) =
      ((6, le32 6 @ drop 4 ''????ok''), (ex_th pipe_os)\<lparr>tr := t\<rparr>))"
    by (intro msg_transported [OF _ _ _ _ _ refl _ _ refl]) (assumption | simp (no_asm))+
  then show ?thesis by (elim conjE exE) simp
qed

text \<open>A length below 4 in a message makes the size of the second read wrap around (\<open>loc_eng_dmn_conn_glue_msgrcv\<close>); when that
  read fails with -1, a length of 3 is answered as if a message of three bytes had been received.\<close>

theorem msg_short_length:
  assumes "4 \<le> bufsz"
    and "r1 = env s (tr s) (E_read fd 4)" "rv r1 = 4" "rbuf r1 = le32 3"
    and "rv (env s (E_read fd 4 # tr s) (E_read fd 4294967295)) = - 1"
  shows "fst (fst (run_state (loc_eng_dmn_conn_glue_msgrcv fd bufsz) s)) = 3"
proof -
  have u: "ule32_at (take 4 (le32 3 @ replicate 4 (CHR 0x00))) 0 = 3"
    using ule32_roundtrip [of 3 "[]"] by simp
  have w: "uwrap 32 (- 1) = 4294967295" "swrap 32 3 = 3"
    by (simp_all add: uwrap_def)
  show ?thesis
    using assms u w by (simp add: loc_eng_dmn_conn_glue_msgrcv_def loc_eng_dmn_conn_glue_piperead_def)
qed

theorem msg_short_length_witness:
  "fst (fst (run_state (loc_eng_dmn_conn_glue_msgrcv 6 128)
     (ex_th (\<lambda>t e. if t = [] then (answer 4)\<lparr>rbuf := le32 3\<rparr> else answer (- 1))))) = 3"
  by (rule msg_short_length [OF _ refl]) (simp_all add: ex_th_def answer_def)

text \<open>\<open>loc_eng_dmn_conn_glue_msgflush\<close> reads until a read answers 0, which it does after at most \<open>n + 1\<close> reads if the read after
  \<open>n\<close> reads would, and always answers 0, not the number of bytes it dropped.\<close>

theorem msgflush_reads:
  assumes "rv (env s (replicate n (E_read fd 128) @ tr s) (E_read fd 128)) = 0"
  shows "\<exists>k \<le> n. run_state (loc_eng_dmn_conn_glue_msgflush fd) s = (0, s\<lparr>tr := replicate (Suc k) (E_read fd 128) @ tr s\<rparr>)"
  using msgflush_ends [of "env s", OF assms] by (auto simp: loc_eng_dmn_conn_glue_msgflush_def)

theorem msgflush_reads_witness:
  "\<exists>k \<le> 2. run_state (loc_eng_dmn_conn_glue_msgflush 6) (ex_th (\<lambda>t e. answer (2 - int (length t)))) =
     (0, (ex_th (\<lambda>t e. answer (2 - int (length t))))\<lparr>tr := replicate (Suc k) (E_read 6 128)\<rparr>)"
  using msgflush_reads [of "ex_th (\<lambda>t e. answer (2 - int (length t)))" 2 6] by (simp add: ex_th_def answer_def)

end
