(* ===== verification/Sp_Frame.thy ===== *)
theory Sp_Frame
  imports Props_Algo Channel_Cntl
begin

text \<open>
  What the code below the providers leaves alone. A program is \<open>sp_quiet\<close> when it keeps everything that the channels and
  the providers add to the state of the fusion code; the callbacks of the fusion provider and the device counts are.
\<close>

definition sp_quiet :: "('a fusion_st_scheme, 'b) state \<Rightarrow> bool" where
  "sp_quiet m \<longleftrightarrow> (\<forall>v. keeps (\<lambda>s. fusion_st.more s = v) m)"

named_theorems spq_rules

lemma sp_quiet_more: "sp_quiet m \<Longrightarrow> fusion_st.more (snd (run_state m s)) = fusion_st.more s"
  by (auto simp: sp_quiet_def keeps_def)

lemma sp_quietI: "(\<And>s. fusion_st.more (snd (run_state m s)) = fusion_st.more s) \<Longrightarrow> sp_quiet m"
  by (simp add: sp_quiet_def keeps_def)

lemma fusion_more: "hw_st.more s = hw_st.more (s' :: 'a fusion_st_scheme) \<Longrightarrow> fusion_st.more s = fusion_st.more s'"
  by (cases s; cases s') simp

lemma sp_quiet_hw: "hw_quiet (m :: ('a fusion_st_scheme, 'b) state) \<Longrightarrow> sp_quiet m"
  by (auto intro!: sp_quietI fusion_more hw_quiet_frame)

lemma sp_quiet_basic [spq_rules]:
  "sp_quiet (ret x)" "sp_quiet (gets f)" "sp_quiet (must b)" "sp_quiet (call e)" "sp_quiet (emit e)"
  by (auto intro!: sp_quietI)

lemma sp_quiet_modify [spq_rules]: "(\<And>s. fusion_st.more (f s) = fusion_st.more s) \<Longrightarrow> sp_quiet (modify f)"
  by (auto intro!: sp_quietI)

lemma sp_quiet_bind [spq_rules]: "sp_quiet m \<Longrightarrow> (\<And>a. sp_quiet (f a)) \<Longrightarrow> sp_quiet (State_Monad.bind m f)"
  by (auto simp: sp_quiet_def intro!: keeps_bind)

lemma sp_quiet_if [spq_rules]: "(b \<Longrightarrow> sp_quiet m) \<Longrightarrow> (\<not> b \<Longrightarrow> sp_quiet m') \<Longrightarrow> sp_quiet (if b then m else m')"
  by simp

lemma sp_quiet_Let [spq_rules]: "(\<And>x. sp_quiet (f x)) \<Longrightarrow> sp_quiet (Let a f)"
  by simp

lemma sp_quiet_cases [spq_rules]:
  "(\<And>a b. sp_quiet (f a b)) \<Longrightarrow> sp_quiet (case x of (a, b) \<Rightarrow> f a b)"
  "sp_quiet m \<Longrightarrow> (\<And>y. sp_quiet (g y)) \<Longrightarrow> sp_quiet (case z of None \<Rightarrow> m | Some y \<Rightarrow> g y)"
  by (auto split: prod.splits option.splits)

lemma sp_quiet_for_each [spq_rules]: "(\<And>x. sp_quiet (f x)) \<Longrightarrow> sp_quiet (for_each xs f)"
  by (auto simp: sp_quiet_def intro!: keeps_for_each)

lemma sp_quiet_ref [spq_rules]:
  "sp_quiet (hw_ref_up i :: ('a fusion_st_scheme, int) state)" "sp_quiet (hw_ref_down i :: ('a fusion_st_scheme, int) state)"
proof -
  have "hw_st.more (snd (run_state (hw_ref_up i) s)) = hw_st.more s \<and>
        hw_st.more (snd (run_state (hw_ref_down i) s)) = hw_st.more s" for s :: "'a fusion_st_scheme"
  proof (cases "find_hw (g_list_hw (build s)) i s")
    case None
    then show ?thesis by (simp add: hw_ref_none)
  next
    case (Some d)
    then show ?thesis
      by (metis hw_ref_up_spec(3) hw_ref_down_spec(3) prod.collapse)
  qed
  then show "sp_quiet (hw_ref_up i :: ('a fusion_st_scheme, int) state)" "sp_quiet (hw_ref_down i :: ('a fusion_st_scheme, int) state)"
    by (auto intro!: sp_quietI fusion_more)
qed

lemma sp_quiet_lib [spq_rules]: "sp_quiet (tab_at tab n)" "sp_quiet algo_resolve_internal_state"
  by (auto intro!: sp_quiet_hw quiet_rules)

lemma sp_quiet_tune [spq_rules]: "sp_quiet tune_hw_a"
  by (auto intro!: sp_quietI fusion_more)

lemma sp_quiet_upds [spq_rules]:
  "sp_quiet (upd_product i f)" "sp_quiet (upd_module k g)" "sp_quiet fusion_arbitrate_dr" "sp_quiet (algo_hz2data_rate hz)"
  "sp_quiet (fusion_get_product ty)" "sp_quiet (algo_get_mod k)"
  unfolding upd_product_def upd_module_def fusion_arbitrate_dr_def algo_hz2data_rate_def fusion_get_product_def algo_get_mod_def
  by (auto intro!: spq_rules)

lemma sp_quiet_mods [spq_rules]:
  "sp_quiet (algo_load_calib_profile magic)" "sp_quiet (algo_save_calib_profile magic)"
  unfolding algo_load_calib_profile_def algo_save_calib_profile_def save_profile_def
  by (auto intro!: spq_rules)

lemma sp_quiet_mod_enable [spq_rules]: "sp_quiet (mod_enable k e)"
  unfolding mod_enable_def algo_enable_a_def algo_enable_m_def algo_enable_o_def algo_enable_vla_def
    algo_enable_m4g_def algo_enable_gest_flip_def
  by (cases k) (auto intro!: spq_rules)

lemma sp_quiet_dep [spq_rules]:
  "sp_quiet (ALGO_MOD_ENABLE k e)" "sp_quiet (algo_update_hw_ref ty e)" "sp_quiet (algo_update_mod_dep ap e)"
  "sp_quiet (algo_update_hw_dep ap e)" "sp_quiet algo_get_hint_interval" "sp_quiet algo_get_curr_hw_dep"
  "sp_quiet (algo_on_hw_dep_checked dep)" "sp_quiet (algo_on_interval_changed i itvl)" "sp_quiet (algo_enable_product i e)"
  unfolding ALGO_MOD_ENABLE_def algo_mod_ref_change_def algo_update_hw_ref_def algo_update_mod_dep_def algo_update_hw_dep_def
    algo_get_hint_interval_def algo_get_curr_hw_dep_def algo_on_hw_dep_checked_def algo_on_interval_changed_def
    algo_enable_product_def
  by (auto intro!: spq_rules)

lemma sp_quiet_fusion [spq_rules]:
  "sp_quiet (fusion_on_ch_enabled ty b e)" "sp_quiet (fusion_on_ch_interval_changed ty itvl)" "sp_quiet fusion_get_hint_proc_interval"
  "sp_quiet fusion_get_curr_hw_dep" "sp_quiet (fusion_on_hw_dep_checked dep)"
  unfolding fusion_on_ch_enabled_def fusion_on_ch_interval_changed_def fusion_get_hint_proc_interval_def
    fusion_get_curr_hw_dep_def fusion_on_hw_dep_checked_def
  by (auto intro!: spq_rules)

lemma sp_quiet_dep_loop [spq_rules]: "sp_quiet (dep_loop is changed new err :: ('a fusion_st_scheme, int \<times> int) state)"
  by (induction "is" arbitrary: new err) (auto intro!: spq_rules)

section \<open>Locks\<close>

text \<open>The code below the providers takes and releases the locks of the devices and of the adapter's counts.\<close>

lemma lockt_basic [lock_rules]:
  "lockt ls (tab_at tab n) ls" "lockt ls (upd_product i f) ls" "lockt ls (upd_module k g) ls" "lockt ls fusion_arbitrate_dr ls"
  "lockt ls (algo_hz2data_rate hz) ls" "lockt ls (fusion_get_product ty) ls" "lockt ls (algo_get_mod k) ls"
  unfolding tab_at_def upd_product_def upd_module_def fusion_arbitrate_dr_def algo_hz2data_rate_def fusion_get_product_def
    algo_get_mod_def
  by (auto intro!: lock_rules)

lemma lockt_resolve [lock_rules]: "lockt ls algo_resolve_internal_state ls" "lockt ls tune_hw_a ls"
  unfolding algo_resolve_internal_state_def ALGO_MOD_IS_ENABLED_def tune_hw_a_def
  by (auto intro!: lock_rules)

lemma lockt_profiles [lock_rules]:
  "lockt ls (algo_load_calib_profile magic) ls" "lockt ls (algo_save_calib_profile magic) ls"
  unfolding algo_load_calib_profile_def algo_save_calib_profile_def save_profile_def
  by (auto intro!: lock_rules)

lemma lockt_mod_enable [lock_rules]: "lockt ls (mod_enable k e) ls"
  unfolding mod_enable_def algo_enable_a_def algo_enable_m_def algo_enable_o_def algo_enable_vla_def
    algo_enable_m4g_def algo_enable_gest_flip_def
  by (cases k) (auto intro!: lock_rules)

lemma lockt_adapter [lock_rules]:
  assumes "\<And>m. m \<in> set ls \<Longrightarrow> m < L_algo_ref"
  shows "lockt ls (ALGO_MOD_ENABLE k e) ls" "lockt ls (algo_update_hw_ref ty e) ls" "lockt ls (algo_update_mod_dep ap e) ls"
    "lockt ls (algo_update_hw_dep ap e) ls" "lockt ls algo_get_hint_interval ls" "lockt ls algo_get_curr_hw_dep ls"
    "lockt ls (algo_on_hw_dep_checked dep) ls" "lockt ls (algo_on_interval_changed i itvl) ls" "lockt ls (algo_enable_product i e) ls"
  unfolding ALGO_MOD_ENABLE_def algo_mod_ref_change_def algo_update_hw_ref_def algo_update_mod_dep_def algo_update_hw_dep_def
    algo_get_hint_interval_def algo_get_curr_hw_dep_def algo_on_hw_dep_checked_def algo_on_interval_changed_def
    algo_enable_product_def
  by (auto intro!: lock_rules assms)

lemma lockt_fusion [lock_rules]:
  assumes "\<And>m. m \<in> set ls \<Longrightarrow> m < L_algo_ref"
  shows "lockt ls (fusion_on_ch_enabled ty b e) ls" "lockt ls (fusion_on_ch_interval_changed ty itvl) ls"
    "lockt ls fusion_get_hint_proc_interval ls" "lockt ls fusion_get_curr_hw_dep ls" "lockt ls (fusion_on_hw_dep_checked dep) ls"
  unfolding fusion_on_ch_enabled_def fusion_on_ch_interval_changed_def fusion_get_hint_proc_interval_def
    fusion_get_curr_hw_dep_def fusion_on_hw_dep_checked_def
  by (auto intro!: lock_rules assms)

lemma lockt_dep_loop [lock_rules]:
  "(\<And>j m. m \<in> set ls \<Longrightarrow> m < L_hw j) \<Longrightarrow> lockt ls (dep_loop is changed new err) ls"
  by (induction "is" arbitrary: new err) (auto intro!: lock_rules)

lemma lockt_upd_sp [lock_rules]: "lockt ls (upd_sp p f) ls" "lockt ls (upd_ch c g) ls"
  by (auto intro!: lockt_silent simp: upd_sp_def upd_ch_def)

text \<open>The locks that the code below a provider may take.\<close>

definition inner_free :: "lock list \<Rightarrow> bool" where
  "inner_free ls \<longleftrightarrow> (\<forall>m \<in> set ls. m < L_algo_ref \<and> (\<forall>j. m < L_hw j))"

lemma inner_freeD: "inner_free ls \<Longrightarrow> m \<in> set ls \<Longrightarrow> m < L_algo_ref" "inner_free ls \<Longrightarrow> m \<in> set ls \<Longrightarrow> m < L_hw j"
  by (simp_all add: inner_free_def)

lemma lock_less [simp]:
  "L_sp p < L_ch c" "L_sp p < L_hw j" "L_ch c < L_hw j" "L_sp p < L_algo_ref" "L_ch c < L_algo_ref" "L_display < L_ch c"
  "L_display < L_hw j" "L_display < L_algo_ref"
  by (simp_all add: less_lock_def)

lemma lockt_cb [lock_rules]:
  assumes "inner_free ls"
  shows "lockt ls (sp_cb_on_ch_enabled p c e) ls" "lockt ls (sp_cb_on_ch_interval_changed p c itvl) ls"
    "lockt ls (sp_re_check_dep_hw p) ls" "lockt ls (sp_recalc_interval_re p) ls" "lockt ls (sp_enable_ch p c e) ls"
proof -
  show cb: "lockt ls (sp_cb_on_ch_enabled p c e) ls" "lockt ls (sp_cb_on_ch_interval_changed p c itvl) ls"
    unfolding sp_cb_on_ch_enabled_def sp_cb_on_ch_interval_changed_def on_ch_enabled_p_def on_ch_interval_changed_p_def
    by (auto intro!: lock_rules inner_freeD assms)
  show dep: "lockt ls (sp_re_check_dep_hw p) ls" "lockt ls (sp_recalc_interval_re p) ls"
    unfolding sp_re_check_dep_hw_def sp_recalc_interval_re_def sp_cb_get_curr_hw_dep_def get_curr_hw_dep_p_def
    by (auto intro!: lock_rules inner_freeD assms)
  have "lockt ls (sp_link_ch p c e) ls" "lockt ls (sp_update_ref p e) ls"
    unfolding sp_link_ch_def sp_update_ref_def by (auto intro!: lock_rules split: option.splits)
  then show "lockt ls (sp_enable_ch p c e) ls"
    unfolding sp_enable_ch_def by (auto intro!: lock_rules cb dep inner_freeD assms)
qed

lemma lockt_set_state [lock_rules]:
  "inner_free ls \<Longrightarrow> \<forall>m \<in> set ls. m < L_ch c \<Longrightarrow> lockt ls (channel_set_state c st) ls"
  unfolding channel_set_state_def
  by (auto intro!: lock_rules simp: inner_free_def)

end
