(* ===== verification/Sp_Inv.thy ===== *)
theory Sp_Inv
  imports Sp_Frame
begin

text \<open>
  The client lists of the providers. The part of the state they are in is the heap of list nodes, of each channel its provider,
  state and configuration, and of each provider the head of its list, its count and whether its thread may block.
\<close>

type_synonym core = "lheap \<times> (nat option \<times> int \<times> channel_cfg) list \<times> (nat option \<times> int \<times> bool) list"

definition core :: "'a sp_st_scheme \<Rightarrow> core" where
  "core s = (g_next s, map (\<lambda>ch. (ch_sp ch, ch_state ch, ch_cfg ch)) (g_list_ch s),
     map (\<lambda>sp. (sp_clients sp, sp_ref sp, re_op_blk (sp_re sp))) (g_list_sp s))"

definition same_core :: "('a sp_st_scheme, 'b) state \<Rightarrow> bool" where
  "same_core m \<longleftrightarrow> (\<forall>s. core (snd (run_state m s)) = core s)"

named_theorems core_rules

lemma same_coreI: "(\<And>s. core (snd (run_state m s)) = core s) \<Longrightarrow> same_core m"
  by (simp add: same_core_def)

lemma same_coreD: "same_core m \<Longrightarrow> run_state m s = (a, s') \<Longrightarrow> core s' = core s"
  by (metis same_core_def snd_conv)

lemma same_core_quiet: "sp_quiet (m :: ('a sp_st_scheme, 'b) state) \<Longrightarrow> same_core m"
proof (rule same_coreI)
  fix s :: "'a sp_st_scheme"
  assume "sp_quiet m"
  from sp_quiet_more [OF this, of s] show "core (snd (run_state m s)) = core s"
    by (cases s; cases "snd (run_state m s)") (simp add: core_def)
qed

lemma same_core_basic [core_rules]:
  "same_core (ret x)" "same_core (gets f)" "same_core (must b)" "same_core (call e)" "same_core (emit e)"
  by (auto intro!: same_core_quiet spq_rules)

lemma same_core_bind [core_rules]: "same_core m \<Longrightarrow> (\<And>a. same_core (f a)) \<Longrightarrow> same_core (State_Monad.bind m f)"
  by (simp add: same_core_def split_beta)

lemma same_core_if [core_rules]: "(b \<Longrightarrow> same_core m) \<Longrightarrow> (\<not> b \<Longrightarrow> same_core m') \<Longrightarrow> same_core (if b then m else m')"
  by simp

lemma same_core_Let [core_rules]: "(\<And>x. same_core (f x)) \<Longrightarrow> same_core (Let a f)"
  by simp

lemma same_core_cases [core_rules]:
  "(\<And>a b. same_core (f a b)) \<Longrightarrow> same_core (case x of (a, b) \<Rightarrow> f a b)"
  "same_core m \<Longrightarrow> (\<And>y. same_core (g y)) \<Longrightarrow> same_core (case z of None \<Rightarrow> m | Some y \<Rightarrow> g y)"
  by (auto split: prod.splits option.splits)

lemma map_update_same: "f (g (xs ! i)) = f (xs ! i) \<Longrightarrow> map f (xs[i := g (xs ! i)]) = map f xs"
  by (cases "i < length xs") (simp add: map_update list_update_same_conv, simp add: list_update_beyond)

lemma same_core_upd_sp [core_rules]:
  "(\<And>sp. sp_clients (f sp) = sp_clients sp \<and> sp_ref (f sp) = sp_ref sp \<and> re_op_blk (sp_re (f sp)) = re_op_blk (sp_re sp)) \<Longrightarrow>
   same_core (upd_sp p f)"
  by (rule same_coreI) (simp add: upd_sp_def core_def map_update_same del: map_update)

lemma same_core_upd_ch [core_rules]:
  "(\<And>ch. ch_sp (f ch) = ch_sp ch \<and> ch_state (f ch) = ch_state ch \<and> ch_cfg (f ch) = ch_cfg ch) \<Longrightarrow> same_core (upd_ch c f)"
  by (rule same_coreI) (simp add: upd_ch_def core_def map_update_same del: map_update)

lemma same_core_enable_p [core_rules]: "same_core (on_ch_enabled_p e)" "same_core (on_ch_interval_changed_p i)" "same_core get_curr_hw_dep_p"
  by (auto intro!: same_coreI simp: on_ch_enabled_p_def on_ch_interval_changed_p_def get_curr_hw_dep_p_def core_def)

lemma same_core_cb [core_rules]:
  "same_core (sp_cb_on_ch_enabled p c e)" "same_core (sp_cb_on_ch_interval_changed p c itvl)" "same_core (sp_cb_get_curr_hw_dep p)"
  unfolding sp_cb_on_ch_enabled_def sp_cb_on_ch_interval_changed_def sp_cb_get_curr_hw_dep_def
  by (auto intro!: core_rules same_core_quiet [OF sp_quiet_fusion(1)] same_core_quiet [OF sp_quiet_fusion(2)]
      same_core_quiet [OF sp_quiet_fusion(4)])

lemma same_core_dep [core_rules]: "same_core (sp_re_check_dep_hw p)" "same_core (sp_recalc_interval_re p)"
  unfolding sp_re_check_dep_hw_def sp_recalc_interval_re_def
  by (auto intro!: core_rules same_core_quiet [OF sp_quiet_dep_loop] same_core_quiet [OF sp_quiet_fusion(3)] split: if_splits)

lemma same_core_checked [core_rules]: "same_core (fusion_on_hw_dep_checked dep)"
  by (rule same_core_quiet) (rule spq_rules)

section \<open>The invariant\<close>

text \<open>The channels of provider \<open>p\<close> that are on.\<close>

definition on_clients :: "(nat option \<times> int \<times> channel_cfg) list \<Rightarrow> nat \<Rightarrow> nat set" where
  "on_clients chs p = {c. c < length chs \<and> fst (chs ! c) = Some p \<and> fst (snd (chs ! c)) \<noteq> CHANNEL_STATE_SLEEP}"

definition counted :: "(nat option \<times> int \<times> channel_cfg) list \<Rightarrow> nat \<Rightarrow> nat set" where
  "counted chs p = {c \<in> on_clients chs p. \<not> bypass_proc (snd (snd (chs ! c)))}"

text \<open>
  The lists are the channels that are on, without cycles, and the count of a provider is that of its channels that are on
  and not bypassed. The count has 6 bits with the sign, the state of a channel 4.
\<close>

definition ch_ok :: "nat \<Rightarrow> nat option \<times> int \<times> channel_cfg \<Rightarrow> bool" where
  "ch_ok n ch = (case ch of (sp, st, cfg) \<Rightarrow> st \<in> {CHANNEL_STATE_SLEEP, CHANNEL_STATE_NORMAL, CHANNEL_STATE_BG} \<and>
     (availability cfg \<noteq> 0 \<longrightarrow> sp \<noteq> None) \<and> (case sp of None \<Rightarrow> st = CHANNEL_STATE_SLEEP | Some p \<Rightarrow> p < n))"

definition sp_ok :: "lheap \<Rightarrow> (nat option \<times> int \<times> channel_cfg) list \<Rightarrow> (nat option \<times> int \<times> bool) list \<Rightarrow> nat \<Rightarrow> bool" where
  "sp_ok h chs sps p \<longleftrightarrow> (\<exists>cs. chain h (fst (sps ! p)) cs \<and> set cs = on_clients chs p) \<and>
     fst (snd (sps ! p)) = int (card (counted chs p))"

definition core_ok :: "core \<Rightarrow> bool" where
  "core_ok = (\<lambda>(h, chs, sps). length chs \<le> 31 \<and> list_all (ch_ok (length sps)) chs \<and> (\<forall>p < length sps. sp_ok h chs sps p))"

lemma finite_on_clients [simp]: "finite (on_clients chs p)" "finite (counted chs p)"
  by (simp_all add: on_clients_def counted_def)

lemma card_counted: "card (counted chs p) \<le> length chs"
proof -
  have "counted chs p \<subseteq> {..<length chs}" by (auto simp: counted_def on_clients_def)
  then show ?thesis using card_mono [of "{..<length chs}"] by fastforce
qed

lemma on_clients_upd:
  assumes "c < length chs"
  shows "on_clients (chs[c := (sp, st, cfg)]) p = (if sp = Some p \<and> st \<noteq> 0 then insert c (on_clients chs p) else on_clients chs p - {c})"
  using assms by (auto simp: on_clients_def nth_list_update)

lemma counted_upd:
  assumes "c < length chs"
  shows "counted (chs[c := (sp, st, cfg)]) p =
    (if sp = Some p \<and> st \<noteq> 0 \<and> \<not> bypass_proc cfg then insert c (counted chs p) else counted chs p - {c})"
  using assms by (auto simp: counted_def on_clients_def nth_list_update)

lemma chain_frame: "(\<And>a. a \<in> set ds \<Longrightarrow> h' a = h a) \<Longrightarrow> chain h' p ds = chain h p ds"
  by (induction ds arbitrary: p) auto

lemma list_all_upd: "list_all P xs \<Longrightarrow> P x \<Longrightarrow> list_all P (xs[i := x])"
  by (auto simp: list_all_iff dest!: set_update_subset_insert [THEN subsetD])

text \<open>What it takes to put new lists and a new state of one channel in place.\<close>

lemma core_ok_upd:
  assumes ok: "core_ok (h, chs, sps)" and c: "c < length chs" "fst (chs ! c) = Some p" and ch: "ch_ok (length sps) (Some p, st, cfg)"
    and p: "chain h' head cs" "set cs = on_clients (chs[c := (Some p, st, cfg)]) p"
      "r = int (card (counted (chs[c := (Some p, st, cfg)]) p))"
    and h': "\<And>q ds. q \<noteq> p \<Longrightarrow> chain h (fst (sps ! q)) ds \<Longrightarrow> set ds = on_clients chs q \<Longrightarrow> chain h' (fst (sps ! q)) ds"
  shows "core_ok (h', chs[c := (Some p, st, cfg)], sps[p := (head, r, blk)])"
proof -
  have "sp_ok h' (chs[c := (Some p, st, cfg)]) (sps[p := (head, r, blk)]) q" if q: "q < length sps" for q
  proof (cases "q = p")
    case True
    then show ?thesis using q p by (auto simp: sp_ok_def)
  next
    case False
    have "sp_ok h chs sps q" using ok q by (simp add: core_ok_def)
    then obtain ds where ds: "chain h (fst (sps ! q)) ds" "set ds = on_clients chs q" "fst (snd (sps ! q)) = int (card (counted chs q))"
      by (auto simp: sp_ok_def)
    have "c \<notin> on_clients chs q" "c \<notin> counted chs q"
      using c False by (auto simp: counted_def on_clients_def)
    then have "on_clients (chs[c := (Some p, st, cfg)]) q = on_clients chs q" "counted (chs[c := (Some p, st, cfg)]) q = counted chs q"
      using False c by (simp_all add: on_clients_upd counted_upd)
    with False ds h' [OF False ds(1,2)] show ?thesis
      by (simp add: sp_ok_def) blast
  qed
  then show ?thesis
    using ok ch by (simp add: core_ok_def list_all_upd)
qed

lemma turn_on:
  assumes ok: "core_ok (h, chs, sps)" and c: "c < length chs" "chs ! c = (Some p, 0, cfg)" and st: "st \<in> {1, 2}"
    and sp: "sps ! p = (head, r, blk)"
  shows "core_ok (list_add_head h head c, chs[c := (Some p, st, cfg)], sps[p := (Some c, if bypass_proc cfg then r else r + 1, blk)])"
proof -
  have chk: "ch_ok (length sps) (Some p, 0, cfg)"
    using ok c by (fastforce simp: core_ok_def list_all_length)
  then have p: "p < length sps" and ch: "ch_ok (length sps) (Some p, st, cfg)"
    using st by (auto simp: ch_ok_def)
  have "sp_ok h chs sps p" using ok p by (simp add: core_ok_def)
  then obtain cs where cs: "chain h head cs" "set cs = on_clients chs p" and r: "r = int (card (counted chs p))"
    using sp by (auto simp: sp_ok_def)
  have out: "c \<notin> on_clients chs q" "c \<notin> counted chs q" for q
    using c by (auto simp: on_clients_def counted_def)
  show ?thesis
  proof (rule core_ok_upd [OF ok c(1) _ ch, of _ _ "c # cs"])
    show "chain (list_add_head h head c) (Some c) (c # cs)"
      using chain_add_head [OF cs(1)] cs(2) out by simp
    show "set (c # cs) = on_clients (chs[c := (Some p, st, cfg)]) p"
      "(if bypass_proc cfg then r else r + 1) = int (card (counted (chs[c := (Some p, st, cfg)]) p))"
      using st cs(2) r out by (auto simp: on_clients_upd [OF c(1)] counted_upd [OF c(1)])
    show "chain (list_add_head h head c) (fst (sps ! q)) ds" if "chain h (fst (sps ! q)) ds" "set ds = on_clients chs q" for q ds
      using that out by (simp add: list_add_head_def)
  qed (use c in simp)
qed

lemma turn_off:
  assumes ok: "core_ok (h, chs, sps)" and c: "c < length chs" "chs ! c = (Some p, st, cfg)" "st \<noteq> 0"
    and sp: "sps ! p = (head, r, blk)"
  obtains head' h' where "list_del_node h head c = Some (head', h')"
    "core_ok (h', chs[c := (Some p, 0, cfg)], sps[p := (head', if bypass_proc cfg \<or> r \<le> 0 then r else r - 1, blk)])"
proof -
  have chk: "ch_ok (length sps) (Some p, st, cfg)"
    using ok c by (fastforce simp: core_ok_def list_all_length)
  then have p: "p < length sps" and ch: "ch_ok (length sps) (Some p, 0, cfg)"
    by (auto simp: ch_ok_def)
  have "sp_ok h chs sps p" using ok p by (simp add: core_ok_def)
  then obtain cs where cs: "chain h head cs" "set cs = on_clients chs p" and r: "r = int (card (counted chs p))"
    using sp by (auto simp: sp_ok_def)
  obtain head' h' where del: "list_del_node h head c = Some (head', h')" and ch': "chain h' head' (remove1 c cs)"
      and fr: "\<forall>a. a \<notin> set cs \<longrightarrow> h' a = h a"
    using del_node_chain [OF cs(1)] by blast
  have inn: "c \<in> on_clients chs p" "c \<in> counted chs p \<longleftrightarrow> \<not> bypass_proc cfg"
    using c by (auto simp: on_clients_def counted_def)
  have "core_ok (h', chs[c := (Some p, 0, cfg)], sps[p := (head', if bypass_proc cfg \<or> r \<le> 0 then r else r - 1, blk)])"
  proof (rule core_ok_upd [OF ok c(1) _ ch, of _ _ "remove1 c cs"])
    show "chain h' head' (remove1 c cs)" by (rule ch')
    show "set (remove1 c cs) = on_clients (chs[c := (Some p, 0, cfg)]) p"
      using chain_distinct [OF cs(1)] cs(2) by (simp add: on_clients_upd [OF c(1)])
    have "0 < card (counted chs p)" if "\<not> bypass_proc cfg"
      using that inn by (simp add: card_gt_0_iff) blast
    then show "(if bypass_proc cfg \<or> r \<le> 0 then r else r - 1) = int (card (counted (chs[c := (Some p, 0, cfg)]) p))"
      using r inn by (auto simp: counted_upd [OF c(1)] card_Diff_singleton)
    show "chain h' (fst (sps ! q)) ds" if "q \<noteq> p" "chain h (fst (sps ! q)) ds" "set ds = on_clients chs q" for q ds
    proof -
      have "a \<notin> set cs" if "a \<in> set ds" for a
        using that \<open>q \<noteq> p\<close> unfolding cs(2) \<open>set ds = on_clients chs q\<close> by (simp add: on_clients_def)
      then have "\<And>a. a \<in> set ds \<Longrightarrow> h' a = h a" using fr by simp
      then have "chain h' (fst (sps ! q)) ds = chain h (fst (sps ! q)) ds" by (rule chain_frame)
      with that(2) show ?thesis by blast
    qed
  qed (use c in simp)
  with del that show thesis by blast
qed

section \<open>The operations on this part of the state\<close>

lemma core_sp:
  assumes "core s = (h, chs, sps)" "p < length sps"
  shows "g_next s = h" "length (g_list_sp s) = length sps" "sp_clients (g_list_sp s ! p) = fst (sps ! p)"
    "sp_ref (g_list_sp s ! p) = fst (snd (sps ! p))" "re_op_blk (sp_re (g_list_sp s ! p)) = snd (snd (sps ! p))"
  using assms by (auto simp: core_def)

lemma core_ch:
  assumes "core s = (h, chs, sps)" "c < length chs"
  shows "length (g_list_ch s) = length chs" "ch_sp (g_list_ch s ! c) = fst (chs ! c)" "ch_state (g_list_ch s ! c) = fst (snd (chs ! c))"
    "ch_cfg (g_list_ch s ! c) = snd (snd (chs ! c))"
  using assms by (auto simp: core_def)

lemma core_upd_next: "core s = (h, chs, sps) \<Longrightarrow> core (s\<lparr>g_next := h'\<rparr>) = (h', chs, sps)"
  by (auto simp: core_def)

lemma core_upd_sp:
  "core s = (h, chs, sps) \<Longrightarrow> core (snd (run_state (upd_sp p f) s)) =
     (h, chs, sps[p := (sp_clients (f (g_list_sp s ! p)), sp_ref (f (g_list_sp s ! p)), re_op_blk (sp_re (f (g_list_sp s ! p))))])"
  by (auto simp: core_def upd_sp_def map_update)

lemma core_upd_ch:
  "core s = (h, chs, sps) \<Longrightarrow> core (snd (run_state (upd_ch c f) s)) =
     (h, chs[c := (ch_sp (f (g_list_ch s ! c)), ch_state (f (g_list_ch s ! c)), ch_cfg (f (g_list_ch s ! c)))], sps)"
  by (auto simp: core_def upd_ch_def map_update)

lemma core_tr [simp]: "core (s\<lparr>tr := t\<rparr>) = core s" "core (s\<lparr>ub := b\<rparr>) = core s"
  by (simp_all add: core_def)

lemma link_core:
  assumes s: "core s = (h, chs, sps)" and p: "p < length sps" "sps ! p = (head, r, blk)"
  shows "e \<noteq> 0 \<Longrightarrow> list_find_node h head c = Some None \<Longrightarrow>
      core (snd (run_state (sp_link_ch p c e) s)) = (list_add_head h head c, chs, sps[p := (Some c, r, blk)])"
    and "e = 0 \<Longrightarrow> list_del_node h head c = Some (head', h') \<Longrightarrow>
      core (snd (run_state (sp_link_ch p c e) s)) = (h', chs, sps[p := (head', r, blk)])"
  using core_sp [OF s p(1)] p core_upd_next [OF s]
  by (auto simp: sp_link_ch_def split_beta core_upd_sp)

lemma update_ref_core:
  assumes s: "core s = (h, chs, sps)" and p: "p < length sps" "sps ! p = (head, r, blk)"
    and run: "run_state (sp_update_ref p e) s = ((), s')"
  shows "core s' = (h, chs, sps[p := (head, if e \<noteq> 0 then swrap 6 (r + 1) else if 0 < r then r - 1 else r, blk)])"
    "e \<noteq> 0 \<Longrightarrow> swrap 6 (r + 1) = 1 \<Longrightarrow> \<not> blk \<Longrightarrow> tr s' = E_thread C_signal p # tr s"
proof -
  have l: "length (g_list_sp s) = length sps" "sp_clients (g_list_sp s ! p) = head" "sp_ref (g_list_sp s ! p) = r"
    "re_op_blk (sp_re (g_list_sp s ! p)) = blk"
    using core_sp [OF s p(1)] p by auto
  have c: "core (snd (run_state (upd_sp p f) s)) = (h, chs, sps[p := (sp_clients (f (g_list_sp s ! p)), sp_ref (f (g_list_sp s ! p)), re_op_blk (sp_re (f (g_list_sp s ! p))))])" for f
    by (rule core_upd_sp [OF s])
  show "core s' = (h, chs, sps[p := (head, if e \<noteq> 0 then swrap 6 (r + 1) else if 0 < r then r - 1 else r, blk)])"
    using run l c [of "\<lambda>sp. sp\<lparr>sp_ref := swrap 6 (sp_ref sp + 1)\<rparr>"] c [of "\<lambda>sp. if 0 < sp_ref sp then sp\<lparr>sp_ref := sp_ref sp - 1\<rparr> else sp"]
    by (auto simp: sp_update_ref_def split_beta split: if_splits)
  show "e \<noteq> 0 \<Longrightarrow> swrap 6 (r + 1) = 1 \<Longrightarrow> \<not> blk \<Longrightarrow> tr s' = E_thread C_signal p # tr s"
    using run l p(1) by (auto simp: sp_update_ref_def upd_sp_def)
qed

text \<open>What is common to enabling and disabling: everything but the link and the count leaves this part alone.\<close>

lemma enable_core:
  fixes s :: "'a sp_st_scheme"
  assumes run: "run_state (sp_enable_ch p c e) s = ((), s')"
    and link: "core (snd (run_state (sp_link_ch p c e) s)) = (h, chs, sps)"
    and c: "c < length chs" and p: "p < length sps" "sps ! p = (head, r, blk)"
  shows "core s' = (h, chs, sps[p := (head, if bypass_proc (snd (snd (chs ! c))) then r
      else if e \<noteq> 0 then swrap 6 (r + 1) else if 0 < r then r - 1 else r, blk)])"
    "e \<noteq> 0 \<Longrightarrow> swrap 6 (r + 1) = 1 \<Longrightarrow> \<not> blk \<Longrightarrow> \<not> bypass_proc (snd (snd (chs ! c))) \<Longrightarrow> \<exists>t. tr s' = E_thread C_signal p # t"
proof -
  define mid :: "('a sp_st_scheme, channel) state" where "mid = do {
     _ \<leftarrow> sp_cb_on_ch_enabled p c e;
     _ \<leftarrow> sp_re_check_dep_hw p;
     sp \<leftarrow> gets (\<lambda>s. g_list_sp s ! p);
     (if p = SP_FUSION then do { _ \<leftarrow> fusion_on_hw_dep_checked (sp_curr_hw_dep sp); ret () } else ret ());
     sp_recalc_interval_re p;
     gets (\<lambda>s. g_list_ch s ! c)
   }"
  have m: "same_core mid" unfolding mid_def by (intro core_rules)
  obtain s1 where 1: "run_state (sp_link_ch p c e) s = ((), s1)"
    by (metis old.unit.exhaust surj_pair)
  obtain ch s2 where 2: "run_state mid s1 = (ch, s2)" by fastforce
  have s2: "core s2 = (h, chs, sps)" using same_coreD [OF m 2] link 1 by simp
  have ch: "ch = g_list_ch s2 ! c" using 2 by (auto simp: mid_def split_beta)
  have b: "bypass_proc (ch_cfg ch) = bypass_proc (snd (snd (chs ! c)))"
    using core_ch [OF s2 c] ch by simp
  have eq: "run_state (sp_enable_ch p c e) s = run_state (if bypass_proc (ch_cfg ch) then ret () else sp_update_ref p e) s2"
  proof -
    have "sp_enable_ch p c e = do { sp_link_ch p c e; ch \<leftarrow> mid; if bypass_proc (ch_cfg ch) then ret () else sp_update_ref p e }"
      unfolding sp_enable_ch_def mid_def by (simp only: State_Monad.bind_assoc)
    with 1 2 show ?thesis by simp
  qed
  show "core s' = (h, chs, sps[p := (head, if bypass_proc (snd (snd (chs ! c))) then r
      else if e \<noteq> 0 then swrap 6 (r + 1) else if 0 < r then r - 1 else r, blk)])"
    using run eq b s2 update_ref_core(1) [OF s2 p] list_update_id [of sps p, unfolded p(2)] by (auto split: if_splits)
  show "e \<noteq> 0 \<Longrightarrow> swrap 6 (r + 1) = 1 \<Longrightarrow> \<not> blk \<Longrightarrow> \<not> bypass_proc (snd (snd (chs ! c))) \<Longrightarrow> \<exists>t. tr s' = E_thread C_signal p # t"
    using run eq b update_ref_core(2) [OF s2 p] by auto
qed

text \<open>
  The effect of \<open>channel_set_state\<close>, in a state that is all right and for a state of a channel the code uses: the channel has
  the new state, the invariant holds, and when the count of the provider becomes positive, its thread has been signalled.
\<close>

lemma set_state_core:
  fixes s :: "'a sp_st_scheme"
  assumes run: "run_state (channel_set_state c st) s = (err, s')" and s: "core s = (h, chs, sps)" and ok: "core_ok (h, chs, sps)"
    and c: "c < length chs" "chs ! c = (Some p, st0, cfg)" and st: "st \<in> {0, 1, 2}"
  obtains h' sps' where "core s' = (h', chs[c := (Some p, st, cfg)], sps')" "core_ok (h', chs[c := (Some p, st, cfg)], sps')" "err = 0"
    "map (\<lambda>sp. snd (snd sp)) sps' = map (\<lambda>sp. snd (snd sp)) sps"
    "\<And>q. q < length sps \<Longrightarrow> fst (snd (sps ! q)) = 0 \<Longrightarrow> fst (snd (sps' ! q)) \<noteq> 0 \<Longrightarrow> \<not> snd (snd (sps ! q)) \<Longrightarrow>
       \<exists>es. tr s' = es @ tr s \<and> E_thread C_signal q \<in> set es"
proof -
  have ck: "ch_ok (length sps) (Some p, st0, cfg)"
    using ok c by (fastforce simp: core_ok_def list_all_length)
  then have p: "p < length sps" and st0: "st0 \<in> {0, 1, 2}" by (auto simp: ch_ok_def)
  obtain head r blk where sp: "sps ! p = (head, r, blk)" by (metis prod_cases3)
  have spk: "sp_ok h chs sps p" using ok p by (simp add: core_ok_def)
  have r: "0 \<le> r" "r \<le> 31"
    using spk sp card_counted [of chs p] ok by (auto simp: sp_ok_def core_ok_def)
  define s0 where "s0 = s\<lparr>tr := E_lock (L_ch c) # tr s\<rparr>"
  have s0: "core s0 = (h, chs, sps)" using s by (simp add: s0_def)
  have chn: "ch_sp (g_list_ch s ! c) = Some p" "ch_state (g_list_ch s ! c) = st0" "ch_cfg (g_list_ch s ! c) = cfg"
    using core_ch [OF s c(1)] c by auto
  let ?fin = "\<lambda>s1. (snd (run_state (upd_ch c (\<lambda>ch. ch\<lparr>ch_prev_state := ch_state ch, ch_state := swrap 4 st\<rparr>)) s1))"
  have sw: "swrap 4 st = st" using st by auto
  have fin: "core (?fin s1) = (h1, chs[c := (Some p, st, cfg)], sps1)" "tr (?fin s1) = tr s1" if "core s1 = (h1, chs, sps1)" for s1 :: "'a sp_st_scheme" and h1 sps1
    using core_upd_ch [OF that, of c "\<lambda>ch. ch\<lparr>ch_prev_state := ch_state ch, ch_state := swrap 4 st\<rparr>"] core_ch [OF that c(1)] c sw
    by (simp_all, simp add: upd_ch_def)
  have upd: "map (\<lambda>sp. snd (snd sp)) (sps[p := (x, y, blk)]) = map (\<lambda>sp. snd (snd sp)) sps" for x y
    using sp p by (metis (no_types, lifting) list_update_id map_update snd_conv)
  show thesis
  proof (cases "(st = 0) = (st0 = 0)")
    case True
    then have s': "err = 0" "s' = (?fin s0)\<lparr>tr := E_unlock (L_ch c) # tr (?fin s0)\<rparr>"
      using run st by (auto simp: channel_set_state_def chn s0_def split: if_splits prod.splits)
    have same: "on_clients (chs[c := (Some p, st, cfg)]) q = on_clients chs q" "counted (chs[c := (Some p, st, cfg)]) q = counted chs q" for q
      using True c by (auto simp: on_clients_upd on_clients_def counted_def nth_list_update)
    have "core_ok (h, chs[c := (Some p, st, cfg)], sps)"
      using ok ck st same by (simp add: core_ok_def sp_ok_def list_all_upd ch_ok_def)
    then show thesis
      using that [of h sps] s' fin [OF s0] by simp
  next
    case False
    define e :: int where "e = (if st = 0 then 0 else 1)"
    obtain s1 where 1: "run_state (sp_enable_ch p c e) s0 = ((), s1)"
      by (metis old.unit.exhaust surj_pair)
    have s': "err = 0" "s' = (?fin s1)\<lparr>tr := E_unlock (L_ch c) # tr (?fin s1)\<rparr>"
      using run False st 1 by (auto simp: channel_set_state_def chn s0_def e_def split: if_splits prod.splits)
    show thesis
    proof (cases "st = 0")
      case True
      with False have "st0 \<noteq> 0" by simp
      from turn_off [OF ok c this sp] obtain head' h' where del: "list_del_node h head c = Some (head', h')"
          "core_ok (h', chs[c := (Some p, 0, cfg)], sps[p := (head', if bypass_proc cfg \<or> r \<le> 0 then r else r - 1, blk)])" .
      have "core s1 = (h', chs, sps[p := (head', if bypass_proc cfg \<or> r \<le> 0 then r else r - 1, blk)])"
        using enable_core(1) [OF 1 link_core(2) [OF s0 p sp _ del(1)] c(1), of head' r blk] True c p
        by (auto simp: e_def)
      note fin1 = fin [OF this]
      show thesis
      proof (rule that)
        show "core s' = (h', chs[c := (Some p, st, cfg)], sps[p := (head', if bypass_proc cfg \<or> r \<le> 0 then r else r - 1, blk)])"
          using fin1 s'(2) by simp
        show "core_ok (h', chs[c := (Some p, st, cfg)], sps[p := (head', if bypass_proc cfg \<or> r \<le> 0 then r else r - 1, blk)])"
          using del(2) True by simp
      qed (use s'(1) upd sp p in \<open>auto simp: nth_list_update split: if_splits\<close>)
    next
      case st1: False
      with False have st0: "st0 = 0" by simp
      have out: "list_find_node h head c = Some None"
      proof -
        obtain cs where "chain h head cs" "set cs = on_clients chs p" using spk sp by (auto simp: sp_ok_def)
        then show ?thesis using find_node_chain [of h head cs c] c st0 by (auto simp: on_clients_def)
      qed
      note on = turn_on [OF ok c(1) c(2) [unfolded st0] _ sp, of st]
      have r31: "\<not> bypass_proc cfg \<longrightarrow> r < 31"
      proof
        assume "\<not> bypass_proc cfg"
        have "insert c (counted chs p) \<subseteq> {..<length chs}" "c \<notin> counted chs p"
          using c st0 by (auto simp: counted_def on_clients_def)
        then have "Suc (card (counted chs p)) \<le> length chs"
          using card_mono [of "{..<length chs}" "insert c (counted chs p)"] by simp
        then show "r < 31" using spk sp ok by (auto simp: sp_ok_def core_ok_def)
      qed
      have sw6: "\<not> bypass_proc cfg \<longrightarrow> swrap 6 (r + 1) = r + 1"
        using r31 r by auto
      let ?sps = "sps[p := (Some c, if bypass_proc cfg then r else r + 1, blk)]"
      note en = enable_core [OF 1 link_core(1) [OF s0 p sp _ out] c(1), of "Some c" r blk]
      have s1: "core s1 = (list_add_head h head c, chs, ?sps)"
        using en(1) st1 c p sw6 by (auto simp: e_def)
      have sig: "\<exists>t. tr s1 = E_thread C_signal p # t" if "r = 0" "\<not> bypass_proc cfg" "\<not> blk"
        using en(2) that st1 c p sw6 by (auto simp: e_def)
      note fin1 = fin [OF s1]
      show thesis
      proof (rule that)
        show "core s' = (list_add_head h head c, chs[c := (Some p, st, cfg)], ?sps)"
          using fin1 s'(2) by simp
        show "core_ok (list_add_head h head c, chs[c := (Some p, st, cfg)], ?sps)"
          using on st st1 by simp
        show "\<exists>es. tr s' = es @ tr s \<and> E_thread C_signal q \<in> set es"
          if "q < length sps" "fst (snd (sps ! q)) = 0" "fst (snd (?sps ! q)) \<noteq> 0" "\<not> snd (snd (sps ! q))" for q
        proof -
          have q: "q = p" "r = 0" "\<not> bypass_proc cfg" "\<not> blk"
            using that sp p by (cases "q = p"; auto split: if_splits)+
          then obtain t where t: "tr s1 = E_thread C_signal p # t" using sig by blast
          moreover obtain es where es: "tr s1 = es @ tr s0"
            using lockt_run [OF lockt_cb(5) [of "[]"] 1] by (auto simp: inner_free_def)
          ultimately have "E_thread C_signal p \<in> set es"
            by (cases es) (auto simp: s0_def)
          then show ?thesis
            using s'(2) fin1(2) es q by (intro exI [of _ "E_unlock (L_ch c) # es @ [E_lock (L_ch c)]"]) (simp add: s0_def)
        qed
      qed (use s'(1) upd in auto)
    qed
  qed
qed

lemma hdl2idx_range: "hdl2idx chs i handle = - 1 \<or> (\<exists>c. hdl2idx chs i handle = int (i + c) \<and> c < length chs)"
proof (induction chs arbitrary: i)
  case (Cons ch chs)
  show ?case
    using Cons.IH [of "Suc i"] by (auto simp: algebra_simps intro: exI [of _ "Suc _"] exI [of _ 0])
qed simp

lemma with_sp_lock_run:
  assumes "run_state (with_sp_lock p m) s = ((), s')" and blk: "\<not> re_op_blk (sp_re (g_list_sp s ! p))"
    and m: "run_state m (s\<lparr>tr := E_lock (L_sp p) # tr s\<rparr>) = ((), s1)" and same: "\<not> re_op_blk (sp_re (g_list_sp s1 ! p))"
  shows "s' = s1\<lparr>tr := E_unlock (L_sp p) # tr s1\<rparr>"
  using assms by (auto simp: with_sp_lock_def)

text \<open>
  A command to a channel, in a state that is all right: the invariant holds after it, and a thread whose count becomes positive
  has been signalled. The threads of the providers are told apart by their number; none may block.
\<close>

definition all_block :: "'a sp_st_scheme \<Rightarrow> bool" where
  "all_block s \<longleftrightarrow> (\<forall>sp \<in> set (g_list_sp s). \<not> re_op_blk (sp_re sp))"

definition sp_inv :: "'a sp_st_scheme \<Rightarrow> bool" where
  "sp_inv s \<longleftrightarrow> core_ok (core s) \<and> all_block s"

lemma all_block_core: "core s = (h, chs, sps) \<Longrightarrow> all_block s = list_all (\<lambda>sp. \<not> snd (snd sp)) sps"
  by (auto simp: all_block_def core_def list_all_iff)

lemma sp_inv_core: "core s' = core s \<Longrightarrow> sp_inv s' = sp_inv s"
proof -
  assume "core s' = core s"
  moreover obtain h chs sps where "core s = (h, chs, sps)" by (metis prod_cases3)
  ultimately show ?thesis by (simp add: sp_inv_def all_block_core)
qed

text \<open>
  What a command does: nothing, a change of state or a new interval of a channel, inside the lock of its provider.
\<close>

lemma cmd_shape:
  fixes s :: "'a sp_st_scheme"
  assumes run: "run_state (channel_on_cmd_received handle cmd v) s = (err, s')" and inv: "sp_inv s" and s: "core s = (h, chs, sps)"
  obtains (nothing) "s' = s" "cmd = SET_SENSOR_ACTIVE \<Longrightarrow> hdl2idx (g_list_ch s) 0 handle = - 1 \<or>
      availability (ch_cfg (g_list_ch s ! nat (hdl2idx (g_list_ch s) 0 handle))) = 0"
  | (active) c p st cfg e1 s1 h' sps' where "hdl2idx (g_list_ch s) 0 handle = int c" "cmd = SET_SENSOR_ACTIVE"
      "c < length chs" "chs ! c = (Some p, st, cfg)" "availability cfg \<noteq> 0" "p < length sps"
      "run_state (channel_set_state c (if v \<noteq> 0 then CHANNEL_STATE_NORMAL else CHANNEL_STATE_SLEEP)) (s\<lparr>tr := E_lock (L_sp p) # tr s\<rparr>) = (e1, s1)"
      "s' = s1\<lparr>tr := E_unlock (L_sp p) # tr s1\<rparr>"
      "core s' = (h', chs[c := (Some p, if v \<noteq> 0 then CHANNEL_STATE_NORMAL else CHANNEL_STATE_SLEEP, cfg)], sps')"
      "sp_inv s'" "length sps' = length sps"
      "\<And>q. q < length sps \<Longrightarrow> fst (snd (sps ! q)) = 0 \<Longrightarrow> fst (snd (sps' ! q)) \<noteq> 0 \<Longrightarrow>
         \<exists>es. tr s' = es @ tr s \<and> E_thread C_signal q \<in> set es"
  | (delay) c p cfg s1 where "p < length sps" "cmd = SET_SENSOR_DELAY"
      "run_state (do { _ \<leftarrow> sp_cb_on_ch_interval_changed p c (clamp cfg v); sp_recalc_interval_re p }) (s\<lparr>tr := E_lock (L_sp p) # tr s\<rparr>) = ((), s1)"
      "s' = s1\<lparr>tr := E_unlock (L_sp p) # tr s1\<rparr>" "core s' = core s"
proof -
  have ok: "core_ok (h, chs, sps)" and blk: "list_all (\<lambda>sp. \<not> snd (snd sp)) sps"
    using inv s all_block_core [OF s] by (auto simp: sp_inv_def)
  obtain ci where ci: "ci = hdl2idx (g_list_ch s) 0 handle" by blast
  show thesis
  proof (cases "ci = - 1")
    case True
    then have "s' = s"
      using run ci by (auto simp: channel_on_cmd_received_def channel_get_ch_def channel_hdl2idx_def)
    then show ?thesis by (rule nothing) (use True ci in simp_all)
  next
    case False
    then obtain c where c: "ci = int c" "c < length chs"
      using hdl2idx_range [of "g_list_ch s" 0 handle] ci s by (auto simp: core_def)
    obtain spo st cfg where chc: "chs ! c = (spo, st, cfg)" by (metis prod_cases3)
    have g: "ch_sp (g_list_ch s ! c) = spo" "ch_cfg (g_list_ch s ! c) = cfg"
      using core_ch [OF s c(2)] chc by auto
    have get: "run_state (channel_get_ch handle) s = (Some c, s)"
      using False ci c by (simp add: channel_get_ch_def channel_hdl2idx_def)
    have chk: "ch_ok (length sps) (spo, st, cfg)"
      using ok c(2) chc by (fastforce simp: core_ok_def list_all_length)
    show ?thesis
    proof (cases "availability cfg = 0")
      case True
      then have same: "s' = s"
        using run g get by (auto simp: channel_on_cmd_received_def)
      have idx: "hdl2idx (g_list_ch s) 0 handle = int c" using ci c(1) by simp
      show ?thesis by (rule nothing) (simp_all add: same idx g True)
    next
      case False
      then obtain p where p: "spo = Some p" "p < length sps"
        using chk by (auto simp: ch_ok_def)
      have b: "\<not> re_op_blk (sp_re (g_list_sp s1 ! p))" if "core s1 = (h1, chs1, sps1)" "length sps1 = length sps" "list_all (\<lambda>sp. \<not> snd (snd sp)) sps1"
        for s1 :: "'a sp_st_scheme" and h1 chs1 sps1
        using core_sp [OF that(1), of p] that(2,3) p(2) by (auto simp: list_all_length)
      define sl where "sl = s\<lparr>tr := E_lock (L_sp p) # tr s\<rparr>"
      have sl: "core sl = (h, chs, sps)" using s by (simp add: sl_def)
      let ?st = "if v \<noteq> 0 then CHANNEL_STATE_NORMAL else CHANNEL_STATE_SLEEP"
      consider "cmd = SET_SENSOR_ACTIVE" | "cmd = SET_SENSOR_DELAY" "\<not> v < SAMPLE_INTERVAL_MIN"
        | "cmd \<noteq> SET_SENSOR_ACTIVE" "cmd = SET_SENSOR_DELAY \<longrightarrow> v < SAMPLE_INTERVAL_MIN" by blast
      then show ?thesis
      proof cases
        case 1
        obtain e1 s1 where r1: "run_state (channel_set_state c ?st) sl = (e1, s1)" by fastforce
        have st3: "?st \<in> {0, 1, 2}" by simp
        obtain h' sps' where
            k: "core s1 = (h', chs[c := (Some p, ?st, cfg)], sps')" "core_ok (h', chs[c := (Some p, ?st, cfg)], sps')"
              "e1 = 0" "map (\<lambda>sp. snd (snd sp)) sps' = map (\<lambda>sp. snd (snd sp)) sps"
            and sig: "\<And>q. q < length sps \<Longrightarrow> fst (snd (sps ! q)) = 0 \<Longrightarrow> fst (snd (sps' ! q)) \<noteq> 0 \<Longrightarrow> \<not> snd (snd (sps ! q)) \<Longrightarrow>
              \<exists>es. tr s1 = es @ tr sl \<and> E_thread C_signal q \<in> set es"
          by (rule set_state_core [OF r1 sl ok c(2) chc [unfolded p(1)] st3]) (rule that, assumption+)
        have len: "length sps' = length sps" using map_eq_imp_length_eq [OF k(4)] .
        have blk': "list_all (\<lambda>sp. \<not> snd (snd sp)) sps'"
          using blk k(4) len by (metis (no_types, lifting) list_all_length nth_map)
        have "run_state (with_sp_lock p (do { _ \<leftarrow> channel_set_state c ?st; ret () })) s = ((), s')"
          using run get g p False 1 by (auto simp: channel_on_cmd_received_def split: prod.splits)
        from with_sp_lock_run [OF this b [OF s refl blk] _ b [OF k(1) len blk']] r1
        have s': "s' = s1\<lparr>tr := E_unlock (L_sp p) # tr s1\<rparr>" by (simp add: sl_def)
        then have core': "core s' = (h', chs[c := (Some p, ?st, cfg)], sps')" using k(1) by simp
        show thesis
        proof (rule active)
          show "hdl2idx (g_list_ch s) 0 handle = int c" using ci c by simp
          show "chs ! c = (Some p, st, cfg)" "availability cfg \<noteq> 0" using chc p False by simp_all
          show "run_state (channel_set_state c ?st) (s\<lparr>tr := E_lock (L_sp p) # tr s\<rparr>) = (e1, s1)" using r1 by (simp add: sl_def)
          show "sp_inv s'" using k(2) blk' core' all_block_core [OF core'] by (simp add: sp_inv_def)
          show "\<exists>es. tr s' = es @ tr s \<and> E_thread C_signal q \<in> set es"
            if q: "q < length sps" "fst (snd (sps ! q)) = 0" "fst (snd (sps' ! q)) \<noteq> 0" for q
          proof -
            obtain es where "tr s1 = es @ tr sl" "E_thread C_signal q \<in> set es"
              using sig [OF q] blk q(1) by (auto simp: list_all_length)
            then show ?thesis
              using s' by (intro exI [of _ "E_unlock (L_sp p) # es @ [E_lock (L_sp p)]"]) (simp add: sl_def)
          qed
        qed (fact 1 c(2) p(2) s' core' len)+
      next
        case 2
        let ?m = "do { _ \<leftarrow> sp_cb_on_ch_interval_changed p c (clamp cfg v); sp_recalc_interval_re p }"
        obtain s1 where r1: "run_state ?m sl = ((), s1)" by (metis old.unit.exhaust surj_pair)
        have k: "core s1 = (h, chs, sps)"
          using same_coreD [OF _ r1] sl by (auto intro!: core_rules)
        have "run_state (with_sp_lock p ?m) s = ((), s')"
          using run get g p False 2 by (auto simp: channel_on_cmd_received_def split: prod.splits)
        from with_sp_lock_run [OF this b [OF s refl blk] _ b [OF k refl blk]] r1
        have "s' = s1\<lparr>tr := E_unlock (L_sp p) # tr s1\<rparr>" by (simp add: sl_def)
        with delay [OF p(2) 2(1) r1 [unfolded sl_def]] k s show ?thesis by simp
      next
        case 3
        then have same: "s' = s"
          using run get g p False by (auto simp: channel_on_cmd_received_def split: if_splits)
        show ?thesis by (rule nothing) (simp_all add: same 3)
      qed
    qed
  qed
qed

lemma cmd_core:
  fixes s :: "'a sp_st_scheme"
  assumes run: "run_state (channel_on_cmd_received handle cmd v) s = (err, s')" and inv: "sp_inv s"
  shows "sp_inv s'" "length (g_list_sp s') = length (g_list_sp s)"
    "q < length (g_list_sp s) \<Longrightarrow> sp_ref (g_list_sp s ! q) = 0 \<Longrightarrow> sp_ref (g_list_sp s' ! q) \<noteq> 0 \<Longrightarrow>
       \<exists>es. tr s' = es @ tr s \<and> E_thread C_signal q \<in> set es"
proof -
  obtain h chs sps where s: "core s = (h, chs, sps)" by (metis prod_cases3)
  have "sp_inv s' \<and> length (g_list_sp s') = length (g_list_sp s) \<and>
    (\<forall>q < length (g_list_sp s). sp_ref (g_list_sp s ! q) = 0 \<longrightarrow> sp_ref (g_list_sp s' ! q) \<noteq> 0 \<longrightarrow>
       (\<exists>es. tr s' = es @ tr s \<and> E_thread C_signal q \<in> set es))"
  proof (rule cmd_shape [OF run inv s], goal_cases)
    case 1
    then show ?thesis using inv by simp
  next
    case active: (2 c p st cfg e1 s1 h' sps')
    have len: "length (g_list_sp s) = length sps" "length (g_list_sp s') = length sps"
      using s active(9,11) by (auto simp: core_def)
    have "sp_ref (g_list_sp s ! q) = fst (snd (sps ! q))" "sp_ref (g_list_sp s' ! q) = fst (snd (sps' ! q))" if "q < length sps" for q
      using core_sp(4) [OF s that] core_sp(4) [OF active(9), of q] that active(11) by simp_all
    with active len show ?thesis by simp
  next
    case delay: (3 c p cfg s1)
    with inv sp_inv_core [OF delay(5)] show ?thesis
      by (auto simp: core_def list_eq_iff_nth_eq)
  qed
  then show "sp_inv s'" "length (g_list_sp s') = length (g_list_sp s)"
    "q < length (g_list_sp s) \<Longrightarrow> sp_ref (g_list_sp s ! q) = 0 \<Longrightarrow> sp_ref (g_list_sp s' ! q) \<noteq> 0 \<Longrightarrow>
       \<exists>es. tr s' = es @ tr s \<and> E_thread C_signal q \<in> set es"
    by simp_all
qed

text \<open>The locks of a command are nested and all released.\<close>

lemma cmd_locks:
  assumes run: "run_state (channel_on_cmd_received handle cmd v) s = (err, s')" and inv: "sp_inv s"
  shows "\<exists>es. tr s' = es @ tr s \<and> held [] (rev es) = Some []"
proof -
  obtain h chs sps where s: "core s = (h, chs, sps)" by (metis prod_cases3)
  have wrap: "\<exists>es. tr s' = es @ tr s \<and> held [] (rev es) = Some []"
    if m: "lockt [L_sp p] m [L_sp p]" "run_state m (s\<lparr>tr := E_lock (L_sp p) # tr s\<rparr>) = (a, s1)"
      "s' = s1\<lparr>tr := E_unlock (L_sp p) # tr s1\<rparr>" for p m s1 and a :: 'c
  proof -
    obtain es where "tr s1 = es @ E_lock (L_sp p) # tr s" "held [L_sp p] (rev es) = Some [L_sp p]"
      using lockt_run [OF m(1,2)] by auto
    then show ?thesis
      using m(3) by (intro exI [of _ "E_unlock (L_sp p) # es @ [E_lock (L_sp p)]"]) (simp add: held_append hold_def)
  qed
  show ?thesis
  proof (rule cmd_shape [OF run inv s], goal_cases)
    case 1
    then show ?thesis by simp
  next
    case active: (2 c p st cfg e1 s1 h' sps')
    show ?thesis
      by (rule wrap [OF _ active(7,8)]) (auto intro!: lock_rules simp: inner_free_def)
  next
    case delay: (3 c p cfg s1)
    show ?thesis
      by (rule wrap [OF _ delay(3,4)]) (auto intro!: lock_rules simp: inner_free_def)
  qed
qed

end
