(* ===== verification/Sp_Threads.thy ===== *)
theory Sp_Threads
  imports Sp_Inv
begin

text \<open>
  The thread of commands and the threads of the providers (\<open>re_proc\<close>) together: a step relation whose steps are the pieces
  the threads run under the lock of a provider, or without touching what they share.
\<close>

section \<open>What a turn leaves alone\<close>

lemma quiet_collect_fds [quiet_rules]: "hw_quiet (collect_fds bm is)"
  by (induction "is") (auto intro!: quiet_rules split: option.splits)

lemma quiet_peek [quiet_rules]: "hw_quiet (hw_peek_data_status bm)"
  unfolding hw_peek_data_status_def by (auto intro!: quiet_rules)

lemma sp_quiet_sense [spq_rules]:
  "sp_quiet (hw_peek_data_status bm)" "sp_quiet hw_acc_read_xyzdata" "sp_quiet (hw_acc_read_xyzdata_input_ev v)"
  "sp_quiet hw_mag_read_xyzdata"
  by (auto intro!: sp_quiet_hw quiet_rules)

lemma sp_quiet_proc [spq_rules]: "sp_quiet (fusion_proc_data ts)"
  unfolding fusion_proc_data_def algo_proc_data_def algo_update_data_def update_a_def update_m_def
  by (auto intro!: spq_rules)

lemma sp_quiet_get [spq_rules]:
  "sp_quiet (algo_get_proc_data_a d)" "sp_quiet (algo_get_proc_data_m d)" "sp_quiet (algo_get_proc_data_o d)"
  "sp_quiet (algo_get_proc_data_g d)" "sp_quiet (algo_get_proc_data_vg d)" "sp_quiet (algo_get_proc_data_vla d)"
  "sp_quiet (algo_get_proc_data_vrv d)" "sp_quiet (algo_get_proc_data_gest_flip d)" "sp_quiet (txt_file_read_int fd b)"
  unfolding algo_get_proc_data_a_def algo_get_proc_data_m_def algo_get_proc_data_o_def algo_get_proc_data_g_def
    algo_get_proc_data_vg_def algo_get_proc_data_vla_def algo_get_proc_data_vrv_def algo_get_proc_data_gest_flip_def
    txt_file_read_int_def
  by (auto intro!: spq_rules split: list.splits)

lemma sp_quiet_ch [spq_rules]: "sp_quiet (ch_get_data ty d :: ('a sp_st_scheme, int \<times> sensor_data) state)"
  unfolding ch_get_data_def get_data_a_def get_data_m_def get_data_o_def get_data_g_def get_data_vg_def get_data_vla_def
    get_data_vrv_def get_data_gest_flip_def get_data_p_def
  by (auto intro!: spq_rules split: list.splits)

lemma sp_quiet_tick [spq_rules]: "sp_quiet get_time_tick"
  unfolding get_time_tick_def by (auto intro!: spq_rules)

lemma sp_quiet_sleep [spq_rules]: "sp_quiet (eusleep us)"
  by (auto intro!: sp_quiet_hw quiet_rules)

lemma same_core_collect [core_rules]: "same_core (collect cs t n data)"
  by (induction cs arbitrary: n data) (auto intro!: core_rules same_core_quiet [OF sp_quiet_ch])

lemma same_core_turn [core_rules]:
  "same_core (re_block p)" "same_core (re_wake p)" "same_core (re_collect p)" "same_core (re_report p n t)"
  unfolding re_block_def re_wake_def re_collect_def re_report_def set_sleeping_def sp_report_data_def
  by (auto intro!: core_rules same_core_quiet [OF sp_quiet_tick] same_core_quiet [OF sp_quiet_proc] same_core_quiet [OF sp_quiet_sleep])

section \<open>The steps\<close>

text \<open>
  Where the thread of a provider is: at the top of its loop, in the wait for a client, or past the lock with packets to
  report.
\<close>

datatype phase = Top | Waiting | Reporting nat int

text \<open>
  The state, the phases, and for which threads a signal is pending: a signal is lost on a thread that does not wait. The steps:
  a command; the top of the loop of a thread up to the wait, or through to the release of the lock; the return from the wait,
  signalled or not; and the rest of the turn.
\<close>

type_synonym 'a sys = "'a sp_st_scheme \<times> (nat \<Rightarrow> phase) \<times> (nat \<Rightarrow> bool)"

definition new_events :: "'a world_scheme \<Rightarrow> 'b world_scheme \<Rightarrow> event list" where
  "new_events s s' = take (length (tr s') - length (tr s)) (tr s')"

inductive sp_step :: "'a sys \<Rightarrow> 'a sys \<Rightarrow> bool" where
  Cmd: "run_state (channel_on_cmd_received handle cmd v) s = (err, s') \<Longrightarrow>
    sp_step (s, pc, sig) (s', pc, \<lambda>p. pc p = Waiting \<and> (sig p \<or> E_thread C_signal p \<in> set (new_events s s')))"
| Block: "p < length (g_list_sp s) \<Longrightarrow> pc p = Top \<Longrightarrow> run_state (re_block p) s = (True, s') \<Longrightarrow>
    sp_step (s, pc, sig) (s', pc(p := Waiting), sig(p := False))"
| Turn: "p < length (g_list_sp s) \<Longrightarrow> pc p = Top \<Longrightarrow> run_state (re_block p) s = (False, s1) \<Longrightarrow>
    run_state (re_collect p) s1 = ((n, t), s') \<Longrightarrow> sp_step (s, pc, sig) (s', pc(p := Reporting n t), sig)"
| Wake: "p < length (g_list_sp s) \<Longrightarrow> pc p = Waiting \<Longrightarrow> run_state (re_wake p) s = (True, s1) \<Longrightarrow>
    run_state (re_collect p) s1 = ((n, t), s') \<Longrightarrow> sp_step (s, pc, sig) (s', pc(p := Reporting n t), sig(p := False))"
| Wake_error: "p < length (g_list_sp s) \<Longrightarrow> pc p = Waiting \<Longrightarrow> run_state (re_wake p) s = (False, s') \<Longrightarrow>
    sp_step (s, pc, sig) (s', pc(p := Top), sig(p := False))"
| Report: "p < length (g_list_sp s) \<Longrightarrow> pc p = Reporting n t \<Longrightarrow> run_state (re_report p n t) s = ((), s') \<Longrightarrow>
    sp_step (s, pc, sig) (s', pc(p := Top), sig)"

inductive_cases sp_stepE: "sp_step (s, pc, sig) c"

inductive_simps sp_step_simps: "sp_step (s, pc, sig) (s', pc', sig')"

text \<open>The invariant: that of the client lists, and a thread that waits without a pending signal has no client to serve.\<close>

definition sys_inv :: "'a sys \<Rightarrow> bool" where
  "sys_inv = (\<lambda>(s, pc, sig). sp_inv s \<and>
     (\<forall>p < length (g_list_sp s). pc p = Waiting \<longrightarrow> \<not> sig p \<longrightarrow> sp_ref (g_list_sp s ! p) = 0))"

lemma core_refs:
  assumes "core s' = core s"
  shows "length (g_list_sp s') = length (g_list_sp s)"
    "p < length (g_list_sp s) \<Longrightarrow> sp_ref (g_list_sp s' ! p) = sp_ref (g_list_sp s ! p)"
proof -
  have m: "map (\<lambda>sp. (sp_clients sp, sp_ref sp, re_op_blk (sp_re sp))) (g_list_sp s') =
      map (\<lambda>sp. (sp_clients sp, sp_ref sp, re_op_blk (sp_re sp))) (g_list_sp s)"
    using assms by (simp add: core_def)
  from map_eq_imp_length_eq [OF this] show l: "length (g_list_sp s') = length (g_list_sp s)" .
  show "p < length (g_list_sp s) \<Longrightarrow> sp_ref (g_list_sp s' ! p) = sp_ref (g_list_sp s ! p)"
    using arg_cong [OF m, of "\<lambda>xs. fst (snd (xs ! p))"] l by simp
qed

lemma sys_inv_core:
  assumes "sys_inv (s, pc, sig)" "core s' = core s"
    and "\<And>q. q < length (g_list_sp s) \<Longrightarrow> pc' q = Waiting \<Longrightarrow> \<not> sig' q \<Longrightarrow> pc q = Waiting \<and> \<not> sig q \<or> sp_ref (g_list_sp s ! q) = 0"
  shows "sys_inv (s', pc', sig')"
proof -
  have "sp_ref (g_list_sp s' ! q) = 0" if q: "q < length (g_list_sp s)" "pc' q = Waiting" "\<not> sig' q" for q
    using assms(1) assms(3) [OF q] core_refs(2) [OF assms(2) q(1)] q(1) by (auto simp: sys_inv_def)
  then show ?thesis
    using assms(1) core_refs(1) [OF assms(2)] sp_inv_core [OF assms(2)] by (simp add: sys_inv_def)
qed

lemma re_block_waits: "run_state (re_block p) s = (True, s') \<Longrightarrow> sp_ref (g_list_sp s ! p) = 0"
  by (auto simp: re_block_def split: if_splits)

lemma step_inv: "sp_step x y \<Longrightarrow> sys_inv x \<Longrightarrow> sys_inv y"
proof (induction rule: sp_step.induct)
  case (Cmd handle cmd v s err s' pc sig)
  have inv: "sp_inv s" using Cmd.prems by (simp add: sys_inv_def)
  note c = cmd_core [OF Cmd.hyps inv]
  have "sig p \<or> E_thread C_signal p \<in> set (new_events s s')"
    if "p < length (g_list_sp s)" "pc p = Waiting" "sp_ref (g_list_sp s' ! p) \<noteq> 0" for p
  proof (cases "sp_ref (g_list_sp s ! p) = 0")
    case True
    then show ?thesis using c(3) [OF that(1) True that(3)] by (auto simp: new_events_def)
  next
    case False
    then show ?thesis using Cmd.prems that by (auto simp: sys_inv_def)
  qed
  then show ?case
    using c by (auto simp: sys_inv_def)
next
  case (Block p s pc s' sig)
  show ?case
    using Block.prems same_coreD [OF same_core_turn(1) Block.hyps(3)]
    by (rule sys_inv_core) (use re_block_waits [OF Block.hyps(3)] in \<open>auto split: if_splits\<close>)
next
  case (Turn p s pc s1 n t s' sig)
  have "core s' = core s"
    using same_coreD [OF same_core_turn(1) Turn.hyps(3)] same_coreD [OF same_core_turn(3) Turn.hyps(4)] by simp
  with Turn.prems show ?case by (rule sys_inv_core) (auto split: if_splits)
next
  case (Wake p s pc s1 n t s' sig)
  have "core s' = core s"
    using same_coreD [OF same_core_turn(2) Wake.hyps(3)] same_coreD [OF same_core_turn(3) Wake.hyps(4)] by simp
  with Wake.prems show ?case by (rule sys_inv_core) (auto split: if_splits)
next
  case (Wake_error p s pc s' sig)
  show ?case
    using Wake_error.prems same_coreD [OF same_core_turn(2) Wake_error.hyps(3)]
    by (rule sys_inv_core) (auto split: if_splits)
next
  case (Report p s pc n t s' sig)
  show ?case
    using Report.prems same_coreD [OF same_core_turn(4) Report.hyps(3)]
    by (rule sys_inv_core) (auto split: if_splits)
qed

lemma steps_inv: "sp_step\<^sup>*\<^sup>* x y \<Longrightarrow> sys_inv x \<Longrightarrow> sys_inv y"
  by (induction rule: rtranclp_induct) (auto intro: step_inv)

lemma init_inv: "sp_inv s \<Longrightarrow> sys_inv (s, \<lambda>_. Top, \<lambda>_. False)"
  by (simp add: sys_inv_def)

end
