(* ===== verification/Props_Sp.thy ===== *)
theory Props_Sp
  imports Sp_Threads Props_Hw
begin

text \<open>
  The properties of the providers and the commands to the channels.
\<close>

section \<open>Commands\<close>

definition cmd_step :: "'a sp_st_scheme \<Rightarrow> int \<times> int \<times> int \<Rightarrow> 'a sp_st_scheme" where
  "cmd_step s = (\<lambda>(handle, cmd, value). snd (run_state (channel_on_cmd_received handle cmd value) s))"

lemma cmd_step_core:
  assumes "sp_inv s"
  shows "sp_inv (cmd_step s x)" "length (g_list_sp (cmd_step s x)) = length (g_list_sp s)"
proof -
  obtain handle cmd v where x: "x = (handle, cmd, v)" by (metis prod_cases3)
  obtain err s' where run: "run_state (channel_on_cmd_received handle cmd v) s = (err, s')" by fastforce
  then show "sp_inv (cmd_step s x)" "length (g_list_sp (cmd_step s x)) = length (g_list_sp s)"
    using cmd_core(1,2) [OF run assms] by (simp_all add: cmd_step_def x)
qed

interpretation cmd_machine: invariant_machine cmd_step sp_inv "\<lambda>_. True"
  by unfold_locales (rule cmd_step_core(1))

lemma all_off: "list_all (\<lambda>ch. fst (snd ch) = 0) chs \<Longrightarrow> on_clients chs p = {} \<and> counted chs p = {}"
  by (auto simp: on_clients_def counted_def list_all_length)

lemma ex_good_sp_inv: "sp_inv ex_good"
  by (simp add: sp_inv_def all_block_def core_ok_def core_def sp_ok_def all_off ch_ok_def ex_good_def ex_st_def
      ex_chs_def ex_sps_def init_list_ch_def init_list_sp_def mk_channel_def mk_sp_def no_cfg_def nicki_build_def)

lemma cmds_length: "sp_inv s \<Longrightarrow> length (g_list_sp (foldl cmd_step s cmds)) = length (g_list_sp s)"
  by (induction cmds arbitrary: s) (simp_all add: cmd_step_core)

lemma ex_good_sps: "length (g_list_sp ex_good) = 1"
  by (simp add: ex_good_def ex_st_def ex_sps_def init_list_sp_def nicki_build_def)

text \<open>The accelerometer and the magnetometer on, the accelerometer off.\<close>

definition ex_cmds :: "(int \<times> int \<times> int) list" where
  "ex_cmds = [(1, 1, 1), (2, 1, 1), (1, 1, 0)]"

text \<open>C3: after any sequence of commands (\<open>channel_on_cmd_received\<close>), the client list of every provider, walked from its head, ends and
  has exactly the channels of the provider that are on, each once, and the provider's count is the number of those that are
  not bypassed.\<close>

theorem client_lists:
  assumes inv: "sp_inv s" and s': "s' = foldl cmd_step s cmds" and p: "p < length (g_list_sp s')"
  shows "\<exists>cs. walk (g_next s') (sp_clients (g_list_sp s' ! p)) = Some cs \<and> distinct cs \<and>
      set cs = {c. c < length (g_list_ch s') \<and> ch_sp (g_list_ch s' ! c) = Some p \<and> ch_state (g_list_ch s' ! c) \<noteq> CHANNEL_STATE_SLEEP} \<and>
      sp_ref (g_list_sp s' ! p) = int (length [c \<leftarrow> cs. \<not> bypass_proc (ch_cfg (g_list_ch s' ! c))])"
proof -
  have "sp_inv s'"
    using cmd_machine.run_inv [OF inv, of cmds] s' by (simp add: list.pred_True)
  then obtain h chs sps where k: "core s' = (h, chs, sps)" and ok: "core_ok (h, chs, sps)"
    by (metis prod_cases3 sp_inv_def)
  have p': "p < length sps" using p k by (auto simp: core_def)
  have "sp_ok h chs sps p" using ok p' by (simp add: core_ok_def)
  then obtain cs where cs: "chain h (fst (sps ! p)) cs" "set cs = on_clients chs p" and r: "fst (snd (sps ! p)) = int (card (counted chs p))"
    by (auto simp: sp_ok_def)
  note g = core_sp [OF k p']
  have ch: "length (g_list_ch s') = length chs" using k by (auto simp: core_def)
  have on: "on_clients chs p =
      {c. c < length (g_list_ch s') \<and> ch_sp (g_list_ch s' ! c) = Some p \<and> ch_state (g_list_ch s' ! c) \<noteq> CHANNEL_STATE_SLEEP}"
    using core_ch [OF k] ch by (auto simp: on_clients_def)
  have d: "distinct cs" by (rule chain_distinct [OF cs(1)])
  have "counted chs p = set [c \<leftarrow> cs. \<not> bypass_proc (ch_cfg (g_list_ch s' ! c))]"
    using cs(2) core_ch(4) [OF k] by (auto simp: counted_def on_clients_def)
  then have "card (counted chs p) = length [c \<leftarrow> cs. \<not> bypass_proc (ch_cfg (g_list_ch s' ! c))]"
    using d by (simp add: distinct_length_filter Int_def conj_commute)
  then show ?thesis
    using walk_chain [OF cs(1)] g d cs(2) on r by (intro exI [of _ cs]) simp
qed

theorem client_lists_witness:
  "\<exists>cs. walk (g_next (foldl cmd_step ex_good ex_cmds)) (sp_clients (g_list_sp (foldl cmd_step ex_good ex_cmds) ! 0)) = Some cs \<and> distinct cs"
proof -
  have "0 < length (g_list_sp (foldl cmd_step ex_good ex_cmds))"
    by (simp add: cmds_length ex_good_sp_inv ex_good_sps)
  from client_lists [OF ex_good_sp_inv refl this] show ?thesis by blast
qed

text \<open>The channels that are on, and what a command does to them.\<close>

definition channels_on :: "'a sp_st_scheme \<Rightarrow> nat set" where
  "channels_on s = {c. c < length (g_list_ch s) \<and> ch_state (g_list_ch s ! c) \<noteq> CHANNEL_STATE_SLEEP}"

definition switch :: "'a sp_st_scheme \<Rightarrow> int \<times> int \<times> int \<Rightarrow> nat set \<Rightarrow> nat set" where
  "switch s = (\<lambda>(handle, cmd, value) on. case hdl2idx (g_list_ch s) 0 handle of i \<Rightarrow>
     if cmd = SET_SENSOR_ACTIVE \<and> i \<noteq> - 1 \<and> availability (ch_cfg (g_list_ch s ! nat i)) \<noteq> 0
     then (if value \<noteq> 0 then insert (nat i) on else on - {nat i}) else on)"

text \<open>C16: a command to an available channel switches exactly that channel (\<open>channel_on_cmd_received\<close>): with
  \<open>SET_SENSOR_ACTIVE\<close>, the channels that are on become those before with or without the channel of that handle; any other command
  leaves them.\<close>

theorem command_switches:
  assumes "sp_inv s"
  shows "channels_on (cmd_step s x) = switch s x (channels_on s)"
proof -
  obtain handle cmd v where x: "x = (handle, cmd, v)" by (metis prod_cases3)
  obtain err s' where run: "run_state (channel_on_cmd_received handle cmd v) s = (err, s')" by fastforce
  obtain h chs sps where s: "core s = (h, chs, sps)" by (metis prod_cases3)
  have on: "channels_on t = {c. c < length chs1 \<and> fst (snd (chs1 ! c)) \<noteq> 0}" if "core t = (h1, chs1, sps1)"
    for t :: "'a sp_st_scheme" and h1 chs1 sps1
  proof -
    have "length (g_list_ch t) = length chs1" using that by (auto simp: core_def)
    then show ?thesis using core_ch(3) [OF that] unfolding channels_on_def by auto
  qed
  have "channels_on s' = switch s x (channels_on s)"
  proof (rule cmd_shape [OF run assms s], goal_cases)
    case 1
    then show ?thesis by (auto simp: switch_def x)
  next
    case active: (2 c p st cfg e1 s1 h' sps')
    have "ch_cfg (g_list_ch s ! c) = cfg" using core_ch(4) [OF s active(3)] active(4) by simp
    then show ?thesis
      using active on [OF s] on [OF active(9)] by (auto simp: switch_def x nth_list_update)
  next
    case delay: (3 c p cfg s1)
    obtain h1 chs1 sps1 where "core s' = (h1, chs1, sps1)" by (metis prod_cases3)
    then show ?thesis
      using delay on [OF s] on [of s'] s by (simp add: switch_def x)
  qed
  with run show ?thesis by (simp add: cmd_step_def x)
qed

theorem command_switches_witness: "channels_on (cmd_step ex_good (2, 1, 1)) = {1}"
proof -
  have "list_all (\<lambda>ch. ch_state ch = 0) (g_list_ch ex_good)"
    by (simp add: ex_good_def ex_st_def ex_chs_def init_list_ch_def mk_channel_def no_cfg_def nicki_build_def)
  then have "channels_on ex_good = {}"
    by (auto simp: channels_on_def list_all_length)
  moreover have "switch ex_good (2, 1, 1) {} = {1}"
    by (simp add: switch_def ex_good_def ex_st_def ex_chs_def init_list_ch_def mk_channel_def no_cfg_def nicki_build_def)
  ultimately show ?thesis using command_switches [OF ex_good_sp_inv, of "(2, 1, 1)"] by simp
qed

text \<open>C13: a command takes its locks in the order of the daemon (display, provider, channel, device, counts of the adapter), releases
  them in the opposite order, and holds none after it.\<close>

theorem command_locks:
  assumes "sp_inv s" "run_state (channel_on_cmd_received handle cmd value) s = (err, s')"
  shows "\<exists>es. tr s' = es @ tr s \<and> held [] (rev es) = Some []"
  by (rule cmd_locks [OF assms(2,1)])

theorem command_locks_witness:
  "\<exists>es. tr (snd (run_state (channel_on_cmd_received 2 1 1) ex_good)) = es @ tr ex_good \<and> held [] (rev es) = Some []"
  by (rule command_locks [OF ex_good_sp_inv surjective_pairing])

section \<open>The threads\<close>

lemma cmd_turns_on:
  assumes inv: "sp_inv s" and run: "run_state (channel_on_cmd_received handle SET_SENSOR_ACTIVE v) s = (err, s')" and v: "v \<noteq> 0"
    and c: "hdl2idx (g_list_ch s) 0 handle = int c" "ch_sp (g_list_ch s ! c) = Some p"
    and cfg: "availability (ch_cfg (g_list_ch s ! c)) \<noteq> 0" "\<not> bypass_proc (ch_cfg (g_list_ch s ! c))"
  shows "sp_ref (g_list_sp s' ! p) \<noteq> 0"
proof -
  obtain h chs sps where s: "core s = (h, chs, sps)" by (metis prod_cases3)
  show ?thesis
  proof (rule cmd_shape [OF run inv s], goal_cases)
    case 1
    then show ?case using c cfg by simp
  next
    case active: (2 c' p' st cfg' e1 s1 h' sps')
    have c': "c' = c" using active(1) c(1) by simp
    have p: "p' = p" "cfg' = ch_cfg (g_list_ch s ! c)"
      using active(3,4) core_ch [OF s] c(2) by (simp_all add: c')
    have ok: "core_ok (h', chs[c := (Some p, CHANNEL_STATE_NORMAL, cfg')], sps')"
      using active(9,10) v by (simp add: sp_inv_def c' p)
    have pl: "p < length sps'" using active(6,11) p by simp
    have "c \<in> counted (chs[c := (Some p, CHANNEL_STATE_NORMAL, cfg')]) p"
      using active(3) cfg(2) by (simp add: counted_def on_clients_def c' p)
    moreover have "finite (counted (chs[c := (Some p, CHANNEL_STATE_NORMAL, cfg')]) p)"
      by (rule finite_subset [of _ "{..< length chs}"]) (auto simp: counted_def on_clients_def)
    ultimately have "card (counted (chs[c := (Some p, CHANNEL_STATE_NORMAL, cfg')]) p) \<noteq> 0" by auto
    moreover have "fst (snd (sps' ! p)) = int (card (counted (chs[c := (Some p, CHANNEL_STATE_NORMAL, cfg')]) p))"
      using ok pl by (auto simp: core_ok_def sp_ok_def)
    ultimately show ?case using core_sp [OF active(9), of p] pl by simp
  next
    case delay: (3 c p cfg s1)
    then show ?case by simp
  qed
qed

lemma re_block_answer:
  "\<not> re_op_blk (sp_re (g_list_sp s ! p)) \<Longrightarrow> sp_ref (g_list_sp s ! p) = 0 \<Longrightarrow> fst (run_state (re_block p) s)"
  by (simp add: re_block_def split: prod.splits)

lemma re_block_channels: "run_state (re_block p) s = (b, s') \<Longrightarrow> g_list_ch s' = g_list_ch s"
  by (auto simp: re_block_def set_sleeping_def upd_sp_def split: if_splits)

lemma ex_good_blocks: "fst (run_state (re_block 0) ex_good)"
  by (rule re_block_answer) (simp_all add: mk_sp_def ex_good_def ex_st_def ex_sps_def init_list_sp_def nicki_build_def)

lemma ex_good_channel:
  "hdl2idx (g_list_ch ex_good) 0 2 = int 1" "ch_sp (g_list_ch ex_good ! 1) = Some 0"
  "availability (ch_cfg (g_list_ch ex_good ! 1)) \<noteq> 0" "\<not> bypass_proc (ch_cfg (g_list_ch ex_good ! 1))"
  by (simp_all add: ex_good_def ex_st_def ex_chs_def init_list_ch_def mk_channel_def no_cfg_def nicki_build_def)

text \<open>C6: no wake-up is lost: however the commands and the threads of the providers are interleaved (\<open>re_proc\<close>), a thread that waits
  for a client while its provider has one that counts (a bypassed channel does not) has been signalled.\<close>

theorem no_lost_wakeup:
  assumes "sp_inv s0" "sp_step\<^sup>*\<^sup>* (s0, \<lambda>_. Top, \<lambda>_. False) (s, pc, sig)"
    and "p < length (g_list_sp s)" "pc p = Waiting" "sp_ref (g_list_sp s ! p) \<noteq> 0"
  shows "sig p"
  using steps_inv [OF assms(2) init_inv [OF assms(1)]] assms(3-) by (auto simp: sys_inv_def)

text \<open>The thread of the provider waits, then the magnetometer is switched on.\<close>

theorem no_lost_wakeup_witness:
  "\<exists>s sig. sp_step\<^sup>*\<^sup>* (ex_good, \<lambda>_. Top, \<lambda>_. False) (s, (\<lambda>_. Top)(0 := Waiting), sig) \<and> sp_ref (g_list_sp s ! 0) \<noteq> 0 \<and> sig 0"
proof -
  obtain s1 where b: "run_state (re_block 0) ex_good = (True, s1)"
    using ex_good_blocks by (metis (full_types) prod.collapse)
  have inv: "sp_inv s1" and core: "core s1 = core ex_good"
    using same_coreD [OF same_core_turn(1) b] sp_inv_core ex_good_sp_inv by metis+
  obtain err s2 where cmd: "run_state (channel_on_cmd_received 2 SET_SENSOR_ACTIVE 1) s1 = (err, s2)" by fastforce
  have len: "0 < length (g_list_sp s1)" "length (g_list_sp s2) = length (g_list_sp s1)"
    using core_refs(1) [OF core] ex_good_sps cmd_core(2) [OF cmd inv] by simp_all
  have on: "sp_ref (g_list_sp s2 ! 0) \<noteq> 0"
    by (rule cmd_turns_on [OF inv cmd, of 1]) (use ex_good_channel re_block_channels [OF b] in simp_all)
  let ?pc = "(\<lambda>_. Top)(0 := Waiting)"
  obtain sig where steps: "sp_step\<^sup>*\<^sup>* (ex_good, \<lambda>_. Top, \<lambda>_. False) (s2, ?pc, sig)"
    using sp_step.Block [OF _ _ b, of "\<lambda>_. Top" "\<lambda>_. False"] sp_step.Cmd [OF cmd, of ?pc] ex_good_sps
    by (metis (no_types, lifting) converse_rtranclp_into_rtranclp len(1) rtranclp.rtrancl_refl zero_less_one)
  have "sig 0"
    by (rule no_lost_wakeup [OF ex_good_sp_inv steps]) (use len on in simp_all)
  with steps on show ?thesis by blast
qed

end
