(* ===== verification/Loc_Msg.thy ===== *)
theory Loc_Msg
  imports World
begin

text \<open>
  The data of the location engine (\<open>gps/core/gps_extended_c.h\<close>, \<open>gps_extended.h\<close>, Android's \<open>gps.h\<close>) and the messages to its
  task that do not concern the resource state machines (\<open>loc_eng_msg.h\<close> and the structures of \<open>loc_eng.cpp\<close>,
  \<open>loc_eng_ni.cpp\<close>, \<open>loc_eng_xtra.cpp\<close>, \<open>LocEngAdapter.cpp\<close> and \<open>LocApiBase.cpp\<close>).
\<close>

record gps_location =
  gl_flags :: int
  latitude :: rat
  longitude :: rat
  altitude :: rat
  speed :: rat
  bearing :: rat
  accuracy :: rat
  timestamp :: int

text \<open>\<open>rawData\<close> is an address, 0 for \<open>NULL\<close>; the indoor data are passed on with it.\<close>

record ulp_location =
  gpsLocation :: gps_location
  position_source :: int
  rawDataSize :: int
  rawData :: nat

record gps_location_extended =
  gx_flags :: int
  altitudeMeanSeaLevel :: rat
  gx_pdop :: rat
  gx_hdop :: rat
  gx_vdop :: rat
  magneticDeviation :: rat

record sv_info =
  prn :: int
  snr :: rat
  elevation :: rat
  azimuth :: rat

record sv_status =
  num_svs :: int
  sv_list :: "sv_info list"
  ephemeris_mask :: int
  almanac_mask :: int
  used_in_fix_mask :: int

record loc_pos_mode =
  pm_mode :: int
  recurrence :: int
  min_interval :: int
  preferred_accuracy :: int
  preferred_time :: int
  credentials :: string
  provider :: string

record ni_notification =
  ni_size :: int
  notification_id :: int
  ni_type :: int
  notify_flags :: int
  timeout :: int
  default_response :: int
  requestor_id :: string
  ni_text :: string
  requestor_id_encoding :: int
  text_encoding :: int
  extras :: string

text \<open>
  A message; the adapter and the engine it is for are the only ones there are. Payloads are addresses, strings are copies,
  \<open>None\<close> for \<open>NULL\<close>.
\<close>

datatype eng_msg =
    LocEngRequestNi ni_notification nat
  | LocEngInformNiResponse int nat
  | LocEngStartFix
  | LocEngStopFix
  | LocEngPositionMode loc_pos_mode
  | LocEngSetTime int int int
  | LocEngInjectLocation rat rat rat
  | LocEngSetServerIpv4 int int int
  | LocEngSetServerUrl string
  | LocEngAGlonassProtocol int
  | LocEngSuplVer int
  | LocEngLppConfig int
  | LocEngSensorControlConfig int
  | LocEngSensorProperties "(bool \<times> rat) list"
  | LocEngSensorPerfControlConfig "int list"
  | LocEngExtPowerConfig int
  | LocEngReportPosition ulp_location gps_location_extended nat int int
  | LocEngReportSv sv_status gps_location_extended nat
  | LocEngReportStatus int
  | LocEngReportNmea string
  | LocEngReportXtraServer string string string
  | LocEngRequestXtra
  | LocEngRequestTime
  | LocEngDelAidData int
  | LocEngEnableData int "string option"
  | LocEngInit
  | LocEngInjectXtraData string
  | LocEngRequestXtraServer
  | LocEngDown
  | LocEngUp
  | LocSetUlpProxy nat
  | LocSsrMsg
  | LocOpenMsg int

section \<open>Numbers of the headers\<close>

definition GPS_STATUS_NONE :: int where "GPS_STATUS_NONE = 0"
definition GPS_STATUS_SESSION_BEGIN :: int where "GPS_STATUS_SESSION_BEGIN = 1"
definition GPS_STATUS_SESSION_END :: int where "GPS_STATUS_SESSION_END = 2"
definition GPS_STATUS_ENGINE_ON :: int where "GPS_STATUS_ENGINE_ON = 3"
definition GPS_STATUS_ENGINE_OFF :: int where "GPS_STATUS_ENGINE_OFF = 4"

definition GPS_LOCATION_HAS_LAT_LONG :: int where "GPS_LOCATION_HAS_LAT_LONG = 1"
definition GPS_LOCATION_HAS_ALTITUDE :: int where "GPS_LOCATION_HAS_ALTITUDE = 2"
definition GPS_LOCATION_HAS_SPEED :: int where "GPS_LOCATION_HAS_SPEED = 4"
definition GPS_LOCATION_HAS_BEARING :: int where "GPS_LOCATION_HAS_BEARING = 8"
definition GPS_LOCATION_HAS_ACCURACY :: int where "GPS_LOCATION_HAS_ACCURACY = 16"
definition GPS_LOCATION_EXTENDED_HAS_DOP :: int where "GPS_LOCATION_EXTENDED_HAS_DOP = 1"
definition GPS_LOCATION_EXTENDED_HAS_ALTITUDE_MEAN_SEA_LEVEL :: int where
  "GPS_LOCATION_EXTENDED_HAS_ALTITUDE_MEAN_SEA_LEVEL = 2"
definition GPS_LOCATION_EXTENDED_HAS_MAG_DEV :: int where "GPS_LOCATION_EXTENDED_HAS_MAG_DEV = 4"
definition ULP_LOCATION_IS_FROM_GNSS :: int where "ULP_LOCATION_IS_FROM_GNSS = 2"

definition LOC_SESS_SUCCESS :: int where "LOC_SESS_SUCCESS = 0"
definition LOC_SESS_INTERMEDIATE :: int where "LOC_SESS_INTERMEDIATE = 1"
definition LOC_SESS_FAILURE :: int where "LOC_SESS_FAILURE = 2"

definition LOC_POS_TECH_MASK_SATELLITE :: int where "LOC_POS_TECH_MASK_SATELLITE = 0x01"
definition LOC_POS_TECH_MASK_SENSORS :: int where "LOC_POS_TECH_MASK_SENSORS = 0x08"
definition LOC_POS_TECH_MASK_HYBRID :: int where "LOC_POS_TECH_MASK_HYBRID = 0x80"

definition LOC_POSITION_MODE_INVALID :: int where "LOC_POSITION_MODE_INVALID = - 1"
definition LOC_POSITION_MODE_STANDALONE :: int where "LOC_POSITION_MODE_STANDALONE = 0"
definition LOC_POSITION_MODE_MS_BASED :: int where "LOC_POSITION_MODE_MS_BASED = 1"
definition LOC_POSITION_MODE_MS_ASSISTED :: int where "LOC_POSITION_MODE_MS_ASSISTED = 2"
definition GPS_POSITION_RECURRENCE_SINGLE :: int where "GPS_POSITION_RECURRENCE_SINGLE = 1"
definition MIN_POSSIBLE_FIX_INTERVAL :: int where "MIN_POSSIBLE_FIX_INTERVAL = 1000"

definition GPS_NI_PRIVACY_OVERRIDE :: int where "GPS_NI_PRIVACY_OVERRIDE = 4"
definition GPS_NI_RESPONSE_NORESP :: int where "GPS_NI_RESPONSE_NORESP = 3"
definition LOC_NI_NO_RESPONSE_TIME :: int where "LOC_NI_NO_RESPONSE_TIME = 20"

definition LOC_API_ADAPTER_ERR_SUCCESS :: int where "LOC_API_ADAPTER_ERR_SUCCESS = 0"
definition LOC_API_ADAPTER_ERR_ENGINE_DOWN :: int where "LOC_API_ADAPTER_ERR_ENGINE_DOWN = 100"

lemmas gps_status_defs = GPS_STATUS_NONE_def GPS_STATUS_SESSION_BEGIN_def GPS_STATUS_SESSION_END_def GPS_STATUS_ENGINE_ON_def
  GPS_STATUS_ENGINE_OFF_def

text \<open>A bit test of the code, \<open>flags & mask\<close>.\<close>

definition has_bit :: "int \<Rightarrow> int \<Rightarrow> bool" where
  "has_bit flags m \<longleftrightarrow> and flags m \<noteq> 0"

text \<open>The constructor of \<open>LocPosMode\<close>; \<open>None\<close> for \<open>NULL\<close>. The strings are copied to their full size.\<close>

definition mk_pos_mode :: "int \<Rightarrow> int \<Rightarrow> int \<Rightarrow> int \<Rightarrow> int \<Rightarrow> loc_pos_mode" where
  "mk_pos_mode m recr gap accu time = \<lparr>pm_mode = m, recurrence = recr,
     min_interval = (if gap < MIN_POSSIBLE_FIX_INTERVAL then MIN_POSSIBLE_FIX_INTERVAL else gap),
     preferred_accuracy = accu, preferred_time = time, credentials = [], provider = []\<rparr>"

end
