(* ===== verification/Dmn_Server.thy ===== *)
theory Dmn_Server
  imports Dmn_Conn Loc_Msg
begin

text \<open>
  \<open>gps/loc_api/libloc_api_50001/loc_eng_dmn_conn.cpp\<close> and \<open>loc_eng_dmn_conn_handler.cpp\<close>: the server the GPS daemon
  talks to. A request arrives as a \<open>struct ctrl_msgbuf\<close> on a named pipe and becomes a message to the task of the
  location engine; the answer goes back through the pipe of the client. A message to the task is appended to
  \<open>task_q\<close>, the contents of the task's message queue (\<open>Msg_Q\<close> shows that the queue delivers them in this order).
\<close>

text \<open>
  The messages (\<open>loc_eng_msg.h\<close>) that concern the resource state machines, and \<open>Eng_msg\<close> for the others. A state machine is
  an address; the strings of a message are \<open>None\<close> for \<open>NULL\<close>.
\<close>

datatype loc_msg =
    LocEngReqRelWifi int int "string option" "string option" bool
  | LocEngReqRelBIT int int "string option" bool
  | LocEngReleaseBIT nat int "string option"
  | LocEngSuplEsOpened
  | LocEngSuplEsClosed
  | LocEngRequestSuplEs int
  | LocEngRequestATL int int
  | LocEngReleaseATL int
  | LocEngAtlOpenSuccess nat string int
  | LocEngAtlClosed nat
  | LocEngAtlOpenFailed nat
  | LocEngDataClientInit
  | Eng_msg eng_msg

record srv_st = th_st +
  loc_api_server_msgqid :: int
  loc_api_resp_msgqid :: int
  quipc_msgqid :: int
  msapm_msgqid :: int
  msapu_msgqid :: int
  global_loc_api_q_path :: string
  global_loc_api_resp_q_path :: string
  loc_api_handle :: nat
  task_q :: "loc_msg list"

definition send_msg :: "loc_msg \<Rightarrow> ('a srv_st_scheme, unit) state" where
  "send_msg m = modify (\<lambda>s. s\<lparr>task_q := task_q s @ [m]\<rparr>)"

section \<open>The control message\<close>

text \<open>
  \<open>struct ctrl_msgbuf\<close> on 32 bits: the length at 0, \<open>ctrl_type\<close> at 12, the union at 16; a response has its result there, a
  request the type at 16, the sender at 20, the addresses at 24 and 28, \<open>ssid\<close> at 44, \<open>password\<close> at 77; 112 bytes in all.
\<close>

definition CTRL_MSGBUF_SIZE :: nat where "CTRL_MSGBUF_SIZE = 112"
definition SSID_BUF_SIZE :: nat where "SSID_BUF_SIZE = 33"

definition GPSONE_LOC_API_IF_REQUEST :: int where "GPSONE_LOC_API_IF_REQUEST = 0xF0"
definition GPSONE_LOC_API_IF_RELEASE :: int where "GPSONE_LOC_API_IF_RELEASE = 0xF1"
definition GPSONE_LOC_API_RESPONSE :: int where "GPSONE_LOC_API_RESPONSE = 0xF2"
definition GPSONE_UNBLOCK :: int where "GPSONE_UNBLOCK = 0xF3"

definition GPSONE_LOC_API_IF_REQUEST_SUCCESS :: int where "GPSONE_LOC_API_IF_REQUEST_SUCCESS = 0xF0"
definition GPSONE_LOC_API_IF_RELEASE_SUCCESS :: int where "GPSONE_LOC_API_IF_RELEASE_SUCCESS = 0xF1"
definition GPSONE_LOC_API_IF_FAILURE :: int where "GPSONE_LOC_API_IF_FAILURE = 0xF2"

definition ID_QUIPC :: int where "ID_QUIPC = 0"
definition ID_MSAPM :: int where "ID_MSAPM = 1"
definition ID_MSAPU :: int where "ID_MSAPU = 2"
definition ID_GPSONE_DAEMON :: int where "ID_GPSONE_DAEMON = 3"

definition AGPS_TYPE_INVALID :: int where "AGPS_TYPE_INVALID = - 1"
definition AGPS_TYPE_ANY :: int where "AGPS_TYPE_ANY = 0"
definition AGPS_TYPE_SUPL :: int where "AGPS_TYPE_SUPL = 1"
definition AGPS_TYPE_WWAN_ANY :: int where "AGPS_TYPE_WWAN_ANY = 3"
definition AGPS_TYPE_WIFI :: int where "AGPS_TYPE_WIFI = 4"
definition AGPS_TYPE_SUPL_ES :: int where "AGPS_TYPE_SUPL_ES = 5"

lemmas dmn_consts = CTRL_MSGBUF_SIZE_def SSID_BUF_SIZE_def GPSONE_LOC_API_IF_REQUEST_def GPSONE_LOC_API_IF_RELEASE_def
  GPSONE_LOC_API_RESPONSE_def GPSONE_UNBLOCK_def GPSONE_LOC_API_IF_REQUEST_SUCCESS_def GPSONE_LOC_API_IF_RELEASE_SUCCESS_def
  GPSONE_LOC_API_IF_FAILURE_def ID_QUIPC_def ID_MSAPM_def ID_MSAPU_def ID_GPSONE_DAEMON_def

lemmas agps_types = AGPS_TYPE_INVALID_def AGPS_TYPE_ANY_def AGPS_TYPE_SUPL_def AGPS_TYPE_WWAN_ANY_def AGPS_TYPE_WIFI_def
  AGPS_TYPE_SUPL_ES_def

definition put_at :: "nat \<Rightarrow> string \<Rightarrow> string \<Rightarrow> string" where
  "put_at k bs m = take k m @ bs @ drop (k + length bs) m"

definition byte :: "int \<Rightarrow> string" where "byte x = [char_of (nat (x mod 256))]"

text \<open>\<open>memory n\<close>: \<open>n\<close> bytes nobody has written, of the stack or of the allocator.\<close>

definition memory :: "nat \<Rightarrow> ('a world_scheme, string) state" where
  "memory n = do { r \<leftarrow> call (E_hook ''memory'' [int n]); ret (take n (rbuf r @ replicate n (CHR 0x00))) }"

text \<open>
  The string at \<open>k\<close> as \<open>strlcpy\<close> copies it into \<open>SSID_BUF_SIZE\<close> bytes. \<open>strlcpy\<close> goes on to the terminator, which must be
  inside the buffer.
\<close>

definition copy_str :: "nat \<Rightarrow> string \<Rightarrow> ('a world_scheme, string) state" where
  "copy_str k buf = do {
     must (CHR 0x00 \<in> set (drop k buf));
     ret (take (SSID_BUF_SIZE - 1) (cstr (drop k buf)))
   }"

section \<open>Requests and releases\<close>

definition if_type :: "int \<Rightarrow> int option" where
  "if_type t = (if t = 0 then Some AGPS_TYPE_SUPL else if t = 1 then Some AGPS_TYPE_WIFI
     else if t = 2 then Some AGPS_TYPE_ANY else None)"

text \<open>What the handlers share: the message made of the buffer is sent to the task through the engine's handle.\<close>

definition send_if_msg :: "string \<Rightarrow> int \<Rightarrow> bool \<Rightarrow> ('a srv_st_scheme, int) state" where
  "send_if_msg pmsg ty is_req = (let sender = le32_at pmsg 20 in
     if sender = ID_QUIPC \<or> sender = ID_MSAPM \<or> sender = ID_MSAPU then do {
       ssid \<leftarrow> copy_str 44 pmsg;
       password \<leftarrow> copy_str 77 pmsg;
       h \<leftarrow> gets loc_api_handle;
       must (h \<noteq> 0);
       send_msg (LocEngReqRelWifi ty sender (Some ssid) (Some password) is_req);
       ret 0
     } else if sender = ID_GPSONE_DAEMON then do {
       h \<leftarrow> gets loc_api_handle;
       must (h \<noteq> 0);
       send_msg (LocEngReqRelBIT ty (le32_at pmsg 24) (Some (take 16 (drop 28 pmsg))) is_req);
       ret 0
     } else ret (- 1))"

definition loc_eng_dmn_conn_loc_api_server_if_request_handler :: "string \<Rightarrow> int \<Rightarrow> ('a srv_st_scheme, int) state" where
  "loc_eng_dmn_conn_loc_api_server_if_request_handler pmsg len = do {
     h \<leftarrow> gets loc_api_handle;
     if h = 0 then ret 1
     else (case if_type (le32_at pmsg 16) of None \<Rightarrow> ret (- 1) | Some ty \<Rightarrow> send_if_msg pmsg ty True)
   }"

definition loc_eng_dmn_conn_loc_api_server_if_release_handler :: "string \<Rightarrow> int \<Rightarrow> ('a srv_st_scheme, int) state" where
  "loc_eng_dmn_conn_loc_api_server_if_release_handler pmsg len =
     (case if_type (le32_at pmsg 16) of None \<Rightarrow> ret (- 1) | Some ty \<Rightarrow> send_if_msg pmsg ty False)"

section \<open>The procedures of the server's thread\<close>

definition QUIPC_CTRL_Q_PATH :: string where "QUIPC_CTRL_Q_PATH = ''/data/misc/gpsone_d/quipc_ctrl_q''"
definition MSAPM_CTRL_Q_PATH :: string where "MSAPM_CTRL_Q_PATH = ''/data/misc/gpsone_d/msapm_ctrl_q''"
definition MSAPU_CTRL_Q_PATH :: string where "MSAPU_CTRL_Q_PATH = ''/data/misc/gpsone_d/msapu_ctrl_q''"

definition chown_gps :: "reply \<Rightarrow> string \<Rightarrow> ('a world_scheme, unit) state" where
  "chown_gps gr path = (if rv gr \<noteq> 0 then emit (E_hook ''chown'' (num gr 0 # map of_char path)) else ret ())"

definition loc_api_server_proc_init :: "('a srv_st_scheme, int) state" where
  "loc_api_server_proc_init = do {
     path \<leftarrow> gets global_loc_api_q_path;
     q \<leftarrow> loc_eng_dmn_conn_glue_msgget path [O_RDWR];
     modify (\<lambda>s. s\<lparr>loc_api_server_msgqid := q\<rparr>);
     emit (E_chmod path 432);
     gr \<leftarrow> call (E_hook ''getgrnam'' []);
     chown_gps gr path;
     path \<leftarrow> gets global_loc_api_resp_q_path;
     q \<leftarrow> loc_eng_dmn_conn_glue_msgget path [O_RDWR];
     modify (\<lambda>s. s\<lparr>loc_api_resp_msgqid := q\<rparr>);
     emit (E_chmod path 432);
     chown_gps gr path;
     q \<leftarrow> loc_eng_dmn_conn_glue_msgget QUIPC_CTRL_Q_PATH [O_RDWR];
     modify (\<lambda>s. s\<lparr>quipc_msgqid := q\<rparr>);
     q \<leftarrow> loc_eng_dmn_conn_glue_msgget MSAPM_CTRL_Q_PATH [O_RDWR];
     modify (\<lambda>s. s\<lparr>msapm_msgqid := q\<rparr>);
     q \<leftarrow> loc_eng_dmn_conn_glue_msgget MSAPU_CTRL_Q_PATH [O_RDWR];
     modify (\<lambda>s. s\<lparr>msapu_msgqid := q\<rparr>);
     ret 0
   }"

definition loc_api_server_proc_pre :: "('a srv_st_scheme, int) state" where
  "loc_api_server_proc_pre = ret 0"

text \<open>One message; the results of the handlers are not used.\<close>

definition loc_api_server_proc :: "('a srv_st_scheme, int) state" where
  "loc_api_server_proc = do {
     let sz = CTRL_MSGBUF_SIZE + 256;
     r \<leftarrow> call (E_malloc sz);
     if rv r = 0 then ret (- 1)
     else do {
       junk \<leftarrow> memory sz;
       q \<leftarrow> gets loc_api_server_msgqid;
       (length, msg) \<leftarrow> loc_eng_dmn_conn_glue_msgrcv q (int sz);
       if length \<le> 0 then do {
         emit (E_free (nat (rv r)));
         emit (E_time (T_nanosleep 1000000));
         ret 0
       } else do {
         let buf = put_at 0 msg junk;
         let ty = (of_char (buf ! 12) :: int);
         (if ty = GPSONE_LOC_API_IF_REQUEST then do {
            _ \<leftarrow> loc_eng_dmn_conn_loc_api_server_if_request_handler buf length; ret () }
          else if ty = GPSONE_LOC_API_IF_RELEASE then do {
            _ \<leftarrow> loc_eng_dmn_conn_loc_api_server_if_release_handler buf length; ret () }
          else ret ());
         emit (E_free (nat (rv r)));
         ret 0
       }
     }
   }"

definition loc_api_server_proc_post :: "('a srv_st_scheme, int) state" where
  "loc_api_server_proc_post = do {
     s \<leftarrow> gets id;
     _ \<leftarrow> loc_eng_dmn_conn_glue_msgremove (Some (global_loc_api_q_path s)) (loc_api_server_msgqid s);
     _ \<leftarrow> loc_eng_dmn_conn_glue_msgremove (Some (global_loc_api_resp_q_path s)) (loc_api_resp_msgqid s);
     _ \<leftarrow> loc_eng_dmn_conn_glue_msgremove (Some QUIPC_CTRL_Q_PATH) (quipc_msgqid s);
     _ \<leftarrow> loc_eng_dmn_conn_glue_msgremove (Some MSAPM_CTRL_Q_PATH) (msapm_msgqid s);
     _ \<leftarrow> loc_eng_dmn_conn_glue_msgremove (Some MSAPU_CTRL_Q_PATH) (msapu_msgqid s);
     ret 0
   }"

section \<open>Answers, start and stop\<close>

text \<open>The bytes of the structure that are not set are those of the stack.\<close>

definition loc_eng_dmn_conn_unblock_proc :: "('a srv_st_scheme, int) state" where
  "loc_eng_dmn_conn_unblock_proc = do {
     stack \<leftarrow> memory CTRL_MSGBUF_SIZE;
     q \<leftarrow> gets loc_api_server_msgqid;
     _ \<leftarrow> loc_eng_dmn_conn_glue_msgsnd q (put_at 12 (byte GPSONE_UNBLOCK) stack) (int CTRL_MSGBUF_SIZE);
     ret 0
   }"

definition loc_eng_dmn_conn_loc_api_server_data_conn :: "int \<Rightarrow> int \<Rightarrow> ('a srv_st_scheme, int) state" where
  "loc_eng_dmn_conn_loc_api_server_data_conn sender_id status = do {
     stack \<leftarrow> memory CTRL_MSGBUF_SIZE;
     let cmsgbuf = put_at 16 (le32 status) (put_at 12 (byte GPSONE_LOC_API_RESPONSE) stack);
     s \<leftarrow> gets id;
     (case (if sender_id = ID_QUIPC then Some (quipc_msgqid s) else if sender_id = ID_MSAPM then Some (msapm_msgqid s)
         else if sender_id = ID_MSAPU then Some (msapu_msgqid s)
         else if sender_id = ID_GPSONE_DAEMON then Some (loc_api_resp_msgqid s) else None) of
        None \<Rightarrow> ret 0
      | Some q \<Rightarrow> do {
          result \<leftarrow> loc_eng_dmn_conn_glue_msgsnd q cmsgbuf (int CTRL_MSGBUF_SIZE);
          ret (if result < 0 then - 1 else 0)
        })
   }"

text \<open>
  The procedures are given to the helper by number; the context is the address of the path. Paths are \<open>None\<close> for \<open>NULL\<close>.
  \<open>early\<close> and \<open>other\<close> are what other threads do meanwhile, as for the helper.
\<close>

definition loc_eng_dmn_conn_loc_api_server_launch ::
  "nat \<Rightarrow> string option \<Rightarrow> string option \<Rightarrow> nat \<Rightarrow> nat \<Rightarrow> ('a srv_st_scheme, unit) state \<Rightarrow> ('a srv_st_scheme, unit) state \<Rightarrow>
   ('a srv_st_scheme, int) state" where
  "loc_eng_dmn_conn_loc_api_server_launch create_thread_cb q_path resp_q_path agps_handle context early other = do {
     modify (\<lambda>s. s\<lparr>loc_api_handle := agps_handle\<rparr>);
     (case q_path of None \<Rightarrow> ret () | Some p \<Rightarrow> modify (\<lambda>s. s\<lparr>global_loc_api_q_path := p\<rparr>));
     (case resp_q_path of None \<Rightarrow> ret () | Some p \<Rightarrow> modify (\<lambda>s. s\<lparr>global_loc_api_resp_q_path := p\<rparr>));
     result \<leftarrow> loc_eng_dmn_conn_launch_thelper 1 2 3 4 create_thread_cb context early other;
     ret (if result \<noteq> 0 then - 1 else 0)
   }"

definition loc_eng_dmn_conn_loc_api_server_unblock :: "('a srv_st_scheme, int) state" where
  "loc_eng_dmn_conn_loc_api_server_unblock = do {
     _ \<leftarrow> loc_eng_dmn_conn_unblock_thelper;
     _ \<leftarrow> loc_eng_dmn_conn_unblock_proc;
     ret 0
   }"

definition loc_eng_dmn_conn_loc_api_server_join :: "('a srv_st_scheme, int) state" where
  "loc_eng_dmn_conn_loc_api_server_join = do { _ \<leftarrow> loc_eng_dmn_conn_join_thelper; ret 0 }"

end
