(* ===== verification/List_Callback.thy ===== *)
theory List_Callback
  imports Linked_List
begin

text \<open>
  \<open>linked_list_search\<close> of \<open>gps/utils/linked_list.c\<close> with a callback that itself does something: it is called on the
  data of the elements in their order, until it accepts.
\<close>

text \<open>The elements from \<open>p\<close> on; \<open>None\<close> if one is not allocated, or they do not end.\<close>

partial_function (option) elems_from :: "eheap \<Rightarrow> nat \<Rightarrow> nat list option" where
  "elems_from h p =
     (if p = 0 then Some []
      else (case h p of None \<Rightarrow> None
        | Some x \<Rightarrow> Option.bind (elems_from h (le_next x)) (\<lambda>as. Some (p # as))))"

primrec first_match :: "eheap \<Rightarrow> (nat \<Rightarrow> ('a ll_st_scheme, bool) state) \<Rightarrow> nat list \<Rightarrow> ('a ll_st_scheme, nat option) state" where
  "first_match h equal [] = ret None"
| "first_match h equal (a # as) = do {
     b \<leftarrow> equal (fst (item h a));
     if b then ret (Some a) else first_match h equal as
   }"

definition search_found :: "nat \<Rightarrow> bool \<Rightarrow> bool \<Rightarrow> nat \<Rightarrow> ('a ll_st_scheme, ll_err \<times> nat option) state" where
  "search_found list_data data_p rm_if_found tmp = do {
     x \<leftarrow> get_elem tmp;
     (if rm_if_found then do {
        unlink_elem list_data tmp x;
        (if \<not> data_p then for_each (dealloc_event x) emit else ret ());
        free_elem tmp
      } else ret ());
     ret (LL_SUCCESS, if data_p then Some (le_data x) else None)
   }"

definition linked_list_search_cb ::
  "nat \<Rightarrow> bool \<Rightarrow> (nat \<Rightarrow> ('a ll_st_scheme, bool) state) \<Rightarrow> bool \<Rightarrow> ('a ll_st_scheme, ll_err \<times> nat option) state" where
  "linked_list_search_cb list_data data_p equal rm_if_found =
     (if list_data = 0 then ret (LL_INVALID_HANDLE, None)
      else do {
        l \<leftarrow> get_list list_data;
        if p_tail l = 0 then ret (LL_UNAVAILABLE_RESOURCE, None)
        else do {
          h \<leftarrow> gets ll_elems;
          (case elems_from h (p_head l) of
             None \<Rightarrow> do { must False; ret (LL_SUCCESS, None) }
           | Some as \<Rightarrow> do {
               r \<leftarrow> first_match h equal as;
               (case r of
                  None \<Rightarrow> ret (LL_SUCCESS, if data_p then Some 0 else None)
                | Some tmp \<Rightarrow> search_found list_data data_p rm_if_found tmp)
             })
        }
      })"

section \<open>The elements of a list\<close>

lemma elems_from_dll: "dll h p prev as \<Longrightarrow> elems_from h p = Some as"
proof (induction as arbitrary: p prev)
  case Nil
  then show ?case by (simp add: elems_from.simps)
next
  case (Cons a as)
  then obtain x where "h a = Some x" "p = a" "a \<noteq> 0" "dll h (le_next x) a as"
    by (auto split: option.splits)
  with Cons.IH show ?case by (subst elems_from.simps) simp
qed

text \<open>A callback that does nothing else: the search with a predicate.\<close>

lemma first_match_pure: "run_state (first_match h (\<lambda>d. ret (eq d)) as) s = (find (\<lambda>a. eq (fst (item h a))) as, s)"
  by (induction as) simp_all

theorem search_cb_pure:
  assumes "rep s l as"
  shows "run_state (linked_list_search_cb l dp (\<lambda>d. ret (eq d)) rm) s = run_state (linked_list_search l dp (Some eq) rm) s"
  using rep_D(1,4) [OF assms] elems_from_dll [OF rep_D(4) [OF assms]] search_loop_dll [OF rep_D(4) [OF assms], of eq]
  by (cases "find (\<lambda>a. eq (fst (item (ll_elems s) a))) as")
    (auto simp: linked_list_search_cb_def linked_list_search_def get_list_def first_match_pure search_found_def)

text \<open>
  In general: the result and the state of the search from those of the callbacks, if these leave the list alone. The
  removal is the one of a search for the element that was accepted.
\<close>

lemma search_cb_empty: "rep s l [] \<Longrightarrow> l \<noteq> 0 \<Longrightarrow> run_state (linked_list_search_cb l dp cb rm) s = ((LL_UNAVAILABLE_RESOURCE, None), s)"
  by (auto simp: linked_list_search_cb_def rep_def get_list_def)

lemma rep_tail: "rep s l as \<Longrightarrow> as \<noteq> [] \<Longrightarrow> last as \<noteq> 0"
  using rep_D(2) by (metis last_in_set)

theorem search_cb_run:
  assumes rep: "rep s l as" and l: "l \<noteq> 0" and as: "as \<noteq> []"
    and run: "run_state (first_match (ll_elems s) cb as) s = (r, s1)"
  shows "run_state (linked_list_search_cb l dp cb rm) s =
    (case r of None \<Rightarrow> ((LL_SUCCESS, if dp then Some 0 else None), s1) | Some a \<Rightarrow> run_state (search_found l dp rm a) s1)"
  using rep_D(1,4) [OF rep] elems_from_dll [OF rep_D(4) [OF rep]] rep_tail [OF rep as] l run as
  by (auto simp: linked_list_search_cb_def get_list_def split: option.splits)

lemma search_found_keep:
  "rep s l as \<Longrightarrow> a \<in> set as \<Longrightarrow>
   run_state (search_found l dp False a) s = ((LL_SUCCESS, if dp then Some (fst (item (ll_elems s) a)) else None), s)"
  using dll_alloc [OF rep_D(4)] by (fastforce simp: search_found_def get_elem_def item_def)

lemma search_found_run:
  assumes rep: "rep s l (us @ a # vs)" and l: "l \<noteq> 0"
    and d: "\<And>u. u \<in> set us \<Longrightarrow> fst (item (ll_elems s) u) \<noteq> fst (item (ll_elems s) a)"
    and run: "run_state (search_found l True True a) s = ((err, d), s')"
  shows "d = Some (fst (item (ll_elems s) a))" "rep s' l (us @ vs)" "items s' (us @ vs) = items s (us @ vs)"
    "ub s' = ub s" "tr s' = E_free a # tr s"
proof -
  let ?eq = "\<lambda>x. x = fst (item (ll_elems s) a)"
  have find: "find (\<lambda>b. ?eq (fst (item (ll_elems s) b))) (us @ a # vs) = Some a"
  proof -
    have "find (\<lambda>b. ?eq (fst (item (ll_elems s) b))) us = None"
      using d by (auto simp: find_None_iff)
    then show ?thesis by (induction us) auto
  qed
  have "run_state (linked_list_search l True (Some ?eq) True) s = run_state (search_found l True True a) s"
    using rep_D(1) [OF rep] search_loop_dll [OF rep_D(4) [OF rep], of ?eq] find rep_tail [OF rep] l
    by (auto simp: linked_list_search_def get_list_def search_found_def)
  with run have "run_state (linked_list_search l True (Some ?eq) True) s = ((err, d), s')" by simp
  from search_remove [OF rep l find this]
  show "d = Some (fst (item (ll_elems s) a))" "rep s' l (us @ vs)" "items s' (us @ vs) = items s (us @ vs)"
    "ub s' = ub s" "tr s' = E_free a # tr s" by simp_all
qed

end
