(* ===== verification/Agps.thy ===== *)
theory Agps
  imports Dmn_Server List_Callback
begin

text \<open>
  \<open>gps/loc_api/libloc_api_50001/loc_eng_agps.cpp\<close> and \<open>.h\<close>: the state machines that share a network interface among
  subscribers, and the messages of \<open>loc_eng.cpp\<close> that drive them. An object is an address: \<open>subs\<close> are the allocated
  subscribers, \<open>sms\<close> the state machines, and the list of the subscribers of a machine is the one of \<open>Linked_List\<close>. A virtual
  method is a case distinction on the kind of the object. Calls into the location API library are events.
\<close>

datatype rsrc = RSRC_SUBSCRIBE | RSRC_UNSUBSCRIBE | RSRC_GRANTED | RSRC_RELEASED | RSRC_DENIED | RSRC_STATUS_MAX

datatype servicer = servicerTypeNoCbParam | servicerTypeAgps | servicerTypeExt

text \<open>The four state objects; \<open>mStatePtr\<close> points to one of them.\<close>

datatype agps_state = Released | Pending | Acquired | Releasing

datatype sub_kind = BITSubscriber | ATLSubscriber | WIFISubscriber | DSSubscriber

text \<open>
  \<open>Subscriber\<close> and the members of its subclasses: \<open>ID\<close> (unsigned), the machine, the IPv6 address (\<open>BIT\<close>), the mode
  (\<open>ATL\<close>), the strings and the sender (\<open>WIFI\<close>), and whether it is inactive (\<open>WIFI\<close>, \<open>DS\<close>).
\<close>

record subscriber =
  sub_kind :: sub_kind
  sub_ID :: int
  sub_sm :: nat
  mIPv6Addr :: string
  mBackwardCompatibleMode :: bool
  mSSID :: "string option"
  mPassword :: "string option"
  senderId :: int
  mIsInactive :: bool

text \<open>\<open>AgpsStateMachine\<close>; \<open>sm_ds\<close> if it is a \<open>DSStateMachine\<close>. The callback of the servicer is a number, 0 for \<open>NULL\<close>.\<close>

record agps_sm =
  mSubscribers :: nat
  mServicer :: servicer
  sm_cb :: nat
  mState :: agps_state
  mType :: int
  mAPN :: "string option"
  mAPNLen :: nat
  mBearer :: int
  mEnforceSingleSubscriber :: bool
  sm_ds :: bool
  mRetries :: int

record agps_st = srv_st +
  subs :: "nat \<Rightarrow> subscriber option"
  sms :: "nat \<Rightarrow> agps_sm option"
  agnss_nif :: nat
  internet_nif :: nat
  wifi_nif :: nat
  ds_nif :: nat
  eng_adapter :: bool
  agps_status_cb :: nat
  mAgpsEnabled :: bool

text \<open>\<open>Notification\<close>: to one subscriber or, with \<open>rcver\<close> 0, to a group.\<close>

record notification =
  rcver :: nat
  groupID :: int
  rsrcStatus :: rsrc
  postNotifyDelete :: bool

definition BROADCAST_ALL :: int where "BROADCAST_ALL = - 0x80000000"
definition BROADCAST_ACTIVE :: int where "BROADCAST_ACTIVE = - 0x7fffffff"
definition BROADCAST_INACTIVE :: int where "BROADCAST_INACTIVE = - 0x7ffffffe"

definition to_group :: "int \<Rightarrow> rsrc \<Rightarrow> bool \<Rightarrow> notification" where
  "to_group g st del = \<lparr>rcver = 0, groupID = g, rsrcStatus = st, postNotifyDelete = del\<rparr>"

definition to_sub :: "nat \<Rightarrow> rsrc \<Rightarrow> bool \<Rightarrow> notification" where
  "to_sub d st del = \<lparr>rcver = d, groupID = - 1, rsrcStatus = st, postNotifyDelete = del\<rparr>"

definition MAX_START_DATA_CALL_RETRIES :: int where "MAX_START_DATA_CALL_RETRIES = 4"
definition DATA_CALL_RETRY_DELAY_MSEC :: int where "DATA_CALL_RETRY_DELAY_MSEC = 500"
definition INADDR_NONE :: int where "INADDR_NONE = 0xffffffff"
definition GPS_REQUEST_AGPS_DATA_CONN :: int where "GPS_REQUEST_AGPS_DATA_CONN = 1"
definition GPS_RELEASE_AGPS_DATA_CONN :: int where "GPS_RELEASE_AGPS_DATA_CONN = 2"
definition AGPS_APN_BEARER_INVALID :: int where "AGPS_APN_BEARER_INVALID = - 1"
definition LOC_API_ADAPTER_ERR_UNSUPPORTED :: int where "LOC_API_ADAPTER_ERR_UNSUPPORTED = 2"
definition LOC_API_ADAPTER_ERR_ENGINE_BUSY :: int where "LOC_API_ADAPTER_ERR_ENGINE_BUSY = 6"
definition MAX_APN_LEN :: nat where "MAX_APN_LEN = 100"

lemmas agps_consts = BROADCAST_ALL_def BROADCAST_ACTIVE_def BROADCAST_INACTIVE_def MAX_START_DATA_CALL_RETRIES_def
  DATA_CALL_RETRY_DELAY_MSEC_def INADDR_NONE_def GPS_REQUEST_AGPS_DATA_CONN_def GPS_RELEASE_AGPS_DATA_CONN_def
  AGPS_APN_BEARER_INVALID_def LOC_API_ADAPTER_ERR_UNSUPPORTED_def LOC_API_ADAPTER_ERR_ENGINE_BUSY_def

text \<open>The functions given by address: \<open>deleteObj\<close>, \<open>delay_callback\<close> and \<open>dataCallCb\<close>.\<close>

abbreviation (input) "DELETE_OBJ \<equiv> 1 :: nat"
abbreviation (input) "DELAY_CALLBACK \<equiv> 2 :: nat"
abbreviation (input) "DATA_CALL_CB \<equiv> 3 :: nat"

section \<open>Objects\<close>

definition no_sub :: subscriber where
  "no_sub = \<lparr>sub_kind = BITSubscriber, sub_ID = 0, sub_sm = 0, mIPv6Addr = [], mBackwardCompatibleMode = False, mSSID = None,
     mPassword = None, senderId = 0, mIsInactive = False\<rparr>"

definition no_sm :: agps_sm where
  "no_sm = \<lparr>mSubscribers = 0, mServicer = servicerTypeNoCbParam, sm_cb = 0, mState = Released, mType = 0, mAPN = None,
     mAPNLen = 0, mBearer = 0, mEnforceSingleSubscriber = False, sm_ds = False, mRetries = 0\<rparr>"

definition get_sub :: "nat \<Rightarrow> ('a agps_st_scheme, subscriber) state" where
  "get_sub d = do {
     x \<leftarrow> gets (\<lambda>s. subs s d);
     (case x of None \<Rightarrow> do { must False; ret no_sub } | Some x \<Rightarrow> ret x)
   }"

definition upd_sub :: "nat \<Rightarrow> (subscriber \<Rightarrow> subscriber) \<Rightarrow> ('a agps_st_scheme, unit) state" where
  "upd_sub d f = modify (\<lambda>s. s\<lparr>subs := (subs s)(d := map_option f (subs s d))\<rparr>)"

definition get_sm :: "nat \<Rightarrow> ('a agps_st_scheme, agps_sm) state" where
  "get_sm m = do {
     x \<leftarrow> gets (\<lambda>s. sms s m);
     (case x of None \<Rightarrow> do { must False; ret no_sm } | Some x \<Rightarrow> ret x)
   }"

definition upd_sm :: "nat \<Rightarrow> (agps_sm \<Rightarrow> agps_sm) \<Rightarrow> ('a agps_st_scheme, unit) state" where
  "upd_sm m f = modify (\<lambda>s. s\<lparr>sms := (sms s)(m := map_option f (sms s m))\<rparr>)"

text \<open>\<open>delete s\<close>, which may be \<open>NULL\<close>. The strings of a WIFI subscriber are not freed by its destructor.\<close>

definition delete_sub :: "nat \<Rightarrow> ('a agps_st_scheme, unit) state" where
  "delete_sub d =
     (if d = 0 then ret ()
      else do { _ \<leftarrow> get_sub d; emit (E_free d); modify (\<lambda>s. s\<lparr>subs := (subs s)(d := None)\<rparr>) })"

text \<open>\<open>new\<close> does not return \<open>NULL\<close>.\<close>

definition new_obj :: "nat \<Rightarrow> ('a world_scheme, nat) state" where
  "new_obj n = do { r \<leftarrow> call (E_malloc n); must (0 < rv r); ret (nat (rv r)) }"

definition new_str :: "string option \<Rightarrow> ('a world_scheme, unit) state" where
  "new_str x = (case x of None \<Rightarrow> ret () | Some _ \<Rightarrow> do { _ \<leftarrow> new_obj SSID_BUF_SIZE; ret () })"

definition sub_size :: "sub_kind \<Rightarrow> nat" where
  "sub_size k = (case k of BITSubscriber \<Rightarrow> 28 | ATLSubscriber \<Rightarrow> 20 | WIFISubscriber \<Rightarrow> 28 | DSSubscriber \<Rightarrow> 16)"

definition clone :: "nat \<Rightarrow> ('a agps_st_scheme, nat) state" where
  "clone d = do {
     x \<leftarrow> get_sub d;
     c \<leftarrow> new_obj (sub_size (sub_kind x));
     new_str (mSSID x);
     new_str (mPassword x);
     modify (\<lambda>s. s\<lparr>subs := (subs s)(c := Some (x\<lparr>mIsInactive := False\<rparr>))\<rparr>);
     ret c
   }"

definition waitForCloseComplete :: "subscriber \<Rightarrow> bool" where
  "waitForCloseComplete x \<longleftrightarrow> sub_kind x = WIFISubscriber \<or> sub_kind x = DSSubscriber"

definition isInactive :: "subscriber \<Rightarrow> bool" where
  "isInactive x \<longleftrightarrow> waitForCloseComplete x \<and> mIsInactive x"

text \<open>
  \<open>equals\<close>: \<open>this\<close> decides. \<open>BITSubscriber\<close> takes the other one for one of its own class and compares the IPv6 addresses as
  strings of at most 16 characters if there is no IPv4 address.
\<close>

definition same_ipv6 :: "string \<Rightarrow> string \<Rightarrow> bool" where
  "same_ipv6 a b \<longleftrightarrow> cstr (take 16 a) = cstr (take 16 b)"

definition sub_eq :: "subscriber \<Rightarrow> subscriber \<Rightarrow> bool" where
  "sub_eq x y \<longleftrightarrow> sub_ID x = sub_ID y \<and>
     (sub_kind x = BITSubscriber \<longrightarrow> sub_ID x \<noteq> INADDR_NONE \<or> same_ipv6 (mIPv6Addr x) (mIPv6Addr y))"

definition equals :: "nat \<Rightarrow> nat \<Rightarrow> ('a agps_st_scheme, bool) state" where
  "equals this other = do {
     x \<leftarrow> get_sub this;
     y \<leftarrow> get_sub other;
     must (sub_kind x = BITSubscriber \<and> sub_ID x = sub_ID y \<and> sub_ID x = INADDR_NONE \<longrightarrow> sub_kind y = BITSubscriber);
     ret (sub_eq x y)
   }"

definition in_group :: "int \<Rightarrow> subscriber \<Rightarrow> bool" where
  "in_group g x \<longleftrightarrow> g = BROADCAST_ALL \<or> g = BROADCAST_ACTIVE \<and> \<not> isInactive x \<or> g = BROADCAST_INACTIVE \<and> isInactive x"

definition forMe :: "nat \<Rightarrow> notification \<Rightarrow> ('a agps_st_scheme, bool) state" where
  "forMe this n =
     (if rcver n \<noteq> 0 then equals this (rcver n)
      else do { x \<leftarrow> get_sub this; ret (in_group (groupID n) x) })"

section \<open>The location API\<close>

definition api :: "string \<Rightarrow> int list \<Rightarrow> ('a world_scheme, unit) state" where
  "api f xs = emit (E_hook f xs)"

text \<open>The APN is a string, or \<open>NULL\<close>.\<close>

definition atlOpenStatus :: "int \<Rightarrow> int \<Rightarrow> string option \<Rightarrow> int \<Rightarrow> int \<Rightarrow> ('a world_scheme, unit) state" where
  "atlOpenStatus handle is_succ apn bearer ty =
     api ''atlOpenStatus'' ([handle, is_succ, bearer, ty] @ (case apn of None \<Rightarrow> [] | Some a \<Rightarrow> 1 # map of_char (cstr a)))"

definition atlCloseStatus :: "int \<Rightarrow> int \<Rightarrow> ('a world_scheme, unit) state" where
  "atlCloseStatus handle is_succ = api ''atlCloseStatus'' [handle, is_succ]"

definition requestATL :: "int \<Rightarrow> int \<Rightarrow> ('a agps_st_scheme, unit) state" where
  "requestATL handle ty = do {
     on \<leftarrow> gets mAgpsEnabled;
     (if on then send_msg (LocEngRequestATL handle ty) else ret ())
   }"

definition requestSuplES :: "int \<Rightarrow> ('a agps_st_scheme, unit) state" where
  "requestSuplES handle = do {
     on \<leftarrow> gets mAgpsEnabled;
     (if on then send_msg (LocEngRequestSuplEs handle) else ret ())
   }"

section \<open>Telling a subscriber\<close>

definition informStatus :: "nat \<Rightarrow> rsrc \<Rightarrow> int \<Rightarrow> ('a agps_st_scheme, unit) state" where
  "informStatus m status ID =
     (case status of
        RSRC_UNSUBSCRIBE \<Rightarrow> atlCloseStatus ID 1
      | RSRC_RELEASED \<Rightarrow> api ''closeDataCall'' []
      | RSRC_DENIED \<Rightarrow> do { upd_sm m (\<lambda>x. x\<lparr>mRetries := 0\<rparr>); requestATL ID AGPS_TYPE_SUPL }
      | RSRC_GRANTED \<Rightarrow> atlOpenStatus ID 1 None AGPS_APN_BEARER_INVALID AGPS_TYPE_INVALID
      | _ \<Rightarrow> ret ())"

definition setInactive :: "nat \<Rightarrow> ('a agps_st_scheme, unit) state" where
  "setInactive d = do {
     x \<leftarrow> get_sub d;
     (case sub_kind x of
        WIFISubscriber \<Rightarrow> upd_sub d (\<lambda>x. x\<lparr>mIsInactive := True\<rparr>)
      | DSSubscriber \<Rightarrow> do {
          upd_sub d (\<lambda>x. x\<lparr>mIsInactive := True\<rparr>);
          informStatus (sub_sm x) RSRC_UNSUBSCRIBE (swrap 32 (sub_ID x))
        }
      | _ \<Rightarrow> ret ())
   }"

definition data_conn :: "int \<Rightarrow> int \<Rightarrow> ('a agps_st_scheme, unit) state" where
  "data_conn sender status = do { _ \<leftarrow> loc_eng_dmn_conn_loc_api_server_data_conn sender status; ret () }"

text \<open>What the four \<open>notifyRsrcStatus\<close> do with a status that is for them; the result is \<open>notify\<close>.\<close>

definition tell_bit :: "rsrc \<Rightarrow> ('a agps_st_scheme, bool) state" where
  "tell_bit st =
     (case st of
        RSRC_UNSUBSCRIBE \<Rightarrow> do { data_conn ID_GPSONE_DAEMON GPSONE_LOC_API_IF_RELEASE_SUCCESS; ret True }
      | RSRC_RELEASED \<Rightarrow> do { data_conn ID_GPSONE_DAEMON GPSONE_LOC_API_IF_RELEASE_SUCCESS; ret True }
      | RSRC_DENIED \<Rightarrow> do { data_conn ID_GPSONE_DAEMON GPSONE_LOC_API_IF_FAILURE; ret True }
      | RSRC_GRANTED \<Rightarrow> do { data_conn ID_GPSONE_DAEMON GPSONE_LOC_API_IF_REQUEST_SUCCESS; ret True }
      | _ \<Rightarrow> ret False)"

definition tell_atl :: "subscriber \<Rightarrow> rsrc \<Rightarrow> ('a agps_st_scheme, bool) state" where
  "tell_atl x st =
     (if st = RSRC_UNSUBSCRIBE \<or> st = RSRC_RELEASED then do { atlCloseStatus (swrap 32 (sub_ID x)) 1; ret True }
      else if st = RSRC_DENIED \<or> st = RSRC_GRANTED then do {
        sm \<leftarrow> get_sm (sub_sm x);
        atlOpenStatus (swrap 32 (sub_ID x)) (if st = RSRC_GRANTED then 1 else 0) (mAPN sm) (mBearer sm)
          (if mBackwardCompatibleMode x then AGPS_TYPE_INVALID else mType sm);
        ret True
      } else ret False)"

definition tell_wifi :: "subscriber \<Rightarrow> rsrc \<Rightarrow> ('a agps_st_scheme, bool) state" where
  "tell_wifi x st =
     (case st of
        RSRC_UNSUBSCRIBE \<Rightarrow> ret True
      | RSRC_RELEASED \<Rightarrow> do { data_conn (senderId x) GPSONE_LOC_API_IF_RELEASE_SUCCESS; ret True }
      | RSRC_DENIED \<Rightarrow> do { data_conn (senderId x) GPSONE_LOC_API_IF_FAILURE; ret True }
      | RSRC_GRANTED \<Rightarrow> do { data_conn (senderId x) GPSONE_LOC_API_IF_REQUEST_SUCCESS; ret True }
      | _ \<Rightarrow> ret False)"

definition tell_ds :: "subscriber \<Rightarrow> rsrc \<Rightarrow> ('a agps_st_scheme, bool) state" where
  "tell_ds x st =
     (if st = RSRC_SUBSCRIBE \<or> st = RSRC_STATUS_MAX then ret False
      else do { informStatus (sub_sm x) st (swrap 32 (sub_ID x)); ret True })"

definition notifyRsrcStatus :: "nat \<Rightarrow> notification \<Rightarrow> ('a agps_st_scheme, bool) state" where
  "notifyRsrcStatus this n = do {
     notify \<leftarrow> forMe this n;
     if notify then do {
       x \<leftarrow> get_sub this;
       (case sub_kind x of
          BITSubscriber \<Rightarrow> tell_bit (rsrcStatus n)
        | ATLSubscriber \<Rightarrow> tell_atl x (rsrcStatus n)
        | WIFISubscriber \<Rightarrow> tell_wifi x (rsrcStatus n)
        | DSSubscriber \<Rightarrow> tell_ds x (rsrcStatus n))
     } else ret False
   }"

text \<open>The callback \<open>notifySubscriber\<close>; \<open>hasSubscriber\<close> is \<open>forMe\<close>.\<close>

definition notifySubscriber :: "notification \<Rightarrow> nat \<Rightarrow> ('a agps_st_scheme, bool) state" where
  "notifySubscriber n d = do { b \<leftarrow> notifyRsrcStatus d n; ret (b \<and> postNotifyDelete n) }"

definition hasSubscriber :: "notification \<Rightarrow> nat \<Rightarrow> ('a agps_st_scheme, bool) state" where
  "hasSubscriber n d = forMe d n"

section \<open>The list of subscribers\<close>

text \<open>The subscriber found, 0 if there is none.\<close>

definition find_sub :: "nat \<Rightarrow> notification \<Rightarrow> ('a agps_st_scheme, nat) state" where
  "find_sub m n = do {
     sm \<leftarrow> get_sm m;
     (_, d) \<leftarrow> linked_list_search_cb (mSubscribers sm) True (hasSubscriber n) False;
     ret (case d of None \<Rightarrow> 0 | Some d \<Rightarrow> d)
   }"

text \<open>The loop of \<open>notifySubscribers\<close>; every turn but the last takes an element off the list.\<close>

primrec notify_loop :: "nat \<Rightarrow> nat \<Rightarrow> notification \<Rightarrow> ('a agps_st_scheme, unit) state" where
  "notify_loop 0 l n = must False"
| "notify_loop (Suc k) l n = do {
     (_, d) \<leftarrow> linked_list_search_cb l True (notifySubscriber n) True;
     let s = (case d of None \<Rightarrow> 0 | Some d \<Rightarrow> d);
     delete_sub s;
     if s \<noteq> 0 then notify_loop k l n else ret ()
   }"

definition list_size :: "nat \<Rightarrow> ('a ll_st_scheme, nat) state" where
  "list_size l = gets (\<lambda>s. case ll_lists s l of None \<Rightarrow> 0
     | Some x \<Rightarrow> (case elems_from (ll_elems s) (p_head x) of None \<Rightarrow> 0 | Some as \<Rightarrow> length as))"

definition notifySubscribers :: "nat \<Rightarrow> notification \<Rightarrow> ('a agps_st_scheme, unit) state" where
  "notifySubscribers m n = do {
     sm \<leftarrow> get_sm m;
     if postNotifyDelete n then do {
       k \<leftarrow> list_size (mSubscribers sm);
       notify_loop (Suc k) (mSubscribers sm) n
     } else do {
       _ \<leftarrow> linked_list_search_cb (mSubscribers sm) False (notifySubscriber n) False;
       ret ()
     }
   }"

definition addSubscriber :: "nat \<Rightarrow> nat \<Rightarrow> ('a agps_st_scheme, unit) state" where
  "addSubscriber m d = do {
     s \<leftarrow> find_sub m (to_sub d RSRC_STATUS_MAX False);
     if s = 0 then do {
       sm \<leftarrow> get_sm m;
       c \<leftarrow> clone d;
       _ \<leftarrow> linked_list_add (mSubscribers sm) c DELETE_OBJ;
       ret ()
     } else ret ()
   }"

definition hasSubscribers :: "nat \<Rightarrow> ('a agps_st_scheme, bool) state" where
  "hasSubscribers m = do {
     sm \<leftarrow> get_sm m;
     r \<leftarrow> linked_list_empty (mSubscribers sm);
     ret (r = 0)
   }"

definition hasActiveSubscribers :: "nat \<Rightarrow> ('a agps_st_scheme, bool) state" where
  "hasActiveSubscribers m = do { s \<leftarrow> find_sub m (to_group BROADCAST_ACTIVE RSRC_STATUS_MAX False); ret (s \<noteq> 0) }"

text \<open>\<open>linked_list_flush\<close> calls \<open>deleteObj\<close> on the data of each element.\<close>

definition dropAllSubscribers :: "nat \<Rightarrow> ('a agps_st_scheme, unit) state" where
  "dropAllSubscribers m = do {
     sm \<leftarrow> get_sm m;
     s \<leftarrow> gets id;
     let ds = (case ll_lists s (mSubscribers sm) of None \<Rightarrow> []
       | Some x \<Rightarrow> (case elems_from (ll_elems s) (p_head x) of None \<Rightarrow> [] | Some as \<Rightarrow> map (\<lambda>a. fst (item (ll_elems s) a)) as));
     _ \<leftarrow> linked_list_flush (mSubscribers sm);
     for_each ds delete_sub
   }"

section \<open>Requests for the interface\<close>

text \<open>\<open>dataCallCb\<close> of \<open>loc_eng.cpp\<close>, the callback of the DS machine.\<close>

definition dataCallCb :: "int \<Rightarrow> ('a world_scheme, int) state" where
  "dataCallCb action =
     (if action = GPS_REQUEST_AGPS_DATA_CONN then do { r \<leftarrow> call (E_hook ''openAndStartDataCall'' []); ret (rv r) }
      else if action = GPS_RELEASE_AGPS_DATA_CONN then do { api ''stopDataCall'' []; ret 0 }
      else ret 0)"

text \<open>
  What is put into the request for the framework: \<open>setIPAddresses\<close> leaves the addresses uninitialised for WIFI and DS
  subscribers (no numbers here), \<open>setWifiInfo\<close> gives empty strings for the others.
\<close>

definition nif_addresses :: "subscriber option \<Rightarrow> int list" where
  "nif_addresses x = (case x of None \<Rightarrow> [INADDR_NONE]
     | Some x \<Rightarrow> (case sub_kind x of BITSubscriber \<Rightarrow> sub_ID x # map of_char (take 16 (mIPv6Addr x))
         | ATLSubscriber \<Rightarrow> [INADDR_NONE] | _ \<Rightarrow> []))"

definition nif_strings :: "subscriber option \<Rightarrow> int list" where
  "nif_strings x = (case x of None \<Rightarrow> [0, 0]
     | Some x \<Rightarrow> (case sub_kind x of
         WIFISubscriber \<Rightarrow> (case mSSID x of None \<Rightarrow> [0] | Some a \<Rightarrow> map of_char a @ [0]) @
           (case mPassword x of None \<Rightarrow> [0] | Some a \<Rightarrow> map of_char a @ [0])
       | _ \<Rightarrow> [0, 0]))"

definition requestRsrc :: "agps_sm \<Rightarrow> int \<Rightarrow> subscriber option \<Rightarrow> ('a world_scheme, int) state" where
  "requestRsrc sm action x = do {
     must (sm_cb sm \<noteq> 0);
     (case mServicer sm of
        servicerTypeNoCbParam \<Rightarrow> do { api ''callback'' [int (sm_cb sm)]; ret 0 }
      | servicerTypeAgps \<Rightarrow> do { api ''agps_status_cb'' (mType sm # action # nif_addresses x @ nif_strings x); ret 0 }
      | servicerTypeExt \<Rightarrow> dataCallCb action)
   }"

definition agps_sendRsrcRequest :: "nat \<Rightarrow> int \<Rightarrow> ('a agps_st_scheme, int) state" where
  "agps_sendRsrcRequest m action = do {
     d \<leftarrow> find_sub m (to_group BROADCAST_ACTIVE RSRC_STATUS_MAX False);
     if (d = 0) = (action = GPS_RELEASE_AGPS_DATA_CONN) then do {
       sm \<leftarrow> get_sm m;
       x \<leftarrow> (if d = 0 then ret None else do { x \<leftarrow> get_sub d; ret (Some x) });
       _ \<leftarrow> requestRsrc sm action x;
       ret 0
     } else ret 0
   }"

text \<open>\<open>connHandle\<close> is -1 if there is no active subscriber. A timer that did start makes the result -1.\<close>

definition ds_sendRsrcRequest :: "nat \<Rightarrow> int \<Rightarrow> ('a agps_st_scheme, int) state" where
  "ds_sendRsrcRequest m action = do {
     d \<leftarrow> find_sub m (to_group BROADCAST_ACTIVE RSRC_STATUS_MAX False);
     connHandle \<leftarrow> (if d = 0 then ret (- 1) else do { x \<leftarrow> get_sub d; ret (swrap 32 (sub_ID x)) });
     sm \<leftarrow> get_sm m;
     r \<leftarrow> requestRsrc sm action None;
     if r = LOC_API_ADAPTER_ERR_ENGINE_BUSY then do {
       upd_sm m (\<lambda>x. x\<lparr>mRetries := uwrap 8 (mRetries x + 1)\<rparr>);
       sm \<leftarrow> get_sm m;
       if MAX_START_DATA_CALL_RETRIES < mRetries sm then do { informStatus m RSRC_DENIED connHandle; ret r }
       else do {
         t \<leftarrow> loc_timer_start DATA_CALL_RETRY_DELAY_MSEC DELAY_CALLBACK m;
         ret (if t \<noteq> 0 then - 1 else r)
       }
     } else if r = LOC_API_ADAPTER_ERR_UNSUPPORTED \<or> r = - 1 then do {
       informStatus m RSRC_DENIED connHandle;
       ret r
     } else ret r
   }"

definition sendRsrcRequest :: "nat \<Rightarrow> int \<Rightarrow> ('a agps_st_scheme, int) state" where
  "sendRsrcRequest m action = do {
     sm \<leftarrow> get_sm m;
     if sm_ds sm then ds_sendRsrcRequest m action else agps_sendRsrcRequest m action
   }"

text \<open>What the timer of the last function calls, in its own thread.\<close>

definition retryCallback :: "nat \<Rightarrow> ('a agps_st_scheme, unit) state" where
  "retryCallback m = do {
     d \<leftarrow> find_sub m (to_group BROADCAST_ACTIVE RSRC_STATUS_MAX False);
     if d \<noteq> 0 then do { x \<leftarrow> get_sub d; requestSuplES (swrap 32 (sub_ID x)) } else ret ()
   }"

definition delay_callback :: "nat \<Rightarrow> ('a agps_st_scheme, unit) state" where
  "delay_callback m = (if m \<noteq> 0 then retryCallback m else ret ())"

section \<open>The states\<close>

text \<open>Each \<open>onRsrcEvent\<close> returns the next state; \<open>d\<close> is the subscriber for the first two events.\<close>

definition released_event :: "nat \<Rightarrow> rsrc \<Rightarrow> nat \<Rightarrow> ('a agps_st_scheme, agps_state) state" where
  "released_event m event d = do {
     _ \<leftarrow> hasSubscribers m;
     (case event of
        RSRC_SUBSCRIBE \<Rightarrow> do {
          addSubscriber m d;
          r \<leftarrow> sendRsrcRequest m GPS_REQUEST_AGPS_DATA_CONN;
          ret (if r = 0 then Pending else Released)
        }
      | RSRC_UNSUBSCRIBE \<Rightarrow> do {
          _ \<leftarrow> notifyRsrcStatus d (to_sub d event False);
          ret Released
        }
      | _ \<Rightarrow> ret Released)
   }"

text \<open>What \<open>RSRC_UNSUBSCRIBE\<close> does first in the other states.\<close>

definition take_leave :: "nat \<Rightarrow> nat \<Rightarrow> ('a agps_st_scheme, unit) state" where
  "take_leave m d = do {
     x \<leftarrow> get_sub d;
     if waitForCloseComplete x then setInactive d
     else notifySubscribers m (to_sub d RSRC_UNSUBSCRIBE True)
   }"

text \<open>and what follows it while the interface is requested or acquired.\<close>

definition release_if_unused :: "nat \<Rightarrow> agps_state \<Rightarrow> ('a agps_st_scheme, agps_state) state" where
  "release_if_unused m st = do {
     has \<leftarrow> hasSubscribers m;
     if \<not> has then do { _ \<leftarrow> sendRsrcRequest m GPS_RELEASE_AGPS_DATA_CONN; ret Released }
     else do {
       act \<leftarrow> hasActiveSubscribers m;
       if \<not> act then do { _ \<leftarrow> sendRsrcRequest m GPS_RELEASE_AGPS_DATA_CONN; ret Releasing }
       else ret st
     }
   }"

definition pending_event :: "nat \<Rightarrow> rsrc \<Rightarrow> nat \<Rightarrow> ('a agps_st_scheme, agps_state) state" where
  "pending_event m event d =
     (case event of
        RSRC_SUBSCRIBE \<Rightarrow> do { addSubscriber m d; ret Pending }
      | RSRC_UNSUBSCRIBE \<Rightarrow> do { take_leave m d; release_if_unused m Pending }
      | RSRC_GRANTED \<Rightarrow> do { notifySubscribers m (to_group BROADCAST_ACTIVE event False); ret Acquired }
      | RSRC_DENIED \<Rightarrow> do { notifySubscribers m (to_group BROADCAST_ALL event True); ret Released }
      | _ \<Rightarrow> ret Pending)"

definition acquired_event :: "nat \<Rightarrow> rsrc \<Rightarrow> nat \<Rightarrow> ('a agps_st_scheme, agps_state) state" where
  "acquired_event m event d =
     (case event of
        RSRC_SUBSCRIBE \<Rightarrow> do {
          _ \<leftarrow> notifyRsrcStatus d (to_sub d RSRC_GRANTED False);
          addSubscriber m d;
          ret Acquired
        }
      | RSRC_UNSUBSCRIBE \<Rightarrow> do { take_leave m d; release_if_unused m Acquired }
      | RSRC_RELEASED \<Rightarrow> do { notifySubscribers m (to_group BROADCAST_ALL event True); ret Released }
      | _ \<Rightarrow> ret Acquired)"

definition releasing_event :: "nat \<Rightarrow> rsrc \<Rightarrow> nat \<Rightarrow> ('a agps_st_scheme, agps_state) state" where
  "releasing_event m event d =
     (if event = RSRC_SUBSCRIBE then do { addSubscriber m d; ret Releasing }
      else if event = RSRC_UNSUBSCRIBE then do {
        take_leave m d;
        has \<leftarrow> hasSubscribers m;
        ret (if has then Releasing else Released)
      } else if event = RSRC_DENIED \<or> event = RSRC_RELEASED then do {
        notifySubscribers m (to_group BROADCAST_INACTIVE event True);
        act \<leftarrow> hasActiveSubscribers m;
        if act then do { _ \<leftarrow> sendRsrcRequest m GPS_REQUEST_AGPS_DATA_CONN; ret Pending }
        else ret Released
      } else ret Releasing)"

text \<open>\<open>mStatePtr = mStatePtr->onRsrcEvent(event, data)\<close>\<close>

definition state_event :: "nat \<Rightarrow> rsrc \<Rightarrow> nat \<Rightarrow> ('a agps_st_scheme, unit) state" where
  "state_event m event d = do {
     sm \<leftarrow> get_sm m;
     st \<leftarrow> (case mState sm of
        Released \<Rightarrow> released_event m event d
      | Pending \<Rightarrow> pending_event m event d
      | Acquired \<Rightarrow> acquired_event m event d
      | Releasing \<Rightarrow> releasing_event m event d);
     upd_sm m (\<lambda>x. x\<lparr>mState := st\<rparr>)
   }"

section \<open>The machine\<close>

definition agps_onRsrcEvent :: "nat \<Rightarrow> rsrc \<Rightarrow> ('a agps_st_scheme, unit) state" where
  "agps_onRsrcEvent m event =
     (if event = RSRC_GRANTED \<or> event = RSRC_RELEASED \<or> event = RSRC_DENIED then state_event m event 0 else ret ())"

definition ds_onRsrcEvent :: "nat \<Rightarrow> rsrc \<Rightarrow> ('a agps_st_scheme, unit) state" where
  "ds_onRsrcEvent m event = do {
     currState \<leftarrow> get_sm m;
     (if event = RSRC_GRANTED \<or> event = RSRC_DENIED then state_event m event 0
      else if event = RSRC_RELEASED then do {
        state_event m event 0;
        sm \<leftarrow> get_sm m;
        (if mState sm \<noteq> mState currState then ret () else state_event m RSRC_DENIED 0)
      } else ret ())
   }"

definition onRsrcEvent :: "nat \<Rightarrow> rsrc \<Rightarrow> ('a agps_st_scheme, unit) state" where
  "onRsrcEvent m event = do { sm \<leftarrow> get_sm m; if sm_ds sm then ds_onRsrcEvent m event else agps_onRsrcEvent m event }"

definition subscribeRsrc :: "nat \<Rightarrow> nat \<Rightarrow> ('a agps_st_scheme, unit) state" where
  "subscribeRsrc m d = do {
     sm \<leftarrow> get_sm m;
     has \<leftarrow> (if mEnforceSingleSubscriber sm then hasSubscribers m else ret False);
     if has then do { _ \<leftarrow> notifySubscriber (to_group BROADCAST_ALL RSRC_DENIED True) d; ret () }
     else state_event m RSRC_SUBSCRIBE d
   }"

definition unsubscribeRsrc :: "nat \<Rightarrow> nat \<Rightarrow> ('a agps_st_scheme, bool) state" where
  "unsubscribeRsrc m d = do {
     s \<leftarrow> find_sub m (to_sub d RSRC_STATUS_MAX False);
     if s \<noteq> 0 then do { state_event m RSRC_UNSUBSCRIBE s; ret True } else ret False
   }"

definition setBearer :: "nat \<Rightarrow> int \<Rightarrow> ('a agps_st_scheme, unit) state" where
  "setBearer m b = upd_sm m (\<lambda>x. x\<lparr>mBearer := b\<rparr>)"

text \<open>\<open>apn\<close> is \<open>None\<close> for \<open>NULL\<close>. The old name is freed with \<open>delete\<close>, the new one has a terminator after \<open>len\<close> bytes.\<close>

definition setAPN :: "nat \<Rightarrow> string option \<Rightarrow> nat \<Rightarrow> ('a agps_st_scheme, unit) state" where
  "setAPN m apn len =
     (case apn of
        None \<Rightarrow> upd_sm m (\<lambda>x. x\<lparr>mAPN := None, mAPNLen := 0\<rparr>)
      | Some a \<Rightarrow> do {
          must (len \<le> length a);
          upd_sm m (\<lambda>x. x\<lparr>mAPN := Some (take len a), mAPNLen := len\<rparr>)
        })"

definition new_machine :: "servicer \<Rightarrow> nat \<Rightarrow> int \<Rightarrow> bool \<Rightarrow> bool \<Rightarrow> ('a agps_st_scheme, nat) state" where
  "new_machine serv cb ty single ds = do {
     m \<leftarrow> new_obj 48;
     (err, l) \<leftarrow> linked_list_init True;
     must (err = LL_SUCCESS);
     modify (\<lambda>s. s\<lparr>sms := (sms s)(m := Some \<lparr>mSubscribers = (case l of None \<Rightarrow> 0 | Some l \<Rightarrow> l), mServicer = serv,
       sm_cb = cb, mState = Released, mType = ty, mAPN = None, mAPNLen = 0, mBearer = AGPS_APN_BEARER_INVALID,
       mEnforceSingleSubscriber = single, sm_ds = ds, mRetries = 0\<rparr>)\<rparr>);
     ret m
   }"

definition delete_machine :: "nat \<Rightarrow> ('a agps_st_scheme, unit) state" where
  "delete_machine m = do {
     dropAllSubscribers m;
     sm \<leftarrow> get_sm m;
     _ \<leftarrow> linked_list_destroy True (mSubscribers sm);
     emit (E_free m);
     modify (\<lambda>s. s\<lparr>sms := (sms s)(m := None)\<rparr>)
   }"

section \<open>The messages\<close>

text \<open>\<open>getAgpsStateMachine\<close>\<close>

definition getAgpsStateMachine :: "int \<Rightarrow> ('a agps_st_scheme, nat) state" where
  "getAgpsStateMachine ty = gets (\<lambda>s.
     if ty = AGPS_TYPE_WIFI then wifi_nif s
     else if ty = AGPS_TYPE_INVALID \<or> ty = AGPS_TYPE_SUPL then agnss_nif s
     else if ty = AGPS_TYPE_SUPL_ES then ds_nif s
     else internet_nif s)"

text \<open>A subscriber that is a local variable is at the address \<open>LOCAL\<close>, which the allocator does not give out.\<close>

definition LOCAL :: nat where "LOCAL = 1"

definition with_local :: "subscriber \<Rightarrow> ('a agps_st_scheme, 'b) state \<Rightarrow> ('a agps_st_scheme, 'b) state" where
  "with_local x f = do {
     modify (\<lambda>s. s\<lparr>subs := (subs s)(LOCAL := Some x)\<rparr>);
     r \<leftarrow> f;
     modify (\<lambda>s. s\<lparr>subs := (subs s)(LOCAL := None)\<rparr>);
     ret r
   }"

definition mk_bit :: "nat \<Rightarrow> int \<Rightarrow> string option \<Rightarrow> subscriber" where
  "mk_bit m ipv4 ipv6 = no_sub\<lparr>sub_kind := BITSubscriber, sub_ID := uwrap 32 ipv4, sub_sm := m,
     mIPv6Addr := (case ipv6 of None \<Rightarrow> [CHR 0x00] | Some a \<Rightarrow> take 16 a)\<rparr>"

definition mk_atl :: "nat \<Rightarrow> int \<Rightarrow> bool \<Rightarrow> subscriber" where
  "mk_atl m idn cm = no_sub\<lparr>sub_kind := ATLSubscriber, sub_ID := uwrap 32 idn, sub_sm := m, mBackwardCompatibleMode := cm\<rparr>"

definition mk_wifi :: "nat \<Rightarrow> string option \<Rightarrow> string option \<Rightarrow> int \<Rightarrow> subscriber" where
  "mk_wifi m ssid password sender = no_sub\<lparr>sub_kind := WIFISubscriber, sub_ID := uwrap 32 sender, sub_sm := m, mSSID := ssid,
     mPassword := password, senderId := sender\<rparr>"

definition mk_ds :: "nat \<Rightarrow> int \<Rightarrow> subscriber" where
  "mk_ds m idn = no_sub\<lparr>sub_kind := DSSubscriber, sub_ID := uwrap 32 idn, sub_sm := m\<rparr>"

text \<open>The part of \<open>LocEngReleaseATL::proc\<close> for one machine: whether it had the subscriber.\<close>

definition release_from :: "nat \<Rightarrow> subscriber \<Rightarrow> ('a agps_st_scheme, bool) state" where
  "release_from m x = (if m = 0 then ret False else with_local x (unsubscribeRsrc m LOCAL))"

text \<open>\<open>proc\<close> of each message.\<close>

definition proc_req_rel_wifi :: "int \<Rightarrow> int \<Rightarrow> string option \<Rightarrow> string option \<Rightarrow> bool \<Rightarrow> ('a agps_st_scheme, unit) state" where
  "proc_req_rel_wifi ty sender ssid password is_req = do {
     m \<leftarrow> gets wifi_nif;
     if m \<noteq> 0 then
       with_local (mk_wifi m ssid password sender)
         (if is_req then subscribeRsrc m LOCAL else do { _ \<leftarrow> unsubscribeRsrc m LOCAL; ret () })
     else atlOpenStatus sender 0 None (- 1) ty
   }"

definition proc_req_rel_bit :: "int \<Rightarrow> int \<Rightarrow> string option \<Rightarrow> bool \<Rightarrow> ('a agps_st_scheme, unit) state" where
  "proc_req_rel_bit ty ipv4 ipv6 is_req = do {
     m \<leftarrow> getAgpsStateMachine ty;
     with_local (mk_bit m ipv4 ipv6)
       (if is_req then subscribeRsrc m LOCAL else do { _ \<leftarrow> unsubscribeRsrc m LOCAL; ret () })
   }"

definition proc_request_supl_es :: "int \<Rightarrow> ('a agps_st_scheme, unit) state" where
  "proc_request_supl_es idn = do {
     m \<leftarrow> gets ds_nif;
     if m \<noteq> 0 then with_local (mk_ds m idn) (subscribeRsrc m LOCAL)
     else atlOpenStatus idn 0 None (- 1) (- 1)
   }"

definition proc_request_atl :: "int \<Rightarrow> int \<Rightarrow> ('a agps_st_scheme, unit) state" where
  "proc_request_atl idn ty = do {
     m \<leftarrow> getAgpsStateMachine ty;
     if m \<noteq> 0 then with_local (mk_atl m idn (ty = AGPS_TYPE_INVALID)) (subscribeRsrc m LOCAL)
     else atlOpenStatus idn 0 None (- 1) ty
   }"

definition proc_release_atl :: "int \<Rightarrow> ('a agps_st_scheme, unit) state" where
  "proc_release_atl idn = do {
     m1 \<leftarrow> gets agnss_nif;
     b1 \<leftarrow> release_from m1 (mk_atl m1 idn False);
     if b1 then ret ()
     else do {
       m2 \<leftarrow> gets internet_nif;
       b2 \<leftarrow> release_from m2 (mk_atl m2 idn False);
       if b2 then ret ()
       else do {
         m3 \<leftarrow> gets ds_nif;
         b3 \<leftarrow> release_from m3 (mk_ds m3 idn);
         if b3 then ret () else atlCloseStatus idn 0
       }
     }
   }"

definition proc_atl_open_success :: "nat \<Rightarrow> string \<Rightarrow> int \<Rightarrow> ('a agps_st_scheme, unit) state" where
  "proc_atl_open_success m apn bearer = do {
     setBearer m bearer;
     setAPN m (Some apn) (length apn);
     onRsrcEvent m RSRC_GRANTED
   }"

definition proc_supl_es :: "rsrc \<Rightarrow> ('a agps_st_scheme, unit) state" where
  "proc_supl_es event = do { m \<leftarrow> gets ds_nif; if m \<noteq> 0 then onRsrcEvent m event else ret () }"

definition proc_data_client_init :: "('a agps_st_scheme, unit) state" where
  "proc_data_client_init = do {
     r \<leftarrow> call (E_hook ''initDataServiceClient'' []);
     if rv r = 0 then do {
       m \<leftarrow> new_machine servicerTypeExt DATA_CALL_CB AGPS_TYPE_INVALID False True;
       modify (\<lambda>s. s\<lparr>ds_nif := m\<rparr>)
     } else ret ()
   }"

text \<open>\<open>other\<close> is \<open>proc\<close> of the messages that do not concern the machines (see \<open>Loc_Eng\<close>).\<close>

fun proc_msg :: "(eng_msg \<Rightarrow> ('a agps_st_scheme, unit) state) \<Rightarrow> loc_msg \<Rightarrow> ('a agps_st_scheme, unit) state" where
  "proc_msg other (LocEngReqRelWifi ty sender ssid password is_req) = proc_req_rel_wifi ty sender ssid password is_req"
| "proc_msg other (LocEngReqRelBIT ty ipv4 ipv6 is_req) = proc_req_rel_bit ty ipv4 ipv6 is_req"
| "proc_msg other (LocEngReleaseBIT m ipv4 ipv6) = with_local (mk_bit m ipv4 ipv6) (do { _ \<leftarrow> unsubscribeRsrc m LOCAL; ret () })"
| "proc_msg other LocEngSuplEsOpened = proc_supl_es RSRC_GRANTED"
| "proc_msg other LocEngSuplEsClosed = proc_supl_es RSRC_RELEASED"
| "proc_msg other (LocEngRequestSuplEs idn) = proc_request_supl_es idn"
| "proc_msg other (LocEngRequestATL idn ty) = proc_request_atl idn ty"
| "proc_msg other (LocEngReleaseATL idn) = proc_release_atl idn"
| "proc_msg other (LocEngAtlOpenSuccess m apn bearer) = proc_atl_open_success m apn bearer"
| "proc_msg other (LocEngAtlClosed m) = onRsrcEvent m RSRC_RELEASED"
| "proc_msg other (LocEngAtlOpenFailed m) = onRsrcEvent m RSRC_DENIED"
| "proc_msg other LocEngDataClientInit = proc_data_client_init"
| "proc_msg other (Eng_msg e) = other e"

text \<open>One turn of the task's loop (\<open>MsgTask::loopMain\<close>); nothing if no message is there.\<close>

definition task_turn :: "(eng_msg \<Rightarrow> ('a agps_st_scheme, unit) state) \<Rightarrow> ('a agps_st_scheme, unit) state" where
  "task_turn other = do {
     q \<leftarrow> gets task_q;
     (case q of [] \<Rightarrow> ret () | msg # rest \<Rightarrow> do { modify (\<lambda>s. s\<lparr>task_q := rest\<rparr>); proc_msg other msg })
   }"

section \<open>The calls of the framework\<close>

definition loc_eng_agps_open :: "int \<Rightarrow> string option \<Rightarrow> int \<Rightarrow> ('a agps_st_scheme, int) state" where
  "loc_eng_agps_open ty apn bearer = do {
     s \<leftarrow> gets id;
     if \<not> eng_adapter s \<or> agps_status_cb s = 0 then ret (- 1)
     else (case apn of
        None \<Rightarrow> ret 0
      | Some a \<Rightarrow> do {
          m \<leftarrow> getAgpsStateMachine ty;
          send_msg (LocEngAtlOpenSuccess m (take MAX_APN_LEN (cstr a)) bearer);
          ret 0
        })
   }"

definition loc_eng_agps_closed :: "int \<Rightarrow> ('a agps_st_scheme, int) state" where
  "loc_eng_agps_closed ty = do {
     s \<leftarrow> gets id;
     if \<not> eng_adapter s \<or> agps_status_cb s = 0 then ret (- 1)
     else do { m \<leftarrow> getAgpsStateMachine ty; send_msg (LocEngAtlClosed m); ret 0 }
   }"

definition loc_eng_agps_open_failed :: "int \<Rightarrow> ('a agps_st_scheme, int) state" where
  "loc_eng_agps_open_failed ty = do {
     s \<leftarrow> gets id;
     if \<not> eng_adapter s \<or> agps_status_cb s = 0 then ret (- 1)
     else do { m \<leftarrow> getAgpsStateMachine ty; send_msg (LocEngAtlOpenFailed m); ret 0 }
   }"

end
