(* ===== verification/Agps_Inv.thy ===== *)
theory Agps_Inv
  imports Agps
begin

text \<open>
  What the operations of the resource state machines do to the list of subscribers: each is described on a list of
  \<open>subscriber\<close>s. The machines are those for AGPS (not DS), whose subscribers are BIT, ATL and WIFI ones.
\<close>

section \<open>Operations that only tell\<close>

text \<open>The requests to the framework in a trace, the latest first.\<close>

fun act_of :: "event \<Rightarrow> int list" where
  "act_of (E_hook f (ty # a # xs)) = (if f = ''agps_status_cb'' then [a] else [])"
| "act_of e = []"

definition acts :: "event list \<Rightarrow> int list" where
  "acts t = concat (map act_of t)"

lemma acts_simps [simp]: "acts [] = []" "acts (e # t) = act_of e @ acts t" "acts (t @ t') = acts t @ acts t'"
  by (simp_all add: acts_def)

definition same :: "'a agps_st_scheme \<Rightarrow> 'a agps_st_scheme \<Rightarrow> bool" where
  "same s s' \<longleftrightarrow> ll_lists s' = ll_lists s \<and> ll_elems s' = ll_elems s \<and> subs s' = subs s \<and> sms s' = sms s \<and>
     env s' = env s \<and> ub s' = ub s \<and> acts (tr s') = acts (tr s) \<and> length (tr s) \<le> length (tr s')"

lemma same_refl [simp]: "same s s"
  by (simp add: same_def)

lemma same_trans: "same s s1 \<Longrightarrow> same s1 s2 \<Longrightarrow> same s s2"
  by (simp add: same_def)

definition tells :: "('a agps_st_scheme, 'b) state \<Rightarrow> bool" where
  "tells m \<longleftrightarrow> (\<forall>s. same s (snd (run_state m s)))"

named_theorems tells_rules

lemma tells_basic [tells_rules]:
  "tells (ret x)" "tells (gets f)" "act_of e = [] \<Longrightarrow> tells (emit e)" "act_of e = [] \<Longrightarrow> tells (call e)" "b \<Longrightarrow> tells (must b)"
  by (simp_all add: tells_def same_def)

lemma tells_bind [tells_rules]: "tells m \<Longrightarrow> (\<And>x. tells (f x)) \<Longrightarrow> tells (bind m f)"
  unfolding tells_def
  by (metis (no_types, lifting) case_prod_conv run_state_bind same_trans prod.collapse snd_conv)

lemma tells_if [tells_rules]: "(b \<Longrightarrow> tells m) \<Longrightarrow> (\<not> b \<Longrightarrow> tells m') \<Longrightarrow> tells (if b then m else m')"
  by simp

lemma tells_Let [tells_rules]: "(\<And>x. x = a \<Longrightarrow> tells (f x)) \<Longrightarrow> tells (Let a f)"
  by simp

lemma tells_case_option [tells_rules]: "tells m \<Longrightarrow> (\<And>x. tells (f x)) \<Longrightarrow> tells (case x of None \<Rightarrow> m | Some x \<Rightarrow> f x)"
  by (cases x) simp_all

lemma tellsD: "tells m \<Longrightarrow> run_state m s = (x, s') \<Longrightarrow> same s s'"
  unfolding tells_def by (metis snd_conv)

lemma tells_snd: "tells m \<Longrightarrow> same s (snd (run_state m s))"
  by (simp add: tells_def)

lemma length_put_at: "k + length bs \<le> length m \<Longrightarrow> length (put_at k bs m) = length m"
  by (simp add: put_at_def)

lemma act_of_hook: "f \<noteq> ''agps_status_cb'' \<Longrightarrow> act_of (E_hook f xs) = []"
  by (cases "E_hook f xs" rule: act_of.cases) simp_all

lemma tells_api [tells_rules]: "f \<noteq> ''agps_status_cb'' \<Longrightarrow> tells (api f xs)"
  unfolding api_def by (rule tells_basic(3)) (rule act_of_hook)

lemma tells_data_conn [tells_rules]: "tells (data_conn sender status)"
proof -
  have min_rest: "min a n + (n - a) = n" for a n :: nat by simp
  have "same s (snd (run_state (data_conn sender status) s))" for s :: "'a agps_st_scheme"
    by (simp add: data_conn_def loc_eng_dmn_conn_loc_api_server_data_conn_def memory_def
        loc_eng_dmn_conn_glue_msgsnd_def loc_eng_dmn_conn_glue_pipewrite_def Let_def length_put_at byte_def dmn_consts same_def min_rest)
  then show ?thesis by (simp add: tells_def)
qed

text \<open>The statuses a subscriber passes on.\<close>

definition passed_on :: "rsrc \<Rightarrow> bool" where
  "passed_on st \<longleftrightarrow> st \<noteq> RSRC_SUBSCRIBE \<and> st \<noteq> RSRC_STATUS_MAX"

text \<open>A subscriber of an AGPS machine: only a BIT one may have no IPv4 address as its ID.\<close>

definition wf_sub :: "nat \<Rightarrow> subscriber \<Rightarrow> bool" where
  "wf_sub m x \<longleftrightarrow> sub_kind x \<noteq> DSSubscriber \<and> (sub_kind x \<noteq> BITSubscriber \<longrightarrow> sub_ID x \<noteq> INADDR_NONE) \<and> sub_sm x = m"

definition for_me :: "'a agps_st_scheme \<Rightarrow> notification \<Rightarrow> subscriber \<Rightarrow> bool" where
  "for_me s n x \<longleftrightarrow> (if rcver n \<noteq> 0 then sub_eq x (the (subs s (rcver n))) else in_group (groupID n) x)"

text \<open>The receiver of a notification, if it has one, is allocated.\<close>

definition rcver_ok :: "nat \<Rightarrow> notification \<Rightarrow> 'a agps_st_scheme \<Rightarrow> bool" where
  "rcver_ok m n s \<longleftrightarrow> rcver n \<noteq> 0 \<longrightarrow> (\<exists>y. subs s (rcver n) = Some y \<and> wf_sub m y)"

lemma rcver_ok_group [simp]: "rcver_ok m (to_group g st del) s" "for_me s (to_group g st del) x \<longleftrightarrow> in_group g x"
  by (simp_all add: rcver_ok_def to_group_def for_me_def)

lemma for_me_same: "same s s' \<Longrightarrow> for_me s' n x = for_me s n x" "same s s' \<Longrightarrow> rcver_ok m n s' = rcver_ok m n s"
  by (simp_all add: for_me_def rcver_ok_def same_def)

lemma forMe_run:
  assumes "subs s d = Some x" "wf_sub m x" "rcver_ok m n s"
  shows "run_state (forMe d n) s = (for_me s n x, s)"
  using assms by (auto simp: forMe_def equals_def get_sub_def for_me_def rcver_ok_def wf_sub_def split: if_splits)

lemma hasSubscriber_run:
  "subs s d = Some x \<Longrightarrow> wf_sub m x \<Longrightarrow> rcver_ok m n s \<Longrightarrow> run_state (hasSubscriber n d) s = (for_me s n x, s)"
  by (simp add: hasSubscriber_def forMe_run)

lemma tells_bit [tells_rules]: "tells (tell_bit st)"
  by (cases st) (auto simp: tell_bit_def intro!: tells_rules)

lemma tells_wifi [tells_rules]: "tells (tell_wifi x st)"
  by (cases st) (auto simp: tell_wifi_def intro!: tells_rules)

lemma tells_atl_close [tells_rules]: "tells (atlCloseStatus h b)"
  by (simp add: atlCloseStatus_def tells_api)

lemma tells_atl_open [tells_rules]: "tells (atlOpenStatus h b a bearer ty)"
  unfolding atlOpenStatus_def by (rule tells_api) simp

lemma tell_answer:
  "fst (run_state (tell_bit st) s) = passed_on st" "fst (run_state (tell_wifi x st) s) = passed_on st"
  "fst (run_state (tell_atl x st) s) = passed_on st"
  by (cases st; simp add: tell_bit_def tell_wifi_def tell_atl_def passed_on_def split: prod.splits)+

lemma tell_atl_same:
  assumes "sms s (sub_sm x) \<noteq> None"
  shows "same s (snd (run_state (tell_atl x st) s))"
proof -
  obtain sm where sm: "sms s (sub_sm x) = Some sm" using assms by auto
  have "run_state (tell_atl x st) s = run_state
    (if st = RSRC_UNSUBSCRIBE \<or> st = RSRC_RELEASED then do { atlCloseStatus (swrap 32 (sub_ID x)) 1; ret True }
     else if st = RSRC_DENIED \<or> st = RSRC_GRANTED then do {
       atlOpenStatus (swrap 32 (sub_ID x)) (if st = RSRC_GRANTED then 1 else 0) (mAPN sm) (mBearer sm)
         (if mBackwardCompatibleMode x then AGPS_TYPE_INVALID else mType sm);
       ret True
     } else ret False) s" (is "_ = run_state ?m s")
    using sm by (simp add: tell_atl_def get_sm_def)
  moreover have "same s (snd (run_state ?m s))"
    by (rule tells_snd) (intro tells_rules)
  ultimately show ?thesis by simp
qed

lemma notify_run:
  assumes x: "subs s d = Some x" "wf_sub m x" and n: "rcver_ok m n s" and m: "sms s m \<noteq> None"
    and run: "run_state (notifyRsrcStatus d n) s = (b, s')"
  shows "b = (for_me s n x \<and> passed_on (rsrcStatus n)) \<and> same s s'"
proof (cases "for_me s n x")
  case False
  then show ?thesis using run forMe_run [OF x n] by (simp add: notifyRsrcStatus_def)
next
  case True
  let ?tell = "case sub_kind x of BITSubscriber \<Rightarrow> tell_bit (rsrcStatus n) | ATLSubscriber \<Rightarrow> tell_atl x (rsrcStatus n)
    | WIFISubscriber \<Rightarrow> tell_wifi x (rsrcStatus n) | DSSubscriber \<Rightarrow> tell_ds x (rsrcStatus n)"
  have "run_state ?tell s = (b, s')"
    using True run forMe_run [OF x n] x by (simp add: notifyRsrcStatus_def get_sub_def)
  moreover have "fst (run_state ?tell s) = passed_on (rsrcStatus n) \<and> same s (snd (run_state ?tell s))"
    using x(2) m by (cases "sub_kind x")
      (simp_all add: wf_sub_def tell_answer tell_atl_same tells_snd [OF tells_bit] tells_snd [OF tells_wifi])
  ultimately show ?thesis using True by simp
qed

section \<open>The list of subscribers\<close>

text \<open>
  The list at \<open>l\<close> has the elements \<open>as\<close> with the subscribers \<open>xs\<close> at the addresses \<open>ds\<close>, the newest first; none of them is a
  local variable.
\<close>

definition subs_at :: "nat \<Rightarrow> 'a agps_st_scheme \<Rightarrow> nat \<Rightarrow> nat list \<Rightarrow> nat list \<Rightarrow> subscriber list \<Rightarrow> bool" where
  "subs_at m s l as ds xs \<longleftrightarrow> l \<noteq> 0 \<and> rep s l as \<and> items s as = map (\<lambda>d. (d, DELETE_OBJ)) ds \<and> distinct ds \<and>
     0 \<notin> set ds \<and> LOCAL \<notin> set ds \<and> map (subs s) ds = map Some xs \<and> list_all (wf_sub m) xs"

lemma subs_at_same: "same s s' \<Longrightarrow> subs_at m s' l as ds xs = subs_at m s l as ds xs"
  by (simp add: same_def subs_at_def rep_def items_def)

lemma subs_at_data:
  assumes "subs_at m s l as ds xs"
  shows "map (\<lambda>a. fst (item (ll_elems s) a)) as = ds" "length as = length ds" "length xs = length ds"
proof -
  have i: "map (item (ll_elems s)) as = map (\<lambda>d. (d, DELETE_OBJ)) ds" and x: "map (subs s) ds = map Some xs"
    using assms by (simp_all add: subs_at_def items_def)
  have "map fst (map (item (ll_elems s)) as) = ds" unfolding i by (simp add: comp_def)
  then show "map (\<lambda>a. fst (item (ll_elems s) a)) as = ds" by (simp add: comp_def)
  show "length as = length ds" "length xs = length ds"
    using map_eq_imp_length_eq [OF i] map_eq_imp_length_eq [OF x] by simp_all
qed

lemma subs_at_nth:
  assumes "subs_at m s l as ds xs" "i < length ds"
  shows "subs s (ds ! i) = Some (xs ! i)" "wf_sub m (xs ! i)" "fst (item (ll_elems s) (as ! i)) = ds ! i" "ds ! i \<noteq> 0"
proof -
  note D = subs_at_data [OF assms(1)]
  have "map (subs s) ds ! i = map Some xs ! i" using assms(1) by (simp add: subs_at_def)
  then show "subs s (ds ! i) = Some (xs ! i)" using assms(2) D by simp
  show "wf_sub m (xs ! i)" using assms D by (auto simp: subs_at_def list_all_length)
  show "fst (item (ll_elems s) (as ! i)) = ds ! i" using D(1,2) assms(2) nth_map by metis
  show "ds ! i \<noteq> 0" using assms(1) nth_mem [OF assms(2)] by (metis subs_at_def)
qed

text \<open>The index of the first element of a list with a property.\<close>

fun index_of :: "('b \<Rightarrow> bool) \<Rightarrow> 'b list \<Rightarrow> nat option" where
  "index_of P [] = None"
| "index_of P (x # xs) = (if P x then Some 0 else map_option Suc (index_of P xs))"

lemma index_of_Some: "index_of P xs = Some i \<Longrightarrow> i < length xs \<and> P (xs ! i) \<and> (\<forall>j < i. \<not> P (xs ! j))"
  by (induction xs arbitrary: i) (auto simp: less_Suc_eq_0_disj split: if_splits)

lemma index_of_None: "index_of P xs = None \<longleftrightarrow> (\<forall>x \<in> set xs. \<not> P x)"
  by (induction xs) auto

lemma index_of_cong: "(\<And>x. x \<in> set xs \<Longrightarrow> P x = Q x) \<Longrightarrow> index_of P xs = index_of Q xs"
  by (induction xs) auto

text \<open>A callback that tells, over the list: it stops at the first subscriber for which it answers true.\<close>

lemma first_match_run:
  assumes cb: "\<And>i s1. i < length as \<Longrightarrow> same s s1 \<Longrightarrow>
      fst (run_state (cb (fst (item h (as ! i)))) s1) = P (xs ! i) \<and> same s1 (snd (run_state (cb (fst (item h (as ! i)))) s1))"
    and len: "length xs = length as" and run: "run_state (first_match h cb as) s1 = (r, s2)" and s1: "same s s1"
  shows "same s s2 \<and> r = map_option (\<lambda>i. as ! i) (index_of P xs)"
  using assms
proof (induction as arbitrary: xs s1)
  case (Cons a as)
  obtain x xs' where xs: "xs = x # xs'" using Cons.prems(2) by (cases xs) auto
  obtain b s3 where b: "run_state (cb (fst (item h a))) s1 = (b, s3)" by fastforce
  have b': "b = P x" "same s1 s3" using Cons.prems(1) [of 0 s1] Cons.prems(4) b xs by simp_all
  have s3: "same s s3" by (rule same_trans [OF Cons.prems(4) b'(2)])
  show ?case
  proof (cases "P x")
    case True
    then show ?thesis using Cons.prems(3) b b' s3 xs by simp
  next
    case False
    have "same s s2 \<and> r = map_option (\<lambda>i. as ! i) (index_of P xs')"
    proof (rule Cons.IH [where ?s1.0 = s3])
      show "fst (run_state (cb (fst (item h (as ! i)))) s4) = P (xs' ! i) \<and> same s4 (snd (run_state (cb (fst (item h (as ! i)))) s4))"
        if "i < length as" "same s s4" for i s4
        using Cons.prems(1) [of "Suc i" s4] that xs by simp
      show "length xs' = length as" using Cons.prems(2) xs by simp
      show "run_state (first_match h cb as) s3 = (r, s2)" using Cons.prems(3) b b' False by simp
    qed (rule s3)
    with False xs show ?thesis by (auto simp: option.map_comp comp_def)
  qed
qed simp

text \<open>Looking for a subscriber changes nothing.\<close>

lemma find_sub_run:
  assumes at: "subs_at m s (mSubscribers sm) as ds xs" and sm: "sms s m = Some sm" and n: "rcver_ok m n s"
  shows "run_state (find_sub m n) s = (case index_of (for_me s n) xs of None \<Rightarrow> 0 | Some i \<Rightarrow> ds ! i, s)"
proof (cases "as = []")
  case True
  then show ?thesis
    using at sm subs_at_data [OF at] search_cb_empty [of s "mSubscribers sm"] by (simp add: find_sub_def get_sm_def subs_at_def)
next
  case False
  note D = subs_at_data [OF at]
  have l: "mSubscribers sm \<noteq> 0" "rep s (mSubscribers sm) as" using at by (simp_all add: subs_at_def)
  have pure: "run_state (first_match (ll_elems s) (hasSubscriber n) bs) s = (map_option (\<lambda>i. bs ! i) (index_of (for_me s n) ys), s)"
    if "length bs = length ys" "\<And>i. i < length bs \<Longrightarrow> subs s (fst (item (ll_elems s) (bs ! i))) = Some (ys ! i) \<and> wf_sub m (ys ! i)" for bs ys
    using that
  proof (induction bs arbitrary: ys)
    case (Cons b bs)
    obtain y ys' where ys: "ys = y # ys'" using Cons.prems(1) by (cases ys) auto
    have "run_state (first_match (ll_elems s) (hasSubscriber n) bs) s = (map_option (\<lambda>i. bs ! i) (index_of (for_me s n) ys'), s)"
    proof (rule Cons.IH)
      show "length bs = length ys'" using Cons.prems(1) ys by simp
      show "subs s (fst (item (ll_elems s) (bs ! i))) = Some (ys' ! i) \<and> wf_sub m (ys' ! i)" if "i < length bs" for i
        using Cons.prems(2) [of "Suc i"] that ys by simp
    qed
    then show ?case
      using Cons.prems(2) [of 0] hasSubscriber_run [of s _ y m n, OF _ _ n] ys by (auto simp: option.map_comp comp_def)
  qed simp
  have fm: "run_state (first_match (ll_elems s) (hasSubscriber n) as) s = (map_option (\<lambda>i. as ! i) (index_of (for_me s n) xs), s)"
    by (rule pure) (use D subs_at_nth [OF at] in simp_all)
  show ?thesis
  proof (cases "index_of (for_me s n) xs")
    case None
    then show ?thesis using search_cb_run [OF l(2,1) False fm] sm by (simp add: find_sub_def get_sm_def)
  next
    case (Some i)
    then have i: "i < length as" using index_of_Some D by fastforce
    have "run_state (search_found (mSubscribers sm) True False (as ! i)) s = ((LL_SUCCESS, Some (ds ! i)), s)"
      using search_found_keep [OF l(2), of "as ! i" True] i subs_at_nth(3) [OF at, of i] D by simp
    then show ?thesis
      using Some search_cb_run [OF l(2,1) False fm] sm by (simp add: find_sub_def get_sm_def)
  qed
qed

text \<open>A notification without removal goes through the whole list.\<close>

lemma notify_cb:
  assumes at: "subs_at m s l as ds xs" and m: "sms s m \<noteq> None" and n: "rcver_ok m n s" and i: "i < length ds" and s1: "same s s1"
  shows "fst (run_state (notifySubscriber n (ds ! i)) s1) = (for_me s n (xs ! i) \<and> passed_on (rsrcStatus n) \<and> postNotifyDelete n)"
    "same s1 (snd (run_state (notifySubscriber n (ds ! i)) s1))"
proof -
  obtain b s2 where r: "run_state (notifyRsrcStatus (ds ! i) n) s1 = (b, s2)" by fastforce
  have "b = (for_me s1 n (xs ! i) \<and> passed_on (rsrcStatus n)) \<and> same s1 s2"
  proof (rule notify_run [OF _ subs_at_nth(2) [OF at i] _ _ r])
    show "subs s1 (ds ! i) = Some (xs ! i)" using subs_at_nth(1) [OF at i] s1 by (simp add: same_def)
    show "rcver_ok m n s1" using n for_me_same(2) [OF s1] by simp
    show "sms s1 m \<noteq> None" using m s1 by (simp add: same_def)
  qed
  then show "fst (run_state (notifySubscriber n (ds ! i)) s1) = (for_me s n (xs ! i) \<and> passed_on (rsrcStatus n) \<and> postNotifyDelete n)"
      "same s1 (snd (run_state (notifySubscriber n (ds ! i)) s1))"
    using r for_me_same(1) [OF s1] by (simp_all add: notifySubscriber_def)
qed

lemma notify_match:
  assumes at: "subs_at m s l as ds xs" and m: "sms s m \<noteq> None" and n: "rcver_ok m n s"
    and run: "run_state (first_match (ll_elems s) (notifySubscriber n) as) s = (r, s')"
  shows "same s s'"
    "r = map_option (\<lambda>i. as ! i) (index_of (\<lambda>x. for_me s n x \<and> passed_on (rsrcStatus n) \<and> postNotifyDelete n) xs)"
proof -
  note D = subs_at_data [OF at]
  have "same s s' \<and> r = map_option (\<lambda>i. as ! i) (index_of (\<lambda>x. for_me s n x \<and> passed_on (rsrcStatus n) \<and> postNotifyDelete n) xs)"
    by (rule first_match_run [OF _ _ run same_refl])
      (use notify_cb [OF at m n] subs_at_nth(3) [OF at] D in simp_all)
  then show "same s s'"
    "r = map_option (\<lambda>i. as ! i) (index_of (\<lambda>x. for_me s n x \<and> passed_on (rsrcStatus n) \<and> postNotifyDelete n) xs)" by simp_all
qed

lemma notify_keep:
  assumes at: "subs_at m s (mSubscribers sm) as ds xs" and sm: "sms s m = Some sm" and n: "rcver_ok m n s" "\<not> postNotifyDelete n"
  shows "same s (snd (run_state (notifySubscribers m n) s))"
proof (cases "as = []")
  case True
  then show ?thesis
    using at sm n search_cb_empty [of s "mSubscribers sm"] by (simp add: notifySubscribers_def get_sm_def subs_at_def)
next
  case False
  have l: "mSubscribers sm \<noteq> 0" "rep s (mSubscribers sm) as" using at by (simp_all add: subs_at_def)
  obtain r s1 where fm: "run_state (first_match (ll_elems s) (notifySubscriber n) as) s = (r, s1)" by fastforce
  have "same s s1" "r = None"
    using notify_match [OF at _ n(1) fm] sm n(2) by (simp_all add: index_of_None [THEN iffD2])
  then show ?thesis
    using search_cb_run [OF l(2,1) False fm, of False False] sm n(2) by (simp add: notifySubscribers_def get_sm_def)
qed

section \<open>Removal\<close>

definition drop_nth :: "nat \<Rightarrow> 'b list \<Rightarrow> 'b list" where
  "drop_nth i xs = take i xs @ drop (Suc i) xs"

text \<open>What stays as it is when subscribers come and go.\<close>

definition kept :: "'a agps_st_scheme \<Rightarrow> 'a agps_st_scheme \<Rightarrow> bool" where
  "kept s s' \<longleftrightarrow> sms s' = sms s \<and> env s' = env s \<and> ub s' = ub s \<and> acts (tr s') = acts (tr s) \<and> subs s' LOCAL = subs s LOCAL"

lemma kept_same: "same s s' \<Longrightarrow> kept s s'"
  by (simp add: kept_def same_def)

lemma kept_refl [simp]: "kept s s"
  by (simp add: kept_def)

lemma kept_trans: "kept s s1 \<Longrightarrow> kept s1 s2 \<Longrightarrow> kept s s2"
  by (simp add: kept_def)

lemma agps_more: "ll_st.more s = ll_st.more s' \<Longrightarrow> subs s = subs s' \<and> sms s = sms s'"
  by (cases s; cases s') simp

lemma list_ops_more:
  "ll_st.more (snd (run_state (search_found l dp rm a) s)) = ll_st.more s"
  "ll_st.more (snd (run_state (linked_list_add l d f) s)) = ll_st.more s"
  "env (snd (run_state (search_found l dp rm a) s)) = env s"
  "env (snd (run_state (linked_list_add l d f) s)) = env s"
proof -
  have "keeps (\<lambda>s. ll_st.more s = v) (search_found l dp rm a)" "keeps (\<lambda>s. ll_st.more s = v) (linked_list_add l d f)"
    "keeps (\<lambda>s. env s = e) (search_found l dp rm a)" "keeps (\<lambda>s. env s = e) (linked_list_add l d f)" for v e
    by (auto simp: search_found_def linked_list_add_def get_list_def upd_list_def get_elem_def upd_elem_def free_elem_def
        unlink_elem_def intro!: keeps_rules)
  from keepsD [OF this(1) refl] keepsD [OF this(2) refl] keepsD [OF this(3) refl] keepsD [OF this(4) refl]
  show "ll_st.more (snd (run_state (search_found l dp rm a) s)) = ll_st.more s"
    "ll_st.more (snd (run_state (linked_list_add l d f) s)) = ll_st.more s"
    "env (snd (run_state (search_found l dp rm a) s)) = env s"
    "env (snd (run_state (linked_list_add l d f) s)) = env s" .
qed

lemma drop_nth_split: "i < length xs \<Longrightarrow> xs = take i xs @ xs ! i # drop (Suc i) xs"
  by (rule id_take_nth_drop)

lemma map_drop_nth: "map f (drop_nth i xs) = drop_nth i (map f xs)"
  by (simp add: drop_nth_def take_map drop_map)

lemma set_drop_nth: "set (drop_nth i xs) \<subseteq> set xs"
  using set_take_subset set_drop_subset by (fastforce simp: drop_nth_def)

lemma length_drop_nth: "i < length xs \<Longrightarrow> length (drop_nth i xs) = length xs - 1"
  by (simp add: drop_nth_def)

lemma distinct_drop_nth:
  assumes "distinct xs" "i < length xs"
  shows "distinct (drop_nth i xs)" "xs ! i \<notin> set (drop_nth i xs)"
proof -
  have "distinct (take i xs @ xs ! i # drop (Suc i) xs)" using assms drop_nth_split by metis
  then show "distinct (drop_nth i xs)" "xs ! i \<notin> set (drop_nth i xs)" by (auto simp: drop_nth_def)
qed

lemma filter_drop_nth:
  assumes "i < length xs" "\<not> P (xs ! i)"
  shows "filter P (drop_nth i xs) = filter P xs"
proof -
  have "filter P xs = filter P (take i xs @ xs ! i # drop (Suc i) xs)" using assms(1) drop_nth_split by metis
  with assms(2) show ?thesis by (simp add: drop_nth_def)
qed

lemma delete_0: "delete_sub 0 = ret ()"
  by (simp add: delete_sub_def)

lemma delete_run: "subs s d = Some x \<Longrightarrow> d \<noteq> 0 \<Longrightarrow>
    run_state (delete_sub d) s = ((), s\<lparr>tr := E_free d # tr s, subs := (subs s)(d := None)\<rparr>)"
  by (simp add: delete_sub_def get_sub_def)

lemma search_removed:
  assumes at: "subs_at m s l as ds xs" and i: "i < length ds"
    and run: "run_state (search_found l True True (as ! i)) s = ((e, d), s1)" and del: "run_state (delete_sub (ds ! i)) s1 = (u, s2)"
  shows "d = Some (ds ! i)" "subs_at m s2 l (drop_nth i as) (drop_nth i ds) (drop_nth i xs)" "kept s s2"
    "subs s2 = (subs s)(ds ! i := None)"
proof -
  note D = subs_at_data [OF at]
  have A: "l \<noteq> 0" "rep s l as" "items s as = map (\<lambda>d. (d, DELETE_OBJ)) ds" "distinct ds" "0 \<notin> set ds" "LOCAL \<notin> set ds"
      "map (subs s) ds = map Some xs" "list_all (wf_sub m) xs"
    using at by (simp_all add: subs_at_def)
  have ia: "i < length as" using i D by simp
  have rep: "rep s l (take i as @ as ! i # drop (Suc i) as)" using A(2) drop_nth_split [OF ia] by simp
  have dist: "fst (item (ll_elems s) u) \<noteq> fst (item (ll_elems s) (as ! i))" if u: "u \<in> set (take i as)" for u
  proof -
    obtain j where j: "j < i" "u = as ! j" using u ia by (auto simp: in_set_conv_nth)
    have "ds ! j \<noteq> ds ! i" using A(4) j i by (simp add: nth_eq_iff_index_eq)
    then show ?thesis using subs_at_nth(3) [OF at, of j] subs_at_nth(3) [OF at i] j i by simp
  qed
  note S = search_found_run [OF rep A(1) dist run]
  show d: "d = Some (ds ! i)" using S(1) subs_at_nth(3) [OF at i] by simp
  have more: "subs s1 = subs s" "sms s1 = sms s" "env s1 = env s"
    using agps_more [of s1 s] list_ops_more(1,3) [of l True True "as ! i" s] run by simp_all
  have s2: "s2 = s1\<lparr>tr := E_free (ds ! i) # tr s1, subs := (subs s1)(ds ! i := None)\<rparr>"
    using del delete_run [of s1 "ds ! i" "xs ! i"] subs_at_nth(1,4) [OF at i] more by simp
  then show sub: "subs s2 = (subs s)(ds ! i := None)" using more by simp
  have "LOCAL \<noteq> ds ! i" using A(6) i nth_mem by metis
  then show "kept s s2" using s2 more S(4,5) by (simp add: kept_def)
  have nin: "ds ! i \<notin> set (drop_nth i ds)" "distinct (drop_nth i ds)" using distinct_drop_nth [OF A(4) i] by simp_all
  have "map (subs s2) (drop_nth i ds) = map (subs s) (drop_nth i ds)"
    using nin(1) sub by (auto intro!: map_cong)
  then have "map (subs s2) (drop_nth i ds) = map Some (drop_nth i xs)"
    by (simp add: map_drop_nth A(7))
  moreover have "rep s2 l (drop_nth i as)" "items s2 (drop_nth i as) = items s (drop_nth i as)"
    using S(2,3) s2 by (simp_all add: drop_nth_def rep_def items_def)
  moreover have "items s (drop_nth i as) = map (\<lambda>d. (d, DELETE_OBJ)) (drop_nth i ds)"
    using A(3) by (simp add: items_def map_drop_nth)
  moreover have "list_all (wf_sub m) (drop_nth i xs)"
    using A(8) set_drop_nth by (fastforce simp: list_all_iff)
  ultimately show "subs_at m s2 l (drop_nth i as) (drop_nth i ds) (drop_nth i xs)"
    using A(1,5,6) nin set_drop_nth [of i ds] by (auto simp: subs_at_def)
qed

text \<open>The loop that removes a group: what is left are the others.\<close>

lemma notify_loop_group:
  assumes "subs_at m s l as ds xs" "sms s m \<noteq> None" "passed_on st" "length xs < k"
    "run_state (notify_loop k l (to_group g st True)) s = (u, s')"
  shows "\<exists>as' ds'. subs_at m s' l as' ds' (filter (\<lambda>x. \<not> in_group g x) xs) \<and> kept s s'"
  using assms
proof (induction k arbitrary: s as ds xs)
  case (Suc k)
  note at = Suc.prems(1)
  let ?n = "to_group g st True"
  have l: "l \<noteq> 0" "rep s l as" using at by (simp_all add: subs_at_def)
  note D = subs_at_data [OF at]
  show ?case
  proof (cases "as = []")
    case True
    then have "s' = s" using Suc.prems(5) l search_cb_empty [of s l] by (simp add: delete_sub_def)
    then show ?thesis using at True D by auto
  next
    case False
    obtain r s1 where fm: "run_state (first_match (ll_elems s) (notifySubscriber ?n) as) s = (r, s1)" by fastforce
    have r: "same s s1" "r = map_option (\<lambda>i. as ! i) (index_of (in_group g) xs)"
      using notify_match [OF at Suc.prems(2) _ fm] Suc.prems(3) by (simp_all add: to_group_def for_me_def rcver_ok_def)
    have cb: "run_state (linked_list_search_cb l True (notifySubscriber ?n) True) s =
        (case r of None \<Rightarrow> ((LL_SUCCESS, Some 0), s1) | Some a \<Rightarrow> run_state (search_found l True True a) s1)"
      using search_cb_run [OF l(2,1) False fm] by simp
    have at1: "subs_at m s1 l as ds xs" using at subs_at_same [OF r(1)] by simp
    show ?thesis
    proof (cases "index_of (in_group g) xs")
      case None
      then have "s' = s1" using Suc.prems(5) cb r by (simp add: delete_sub_def)
      moreover have "filter (\<lambda>x. \<not> in_group g x) xs = xs" using None by (simp add: index_of_None filter_id_conv)
      ultimately show ?thesis using at1 kept_same [OF r(1)] by auto
    next
      case (Some i)
      note ix = index_of_Some [OF Some]
      have i: "i < length ds" using ix D by simp
      obtain e d s2 where f: "run_state (search_found l True True (as ! i)) s1 = ((e, d), s2)" by (metis surj_pair)
      obtain v s3 where del: "run_state (delete_sub (ds ! i)) s2 = (v, s3)" by (metis surj_pair)
      note R = search_removed [OF at1 i f del]
      have run: "run_state (notify_loop k l ?n) s3 = (u, s')"
        using Suc.prems(5) cb r Some f R(1) del subs_at_nth(4) [OF at i] by simp
      have "length (drop_nth i xs) < k" using Suc.prems(4) ix by (auto simp: length_drop_nth)
      moreover have "sms s3 m \<noteq> None" using Suc.prems(2) R(3) r(1) by (simp add: kept_def same_def)
      ultimately obtain as' ds' where IH: "subs_at m s' l as' ds' (filter (\<lambda>x. \<not> in_group g x) (drop_nth i xs))" "kept s3 s'"
        using Suc.IH [OF R(2) _ Suc.prems(3) _ run] by blast
      have "kept s s'" using kept_trans [OF kept_same [OF r(1)] kept_trans [OF R(3) IH(2)]] .
      moreover have "filter (\<lambda>x. \<not> in_group g x) (drop_nth i xs) = filter (\<lambda>x. \<not> in_group g x) xs"
        using ix by (intro filter_drop_nth) simp_all
      ultimately show ?thesis using IH(1) by auto
    qed
  qed
qed simp

lemma list_size_run:
  assumes at: "subs_at m s l as ds xs"
  shows "run_state (list_size l) s = (length xs, s)"
proof -
  have rep: "rep s l as" using at by (simp add: subs_at_def)
  show ?thesis
    using subs_at_data(2,3) [OF at] rep_D(1) [OF rep] elems_from_dll [OF rep_D(4) [OF rep]] by (simp add: list_size_def)
qed

lemma notify_group:
  assumes at: "subs_at m s (mSubscribers sm) as ds xs" and sm: "sms s m = Some sm" and st: "passed_on st"
    and run: "run_state (notifySubscribers m (to_group g st True)) s = (u, s')"
  shows "\<exists>as' ds'. subs_at m s' (mSubscribers sm) as' ds' (filter (\<lambda>x. \<not> in_group g x) xs) \<and> kept s s'"
proof -
  have "run_state (notify_loop (Suc (length xs)) (mSubscribers sm) (to_group g st True)) s = (u, s')"
    using run sm list_size_run [OF at] by (simp add: notifySubscribers_def get_sm_def to_group_def)
  from notify_loop_group [OF at _ st _ this] sm show ?thesis by simp
qed

section \<open>Subscribing and leaving\<close>

text \<open>What the allocator promises, now and later: an address that is not in use now.\<close>

definition mem_ok :: "'a agps_st_scheme \<Rightarrow> bool" where
  "mem_ok s \<longleftrightarrow> (\<forall>t n. length (tr s) \<le> length t \<longrightarrow> (let v = rv (env s t (E_malloc n)) in 0 < v \<and> nat v \<noteq> LOCAL \<and> subs s (nat v) = None \<and>
     ll_elems s (nat v) = None \<and> ll_lists s (nat v) = None))"

definition add_sub :: "subscriber \<Rightarrow> subscriber list \<Rightarrow> subscriber list" where
  "add_sub x xs = (if \<exists>y \<in> set xs. sub_eq y x then xs else x\<lparr>mIsInactive := False\<rparr> # xs)"

lemma new_str_run:
  assumes "mem_ok s"
  shows "same s (snd (run_state (new_str x) s))"
  using assms by (cases x) (auto simp: new_str_def new_obj_def mem_ok_def same_def Let_def)

lemma mem_ok_same: "same s s' \<Longrightarrow> mem_ok s \<Longrightarrow> mem_ok s'"
  by (simp add: mem_ok_def same_def)

lemma clone_run:
  assumes x: "subs s d = Some x" and mem: "mem_ok s" and run: "run_state (clone d) s = (c, s')"
  shows "\<exists>s1. same s s1 \<and> s' = s1\<lparr>subs := (subs s)(c := Some (x\<lparr>mIsInactive := False\<rparr>))\<rparr> \<and> c \<noteq> 0 \<and> c \<noteq> LOCAL \<and> subs s c = None"
proof -
  define v where "v = rv (env s (tr s) (E_malloc (sub_size (sub_kind x))))"
  let ?s = "s\<lparr>tr := E_malloc (sub_size (sub_kind x)) # tr s\<rparr>"
  have v: "0 < v" "nat v \<noteq> LOCAL" "subs s (nat v) = None" using mem by (simp_all add: mem_ok_def v_def Let_def)
  have s0: "same s ?s" by (simp add: same_def)
  obtain u s2 where s2: "run_state (new_str (mSSID x)) ?s = (u, s2)" by (metis surj_pair)
  have 2: "same ?s s2" using new_str_run [of ?s "mSSID x"] s2 mem_ok_same [OF s0 mem] by simp
  obtain u' s3 where s3: "run_state (new_str (mPassword x)) s2 = (u', s3)" by (metis surj_pair)
  have 3: "same s2 s3" using new_str_run [of s2 "mPassword x"] s3 mem_ok_same [OF same_trans [OF s0 2] mem] by simp
  have all: "same s s3" using same_trans [OF same_trans [OF s0 2] 3] .
  have "c = nat v" "s' = s3\<lparr>subs := (subs s3)(c := Some (x\<lparr>mIsInactive := False\<rparr>))\<rparr>"
    using run x v(1) s2 s3 by (auto simp: clone_def get_sub_def new_obj_def v_def [symmetric])
  moreover have "subs s3 = subs s" using all by (simp add: same_def)
  ultimately show ?thesis using all v by (intro exI [of _ s3]) auto
qed

lemma addSubscriber_run:
  assumes at: "subs_at m s (mSubscribers sm) as ds xs" and sm: "sms s m = Some sm" and x: "subs s LOCAL = Some x" "wf_sub m x"
    and mem: "mem_ok s" and run: "run_state (addSubscriber m LOCAL) s = (u, s')"
  shows "\<exists>as' ds'. subs_at m s' (mSubscribers sm) as' ds' (add_sub x xs) \<and> kept s s'"
proof -
  let ?n = "to_sub LOCAL RSRC_STATUS_MAX False"
  have n: "rcver_ok m ?n s" using x by (simp add: rcver_ok_def to_sub_def)
  have fm: "for_me s ?n = (\<lambda>y. sub_eq y x)" using x by (auto simp: for_me_def to_sub_def LOCAL_def)
  note D = subs_at_data [OF at]
  show ?thesis
  proof (cases "index_of (\<lambda>y. sub_eq y x) xs")
    case (Some i)
    then have "s' = s" using run find_sub_run [OF at sm n] fm index_of_Some [OF Some] D subs_at_nth(4) [OF at, of i]
      by (simp add: addSubscriber_def)
    moreover have "add_sub x xs = xs" using index_of_Some [OF Some] by (auto simp: add_sub_def)
    ultimately show ?thesis using at by auto
  next
    case None
    obtain c s1 where c: "run_state (clone LOCAL) s = (c, s1)" by (metis surj_pair)
    obtain err s2 where a: "run_state (linked_list_add (mSubscribers sm) c DELETE_OBJ) s1 = (err, s2)" by (metis surj_pair)
    have s': "s' = s2" using run find_sub_run [OF at sm n] fm None sm c a by (simp add: addSubscriber_def get_sm_def)
    obtain s0 where s0: "same s s0" "s1 = s0\<lparr>subs := (subs s)(c := Some (x\<lparr>mIsInactive := False\<rparr>))\<rparr>"
        "c \<noteq> 0" "c \<noteq> LOCAL" "subs s c = None"
      using clone_run [OF x(1) mem c] by blast
    have S: "ll_lists s1 = ll_lists s" "ll_elems s1 = ll_elems s" "env s1 = env s" "ub s1 = ub s" "acts (tr s1) = acts (tr s)"
        "sms s1 = sms s" "subs s1 = (subs s)(c := Some (x\<lparr>mIsInactive := False\<rparr>))" "length (tr s) \<le> length (tr s1)"
      using s0(1,2) by (simp_all add: same_def)
    have A: "mSubscribers sm \<noteq> 0" "rep s (mSubscribers sm) as" "items s as = map (\<lambda>d. (d, DELETE_OBJ)) ds" "distinct ds"
        "0 \<notin> set ds" "LOCAL \<notin> set ds" "map (subs s) ds = map Some xs" "list_all (wf_sub m) xs"
      using at by (simp_all add: subs_at_def)
    have rep1: "rep s1 (mSubscribers sm) as" "items s1 as = items s as" using A(2) S by (simp_all add: rep_def items_def)
    have v: "0 < rv (env s1 (tr s1) (E_malloc 16))" "fresh s1 16"
      using mem S by (simp_all add: fresh_def mem_ok_def Let_def)
    have "err \<noteq> LL_FAILURE_GENERAL"
      using a v(1) A(1) s0(3) by (auto simp: linked_list_add_def Let_def split: prod.splits if_splits)
    then obtain e where e: "rep s2 (mSubscribers sm) (e # as)" "items s2 (e # as) = (c, DELETE_OBJ) # items s1 as" "ub s2 = ub s1"
      using add_spec [OF rep1(1) A(1) s0(3) v(2) a] by blast
    have more: "subs s2 = subs s1" "sms s2 = sms s1" "env s2 = env s1"
      using agps_more [of s2 s1] list_ops_more(2,4) [of "mSubscribers sm" c DELETE_OBJ s1] a by simp_all
    have acts: "acts (tr s2) = acts (tr s1)"
    proof -
      have "keeps (\<lambda>s. acts (tr s) = v) (linked_list_add l d f)" for v l d f
        by (auto simp: linked_list_add_def get_list_def upd_list_def get_elem_def upd_elem_def intro!: keeps_rules)
      from keepsD [OF this refl] a show ?thesis by (metis snd_conv)
    qed
    have cn: "c \<notin> set ds"
      using s0(5) A(7) by (metis list.set_map option.distinct(1) image_eqI imageE)
    have "map (subs s2) ds = map (subs s) ds" using cn more S by (auto intro!: map_cong)
    then have "subs_at m s2 (mSubscribers sm) (e # as) (c # ds) (x\<lparr>mIsInactive := False\<rparr> # xs)"
      using A e rep1 more S cn s0 x(2) by (simp add: subs_at_def wf_sub_def)
    moreover have "add_sub x xs = x\<lparr>mIsInactive := False\<rparr> # xs" using None by (auto simp: add_sub_def index_of_None)
    moreover have "kept s s2" using more S e(3) acts s0(4) by (simp add: kept_def)
    ultimately show ?thesis using s' by auto
  qed
qed

text \<open>The machine for AGPS.\<close>

definition good_sm :: "agps_sm \<Rightarrow> bool" where
  "good_sm sm \<longleftrightarrow> \<not> sm_ds sm \<and> mServicer sm = servicerTypeAgps \<and> sm_cb sm \<noteq> 0"

definition active :: "subscriber list \<Rightarrow> bool" where
  "active xs \<longleftrightarrow> (\<exists>x \<in> set xs. \<not> isInactive x)"

lemma in_group_simps [simp]:
  "in_group BROADCAST_ALL x" "in_group BROADCAST_ACTIVE x \<longleftrightarrow> \<not> isInactive x" "in_group BROADCAST_INACTIVE x \<longleftrightarrow> isInactive x"
  by (simp_all add: in_group_def BROADCAST_ALL_def BROADCAST_ACTIVE_def BROADCAST_INACTIVE_def)

lemma find_active:
  assumes at: "subs_at m s (mSubscribers sm) as ds xs" and sm: "sms s m = Some sm"
  obtains d where "run_state (find_sub m (to_group BROADCAST_ACTIVE RSRC_STATUS_MAX False)) s = (d, s)"
    "d \<noteq> 0 \<longleftrightarrow> active xs" "d \<noteq> 0 \<Longrightarrow> \<exists>x. subs s d = Some x"
proof -
  have fm: "for_me s (to_group BROADCAST_ACTIVE RSRC_STATUS_MAX False) = (\<lambda>x. \<not> isInactive x)" by (rule ext) simp
  note D = subs_at_data [OF at]
  show thesis
  proof (cases "index_of (\<lambda>x. \<not> isInactive x) xs")
    case None
    then have "\<not> active xs" by (simp add: active_def index_of_None)
    then show ?thesis
      using find_sub_run [OF at sm rcver_ok_group(1), of BROADCAST_ACTIVE RSRC_STATUS_MAX False] fm None
      by (intro that [of 0]) simp_all
  next
    case (Some i)
    note i = index_of_Some [OF Some]
    have "active xs" using i nth_mem by (auto simp: active_def)
    then show ?thesis
      using find_sub_run [OF at sm rcver_ok_group(1), of BROADCAST_ACTIVE RSRC_STATUS_MAX False] fm Some i D
        subs_at_nth(1,4) [OF at, of i]
      by (intro that [of "ds ! i"]) simp_all
  qed
qed

lemma hasSubscribers_run:
  assumes at: "subs_at m s (mSubscribers sm) as ds xs" and sm: "sms s m = Some sm"
  shows "run_state (hasSubscribers m) s = (xs \<noteq> [], s)"
  using empty_spec [of s "mSubscribers sm" as] at sm subs_at_data(2,3) [OF at]
  by (auto simp: hasSubscribers_def get_sm_def subs_at_def)

lemma hasActive_run:
  assumes at: "subs_at m s (mSubscribers sm) as ds xs" and sm: "sms s m = Some sm"
  shows "run_state (hasActiveSubscribers m) s = (active xs, s)"
  by (rule find_active [OF at sm]) (simp add: hasActiveSubscribers_def)

lemma send_run:
  assumes at: "subs_at m s (mSubscribers sm) as ds xs" and sm: "sms s m = Some sm" "good_sm sm"
    and run: "run_state (sendRsrcRequest m a) s = (r, s')"
  shows "r = 0" "\<exists>t. s' = s\<lparr>tr := t @ tr s\<rparr> \<and> acts t = (if active xs = (a \<noteq> GPS_RELEASE_AGPS_DATA_CONN) then [a] else [])"
proof -
  obtain d where d: "run_state (find_sub m (to_group BROADCAST_ACTIVE RSRC_STATUS_MAX False)) s = (d, s)"
      "d \<noteq> 0 \<longleftrightarrow> active xs" "d \<noteq> 0 \<Longrightarrow> \<exists>x. subs s d = Some x"
    by (rule find_active [OF at sm(1)]) (rule that; blast)
  have "r = 0 \<and> (\<exists>t. s' = s\<lparr>tr := t @ tr s\<rparr> \<and> acts t = (if active xs = (a \<noteq> GPS_RELEASE_AGPS_DATA_CONN) then [a] else []))"
  proof (cases "(d = 0) = (a = GPS_RELEASE_AGPS_DATA_CONN)")
    case True
    define x where "x = (if d = 0 then None else subs s d)"
    define ev where "ev = E_hook ''agps_status_cb'' (mType sm # a # nif_addresses x @ nif_strings x)"
    have "r = 0 \<and> s' = s\<lparr>tr := [ev] @ tr s\<rparr>"
      using run sm d True
      by (auto simp: sendRsrcRequest_def agps_sendRsrcRequest_def get_sm_def get_sub_def requestRsrc_def api_def good_sm_def x_def ev_def)
    then show ?thesis using True d(2) by (intro conjI exI [of _ "[ev]"]) (auto simp: ev_def)
  next
    case False
    then have "r = 0 \<and> s' = s\<lparr>tr := [] @ tr s\<rparr>"
      using run sm d(1) by (simp add: sendRsrcRequest_def agps_sendRsrcRequest_def get_sm_def good_sm_def)
    then show ?thesis using False d(2) by (intro conjI exI [of _ "[]"]) auto
  qed
  then show "r = 0" "\<exists>t. s' = s\<lparr>tr := t @ tr s\<rparr> \<and> acts t = (if active xs = (a \<noteq> GPS_RELEASE_AGPS_DATA_CONN) then [a] else [])"
    by simp_all
qed

text \<open>The subscriber at index \<open>i\<close> leaves.\<close>

definition leave :: "nat \<Rightarrow> subscriber list \<Rightarrow> subscriber list" where
  "leave i xs = (if waitForCloseComplete (xs ! i) then xs[i := (xs ! i)\<lparr>mIsInactive := True\<rparr>] else drop_nth i xs)"

lemma sub_eq_refl [simp]: "sub_eq x x"
  by (simp add: sub_eq_def same_ipv6_def)

lemma sub_eq_trans: "wf_sub m x \<Longrightarrow> wf_sub m y \<Longrightarrow> wf_sub m z \<Longrightarrow> sub_eq y x \<Longrightarrow> sub_eq z y \<longleftrightarrow> sub_eq z x"
  by (auto simp: sub_eq_def wf_sub_def same_ipv6_def)

lemma take_leave_run:
  assumes at: "subs_at m s (mSubscribers sm) as ds xs" and sm: "sms s m = Some sm"
    and i: "i < length xs" and safe: "waitForCloseComplete (xs ! i) \<or> length xs = 1"
    and run: "run_state (take_leave m (ds ! i)) s = (u, s')"
  shows "\<exists>as' ds'. subs_at m s' (mSubscribers sm) as' ds' (leave i xs) \<and> kept s s'"
proof -
  note D = subs_at_data [OF at]
  have id: "i < length ds" using i D by simp
  note N = subs_at_nth [OF at id]
  have A: "mSubscribers sm \<noteq> 0" "rep s (mSubscribers sm) as" "items s as = map (\<lambda>d. (d, DELETE_OBJ)) ds" "distinct ds"
      "0 \<notin> set ds" "LOCAL \<notin> set ds" "map (subs s) ds = map Some xs" "list_all (wf_sub m) xs"
    using at by (simp_all add: subs_at_def)
  show ?thesis
  proof (cases "waitForCloseComplete (xs ! i)")
    case True
    then have "sub_kind (xs ! i) = WIFISubscriber" using N(2) by (auto simp: waitForCloseComplete_def wf_sub_def)
    then have s': "s' = s\<lparr>subs := (subs s)(ds ! i := Some ((xs ! i)\<lparr>mIsInactive := True\<rparr>))\<rparr>"
      using run True N(1) by (simp add: take_leave_def get_sub_def setInactive_def upd_sub_def)
    have "map (subs s') ds = (map (subs s) ds)[i := Some ((xs ! i)\<lparr>mIsInactive := True\<rparr>)]"
      using s' id A(4) by (auto intro!: nth_equalityI simp: nth_list_update nth_eq_iff_index_eq)
    then have "map (subs s') ds = map Some (leave i xs)" using A(7) True by (simp add: leave_def map_update)
    moreover have wf: "wf_sub m ((xs ! i)\<lparr>mIsInactive := True\<rparr>)" using N(2) by (simp add: wf_sub_def)
    moreover have "list_all (wf_sub m) (leave i xs)"
      using A(8) True wf by (auto simp: leave_def list_all_iff dest!: set_update_subset_insert [THEN subsetD])
    moreover have "LOCAL \<noteq> ds ! i" using A(6) id nth_mem by metis
    ultimately have "subs_at m s' (mSubscribers sm) as ds (leave i xs) \<and> kept s s'"
      using A s' by (simp add: subs_at_def rep_def items_def kept_def)
    then show ?thesis by blast
  next
    case False
    then have one: "length xs = 1" "i = 0" using safe i by auto
    obtain a where as: "as = [a]" using one D by (cases as) auto
    let ?n = "to_sub (ds ! i) RSRC_UNSUBSCRIBE True"
    have n: "rcver_ok m ?n s" using N by (simp add: rcver_ok_def to_sub_def)
    have P: "index_of (\<lambda>x. for_me s ?n x \<and> passed_on (rsrcStatus ?n) \<and> postNotifyDelete ?n) xs = Some 0"
      using one N by (cases xs) (auto simp: for_me_def to_sub_def passed_on_def)
    obtain r s1 where fm: "run_state (first_match (ll_elems s) (notifySubscriber ?n) as) s = (r, s1)" by (metis surj_pair)
    have r: "same s s1" "r = Some (as ! 0)"
      using notify_match [OF at _ n fm] sm P by simp_all
    have cb: "run_state (linked_list_search_cb (mSubscribers sm) True (notifySubscriber ?n) True) s =
        run_state (search_found (mSubscribers sm) True True (as ! i)) s1"
      using search_cb_run [OF A(2,1) _ fm] as r one by simp
    obtain e d s2 where f: "run_state (search_found (mSubscribers sm) True True (as ! i)) s1 = ((e, d), s2)" by (metis surj_pair)
    obtain v s3 where del: "run_state (delete_sub (ds ! i)) s2 = (v, s3)" by (metis surj_pair)
    have at1: "subs_at m s1 (mSubscribers sm) as ds xs" using at subs_at_same [OF r(1)] by simp
    note R = search_removed [OF at1 id f del]
    have nil: "drop_nth i as = []" using as one by (simp add: drop_nth_def)
    have stop: "run_state (linked_list_search_cb (mSubscribers sm) True (notifySubscriber ?n) True) s3 =
        ((LL_UNAVAILABLE_RESOURCE, None), s3)"
      by (rule search_cb_empty) (use R(2) nil in \<open>auto simp: subs_at_def\<close>)
    have "run_state (notify_loop (Suc 1) (mSubscribers sm) ?n) s = (u, s')"
      using run False sm N(1) list_size_run [OF at] one
      by (simp add: take_leave_def get_sub_def notifySubscribers_def get_sm_def to_sub_def)
    then have "s' = s3"
      using cb f R(1) del stop N(4) by (simp add: Let_def delete_0)
    moreover have "leave i xs = drop_nth i xs" using False by (simp add: leave_def)
    ultimately show ?thesis using R(2) kept_trans [OF kept_same [OF r(1)] R(3)] by auto
  qed
qed

end
