(* ===== verification/Agps_Spec.thy ===== *)
theory Agps_Spec
  imports Agps_Inv
begin

text \<open>
  What a resource state machine promises: an abstract machine over the list of its subscribers, with the requests it makes
  of the framework, and the proof that the model of the code does the same as long as no subscriber is read that was
  deleted before.
\<close>

section \<open>The abstract machine\<close>

type_synonym spec_st = "agps_state \<times> subscriber list"

datatype agps_op = Subscribe subscriber | Unsubscribe subscriber | Event rsrc

definition requests :: "int \<Rightarrow> subscriber list \<Rightarrow> int list" where
  "requests a xs = (if active xs = (a \<noteq> GPS_RELEASE_AGPS_DATA_CONN) then [a] else [])"

definition spec_subscribe :: "bool \<Rightarrow> subscriber \<Rightarrow> spec_st \<Rightarrow> spec_st \<times> int list" where
  "spec_subscribe single x = (\<lambda>(st, xs).
     if single \<and> xs \<noteq> [] then ((st, xs), [])
     else if st = Released then ((Pending, add_sub x xs), requests GPS_REQUEST_AGPS_DATA_CONN (add_sub x xs))
     else ((st, add_sub x xs), []))"

definition spec_leave :: "nat \<Rightarrow> spec_st \<Rightarrow> spec_st \<times> int list" where
  "spec_leave i = (\<lambda>(st, xs). case leave i xs of ys \<Rightarrow>
     if st = Released then ((st, xs), [])
     else if ys = [] then ((Released, ys), if st = Releasing then [] else [GPS_RELEASE_AGPS_DATA_CONN])
     else if st = Releasing \<or> active ys then ((st, ys), [])
     else ((Releasing, ys), [GPS_RELEASE_AGPS_DATA_CONN]))"

definition spec_unsubscribe :: "subscriber \<Rightarrow> spec_st \<Rightarrow> spec_st \<times> int list" where
  "spec_unsubscribe x c = (case index_of (\<lambda>y. sub_eq y x) (snd c) of None \<Rightarrow> (c, []) | Some i \<Rightarrow> spec_leave i c)"

definition spec_event :: "rsrc \<Rightarrow> spec_st \<Rightarrow> spec_st \<times> int list" where
  "spec_event ev = (\<lambda>(st, xs).
     if st = Pending \<and> ev = RSRC_GRANTED then ((Acquired, xs), [])
     else if st = Pending \<and> ev = RSRC_DENIED \<or> st = Acquired \<and> ev = RSRC_RELEASED then ((Released, []), [])
     else if st = Releasing \<and> (ev = RSRC_DENIED \<or> ev = RSRC_RELEASED) then
       (case filter (\<lambda>x. \<not> isInactive x) xs of ys \<Rightarrow>
          if ys = [] then ((Released, []), []) else ((Pending, ys), [GPS_REQUEST_AGPS_DATA_CONN]))
     else ((st, xs), []))"

fun spec_op :: "bool \<Rightarrow> agps_op \<Rightarrow> spec_st \<Rightarrow> spec_st \<times> int list" where
  "spec_op single (Subscribe x) c = spec_subscribe single x c"
| "spec_op single (Unsubscribe x) c = spec_unsubscribe x c"
| "spec_op single (Event ev) c = spec_event ev c"

text \<open>
  The operation deletes a subscriber and goes on to compare the others with it: one that does not wait for the release
  leaves while there are others.
\<close>

definition dangles :: "agps_op \<Rightarrow> spec_st \<Rightarrow> bool" where
  "dangles p = (\<lambda>(st, xs). case p of Unsubscribe x \<Rightarrow>
     (case index_of (\<lambda>y. sub_eq y x) xs of None \<Rightarrow> False
      | Some i \<Rightarrow> st \<noteq> Released \<and> \<not> waitForCloseComplete (xs ! i) \<and> length xs \<noteq> 1) | _ \<Rightarrow> False)"

section \<open>The code\<close>

text \<open>The operations as the messages make them: the subscriber of a call is a local variable.\<close>

fun op_run :: "nat \<Rightarrow> agps_op \<Rightarrow> ('a agps_st_scheme, unit) state" where
  "op_run m (Subscribe x) = with_local x (subscribeRsrc m LOCAL)"
| "op_run m (Unsubscribe x) = with_local x (do { _ \<leftarrow> unsubscribeRsrc m LOCAL; ret () })"
| "op_run m (Event ev) = onRsrcEvent m ev"

fun op_ok :: "nat \<Rightarrow> agps_op \<Rightarrow> bool" where
  "op_ok m (Subscribe x) = wf_sub m x"
| "op_ok m (Unsubscribe x) = wf_sub m x"
| "op_ok m (Event ev) = (ev = RSRC_GRANTED \<or> ev = RSRC_RELEASED \<or> ev = RSRC_DENIED)"

definition machine :: "nat \<Rightarrow> bool \<Rightarrow> 'a agps_st_scheme \<Rightarrow> spec_st \<Rightarrow> bool" where
  "machine m single s = (\<lambda>(st, xs). \<exists>sm as ds. sms s m = Some sm \<and> good_sm sm \<and> mState sm = st \<and>
     mEnforceSingleSubscriber sm = single \<and> subs_at m s (mSubscribers sm) as ds xs)"

text \<open>What an operation leaves of the rest, and the requests it made.\<close>

definition did :: "int list \<Rightarrow> 'a agps_st_scheme \<Rightarrow> 'a agps_st_scheme \<Rightarrow> bool" where
  "did a s s' \<longleftrightarrow> env s' = env s \<and> ub s' = ub s \<and> acts (tr s') = a @ acts (tr s)"

lemma did_kept: "kept s s' \<Longrightarrow> did [] s s'"
  by (simp add: did_def kept_def)

lemma did_same: "same s s' \<Longrightarrow> did [] s s'"
  by (simp add: did_def same_def)

lemma did_trans: "did a s s1 \<Longrightarrow> did b s1 s2 \<Longrightarrow> did (b @ a) s s2"
  by (simp add: did_def)

lemma active_add: "\<not> isInactive x \<Longrightarrow> active xs \<or> xs = [] \<Longrightarrow> active (add_sub x xs)"
  by (auto simp: active_def add_sub_def isInactive_def)

text \<open>The step through \<open>state_event\<close>: what is left of it once the handler of the state has run.\<close>

lemma state_event_run:
  assumes sm: "sms s m = Some sm" "good_sm sm"
    and h: "run_state (case mState sm of Released \<Rightarrow> released_event m ev d | Pending \<Rightarrow> pending_event m ev d
      | Acquired \<Rightarrow> acquired_event m ev d | Releasing \<Rightarrow> releasing_event m ev d) s = (st, s1)"
    and at: "subs_at m s1 (mSubscribers sm) as ds xs" and kept: "sms s1 = sms s" "did a s s1" "subs s1 LOCAL = subs s LOCAL"
    and run: "run_state (state_event m ev d) s = (u, s')"
  shows "machine m (mEnforceSingleSubscriber sm) s' (st, xs) \<and> did a s s' \<and> subs s' LOCAL = subs s LOCAL"
proof -
  have s': "s' = s1\<lparr>sms := (sms s)(m := Some (sm\<lparr>mState := st\<rparr>))\<rparr>"
    using run sm h kept(1) by (simp add: state_event_def get_sm_def upd_sm_def)
  have "subs_at m s' (mSubscribers sm) as ds xs"
    using at s' by (simp add: subs_at_def rep_def items_def)
  then show ?thesis
    using s' sm(2) kept by (auto simp: machine_def good_sm_def did_def)
qed

lemma did_send: "s' = s\<lparr>tr := t @ tr s\<rparr> \<Longrightarrow> acts t = a \<Longrightarrow> did a s s'"
  by (simp add: did_def)

lemma subs_at_tr: "subs_at m (s\<lparr>tr := t\<rparr>) l as ds xs = subs_at m s l as ds xs"
  by (simp add: subs_at_def rep_def items_def)

lemma subscribe_handler:
  assumes at: "subs_at m s (mSubscribers sm) as ds xs" and sm: "sms s m = Some sm" "good_sm sm"
    and x: "subs s LOCAL = Some x" "wf_sub m x" and mem: "mem_ok s"
    and run: "run_state (state_event m RSRC_SUBSCRIBE LOCAL) s = (u, s')"
  shows "machine m (mEnforceSingleSubscriber sm) s' (fst (spec_subscribe False x (mState sm, xs))) \<and>
    did (snd (spec_subscribe False x (mState sm, xs))) s s'"
proof (cases "mState sm")
  case Released
  obtain u1 s1 where add: "run_state (addSubscriber m LOCAL) s = (u1, s1)" by (metis surj_pair)
  obtain as1 ds1 where 1: "subs_at m s1 (mSubscribers sm) as1 ds1 (add_sub x xs)" "kept s s1"
    using addSubscriber_run [OF at sm(1) x mem add] by blast
  have sm1: "sms s1 m = Some sm" using 1(2) sm(1) by (simp add: kept_def)
  obtain r s2 where send: "run_state (sendRsrcRequest m GPS_REQUEST_AGPS_DATA_CONN) s1 = (r, s2)" by (metis surj_pair)
  obtain t where t: "s2 = s1\<lparr>tr := t @ tr s1\<rparr>" "acts t = requests GPS_REQUEST_AGPS_DATA_CONN (add_sub x xs)"
    using send_run(2) [OF 1(1) sm1 sm(2) send] by (auto simp: requests_def)
  have h: "run_state (released_event m RSRC_SUBSCRIBE LOCAL) s = (Pending, s2)"
    using hasSubscribers_run [OF at sm(1)] add send send_run(1) [OF 1(1) sm1 sm(2) send] by (simp add: released_event_def)
  have at2: "subs_at m s2 (mSubscribers sm) as1 ds1 (add_sub x xs)" using 1(1) t(1) by (simp add: subs_at_tr)
  have did: "did (requests GPS_REQUEST_AGPS_DATA_CONN (add_sub x xs)) s s2"
    using did_trans [OF did_kept [OF 1(2)] did_send [OF t]] by simp
  have "machine m (mEnforceSingleSubscriber sm) s' (Pending, add_sub x xs) \<and>
      did (requests GPS_REQUEST_AGPS_DATA_CONN (add_sub x xs)) s s' \<and> subs s' LOCAL = subs s LOCAL"
    by (rule state_event_run [OF sm _ at2 _ did _ run]) (use h 1 t in \<open>auto simp: Released kept_def\<close>)
  then show ?thesis using Released by (simp add: spec_subscribe_def)
next
  case Acquired
  obtain b s0 where nt: "run_state (notifyRsrcStatus LOCAL (to_sub LOCAL RSRC_GRANTED False)) s = (b, s0)" by (metis surj_pair)
  have 0: "same s s0"
    using notify_run [OF x _ _ nt] x sm(1) by (simp add: rcver_ok_def to_sub_def)
  have at0: "subs_at m s0 (mSubscribers sm) as ds xs" "sms s0 m = Some sm" "subs s0 LOCAL = Some x" "mem_ok s0"
    using at sm(1) x(1) mem_ok_same [OF 0 mem] subs_at_same [OF 0] 0 by (simp_all add: same_def)
  obtain u1 s1 where add: "run_state (addSubscriber m LOCAL) s0 = (u1, s1)" by (metis surj_pair)
  obtain as1 ds1 where 1: "subs_at m s1 (mSubscribers sm) as1 ds1 (add_sub x xs)" "kept s0 s1"
    using addSubscriber_run [OF at0(1,2,3) x(2) at0(4) add] by blast
  have k: "kept s s1" using kept_trans [OF kept_same [OF 0] 1(2)] .
  have h: "run_state (acquired_event m RSRC_SUBSCRIBE LOCAL) s = (Acquired, s1)"
    using nt add by (simp add: acquired_event_def)
  have "machine m (mEnforceSingleSubscriber sm) s' (Acquired, add_sub x xs) \<and> did [] s s' \<and> subs s' LOCAL = subs s LOCAL"
    by (rule state_event_run [OF sm _ 1(1) _ did_kept [OF k] _ run]) (use h k in \<open>auto simp: Acquired kept_def\<close>)
  then show ?thesis using Acquired by (simp add: spec_subscribe_def)
next
  case Pending
  obtain u1 s1 where add: "run_state (addSubscriber m LOCAL) s = (u1, s1)" by (metis surj_pair)
  obtain as1 ds1 where 1: "subs_at m s1 (mSubscribers sm) as1 ds1 (add_sub x xs)" "kept s s1"
    using addSubscriber_run [OF at sm(1) x mem add] by blast
  have "machine m (mEnforceSingleSubscriber sm) s' (Pending, add_sub x xs) \<and> did [] s s' \<and> subs s' LOCAL = subs s LOCAL"
    by (rule state_event_run [OF sm _ 1(1) _ did_kept [OF 1(2)] _ run])
      (use add 1(2) in \<open>auto simp: Pending pending_event_def kept_def\<close>)
  then show ?thesis using Pending by (simp add: spec_subscribe_def)
next
  case Releasing
  obtain u1 s1 where add: "run_state (addSubscriber m LOCAL) s = (u1, s1)" by (metis surj_pair)
  obtain as1 ds1 where 1: "subs_at m s1 (mSubscribers sm) as1 ds1 (add_sub x xs)" "kept s s1"
    using addSubscriber_run [OF at sm(1) x mem add] by blast
  have "machine m (mEnforceSingleSubscriber sm) s' (Releasing, add_sub x xs) \<and> did [] s s' \<and> subs s' LOCAL = subs s LOCAL"
    by (rule state_event_run [OF sm _ 1(1) _ did_kept [OF 1(2)] _ run])
      (use add 1(2) in \<open>auto simp: Releasing releasing_event_def kept_def\<close>)
  then show ?thesis using Releasing by (simp add: spec_subscribe_def)
qed

text \<open>Leaving: the subscriber at index \<open>i\<close> is at \<open>ds ! i\<close>.\<close>

lemma release_run:
  assumes at: "subs_at m s (mSubscribers sm) as ds ys" and sm: "sms s m = Some sm" "good_sm sm"
    and run: "run_state (release_if_unused m st) s = (st', s')"
  shows "st' = (if ys = [] then Released else if active ys then st else Releasing) \<and>
    (\<exists>t. s' = s\<lparr>tr := t @ tr s\<rparr> \<and> acts t = (if active ys then [] else [GPS_RELEASE_AGPS_DATA_CONN]))"
proof (cases "active ys")
  case True
  then have "ys \<noteq> []" by (auto simp: active_def)
  then have "st' = st" "s' = s\<lparr>tr := [] @ tr s\<rparr>"
    using run True hasSubscribers_run [OF at sm(1)] hasActive_run [OF at sm(1)] by (simp_all add: release_if_unused_def)
  then show ?thesis using True \<open>ys \<noteq> []\<close> by (auto intro: exI [of _ "[]"])
next
  case False
  obtain r s2 where send: "run_state (sendRsrcRequest m GPS_RELEASE_AGPS_DATA_CONN) s = (r, s2)" by (metis surj_pair)
  have "st' = (if ys = [] then Released else Releasing)" "s' = s2"
    using run False send hasSubscribers_run [OF at sm(1)] hasActive_run [OF at sm(1)]
    by (auto simp: release_if_unused_def split: if_splits)
  then show ?thesis using send_run(2) [OF at sm send] False by auto
qed

lemma leave_handler:
  assumes at: "subs_at m s (mSubscribers sm) as ds xs" and sm: "sms s m = Some sm" "good_sm sm" and i: "i < length xs"
    and safe: "mState sm = Released \<or> waitForCloseComplete (xs ! i) \<or> length xs = 1"
    and run: "run_state (state_event m RSRC_UNSUBSCRIBE (ds ! i)) s = (u, s')"
  shows "machine m (mEnforceSingleSubscriber sm) s' (fst (spec_leave i (mState sm, xs))) \<and>
    did (snd (spec_leave i (mState sm, xs))) s s'"
proof (cases "mState sm = Released")
  case True
  have id: "i < length ds" using i subs_at_data [OF at] by simp
  note N = subs_at_nth [OF at id]
  obtain b s1 where nt: "run_state (notifyRsrcStatus (ds ! i) (to_sub (ds ! i) RSRC_UNSUBSCRIBE False)) s = (b, s1)"
    by (metis surj_pair)
  have 1: "same s s1"
    using notify_run [OF N(1,2) _ _ nt] N sm(1) by (simp add: rcver_ok_def to_sub_def)
  have at1: "subs_at m s1 (mSubscribers sm) as ds xs" using at subs_at_same [OF 1] by simp
  have h: "run_state (released_event m RSRC_UNSUBSCRIBE (ds ! i)) s = (Released, s1)"
    using hasSubscribers_run [OF at sm(1)] nt by (simp add: released_event_def)
  have "machine m (mEnforceSingleSubscriber sm) s' (Released, xs) \<and> did [] s s' \<and> subs s' LOCAL = subs s LOCAL"
    by (rule state_event_run [OF sm _ at1 _ did_same [OF 1] _ run]) (use h True 1 in \<open>auto simp: same_def\<close>)
  then show ?thesis using True by (simp add: spec_leave_def)
next
  case False
  let ?ys = "leave i xs"
  obtain u1 s1 where l: "run_state (take_leave m (ds ! i)) s = (u1, s1)" by (metis surj_pair)
  have "waitForCloseComplete (xs ! i) \<or> length xs = 1" using safe False by simp
  from take_leave_run [OF at sm(1) i this l] obtain as1 ds1 where
    1: "subs_at m s1 (mSubscribers sm) as1 ds1 ?ys" "kept s s1" by blast
  have sm1: "sms s1 m = Some sm" using 1(2) sm(1) by (simp add: kept_def)
  show ?thesis
  proof (cases "mState sm = Releasing")
    case True
    have h: "run_state (releasing_event m RSRC_UNSUBSCRIBE (ds ! i)) s = (if ?ys \<noteq> [] then Releasing else Released, s1)"
      using l hasSubscribers_run [OF 1(1) sm1] by (simp add: releasing_event_def)
    have "machine m (mEnforceSingleSubscriber sm) s' (if ?ys \<noteq> [] then Releasing else Released, ?ys) \<and> did [] s s' \<and>
        subs s' LOCAL = subs s LOCAL"
      by (rule state_event_run [OF sm _ 1(1) _ did_kept [OF 1(2)] _ run]) (use h True 1(2) in \<open>auto simp: kept_def\<close>)
    then show ?thesis using True by (cases "?ys = []") (simp_all add: spec_leave_def)
  next
    case no: False
    obtain st s2 where r: "run_state (release_if_unused m (mState sm)) s1 = (st, s2)" by (metis surj_pair)
    obtain t where t: "st = (if ?ys = [] then Released else if active ?ys then mState sm else Releasing)"
        "s2 = s1\<lparr>tr := t @ tr s1\<rparr>" "acts t = (if active ?ys then [] else [GPS_RELEASE_AGPS_DATA_CONN])"
      using release_run [OF 1(1) sm1 sm(2) r] by blast
    have h: "run_state (case mState sm of Released \<Rightarrow> released_event m RSRC_UNSUBSCRIBE (ds ! i)
        | Pending \<Rightarrow> pending_event m RSRC_UNSUBSCRIBE (ds ! i) | Acquired \<Rightarrow> acquired_event m RSRC_UNSUBSCRIBE (ds ! i)
        | Releasing \<Rightarrow> releasing_event m RSRC_UNSUBSCRIBE (ds ! i)) s = (st, s2)"
      using l r False no by (cases "mState sm") (simp_all add: pending_event_def acquired_event_def)
    have at2: "subs_at m s2 (mSubscribers sm) as1 ds1 ?ys" using 1(1) t(2) by (simp add: subs_at_tr)
    have did: "did (if active ?ys then [] else [GPS_RELEASE_AGPS_DATA_CONN]) s s2"
      using did_trans [OF did_kept [OF 1(2)] did_send [OF t(2,3)]] by simp
    have "machine m (mEnforceSingleSubscriber sm) s' (st, ?ys) \<and>
        did (if active ?ys then [] else [GPS_RELEASE_AGPS_DATA_CONN]) s s' \<and> subs s' LOCAL = subs s LOCAL"
      by (rule state_event_run [OF sm h at2 _ did _ run]) (use 1 t(2) in \<open>auto simp: kept_def\<close>)
    moreover have "\<not> active []" by (simp add: active_def)
    ultimately show ?thesis using False no t(1) by (cases "active ?ys"; cases "?ys = []") (simp_all add: spec_leave_def)
  qed
qed

lemma event_handler:
  assumes at: "subs_at m s (mSubscribers sm) as ds xs" and sm: "sms s m = Some sm" "good_sm sm"
    and ev: "ev = RSRC_GRANTED \<or> ev = RSRC_RELEASED \<or> ev = RSRC_DENIED"
    and run: "run_state (state_event m ev d) s = (u, s')"
  shows "machine m (mEnforceSingleSubscriber sm) s' (fst (spec_event ev (mState sm, xs))) \<and>
    did (snd (spec_event ev (mState sm, xs))) s s'"
proof -
  let ?h = "case mState sm of Released \<Rightarrow> released_event m ev d | Pending \<Rightarrow> pending_event m ev d
      | Acquired \<Rightarrow> acquired_event m ev d | Releasing \<Rightarrow> releasing_event m ev d"
  have idle: ?thesis if "run_state ?h s = (mState sm, s)" "spec_event ev (mState sm, xs) = ((mState sm, xs), [])"
  proof -
    have "machine m (mEnforceSingleSubscriber sm) s' (mState sm, xs) \<and> did [] s s' \<and> subs s' LOCAL = subs s LOCAL"
      by (rule state_event_run [OF sm that(1) at _ did_same [OF same_refl] _ run]) simp_all
    with that(2) show ?thesis by simp
  qed
  consider (grant) "mState sm = Pending" "ev = RSRC_GRANTED"
    | (drop) "mState sm = Pending \<and> ev = RSRC_DENIED \<or> mState sm = Acquired \<and> ev = RSRC_RELEASED"
    | (free) "mState sm = Releasing" "ev = RSRC_DENIED \<or> ev = RSRC_RELEASED"
    | (rest) "mState sm = Released \<or> mState sm = Pending \<and> ev = RSRC_RELEASED \<or> mState sm = Acquired \<and> ev \<noteq> RSRC_RELEASED \<or>
        mState sm = Releasing \<and> ev = RSRC_GRANTED"
    using ev by (cases "mState sm") auto
  then show ?thesis
  proof cases
    case grant
    let ?n = "to_group BROADCAST_ACTIVE RSRC_GRANTED False"
    obtain u1 s1 where nt: "run_state (notifySubscribers m ?n) s = (u1, s1)" by (metis surj_pair)
    have 1: "same s s1" using notify_keep [OF at sm(1), of ?n] nt by (simp add: to_group_def rcver_ok_def)
    have h: "run_state ?h s = (Acquired, s1)" using grant nt by (simp add: pending_event_def)
    have at1: "subs_at m s1 (mSubscribers sm) as ds xs" using at subs_at_same [OF 1] by simp
    have "machine m (mEnforceSingleSubscriber sm) s' (Acquired, xs) \<and> did [] s s' \<and> subs s' LOCAL = subs s LOCAL"
      by (rule state_event_run [OF sm h at1 _ did_same [OF 1] _ run]) (use 1 in \<open>auto simp: same_def\<close>)
    then show ?thesis using grant by (simp add: spec_event_def)
  next
    case drop
    then have st: "passed_on ev" by (auto simp: passed_on_def)
    obtain u1 s1 where nt: "run_state (notifySubscribers m (to_group BROADCAST_ALL ev True)) s = (u1, s1)" by (metis surj_pair)
    obtain as1 ds1 where 1: "subs_at m s1 (mSubscribers sm) as1 ds1 []" "kept s s1"
      using notify_group [OF at sm(1) st nt] by auto
    have h: "run_state ?h s = (Released, s1)" using drop nt by (auto simp: pending_event_def acquired_event_def)
    have "machine m (mEnforceSingleSubscriber sm) s' (Released, []) \<and> did [] s s' \<and> subs s' LOCAL = subs s LOCAL"
      by (rule state_event_run [OF sm h 1(1) _ did_kept [OF 1(2)] _ run]) (use 1(2) in \<open>auto simp: kept_def\<close>)
    then show ?thesis using drop by (auto simp: spec_event_def)
  next
    case free
    let ?ys = "filter (\<lambda>x. \<not> isInactive x) xs"
    have st: "passed_on ev" using free by (auto simp: passed_on_def)
    have act: "active ?ys \<longleftrightarrow> ?ys \<noteq> []" by (auto simp: active_def filter_empty_conv)
    obtain u1 s1 where nt: "run_state (notifySubscribers m (to_group BROADCAST_INACTIVE ev True)) s = (u1, s1)" by (metis surj_pair)
    obtain as1 ds1 where 1: "subs_at m s1 (mSubscribers sm) as1 ds1 ?ys" "kept s s1"
      using notify_group [OF at sm(1) st nt] by auto
    have sm1: "sms s1 m = Some sm" using 1(2) sm(1) by (simp add: kept_def)
    show ?thesis
    proof (cases "?ys = []")
      case True
      have h: "run_state ?h s = (Released, s1)"
        using free nt hasActive_run [OF 1(1) sm1] act True by (auto simp: releasing_event_def)
      have "machine m (mEnforceSingleSubscriber sm) s' (Released, ?ys) \<and> did [] s s' \<and> subs s' LOCAL = subs s LOCAL"
        by (rule state_event_run [OF sm h 1(1) _ did_kept [OF 1(2)] _ run]) (use 1(2) in \<open>auto simp: kept_def\<close>)
      then show ?thesis using free True by (auto simp: spec_event_def)
    next
      case False
      obtain r s2 where send: "run_state (sendRsrcRequest m GPS_REQUEST_AGPS_DATA_CONN) s1 = (r, s2)" by (metis surj_pair)
      obtain t where t: "s2 = s1\<lparr>tr := t @ tr s1\<rparr>" "acts t = [GPS_REQUEST_AGPS_DATA_CONN]"
        using send_run(2) [OF 1(1) sm1 sm(2) send] act False by (auto simp: GPS_REQUEST_AGPS_DATA_CONN_def GPS_RELEASE_AGPS_DATA_CONN_def)
      have h: "run_state ?h s = (Pending, s2)"
        using free nt hasActive_run [OF 1(1) sm1] act False send by (auto simp: releasing_event_def)
      have at2: "subs_at m s2 (mSubscribers sm) as1 ds1 ?ys" using 1(1) t(1) by (simp add: subs_at_tr)
      have did: "did [GPS_REQUEST_AGPS_DATA_CONN] s s2"
        using did_trans [OF did_kept [OF 1(2)] did_send [OF t]] by simp
      have "machine m (mEnforceSingleSubscriber sm) s' (Pending, ?ys) \<and> did [GPS_REQUEST_AGPS_DATA_CONN] s s' \<and>
          subs s' LOCAL = subs s LOCAL"
        by (rule state_event_run [OF sm h at2 _ did _ run]) (use 1(2) t in \<open>auto simp: kept_def\<close>)
      then show ?thesis using free False by (auto simp: spec_event_def)
    qed
  next
    case rest
    then show ?thesis
      using ev hasSubscribers_run [OF at sm(1)]
      by (intro idle) (auto simp: released_event_def pending_event_def acquired_event_def releasing_event_def spec_event_def)
  qed
qed

section \<open>Refinement\<close>

lemma with_local_run:
  assumes "run_state f (s\<lparr>subs := (subs s)(LOCAL := Some x)\<rparr>) = (r, s1)" "run_state (with_local x f) s = (r', s')"
  shows "r' = r" "s' = s1\<lparr>subs := (subs s1)(LOCAL := None)\<rparr>"
  using assms by (simp_all add: with_local_def)

lemma subs_at_local: "subs_at m s l as ds xs \<Longrightarrow> subs_at m (s\<lparr>subs := (subs s)(LOCAL := v)\<rparr>) l as ds xs"
proof -
  assume at: "subs_at m s l as ds xs"
  then have "map ((subs s)(LOCAL := v)) ds = map (subs s) ds" by (auto simp: subs_at_def intro!: map_cong)
  with at show ?thesis by (simp add: subs_at_def rep_def items_def)
qed

lemma machine_local: "machine m single s c \<Longrightarrow> machine m single (s\<lparr>subs := (subs s)(LOCAL := v)\<rparr>) c"
  using subs_at_local by (fastforce simp: machine_def)

theorem op_refines:
  assumes m: "machine m single s c" and ok: "op_ok m p" and mem: "\<And>x. p = Subscribe x \<Longrightarrow> mem_ok s" and safe: "\<not> dangles p c"
    and run: "run_state (op_run m p) s = (u, s')"
  shows "machine m single s' (fst (spec_op single p c)) \<and> did (snd (spec_op single p c)) s s'"
proof -
  obtain st xs where c: "c = (st, xs)" by fastforce
  obtain sm as ds where sm: "sms s m = Some sm" "good_sm sm" and st: "mState sm = st" "mEnforceSingleSubscriber sm = single"
      and at: "subs_at m s (mSubscribers sm) as ds xs"
    using m by (auto simp: machine_def c)
  show ?thesis
  proof (cases p)
    case (Event ev)
    then have "run_state (state_event m ev 0) s = (u, s')"
      using run sm ok by (auto simp: onRsrcEvent_def get_sm_def good_sm_def agps_onRsrcEvent_def)
    then show ?thesis using event_handler [OF at sm] ok Event c st by simp
  next
    case (Subscribe x)
    define sl where "sl = s\<lparr>subs := (subs s)(LOCAL := Some x)\<rparr>"
    have at': "subs_at m sl (mSubscribers sm) as ds xs" unfolding sl_def by (rule subs_at_local [OF at])
    have sm': "sms sl m = Some sm" using sm(1) by (simp add: sl_def)
    have x: "subs sl LOCAL = Some x" "wf_sub m x" using ok Subscribe by (simp_all add: sl_def)
    have mem': "mem_ok sl" using mem [OF Subscribe] by (simp add: mem_ok_def sl_def Let_def)
    obtain v s1 where r: "run_state (subscribeRsrc m LOCAL) sl = (v, s1)" by (metis surj_pair)
    have s': "s' = s1\<lparr>subs := (subs s1)(LOCAL := None)\<rparr>"
      using with_local_run(2) [OF r [unfolded sl_def]] run Subscribe by simp
    have "machine m single s1 (fst (spec_op single p c)) \<and> did (snd (spec_op single p c)) sl s1"
    proof (cases "single \<and> xs \<noteq> []")
      case True
      obtain b s2 where nt: "run_state (notifyRsrcStatus LOCAL (to_group BROADCAST_ALL RSRC_DENIED True)) sl = (b, s2)"
        by (metis surj_pair)
      have 2: "same sl s2" using notify_run [OF x _ _ nt] sm' by simp
      have "s1 = s2" using r True nt sm' st hasSubscribers_run [OF at' sm'] by (simp add: subscribeRsrc_def get_sm_def notifySubscriber_def)
      then show ?thesis
        using True 2 did_same [OF 2] at' sm' sm(2) st subs_at_same [OF 2] Subscribe c
        by (auto simp: spec_subscribe_def machine_def same_def)
    next
      case False
      then have "run_state (state_event m RSRC_SUBSCRIBE LOCAL) sl = (v, s1)"
        using r sm' st hasSubscribers_run [OF at' sm'] by (auto simp: subscribeRsrc_def get_sm_def split: if_splits)
      from subscribe_handler [OF at' sm' sm(2) x mem' this] False show ?thesis
        using Subscribe c st by (auto simp: spec_subscribe_def)
    qed
    then show ?thesis using s' machine_local [of m single s1] by (simp add: did_def sl_def)
  next
    case (Unsubscribe x)
    define sl where "sl = s\<lparr>subs := (subs s)(LOCAL := Some x)\<rparr>"
    have at': "subs_at m sl (mSubscribers sm) as ds xs" unfolding sl_def by (rule subs_at_local [OF at])
    have sm': "sms sl m = Some sm" using sm(1) by (simp add: sl_def)
    have x: "subs sl LOCAL = Some x" "wf_sub m x" using ok Unsubscribe by (simp_all add: sl_def)
    let ?n = "to_sub LOCAL RSRC_STATUS_MAX False"
    have n: "rcver_ok m ?n sl" using x by (simp add: rcver_ok_def to_sub_def)
    have fm: "for_me sl ?n = (\<lambda>y. sub_eq y x)" using x by (auto simp: for_me_def to_sub_def LOCAL_def)
    obtain v s1 where r: "run_state (unsubscribeRsrc m LOCAL) sl = (v, s1)" by (metis surj_pair)
    have s': "s' = s1\<lparr>subs := (subs s1)(LOCAL := None)\<rparr>"
      using with_local_run(2) [of "do { _ \<leftarrow> unsubscribeRsrc m LOCAL; ret () }" s x "()" s1 u s'] r run Unsubscribe
      by (simp add: sl_def)
    have "machine m single s1 (fst (spec_op single p c)) \<and> did (snd (spec_op single p c)) sl s1"
    proof (cases "index_of (\<lambda>y. sub_eq y x) xs")
      case None
      then have "s1 = sl" using r find_sub_run [OF at' sm' n] fm by (simp add: unsubscribeRsrc_def)
      then show ?thesis
        using None Unsubscribe c at' sm' sm(2) st by (auto simp: spec_unsubscribe_def machine_def did_def)
    next
      case (Some i)
      note i = index_of_Some [OF Some]
      have id: "i < length ds" using i subs_at_data [OF at'] by simp
      obtain w where "run_state (state_event m RSRC_UNSUBSCRIBE (ds ! i)) sl = (w, s1)"
        using r find_sub_run [OF at' sm' n] fm Some subs_at_nth(4) [OF at' id]
        by (auto simp: unsubscribeRsrc_def split: prod.splits)
      from leave_handler [OF at' sm' sm(2) _ _ this] i show ?thesis
        using safe Some Unsubscribe c st by (auto simp: dangles_def spec_unsubscribe_def)
    qed
    then show ?thesis using s' machine_local [of m single s1] by (simp add: did_def sl_def)
  qed
qed

end
