(* ===== verification/Agps_Ub.thy ===== *)
theory Agps_Ub
  imports Agps_Spec
begin

text \<open>
  Once undefined behaviour has happened, it has happened: no operation of the machine clears \<open>ub\<close>. So an operation that
  reads a deleted subscriber ends with \<open>ub\<close> set, whatever it does afterwards.
\<close>

lemma ub_basic [keeps_rules]:
  "keeps ub (emit e)" "keeps ub (call e)" "keeps ub (must b)"
  by (simp_all add: keeps_def)

lemma ub_objs [keeps_rules]:
  "keeps ub (get_sub d)" "keeps ub (upd_sub d f)" "keeps ub (get_sm m)" "keeps ub (upd_sm m g)" "keeps ub (delete_sub d)"
  by (auto simp: get_sub_def upd_sub_def get_sm_def upd_sm_def delete_sub_def intro!: keeps_rules)

lemma ub_list [keeps_rules]:
  "keeps ub (get_list l)" "keeps ub (upd_list l f)" "keeps ub (get_elem e)" "keeps ub (upd_elem e g)" "keeps ub (free_elem e)"
  by (auto simp: get_list_def upd_list_def get_elem_def upd_elem_def free_elem_def intro!: keeps_rules)

lemma ub_found [keeps_rules]: "keeps ub (search_found l dp rm a)" "keeps ub (linked_list_empty l)"
  by (auto simp: search_found_def unlink_elem_def linked_list_empty_def intro!: keeps_rules)

lemma ub_match: "(\<And>d. keeps ub (cb d)) \<Longrightarrow> keeps ub (first_match h cb as)"
  by (induction as) (auto intro!: keeps_rules)

lemma ub_search: "(\<And>d. keeps ub (cb d)) \<Longrightarrow> keeps ub (linked_list_search_cb l dp cb rm)"
  by (auto simp: linked_list_search_cb_def intro!: keeps_rules ub_match)

lemma ub_forMe [keeps_rules]: "keeps ub (forMe d n)" "keeps ub (hasSubscriber n d)"
  by (auto simp: forMe_def hasSubscriber_def equals_def intro!: keeps_rules)

lemma ub_api [keeps_rules]: "keeps ub (api f xs)" "keeps ub (atlOpenStatus h b a c ty)" "keeps ub (atlCloseStatus h b)"
    "keeps ub (requestATL h ty)" "keeps ub (informStatus m st i)"
  by (auto simp: api_def atlOpenStatus_def atlCloseStatus_def requestATL_def send_msg_def informStatus_def
      intro!: keeps_rules split: rsrc.splits)

lemma ub_data_conn [keeps_rules]: "keeps ub (data_conn x st)"
  by (auto simp: data_conn_def loc_eng_dmn_conn_loc_api_server_data_conn_def memory_def loc_eng_dmn_conn_glue_msgsnd_def
      loc_eng_dmn_conn_glue_pipewrite_def intro!: keeps_rules)

lemma ub_tell [keeps_rules]: "keeps ub (tell_bit st)" "keeps ub (tell_atl x st)" "keeps ub (tell_wifi x st)" "keeps ub (tell_ds x st)"
  by (auto simp: tell_bit_def tell_atl_def tell_wifi_def tell_ds_def intro!: keeps_rules split: rsrc.splits)

lemma ub_notify [keeps_rules]: "keeps ub (notifyRsrcStatus d n)" "keeps ub (notifySubscriber n d)"
  by (auto simp: notifyRsrcStatus_def notifySubscriber_def intro!: keeps_rules split: sub_kind.splits)

lemma ub_loop [keeps_rules]: "keeps ub (notify_loop k l n)"
  by (induction k) (auto intro!: keeps_rules ub_search)

lemma ub_find [keeps_rules]: "keeps ub (find_sub m n)" "keeps ub (hasSubscribers m)" "keeps ub (hasActiveSubscribers m)"
  by (auto simp: find_sub_def hasSubscribers_def hasActiveSubscribers_def intro!: keeps_rules ub_search)

lemma ub_timer [keeps_rules]: "keeps ub (loc_timer_start ms cb x)"
  by (auto simp: loc_timer_start_def timer_cleanup_def upd_timer_def intro!: keeps_rules)

lemma ub_send [keeps_rules]: "keeps ub (sendRsrcRequest m a)"
  by (auto simp: sendRsrcRequest_def agps_sendRsrcRequest_def ds_sendRsrcRequest_def requestRsrc_def dataCallCb_def
      intro!: keeps_rules split: servicer.splits)

lemma ub_release [keeps_rules]: "keeps ub (release_if_unused m st)"
  by (auto simp: release_if_unused_def intro!: keeps_rules)

section \<open>A deleted subscriber is read\<close>

lemma keeps_tail:
  "(\<And>a. keeps I (f a)) \<Longrightarrow> I (snd (run_state m s)) \<Longrightarrow> I (snd (run_state (State_Monad.bind m f) s))"
  by (simp add: keeps_def split_beta)

lemma forMe_dangling:
  assumes "rcver n \<noteq> 0" "subs s (rcver n) = None"
  shows "ub (snd (run_state (notifySubscriber n d) s))"
proof -
  have "ub (snd (run_state (forMe d n) s))"
    using assms by (cases "subs s d") (auto simp: forMe_def equals_def get_sub_def)
  then have "ub (snd (run_state (notifyRsrcStatus d n) s))"
    unfolding notifyRsrcStatus_def
    by (rule keeps_tail [rotated]) (auto intro!: keeps_rules split: sub_kind.splits)
  then show ?thesis
    unfolding notifySubscriber_def by (rule keeps_tail [rotated]) (rule keeps_rules)
qed

lemma take_leave_dangles:
  assumes at: "subs_at m s (mSubscribers sm) as ds xs" and sm: "sms s m = Some sm" and i: "i < length xs"
    and first: "index_of (\<lambda>y. sub_eq y (xs ! i)) xs = Some i" and w: "\<not> waitForCloseComplete (xs ! i)" and two: "length xs \<noteq> 1"
  shows "ub (snd (run_state (take_leave m (ds ! i)) s))"
proof -
  note D = subs_at_data [OF at]
  have id: "i < length ds" using i D by simp
  note N = subs_at_nth [OF at id]
  have A: "mSubscribers sm \<noteq> 0" "rep s (mSubscribers sm) as" using at by (simp_all add: subs_at_def)
  let ?l = "mSubscribers sm" and ?n = "to_sub (ds ! i) RSRC_UNSUBSCRIBE True"
  have n: "rcver_ok m ?n s" using N by (simp add: rcver_ok_def to_sub_def)
  have P: "index_of (\<lambda>x. for_me s ?n x \<and> passed_on (rsrcStatus ?n) \<and> postNotifyDelete ?n) xs = Some i"
    using first N by (simp add: for_me_def to_sub_def passed_on_def)
  have ne: "as \<noteq> []" using id D by auto
  obtain r s1 where fm: "run_state (first_match (ll_elems s) (notifySubscriber ?n) as) s = (r, s1)" by (metis surj_pair)
  have r: "same s s1" "r = Some (as ! i)" using notify_match [OF at _ n fm] sm P by simp_all
  have cb: "run_state (linked_list_search_cb ?l True (notifySubscriber ?n) True) s = run_state (search_found ?l True True (as ! i)) s1"
    using search_cb_run [OF A(2,1) ne fm] r by simp
  obtain e d s2 where f: "run_state (search_found ?l True True (as ! i)) s1 = ((e, d), s2)" by (metis surj_pair)
  obtain v s3 where del: "run_state (delete_sub (ds ! i)) s2 = (v, s3)" by (metis surj_pair)
  have at1: "subs_at m s1 ?l as ds xs" using at subs_at_same [OF r(1)] by simp
  note R = search_removed [OF at1 id f del]
  have "length (drop_nth i as) = length xs - 1" using id D by (simp add: length_drop_nth)
  moreover have "0 < length xs - 1" using two i by linarith
  ultimately obtain a as' where as': "drop_nth i as = a # as'" by (metis length_greater_0_conv neq_Nil_conv)
  have gone: "subs s3 (ds ! i) = None" using R(4) by simp
  have rep3: "rep s3 ?l (a # as')" using R(2) as' by (simp add: subs_at_def)
  have "ub (snd (run_state (notifySubscriber ?n (fst (item (ll_elems s3) a))) s3))"
    using forMe_dangling [of ?n s3] gone N(4) by (simp add: to_sub_def)
  then have ub4: "ub (snd (run_state (first_match (ll_elems s3) (notifySubscriber ?n) (a # as')) s3))"
    unfolding first_match.simps by (rule keeps_tail [rotated]) (auto intro!: keeps_rules ub_match)
  obtain q s4 where fm4: "run_state (first_match (ll_elems s3) (notifySubscriber ?n) (a # as')) s3 = (q, s4)" by (metis surj_pair)
  have ub4': "ub s4" using ub4 fm4 by simp
  have ub5: "ub (snd (run_state (linked_list_search_cb ?l True (notifySubscriber ?n) True) s3))"
    using search_cb_run [OF rep3 A(1) _ fm4, of True True] ub4' keepsD [OF ub_found(1), of s4]
    by (cases q) auto
  have ub6: "ub (snd (run_state (notify_loop (Suc k) ?l ?n) s3))" for k
    unfolding notify_loop.simps using ub5 by (rule keeps_tail [rotated]) (auto intro!: keeps_rules)
  obtain k where k: "length xs = Suc k" using i by (cases "length xs") auto
  have "run_state (notify_loop (Suc (length xs)) ?l ?n) s = run_state (notify_loop (length xs) ?l ?n) s3"
    using cb f R(1) del N(4) by (simp add: Let_def)
  then show ?thesis
    using ub6 [of k] k w sm N(1) list_size_run [OF at]
    by (simp add: take_leave_def get_sub_def notifySubscribers_def get_sm_def to_sub_def del: notify_loop.simps)
qed

lemma keeps_upd_sm: "ub s \<Longrightarrow> ub (snd (run_state (upd_sm m g) s))"
  by (simp add: upd_sm_def)

lemma leave_events:
  assumes "ub (snd (run_state (take_leave m d) s))"
  shows "ub (snd (run_state (pending_event m RSRC_UNSUBSCRIBE d) s))" "ub (snd (run_state (acquired_event m RSRC_UNSUBSCRIBE d) s))"
    "ub (snd (run_state (releasing_event m RSRC_UNSUBSCRIBE d) s))"
proof -
  show "ub (snd (run_state (pending_event m RSRC_UNSUBSCRIBE d) s))"
    unfolding pending_event_def rsrc.case
    by (rule keeps_tail [where I = ub, OF _ assms]) (auto intro!: keeps_rules)
  show "ub (snd (run_state (acquired_event m RSRC_UNSUBSCRIBE d) s))"
    unfolding acquired_event_def rsrc.case
    by (rule keeps_tail [where I = ub, OF _ assms]) (auto intro!: keeps_rules)
  have "ub (snd (run_state (do { take_leave m d; has \<leftarrow> hasSubscribers m; ret (if has then Releasing else Released) }) s))"
    by (rule keeps_tail [where I = ub, OF _ assms]) (auto intro!: keeps_rules)
  then show "ub (snd (run_state (releasing_event m RSRC_UNSUBSCRIBE d) s))"
    by (simp add: releasing_event_def)
qed

theorem op_dangles:
  assumes m: "machine m single s c" and ok: "op_ok m p" and d: "dangles p c"
  shows "ub (snd (run_state (op_run m p) s))"
proof -
  obtain st xs where c: "c = (st, xs)" by fastforce
  obtain sm as ds where sm: "sms s m = Some sm" "good_sm sm" and st: "mState sm = st" "mEnforceSingleSubscriber sm = single"
      and at: "subs_at m s (mSubscribers sm) as ds xs"
    using m by (auto simp: machine_def c)
  obtain x i where p: "p = Unsubscribe x" and Some: "index_of (\<lambda>y. sub_eq y x) xs = Some i"
      and w: "st \<noteq> Released" "\<not> waitForCloseComplete (xs ! i)" "length xs \<noteq> 1"
    using d c by (auto simp: dangles_def split: agps_op.splits option.splits)
  note i = index_of_Some [OF Some]
  define sl where "sl = s\<lparr>subs := (subs s)(LOCAL := Some x)\<rparr>"
  have at': "subs_at m sl (mSubscribers sm) as ds xs" unfolding sl_def by (rule subs_at_local [OF at])
  have sm': "sms sl m = Some sm" using sm(1) by (simp add: sl_def)
  have x: "subs sl LOCAL = Some x" "wf_sub m x" using ok p by (simp_all add: sl_def)
  let ?n = "to_sub LOCAL RSRC_STATUS_MAX False"
  have n: "rcver_ok m ?n sl" using x by (simp add: rcver_ok_def to_sub_def)
  have fm: "for_me sl ?n = (\<lambda>y. sub_eq y x)" using x by (auto simp: for_me_def to_sub_def LOCAL_def)
  have wf: "wf_sub m y" if "y \<in> set xs" for y using at' that by (auto simp: subs_at_def list_all_iff)
  have "sub_eq y (xs ! i) = sub_eq y x" if "y \<in> set xs" for y
    using sub_eq_trans [OF x(2) wf [OF nth_mem] wf [OF that]] i by auto
  then have first: "index_of (\<lambda>y. sub_eq y (xs ! i)) xs = Some i"
    using Some by (metis (mono_tags, lifting) index_of_cong)
  have id: "i < length ds" using i subs_at_data [OF at'] by simp
  have leave: "ub (snd (run_state (take_leave m (ds ! i)) sl))"
    using take_leave_dangles [OF at' sm' _ first w(2,3)] i by simp
  then have "ub (snd (run_state (case st of Released \<Rightarrow> released_event m RSRC_UNSUBSCRIBE (ds ! i)
      | Pending \<Rightarrow> pending_event m RSRC_UNSUBSCRIBE (ds ! i) | Acquired \<Rightarrow> acquired_event m RSRC_UNSUBSCRIBE (ds ! i)
      | Releasing \<Rightarrow> releasing_event m RSRC_UNSUBSCRIBE (ds ! i)) sl))"
    using w(1) leave_events [OF leave] by (cases st) simp_all
  then have "ub (snd (run_state (state_event m RSRC_UNSUBSCRIBE (ds ! i)) sl))"
    using sm' st keepsD [OF ub_objs(4)] by (simp add: state_event_def get_sm_def split_beta keeps_upd_sm)
  then show ?thesis
    using p find_sub_run [OF at' sm' n] fm Some subs_at_nth(4) [OF at' id]
    by (simp add: with_local_def unsubscribeRsrc_def sl_def split_beta)
qed

end
