(* ===== verification/Agps_Seq.thy ===== *)
theory Agps_Seq
  imports Agps_Ub
begin

text \<open>
  Sequences of operations on a resource state machine: the code's against the abstract one's, the invariant of the latter
  and when it makes which request.
\<close>

fun ops_run :: "nat \<Rightarrow> agps_op list \<Rightarrow> 'a agps_st_scheme \<Rightarrow> 'a agps_st_scheme" where
  "ops_run m [] s = s"
| "ops_run m (p # ps) s = ops_run m ps (snd (run_state (op_run m p) s))"

text \<open>The requests, the latest first, as in a trace.\<close>

fun ops_spec :: "bool \<Rightarrow> agps_op list \<Rightarrow> spec_st \<Rightarrow> spec_st \<times> int list" where
  "ops_spec single [] c = (c, [])"
| "ops_spec single (p # ps) c = (let (c1, a) = spec_op single p c; (c2, b) = ops_spec single ps c1 in (c2, b @ a))"

text \<open>Each operation is a proper one that reads no deleted subscriber, with memory when it needs some.\<close>

fun ops_ok :: "nat \<Rightarrow> bool \<Rightarrow> agps_op list \<Rightarrow> 'a agps_st_scheme \<Rightarrow> spec_st \<Rightarrow> bool" where
  "ops_ok m single [] s c = True"
| "ops_ok m single (p # ps) s c \<longleftrightarrow> op_ok m p \<and> \<not> dangles p c \<and> (case p of Subscribe x \<Rightarrow> mem_ok s | _ \<Rightarrow> True) \<and>
     ops_ok m single ps (snd (run_state (op_run m p) s)) (fst (spec_op single p c))"

lemma ops_refine:
  "machine m single s c \<Longrightarrow> ops_ok m single ps s c \<Longrightarrow>
    machine m single (ops_run m ps s) (fst (ops_spec single ps c)) \<and> did (snd (ops_spec single ps c)) s (ops_run m ps s)"
proof (induction ps arbitrary: s c)
  case Nil
  then show ?case by (simp add: did_def)
next
  case (Cons p ps)
  obtain u s1 where r: "run_state (op_run m p) s = (u, s1)" by (metis surj_pair)
  have ok: "op_ok m p" "\<not> dangles p c" "\<And>x. p = Subscribe x \<Longrightarrow> mem_ok s" "ops_ok m single ps s1 (fst (spec_op single p c))"
    using Cons.prems(2) r by auto
  note one = op_refines [OF Cons.prems(1) ok(1,3,2) r]
  have rest: "machine m single (ops_run m ps s1) (fst (ops_spec single ps (fst (spec_op single p c))))"
    "did (snd (ops_spec single ps (fst (spec_op single p c)))) s1 (ops_run m ps s1)"
    using Cons.IH [OF _ ok(4)] one by simp_all
  have both: "did (snd (ops_spec single ps (fst (spec_op single p c))) @ snd (spec_op single p c)) s (ops_run m ps s1)"
    by (rule did_trans [OF _ rest(2)]) (use one in simp)
  show ?case
    using rest(1) both r by (simp add: split_beta Let_def)
qed

section \<open>The invariant\<close>

text \<open>No two subscribers are equal; a machine that holds the interface or has asked for it has an active one.\<close>

definition spec_inv :: "bool \<Rightarrow> spec_st \<Rightarrow> bool" where
  "spec_inv single = (\<lambda>(st, xs). (case st of Released \<Rightarrow> xs = [] | Releasing \<Rightarrow> xs \<noteq> [] | _ \<Rightarrow> active xs) \<and>
     sorted_wrt (\<lambda>x y. \<not> sub_eq y x) xs \<and> (single \<longrightarrow> length xs \<le> 1))"

lemma spec_inv_unfold: "spec_inv single (st, xs) \<longleftrightarrow>
    (st = Released \<longrightarrow> xs = []) \<and> (st = Releasing \<longrightarrow> xs \<noteq> []) \<and> (st = Pending \<or> st = Acquired \<longrightarrow> active xs) \<and>
    sorted_wrt (\<lambda>x y. \<not> sub_eq y x) xs \<and> (single \<longrightarrow> length xs \<le> 1)"
  by (cases st) (auto simp: spec_inv_def)

lemma sub_eq_inactive [simp]: "sub_eq (x\<lparr>mIsInactive := b\<rparr>) y = sub_eq x y" "sub_eq x (y\<lparr>mIsInactive := b\<rparr>) = sub_eq x y"
  by (simp_all add: sub_eq_def)

lemma sorted_wrt_add: "sorted_wrt (\<lambda>x y. \<not> sub_eq y x) xs \<Longrightarrow> sorted_wrt (\<lambda>x y. \<not> sub_eq y x) (add_sub x xs)"
  by (auto simp: add_sub_def)

lemma sorted_wrt_leave: "sorted_wrt (\<lambda>x y. \<not> sub_eq y x) xs \<Longrightarrow> i < length xs \<Longrightarrow> sorted_wrt (\<lambda>x y. \<not> sub_eq y x) (leave i xs)"
  by (auto simp: leave_def drop_nth_def sorted_wrt_iff_nth_less nth_append nth_list_update)

lemma length_leave: "i < length xs \<Longrightarrow> length (leave i xs) \<le> length xs"
  by (auto simp: leave_def length_drop_nth)

lemma active_add_sub: "active xs \<Longrightarrow> active (add_sub x xs)" "add_sub x xs \<noteq> []" "add_sub x [] = [x\<lparr>mIsInactive := False\<rparr>]"
  by (auto simp: active_def add_sub_def)

lemma active_single: "active [x\<lparr>mIsInactive := False\<rparr>]"
  by (simp add: active_def isInactive_def)

lemma spec_inv_step:
  assumes "spec_inv single c"
  shows "spec_inv single (fst (spec_op single p c))"
proof -
  obtain st xs where c: "c = (st, xs)" by (metis surj_pair)
  show ?thesis
  proof (cases p)
    case (Subscribe x)
    have "length (add_sub x xs) \<le> 1" if "single" "xs = []" using that active_add_sub(3) by simp
    then show ?thesis
      using assms sorted_wrt_add [of xs x] active_add_sub(1) [of xs x] active_add_sub(2) [of x xs] Subscribe
      by (auto simp: c spec_subscribe_def spec_inv_unfold active_add_sub(3) active_single)
  next
    case (Unsubscribe x)
    show ?thesis
    proof (cases "index_of (\<lambda>y. sub_eq y x) xs")
      case None
      then show ?thesis using assms Unsubscribe by (simp add: c spec_unsubscribe_def)
    next
      case (Some i)
      then have i: "i < length xs" using index_of_Some by blast
      have "sorted_wrt (\<lambda>x y. \<not> sub_eq y x) (leave i xs)" "single \<longrightarrow> length (leave i xs) \<le> 1"
        using assms sorted_wrt_leave [OF _ i] length_leave [OF i] by (auto simp: c spec_inv_unfold)
      then show ?thesis
        using assms Unsubscribe Some by (cases st) (auto simp: c spec_unsubscribe_def spec_leave_def spec_inv_unfold)
    qed
  next
    case (Event ev)
    have "sorted_wrt (\<lambda>x y. \<not> sub_eq y x) (filter (\<lambda>x. \<not> isInactive x) xs)" "length (filter (\<lambda>x. \<not> isInactive x) xs) \<le> 1 \<or> \<not> single"
      using assms le_trans [OF length_filter_le] by (auto simp: c spec_inv_unfold sorted_wrt_filter)
    then show ?thesis
      using assms Event by (auto simp: c spec_event_def spec_inv_unfold active_def filter_empty_conv)
  qed
qed

interpretation agps_machine: invariant_machine "\<lambda>c p. fst (spec_op single p c)" "spec_inv single" "\<lambda>_. True" for single
  by unfold_locales (rule spec_inv_step)

lemma ops_spec_fold: "fst (ops_spec single ps c) = foldl (\<lambda>c p. fst (spec_op single p c)) c ps"
  by (induction ps arbitrary: c) (simp_all add: split_beta Let_def)

lemma ops_spec_inv: "spec_inv single c \<Longrightarrow> spec_inv single (fst (ops_spec single ps c))"
  unfolding ops_spec_fold by (rule agps_machine.run_inv) (simp_all add: list_all_iff)

lemma spec_inv_new: "spec_inv single (Released, [])"
  by (simp add: spec_inv_unfold)

section \<open>Requests\<close>

text \<open>The interface has been asked for and not given back.\<close>

definition asked_for :: "agps_state \<Rightarrow> bool" where
  "asked_for st \<longleftrightarrow> st = Pending \<or> st = Acquired"

fun is_leave :: "agps_op \<Rightarrow> bool" where
  "is_leave (Unsubscribe x) = True"
| "is_leave _ = False"

lemma requests_match:
  assumes "spec_inv single c"
  shows "snd (spec_op single p c) =
    (if asked_for (fst (fst (spec_op single p c))) \<and> \<not> asked_for (fst c) then [GPS_REQUEST_AGPS_DATA_CONN]
     else if is_leave p \<and> asked_for (fst c) \<and> \<not> asked_for (fst (fst (spec_op single p c))) then [GPS_RELEASE_AGPS_DATA_CONN] else [])"
proof -
  obtain st xs where c: "c = (st, xs)" by (metis surj_pair)
  note d = c asked_for_def spec_inv_unfold agps_consts
  show ?thesis
  proof (cases p)
    case (Subscribe x)
    then show ?thesis
      using assms active_add_sub(1) [of xs x] active_single [of x] by (cases st) (auto simp: d spec_subscribe_def requests_def active_add_sub(3))
  next
    case (Unsubscribe x)
    then show ?thesis
      using assms by (cases "index_of (\<lambda>y. sub_eq y x) xs"; cases st) (auto simp: d spec_unsubscribe_def spec_leave_def active_def)
  next
    case (Event ev)
    then show ?thesis by (cases st; cases ev) (auto simp: d spec_event_def)
  qed
qed

end
