(* ===== verification/Agps_Chain.thy ===== *)
theory Agps_Chain
  imports Agps_Seq
begin

text \<open>
  From the pipe to the state machine: a client's request arrives at the server as the bytes of a control message, becomes a
  message to the task, and that an operation of the machine.
\<close>

section \<open>The message a client sends\<close>

definition pad :: "nat \<Rightarrow> string \<Rightarrow> string" where
  "pad n a = a @ replicate (n - length a) (CHR 0x00)"

text \<open>\<open>struct ctrl_msgbuf\<close> with a request or release for WIFI.\<close>

definition wifi_ctrl_msg :: "bool \<Rightarrow> int \<Rightarrow> int \<Rightarrow> string \<Rightarrow> string \<Rightarrow> string" where
  "wifi_ctrl_msg is_req t sender ssid password =
     le32 (int CTRL_MSGBUF_SIZE) @ pad 8 [] @ pad 4 (byte (if is_req then GPSONE_LOC_API_IF_REQUEST else GPSONE_LOC_API_IF_RELEASE)) @
     le32 t @ le32 sender @ pad 20 [] @ pad SSID_BUF_SIZE ssid @ pad SSID_BUF_SIZE password @ pad 2 []"

lemma length_pad [simp]: "length a \<le> n \<Longrightarrow> length (pad n a) = n"
  by (simp add: pad_def)

lemma le32_at_skip: "length xs = k \<Longrightarrow> le32_at (xs @ ys) k = le32_at ys 0"
  by (auto simp: le32_at_def nth_append numeral_2_eq_2)

lemma le32_at_mid: "length xs = k \<Longrightarrow> le32_at (xs @ le32 x @ ys) k = swrap 32 x"
  by (simp add: le32_at_skip le32_roundtrip)

lemma length_wifi_ctrl_msg:
  assumes "length ssid < SSID_BUF_SIZE" "length password < SSID_BUF_SIZE"
  shows "length (wifi_ctrl_msg r t sender ssid password) = CTRL_MSGBUF_SIZE"
  using assms by (simp add: wifi_ctrl_msg_def byte_def dmn_consts)

lemma cstr_padded: "CHR 0x00 \<notin> set a \<Longrightarrow> length a < n \<Longrightarrow> cstr (pad n a @ r) = a"
  by (cases "n - length a") (simp_all add: pad_def cstr_append_nul)

text \<open>What the server reads at each place of the message.\<close>

lemma wifi_ctrl_fields:
  assumes ssid: "CHR 0x00 \<notin> set ssid" "length ssid < SSID_BUF_SIZE"
    and pw: "CHR 0x00 \<notin> set password" "length password < SSID_BUF_SIZE"
    and buf: "buf = wifi_ctrl_msg r t sender ssid password @ rest"
  shows "of_char (buf ! 12) = (if r then GPSONE_LOC_API_IF_REQUEST else GPSONE_LOC_API_IF_RELEASE)"
    "le32_at buf 16 = swrap 32 t" "le32_at buf 20 = swrap 32 sender"
    "cstr (drop 44 buf) = ssid" "cstr (drop 77 buf) = password"
    "CHR 0x00 \<in> set (drop 44 buf)" "CHR 0x00 \<in> set (drop 77 buf)"
proof -
  let ?ty = "pad 4 (byte (if r then GPSONE_LOC_API_IF_REQUEST else GPSONE_LOC_API_IF_RELEASE))"
  let ?h = "le32 (int CTRL_MSGBUF_SIZE) @ pad 8 []"
  let ?tail = "pad SSID_BUF_SIZE password @ pad 2 [] @ rest"
  have h: "length ?h = 12" "length (?h @ ?ty) = 16" "length (?h @ ?ty @ le32 t) = 20"
      "length (?h @ ?ty @ le32 t @ le32 sender @ pad 20 []) = 44"
      "length (?h @ ?ty @ le32 t @ le32 sender @ pad 20 [] @ pad SSID_BUF_SIZE ssid) = 77"
    using ssid(2) by (simp_all add: byte_def dmn_consts)
  have "buf = ?h @ ?ty @ (le32 t @ le32 sender @ pad 20 [] @ pad SSID_BUF_SIZE ssid @ ?tail)"
    by (simp add: buf wifi_ctrl_msg_def)
  then have "buf ! 12 = ?ty ! 0" using h(1) by (simp add: nth_append byte_def pad_def)
  then show "of_char (buf ! 12) = (if r then GPSONE_LOC_API_IF_REQUEST else GPSONE_LOC_API_IF_RELEASE)"
    using of_char_char_of_int [of 240] of_char_char_of_int [of 241] by (simp add: byte_def pad_def dmn_consts)
  show "le32_at buf 16 = swrap 32 t"
    using le32_at_mid [OF h(2), of t] by (simp add: buf wifi_ctrl_msg_def)
  show "le32_at buf 20 = swrap 32 sender"
    using le32_at_mid [OF h(3), of sender] by (simp add: buf wifi_ctrl_msg_def)
  have "buf = (?h @ ?ty @ le32 t @ le32 sender @ pad 20 []) @ pad SSID_BUF_SIZE ssid @ ?tail"
    by (simp add: buf wifi_ctrl_msg_def)
  then have 44: "drop 44 buf = pad SSID_BUF_SIZE ssid @ ?tail" using h(4) by (metis append_eq_conv_conj)
  have "buf = (?h @ ?ty @ le32 t @ le32 sender @ pad 20 [] @ pad SSID_BUF_SIZE ssid) @ ?tail"
    by (simp add: buf wifi_ctrl_msg_def)
  then have 77: "drop 77 buf = ?tail" using h(5) by (metis append_eq_conv_conj)
  show "cstr (drop 44 buf) = ssid" "cstr (drop 77 buf) = password"
    unfolding 44 77 using ssid pw by (simp_all add: cstr_padded)
  show "CHR 0x00 \<in> set (drop 44 buf)" "CHR 0x00 \<in> set (drop 77 buf)"
    unfolding 44 77 by (simp_all add: pad_def)
qed

section \<open>The server\<close>

text \<open>The pipe gives the message in two reads, as one end wrote it.\<close>

definition pipe_gives :: "'a world_scheme \<Rightarrow> event list \<Rightarrow> int \<Rightarrow> string \<Rightarrow> bool" where
  "pipe_gives s t fd msg \<longleftrightarrow>
     rv (env s t (E_read fd 4)) = 4 \<and> rbuf (env s t (E_read fd 4)) = take 4 msg \<and>
     rv (env s (E_read fd 4 # t) (E_read fd (length msg - 4))) = int (length msg) - 4 \<and>
     rbuf (env s (E_read fd 4 # t) (E_read fd (length msg - 4))) = drop 4 msg"

text \<open>The trace when the server reads: memory for the buffer.\<close>

definition proc_trace :: "'a world_scheme \<Rightarrow> event list" where
  "proc_trace s = E_hook ''memory'' [int (CTRL_MSGBUF_SIZE + 256)] # E_malloc (CTRL_MSGBUF_SIZE + 256) # tr s"

lemma server_wifi:
  assumes ssid: "CHR 0x00 \<notin> set ssid" "length ssid < SSID_BUF_SIZE"
    and pw: "CHR 0x00 \<notin> set password" "length password < SSID_BUF_SIZE"
    and sender: "sender = ID_QUIPC \<or> sender = ID_MSAPM \<or> sender = ID_MSAPU" and t: "if_type t = Some ty"
    and h: "loc_api_handle s \<noteq> 0" and mem: "rv (env s (tr s) (E_malloc (CTRL_MSGBUF_SIZE + 256))) \<noteq> 0"
    and pipe: "pipe_gives s (proc_trace s) (loc_api_server_msgqid s) (wifi_ctrl_msg r t sender ssid password)"
  shows "\<exists>es. run_state loc_api_server_proc s = (0, s\<lparr>tr := es @ tr s, task_q := task_q s @ [LocEngReqRelWifi ty sender (Some ssid) (Some password) r]\<rparr>)
    \<and> acts es = []"
proof -
  define msg where "msg = wifi_ctrl_msg r t sender ssid password"
  have len: "length msg = CTRL_MSGBUF_SIZE" using ssid(2) pw(2) by (simp add: msg_def length_wifi_ctrl_msg)
  let ?fd = "loc_api_server_msgqid s"
  define s1 where "s1 = s\<lparr>tr := proc_trace s\<rparr>"
  define es where "es = [E_read ?fd (CTRL_MSGBUF_SIZE - 4), E_read ?fd 4, E_hook ''memory'' [int (CTRL_MSGBUF_SIZE + 256)],
    E_malloc (CTRL_MSGBUF_SIZE + 256)]"
  have "take 4 msg = le32 (int CTRL_MSGBUF_SIZE)" by (simp add: msg_def wifi_ctrl_msg_def)
  then have rcv: "run_state (loc_eng_dmn_conn_glue_msgrcv ?fd (int (CTRL_MSGBUF_SIZE + 256))) s1 =
      ((int CTRL_MSGBUF_SIZE, msg), s1\<lparr>tr := es @ tr s\<rparr>)"
    using msg_received [of "int CTRL_MSGBUF_SIZE" msg "int (CTRL_MSGBUF_SIZE + 256)" "env s1 (tr s1) (E_read ?fd 4)" s1 ?fd
        "env s1 (E_read ?fd 4 # tr s1) (E_read ?fd (nat (int CTRL_MSGBUF_SIZE - 4)))"] pipe len
    by (simp add: pipe_gives_def msg_def [symmetric] s1_def es_def proc_trace_def CTRL_MSGBUF_SIZE_def)
  obtain junk where junk: "run_state (memory (CTRL_MSGBUF_SIZE + 256)) (s\<lparr>tr := E_malloc (CTRL_MSGBUF_SIZE + 256) # tr s\<rparr>) =
      (junk, s\<lparr>tr := proc_trace s\<rparr>)"
    by (simp add: memory_def proc_trace_def)
  have buf: "put_at 0 msg junk = wifi_ctrl_msg r t sender ssid password @ drop CTRL_MSGBUF_SIZE junk"
    using len by (simp add: put_at_def msg_def)
  note f = wifi_ctrl_fields [OF ssid pw buf]
  define fr where "fr = E_free (nat (rv (env s (tr s) (E_malloc (CTRL_MSGBUF_SIZE + 256)))))"
  have t': "swrap 32 t = t" using t by (auto simp: if_type_def swrap_def split: if_splits)
  have sd: "swrap 32 sender = sender" using sender by (auto simp: dmn_consts swrap_def)
  have take: "take (SSID_BUF_SIZE - 1) ssid = ssid" "take (SSID_BUF_SIZE - 1) password = password"
    using ssid(2) pw(2) by simp_all
  let ?m = "LocEngReqRelWifi ty sender (Some ssid) (Some password) r"
  have send: "run_state (send_if_msg (put_at 0 msg junk) ty r) s' = (0, s'\<lparr>task_q := task_q s' @ [?m]\<rparr>)"
    if "loc_api_handle s' \<noteq> 0" for s' :: "'a srv_st_scheme"
    using f sender that take by (simp add: send_if_msg_def copy_str_def send_msg_def sd Let_def)
  have hnd: "r \<Longrightarrow> run_state (loc_eng_dmn_conn_loc_api_server_if_request_handler (put_at 0 msg junk) n) s' =
        (0, s'\<lparr>task_q := task_q s' @ [?m]\<rparr>)"
      "\<not> r \<Longrightarrow> run_state (loc_eng_dmn_conn_loc_api_server_if_release_handler (put_at 0 msg junk) n) s' =
        (0, s'\<lparr>task_q := task_q s' @ [?m]\<rparr>)"
    if "loc_api_handle s' \<noteq> 0" for s' :: "'a srv_st_scheme" and n
    using f t t' that send [OF that] by (auto simp: loc_eng_dmn_conn_loc_api_server_if_request_handler_def
        loc_eng_dmn_conn_loc_api_server_if_release_handler_def)
  have "run_state loc_api_server_proc s = (0, s\<lparr>tr := fr # es @ tr s, task_q := task_q s @ [?m]\<rparr>)"
    using mem h rcv [unfolded s1_def CTRL_MSGBUF_SIZE_def, simplified] junk [unfolded CTRL_MSGBUF_SIZE_def, simplified]
    by (cases r) (simp_all add: loc_api_server_proc_def Let_def f(1) hnd fr_def dmn_consts)
  then show ?thesis by (intro exI [of _ "fr # es"]) (simp add: es_def fr_def act_of_hook)
qed

section \<open>The task\<close>

definition wifi_op :: "bool \<Rightarrow> subscriber \<Rightarrow> agps_op" where
  "wifi_op is_req x = (if is_req then Subscribe x else Unsubscribe x)"

lemma machine_env: "machine m single (s\<lparr>tr := t, task_q := q\<rparr>) c = machine m single s c"
  by (simp add: machine_def subs_at_def rep_def items_def)

lemma mem_ok_env: "mem_ok s \<Longrightarrow> mem_ok (s\<lparr>tr := es @ tr s, task_q := q\<rparr>)"
  by (simp add: mem_ok_def Let_def)

lemma turn_wifi:
  assumes "task_q s = [LocEngReqRelWifi ty sender ssid password r]" "wifi_nif s = m" "m \<noteq> 0"
  shows "run_state (task_turn other) s = run_state (op_run m (wifi_op r (mk_wifi m ssid password sender))) (s\<lparr>task_q := []\<rparr>)"
  using assms by (simp add: task_turn_def proc_req_rel_wifi_def wifi_op_def)

lemma request_to_machine:
  assumes m: "machine m single s c" "wifi_nif s = m" "m \<noteq> 0" and q: "task_q s = []" and mem: "mem_ok s"
    and ssid: "CHR 0x00 \<notin> set ssid" "length ssid < SSID_BUF_SIZE"
    and pw: "CHR 0x00 \<notin> set password" "length password < SSID_BUF_SIZE"
    and sender: "sender = ID_QUIPC \<or> sender = ID_MSAPM \<or> sender = ID_MSAPU" and t: "if_type t = Some ty"
    and h: "loc_api_handle s \<noteq> 0"
    and pipe: "pipe_gives s (proc_trace s) (loc_api_server_msgqid s) (wifi_ctrl_msg r t sender ssid password)"
    and p: "p = wifi_op r (mk_wifi m (Some ssid) (Some password) sender)" "\<not> dangles p c"
    and run: "run_state (do { _ \<leftarrow> loc_api_server_proc; task_turn other }) s = (u, s')"
  shows "machine m single s' (fst (spec_op single p c)) \<and> did (snd (spec_op single p c)) s s'"
proof -
  have "rv (env s (tr s) (E_malloc (CTRL_MSGBUF_SIZE + 256))) \<noteq> 0"
    using mem by (auto simp: mem_ok_def Let_def dest!: spec [of _ "tr s"] spec [of _ "CTRL_MSGBUF_SIZE + 256"])
  from server_wifi [OF ssid pw sender t h this pipe] q obtain es where
    es: "run_state loc_api_server_proc s = (0, s\<lparr>tr := es @ tr s, task_q := [LocEngReqRelWifi ty sender (Some ssid) (Some password) r]\<rparr>)"
      "acts es = []" by auto
  define s1 where "s1 = s\<lparr>tr := es @ tr s, task_q := []\<rparr>"
  have op: "run_state (op_run m p) s1 = (u, s')"
    using run es(1) turn_wifi [of "s\<lparr>tr := es @ tr s, task_q := [LocEngReqRelWifi ty sender (Some ssid) (Some password) r]\<rparr>"
        ty sender "Some ssid" "Some password" r m] m(2,3) by (simp add: p(1) s1_def)
  have ok: "op_ok m p"
    using sender by (auto simp: p(1) wifi_op_def wf_sub_def mk_wifi_def no_sub_def dmn_consts uwrap_def INADDR_NONE_def)
  have "machine m single s1 c" "mem_ok s1" using m(1) mem by (simp_all add: s1_def machine_env mem_ok_env)
  from op_refines [OF this(1) ok this(2) p(2) op] show ?thesis
    using es(2) by (simp add: did_def s1_def)
qed

end
