(* ===== verification/Props_Agps.thy ===== *)
theory Props_Agps
  imports Agps_Chain Examples
begin

text \<open>
  The properties of the resource state machines of the GPS library and of the server that feeds them.
\<close>

section \<open>An engine restart\<close>

lemma acts_flush: "acts (rev (flush_events h as)) = []"
  by (induction as) (auto simp: flush_events_def dealloc_event_def)

lemma delete_all:
  assumes "distinct ds" "0 \<notin> set ds" "\<forall>d \<in> set ds. subs s d \<noteq> None"
  shows "run_state (for_each ds delete_sub) s =
    ((), s\<lparr>tr := rev (map E_free ds) @ tr s, subs := (\<lambda>d. if d \<in> set ds then None else subs s d)\<rparr>)"
  using assms
proof (induction ds arbitrary: s)
  case Nil
  then show ?case by simp
next
  case (Cons d ds)
  then obtain x where x: "subs s d = Some x" by auto
  let ?s = "s\<lparr>tr := E_free d # tr s, subs := (subs s)(d := None)\<rparr>"
  have "run_state (delete_sub d) s = ((), ?s)"
    using Cons.prems x by (simp add: delete_sub_def get_sub_def)
  moreover have "run_state (for_each ds delete_sub) ?s =
      ((), ?s\<lparr>tr := rev (map E_free ds) @ tr ?s, subs := (\<lambda>d'. if d' \<in> set ds then None else subs ?s d')\<rparr>)"
    using Cons.prems by (intro Cons.IH) auto
  moreover have "(\<lambda>d'. if d' \<in> set ds then None else subs ?s d') = (\<lambda>d'. if d' = d \<or> d' \<in> set ds then None else subs s d')"
    by auto
  ultimately show ?case by (simp del: fun_upd_apply)
qed

lemma drop_run:
  assumes m: "machine m single s (st, xs)" and run: "run_state (dropAllSubscribers m) s = (u, s')"
  shows "machine m single s' (st, []) \<and> ub s' = ub s \<and> acts (tr s') = acts (tr s) \<and> (mem_ok s \<longrightarrow> mem_ok s')"
proof -
  obtain sm as ds where sm: "sms s m = Some sm" "good_sm sm" "mState sm = st" "mEnforceSingleSubscriber sm = single"
      and at: "subs_at m s (mSubscribers sm) as ds xs"
    using m by (auto simp: machine_def)
  have A: "rep s (mSubscribers sm) as" "mSubscribers sm \<noteq> 0" "distinct ds" "0 \<notin> set ds" "map (subs s) ds = map Some xs"
    using at by (simp_all add: subs_at_def)
  obtain err s1 where fl: "run_state (linked_list_flush (mSubscribers sm)) s = (err, s1)" by (metis surj_pair)
  note F = flush_spec [OF A(1,2) fl]
  have "keeps (\<lambda>s. ll_st.more s = v) (linked_list_flush l)" for v l
    by (auto simp: linked_list_flush_def get_list_def upd_list_def intro!: keeps_rules)
  from keepsD [OF this refl] fl have more: "subs s1 = subs s" "sms s1 = sms s"
    using agps_more [of s1 s] by (metis snd_conv)+
  have k: "keeps (\<lambda>s. env s = v) (linked_list_flush l)" "keeps (\<lambda>s. {a. ll_lists s a = None} = D) (linked_list_flush l)" for v D l
    by (auto simp: linked_list_flush_def get_list_def upd_list_def intro!: keeps_rules split: if_splits)
  have "env s1 = env s" "{a. ll_lists s1 a = None} = {a. ll_lists s a = None}"
    using keepsD [OF k(1) refl] keepsD [OF k(2) refl] fl by (metis snd_conv)+
  then have mem: "mem_ok s \<Longrightarrow> mem_ok s1"
    using F(3,5) more by (auto simp: mem_ok_def Let_def)
  have ds: "map (\<lambda>a. fst (item (ll_elems s) a)) as = ds" using subs_at_data(1) [OF at] .
  have "\<forall>d \<in> set ds. subs s1 d \<noteq> None"
    using A(5) more by (metis imageE image_eqI list.set_map option.distinct(1))
  note del = delete_all [OF A(3,4) this]
  have "s' = s1\<lparr>tr := rev (map E_free ds) @ tr s1, subs := (\<lambda>d. if d \<in> set ds then None else subs s1 d)\<rparr>"
    using run sm fl del ds rep_D(1) [OF A(1)] elems_from_dll [OF rep_D(4) [OF A(1)]]
    by (simp add: dropAllSubscribers_def get_sm_def Let_def)
  moreover have "acts (rev (map E_free as)) = []" for as by (induction as) simp_all
  ultimately show ?thesis
    using F sm more A(2) mem by (auto simp: machine_def subs_at_def rep_def items_def acts_flush mem_ok_def Let_def)
qed

section \<open>Example states\<close>

text \<open>
  The machine 50 over the list 100, in a state given; the addresses of new objects grow with the calls made, and a read
  of 4 bytes gives the head of a message, another one the rest.
\<close>

definition ex_os :: "string \<Rightarrow> event list \<Rightarrow> event \<Rightarrow> reply" where
  "ex_os msg t e = (case e of
       E_proc (Pr_malloc n) \<Rightarrow> answer (1000 + int (length t))
     | E_fd (F_read n) fd \<Rightarrow> (if n = 4 then (answer 4)\<lparr>rbuf := take 4 msg\<rparr> else (answer (int n))\<lparr>rbuf := drop 4 msg\<rparr>)
     | _ \<Rightarrow> answer 0)"

definition ex_sm :: "agps_state \<Rightarrow> agps_sm" where
  "ex_sm st = \<lparr>mSubscribers = 100, mServicer = servicerTypeAgps, sm_cb = 1, mState = st, mType = 4, mAPN = None, mAPNLen = 0,
     mBearer = - 1, mEnforceSingleSubscriber = False, sm_ds = False, mRetries = 0\<rparr>"

definition ex_agps :: "string \<Rightarrow> agps_state \<Rightarrow> list_state \<Rightarrow> (nat \<Rightarrow> list_element option) \<Rightarrow> (nat \<Rightarrow> subscriber option) \<Rightarrow> agps_st" where
  "ex_agps msg st l es xs = \<lparr>env = ex_os msg, tr = [], ub = False, fl = id,
     ll_lists = (\<lambda>_. None)(100 := Some l), ll_elems = es, tms = (\<lambda>_. None),
     th = \<lparr>th_exit = 0, th_ready = 0, th_context = 0, proc_init = 1, proc_pre = 2, proc_main = 3, proc_post = 4\<rparr>,
     loc_api_server_msgqid = 9, loc_api_resp_msgqid = 10, quipc_msgqid = 11, msapm_msgqid = 12, msapu_msgqid = 13,
     global_loc_api_q_path = [], global_loc_api_resp_q_path = [], loc_api_handle = 1, task_q = [],
     subs = xs, sms = (\<lambda>_. None)(50 := Some (ex_sm st)), agnss_nif = 0, internet_nif = 0, wifi_nif = 50, ds_nif = 0,
     eng_adapter = True, agps_status_cb = 1, mAgpsEnabled = True\<rparr>"

definition ex_none :: "string \<Rightarrow> agps_st" where
  "ex_none msg = ex_agps msg Released \<lparr>p_head = 0, p_tail = 0\<rparr> (\<lambda>_. None) (\<lambda>_. None)"

definition ex_two :: "agps_st" where
  "ex_two = ex_agps [] Acquired \<lparr>p_head = 1, p_tail = 2\<rparr>
     ((\<lambda>_. None)(1 := Some \<lparr>le_next = 2, le_prev = 0, le_data = 7, le_dealloc = DELETE_OBJ\<rparr>,
       2 := Some \<lparr>le_next = 0, le_prev = 1, le_data = 8, le_dealloc = DELETE_OBJ\<rparr>))
     ((\<lambda>_. None)(7 := Some (mk_atl 50 3 False), 8 := Some (mk_atl 50 4 False)))"

lemma mk_atl_ok [simp]: "0 \<le> i \<Longrightarrow> i < 100 \<Longrightarrow> wf_sub m (mk_atl m i b)"
  by (simp add: wf_sub_def mk_atl_def no_sub_def uwrap_def INADDR_NONE_def)

lemma sub_eq_atl [simp]: "sub_eq (mk_atl m i b) (mk_atl n j c) \<longleftrightarrow> uwrap 32 i = uwrap 32 j"
  by (simp add: sub_eq_def mk_atl_def no_sub_def)

lemma atl_not_waiting [simp]: "\<not> waitForCloseComplete (mk_atl m i b)" "\<not> isInactive (mk_atl m i b)"
  by (simp_all add: waitForCloseComplete_def isInactive_def mk_atl_def no_sub_def)

lemma atl_active [simp]: "(mk_atl m i b)\<lparr>mIsInactive := False\<rparr> = mk_atl m i b"
  by (simp add: mk_atl_def no_sub_def)

lemma ex_none_machine: "machine 50 False (ex_none msg) (Released, [])"
  by (auto simp: machine_def subs_at_def rep_def items_def ex_none_def ex_agps_def ex_sm_def good_sm_def)

lemma ex_none_mem: "mem_ok (ex_none msg)"
  by (simp add: mem_ok_def ex_none_def ex_agps_def ex_os_def answer_def LOCAL_def Let_def nat_add_distrib)

lemma ex_two_mem: "mem_ok ex_two"
  by (simp add: mem_ok_def ex_two_def ex_agps_def ex_os_def answer_def LOCAL_def Let_def nat_add_distrib)

lemma ex_two_machine: "machine 50 False ex_two (Acquired, [mk_atl 50 3 False, mk_atl 50 4 False])"
proof -
  have "subs_at 50 ex_two 100 [1, 2] [7, 8] [mk_atl 50 3 False, mk_atl 50 4 False]"
    by (simp add: subs_at_def rep_def items_def item_def ex_two_def ex_agps_def LOCAL_def)
  then show ?thesis
    by (force simp: machine_def ex_two_def ex_agps_def ex_sm_def good_sm_def)
qed

section \<open>Properties\<close>

text \<open>C4: over any sequence of requests, releases and answers of the framework, a resource state machine keeps the list of
  subscribers, takes the state and makes the requests of the abstract machine, as long as none of them deletes a subscriber
  that it goes on to use.\<close>

theorem agps_refines:
  assumes "machine m single s c" "ops_ok m single ps s c"
  shows "machine m single (ops_run m ps s) (fst (ops_spec single ps c)) \<and> did (snd (ops_spec single ps c)) s (ops_run m ps s)"
  by (rule ops_refine [OF assms])

theorem agps_refines_witness:
  "let ps = [Subscribe (mk_atl 50 3 False), Event RSRC_GRANTED, Unsubscribe (mk_atl 50 3 False)]; s = ops_run 50 ps (ex_none [])
   in machine 50 False s (Released, []) \<and> acts (tr s) = [GPS_RELEASE_AGPS_DATA_CONN, GPS_REQUEST_AGPS_DATA_CONN]"
proof -
  let ?ps = "[Subscribe (mk_atl 50 3 False), Event RSRC_GRANTED, Unsubscribe (mk_atl 50 3 False)]"
  have ok: "ops_ok 50 False ?ps (ex_none []) (Released, [])"
    using ex_none_mem by (simp add: dangles_def spec_subscribe_def spec_event_def add_sub_def)
  have spec: "ops_spec False ?ps (Released, []) = ((Released, []), [GPS_RELEASE_AGPS_DATA_CONN, GPS_REQUEST_AGPS_DATA_CONN])"
    by (simp add: spec_subscribe_def spec_event_def spec_unsubscribe_def spec_leave_def leave_def drop_nth_def add_sub_def
        requests_def active_def agps_consts)
  have "acts (tr (ex_none [])) = []" by (simp add: ex_none_def ex_agps_def)
  with agps_refines [OF ex_none_machine ok] spec show ?thesis by (simp add: did_def Let_def)
qed

text \<open>C7: from a new AGPS machine on, over any sequence of requests, releases and answers in which no operation deletes a subscriber
  that it goes on to use (the case of C10 is excluded, as in C4), a machine that is released has no subscriber, one that has
  asked for the interface or has it has an active subscriber, one that is releasing has one that waits, no two of its
  subscribers are the same, and a machine for a single one has at most one.\<close>

theorem agps_inv:
  assumes "machine m single s (Released, [])" "ops_ok m single ps s (Released, [])"
  shows "\<exists>c. machine m single (ops_run m ps s) c \<and> spec_inv single c"
  using ops_refine [OF assms] ops_spec_inv [OF spec_inv_new, of single ps] by blast

theorem agps_inv_witness:
  "\<exists>c. machine 50 False (ops_run 50 [Subscribe (mk_atl 50 3 False), Event RSRC_DENIED] (ex_none [])) c \<and> spec_inv False c"
  using agps_inv [OF ex_none_machine, of "[Subscribe (mk_atl 50 3 False), Event RSRC_DENIED]" "[]"] ex_none_mem
  by (simp add: dangles_def)

text \<open>C11: in an operation that does not go on to use a subscriber it has deleted (the case of C10 is excluded), an AGPS machine (not
  the one of the data services, which retries its calls) in a state that satisfies the invariant of C7 requests exactly what
  changes its hold: it asks for the interface when it comes to wait for it or have it, and gives it back when its last active
  subscriber leaves while it does; it asks for nothing twice.\<close>

theorem agps_requests:
  assumes "machine m single s (st, xs)" "spec_inv single (st, xs)" "op_ok m p" "\<And>x. p = Subscribe x \<Longrightarrow> mem_ok s"
    "\<not> dangles p (st, xs)" "run_state (op_run m p) s = (u, s')"
  shows "\<exists>st' xs'. machine m single s' (st', xs') \<and> acts (tr s') =
    (if asked_for st' \<and> \<not> asked_for st then [GPS_REQUEST_AGPS_DATA_CONN]
     else if is_leave p \<and> asked_for st \<and> \<not> asked_for st' then [GPS_RELEASE_AGPS_DATA_CONN] else []) @ acts (tr s)"
proof -
  note r = op_refines [OF assms(1,3,4,5,6)]
  obtain st' xs' where c: "fst (spec_op single p (st, xs)) = (st', xs')" by (metis surj_pair)
  show ?thesis
    using r c requests_match [OF assms(2), of p] by (intro exI [of _ st'] exI [of _ xs']) (simp add: did_def)
qed

theorem agps_requests_witness:
  "\<exists>st' xs'. machine 50 False (snd (run_state (op_run 50 (Subscribe (mk_atl 50 3 False))) (ex_none []))) (st', xs') \<and>
     acts (tr (snd (run_state (op_run 50 (Subscribe (mk_atl 50 3 False))) (ex_none [])))) =
       (if asked_for st' then [GPS_REQUEST_AGPS_DATA_CONN] else [])"
proof -
  let ?p = "Subscribe (mk_atl 50 3 False)"
  obtain u s' where r: "run_state (op_run 50 ?p) (ex_none []) = (u, s')" by (metis surj_pair)
  have "op_ok 50 ?p" "\<not> dangles ?p (Released, [])" by (simp_all add: dangles_def)
  moreover have "acts (tr (ex_none [])) = []" by (simp add: ex_none_def ex_agps_def)
  ultimately show ?thesis
    using agps_requests [OF ex_none_machine spec_inv_new _ ex_none_mem _ r] r
    by (auto simp: asked_for_def simp del: op_run.simps split: if_splits)
qed

text \<open>C10: when a BIT or ATL subscriber leaves a machine that has asked for or has the interface while there are others,
  \<open>notifySubscribers\<close> deletes it and goes on to compare the others with it: the deleted object is read.\<close>

theorem agps_use_after_free:
  assumes "machine m single s c" "op_ok m p" "dangles p c"
  shows "ub (snd (run_state (op_run m p) s))"
  by (rule op_dangles [OF assms])

theorem agps_use_after_free_witness:
  "\<not> ub ex_two \<and> ub (snd (run_state (op_run 50 (Unsubscribe (mk_atl 50 3 False))) ex_two))"
proof
  show "\<not> ub ex_two" by (simp add: ex_two_def ex_agps_def)
  have "op_ok 50 (Unsubscribe (mk_atl 50 3 False))"
    "dangles (Unsubscribe (mk_atl 50 3 False)) (Acquired, [mk_atl 50 3 False, mk_atl 50 4 False])"
    by (simp_all add: dangles_def)
  from agps_use_after_free [OF ex_two_machine this] show "ub (snd (run_state (op_run 50 (Unsubscribe (mk_atl 50 3 False))) ex_two))" .
qed

text \<open>C9: a request or release for WIFI that a client writes to the server's pipe takes effect on the WIFI machine: the server
  decodes it into the message for the task whose turn is the operation of the machine with the client's data.\<close>

theorem request_takes_effect:
  assumes "machine m single s c" "wifi_nif s = m" "m \<noteq> 0" "task_q s = []" "mem_ok s" "loc_api_handle s \<noteq> 0"
    "CHR 0x00 \<notin> set ssid" "length ssid < SSID_BUF_SIZE" "CHR 0x00 \<notin> set password" "length password < SSID_BUF_SIZE"
    "sender = ID_QUIPC \<or> sender = ID_MSAPM \<or> sender = ID_MSAPU" "if_type t = Some ty"
    "pipe_gives s (proc_trace s) (loc_api_server_msgqid s) (wifi_ctrl_msg r t sender ssid password)"
    "p = wifi_op r (mk_wifi m (Some ssid) (Some password) sender)" "\<not> dangles p c"
    "run_state (do { _ \<leftarrow> loc_api_server_proc; task_turn other }) s = (u, s')"
  shows "machine m single s' (fst (spec_op single p c)) \<and> did (snd (spec_op single p c)) s s'"
  by (rule request_to_machine [OF assms(1-5,7-12,6,13-16)])

definition ex_ctrl :: string where
  "ex_ctrl = wifi_ctrl_msg True 1 ID_QUIPC ''net'' ''key''"

theorem request_takes_effect_witness:
  "machine 50 False (snd (run_state (do { _ \<leftarrow> loc_api_server_proc; task_turn (\<lambda>_. ret ()) }) (ex_none ex_ctrl)))
     (Pending, [mk_wifi 50 (Some ''net'') (Some ''key'') ID_QUIPC])"
proof -
  let ?x = "mk_wifi 50 (Some ''net'') (Some ''key'') ID_QUIPC"
  obtain u s' where run: "run_state (do { _ \<leftarrow> loc_api_server_proc; task_turn (\<lambda>_. ret ()) }) (ex_none ex_ctrl) = (u, s')" by (metis surj_pair)
  have len: "length ex_ctrl = 112" by (simp add: ex_ctrl_def length_wifi_ctrl_msg dmn_consts)
  have pipe: "pipe_gives (ex_none ex_ctrl) (proc_trace (ex_none ex_ctrl)) (loc_api_server_msgqid (ex_none ex_ctrl))
      (wifi_ctrl_msg True 1 ID_QUIPC ''net'' ''key'')"
    using len by (simp add: pipe_gives_def ex_none_def ex_agps_def ex_os_def answer_def flip: ex_ctrl_def)
  have "wifi_nif (ex_none ex_ctrl) = 50" "task_q (ex_none ex_ctrl) = []" "loc_api_handle (ex_none ex_ctrl) \<noteq> 0"
    by (simp_all add: ex_none_def ex_agps_def)
  from request_takes_effect [OF ex_none_machine this(1) _ this(2) ex_none_mem this(3) _ _ _ _ _ _ pipe refl _ run, of AGPS_TYPE_WIFI]
  have "machine 50 False s' (fst (spec_op False (Subscribe ?x) (Released, [])))"
    by (simp add: SSID_BUF_SIZE_def if_type_def dangles_def wifi_op_def)
  with run show ?thesis by (simp add: spec_subscribe_def add_sub_def mk_wifi_def no_sub_def)
qed

text \<open>When the engine restarts, \<open>dropAllSubscribers\<close> deletes the subscribers of a machine but leaves its state and gives nothing
  back: a machine that has asked for the interface or has it is left without subscribers, and the next one makes no request.\<close>

theorem restart_keeps_state:
  assumes m: "machine m False s (st, xs)" and st: "asked_for st" and drop: "run_state (dropAllSubscribers m) s = (u, s1)"
    and x: "wf_sub m x" and mem: "mem_ok s1" and sub: "run_state (op_run m (Subscribe x)) s1 = (v, s2)"
  shows "machine m False s1 (st, []) \<and> \<not> spec_inv False (st, []) \<and> machine m False s2 (st, [x\<lparr>mIsInactive := False\<rparr>]) \<and>
    acts (tr s2) = acts (tr s)"
proof -
  note d = drop_run [OF m drop]
  have "machine m False s2 (fst (spec_op False (Subscribe x) (st, []))) \<and> did (snd (spec_op False (Subscribe x) (st, []))) s1 s2"
    by (rule op_refines [OF conjunct1 [OF d] _ mem _ sub]) (simp_all add: x dangles_def)
  then show ?thesis
    using d st by (auto simp: asked_for_def spec_inv_unfold active_def spec_subscribe_def add_sub_def did_def)
qed

theorem restart_keeps_state_witness:
  "machine 50 False (snd (run_state (dropAllSubscribers 50) ex_two)) (Acquired, []) \<and>
   machine 50 False (snd (run_state (op_run 50 (Subscribe (mk_atl 50 3 False))) (snd (run_state (dropAllSubscribers 50) ex_two))))
     (Acquired, [mk_atl 50 3 False])"
proof -
  obtain u s1 where d: "run_state (dropAllSubscribers 50) ex_two = (u, s1)" by (metis surj_pair)
  obtain v s2 where x: "run_state (op_run 50 (Subscribe (mk_atl 50 3 False))) s1 = (v, s2)" by (metis surj_pair)
  have mem: "mem_ok s1" using drop_run [OF ex_two_machine d] ex_two_mem by blast
  show ?thesis
    using restart_keeps_state [OF ex_two_machine _ d _ mem x] d x by (simp add: asked_for_def)
qed

end
