(* ===== verification/Event_Queue.thy ===== *)
theory Event_Queue
  imports World
begin

text \<open>
  \<open>sensors/SensorEventQueue.cpp\<close>: a ring buffer whose writer fills a region of it without a lock. The capacity and the
  indices are never negative; the length asked for is an \<open>int\<close>.
\<close>

record 'e event_queue =
  mCapacity :: nat
  mStart :: nat
  mSize :: nat
  mData :: "'e list"

text \<open>The constructor; \<open>junk\<close> is what the new array holds.\<close>

definition new_queue :: "nat \<Rightarrow> 'e list \<Rightarrow> 'e event_queue" where
  "new_queue capacity junk = \<lparr>mCapacity = capacity, mStart = 0, mSize = 0, mData = take capacity junk\<rparr>"

text \<open>The index and the length of the region, \<open>None\<close> for \<open>NULL\<close>.\<close>

definition getWritableRegion :: "int \<Rightarrow> 'e event_queue \<Rightarrow> nat option \<times> nat" where
  "getWritableRegion requestedLength q =
     (if mSize q = mCapacity q \<or> requestedLength \<le> 0 then (None, 0)
      else
        let firstWritable = (mStart q + mSize q) mod mCapacity q;
            lastWritable = firstWritable + nat requestedLength - 1;
            lastWritable = (if mCapacity q - 1 < lastWritable then mCapacity q - 1 else lastWritable);
            lastWritable = (if firstWritable < mStart q \<and> mStart q \<le> lastWritable then mStart q - 1 else lastWritable)
        in (Some firstWritable, lastWritable - firstWritable + 1))"

definition markAsWritten :: "nat \<Rightarrow> 'e event_queue \<Rightarrow> 'e event_queue" where
  "markAsWritten count q = q\<lparr>mSize := mSize q + count\<rparr>"

definition getSize :: "'e event_queue \<Rightarrow> nat" where
  "getSize q = mSize q"

definition peek :: "'e event_queue \<Rightarrow> 'e option" where
  "peek q = (if mSize q = 0 then None else Some (mData q ! mStart q))"

text \<open>The queue afterwards, and whether \<open>mSpaceAvailableCondition\<close> is broadcast.\<close>

definition dequeue :: "'e event_queue \<Rightarrow> 'e event_queue \<times> bool" where
  "dequeue q =
     (if mSize q = 0 then (q, False)
      else (q\<lparr>mSize := mSize q - 1, mStart := (mStart q + 1) mod mCapacity q\<rparr>, mSize q = mCapacity q))"

text \<open>\<open>waitForSpace\<close> waits while this holds.\<close>

definition must_wait :: "'e event_queue \<Rightarrow> bool" where
  "must_wait q \<longleftrightarrow> mSize q = mCapacity q"

text \<open>What the writer's \<open>poll\<close> puts into the buffer from index \<open>k\<close> on.\<close>

definition fill :: "nat \<Rightarrow> 'e list \<Rightarrow> 'e event_queue \<Rightarrow> 'e event_queue" where
  "fill k es q = q\<lparr>mData := take k (mData q) @ es @ drop (k + length es) (mData q)\<rparr>"

section \<open>What a queue holds\<close>

definition queue_ok :: "'e event_queue \<Rightarrow> bool" where
  "queue_ok q \<longleftrightarrow> 0 < mCapacity q \<and> length (mData q) = mCapacity q \<and> mStart q < mCapacity q \<and> mSize q \<le> mCapacity q"

text \<open>The \<open>n\<close> records from the start on; those that may be read are the first \<open>mSize\<close>.\<close>

definition slot :: "'e event_queue \<Rightarrow> nat \<Rightarrow> 'e" where
  "slot q i = mData q ! ((mStart q + i) mod mCapacity q)"

definition records :: "nat \<Rightarrow> 'e event_queue \<Rightarrow> 'e list" where
  "records n q = map (slot q) [0..<n]"

definition contents :: "'e event_queue \<Rightarrow> 'e list" where
  "contents q = records (mSize q) q"

lemma length_records [simp]: "length (records n q) = n"
  by (simp add: records_def)

lemma nth_records: "i < n \<Longrightarrow> records n q ! i = slot q i"
  by (simp add: records_def)

lemma records_append: "records (m + n) q = records m q @ map (\<lambda>i. slot q (m + i)) [0..<n]"
  by (intro nth_equalityI) (auto simp: nth_append nth_records)

lemma new_queue_ok: "0 < n \<Longrightarrow> n \<le> length junk \<Longrightarrow> queue_ok (new_queue n junk) \<and> contents (new_queue n junk) = []"
  by (simp add: queue_ok_def new_queue_def contents_def records_def)

lemma peek_contents: "queue_ok q \<Longrightarrow> peek q = (case contents q of [] \<Rightarrow> None | e # _ \<Rightarrow> Some e)"
  by (cases "mSize q") (auto simp: peek_def contents_def records_def queue_ok_def slot_def upt_conv_Cons simp del: upt_Suc)

lemma slot_dequeue:
  assumes "queue_ok q" "mSize q \<noteq> 0"
  shows "slot (fst (dequeue q)) i = slot q (Suc i)"
  using assms by (simp add: dequeue_def slot_def mod_simps)

lemma dequeue_records:
  assumes "queue_ok q" "mSize q \<noteq> 0"
  shows "queue_ok (fst (dequeue q))" "records n (fst (dequeue q)) = tl (records (Suc n) q)" "mSize (fst (dequeue q)) = mSize q - 1"
    "mCapacity (fst (dequeue q)) = mCapacity q" "mData (fst (dequeue q)) = mData q"
proof -
  show "records n (fst (dequeue q)) = tl (records (Suc n) q)"
    using slot_dequeue [OF assms] by (intro nth_equalityI) (simp_all add: records_def nth_tl del: upt_Suc)
qed (use assms in \<open>auto simp: dequeue_def queue_ok_def\<close>)

lemma dequeue_contents:
  assumes "queue_ok q" "contents q = e # es"
  shows "contents (fst (dequeue q)) = es" "queue_ok (fst (dequeue q))"
proof -
  have "mSize q \<noteq> 0" using assms(2) by (cases "mSize q") (simp_all add: contents_def records_def)
  note d = dequeue_records [OF assms(1) this]
  show "contents (fst (dequeue q)) = es"
    using d(2) [of "mSize q - 1"] d(3) assms(2) \<open>mSize q \<noteq> 0\<close> by (simp add: contents_def)
  show "queue_ok (fst (dequeue q))" by (rule d(1))
qed

section \<open>The region\<close>

text \<open>The region starts after the readable records, goes round only as far as the array, and stops before the start.\<close>

lemma region_fits:
  assumes ok: "queue_ok q" and r: "getWritableRegion r q = (Some k, n)"
  shows "0 < n" "mSize q + n \<le> mCapacity q" "k + n \<le> mCapacity q" "\<And>i. i < n \<Longrightarrow> (mStart q + (mSize q + i)) mod mCapacity q = k + i"
proof -
  have c: "mSize q < mCapacity q" "0 < r" using ok r by (auto simp: queue_ok_def getWritableRegion_def split: if_splits)
  have k: "k = (mStart q + mSize q) mod mCapacity q" using r c by (simp add: getWritableRegion_def Let_def)
  have kc: "k < mCapacity q" using ok by (simp add: k queue_ok_def)
  have round: "k = mStart q + mSize q \<and> mStart q + mSize q < mCapacity q \<or>
      k + mCapacity q = mStart q + mSize q \<and> k < mStart q"
    using ok c k by (cases "mStart q + mSize q < mCapacity q") (auto simp: queue_ok_def mod_if)
  define l where "l = (if mCapacity q - 1 < k + nat r - 1 then mCapacity q - 1 else k + nat r - 1)"
  have n: "n = (if k < mStart q \<and> mStart q \<le> l then mStart q - 1 else l) - k + 1"
    using r c unfolding getWritableRegion_def Let_def k [symmetric] l_def [symmetric] by simp
  have l: "k \<le> l" "l < mCapacity q" using c kc by (auto simp: l_def)
  show "0 < n" using n by simp
  have le: "k + n \<le> Suc l" "k < mStart q \<Longrightarrow> k + n \<le> mStart q" using n l by auto
  then show "k + n \<le> mCapacity q" using l by linarith
  show "mSize q + n \<le> mCapacity q" using round le l by auto
  show "(mStart q + (mSize q + i)) mod mCapacity q = k + i" if "i < n" for i
  proof -
    have b: "k + i < mCapacity q" using that le l by linarith
    from round show ?thesis
    proof
      assume "k = mStart q + mSize q \<and> mStart q + mSize q < mCapacity q"
      then show ?thesis using b by (simp add: add.assoc [symmetric])
    next
      assume "k + mCapacity q = mStart q + mSize q \<and> k < mStart q"
      then have "mStart q + (mSize q + i) = (k + i) + mCapacity q" by linarith
      then show ?thesis using b by (metis mod_add_self2 mod_less)
    qed
  qed
qed

lemma fill_ok: "queue_ok q \<Longrightarrow> k + length es \<le> mCapacity q \<Longrightarrow> queue_ok (fill k es q)"
  by (simp add: queue_ok_def fill_def)

lemma fill_fields [simp]: "mSize (fill k es q) = mSize q" "mStart (fill k es q) = mStart q" "mCapacity (fill k es q) = mCapacity q"
  by (simp_all add: fill_def)

lemma nth_fill:
  assumes "k + length es \<le> length xs" "j < length xs"
  shows "(take k xs @ es @ drop (k + length es) xs) ! j = (if k \<le> j \<and> j < k + length es then es ! (j - k) else xs ! j)"
  using assms by (auto simp: nth_append)

end
