(* ===== verification/Multihal.thy ===== *)
theory Multihal
  imports Event_Queue C_Strings
begin

text \<open>
  \<open>sensors/multihal.cpp\<close>: one sensor device in front of several sensor libraries. Their functions are events answered by
  \<open>env\<close>; a library (\<open>hw_module_t\<close>) and its device are addresses. A thread for each device writes what the device's \<open>poll\<close>
  gives into a queue, and \<open>poll\<close> of the front device reads the queues in turn.
\<close>

record sensor =
  s_handle :: int
  s_type :: int
  s_flags :: int
  s_minDelay :: int
  s_maxDelay :: int
  s_rest :: int

text \<open>\<open>meta_data.sensor\<close> is the second word of the data; the rest of the event is a number.\<close>

record sensor_event =
  ev_sensor :: int
  ev_type :: int
  ev_meta_sensor :: int
  ev_rest :: int

record mh_st = world +
  sub_hw_modules :: "nat list option"
  sub_hw_versions :: "(nat \<Rightarrow> int option) option"
  global_to_full :: "int \<Rightarrow> (int \<times> int) option"
  full_to_global :: "int \<times> int \<Rightarrow> int option"
  next_global_handle :: int
  global_sensors_list :: "sensor list option"
  global_sensors_count :: int
  sub_hw_devices :: "(nat \<times> int) list"
  queues :: "sensor_event event_queue list"
  nextReadIndex :: nat
  waiting_for_data :: bool

text \<open>Numbers of the Android headers.\<close>

definition SENSOR_TYPE_META_DATA :: int where "SENSOR_TYPE_META_DATA = 0"
definition SENSOR_TYPE_PROXIMITY :: int where "SENSOR_TYPE_PROXIMITY = 8"
definition SENSOR_TYPE_TILT_DETECTOR :: int where "SENSOR_TYPE_TILT_DETECTOR = 22"
definition SENSOR_FLAG_WAKE_UP :: int where "SENSOR_FLAG_WAKE_UP = 1"
definition SENSOR_FLAG_ON_CHANGE_MODE :: int where "SENSOR_FLAG_ON_CHANGE_MODE = 2"
definition SENSORS_DEVICE_API_VERSION_1_1 :: int where "SENSORS_DEVICE_API_VERSION_1_1 = 0x01010001"
definition SENSORS_DEVICE_API_VERSION_1_3 :: int where "SENSORS_DEVICE_API_VERSION_1_3 = 0x01030001"
definition SENSORS_DEVICE_API_VERSION_1_4 :: int where "SENSORS_DEVICE_API_VERSION_1_4 = 0x01040001"

definition SENSOR_EVENT_QUEUE_CAPACITY :: nat where "SENSOR_EVENT_QUEUE_CAPACITY = 36"

definition MULTI_HAL_CONFIG_FILE_PATH :: string where "MULTI_HAL_CONFIG_FILE_PATH = ''/vendor/etc/sensors/_hals.conf''"
definition DEPRECATED_MULTI_HAL_CONFIG_FILE_PATH :: string where
  "DEPRECATED_MULTI_HAL_CONFIG_FILE_PATH = ''/system/etc/sensors/_hals.conf''"

text \<open>Lists of records in a reply.\<close>

fun sensors_of :: "int list \<Rightarrow> sensor list" where
  "sensors_of (h # t # f # mi # ma # r # xs) =
     \<lparr>s_handle = h, s_type = t, s_flags = f, s_minDelay = mi, s_maxDelay = ma, s_rest = r\<rparr> # sensors_of xs"
| "sensors_of _ = []"

fun events_of :: "int list \<Rightarrow> sensor_event list" where
  "events_of (h # t # m # r # xs) = \<lparr>ev_sensor = h, ev_type = t, ev_meta_sensor = m, ev_rest = r\<rparr> # events_of xs"
| "events_of _ = []"

section \<open>Handles\<close>

definition assign_global_handle :: "int \<Rightarrow> int \<Rightarrow> ('a mh_st_scheme, int) state" where
  "assign_global_handle module_index local_handle = do {
     s \<leftarrow> gets id;
     let global_handle = next_global_handle s;
     let full_handle = (module_index, local_handle);
     modify (\<lambda>s. s\<lparr>next_global_handle := global_handle + 1, full_to_global := (full_to_global s)(full_handle \<mapsto> global_handle),
       global_to_full := (global_to_full s)(global_handle \<mapsto> full_handle)\<rparr>);
     ret global_handle
   }"

definition get_local_handle :: "int \<Rightarrow> ('a mh_st_scheme, int) state" where
  "get_local_handle global_handle = gets (\<lambda>s. case global_to_full s global_handle of None \<Rightarrow> - 1 | Some f \<Rightarrow> snd f)"

definition get_module_index :: "int \<Rightarrow> ('a mh_st_scheme, int) state" where
  "get_module_index global_handle = gets (\<lambda>s. case global_to_full s global_handle of None \<Rightarrow> - 1 | Some f \<Rightarrow> fst f)"

definition get_global_handle :: "(int \<times> int \<Rightarrow> int option) \<Rightarrow> int \<times> int \<Rightarrow> int" where
  "get_global_handle m full_handle = (case m full_handle of None \<Rightarrow> - 1 | Some g \<Rightarrow> g)"

text \<open>The device of a handle, \<open>None\<close> for \<open>NULL\<close>; the two functions of the code differ in the type of the pointer.\<close>

definition get_v0_device_by_handle :: "int \<Rightarrow> ('a mh_st_scheme, (nat \<times> int) option) state" where
  "get_v0_device_by_handle global_handle = do {
     sub_index \<leftarrow> get_module_index global_handle;
     ds \<leftarrow> gets sub_hw_devices;
     ret (if sub_index < 0 \<or> int (length ds) \<le> sub_index then None else Some (ds ! nat sub_index))
   }"

definition get_v1_device_by_handle :: "int \<Rightarrow> ('a mh_st_scheme, (nat \<times> int) option) state" where
  "get_v1_device_by_handle global_handle = get_v0_device_by_handle global_handle"

definition get_device_version_by_handle :: "int \<Rightarrow> ('a mh_st_scheme, int) state" where
  "get_device_version_by_handle handle = do {
     v0 \<leftarrow> get_v0_device_by_handle handle;
     ret (case v0 of None \<Rightarrow> - 1 | Some d \<Rightarrow> snd d)
   }"

definition halIsAPILevelCompliant :: "int \<Rightarrow> int \<Rightarrow> ('a mh_st_scheme, bool) state" where
  "halIsAPILevelCompliant handle level = do {
     version \<leftarrow> get_device_version_by_handle handle;
     ret (version \<noteq> - 1 \<and> level \<le> version)
   }"

section \<open>The functions of the device\<close>

text \<open>A function of a device with a local handle; the first argument is the device.\<close>

definition sub_call :: "string \<Rightarrow> nat \<Rightarrow> int list \<Rightarrow> ('a world_scheme, int) state" where
  "sub_call f d xs = do { r \<leftarrow> call (E_hook f (int d # xs)); ret (rv r) }"

definition activate :: "int \<Rightarrow> int \<Rightarrow> ('a mh_st_scheme, int) state" where
  "activate handle enabled = do {
     local_handle \<leftarrow> get_local_handle handle;
     v0 \<leftarrow> get_v0_device_by_handle handle;
     (case v0 of
        Some d \<Rightarrow> (if 0 \<le> local_handle then sub_call ''activate'' (fst d) [local_handle, enabled] else ret (- EINVAL))
      | None \<Rightarrow> ret (- EINVAL))
   }"

definition setDelay :: "int \<Rightarrow> int \<Rightarrow> ('a mh_st_scheme, int) state" where
  "setDelay handle ns = do {
     local_handle \<leftarrow> get_local_handle handle;
     v0 \<leftarrow> get_v0_device_by_handle handle;
     (case v0 of
        Some d \<Rightarrow> (if 0 \<le> local_handle then sub_call ''setDelay'' (fst d) [local_handle, ns] else ret (- EINVAL))
      | None \<Rightarrow> ret (- EINVAL))
   }"

text \<open>The delays in nanoseconds of the first sensor in the list with the handle, 0 if there is none.\<close>

definition delays_ns :: "sensor list \<Rightarrow> int \<Rightarrow> int \<times> int" where
  "delays_ns l handle = (case find (\<lambda>x. s_handle x = handle) l of None \<Rightarrow> (0, 0)
     | Some x \<Rightarrow> (s_minDelay x * 1000, s_maxDelay x * 1000))"

definition clamp_period :: "int \<times> int \<Rightarrow> int \<Rightarrow> int" where
  "clamp_period d period_ns = (case d of (minDelay_ns, maxDelay_ns) \<Rightarrow>
     if 0 < minDelay_ns \<and> period_ns < minDelay_ns then minDelay_ns
     else if 0 < maxDelay_ns \<and> maxDelay_ns < period_ns then maxDelay_ns else period_ns)"

definition batch :: "int \<Rightarrow> int \<Rightarrow> int \<Rightarrow> int \<Rightarrow> ('a mh_st_scheme, int) state" where
  "batch handle flags period_ns timeout = do {
     local_handle \<leftarrow> get_local_handle handle;
     v1 \<leftarrow> get_v1_device_by_handle handle;
     (case v1 of
        None \<Rightarrow> ret (- EINVAL)
      | Some d \<Rightarrow>
          if \<not> 0 \<le> local_handle then ret (- EINVAL)
          else do {
            ok \<leftarrow> halIsAPILevelCompliant handle SENSORS_DEVICE_API_VERSION_1_1;
            if ok then sub_call ''batch'' (fst d) [local_handle, flags, period_ns, timeout]
            else if period_ns < 0 \<or> timeout < 0 then ret (- EINVAL)
            else do {
              s \<leftarrow> gets id;
              let l = (case global_sensors_list s of None \<Rightarrow> [] | Some l \<Rightarrow> l);
              must (global_sensors_count s \<le> int (length l));
              sub_call ''setDelay'' (fst d)
                [local_handle, clamp_period (delays_ns (take (nat (global_sensors_count s)) l) handle) period_ns]
            }
          })
   }"

definition flush :: "int \<Rightarrow> ('a mh_st_scheme, int) state" where
  "flush handle = do {
     local_handle \<leftarrow> get_local_handle handle;
     v1 \<leftarrow> get_v1_device_by_handle handle;
     (case v1 of
        None \<Rightarrow> ret (- EINVAL)
      | Some d \<Rightarrow>
          if \<not> 0 \<le> local_handle then ret (- EINVAL)
          else do {
            ok \<leftarrow> halIsAPILevelCompliant handle SENSORS_DEVICE_API_VERSION_1_1;
            if ok then sub_call ''flush'' (fst d) [local_handle] else ret (- EINVAL)
          })
   }"

text \<open>The event is passed on with the global handle in it, and the front device, 0 here, as the device.\<close>

definition inject_sensor_data :: "sensor_event \<Rightarrow> ('a mh_st_scheme, int) state" where
  "inject_sensor_data ev = do {
     local_handle \<leftarrow> get_local_handle (ev_sensor ev);
     v1 \<leftarrow> get_v1_device_by_handle (ev_sensor ev);
     ok \<leftarrow> halIsAPILevelCompliant (ev_sensor ev) SENSORS_DEVICE_API_VERSION_1_4;
     (case v1 of
        Some d \<Rightarrow> (if ok \<and> 0 \<le> local_handle
          then sub_call ''inject_sensor_data'' (fst d) [0, ev_sensor ev, ev_type ev, ev_meta_sensor ev, ev_rest ev]
          else ret (- EINVAL))
      | None \<Rightarrow> ret (- EINVAL))
   }"

text \<open>\<open>close\<close> of the context and the function of the device; \<open>ctx\<close> is \<open>False\<close> for \<open>NULL\<close>. The threads of the writers go on.\<close>

definition mh_close :: "('a mh_st_scheme, int) state" where
  "mh_close = do { ds \<leftarrow> gets sub_hw_devices; for_each ds (\<lambda>d. do { _ \<leftarrow> sub_call ''close'' (fst d) []; ret () }); ret 0 }"

definition device__close :: "bool \<Rightarrow> ('a mh_st_scheme, int) state" where
  "device__close ctx =
     (if ctx then do { _ \<leftarrow> mh_close; modify (\<lambda>s. s\<lparr>sub_hw_devices := [], queues := [], nextReadIndex := 0\<rparr>); ret 0 } else ret 0)"

section \<open>The libraries\<close>

text \<open>The lines of a file as \<open>std::getline\<close> gives them.\<close>

fun getlines :: "string \<Rightarrow> string list" where
  "getlines [] = []"
| "getlines (c # cs) = (if c = CHR 0x0A then [] # getlines cs
     else (case getlines cs of [] \<Rightarrow> [[c]] | l # ls \<Rightarrow> (c # l) # ls))"

text \<open>
  \<open>get_so_paths\<close>. The stream that was never opened is in a good state, so that the code goes on and gives \<open>strcmp\<close> a null
  pointer when neither file exists.
\<close>

definition get_so_paths :: "('a world_scheme, string list) state" where
  "get_so_paths = do {
     r \<leftarrow> call (E_open MULTI_HAL_CONFIG_FILE_PATH [O_RDONLY]);
     fd \<leftarrow> (if 0 \<le> rv r then ret (rv r)
       else do { r2 \<leftarrow> call (E_open DEPRECATED_MULTI_HAL_CONFIG_FILE_PATH [O_RDONLY]); ret (rv r2) });
     must (0 \<le> fd);
     if fd < 0 then ret []
     else do {
       r \<leftarrow> call (E_hook ''read_stream'' [fd]);
       emit (E_close fd);
       ret (getlines (rbuf r))
     }
   }"

text \<open>\<open>dlopen\<close> and \<open>dlsym\<close> of one path, and whether there is an error; the module is added to the list.\<close>

definition load_module :: "string \<Rightarrow> ('a mh_st_scheme, unit) state" where
  "load_module path = do {
     lib \<leftarrow> call (E_hook ''dlopen'' (map of_char (cstr path)));
     if rv lib = 0 then emit (E_hook ''dlerror'' [])
     else do {
       emit (E_hook ''dlerror'' []);
       m \<leftarrow> call (E_hook ''dlsym'' [rv lib]);
       err \<leftarrow> call (E_hook ''dlerror'' []);
       (if rv err \<noteq> 0 \<or> rv m = 0 then ret ()
        else modify (\<lambda>s. s\<lparr>sub_hw_modules := map_option (\<lambda>ms. ms @ [nat (rv m)]) (sub_hw_modules s)\<rparr>))
     }
   }"

definition lazy_init_modules :: "('a mh_st_scheme, unit) state" where
  "lazy_init_modules = do {
     emit (E_lock L_init_modules);
     ms \<leftarrow> gets sub_hw_modules;
     if ms \<noteq> None then emit (E_unlock L_init_modules)
     else do {
       so_paths \<leftarrow> get_so_paths;
       modify (\<lambda>s. s\<lparr>sub_hw_modules := Some []\<rparr>);
       emit (E_hook ''dlerror'' []);
       for_each so_paths load_module;
       emit (E_unlock L_init_modules)
     }
   }"

definition fix_sensor_flags :: "int \<Rightarrow> sensor \<Rightarrow> sensor" where
  "fix_sensor_flags version x =
     (if version < SENSORS_DEVICE_API_VERSION_1_3 \<and> (s_type x = SENSOR_TYPE_PROXIMITY \<or> s_type x = SENSOR_TYPE_TILT_DETECTOR)
      then x\<lparr>s_flags := or SENSOR_FLAG_WAKE_UP SENSOR_FLAG_ON_CHANGE_MODE\<rparr> else x)"

text \<open>\<open>get_sensors_list\<close> of a module: the number of sensors and the list.\<close>

definition sub_sensors :: "nat \<Rightarrow> ('a world_scheme, int \<times> sensor list) state" where
  "sub_sensors m = do { r \<leftarrow> call (E_hook ''get_sensors_list'' [int m]); ret (rv r, sensors_of (rnum r)) }"

primrec count_sensors :: "nat list \<Rightarrow> ('a world_scheme, int) state" where
  "count_sensors [] = ret 0"
| "count_sensors (m # ms) = do { (n, _) \<leftarrow> sub_sensors m; k \<leftarrow> count_sensors ms; ret (n + k) }"

text \<open>The sensors of one module with global handles, and those of all modules from index \<open>i\<close> on.\<close>

primrec globalize :: "nat \<Rightarrow> int \<Rightarrow> sensor list \<Rightarrow> ('a mh_st_scheme, sensor list) state" where
  "globalize m i [] = ret []"
| "globalize m i (x # xs) = do {
     global_handle \<leftarrow> assign_global_handle i (s_handle x);
     vs \<leftarrow> gets sub_hw_versions;
     let version = (case vs of None \<Rightarrow> 0 | Some f \<Rightarrow> (case f m of None \<Rightarrow> 0 | Some v \<Rightarrow> v));
     rest \<leftarrow> globalize m i xs;
     ret (fix_sensor_flags version (x\<lparr>s_handle := global_handle\<rparr>) # rest)
   }"

primrec globalize_all :: "int \<Rightarrow> nat list \<Rightarrow> ('a mh_st_scheme, sensor list) state" where
  "globalize_all i [] = ret []"
| "globalize_all i (m # ms) = do {
     (n, xs) \<leftarrow> sub_sensors m;
     must (n \<le> int (length xs));
     ys \<leftarrow> globalize m i (take (nat n) xs);
     zs \<leftarrow> globalize_all (i + 1) ms;
     ret (ys @ zs)
   }"

definition lazy_init_sensors_list :: "('a mh_st_scheme, unit) state" where
  "lazy_init_sensors_list = do {
     emit (E_lock L_init_sensors);
     l \<leftarrow> gets global_sensors_list;
     if l \<noteq> None then emit (E_unlock L_init_sensors)
     else do {
       lazy_init_modules;
       ms \<leftarrow> gets (\<lambda>s. the (sub_hw_modules s));
       n \<leftarrow> count_sensors ms;
       modify (\<lambda>s. s\<lparr>global_sensors_count := n\<rparr>);
       must (0 \<le> n);
       xs \<leftarrow> globalize_all 0 ms;
       must (int (length xs) \<le> n);
       modify (\<lambda>s. s\<lparr>global_sensors_list := Some xs, sub_hw_versions := None\<rparr>);
       emit (E_unlock L_init_sensors)
     }
   }"

definition module__get_sensors_list :: "('a mh_st_scheme, int \<times> sensor list) state" where
  "module__get_sensors_list = do {
     lazy_init_sensors_list;
     s \<leftarrow> gets id;
     ret (global_sensors_count s, the (global_sensors_list s))
   }"

text \<open>The queue of a device starts with what its memory holds, and a thread is started for it.\<close>

definition addSubHwDevice :: "nat \<times> int \<Rightarrow> ('a mh_st_scheme, unit) state" where
  "addSubHwDevice d = do {
     junk \<leftarrow> call (E_hook ''memory'' [int SENSOR_EVENT_QUEUE_CAPACITY]);
     let es = take SENSOR_EVENT_QUEUE_CAPACITY (events_of (rnum junk) @
       replicate SENSOR_EVENT_QUEUE_CAPACITY \<lparr>ev_sensor = 0, ev_type = 0, ev_meta_sensor = 0, ev_rest = 0\<rparr>);
     modify (\<lambda>s. s\<lparr>sub_hw_devices := sub_hw_devices s @ [d], queues := queues s @ [new_queue SENSOR_EVENT_QUEUE_CAPACITY es]\<rparr>);
     emit (E_thread Th_create (fst d))
   }"

definition open_module :: "nat \<Rightarrow> ('a mh_st_scheme, unit) state" where
  "open_module m = do {
     r \<leftarrow> call (E_hook ''open'' [int m]);
     if rv r = 0 then do {
       let d = (nat (num r 0), num r 1);
       addSubHwDevice d;
       modify (\<lambda>s. s\<lparr>sub_hw_versions := map_option (\<lambda>f. if f m = None then f(m \<mapsto> snd d) else f) (sub_hw_versions s)\<rparr>)
     } else ret ()
   }"

definition open_sensors :: "('a mh_st_scheme, int) state" where
  "open_sensors = do {
     lazy_init_modules;
     modify (\<lambda>s. s\<lparr>sub_hw_devices := [], queues := [], nextReadIndex := 0, sub_hw_versions := Some (\<lambda>_. None)\<rparr>);
     ms \<leftarrow> gets (\<lambda>s. the (sub_hw_modules s));
     for_each ms open_module;
     ret 0
   }"

section \<open>The queues\<close>

definition upd_queue :: "nat \<Rightarrow> (sensor_event event_queue \<Rightarrow> sensor_event event_queue) \<Rightarrow> ('a mh_st_scheme, unit) state" where
  "upd_queue i f = modify (\<lambda>s. s\<lparr>queues := (queues s)[i := f (queues s ! i)]\<rparr>)"

text \<open>
  A turn of \<open>writerTask\<close>, in the parts between which others run: entering, up to the blocking \<open>poll\<close> (\<open>None\<close> if the thread
  waits for space; it enters again when it wakes), the \<open>poll\<close> outside the lock, and the marking.
\<close>

definition writer_enter :: "nat \<Rightarrow> ('a mh_st_scheme, (nat \<times> nat) option) state" where
  "writer_enter i = do {
     emit (E_lock L_queue);
     q \<leftarrow> gets (\<lambda>s. queues s ! i);
     if must_wait q then do { emit (E_thread C_wait i); emit (E_unlock L_queue); ret None }
     else do {
       emit (E_unlock L_queue);
       (case getWritableRegion (int SENSOR_EVENT_QUEUE_CAPACITY) q of
          (None, n) \<Rightarrow> do { must False; ret None }
        | (Some k, n) \<Rightarrow> ret (Some (k, n)))
     }
   }"

text \<open>The events polled; a device may not write more than it was asked for. A negative or zero result gives none.\<close>

definition writer_poll :: "nat \<Rightarrow> nat \<Rightarrow> nat \<Rightarrow> ('a mh_st_scheme, sensor_event list) state" where
  "writer_poll i k n = do {
     d \<leftarrow> gets (\<lambda>s. sub_hw_devices s ! i);
     r \<leftarrow> call (E_hook ''poll'' [int (fst d), int n]);
     if rv r \<le> 0 then ret []
     else do {
       let es = take (nat (rv r)) (events_of (rnum r));
       must (length es = nat (rv r) \<and> length es \<le> n);
       upd_queue i (fill k es);
       ret es
     }
   }"

definition writer_mark :: "nat \<Rightarrow> nat \<Rightarrow> ('a mh_st_scheme, unit) state" where
  "writer_mark i eventsPolled = do {
     emit (E_lock L_queue);
     upd_queue i (markAsWritten eventsPolled);
     w \<leftarrow> gets waiting_for_data;
     (if w then emit (E_hook ''broadcast_data_available'' []) else ret ());
     emit (E_unlock L_queue)
   }"

section \<open>Reading\<close>

definition copy_event_remap_handle :: "(int \<times> int \<Rightarrow> int option) \<Rightarrow> sensor_event \<Rightarrow> nat \<Rightarrow> sensor_event" where
  "copy_event_remap_handle m src sub_index =
     (if ev_type src = SENSOR_TYPE_META_DATA
      then src\<lparr>ev_meta_sensor := get_global_handle m (int sub_index, ev_meta_sensor src)\<rparr>
      else src\<lparr>ev_sensor := get_global_handle m (int sub_index, ev_sensor src)\<rparr>)"

lemma sum_list_update_less: "i < length xs \<Longrightarrow> y < (xs ! i :: nat) \<Longrightarrow> sum_list (xs[i := y]) < sum_list xs"
  by (induction xs arbitrary: i) (auto split: nat.splits)

text \<open>
  The inner loop of \<open>poll\<close>: queues, next index, number of empty queues seen in a row, events read, and the queues whose
  writer is woken.
\<close>

function scan :: "(int \<times> int \<Rightarrow> int option) \<Rightarrow> nat \<Rightarrow> sensor_event event_queue list \<Rightarrow> nat \<Rightarrow> nat \<Rightarrow> sensor_event list \<Rightarrow> nat list \<Rightarrow>
    sensor_event event_queue list \<times> nat \<times> sensor_event list \<times> nat list" where
  "scan m maxReads qs next empties out woken =
     (if empties < length qs \<and> length out < maxReads \<and> next < length qs then
        (case peek (qs ! next) of
           None \<Rightarrow> scan m maxReads qs ((next + 1) mod length qs) (empties + 1) out woken
         | Some e \<Rightarrow>
             (let e' = copy_event_remap_handle m e next; (q, b) = dequeue (qs ! next) in
              scan m maxReads (qs[next := q]) ((next + 1) mod length qs) 0 (if ev_sensor e' = - 1 then out else out @ [e'])
                (if b then woken @ [next] else woken)))
      else (qs, next, out, woken))"
  by pat_completeness auto

termination
proof (relation "measures [\<lambda>(m, r, qs, n, e, out, w). sum_list (map mSize qs), \<lambda>(m, r, qs, n, e, out, w). length qs - e]", goal_cases)
  case 1
  then show ?case by simp
next
  case (2 m maxReads qs "next" empties out woken)
  then show ?case by (simp add: diff_less_mono2)
next
  case (3 m maxReads qs "next" empties out woken e e' p q b)
  then have "mSize q < mSize (qs ! next)"
    by (auto simp: peek_def dequeue_def split: if_splits)
  then have "sum_list (map mSize (qs[next := q])) < sum_list (map mSize qs)"
    using 3(1) by (simp add: map_update sum_list_update_less)
  then show ?case by simp
qed

declare scan.simps [simp del]

text \<open>One pass of the outer loop: the events, or none and the thread waits. When it wakes, \<open>poll_wake\<close> and the next pass follow.\<close>

definition poll_pass :: "int \<Rightarrow> ('a mh_st_scheme, sensor_event list) state" where
  "poll_pass maxReads = do {
     s \<leftarrow> gets id;
     must (queues s = [] \<or> nextReadIndex s < length (queues s));
     (case scan (full_to_global s) (nat maxReads) (queues s) (nextReadIndex s) 0 [] [] of
        (qs, k, out, woken) \<Rightarrow> do {
          modify (\<lambda>s. s\<lparr>queues := qs, nextReadIndex := k\<rparr>);
          for_each woken (\<lambda>i. emit (E_thread C_broadcast i));
          (if out = [] then do {
             modify (\<lambda>s. s\<lparr>waiting_for_data := True\<rparr>);
             emit (E_hook ''wait_data_available'' [])
           } else emit (E_unlock L_queue));
          ret out
        })
   }"

definition poll_enter :: "int \<Rightarrow> ('a mh_st_scheme, sensor_event list) state" where
  "poll_enter maxReads = do { emit (E_lock L_queue); poll_pass maxReads }"

definition poll_wake :: "int \<Rightarrow> ('a mh_st_scheme, sensor_event list) state" where
  "poll_wake maxReads = do { modify (\<lambda>s. s\<lparr>waiting_for_data := False\<rparr>); poll_pass maxReads }"

end
