(* ===== verification/Multihal_Inv.thy ===== *)
theory Multihal_Inv
  imports Multihal
begin

text \<open>
  The writers and the reader of the queues interleaved: what each device gave is what was taken from its queue, what is in
  it and what its writer has written but not marked, in order.
\<close>

section \<open>Places in a queue\<close>

definition pos :: "'e event_queue \<Rightarrow> nat \<Rightarrow> nat" where
  "pos q i = (mStart q + i) mod mCapacity q"

lemma slot_pos: "slot q i = mData q ! pos q i"
  by (simp add: slot_def pos_def)

lemma pos_less: "queue_ok q \<Longrightarrow> pos q i < length (mData q)"
  by (simp add: pos_def queue_ok_def)

lemma pos_inj:
  assumes "queue_ok q" "a < mCapacity q" "b < mCapacity q" "pos q a = pos q b"
  shows "a = b"
proof -
  have c: "mStart q < mCapacity q" using assms(1) by (simp add: queue_ok_def)
  have "pos q x = (if mStart q + x < mCapacity q then mStart q + x else mStart q + x - mCapacity q)" if "x < mCapacity q" for x
    using c that by (simp add: pos_def mod_if)
  from this [OF assms(2)] this [OF assms(3)] assms(2-4) c show ?thesis by (auto split: if_splits)
qed

text \<open>\<open>q'\<close> is \<open>q\<close> after the records \<open>es\<close> were taken.\<close>

definition drained :: "'e event_queue \<Rightarrow> 'e list \<Rightarrow> 'e event_queue \<Rightarrow> bool" where
  "drained q es q' \<longleftrightarrow> queue_ok q' \<and> mCapacity q' = mCapacity q \<and> mData q' = mData q \<and> mSize q = length es + mSize q' \<and>
     contents q = es @ contents q' \<and> (\<forall>i. pos q' i = pos q (length es + i))"

lemma drained_refl: "queue_ok q \<Longrightarrow> drained q [] q"
  by (simp add: drained_def)

lemma drained_trans: "drained q es q1 \<Longrightarrow> drained q1 es' q2 \<Longrightarrow> drained q (es @ es') q2"
  by (simp add: drained_def add.assoc)

lemma length_contents [simp]: "length (contents q) = mSize q"
  by (simp add: contents_def)

lemma drained_dequeue:
  assumes ok: "queue_ok q" and p: "peek q = Some e"
  shows "drained q [e] (fst (dequeue q))"
proof -
  have ne: "mSize q \<noteq> 0" using p by (auto simp: peek_def split: if_splits)
  obtain es where es: "contents q = e # es" using peek_contents [OF ok] p by (auto split: list.splits)
  note d = dequeue_records [OF ok ne]
  have "pos (fst (dequeue q)) i = pos q (Suc i)" for i
    using ne d(4) by (simp add: pos_def dequeue_def mod_simps)
  then show ?thesis
    using d dequeue_contents [OF ok es] es ne by (simp add: drained_def)
qed

section \<open>The reader\<close>

text \<open>What was taken, with the queue it came from; what of it is passed on.\<close>

definition passed :: "(int \<times> int \<Rightarrow> int option) \<Rightarrow> (nat \<times> sensor_event) list \<Rightarrow> sensor_event list" where
  "passed m tk = filter (\<lambda>e. ev_sensor e \<noteq> - 1) (map (\<lambda>(i, e). copy_event_remap_handle m e i) tk)"

definition took :: "nat \<Rightarrow> (nat \<times> sensor_event) list \<Rightarrow> sensor_event list" where
  "took i tk = map snd (filter (\<lambda>x. fst x = i) tk)"

lemma took_append [simp]: "took i (a @ b) = took i a @ took i b"
  by (simp add: took_def)

lemma passed_append [simp]: "passed m (a @ b) = passed m a @ passed m b"
  by (simp add: passed_def)

abbreviation (input) scan_goes :: "sensor_event event_queue list \<Rightarrow> nat \<Rightarrow> nat \<Rightarrow> nat \<Rightarrow> sensor_event list \<Rightarrow> bool" where
  "scan_goes qs nxt maxReads empties out \<equiv> empties < length qs \<and> length out < maxReads \<and> nxt < length qs"

lemma scan_stop: "\<not> scan_goes qs nxt maxReads empties out \<Longrightarrow> scan m maxReads qs nxt empties out woken = (qs, nxt, out, woken)"
  by (subst scan.simps) (simp only: if_False)

lemma scan_None: "scan_goes qs nxt maxReads empties out \<Longrightarrow> peek (qs ! nxt) = None \<Longrightarrow>
    scan m maxReads qs nxt empties out woken = scan m maxReads qs ((nxt + 1) mod length qs) (empties + 1) out woken"
  by (subst scan.simps) simp

lemma scan_Some: "scan_goes qs nxt maxReads empties out \<Longrightarrow> peek (qs ! nxt) = Some e \<Longrightarrow> dequeue (qs ! nxt) = (q, b) \<Longrightarrow>
    scan m maxReads qs nxt empties out woken = scan m maxReads (qs[nxt := q]) ((nxt + 1) mod length qs) 0
      (if ev_sensor (copy_event_remap_handle m e nxt) = - 1 then out else out @ [copy_event_remap_handle m e nxt])
      (if b then woken @ [nxt] else woken)"
  by (subst scan.simps) simp

lemma scan_log:
  assumes "\<forall>q \<in> set qs. queue_ok q" "scan m maxReads qs nxt empties out woken = (qs', k, out', woken')"
  shows "\<exists>tk. length qs' = length qs \<and> (nxt < length qs \<longrightarrow> k < length qs) \<and> out' = out @ passed m tk \<and>
    (\<forall>i < length qs. drained (qs ! i) (took i tk) (qs' ! i))"
  using assms
proof (induction m maxReads qs nxt empties out woken arbitrary: qs' k out' woken' rule: scan.induct)
  case (1 m maxReads qs nxt empties out woken)
  show ?case
  proof (cases "empties < length qs \<and> length out < maxReads \<and> nxt < length qs")
    case False
    then have "qs' = qs" "k = nxt" "out' = out" using 1(4) scan_stop [OF False] by simp_all
    then show ?thesis using 1(3) by (intro exI [of _ "[]"]) (auto simp: took_def passed_def drained_refl)
  next
    case True
    then have k: "(nxt + 1) mod length qs < length qs" by (intro mod_less_divisor) linarith
    show ?thesis
    proof (cases "peek (qs ! nxt)")
      case None
      then have "scan m maxReads qs ((nxt + 1) mod length qs) (empties + 1) out woken = (qs', k, out', woken')"
        using 1(4) scan_None [OF True None] by simp
      from 1(1) [OF True None 1(3) this] k show ?thesis by blast
    next
      case (Some e)
      define e' where "e' = copy_event_remap_handle m e nxt"
      obtain q b where d: "dequeue (qs ! nxt) = (q, b)" by (metis surj_pair)
      let ?qs = "qs[nxt := q]"
      have dr: "drained (qs ! nxt) [e] q"
        using drained_dequeue [OF _ Some] 1(3) True d by (metis fst_conv nth_mem)
      then have ok: "\<forall>q \<in> set ?qs. queue_ok q"
        using 1(3) True by (auto simp: drained_def dest!: set_update_subset_insert [THEN subsetD])
      have "scan m maxReads ?qs ((nxt + 1) mod length qs) 0 (if ev_sensor e' = - 1 then out else out @ [e'])
          (if b then woken @ [nxt] else woken) = (qs', k, out', woken')"
        using 1(4) unfolding scan_Some [OF True Some d] e'_def by assumption
      from 1(2) [OF True Some e'_def d [symmetric] refl ok this] obtain tk where
        tk: "length qs' = length qs" "k < length qs" "out' = (if ev_sensor e' = - 1 then out else out @ [e']) @ passed m tk"
          "\<forall>i < length qs. drained (?qs ! i) (took i tk) (qs' ! i)"
        using k by auto
      have "out' = out @ passed m ((nxt, e) # tk)" using tk(3) by (simp add: passed_def e'_def)
      moreover have "drained (qs ! i) (took i ((nxt, e) # tk)) (qs' ! i)" if "i < length qs" for i
        using tk(4) that drained_trans [OF dr, of "took i tk" "qs' ! i"] True
        by (cases "i = nxt") (auto simp: took_def nth_list_update)
      ultimately show ?thesis using tk(1,2) by blast
    qed
  qed
qed

text \<open>A pass that gives nothing although it was asked for something has seen every queue empty.\<close>

lemma scan_all:
  assumes "\<forall>q \<in> set qs. queue_ok q" "scan m maxReads qs nxt empties out woken = (qs', k, out', woken')" "nxt < length qs"
    "length out' < maxReads" "empties \<le> length qs" "\<forall>j < empties. mSize (qs ! ((nxt + (length qs - 1 - j)) mod length qs)) = 0"
  shows "\<forall>q \<in> set qs'. mSize q = 0"
  using assms
proof (induction m maxReads qs nxt empties out woken arbitrary: qs' k out' woken' rule: scan.induct)
  case (1 m maxReads qs nxt empties out woken)
  let ?n = "length qs"
  have n: "0 < ?n" using 1(5) by linarith
  show ?case
  proof (cases "empties < ?n \<and> length out < maxReads")
    case False
    then have "\<not> scan_goes qs nxt maxReads empties out" by blast
    from scan_stop [OF this] have e: "qs' = qs" "out' = out" using 1(4) by simp_all
    then have "empties = ?n" using False 1(6,7) by simp
    have "mSize (qs ! i) = 0" if "i < ?n" for i
    proof -
      define j where "j = (nxt + (?n - 1 - i)) mod ?n"
      have "(nxt + (?n - 1 - j)) mod ?n = i"
      proof (cases "nxt + (?n - 1 - i) < ?n")
        case True
        then have "j = nxt + (?n - 1 - i)" by (simp add: j_def)
        then have "nxt + (?n - 1 - j) = i" using True that by linarith
        then show ?thesis using that by simp
      next
        case False
        then have "j = nxt + (?n - 1 - i) - ?n" using 1(5) that by (simp add: j_def mod_if)
        then have "nxt + (?n - 1 - j) = i + ?n" using False that 1(5) by linarith
        then show ?thesis using that by simp
      qed
      moreover have "j < ?n" using n by (simp add: j_def)
      ultimately show ?thesis using 1(8) \<open>empties = ?n\<close> by metis
    qed
    then show ?thesis using e by (auto simp: in_set_conv_nth)
  next
    case True
    then have c: "empties < ?n \<and> length out < maxReads \<and> nxt < ?n" using 1(5) by simp
    have k: "(nxt + 1) mod ?n < ?n" using n by simp
    show ?thesis
    proof (cases "peek (qs ! nxt)")
      case None
      then have r: "scan m maxReads qs ((nxt + 1) mod ?n) (empties + 1) out woken = (qs', k, out', woken')"
        using 1(4) scan_None [OF c None] by simp
      have "mSize (qs ! (((nxt + 1) mod ?n + (?n - 1 - j)) mod ?n)) = 0" if "j < empties + 1" for j
      proof (cases j)
        case 0
        have "((nxt + 1) mod ?n + (?n - 1)) mod ?n = (nxt + 1 + (?n - 1)) mod ?n" by (simp only: mod_add_left_eq)
        also have "\<dots> = nxt" using c n by simp
        finally show ?thesis using 0 None by (simp add: peek_def split: if_splits)
      next
        case (Suc j')
        then have "nxt + 1 + (?n - 1 - j) = nxt + (?n - 1 - j')" using that c by linarith
        then have "((nxt + 1) mod ?n + (?n - 1 - j)) mod ?n = (nxt + (?n - 1 - j')) mod ?n" by (metis mod_add_left_eq)
        then show ?thesis using 1(8) that Suc by simp
      qed
      then show ?thesis using 1(1) [OF c None 1(3) r k 1(6)] c by simp
    next
      case (Some e)
      define e' where "e' = copy_event_remap_handle m e nxt"
      obtain q b where d: "dequeue (qs ! nxt) = (q, b)" by (metis surj_pair)
      have "drained (qs ! nxt) [e] q"
        using drained_dequeue [OF _ Some] 1(3) c d by (metis fst_conv nth_mem)
      then have ok: "\<forall>q \<in> set (qs[nxt := q]). queue_ok q"
        using 1(3) by (auto simp: drained_def dest!: set_update_subset_insert [THEN subsetD])
      have r: "scan m maxReads (qs[nxt := q]) ((nxt + 1) mod ?n) 0 (if ev_sensor e' = - 1 then out else out @ [e'])
          (if b then woken @ [nxt] else woken) = (qs', k, out', woken')"
        using 1(4) unfolding scan_Some [OF c Some d] e'_def by assumption
      show ?thesis using 1(2) [OF c Some e'_def d [symmetric] refl ok r] k 1(6) by simp
    qed
  qed
qed

section \<open>A writer\<close>

text \<open>Where a writer is: before its turn (or waiting for space), in the driver's \<open>poll\<close> with a region, or about to mark.\<close>

datatype writer = W_enter | W_poll nat nat | W_mark "sensor_event list"

fun writer_inv :: "sensor_event event_queue \<Rightarrow> writer \<Rightarrow> bool" where
  "writer_inv q W_enter = True"
| "writer_inv q (W_poll k n) = (mSize q + n \<le> mCapacity q \<and> k + n \<le> mCapacity q \<and> (\<forall>i < n. pos q (mSize q + i) = k + i))"
| "writer_inv q (W_mark es) = (es \<noteq> [] \<and> mSize q + length es \<le> mCapacity q \<and> (\<forall>i < length es. slot q (mSize q + i) = es ! i))"

fun pending :: "writer \<Rightarrow> sensor_event list" where
  "pending (W_mark es) = es"
| "pending _ = []"

lemma writer_inv_drained: "drained q es q' \<Longrightarrow> writer_inv q w \<Longrightarrow> writer_inv q' w"
  by (cases w) (auto simp: drained_def slot_pos add.assoc)

lemma writer_inv_region:
  assumes "queue_ok q" "getWritableRegion r q = (Some k, n)"
  shows "writer_inv q (W_poll k n)"
  using region_fits [OF assms] by (simp add: pos_def)

lemma fill_contents:
  assumes ok: "queue_ok q" and w: "writer_inv q (W_poll k n)" and es: "length es \<le> n" "es \<noteq> []"
  shows "contents (fill k es q) = contents q" "queue_ok (fill k es q)" "writer_inv (fill k es q) (W_mark es)"
proof -
  let ?q = "fill k es q"
  have len: "k + length es \<le> length (mData q)" using ok w es by (simp add: queue_ok_def)
  show "queue_ok ?q" using fill_ok [OF ok] w es by simp
  have p: "pos ?q i = pos q i" for i by (simp add: pos_def)
  have slot: "slot ?q i = (if k \<le> pos q i \<and> pos q i < k + length es then es ! (pos q i - k) else slot q i)" for i
    using nth_fill [OF len pos_less [OF ok]] by (simp add: slot_pos p) (simp add: fill_def slot_pos)
  have at: "pos q (mSize q + i) = k + i" if "i < length es" for i using w es that by simp
  have out: "\<not> (k \<le> pos q i \<and> pos q i < k + length es)" if i: "i < mSize q" for i
  proof
    assume b: "k \<le> pos q i \<and> pos q i < k + length es"
    then obtain d where d: "pos q i = k + d" by (metis le_Suc_ex)
    then have l: "d < length es" using b by simp
    then have "pos q i = pos q (mSize q + d)" using at [of d] d by simp
    moreover have "i < mCapacity q" "mSize q + d < mCapacity q" using l w es i by simp_all
    ultimately have "i = mSize q + d" by (rule pos_inj [OF ok, rotated 2])
    then show False using i by simp
  qed
  have "slot ?q i = slot q i" if "i < mSize q" for i
    using out [OF that] by (simp only: slot if_False)
  then show "contents ?q = contents q"
    by (simp add: contents_def records_def)
  have "slot ?q (mSize q + i) = es ! i" if "i < length es" for i
    using at [OF that] that by (simp add: slot)
  then show "writer_inv ?q (W_mark es)"
    using w es by simp
qed

lemma mark_contents:
  assumes ok: "queue_ok q" and w: "writer_inv q (W_mark es)"
  shows "contents (markAsWritten (length es) q) = contents q @ es" "queue_ok (markAsWritten (length es) q)"
proof -
  let ?q = "markAsWritten (length es) q"
  have s: "slot ?q i = slot q i" for i by (simp add: slot_def markAsWritten_def)
  have "mSize ?q = mSize q + length es" by (simp add: markAsWritten_def)
  moreover have "slot q (mSize q + i) = es ! i" if "i < length es" for i using w that by simp
  then have "slot q i = es ! (i - mSize q)" if "i < mSize q + length es" "\<not> i < mSize q" for i
    using that by (metis add_less_cancel_left le_add_diff_inverse not_less)
  ultimately show "contents ?q = contents q @ es"
    by (intro nth_equalityI) (auto simp: contents_def records_def s nth_append)
  show "queue_ok ?q" using ok w by (simp add: queue_ok_def markAsWritten_def)
qed

section \<open>The threads together\<close>

text \<open>
  The state of the program, where the writers are and whether the reader waits for data; and, for the statements, what each
  device gave and what was handed out.
\<close>

record mh_sys =
  core :: mh_st
  writers :: "writer list"
  reader_waits :: bool
  polled :: "sensor_event list list"
  given :: "sensor_event list"

inductive mh_step :: "int \<Rightarrow> mh_sys \<Rightarrow> mh_sys \<Rightarrow> bool" for maxReads where
  enter: "i < length (writers y) \<Longrightarrow> writers y ! i = W_enter \<Longrightarrow> run_state (writer_enter i) (core y) = (r, c) \<Longrightarrow>
    mh_step maxReads y (y\<lparr>core := c, writers := (writers y)[i := (case r of None \<Rightarrow> W_enter | Some (k, n) \<Rightarrow> W_poll k n)]\<rparr>)"
| poll: "i < length (writers y) \<Longrightarrow> writers y ! i = W_poll k n \<Longrightarrow> run_state (writer_poll i k n) (core y) = (es, c) \<Longrightarrow>
    mh_step maxReads y (y\<lparr>core := c, writers := (writers y)[i := if es = [] then W_enter else W_mark es],
      polled := (polled y)[i := polled y ! i @ es]\<rparr>)"
| mark: "i < length (writers y) \<Longrightarrow> writers y ! i = W_mark es \<Longrightarrow> run_state (writer_mark i (length es)) (core y) = (u, c) \<Longrightarrow>
    mh_step maxReads y (y\<lparr>core := c, writers := (writers y)[i := W_enter]\<rparr>)"
| read: "\<not> reader_waits y \<Longrightarrow> run_state (poll_enter maxReads) (core y) = (out, c) \<Longrightarrow>
    mh_step maxReads y (y\<lparr>core := c, reader_waits := (out = []), given := given y @ out\<rparr>)"
| wake: "reader_waits y \<Longrightarrow> run_state (poll_wake maxReads) (core y) = (out, c) \<Longrightarrow>
    mh_step maxReads y (y\<lparr>core := c, reader_waits := (out = []), given := given y @ out\<rparr>)"

inductive_cases mh_stepE: "mh_step maxReads y y'"

text \<open>A driver's \<open>poll\<close> gives at most the number of events it is asked for, and all of those it announces.\<close>

definition good_drivers :: "(event list \<Rightarrow> event \<Rightarrow> reply) \<Rightarrow> bool" where
  "good_drivers e \<longleftrightarrow> (\<forall>t d n. case e t (E_hook ''poll'' [d, int n]) of r \<Rightarrow>
     rv r \<le> int n \<and> nat (rv r) \<le> length (events_of (rnum r)))"

definition chan_ok :: "sensor_event event_queue \<Rightarrow> writer \<Rightarrow> sensor_event list \<Rightarrow> sensor_event list \<Rightarrow> bool" where
  "chan_ok q w gave gone \<longleftrightarrow> queue_ok q \<and> mCapacity q = SENSOR_EVENT_QUEUE_CAPACITY \<and> writer_inv q w \<and> gave = gone @ contents q @ pending w"

definition mh_inv :: "(int \<times> int \<Rightarrow> int option) \<Rightarrow> bool \<Rightarrow> mh_sys \<Rightarrow> bool" where
  "mh_inv m u y \<longleftrightarrow> full_to_global (core y) = m \<and> ub (core y) = u \<and> good_drivers (env (core y)) \<and>
     length (writers y) = length (queues (core y)) \<and> length (polled y) = length (queues (core y)) \<and>
     (queues (core y) = [] \<or> nextReadIndex (core y) < length (queues (core y))) \<and>
     (\<exists>tk. given y = passed m tk \<and> (\<forall>i < length (queues (core y)).
        chan_ok (queues (core y) ! i) (writers y ! i) (polled y ! i) (took i tk)))"

lemma mh_inv_queue:
  assumes "mh_inv m u y" "i < length (writers y)"
  shows "queue_ok (queues (core y) ! i)" "mCapacity (queues (core y) ! i) = SENSOR_EVENT_QUEUE_CAPACITY"
    "writer_inv (queues (core y) ! i) (writers y ! i)" "i < length (queues (core y))" "good_drivers (env (core y))" "ub (core y) = u"
  using assms by (auto simp: mh_inv_def chan_ok_def)

text \<open>A step of writer \<open>i\<close>: its queue becomes \<open>q\<close>, it is at \<open>w\<close>, its device gave \<open>es\<close>.\<close>

lemma mh_inv_writer:
  assumes inv: "mh_inv m u y" and i: "i < length (writers y)"
    and q: "queue_ok q" "mCapacity q = SENSOR_EVENT_QUEUE_CAPACITY" "writer_inv q w"
    and c: "queues c = (queues (core y))[i := q]" "full_to_global c = full_to_global (core y)" "ub c = ub (core y)"
      "env c = env (core y)" "nextReadIndex c = nextReadIndex (core y)"
    and es: "contents (queues (core y) ! i) @ pending (writers y ! i) @ es = contents q @ pending w"
  shows "mh_inv m u (y\<lparr>core := c, writers := (writers y)[i := w], polled := (polled y)[i := polled y ! i @ es]\<rparr>)"
proof -
  obtain tk where tk: "given y = passed m tk" "\<forall>j < length (queues (core y)).
      chan_ok (queues (core y) ! j) (writers y ! j) (polled y ! j) (took j tk)"
    using inv by (auto simp: mh_inv_def)
  have l: "i < length (queues (core y))" "i < length (polled y)" using inv i by (simp_all add: mh_inv_def)
  have one: "chan_ok q w (polled y ! i @ es) (took i tk)"
    using tk(2) l(1) q es by (simp add: chan_ok_def)
  have "chan_ok ((queues (core y))[i := q] ! j) ((writers y)[i := w] ! j) ((polled y)[i := polled y ! i @ es] ! j) (took j tk)"
    if "j < length (queues (core y))" for j
    using tk(2) that l i one by (cases "j = i") simp_all
  then have "\<exists>tk. given y = passed m tk \<and> (\<forall>j < length (queues (core y)). chan_ok ((queues (core y))[i := q] ! j)
      ((writers y)[i := w] ! j) ((polled y)[i := polled y ! i @ es] ! j) (took j tk))"
    using tk(1) by blast
  then show ?thesis
    using inv unfolding mh_inv_def by (simp add: c)
qed

lemma poll_pass_run:
  assumes run: "run_state (poll_pass mx) s = (out, c)" and idx: "queues s = [] \<or> nextReadIndex s < length (queues s)"
    and sc: "scan (full_to_global s) (nat mx) (queues s) (nextReadIndex s) 0 [] [] = (qs, k, o1, w)"
  shows "out = o1" "queues c = qs" "full_to_global c = full_to_global s" "ub c = ub s" "env c = env s" "nextReadIndex c = k"
proof -
  have each: "keeps (\<lambda>s. (queues s, full_to_global s, ub s, env s, nextReadIndex s) = v) (for_each w (\<lambda>i. emit (E_thread C_broadcast i)))" for v
    by (rule keeps_for_each) (simp add: keeps_def)
  obtain x where f: "run_state (for_each w (\<lambda>i. emit (E_thread C_broadcast i))) (s\<lparr>queues := qs, nextReadIndex := k\<rparr>) = ((), x)"
    by (metis surj_pair old.unit.exhaust)
  have x: "queues x = qs" "full_to_global x = full_to_global s" "ub x = ub s" "env x = env s" "nextReadIndex x = k"
    using keepsD [OF each refl, of "s\<lparr>queues := qs, nextReadIndex := k\<rparr>"] f by simp_all
  have "out = o1 \<and> queues c = queues x \<and> full_to_global c = full_to_global x \<and> ub c = ub x \<and> env c = env x \<and> nextReadIndex c = nextReadIndex x"
    using run idx f by (cases "o1 = []") (auto simp: poll_pass_def sc)
  then show "out = o1" "queues c = qs" "full_to_global c = full_to_global s" "ub c = ub s" "env c = env s" "nextReadIndex c = k"
    by (simp_all add: x)
qed

lemma mh_inv_reader:
  assumes inv: "mh_inv m u y" and run: "run_state (poll_pass mx) s = (out, c)"
    and s: "queues s = queues (core y)" "full_to_global s = full_to_global (core y)" "ub s = ub (core y)" "env s = env (core y)"
      "nextReadIndex s = nextReadIndex (core y)"
  shows "mh_inv m u (y\<lparr>core := c, reader_waits := b, given := given y @ out\<rparr>)"
proof -
  obtain tk where tk: "given y = passed m tk" "\<forall>j < length (queues s).
      chan_ok (queues s ! j) (writers y ! j) (polled y ! j) (took j tk)"
    using inv s(1) by (auto simp: mh_inv_def)
  have idx: "queues s = [] \<or> nextReadIndex s < length (queues s)" and m: "full_to_global s = m"
    using inv s by (simp_all add: mh_inv_def)
  obtain qs k o1 w where sc: "scan m (nat mx) (queues s) (nextReadIndex s) 0 [] [] = (qs, k, o1, w)"
    by (metis prod_cases4)
  have ok: "\<forall>q \<in> set (queues s). queue_ok q" using tk(2) by (auto simp: chan_ok_def in_set_conv_nth)
  obtain tk2 where tk2: "length qs = length (queues s)" "nextReadIndex s < length (queues s) \<longrightarrow> k < length (queues s)" "o1 = passed m tk2"
      "\<forall>i < length (queues s). drained (queues s ! i) (took i tk2) (qs ! i)"
    using scan_log [OF ok sc] by auto
  note c = poll_pass_run [OF run idx sc [folded m]]
  have "chan_ok (qs ! i) (writers y ! i) (polled y ! i) (took i (tk @ tk2))" if i: "i < length (queues s)" for i
  proof -
    have d: "drained (queues s ! i) (took i tk2) (qs ! i)" and o: "chan_ok (queues s ! i) (writers y ! i) (polled y ! i) (took i tk)"
      using tk(2) tk2(4) i by blast+
    have "writer_inv (qs ! i) (writers y ! i)" using writer_inv_drained [OF d] o by (simp add: chan_ok_def)
    with d o show ?thesis by (simp add: chan_ok_def drained_def)
  qed
  moreover have "given y @ out = passed m (tk @ tk2)" using tk(1) tk2(3) c(1) by simp
  ultimately have "\<exists>tk. given y @ out = passed m tk \<and> (\<forall>i < length qs. chan_ok (qs ! i) (writers y ! i) (polled y ! i) (took i tk))"
    using tk2(1) by (metis (no_types, lifting))
  moreover have "qs = [] \<or> k < length qs" using tk2(1,2) idx by auto
  ultimately show ?thesis
    using inv tk2(1) unfolding mh_inv_def by (simp add: c s)
qed

lemma enter_run:
  assumes run: "run_state (writer_enter i) s = (r, c)" and ok: "queue_ok (queues s ! i)"
  shows "queues c = queues s" "full_to_global c = full_to_global s" "ub c = ub s" "env c = env s" "nextReadIndex c = nextReadIndex s"
    "\<And>k n. r = Some (k, n) \<Longrightarrow> getWritableRegion (int SENSOR_EVENT_QUEUE_CAPACITY) (queues s ! i) = (Some k, n)"
proof -
  have "\<not> must_wait (queues s ! i) \<Longrightarrow> \<exists>k n. getWritableRegion (int SENSOR_EVENT_QUEUE_CAPACITY) (queues s ! i) = (Some k, n)"
    by (simp add: must_wait_def getWritableRegion_def SENSOR_EVENT_QUEUE_CAPACITY_def Let_def)
  with run have "queues c = queues s \<and> full_to_global c = full_to_global s \<and> ub c = ub s \<and> env c = env s \<and>
      nextReadIndex c = nextReadIndex s \<and>
      (\<forall>k n. r = Some (k, n) \<longrightarrow> getWritableRegion (int SENSOR_EVENT_QUEUE_CAPACITY) (queues s ! i) = (Some k, n))"
    by (cases "must_wait (queues s ! i)") (auto simp: writer_enter_def)
  then show "queues c = queues s" "full_to_global c = full_to_global s" "ub c = ub s" "env c = env s" "nextReadIndex c = nextReadIndex s"
    "\<And>k n. r = Some (k, n) \<Longrightarrow> getWritableRegion (int SENSOR_EVENT_QUEUE_CAPACITY) (queues s ! i) = (Some k, n)"
    by blast+
qed

lemma poll_run:
  assumes run: "run_state (writer_poll i k n) s = (es, c)" and d: "good_drivers (env s)"
  shows "queues c = (if es = [] then queues s else (queues s)[i := fill k es (queues s ! i)])" "full_to_global c = full_to_global s"
    "ub c = ub s" "env c = env s" "nextReadIndex c = nextReadIndex s" "length es \<le> n"
proof -
  define r where "r = env s (tr s) (E_hook ''poll'' [int (fst (sub_hw_devices s ! i)), int n])"
  have r: "rv r \<le> int n" "nat (rv r) \<le> length (events_of (rnum r))" using d by (simp_all add: r_def good_drivers_def)
  have "queues c = (if es = [] then queues s else (queues s)[i := fill k es (queues s ! i)]) \<and> full_to_global c = full_to_global s \<and>
      ub c = ub s \<and> env c = env s \<and> nextReadIndex c = nextReadIndex s \<and> length es \<le> n"
  proof (cases "rv r \<le> 0")
    case True
    then show ?thesis using run by (auto simp: writer_poll_def r_def)
  next
    case False
    let ?es = "take (nat (rv r)) (events_of (rnum r))"
    have l: "length ?es = nat (rv r)" using r by simp
    then have "es = ?es" "c = s\<lparr>tr := E_hook ''poll'' [int (fst (sub_hw_devices s ! i)), int n] # tr s,
        queues := (queues s)[i := fill k ?es (queues s ! i)]\<rparr>"
      using run r False by (auto simp: writer_poll_def upd_queue_def Let_def simp flip: r_def)
    moreover have "?es \<noteq> []" using l False by auto
    ultimately show ?thesis using l r by auto
  qed
  then show "queues c = (if es = [] then queues s else (queues s)[i := fill k es (queues s ! i)])" "full_to_global c = full_to_global s"
    "ub c = ub s" "env c = env s" "nextReadIndex c = nextReadIndex s" "length es \<le> n"
    by blast+
qed

lemma mark_run:
  assumes "run_state (writer_mark i n) s = (u, c)"
  shows "queues c = (queues s)[i := markAsWritten n (queues s ! i)]" "full_to_global c = full_to_global s" "ub c = ub s"
    "env c = env s" "nextReadIndex c = nextReadIndex s"
  using assms by (auto simp: writer_mark_def upd_queue_def split: if_splits)

lemma mh_step_inv:
  assumes "mh_step mx y y'" "mh_inv m u y"
  shows "mh_inv m u y'"
  using assms(1)
proof (cases rule: mh_step.cases)
  case (enter i r c)
  note q = mh_inv_queue [OF assms(2) enter(2)]
  note e = enter_run [OF enter(4) q(1)]
  define w where "w = (case r of None \<Rightarrow> W_enter | Some (k, n) \<Rightarrow> W_poll k n)"
  have w: "writer_inv (queues (core y) ! i) w" "pending w = []"
    using writer_inv_region [OF q(1)] e(6) by (auto simp: w_def split: option.splits)
  have "mh_inv m u (y\<lparr>core := c, writers := (writers y)[i := w], polled := (polled y)[i := polled y ! i @ []]\<rparr>)"
    by (rule mh_inv_writer [OF assms(2) enter(2) q(1,2) w(1)]) (use e(1-5) enter(3) w(2) in simp_all)
  then show ?thesis using enter(1) w_def by simp
next
  case (poll i k n es c)
  note q = mh_inv_queue [OF assms(2) poll(2)]
  note e = poll_run [OF poll(4) q(5)]
  show ?thesis
  proof (cases "es = []")
    case True
    have "mh_inv m u (y\<lparr>core := c, writers := (writers y)[i := W_enter], polled := (polled y)[i := polled y ! i @ []]\<rparr>)"
      by (rule mh_inv_writer [OF assms(2) poll(2) q(1,2)]) (use e(1-5) poll(3) True in simp_all)
    then show ?thesis using poll(1) True by simp
  next
    case False
    have wi: "writer_inv (queues (core y) ! i) (W_poll k n)" using q(3) poll(3) by simp
    note f = fill_contents [OF q(1) wi e(6) False]
    have "mh_inv m u (y\<lparr>core := c, writers := (writers y)[i := W_mark es], polled := (polled y)[i := polled y ! i @ es]\<rparr>)"
      by (rule mh_inv_writer [OF assms(2) poll(2) f(2) _ f(3)]) (use e(1-5) poll(3) False q(2) f(1) in simp_all)
    then show ?thesis using poll(1) False by simp
  qed
next
  case (mark i es v c)
  note q = mh_inv_queue [OF assms(2) mark(2)]
  note e = mark_run [OF mark(4)]
  have wi: "writer_inv (queues (core y) ! i) (W_mark es)" using q(3) mark(3) by simp
  note f = mark_contents [OF q(1) wi]
  have "mh_inv m u (y\<lparr>core := c, writers := (writers y)[i := W_enter], polled := (polled y)[i := polled y ! i @ []]\<rparr>)"
    by (rule mh_inv_writer [OF assms(2) mark(2) f(2)]) (use e mark(3) q(2) f(1) in \<open>simp_all add: markAsWritten_def\<close>)
  then show ?thesis using mark(1) by simp
next
  case (read out c)
  have "run_state (poll_pass mx) ((core y)\<lparr>tr := E_lock L_queue # tr (core y)\<rparr>) = (out, c)"
    using read(3) by (simp add: poll_enter_def)
  from mh_inv_reader [OF assms(2) this, of "out = []"] show ?thesis using read(1) by simp
next
  case (wake out c)
  have "run_state (poll_pass mx) ((core y)\<lparr>waiting_for_data := False\<rparr>) = (out, c)"
    using wake(3) by (simp add: poll_wake_def)
  from mh_inv_reader [OF assms(2) this, of "out = []"] show ?thesis using wake(1) by simp
qed

lemma mh_reach_inv: "(mh_step mx)\<^sup>*\<^sup>* y y' \<Longrightarrow> mh_inv m u y \<Longrightarrow> mh_inv m u y'"
  by (induction rule: rtranclp_induct) (auto intro: mh_step_inv)

text \<open>The state when the threads start: the queues are new, nothing was polled.\<close>

definition mh_start :: "mh_st \<Rightarrow> mh_sys" where
  "mh_start s = \<lparr>core = s, writers = replicate (length (queues s)) W_enter, reader_waits = False,
     polled = replicate (length (queues s)) [], given = []\<rparr>"

definition fresh_queues :: "mh_st \<Rightarrow> bool" where
  "fresh_queues s \<longleftrightarrow> nextReadIndex s = 0 \<and>
     (\<forall>q \<in> set (queues s). queue_ok q \<and> mCapacity q = SENSOR_EVENT_QUEUE_CAPACITY \<and> mSize q = 0)"

lemma mh_start_inv: "fresh_queues s \<Longrightarrow> good_drivers (env s) \<Longrightarrow> mh_inv (full_to_global s) (ub s) (mh_start s)"
  by (auto simp: mh_inv_def mh_start_def fresh_queues_def chan_ok_def passed_def took_def contents_def records_def
      intro!: exI [of _ "[]"])

end
