(* ===== verification/Multihal_Handles.thy ===== *)
theory Multihal_Handles
  imports Multihal_Inv
begin

text \<open>The global handles: one for each sensor of each library, and back.\<close>

text \<open>The two maps are inverse to each other, and the handles given out are below the next one.\<close>

definition handles_ok :: "'a mh_st_scheme \<Rightarrow> bool" where
  "handles_ok s \<longleftrightarrow> 0 < next_global_handle s \<and> (\<forall>f g. full_to_global s f = Some g \<longleftrightarrow> global_to_full s g = Some f) \<and>
     (\<forall>g f. global_to_full s g = Some f \<longrightarrow> 0 < g \<and> g < next_global_handle s)"

text \<open>No sensor of a library with index \<open>i\<close> or above has a handle yet.\<close>

definition unassigned :: "int \<Rightarrow> 'a mh_st_scheme \<Rightarrow> bool" where
  "unassigned i s \<longleftrightarrow> (\<forall>j l. i \<le> j \<longrightarrow> full_to_global s (j, l) = None)"

lemma assign_run:
  "run_state (assign_global_handle i l) s = (next_global_handle s,
    s\<lparr>next_global_handle := next_global_handle s + 1, full_to_global := (full_to_global s)((i, l) \<mapsto> next_global_handle s),
      global_to_full := (global_to_full s)(next_global_handle s \<mapsto> (i, l))\<rparr>)"
  by (simp add: assign_global_handle_def Let_def)

lemma assign_ok:
  assumes "handles_ok s" "full_to_global s (i, l) = None" "run_state (assign_global_handle i l) s = (g, s')"
  shows "handles_ok s'"
proof -
  let ?n = "next_global_handle s"
  have inv: "full_to_global s f = Some g \<longleftrightarrow> global_to_full s g = Some f" for f g using assms(1) by (cases f) (simp add: handles_ok_def)
  have range: "0 < g \<and> g < ?n" if "global_to_full s g = Some f" for g f using assms(1) that by (cases f) (auto simp: handles_ok_def)
  have fresh: "global_to_full s ?n = None" using range [of ?n] by (metis not_None_eq order_less_irrefl)
  have s': "full_to_global s' = (full_to_global s)((i, l) \<mapsto> ?n)" "global_to_full s' = (global_to_full s)(?n \<mapsto> (i, l))"
    "next_global_handle s' = ?n + 1"
    using assms(3) by (auto simp: assign_run)
  have "full_to_global s' f = Some g \<longleftrightarrow> global_to_full s' g = Some f" for f g
    using inv [of f g] inv [of "(i, l)" g] inv [of f ?n] assms(2) fresh unfolding s' by (cases "f = (i, l)"; cases "g = ?n") auto
  moreover have pos: "0 < ?n" using assms(1) by (simp add: handles_ok_def)
  then have "0 < ?n + 1" by simp
  moreover have "0 < g \<and> g < ?n + 1" if "global_to_full s' g = Some f" for g f
    using range [of g f] that pos unfolding s' by (cases "g = ?n") simp_all
  ultimately show ?thesis unfolding handles_ok_def s' by auto
qed

text \<open>What giving handles to sensors keeps: it adds to the maps, for libraries from \<open>i\<close> on.\<close>

definition extends :: "int \<Rightarrow> 'a mh_st_scheme \<Rightarrow> 'a mh_st_scheme \<Rightarrow> bool" where
  "extends i s s' \<longleftrightarrow> handles_ok s' \<and> next_global_handle s \<le> next_global_handle s' \<and> ub s' = ub s \<and> env s' = env s \<and>
     (\<forall>g f. global_to_full s g = Some f \<longrightarrow> global_to_full s' g = Some f) \<and>
     (\<forall>j l. j < i \<longrightarrow> full_to_global s' (j, l) = full_to_global s (j, l))"

lemma extends_trans: "extends i s s1 \<Longrightarrow> extends j s1 s2 \<Longrightarrow> i \<le> j \<Longrightarrow> extends i s s2"
  by (auto simp: extends_def)

lemma s_handle_fix [simp]: "s_handle (fix_sensor_flags v x) = s_handle x"
  by (simp add: fix_sensor_flags_def)

lemma int_upt_append:
  "map (\<lambda>k. n + int k) [0..<a] @ map (\<lambda>k. n + int a + int k) [0..<b] = map (\<lambda>k. n + int k) [0..<a + b]"
  by (intro nth_equalityI) (auto simp: nth_append)

lemma upt_0_1: "[0..<Suc 0] = [0]"
  by simp

lemma globalize_run:
  assumes "handles_ok s" "distinct (map s_handle xs)" "\<forall>x \<in> set xs. full_to_global s (i, s_handle x) = None"
    "run_state (globalize m i xs) s = (ys, s')"
  shows "extends i s s' \<and> (\<forall>j l. j \<noteq> i \<longrightarrow> full_to_global s' (j, l) = full_to_global s (j, l)) \<and> length ys = length xs \<and>
    map s_handle ys = map (\<lambda>k. next_global_handle s + int k) [0..<length xs] \<and>
    next_global_handle s' = next_global_handle s + int (length xs) \<and>
    (\<forall>k < length xs. global_to_full s' (s_handle (ys ! k)) = Some (i, s_handle (xs ! k)))"
  using assms
proof (induction xs arbitrary: s ys s')
  case Nil
  then show ?case by (simp add: extends_def)
next
  case (Cons x xs)
  obtain g s1 where a: "run_state (assign_global_handle i (s_handle x)) s = (g, s1)" by (metis surj_pair)
  have g: "g = next_global_handle s" "s1 = s\<lparr>next_global_handle := g + 1, full_to_global := (full_to_global s)((i, s_handle x) \<mapsto> g),
      global_to_full := (global_to_full s)(g \<mapsto> (i, s_handle x))\<rparr>"
    using a by (auto simp: assign_run)
  have ok: "handles_ok s1" using assign_ok [OF Cons.prems(1) _ a] Cons.prems(3) by simp
  obtain zs s2 where b: "run_state (globalize m i xs) s1 = (zs, s2)" by (metis surj_pair)
  have "s_handle y \<noteq> s_handle x" if "y \<in> set xs" for y using Cons.prems(2) that by (metis distinct.simps(2) image_eqI list.set_map list.simps(9))
  then have "\<forall>y \<in> set xs. full_to_global s1 (i, s_handle y) = None" using Cons.prems(3) g by auto
  note IH = Cons.IH [OF ok _ this b]
  obtain v where ys: "ys = fix_sensor_flags v (x\<lparr>s_handle := g\<rparr>) # zs" "s' = s2"
    using Cons.prems(4) a b by (auto simp: Let_def)
  have ih: "extends i s1 s2" "\<forall>j l. j \<noteq> i \<longrightarrow> full_to_global s2 (j, l) = full_to_global s1 (j, l)" "length zs = length xs"
      "map s_handle zs = map (\<lambda>k. next_global_handle s1 + int k) [0..<length xs]"
      "next_global_handle s2 = next_global_handle s1 + int (length xs)"
      "\<forall>k < length xs. global_to_full s2 (s_handle (zs ! k)) = Some (i, s_handle (xs ! k))"
    using IH Cons.prems(2) by simp_all
  have new: "global_to_full s g = None"
    using Cons.prems(1) g(1) by (metis handles_ok_def not_None_eq order_less_irrefl)
  have "extends i s s1" using ok g new by (auto simp: extends_def)
  then have ex: "extends i s s2" using extends_trans [OF _ ih(1)] by simp
  have "global_to_full s2 g = Some (i, s_handle x)" using ih(1) g(2) by (auto simp: extends_def)
  then have "global_to_full s' (s_handle (ys ! k)) = Some (i, s_handle ((x # xs) ! k))" if "k < length (x # xs)" for k
    using that ih(6) ys by (cases k) auto
  moreover have "map s_handle ys = map (\<lambda>k. next_global_handle s + int k) [0..<length (x # xs)]"
    using ys(1) ih(4) g int_upt_append [of "next_global_handle s" 1 "length xs"] by (simp add: ac_simps upt_0_1 del: upt_Suc)
  ultimately show ?case
    using ex ih(2,3,5) ys g by simp
qed

text \<open>A library lists as many sensors as it says, with different handles, and the same ones whenever it is asked.\<close>

definition good_lists :: "(event list \<Rightarrow> event \<Rightarrow> reply) \<Rightarrow> bool" where
  "good_lists e \<longleftrightarrow> (\<forall>t m. case e t (E_hook ''get_sensors_list'' [m]) of r \<Rightarrow>
     r = e [] (E_hook ''get_sensors_list'' [m]) \<and>
     rv r = int (length (sensors_of (rnum r))) \<and> distinct (map s_handle (sensors_of (rnum r))))"

text \<open>The handles of the sensors in the order of the list, with the index of their library.\<close>

primrec full_handles :: "(event list \<Rightarrow> event \<Rightarrow> reply) \<Rightarrow> int \<Rightarrow> nat list \<Rightarrow> (int \<times> int) list" where
  "full_handles e i [] = []"
| "full_handles e i (m # ms) =
     map (\<lambda>x. (i, s_handle x)) (sensors_of (rnum (e [] (E_hook ''get_sensors_list'' [int m])))) @ full_handles e (i + 1) ms"

lemma full_handles_range: "f \<in> set (full_handles e i ms) \<Longrightarrow> i \<le> fst f \<and> fst f < i + int (length ms)"
  by (induction ms arbitrary: i) force+

lemma globalize_all_run:
  assumes "handles_ok s" "unassigned i s" "good_lists (env s)" "run_state (globalize_all i ms) s = (ys, s')"
  shows "extends i s s' \<and> map s_handle ys = map (\<lambda>k. next_global_handle s + int k) [0..<length ys] \<and>
    next_global_handle s' = next_global_handle s + int (length ys) \<and>
    map (\<lambda>y. global_to_full s' (s_handle y)) ys = map Some (full_handles (env s) i ms)"
  using assms
proof (induction ms arbitrary: i s ys s')
  case Nil
  then show ?case by (simp add: extends_def)
next
  case (Cons m ms)
  define r where "r = env s (tr s) (E_hook ''get_sensors_list'' [int m])"
  define s0 where "s0 = s\<lparr>tr := E_hook ''get_sensors_list'' [int m] # tr s\<rparr>"
  let ?xs = "sensors_of (rnum r)"
  have r: "rv r = int (length ?xs)" "distinct (map s_handle ?xs)" "r = env s [] (E_hook ''get_sensors_list'' [int m])"
    using Cons.prems(3) unfolding r_def good_lists_def by (auto simp: Let_def)
  obtain zs s1 where a: "run_state (globalize m i ?xs) s0 = (zs, s1)" by (metis surj_pair)
  obtain ws s2 where b: "run_state (globalize_all (i + 1) ms) s1 = (ws, s2)" by (metis surj_pair)
  have ys: "ys = zs @ ws" "s' = s2"
    using Cons.prems(4) a b r(1) by (simp_all add: sub_sensors_def s0_def flip: r_def)
  have "handles_ok s0" "\<forall>x \<in> set ?xs. full_to_global s0 (i, s_handle x) = None"
    using Cons.prems(1,2) by (simp_all add: s0_def handles_ok_def unassigned_def)
  note 1 = globalize_run [OF this(1) r(2) this(2) a]
  have e1: "extends i s s1" using 1 by (auto simp: extends_def s0_def)
  have "unassigned (i + 1) s1" using 1 Cons.prems(2) by (auto simp: unassigned_def s0_def)
  moreover have "handles_ok s1" "good_lists (env s1)" "env s1 = env s" using e1 Cons.prems(3) by (simp_all add: extends_def)
  ultimately have 2: "extends (i + 1) s1 s2 \<and> map s_handle ws = map (\<lambda>k. next_global_handle s1 + int k) [0..<length ws] \<and>
      next_global_handle s2 = next_global_handle s1 + int (length ws) \<and>
      map (\<lambda>y. global_to_full s2 (s_handle y)) ws = map Some (full_handles (env s) (i + 1) ms)"
    using Cons.IH b by metis
  have nx: "next_global_handle s1 = next_global_handle s + int (length zs)" "length zs = length ?xs"
    using 1 by (simp_all add: s0_def)
  have "extends i s s2" using extends_trans [OF e1, of "i + 1" s2] 2 by simp
  moreover have "map s_handle ys = map (\<lambda>k. next_global_handle s + int k) [0..<length ys]"
    using 1 2 nx ys(1) int_upt_append [of "next_global_handle s" "length zs" "length ws"] by (simp add: s0_def)
  moreover have "global_to_full s2 (s_handle (zs ! k)) = Some (i, s_handle (?xs ! k))" if "k < length ?xs" for k
    using 1 2 that by (auto simp: extends_def)
  then have "map (\<lambda>y. global_to_full s2 (s_handle y)) zs = map (\<lambda>x. Some (i, s_handle x)) ?xs"
    using nx(2) by (intro nth_equalityI) simp_all
  then have "map (\<lambda>y. global_to_full s' (s_handle y)) ys = map Some (full_handles (env s) i (m # ms))"
    using 2 ys r(3) by (simp add: comp_def)
  ultimately show ?case using 2 nx ys by simp
qed

section \<open>The list\<close>

definition all_sensors :: "(event list \<Rightarrow> event \<Rightarrow> reply) \<Rightarrow> nat list \<Rightarrow> nat" where
  "all_sensors e ms = sum_list (map (\<lambda>m. length (sensors_of (rnum (e [] (E_hook ''get_sensors_list'' [int m]))))) ms)"

lemma good_lists_rv: "good_lists e \<Longrightarrow> rv (e t (E_hook ''get_sensors_list'' [m])) =
    int (length (sensors_of (rnum (e [] (E_hook ''get_sensors_list'' [m])))))"
  unfolding good_lists_def by metis

lemma count_run:
  assumes "good_lists (env s)"
  shows "\<exists>t. run_state (count_sensors ms) s = (int (all_sensors (env s) ms), s\<lparr>tr := t\<rparr>)"
  using assms
proof (induction ms arbitrary: s)
  case Nil
  then show ?case by (intro exI [of _ "tr s"]) (simp add: all_sensors_def)
next
  case (Cons m ms)
  let ?s = "s\<lparr>tr := E_hook ''get_sensors_list'' [int m] # tr s\<rparr>"
  obtain t where "run_state (count_sensors ms) ?s = (int (all_sensors (env ?s) ms), ?s\<lparr>tr := t\<rparr>)"
    using Cons.IH [of ?s] Cons.prems by auto
  then show ?case
    using good_lists_rv [OF Cons.prems, of "tr s" "int m"] by (intro exI [of _ t]) (simp add: sub_sensors_def all_sensors_def)
qed

lemma globalize_length: "length (fst (run_state (globalize m i xs) s)) = length xs \<and> env (snd (run_state (globalize m i xs) s)) = env s"
  by (induction xs arbitrary: s) (simp_all add: assign_run split_beta Let_def)

lemma globalize_all_length:
  "good_lists (env s) \<Longrightarrow> length (fst (run_state (globalize_all i ms) s)) = all_sensors (env s) ms"
proof (induction ms arbitrary: s i)
  case Nil
  then show ?case by (simp add: all_sensors_def)
next
  case (Cons m ms)
  define r where "r = env s (tr s) (E_hook ''get_sensors_list'' [int m])"
  define s0 where "s0 = s\<lparr>tr := E_hook ''get_sensors_list'' [int m] # tr s\<rparr>"
  have r: "rv r = int (length (sensors_of (rnum r)))" "r = env s [] (E_hook ''get_sensors_list'' [int m])"
    using Cons.prems unfolding r_def good_lists_def by (auto simp: Let_def)
  obtain zs s1 where a: "run_state (globalize m i (sensors_of (rnum r))) s0 = (zs, s1)" by (metis surj_pair)
  have g: "length zs = length (sensors_of (rnum r))" "env s1 = env s"
    using globalize_length [of m i "sensors_of (rnum r)" s0] a by (simp_all add: s0_def)
  have "length (fst (run_state (globalize_all (i + 1) ms) s1)) = all_sensors (env s) ms"
    using Cons.IH [of s1 "i + 1"] Cons.prems g(2) by simp
  then show ?case
    using a r g(1) by (simp add: sub_sensors_def all_sensors_def split_beta flip: r_def s0_def)
qed

text \<open>Before the first call of \<open>get_sensors_list\<close>, with the libraries \<open>ms\<close> loaded.\<close>

definition before_list :: "nat list \<Rightarrow> 'a mh_st_scheme \<Rightarrow> bool" where
  "before_list ms s \<longleftrightarrow> sub_hw_modules s = Some ms \<and> global_sensors_list s = None \<and> next_global_handle s = 1 \<and>
     full_to_global s = (\<lambda>_. None) \<and> global_to_full s = (\<lambda>_. None)"

lemma list_run:
  assumes b: "before_list ms s" and g: "good_lists (env s)" and run: "run_state module__get_sensors_list s = ((n, xs), s')"
  shows "n = int (length xs)" "map s_handle xs = map (\<lambda>k. 1 + int k) [0..<length xs]" "handles_ok s'" "ub s' = ub s"
    "map (\<lambda>x. global_to_full s' (s_handle x)) xs = map Some (full_handles (env s) 0 ms)"
proof -
  let ?s = "s\<lparr>tr := E_unlock L_init_modules # E_lock L_init_modules # E_lock L_init_sensors # tr s\<rparr>"
  obtain t where t: "run_state (count_sensors ms) ?s = (int (all_sensors (env s) ms), ?s\<lparr>tr := t\<rparr>)"
    using count_run [of ?s ms] g by auto
  define s1 where "s1 = s\<lparr>tr := t, global_sensors_count := int (all_sensors (env s) ms)\<rparr>"
  obtain ys s2 where a: "run_state (globalize_all 0 ms) s1 = (ys, s2)" by (metis surj_pair)
  have s1: "handles_ok s1" "unassigned 0 s1" "good_lists (env s1)" "next_global_handle s1 = 1"
    using b g by (simp_all add: s1_def before_list_def handles_ok_def unassigned_def)
  have len: "length ys = all_sensors (env s) ms" using globalize_all_length [OF s1(3), of 0 ms] a by (simp add: s1_def)
  note r = globalize_all_run [OF s1(1,2,3) a]
  let ?s2 = "s2\<lparr>tr := E_unlock L_init_sensors # tr s2, global_sensors_list := Some ys, sub_hw_versions := None\<rparr>"
  have keeps: "global_sensors_count s2 = int (all_sensors (env s) ms)"
  proof -
    have "keeps (\<lambda>s. global_sensors_count s = c) (globalize m i xs)" for c m i xs
      by (induction xs) (auto simp: assign_global_handle_def Let_def intro!: keeps_rules)
    then have "keeps (\<lambda>s. global_sensors_count s = c) (globalize_all i ms)" for c i
      by (induction ms arbitrary: i) (auto simp: sub_sensors_def intro!: keeps_rules)
    from keepsD [OF this refl, of 0 s1] show ?thesis using a by (simp add: s1_def)
  qed
  have "run_state lazy_init_sensors_list s = ((), ?s2)"
    using b t a len by (simp add: lazy_init_sensors_list_def lazy_init_modules_def before_list_def flip: s1_def)
  then have res: "n = int (length ys)" "xs = ys" "s' = ?s2"
    using run keeps len by (auto simp: module__get_sensors_list_def)
  show "n = int (length xs)" using res by simp
  show "map s_handle xs = map (\<lambda>k. 1 + int k) [0..<length xs]" using r s1(4) res by simp
  have "handles_ok s2" using r by (simp add: extends_def)
  then show "handles_ok s'" using res by (simp add: handles_ok_def)
  show "ub s' = ub s" using r res by (simp add: extends_def s1_def)
  show "map (\<lambda>x. global_to_full s' (s_handle x)) xs = map Some (full_handles (env s) 0 ms)"
    using r res by (simp add: s1_def)
qed

end
