(* ===== verification/Multihal_Wake.thy ===== *)
theory Multihal_Wake
  imports Multihal_Handles
begin

text \<open>
  The reader of the queues is not left waiting for data that is there; and what \<open>open_sensors\<close> makes of libraries that do not
  open.
\<close>

section \<open>Waiting for data\<close>

abbreviation "E_wait_data \<equiv> E_hook ''wait_data_available'' []"
abbreviation "E_broadcast_data \<equiv> E_hook ''broadcast_data_available'' []"

text \<open>If a queue has records, the writers have broadcast since the last wait.\<close>

definition woken_since :: "event list \<Rightarrow> sensor_event event_queue list \<Rightarrow> bool" where
  "woken_since t qs \<longleftrightarrow> (\<exists>a b. t = a @ E_wait_data # b \<and> E_wait_data \<notin> set a \<and>
     ((\<exists>q \<in> set qs. mSize q \<noteq> 0) \<longrightarrow> E_broadcast_data \<in> set a))"

definition wake_inv :: "mh_sys \<Rightarrow> bool" where
  "wake_inv y \<longleftrightarrow> (reader_waits y \<longrightarrow> waiting_for_data (core y) \<and> woken_since (tr (core y)) (queues (core y)))"

lemma woken_since_more:
  "woken_since t qs \<Longrightarrow> t' = c @ t \<Longrightarrow> E_wait_data \<notin> set c \<Longrightarrow> map mSize qs' = map mSize qs \<or> E_broadcast_data \<in> set c \<Longrightarrow>
    woken_since t' qs'"
proof -
  assume t: "woken_since t qs" "t' = c @ t" "E_wait_data \<notin> set c" and q: "map mSize qs' = map mSize qs \<or> E_broadcast_data \<in> set c"
  obtain a b where a: "t = a @ E_wait_data # b" "E_wait_data \<notin> set a" "(\<exists>q \<in> set qs. mSize q \<noteq> 0) \<longrightarrow> E_broadcast_data \<in> set a"
    using t(1) unfolding woken_since_def by blast
  have "set (map mSize qs') = set (map mSize qs) \<or> E_broadcast_data \<in> set c" using q by metis
  then have "(\<exists>q \<in> set qs'. mSize q \<noteq> 0) \<longrightarrow> E_broadcast_data \<in> set (c @ a)" using a(3) by (simp add: image_def set_eq_iff) metis
  then show ?thesis using a t(2,3) unfolding woken_since_def by (intro exI [of _ "c @ a"] exI [of _ b]) simp
qed

lemma wake_step:
  assumes "wake_inv y" "waiting_for_data c = waiting_for_data (core y)" "tr c = d @ tr (core y)" "E_wait_data \<notin> set d"
    "waiting_for_data (core y) \<Longrightarrow> map mSize (queues c) = map mSize (queues (core y)) \<or> E_broadcast_data \<in> set d"
  shows "wake_inv (y\<lparr>core := c, writers := w, polled := p\<rparr>)"
  using assms woken_since_more [OF _ assms(3,4)] by (auto simp: wake_inv_def)

lemma wake_pass:
  assumes inv: "mh_inv m u y" and mx: "0 < mx" and run: "run_state (poll_pass mx) s = (out, c)"
    and s: "queues s = queues (core y)" "nextReadIndex s = nextReadIndex (core y)"
  shows "wake_inv (y\<lparr>core := c, reader_waits := (out = []), given := g\<rparr>)"
proof -
  have ok: "\<forall>q \<in> set (queues s). queue_ok q" and idx: "queues s = [] \<or> nextReadIndex s < length (queues s)"
    using inv s by (auto simp: mh_inv_def chan_ok_def in_set_conv_nth)
  obtain qs k o1 w where sc: "scan (full_to_global s) (nat mx) (queues s) (nextReadIndex s) 0 [] [] = (qs, k, o1, w)"
    by (metis prod_cases4)
  note p = poll_pass_run [OF run idx sc]
  have "wake_inv (y\<lparr>core := c, reader_waits := True, given := g\<rparr>)" if out: "out = []"
  proof -
    have "\<forall>q \<in> set qs. mSize q = 0"
    proof (cases "queues s = []")
      case True
      then show ?thesis using scan_log [OF ok sc] by simp
    next
      case False
      then show ?thesis using scan_all [OF ok sc] idx mx p(1) out by simp
    qed
    then have "\<not> (\<exists>q \<in> set (queues c). mSize q \<noteq> 0)" using p(2) by simp
    moreover obtain x where f: "run_state (for_each w (\<lambda>i. emit (E_thread C_broadcast i))) (s\<lparr>queues := qs, nextReadIndex := k\<rparr>) = ((), x)"
      by (metis surj_pair old.unit.exhaust)
    then have "waiting_for_data c \<and> tr c = E_wait_data # tr x"
      using run out idx p(1) by (auto simp: poll_pass_def sc)
    ultimately have "waiting_for_data c \<and> woken_since (tr c) (queues c)"
      unfolding woken_since_def by (intro conjI exI [of _ "[]"] exI [of _ "tr x"]) simp_all
    then show ?thesis by (simp add: wake_inv_def)
  qed
  then show ?thesis by (cases "out = []") (simp_all add: wake_inv_def)
qed

lemma mh_step_wake:
  assumes "mh_step mx y y'" "mh_inv m u y" "wake_inv y" "0 < mx"
  shows "wake_inv y'"
  using assms(1)
proof (cases rule: mh_step.cases)
  case (enter i r c)
  obtain w n where "getWritableRegion (int SENSOR_EVENT_QUEUE_CAPACITY) (queues (core y) ! i) = (w, n)" by (metis surj_pair)
  then have "waiting_for_data c = waiting_for_data (core y) \<and> queues c = queues (core y) \<and>
      (\<exists>d. tr c = d @ tr (core y) \<and> E_wait_data \<notin> set d)"
    using enter(4) by (cases w) (auto simp: writer_enter_def split: if_splits)
  then show ?thesis using wake_step [OF assms(3), where c = c and p = "polled y"] enter(1) by auto
next
  case (poll i k n es c)
  note q = mh_inv_queue [OF assms(2) poll(2)]
  have "map mSize (queues c) = map mSize (queues (core y))"
    using poll_run(1) [OF poll(4) q(5)] by (simp add: map_update fill_def) (metis list_update_id map_update q(4) nth_map length_map)
  moreover obtain d where "waiting_for_data c = waiting_for_data (core y)" "tr c = d @ tr (core y)" "E_wait_data \<notin> set d"
    using poll(4) by (auto simp: writer_poll_def upd_queue_def Let_def split: if_splits)
  ultimately show ?thesis unfolding poll(1) by (intro wake_step [OF assms(3)]) blast+
next
  case (mark i es v c)
  have "waiting_for_data c = waiting_for_data (core y) \<and>
      (\<exists>d. tr c = d @ tr (core y) \<and> E_wait_data \<notin> set d \<and> (waiting_for_data (core y) \<longrightarrow> E_broadcast_data \<in> set d))"
    using mark(4) by (auto simp: writer_mark_def upd_queue_def split: if_splits)
  then show ?thesis using wake_step [OF assms(3), where c = c and p = "polled y"] mark(1) by auto
next
  case (read out c)
  have "run_state (poll_pass mx) ((core y)\<lparr>tr := E_lock L_queue # tr (core y)\<rparr>) = (out, c)"
    using read(3) by (simp add: poll_enter_def)
  from wake_pass [OF assms(2,4) this] show ?thesis using read(1) by simp
next
  case (wake out c)
  have "run_state (poll_pass mx) ((core y)\<lparr>waiting_for_data := False\<rparr>) = (out, c)"
    using wake(3) by (simp add: poll_wake_def)
  from wake_pass [OF assms(2,4) this] show ?thesis using wake(1) by simp
qed

lemma mh_reach_wake:
  "(mh_step mx)\<^sup>*\<^sup>* y y' \<Longrightarrow> mh_inv m u y \<Longrightarrow> wake_inv y \<Longrightarrow> 0 < mx \<Longrightarrow> wake_inv y'"
  by (induction rule: rtranclp_induct) (auto intro: mh_step_wake mh_reach_inv)

lemma mh_step_length: "mh_step mx y y' \<Longrightarrow> length (writers y') = length (writers y)"
  by (auto elim!: mh_stepE)

lemma mh_reach_length: "(mh_step mx)\<^sup>*\<^sup>* y y' \<Longrightarrow> length (writers y') = length (writers y)"
  by (induction rule: rtranclp_induct) (auto dest: mh_step_length)

section \<open>Libraries that do not open\<close>

text \<open>\<open>open\<close> of a library answers the same whenever it is called; the device and its version.\<close>

definition stable_opens :: "(event list \<Rightarrow> event \<Rightarrow> reply) \<Rightarrow> bool" where
  "stable_opens e \<longleftrightarrow> (\<forall>t m. e t (E_hook ''open'' [m]) = e [] (E_hook ''open'' [m]))"

definition opens :: "(event list \<Rightarrow> event \<Rightarrow> reply) \<Rightarrow> nat \<Rightarrow> bool" where
  "opens e m \<longleftrightarrow> rv (e [] (E_hook ''open'' [int m])) = 0"

definition dev_of :: "(event list \<Rightarrow> event \<Rightarrow> reply) \<Rightarrow> nat \<Rightarrow> nat \<times> int" where
  "dev_of e m = (let r = e [] (E_hook ''open'' [int m]) in (nat (num r 0), num r 1))"

lemma open_module_run:
  assumes "stable_opens (env s)" "run_state (open_module m) s = (u, s')"
  shows "sub_hw_devices s' = sub_hw_devices s @ (if opens (env s) m then [dev_of (env s) m] else []) \<and>
    global_to_full s' = global_to_full s \<and> env s' = env s"
proof -
  have e: "env s t (E_hook ''open'' [int m]) = env s [] (E_hook ''open'' [int m])" for t
    using assms(1) unfolding stable_opens_def by blast
  show ?thesis
    using assms(2) e [of "tr s"]
    by (auto simp: open_module_def addSubHwDevice_def opens_def dev_of_def Let_def split: if_splits)
qed

lemma open_modules_run:
  assumes "stable_opens (env s)" "run_state (for_each ms open_module) s = (u, s')"
  shows "sub_hw_devices s' = sub_hw_devices s @ map (dev_of (env s)) (filter (opens (env s)) ms) \<and>
    global_to_full s' = global_to_full s"
  using assms
proof (induction ms arbitrary: s)
  case Nil
  then show ?case by simp
next
  case (Cons m ms)
  obtain v s1 where a: "run_state (open_module m) s = (v, s1)" by (metis surj_pair)
  note 1 = open_module_run [OF Cons.prems(1) a]
  have "run_state (for_each ms open_module) s1 = (u, s')" using Cons.prems(2) a by simp
  then show ?case using Cons.IH [of s1] Cons.prems(1) 1 by auto
qed

lemma open_sensors_run:
  assumes "stable_opens (env s)" "sub_hw_modules s = Some ms" "run_state open_sensors s = (r, s')"
  shows "r = 0 \<and> sub_hw_devices s' = map (dev_of (env s)) (filter (opens (env s)) ms) \<and> global_to_full s' = global_to_full s"
proof -
  let ?s = "s\<lparr>tr := E_unlock L_init_modules # E_lock L_init_modules # tr s, sub_hw_devices := [], queues := [], nextReadIndex := 0,
    sub_hw_versions := Some (\<lambda>_. None)\<rparr>"
  obtain u s1 where f: "run_state (for_each ms open_module) ?s = (u, s1)" by (metis surj_pair)
  have "r = 0 \<and> s' = s1" using assms(2,3) f by (auto simp: open_sensors_def lazy_init_modules_def)
  then show ?thesis using open_modules_run [OF _ f] assms(1) by simp
qed

end
