(* ===== verification/Props_Hal.thy ===== *)
theory Props_Hal
  imports Multihal_Wake Examples
begin

text \<open>
  The properties of the sensor HAL multiplexer.
\<close>

text \<open>
  Two libraries, 7 with the sensors 5 and 6 and 9 with the sensor 5; the first does not open, the second opens as device 90,
  which gives one event of its sensor 5 whenever it is polled.
\<close>

definition ex_event :: sensor_event where
  "ex_event = \<lparr>ev_sensor = 5, ev_type = 1, ev_meta_sensor = 0, ev_rest = 42\<rparr>"

definition ex_hal_os :: "event list \<Rightarrow> event \<Rightarrow> reply" where
  "ex_hal_os t e = (
     if e = E_hook ''get_sensors_list'' [7] then (answer 2)\<lparr>rnum := [5, 1, 0, 0, 0, 1, 6, 8, 0, 0, 0, 2]\<rparr>
     else if e = E_hook ''get_sensors_list'' [9] then (answer 1)\<lparr>rnum := [5, 4, 0, 0, 0, 3]\<rparr>
     else if e = E_hook ''open'' [7] then answer (- 1)
     else if e = E_hook ''open'' [9] then (answer 0)\<lparr>rnum := [90, SENSORS_DEVICE_API_VERSION_1_3]\<rparr>
     else case e of E_hook f xs \<Rightarrow> if f = ''poll'' \<and> xs = [90, 36] then (answer 1)\<lparr>rnum := [5, 1, 0, 42]\<rparr> else answer 0
       | _ \<Rightarrow> answer 0)"

definition ex_hal :: mh_st where
  "ex_hal = \<lparr>env = ex_hal_os, tr = [], ub = False, fl = id, sub_hw_modules = Some [7, 9], sub_hw_versions = None,
     global_to_full = (\<lambda>_. None), full_to_global = (\<lambda>_. None), next_global_handle = 1, global_sensors_list = None,
     global_sensors_count = 0, sub_hw_devices = [], queues = [], nextReadIndex = 0, waiting_for_data = False\<rparr>"

lemma ex_hal_lists: "good_lists ex_hal_os"
  by (simp add: good_lists_def ex_hal_os_def answer_def)

lemma ex_hal_opens: "stable_opens ex_hal_os" "opens ex_hal_os 9" "\<not> opens ex_hal_os 7" "fst (dev_of ex_hal_os 9) = 90"
  by (simp_all add: stable_opens_def opens_def dev_of_def ex_hal_os_def answer_def num_def)

lemma ex_hal_drivers: "good_drivers ex_hal_os"
  by (simp add: good_drivers_def ex_hal_os_def answer_def)

section \<open>Handles\<close>

text \<open>C8: the list of the front device has every sensor of every library once, in order, under the handles 1, 2, 3, ..., and
  these lead back to the library's index and the sensor's own handle, which lead to them.\<close>

theorem handles_of_list:
  assumes "before_list ms s" "good_lists (env s)" "run_state module__get_sensors_list s = ((n, xs), s')"
    "fs = full_handles (env s) 0 ms"
  shows "n = int (length xs) \<and> length xs = length fs \<and> map s_handle xs = map (\<lambda>k. 1 + int k) [0..<length xs] \<and> ub s' = ub s \<and>
    (\<forall>k < length xs. run_state (get_module_index (s_handle (xs ! k))) s' = (fst (fs ! k), s') \<and>
       run_state (get_local_handle (s_handle (xs ! k))) s' = (snd (fs ! k), s') \<and>
       0 \<le> fst (fs ! k) \<and> fst (fs ! k) < int (length ms) \<and> get_global_handle (full_to_global s') (fs ! k) = s_handle (xs ! k))"
proof -
  note r = list_run [OF assms(1-3)]
  have len: "length xs = length fs" using r(5) assms(4) by (metis length_map)
  have m: "global_to_full s' (s_handle (xs ! k)) = Some (fs ! k)" if "k < length xs" for k
    using r(5) that len assms(4) by (metis nth_map)
  have "0 \<le> fst (fs ! k) \<and> fst (fs ! k) < int (length ms)" if "k < length xs" for k
    using full_handles_range [of "fs ! k" "env s" 0 ms] that len assms(4) by simp
  moreover have "full_to_global s' (fs ! k) = Some (s_handle (xs ! k))" if "k < length xs" for k
    using r(3) m [OF that] unfolding handles_ok_def by blast
  ultimately show ?thesis
    using r(1,2,4) m len by (simp add: get_module_index_def get_local_handle_def get_global_handle_def)
qed

theorem handles_of_list_witness:
  "fst (fst (run_state module__get_sensors_list ex_hal)) = 3 \<and> full_handles ex_hal_os 0 [7, 9] = [(0, 5), (0, 6), (1, 5)]"
proof -
  obtain n xs s' where run: "run_state module__get_sensors_list ex_hal = ((n, xs), s')" by (metis surj_pair)
  have f: "full_handles ex_hal_os 0 [7, 9] = [(0, 5), (0, 6), (1, 5)]" by (simp add: ex_hal_os_def answer_def)
  have b: "before_list [7, 9] ex_hal" "good_lists (env ex_hal)" using ex_hal_lists by (simp_all add: before_list_def ex_hal_def)
  from handles_of_list [OF this run refl] have "n = int (length (full_handles (env ex_hal) 0 [7, 9]))" by (simp only:)
  then have "n = int (length (full_handles ex_hal_os 0 [7, 9]))" by (simp only: ex_hal_def mh_st.simps world.simps)
  then have "n = 3" unfolding f by simp
  then show ?thesis using run f by simp
qed

section \<open>A library that does not open\<close>

text \<open>C32: \<open>open_sensors\<close> goes on when a library does not open, but the devices after it move up: a handle of that library
  reaches the next library's device with the other's local handle, and the last library's handles give \<open>-EINVAL\<close>.\<close>

theorem failed_open_shifts:
  assumes "stable_opens (env s)" "sub_hw_modules s = Some (as @ m # bs)" "list_all (opens (env s)) (as @ bs)" "\<not> opens (env s) m"
    "run_state open_sensors s = (r, s1)" "global_to_full s1 g = Some (int i, l)" "length as \<le> i" "0 \<le> l"
    "run_state (activate g enabled) s1 = (v, s2)"
  shows "r = 0 \<and> (if i - length as < length bs
      then tr s2 = E_hook ''activate'' [int (fst (dev_of (env s) (bs ! (i - length as)))), l, enabled] # tr s1
      else v = - EINVAL \<and> s2 = s1)"
proof -
  note o = open_sensors_run [OF assms(1,2,5)]
  have "filter (opens (env s)) (as @ m # bs) = as @ bs" using assms(3,4) by (simp add: list_all_iff filter_id_conv)
  then have d: "sub_hw_devices s1 = map (dev_of (env s)) (as @ bs)" using o by simp
  have r: "r = 0" using o by simp
  have i: "run_state (get_local_handle g) s1 = (l, s1)" "run_state (get_module_index g) s1 = (int i, s1)"
    using assms(6) by (simp_all add: get_local_handle_def get_module_index_def)
  show ?thesis
  proof (cases "i - length as < length bs")
    case True
    then have "map (dev_of (env s)) (as @ bs) ! i = dev_of (env s) (bs ! (i - length as))" "i < length as + length bs"
      using assms(7) by (simp_all add: nth_append)
    then show ?thesis
      using assms(8,9) r True i d by (auto simp: activate_def get_v0_device_by_handle_def sub_call_def)
  next
    case False
    then have "length as + length bs \<le> i" using assms(7) by linarith
    then show ?thesis using assms(9) r False i d by (auto simp: activate_def get_v0_device_by_handle_def)
  qed
qed

theorem failed_open_shifts_witness:
  "let s = ex_hal\<lparr>global_to_full := [1 \<mapsto> (0, 6)]\<rparr>; s1 = snd (run_state open_sensors s) in
   hd (tr (snd (run_state (activate 1 1) s1))) = E_hook ''activate'' [90, 6, 1]"
proof -
  let ?s = "ex_hal\<lparr>global_to_full := [1 \<mapsto> (0, 6)]\<rparr>"
  obtain r s1 where o: "run_state open_sensors ?s = (r, s1)" by (metis surj_pair)
  obtain v s2 where a: "run_state (activate 1 1) s1 = (v, s2)" by (metis surj_pair)
  have e: "stable_opens (env ?s)" "sub_hw_modules ?s = Some ([] @ 7 # [9])" "list_all (opens (env ?s)) ([] @ [9])" "\<not> opens (env ?s) 7"
    using ex_hal_opens by (simp_all add: ex_hal_def)
  have "global_to_full s1 1 = Some (int 0, 6)" using open_sensors_run [OF e(1,2) o] by simp
  from failed_open_shifts [OF e o this _ _ a] have "hd (tr s2) = E_hook ''activate'' [90, 6, 1]"
    using ex_hal_opens(4) by (simp add: ex_hal_def)
  then show ?thesis using o a by simp
qed

section \<open>The queues\<close>

text \<open>C5: however the writers and the reader take turns, nothing is lost, doubled or reordered: what a device gave is what was
  taken from its queue, then what is in the queue, then what its writer has not marked yet; what \<open>poll\<close> handed out is what was
  taken, with global handles, less the events of unknown sensors; and no access leaves the queues.\<close>

theorem queues_in_order:
  assumes "fresh_queues s" "good_drivers (env s)" "(mh_step maxReads)\<^sup>*\<^sup>* (mh_start s) y"
  shows "\<exists>tk. given y = passed (full_to_global s) tk \<and> length (queues (core y)) = length (queues s) \<and> ub (core y) = ub s \<and>
    (\<forall>i < length (queues s). polled y ! i = took i tk @ contents (queues (core y) ! i) @ pending (writers y ! i))"
proof -
  have inv: "mh_inv (full_to_global s) (ub s) y"
    by (rule mh_reach_inv [OF assms(3) mh_start_inv [OF assms(1,2)]])
  have "length (writers y) = length (queues s)" using mh_reach_length [OF assms(3)] by (simp add: mh_start_def)
  then have len: "length (queues (core y)) = length (queues s)" using inv by (simp add: mh_inv_def)
  obtain tk where "given y = passed (full_to_global s) tk" "\<forall>i < length (queues (core y)).
      chan_ok (queues (core y) ! i) (writers y ! i) (polled y ! i) (took i tk)"
    using inv unfolding mh_inv_def by blast
  then show ?thesis using inv len by (intro exI [of _ tk]) (simp add: mh_inv_def chan_ok_def)
qed

text \<open>A run: the reader finds nothing and waits, the writer of device 90 polls, marks and broadcasts, and the reader wakes.\<close>

abbreviation "ev0 \<equiv> \<lparr>ev_sensor = 0, ev_type = 0, ev_meta_sensor = 0, ev_rest = 0\<rparr>"

definition hal0 :: mh_st where
  "hal0 = ex_hal\<lparr>sub_hw_devices := [(90, 0)], full_to_global := [(0, 5) \<mapsto> 1], queues := [new_queue 36 (replicate 36 ev0)]\<rparr>"

definition hal1 :: mh_st where
  "hal1 = hal0\<lparr>tr := [E_wait_data, E_lock L_queue], waiting_for_data := True\<rparr>"

definition hal2 :: mh_st where
  "hal2 = hal1\<lparr>tr := E_unlock L_queue # E_lock L_queue # tr hal1\<rparr>"

definition hal3 :: mh_st where
  "hal3 = hal2\<lparr>tr := E_hook ''poll'' [90, 36] # tr hal2, queues := [fill 0 [ex_event] (new_queue 36 (replicate 36 ev0))]\<rparr>"

definition hal4 :: mh_st where
  "hal4 = hal3\<lparr>tr := E_unlock L_queue # E_broadcast_data # E_lock L_queue # tr hal3,
     queues := [markAsWritten 1 (fill 0 [ex_event] (new_queue 36 (replicate 36 ev0)))]\<rparr>"

lemmas hal_defs = hal1_def hal2_def hal3_def hal4_def hal0_def ex_hal_def

lemma hal_read: "run_state (poll_enter 4) hal0 = ([], hal1)"
proof -
  have "scan m (nat 4) [new_queue 36 (replicate 36 ev0)] 0 0 [] [] = ([new_queue 36 (replicate 36 ev0)], 0, [], [])" for m
    by (subst scan.simps, subst scan.simps) (simp add: peek_def new_queue_def)
  then show ?thesis by (simp add: poll_enter_def poll_pass_def hal_defs)
qed

lemma hal_enter: "run_state (writer_enter 0) hal1 = (Some (0, 36), hal2)"
  by (simp add: writer_enter_def must_wait_def getWritableRegion_def new_queue_def SENSOR_EVENT_QUEUE_CAPACITY_def hal_defs)

lemma hal_poll: "run_state (writer_poll 0 0 36) hal2 = ([ex_event], hal3)"
  by (simp add: writer_poll_def upd_queue_def Let_def hal_defs ex_hal_os_def answer_def ex_event_def)

lemma hal_mark: "run_state (writer_mark 0 1) hal3 = ((), hal4)"
  by (simp add: writer_mark_def upd_queue_def hal_defs)

lemma hal_wake: "fst (run_state (poll_wake 4) hal4) = [ex_event\<lparr>ev_sensor := 1\<rparr>]"
proof -
  let ?q = "markAsWritten 1 (fill 0 [ex_event] (new_queue 36 (replicate 36 ev0)))"
  have "\<exists>qs k w. scan [(0, 5) \<mapsto> 1] (nat 4) [?q] 0 0 [] [] = (qs, k, [ex_event\<lparr>ev_sensor := 1\<rparr>], w)"
    by (subst scan.simps, subst scan.simps, subst scan.simps)
      (simp add: peek_def dequeue_def new_queue_def fill_def markAsWritten_def copy_event_remap_handle_def get_global_handle_def
        SENSOR_TYPE_META_DATA_def ex_event_def)
  then obtain qs k w where "scan [(0, 5) \<mapsto> 1] (nat 4) [?q] 0 0 [] [] = (qs, k, [ex_event\<lparr>ev_sensor := 1\<rparr>], w)" by blast
  then show ?thesis by (simp add: poll_wake_def poll_pass_def hal_defs split_beta)
qed

definition hal_y4 :: mh_sys where
  "hal_y4 = \<lparr>core = hal4, writers = [W_enter], reader_waits = True, polled = [[ex_event]], given = []\<rparr>"

lemma hal_run: "(mh_step 4)\<^sup>*\<^sup>* (mh_start hal0) hal_y4"
proof -
  have q: "length (queues hal0) = 1" by (simp add: hal_defs)
  let ?y1 = "\<lparr>core = hal1, writers = [W_enter], reader_waits = True, polled = [[]], given = []\<rparr>"
  let ?y2 = "?y1\<lparr>core := hal2, writers := [W_poll 0 36]\<rparr>"
  let ?y3 = "?y2\<lparr>core := hal3, writers := [W_mark [ex_event]], polled := [[ex_event]]\<rparr>"
  have "mh_step 4 (mh_start hal0) ?y1"
    using mh_step.read [of "mh_start hal0" 4 "[]" hal1] hal_read q by (simp add: mh_start_def)
  moreover have "mh_step 4 ?y1 ?y2" using mh_step.enter [of 0 ?y1 "Some (0, 36)" hal2] hal_enter by simp
  moreover have "mh_step 4 ?y2 ?y3" using mh_step.poll [of 0 ?y2 0 36 "[ex_event]" hal3] hal_poll by simp
  moreover have "mh_step 4 ?y3 hal_y4" using mh_step.mark [of 0 ?y3 "[ex_event]"] hal_mark by (simp add: hal_y4_def)
  ultimately show ?thesis by (meson rtranclp.rtrancl_into_rtrancl rtranclp.rtrancl_refl)
qed

lemma hal_fresh: "fresh_queues hal0" "good_drivers (env hal0)"
  using new_queue_ok [of 36 "replicate 36 ev0"] ex_hal_drivers
  by (simp_all add: fresh_queues_def hal_defs new_queue_def SENSOR_EVENT_QUEUE_CAPACITY_def)

theorem queues_in_order_witness:
  "\<exists>y tk. (mh_step 4)\<^sup>*\<^sup>* (mh_start hal0) y \<and> given y = [ex_event\<lparr>ev_sensor := 1\<rparr>] \<and> given y = passed [(0, 5) \<mapsto> 1] tk"
proof -
  obtain out c where w: "run_state (poll_wake 4) hal4 = (out, c)" by (metis surj_pair)
  let ?y = "hal_y4\<lparr>core := c, reader_waits := (out = []), given := given hal_y4 @ out\<rparr>"
  have "mh_step 4 hal_y4 ?y" using w by (intro mh_step.wake) (simp_all add: hal_y4_def)
  with hal_run have r: "(mh_step 4)\<^sup>*\<^sup>* (mh_start hal0) ?y" by simp
  moreover have "given ?y = [ex_event\<lparr>ev_sensor := 1\<rparr>]" using w hal_wake by (simp add: hal_y4_def)
  moreover have "full_to_global hal0 = [(0, 5) \<mapsto> 1]" by (simp add: hal_defs)
  ultimately show ?thesis using queues_in_order [OF hal_fresh r] by metis
qed

text \<open>C33: no wake-up is lost: while the reader waits for data and a queue has a record, the writers have broadcast since the wait
  began.\<close>

theorem reader_woken:
  assumes "fresh_queues s" "good_drivers (env s)" "0 < maxReads" "(mh_step maxReads)\<^sup>*\<^sup>* (mh_start s) y" "reader_waits y"
    "q \<in> set (queues (core y))" "getSize q \<noteq> 0"
  shows "\<exists>a b. tr (core y) = a @ E_wait_data # b \<and> E_wait_data \<notin> set a \<and> E_broadcast_data \<in> set a"
proof -
  have "wake_inv (mh_start s)" by (simp add: wake_inv_def mh_start_def)
  from mh_reach_wake [OF assms(4) mh_start_inv [OF assms(1,2)] this assms(3)] have "wake_inv y" .
  then show ?thesis using assms(5-7) unfolding wake_inv_def woken_since_def getSize_def by blast
qed

theorem reader_woken_witness:
  "\<exists>y. (mh_step 4)\<^sup>*\<^sup>* (mh_start hal0) y \<and> reader_waits y \<and> E_broadcast_data \<in> set (tr (core y))"
proof -
  have "reader_waits hal_y4" by (simp add: hal_y4_def)
  moreover have "\<exists>a b. tr (core hal_y4) = a @ E_wait_data # b \<and> E_wait_data \<notin> set a \<and> E_broadcast_data \<in> set a"
    by (rule reader_woken [OF hal_fresh _ hal_run calculation, of "hd (queues hal4)"])
      (simp_all add: hal_y4_def hal_defs getSize_def markAsWritten_def)
  ultimately show ?thesis using hal_run by auto
qed

end
