(* ===== verification/Loc_Adapter.thy ===== *)
theory Loc_Adapter
  imports Agps
begin

text \<open>
  The state of the location engine (\<open>loc_eng_data_s_type\<close> of \<open>loc_eng.h\<close>, with its adapter and the static variables of
  \<open>loc.cpp\<close>, \<open>loc_cfg.cpp\<close>, \<open>loc_target.cpp\<close>, \<open>LocDualContext.cpp\<close>) and the adapter of \<open>LocEngAdapter.h\<close>/\<open>.cpp\<close>. The location API below the adapter and a
  ULP proxy other than the base class are libraries: their functions are events answered by \<open>env\<close>. A callback is a number,
  0 for \<open>NULL\<close>.
\<close>

text \<open>The configuration (\<open>loc_gps_cfg_s_type\<close>, \<open>loc_sap_cfg_s_type\<close>).\<close>

record gps_cfg =
  INTERMEDIATE_POS :: int
  ACCURACY_THRES :: int
  NMEA_PROVIDER :: int
  SUPL_VER :: int
  CAPABILITIES :: int
  QUIPC_ENABLED :: int
  LPP_PROFILE :: int
  A_GLONASS_POS_PROTOCOL_SELECT :: int

text \<open>A random walk is a value and whether it is valid, in the order of the table; the batches are in the order of the message.\<close>

record sap_cfg =
  random_walks :: "(bool \<times> rat) list"
  perf_control :: "int list"
  SENSOR_USAGE :: int

record loc_st = agps_st +
  dl :: "rat \<Rightarrow> rat"
  gps_conf :: gps_cfg
  sap_conf :: sap_cfg
  configAlreadyRead :: bool
  agpsStatus :: int
  mLocAdapters :: "nat list"
  mEvtMask :: int
  mExcludedMask :: int
  mUlp :: nat
  mFixCriteria :: loc_pos_mode
  mNavigating :: bool
  mCPIEnabled :: bool
  location_cb :: nat
  status_cb :: nat
  sv_status_cb :: nat
  nmea_cb :: nat
  ni_notify_cb :: nat
  request_utc_time_cb :: nat
  location_ext_parser :: nat
  sv_ext_parser :: nat
  intermediateFix :: int
  download_request_cb :: nat
  report_xtra_server_cb :: nat
  respTimeLeft :: int
  respRecvd :: bool
  rawRequest :: nat
  reqID :: int
  resp :: int
  engine_status :: int
  fix_session_status :: int
  aiding_data_for_deletion :: int
  mute_session_state :: int
  generateNmea :: bool
  sv_used_mask :: int
  hdop :: rat
  pdop :: rat
  vdop :: rat
  supl_server :: "(string \<times> int) option"
  c2k_server :: "(string \<times> int) option"
  acquire_wakelock_cb :: nat
  release_wakelock_cb :: nat
  DEBUG_LEVEL :: int
  TIMESTAMP :: int
  loc_logger :: "int \<times> int"
  gTarget :: int
  mMsgTask :: bool
  mFgContext :: bool
  mLBSProxy :: nat
  mLocApi :: nat
  gps_loc_cb :: nat
  gps_sv_cb :: nat
  gss_fd :: int
  cpi_initialized :: bool
  enable_cpi :: bool
  geofence_interface :: nat

definition eng_send :: "eng_msg \<Rightarrow> ('a srv_st_scheme, unit) state" where
  "eng_send m = send_msg (Eng_msg m)"

section \<open>Calls below and beside the adapter\<close>

text \<open>A function of the location API, with whole numbers and with floats.\<close>

definition api_call :: "string \<Rightarrow> int list \<Rightarrow> ('a world_scheme, int) state" where
  "api_call f xs = do { r \<leftarrow> call (E_hook f xs); ret (rv r) }"

definition api_callf :: "string \<Rightarrow> int list \<Rightarrow> rat list \<Rightarrow> ('a world_scheme, int) state" where
  "api_callf f xs rs = do { r \<leftarrow> call (E_bsc f xs rs); ret (rv r) }"

text \<open>A function of the ULP proxy; \<open>UlpProxyBase\<close>, 0 here, answers \<open>false\<close>.\<close>

definition ulp_call :: "string \<Rightarrow> int list \<Rightarrow> rat list \<Rightarrow> ('a loc_st_scheme, bool) state" where
  "ulp_call f xs rs = do {
     u \<leftarrow> gets mUlp;
     if u = 0 then ret False else do { r \<leftarrow> call (E_bsc f (int u # xs) rs); ret (rv r \<noteq> 0) }
   }"

definition str_ints :: "string \<Rightarrow> int list" where
  "str_ints a = map of_char a"

definition pos_mode_ints :: "loc_pos_mode \<Rightarrow> int list" where
  "pos_mode_ints p = [pm_mode p, recurrence p, min_interval p, preferred_accuracy p, preferred_time p] @
     str_ints (credentials p) @ 0 # str_ints (provider p)"

definition location_ints :: "ulp_location \<Rightarrow> int list" where
  "location_ints l = [gl_flags (gpsLocation l), timestamp (gpsLocation l), position_source l, rawDataSize l, int (rawData l)]"

definition location_rats :: "ulp_location \<Rightarrow> rat list" where
  "location_rats l = (let g = gpsLocation l in [latitude g, longitude g, altitude g, speed g, bearing g, accuracy g])"

definition sv_ints :: "sv_status \<Rightarrow> int list" where
  "sv_ints v = [num_svs v, ephemeris_mask v, almanac_mask v, used_in_fix_mask v] @ map prn (sv_list v)"

definition sv_rats :: "sv_status \<Rightarrow> rat list" where
  "sv_rats v = concat (map (\<lambda>x. [snr x, elevation x, azimuth x]) (sv_list v))"

section \<open>The adapter\<close>

text \<open>What the proxy calls in the internal adapter.\<close>

definition setPositionModeInt :: "loc_pos_mode \<Rightarrow> ('a srv_st_scheme, unit) state" where
  "setPositionModeInt posMode = eng_send (LocEngPositionMode posMode)"

definition startFixInt :: "('a srv_st_scheme, unit) state" where
  "startFixInt = eng_send LocEngStartFix"

definition stopFixInt :: "('a srv_st_scheme, unit) state" where
  "stopFixInt = eng_send LocEngStopFix"

definition int_setUlpProxy :: "nat \<Rightarrow> ('a srv_st_scheme, unit) state" where
  "int_setUlpProxy ulp = eng_send (LocSetUlpProxy ulp)"

definition startFix :: "('a loc_st_scheme, int) state" where
  "startFix = do { p \<leftarrow> gets mFixCriteria; api_call ''startFix'' (pos_mode_ints p) }"

definition stopFix :: "('a world_scheme, int) state" where
  "stopFix = api_call ''stopFix'' []"

definition isInSession :: "('a loc_st_scheme, bool) state" where
  "isInSession = gets mNavigating"

definition setInSession :: "bool \<Rightarrow> ('a loc_st_scheme, unit) state" where
  "setInSession inSession = do {
     modify (\<lambda>s. s\<lparr>mNavigating := inSession\<rparr>);
     emit (E_hook ''setInSession'' [of_cbool inSession]);
     (if \<not> inSession then modify (\<lambda>s. s\<lparr>mFixCriteria := (mFixCriteria s)\<lparr>pm_mode := LOC_POSITION_MODE_INVALID\<rparr>\<rparr>) else ret ())
   }"

text \<open>The mode is \<open>None\<close> for \<open>NULL\<close>: the one the adapter has is sent again.\<close>

definition setPositionMode :: "loc_pos_mode option \<Rightarrow> ('a loc_st_scheme, int) state" where
  "setPositionMode posMode = do {
     (case posMode of None \<Rightarrow> ret () | Some p \<Rightarrow> modify (\<lambda>s. s\<lparr>mFixCriteria := p\<rparr>));
     p \<leftarrow> gets mFixCriteria;
     api_call ''setPositionMode'' (pos_mode_ints p)
   }"

text \<open>The base proxies are no objects of the model; one that is replaced is deleted.\<close>

definition setUlpProxy :: "nat \<Rightarrow> ('a loc_st_scheme, unit) state" where
  "setUlpProxy ulp = do {
     u \<leftarrow> gets mUlp;
     if ulp = u \<and> ulp \<noteq> 0 then ret ()
     else do {
       (if u \<noteq> 0 then emit (E_free u) else ret ());
       modify (\<lambda>s. s\<lparr>mUlp := ulp\<rparr>);
       p \<leftarrow> gets mFixCriteria;
       if pm_mode p \<noteq> LOC_POSITION_MODE_INVALID then do {
         _ \<leftarrow> ulp_call ''sendFixMode'' (pos_mode_ints p) [];
         _ \<leftarrow> ulp_call ''sendStartFix'' [] [];
         ret ()
       } else ret ()
     }
   }"

text \<open>
  The reports of the location API, which call the proxy first and the internal adapter if it does not take them. The
  extension data are given to the parser when the message is made; \<open>noProc\<close>, 0 here, answers \<open>NULL\<close>.
\<close>

definition parse_ext :: "nat \<Rightarrow> nat \<Rightarrow> ('a world_scheme, nat) state" where
  "parse_ext parser ext =
     (if parser = 0 then ret 0 else do { r \<leftarrow> call (E_hook ''parse_ext'' [int parser, int ext]); ret (nat (rv r)) })"

definition int_reportPosition :: "ulp_location \<Rightarrow> gps_location_extended \<Rightarrow> nat \<Rightarrow> int \<Rightarrow> int \<Rightarrow> ('a loc_st_scheme, unit) state" where
  "int_reportPosition l lx ext status tech = do {
     parser \<leftarrow> gets location_ext_parser;
     e \<leftarrow> parse_ext parser ext;
     eng_send (LocEngReportPosition l lx e status tech)
   }"

definition reportPosition :: "ulp_location \<Rightarrow> gps_location_extended \<Rightarrow> nat \<Rightarrow> int \<Rightarrow> int \<Rightarrow> ('a loc_st_scheme, unit) state" where
  "reportPosition l lx ext status tech = do {
     b \<leftarrow> ulp_call ''reportPosition'' (location_ints l @ [int ext, status, tech]) (location_rats l);
     (if b then ret () else int_reportPosition l lx ext status tech)
   }"

definition int_reportSv :: "sv_status \<Rightarrow> gps_location_extended \<Rightarrow> nat \<Rightarrow> ('a loc_st_scheme, unit) state" where
  "int_reportSv v lx ext = do {
     parser \<leftarrow> gets sv_ext_parser;
     e \<leftarrow> parse_ext parser ext;
     eng_send (LocEngReportSv v lx e)
   }"

definition reportSv :: "sv_status \<Rightarrow> gps_location_extended \<Rightarrow> nat \<Rightarrow> ('a loc_st_scheme, unit) state" where
  "reportSv v lx ext = do {
     b \<leftarrow> ulp_call ''reportSv'' (int ext # sv_ints v) (sv_rats v);
     (if b then ret () else int_reportSv v lx ext)
   }"

definition reportStatus :: "int \<Rightarrow> ('a loc_st_scheme, unit) state" where
  "reportStatus status = do {
     b \<leftarrow> ulp_call ''reportStatus'' [status] [];
     (if b then ret () else eng_send (LocEngReportStatus status))
   }"

definition reportNmea :: "string \<Rightarrow> nat \<Rightarrow> ('a srv_st_scheme, unit) state" where
  "reportNmea nmea len = do { must (len \<le> length nmea); eng_send (LocEngReportNmea (take len nmea)) }"

text \<open>The reports that only an adapter with AGPS takes; the result says whether it did.\<close>

definition if_agps :: "loc_msg \<Rightarrow> ('a agps_st_scheme, bool) state" where
  "if_agps m = do { on \<leftarrow> gets mAgpsEnabled; (if on then send_msg m else ret ()); ret on }"

text \<open>Each URL is copied by \<open>strlcpy\<close> into a field of \<open>maxlength + 1\<close> bytes with a size of \<open>maxlength\<close>.\<close>

definition xtra_url :: "int \<Rightarrow> string \<Rightarrow> string" where
  "xtra_url maxlength url = take (nat (maxlength - 1)) (cstr url)"

definition reportXtraServer :: "string \<Rightarrow> string \<Rightarrow> string \<Rightarrow> int \<Rightarrow> ('a agps_st_scheme, bool) state" where
  "reportXtraServer url1 url2 url3 maxlength =
     if_agps (Eng_msg (LocEngReportXtraServer (xtra_url maxlength url1) (xtra_url maxlength url2) (xtra_url maxlength url3)))"

definition releaseATL :: "int \<Rightarrow> ('a agps_st_scheme, bool) state" where
  "releaseATL connHandle = if_agps (LocEngReleaseATL connHandle)"

definition requestXtraData :: "('a agps_st_scheme, bool) state" where
  "requestXtraData = if_agps (Eng_msg LocEngRequestXtra)"

definition requestTime :: "('a agps_st_scheme, bool) state" where
  "requestTime = if_agps (Eng_msg LocEngRequestTime)"

definition NI_SIZE :: int where "NI_SIZE = 3360"

definition requestNiNotify :: "ni_notification \<Rightarrow> nat \<Rightarrow> ('a agps_st_scheme, bool) state" where
  "requestNiNotify notif payload =
     if_agps (Eng_msg (LocEngRequestNi (notif\<lparr>ni_size := NI_SIZE, timeout := LOC_NI_NO_RESPONSE_TIME\<rparr>) payload))"

definition reportDataCallOpened :: "('a agps_st_scheme, bool) state" where
  "reportDataCallOpened = if_agps LocEngSuplEsOpened"

definition reportDataCallClosed :: "('a agps_st_scheme, bool) state" where
  "reportDataCallClosed = if_agps LocEngSuplEsClosed"

definition handleEngineDownEvent :: "('a srv_st_scheme, unit) state" where
  "handleEngineDownEvent = eng_send LocEngDown"

definition handleEngineUpEvent :: "('a srv_st_scheme, unit) state" where
  "handleEngineUpEvent = eng_send LocEngUp"

end
