(* ===== verification/Nmea.thy ===== *)
theory Nmea
  imports Loc_Adapter
begin

text \<open>
  \<open>gps/loc_api/libloc_api_50001/loc_eng_nmea.cpp\<close>: the NMEA sentences made of a position or of the satellites in view. Doubles
  and floats are rational numbers, rounded by \<open>dl\<close> and \<open>fl\<close>; that a zero has a sign only matters for a latitude of 0,
  where the code negates it.
\<close>

section \<open>Printing\<close>

definition pad0 :: "nat \<Rightarrow> string \<Rightarrow> string" where
  "pad0 w s = replicate (w - length s) (CHR ''0'') @ s"

text \<open>\<open>%0wd\<close> and \<open>%.pd\<close>.\<close>

definition print_0d :: "nat \<Rightarrow> int \<Rightarrow> string" where
  "print_0d w x = (if x < 0 then CHR ''-'' # pad0 (w - 1) (nat_str (nat (- x))) else pad0 w (nat_str (nat x)))"

definition print_pd :: "nat \<Rightarrow> int \<Rightarrow> string" where
  "print_pd p x = (if x < 0 then CHR ''-'' # pad0 p (nat_str (nat (- x))) else pad0 p (nat_str (nat x)))"

definition round_half_even :: "rat \<Rightarrow> int" where
  "round_half_even x = (let f = \<lfloor>x\<rfloor>; r = x - of_int f in
     if r < 1 / 2 \<or> r = 1 / 2 \<and> even f then f else f + 1)"

text \<open>\<open>%0w.df\<close> of a magnitude and a sign.\<close>

definition print_f :: "nat \<Rightarrow> nat \<Rightarrow> bool \<Rightarrow> rat \<Rightarrow> string" where
  "print_f w d neg m = (let n = nat (round_half_even (m * 10 ^ d)); sgn = (if neg then ''-'' else []) in
     sgn @ pad0 (w - length sgn) (nat_str (n div 10 ^ d) @ CHR ''.'' # pad0 d (nat_str (n mod 10 ^ d))))"

definition print_f1 :: "rat \<Rightarrow> string" where
  "print_f1 x = print_f 0 1 (x < 0) \<bar>x\<bar>"

definition trunc :: "rat \<Rightarrow> int" where
  "trunc x = (if x < 0 then - \<lfloor>- x\<rfloor> else \<lfloor>x\<rfloor>)"

text \<open>\<open>gmtime\<close> of the C library, for the civil calendar; a 32-bit \<open>time_t\<close> never makes it fail.\<close>

record civil_time =
  tm_year :: int
  tm_mon :: int
  tm_mday :: int
  tm_hour :: int
  tm_min :: int
  tm_sec :: int

definition gmtime :: "int \<Rightarrow> civil_time" where
  "gmtime t = (let z = t div 86400 + 719468; sod = t mod 86400;
       era = z div 146097; doe = z mod 146097;
       yoe = (doe - doe div 1460 + doe div 36524 - doe div 146096) div 365;
       doy = doe - (365 * yoe + yoe div 4 - yoe div 100);
       mp = (5 * doy + 2) div 153;
       m = (if mp < 10 then mp + 2 else mp - 10)
     in \<lparr>tm_year = yoe + era * 400 + (if m \<le> 1 then 1 else 0) - 1900, tm_mon = m, tm_mday = doy - (153 * mp + 2) div 5 + 1,
         tm_hour = sod div 3600, tm_min = sod mod 3600 div 60, tm_sec = sod mod 60\<rparr>)"

section \<open>The buffer of a sentence\<close>

definition NMEA_SENTENCE_MAX_LENGTH :: nat where "NMEA_SENTENCE_MAX_LENGTH = 200"

text \<open>\<open>snprintf\<close> at the marker with the check after it, and the last one of a sentence, which has none.\<close>

definition sn_put :: "string \<Rightarrow> string \<Rightarrow> string option" where
  "sn_put acc p = (if NMEA_SENTENCE_MAX_LENGTH - length acc \<le> length p then None else Some (acc @ p))"

fun build :: "string list \<Rightarrow> string \<Rightarrow> string option" where
  "build [] acc = Some acc"
| "build (p # ps) acc = (case sn_put acc p of None \<Rightarrow> None | Some acc' \<Rightarrow> build ps acc')"

definition last_piece :: "string \<Rightarrow> string \<Rightarrow> string" where
  "last_piece acc p = acc @ take (NMEA_SENTENCE_MAX_LENGTH - 1 - length acc) p"

definition xor_bytes :: "string \<Rightarrow> nat" where
  "xor_bytes s = fold (\<lambda>c k. xor k (of_char c)) s 0"

definition hex_chr :: "nat \<Rightarrow> char" where
  "hex_chr d = char_of (if d < 10 then 48 + d else 55 + d)"

definition hex2 :: "nat \<Rightarrow> string" where
  "hex2 n = [hex_chr (n div 16), hex_chr (n mod 16)]"

text \<open>The sentence with its checksum, and the length that is returned.\<close>

definition loc_eng_nmea_put_checksum :: "string \<Rightarrow> nat \<Rightarrow> string \<times> int" where
  "loc_eng_nmea_put_checksum pNmea maxSize = (let body = tl pNmea; sum = CHR ''*'' # hex2 (xor_bytes body) @ [CHR 0x0D, CHR 0x0A] in
     (pNmea @ take (maxSize - length body - 2) sum, int (length body) + 5))"

definition loc_eng_nmea_send :: "string \<Rightarrow> int \<Rightarrow> ('a loc_st_scheme, unit) state" where
  "loc_eng_nmea_send pNmea len = do {
     r \<leftarrow> call (E_time T_gettimeofday);
     let now = num r 0 * 1000 + num r 1 div 1000;
     cb \<leftarrow> gets nmea_cb;
     (if cb \<noteq> 0 then emit (E_hook ''nmea_cb'' (now # len # str_ints pNmea)) else ret ())
   }"

definition send_sentence :: "string \<Rightarrow> ('a loc_st_scheme, unit) state" where
  "send_sentence s = (case loc_eng_nmea_put_checksum s NMEA_SENTENCE_MAX_LENGTH of (s', len) \<Rightarrow> loc_eng_nmea_send s' len)"

text \<open>
  Sentences one after the other, each with what must hold while it is made, its pieces and its last piece; the result says
  whether all of them fit.
\<close>

primrec sentences :: "(bool \<times> string list \<times> string) list \<Rightarrow> ('a loc_st_scheme, bool) state" where
  "sentences [] = ret True"
| "sentences (x # xs) = (case x of (b, ps, p) \<Rightarrow> do {
     must b;
     (case build ps [] of
        None \<Rightarrow> ret False
      | Some acc \<Rightarrow> do { send_sentence (last_piece acc p); sentences xs })
   })"

definition send_blanks :: "('a loc_st_scheme, unit) state" where
  "send_blanks = do {
     send_sentence ''$GPGSA,A,1,,,,,,,,,,,,,,,'';
     send_sentence ''$GPVTG,,T,,M,,N,,K,N'';
     send_sentence ''$GPRMC,,V,,,,,,,,,,N'';
     send_sentence ''$GPGGA,,,,,,0,,,,,,,,''
   }"

section \<open>The sentences of a position\<close>

text \<open>The numbers of the satellites of a mask, from \<open>i\<close> on.\<close>

fun used_svs :: "nat \<Rightarrow> nat \<Rightarrow> nat list" where
  "used_svs i m = (if m = 0 then [] else (if odd m then [i] else []) @ used_svs (i + 1) (m div 2))"

declare used_svs.simps [simp del]

text \<open>The dilutions of precision: of the report, else those cached if all are positive.\<close>

definition dops :: "'a loc_st_scheme \<Rightarrow> gps_location_extended \<Rightarrow> (rat \<times> rat \<times> rat) option" where
  "dops s lx = (if has_bit (gx_flags lx) GPS_LOCATION_EXTENDED_HAS_DOP then Some (gx_pdop lx, gx_hdop lx, gx_vdop lx)
     else if 0 < pdop s \<and> 0 < hdop s \<and> 0 < vdop s then Some (pdop s, hdop s, vdop s) else None)"

definition gsa :: "'a loc_st_scheme \<Rightarrow> gps_location_extended \<Rightarrow> nat list \<Rightarrow> string list \<times> string" where
  "gsa s lx used =
     (let fixType = (if used = [] then CHR ''1'' else if length used \<le> 3 then CHR ''2'' else CHR ''3'') in
      ((''$GPGSA,A,'' @ [fixType] @ '','') #
         map (\<lambda>i. if i < length used then print_0d 2 (swrap 32 (int (used ! i))) @ '','' else '','') [0..<12],
       (case dops s lx of
          Some (p, h, v) \<Rightarrow> print_f1 p @ '','' @ print_f1 h @ '','' @ print_f1 v
        | None \<Rightarrow> '',,'')))"

definition has_fix :: "ulp_location \<Rightarrow> bool" where
  "has_fix l \<longleftrightarrow> has_bit (gl_flags (gpsLocation l)) GPS_LOCATION_HAS_LAT_LONG"

definition mode_char :: "'a loc_st_scheme \<Rightarrow> ulp_location \<Rightarrow> char" where
  "mode_char s l = (if \<not> has_fix l then CHR ''N''
     else if pm_mode (mFixCriteria s) = LOC_POSITION_MODE_STANDALONE then CHR ''A'' else CHR ''D'')"

definition knots :: "'a loc_st_scheme \<Rightarrow> rat \<Rightarrow> rat" where
  "knots s v = fl s (dl s (v * dl s (3600 / 1852)))"

text \<open>\<open>magTrack\<close> is the bearing: the corrected one is a variable of an inner block.\<close>

definition vtg :: "'a loc_st_scheme \<Rightarrow> ulp_location \<Rightarrow> string list \<times> string" where
  "vtg s l = (let g = gpsLocation l in
     ([if has_bit (gl_flags g) GPS_LOCATION_HAS_BEARING
       then ''$GPVTG,'' @ print_f1 (bearing g) @ '',T,'' @ print_f1 (bearing g) @ '',M,'' else ''$GPVTG,,T,,M,'',
       if has_bit (gl_flags g) GPS_LOCATION_HAS_SPEED
       then print_f1 (knots s (speed g)) @ '',N,'' @ print_f1 (fl s (dl s (speed g * dl s (36 / 10)))) @ '',K,'' else '',N,,K,''],
      [mode_char s l]))"

definition minutes :: "'a loc_st_scheme \<Rightarrow> rat \<Rightarrow> rat" where
  "minutes s x = (let y = dl s (x * 60) in y - 60 * of_int \<lfloor>y / 60\<rfloor>)"

text \<open>A latitude of 0 becomes a negative zero, whose sign \<open>fmod\<close> keeps.\<close>

definition lat_long :: "'a loc_st_scheme \<Rightarrow> ulp_location \<Rightarrow> string" where
  "lat_long s l = (let la = latitude (gpsLocation l); lo = longitude (gpsLocation l) in
     if has_fix l then
       print_0d 2 (\<lfloor>\<bar>la\<bar>\<rfloor> mod 256) @ print_f 9 6 (la = 0) (minutes s \<bar>la\<bar>) @ '','' @ (if 0 < la then ''N'' else ''S'') @ '','' @
       print_0d 3 (\<lfloor>\<bar>lo\<bar>\<rfloor> mod 256) @ print_f 9 6 False (minutes s \<bar>lo\<bar>) @ '','' @ (if lo < 0 then ''W'' else ''E'') @ '',''
     else '',,,,'')"

definition lat_long_fits :: "ulp_location \<Rightarrow> bool" where
  "lat_long_fits l \<longleftrightarrow> (has_fix l \<longrightarrow> \<bar>latitude (gpsLocation l)\<bar> < 256 \<and> \<bar>longitude (gpsLocation l)\<bar> < 256)"

definition hms :: "civil_time \<Rightarrow> string" where
  "hms t = print_0d 2 (tm_hour t) @ print_0d 2 (tm_min t) @ print_0d 2 (tm_sec t)"

definition rmc :: "'a loc_st_scheme \<Rightarrow> civil_time \<Rightarrow> ulp_location \<Rightarrow> gps_location_extended \<Rightarrow> string list \<times> string" where
  "rmc s t l lx = (let g = gpsLocation l in
     ([''$GPRMC,'' @ hms t @ '',A,'',
       lat_long s l,
       if has_bit (gl_flags g) GPS_LOCATION_HAS_SPEED then print_f1 (knots s (speed g)) @ '','' else '','',
       if has_bit (gl_flags g) GPS_LOCATION_HAS_BEARING then print_f1 (bearing g) @ '','' else '','',
       print_pd 2 (tm_mday t) @ print_pd 2 (tm_mon t + 1) @ print_pd 2 (tm_year t smod 100) @ '','',
       if has_bit (gx_flags lx) GPS_LOCATION_EXTENDED_HAS_MAG_DEV
       then print_f1 \<bar>magneticDeviation lx\<bar> @ '','' @ (if magneticDeviation lx < 0 then ''W'' else ''E'') @ '','' else '',,''],
      [mode_char s l]))"

definition gga :: "'a loc_st_scheme \<Rightarrow> civil_time \<Rightarrow> ulp_location \<Rightarrow> gps_location_extended \<Rightarrow> nat list \<Rightarrow> string list \<times> string" where
  "gga s t l lx used = (let g = gpsLocation l;
       gpsQuality = (if \<not> has_fix l then CHR ''0''
         else if pm_mode (mFixCriteria s) = LOC_POSITION_MODE_STANDALONE then CHR ''1'' else CHR ''2'');
       msl = has_bit (gx_flags lx) GPS_LOCATION_EXTENDED_HAS_ALTITUDE_MEAN_SEA_LEVEL in
     ([''$GPGGA,'' @ hms t @ '','',
       lat_long s l,
       [gpsQuality] @ '','' @ print_0d 2 (int (length used)) @ '','' @ (case dops s lx of Some (_, h, _) \<Rightarrow> print_f1 h | None \<Rightarrow> []) @ '','',
       if msl then print_f1 (altitudeMeanSeaLevel lx) @ '',M,'' else '',,''],
      (if has_bit (gl_flags g) GPS_LOCATION_HAS_ALTITUDE \<and> msl
       then print_f1 (dl s (altitude g - altitudeMeanSeaLevel lx)) @ '',M,,'' else '',,,'')))"

definition loc_eng_nmea_generate_pos :: "ulp_location \<Rightarrow> gps_location_extended \<Rightarrow> bool \<Rightarrow> ('a loc_st_scheme, unit) state" where
  "loc_eng_nmea_generate_pos l lx generate_nmea = do {
     let t = gmtime (swrap 32 (timestamp (gpsLocation l) sdiv 1000));
     s \<leftarrow> gets id;
     ok \<leftarrow> (if generate_nmea then do {
         let used = used_svs 1 (nat (uwrap 32 (sv_used_mask s)));
         modify (\<lambda>s. s\<lparr>sv_used_mask := 0\<rparr>);
         sentences [(True, gsa s lx used), (True, vtg s l), (lat_long_fits l, rmc s t l lx), (lat_long_fits l, gga s t l lx used)]
       } else do { send_blanks; ret True });
     (if ok then modify (\<lambda>s. s\<lparr>pdop := 0, hdop := 0, vdop := 0\<rparr>) else ret ())
   }"

section \<open>The sentences of the satellites\<close>

definition is_gps :: "int \<Rightarrow> bool" where "is_gps p \<longleftrightarrow> 1 \<le> p \<and> p \<le> 32"
definition is_glonass :: "int \<Rightarrow> bool" where "is_glonass p \<longleftrightarrow> 65 \<le> p \<and> p \<le> 96"

text \<open>\<open>(int)(0.5 + x)\<close>\<close>

definition nearest :: "rat \<Rightarrow> ('a loc_st_scheme, int) state" where
  "nearest x = do {
     s \<leftarrow> gets id;
     let n = trunc (dl s (1 / 2 + x));
     must (- (2 ^ 31) \<le> n \<and> n < 2 ^ 31);
     ret n
   }"

text \<open>The satellites of the system \<open>sys\<close> that go into one sentence, \<open>i\<close> of at most four being there; the rest is left over.\<close>

fun gsv_fill :: "(int \<Rightarrow> bool) \<Rightarrow> nat \<Rightarrow> sv_info list \<Rightarrow> string \<Rightarrow> ('a loc_st_scheme, string option \<times> sv_info list) state" where
  "gsv_fill sys i [] acc = ret (Some acc, [])"
| "gsv_fill sys i (v # vs) acc =
     (if 4 \<le> i then ret (Some acc, v # vs)
      else if sys (prn v) then do {
        e \<leftarrow> nearest (elevation v);
        a \<leftarrow> nearest (azimuth v);
        (case sn_put acc ('','' @ print_0d 2 (prn v) @ '','' @ print_0d 2 e @ '','' @ print_0d 3 a @ '','') of
           None \<Rightarrow> ret (None, vs)
         | Some acc1 \<Rightarrow>
             if 0 < snr v then do {
               n \<leftarrow> nearest (snr v);
               (case sn_put acc1 (print_0d 2 n) of None \<Rightarrow> ret (None, vs) | Some acc2 \<Rightarrow> gsv_fill sys (i + 1) vs acc2)
             } else gsv_fill sys (i + 1) vs acc1)
      }
      else gsv_fill sys i vs acc)"

text \<open>The last \<open>n\<close> of \<open>cnt\<close> sentences.\<close>

primrec gsv_loop :: "string \<Rightarrow> (int \<Rightarrow> bool) \<Rightarrow> int \<Rightarrow> nat \<Rightarrow> nat \<Rightarrow> sv_info list \<Rightarrow> ('a loc_st_scheme, bool) state" where
  "gsv_loop head sys svCount cnt 0 vs = ret True"
| "gsv_loop head sys svCount cnt (Suc n) vs =
     (case sn_put [] (head @ int_str (int cnt) @ '','' @ int_str (int (cnt - n)) @ '','' @ print_0d 2 svCount) of
        None \<Rightarrow> ret False
      | Some acc \<Rightarrow> do {
          (x, rest) \<leftarrow> gsv_fill sys 0 vs acc;
          (case x of None \<Rightarrow> ret False | Some sentence \<Rightarrow> do { send_sentence sentence; gsv_loop head sys svCount cnt n rest })
        })"

text \<open>The sentences of one system; \<open>head\<close> is the start of its sentences.\<close>

definition gsv :: "string \<Rightarrow> (int \<Rightarrow> bool) \<Rightarrow> int \<Rightarrow> sv_info list \<Rightarrow> ('a loc_st_scheme, bool) state" where
  "gsv head sys svCount vs = (let k = length (filter (\<lambda>v. sys (prn v)) vs) in
     if k = 0 then do { send_sentence (head @ ''1,1,0,''); ret True }
     else (let cnt = k div 4 + (if k mod 4 \<noteq> 0 then 1 else 0) in gsv_loop head sys svCount cnt cnt vs))"

definition loc_eng_nmea_generate_sv :: "sv_status \<Rightarrow> gps_location_extended \<Rightarrow> ('a loc_st_scheme, unit) state" where
  "loc_eng_nmea_generate_sv v lx = do {
     must (num_svs v \<le> int (length (sv_list v)));
     let vs = take (nat (num_svs v)) (sv_list v);
     b1 \<leftarrow> gsv ''$GPGSV,'' is_gps (num_svs v) vs;
     if \<not> b1 then ret ()
     else do {
       b2 \<leftarrow> gsv ''$GLGSV,'' is_glonass (num_svs v) vs;
       if \<not> b2 then ret ()
       else if used_in_fix_mask v = 0 then send_blanks
       else do {
         modify (\<lambda>s. s\<lparr>sv_used_mask := used_in_fix_mask v\<rparr>);
         (if has_bit (gx_flags lx) GPS_LOCATION_EXTENDED_HAS_DOP
          then modify (\<lambda>s. s\<lparr>pdop := gx_pdop lx, hdop := gx_hdop lx, vdop := gx_vdop lx\<rparr>)
          else modify (\<lambda>s. s\<lparr>pdop := 0, hdop := 0, vdop := 0\<rparr>))
       }
     }
   }"

end
