(* ===== verification/Loc_Ni.thy ===== *)
theory Loc_Ni
  imports Loc_Adapter
begin

text \<open>
  \<open>gps/loc_api/libloc_api_50001/loc_eng_ni.cpp\<close>: a network-initiated request is shown to the user, and a thread made for it
  waits for the answer or the end of the time. The thread is modelled in the parts between which others run; \<open>tLock\<close> is
  \<open>L_ni 0\<close>.
\<close>

definition LOC_MUTE_SESS_NONE :: int where "LOC_MUTE_SESS_NONE = 0"
definition LOC_MUTE_SESS_WAIT :: int where "LOC_MUTE_SESS_WAIT = 1"
definition LOC_MUTE_SESS_IN_SESSION :: int where "LOC_MUTE_SESS_IN_SESSION = 2"

definition loc_eng_mute_one_session :: "('a loc_st_scheme, unit) state" where
  "loc_eng_mute_one_session = modify (\<lambda>s. s\<lparr>mute_session_state := LOC_MUTE_SESS_WAIT\<rparr>)"

text \<open>The payload is an address, 0 for \<open>NULL\<close>; the result says whether a thread was asked for and made.\<close>

definition loc_eng_ni_request_handler :: "ni_notification \<Rightarrow> nat \<Rightarrow> ('a loc_st_scheme, bool) state" where
  "loc_eng_ni_request_handler notif passThrough = do {
     s \<leftarrow> gets id;
     if ni_notify_cb s = 0 then ret False
     else if rawRequest s \<noteq> 0 then do { (if passThrough \<noteq> 0 then emit (E_free passThrough) else ret ()); ret False }
     else do {
       modify (\<lambda>s. s\<lparr>rawRequest := passThrough\<rparr>);
       (if notify_flags notif = GPS_NI_PRIVACY_OVERRIDE then loc_eng_mute_one_session else ret ());
       modify (\<lambda>s. s\<lparr>respTimeLeft := 5 + (if timeout notif \<noteq> 0 then timeout notif else LOC_NI_NO_RESPONSE_TIME)\<rparr>);
       rc \<leftarrow> call (E_thread Th_create 0);
       emit (E_hook ''pthread_detach'' []);
       emit (E_hook ''ni_notify_cb'' [reqID s]);
       ret (rv rc = 0)
     }
   }"

text \<open>The thread waits until \<open>expire_time\<close>; the loop ends when the answer is there or the time is over.\<close>

definition ni_test :: "int \<Rightarrow> int \<Rightarrow> ('a loc_st_scheme, bool) state" where
  "ni_test sec nsec = do {
     r \<leftarrow> gets respRecvd;
     (if r then ret True else do { emit (E_thread (C_timedwait sec nsec) 0); ret False })
   }"

text \<open>From the start to the first wait: \<open>None\<close> if the loop is over, else the time the thread waits for.\<close>

definition ni_start :: "('a loc_st_scheme, (int \<times> int) option) state" where
  "ni_start = do {
     emit (E_lock (L_ni 0));
     t \<leftarrow> call (E_time T_gettimeofday);
     left \<leftarrow> gets respTimeLeft;
     let sec = num t 0 + left;
     let nsec = num t 1 * 1000;
     done \<leftarrow> ni_test sec nsec;
     ret (if done then None else Some (sec, nsec))
   }"

text \<open>A wake-up, with whether the time was over.\<close>

definition ni_wake :: "bool \<Rightarrow> int \<times> int \<Rightarrow> ('a loc_st_scheme, (int \<times> int) option) state" where
  "ni_wake timed_out t = do {
     if timed_out then do { modify (\<lambda>s. s\<lparr>resp := GPS_NI_RESPONSE_NORESP\<rparr>); ret None }
     else do { done \<leftarrow> ni_test (fst t) (snd t); ret (if done then None else Some t) }
   }"

text \<open>The end of the critical section, with the message for the adapter if a request was pending, and what follows it.\<close>

definition ni_take :: "('a loc_st_scheme, (int \<times> nat) option) state" where
  "ni_take = do {
     modify (\<lambda>s. s\<lparr>respRecvd := False\<rparr>);
     s \<leftarrow> gets id;
     let msg = (if rawRequest s \<noteq> 0 then Some (resp s, rawRequest s) else None);
     modify (\<lambda>s. s\<lparr>rawRequest := 0\<rparr>);
     emit (E_unlock (L_ni 0));
     ret msg
   }"

definition ni_leave :: "(int \<times> nat) option \<Rightarrow> ('a loc_st_scheme, unit) state" where
  "ni_leave msg = do {
     modify (\<lambda>s. s\<lparr>respTimeLeft := 0, reqID := swrap 32 (reqID s + 1)\<rparr>);
     (case msg of None \<Rightarrow> ret () | Some (r, p) \<Rightarrow> eng_send (LocEngInformNiResponse r p))
   }"

definition loc_eng_ni_reset_on_engine_restart :: "('a loc_st_scheme, unit) state" where
  "loc_eng_ni_reset_on_engine_restart = do {
     s \<leftarrow> gets id;
     if ni_notify_cb s = 0 \<or> rawRequest s = 0 then ret ()
     else do {
       emit (E_free (rawRequest s));
       modify (\<lambda>s. s\<lparr>rawRequest := 0\<rparr>);
       emit (E_lock (L_ni 0));
       modify (\<lambda>s. s\<lparr>respRecvd := True\<rparr>);
       emit (E_thread C_signal 0);
       emit (E_unlock (L_ni 0))
     }
   }"

text \<open>The callbacks are \<open>None\<close> for \<open>NULL\<close>.\<close>

definition loc_eng_ni_init :: "nat option \<Rightarrow> ('a loc_st_scheme, unit) state" where
  "loc_eng_ni_init cbs = do {
     s \<leftarrow> gets id;
     (case cbs of
        None \<Rightarrow> ret ()
      | Some cb \<Rightarrow>
          if cb = 0 \<or> ni_notify_cb s \<noteq> 0 then ret ()
          else do {
            modify (\<lambda>s. s\<lparr>respTimeLeft := 0, respRecvd := False, rawRequest := 0, reqID := 0\<rparr>);
            emit (E_thread C_init 0);
            emit (E_thread M_init 0);
            modify (\<lambda>s. s\<lparr>ni_notify_cb := cb\<rparr>)
          })
   }"

text \<open>The answer is tested before the lock is taken.\<close>

definition ni_respond_test :: "int \<Rightarrow> ('a loc_st_scheme, bool) state" where
  "ni_respond_test notif_id = gets (\<lambda>s. ni_notify_cb s \<noteq> 0 \<and> notif_id = reqID s \<and> rawRequest s \<noteq> 0)"

definition ni_respond_set :: "int \<Rightarrow> ('a loc_st_scheme, unit) state" where
  "ni_respond_set user_response = do {
     emit (E_lock (L_ni 0));
     modify (\<lambda>s. s\<lparr>resp := user_response, respRecvd := True\<rparr>);
     emit (E_thread C_signal 0);
     emit (E_unlock (L_ni 0))
   }"

definition loc_eng_ni_respond :: "int \<Rightarrow> int \<Rightarrow> ('a loc_st_scheme, bool) state" where
  "loc_eng_ni_respond notif_id user_response = do {
     b \<leftarrow> ni_respond_test notif_id;
     (if b then ni_respond_set user_response else ret ());
     ret b
   }"

text \<open>\<open>proc\<close> of the message and its destructor, which frees the payload.\<close>

definition proc_inform_ni_response :: "int \<Rightarrow> nat \<Rightarrow> ('a world_scheme, unit) state" where
  "proc_inform_ni_response r payload = do {
     _ \<leftarrow> api_call ''informNiResponse'' [r, int payload];
     emit (E_free payload)
   }"

section \<open>The threads together\<close>

datatype ni_thread = N_start | N_wait "int \<times> int" | N_take | N_leave "(int \<times> nat) option" | N_gone

text \<open>
  The state and the threads, and the calls of the user that have passed the test but have not yet taken the lock, each with the
  number of the request it was tested for: the first request that is taken on has the number 1. For the statements: what
  calls stored since the last answer was taken, the requests that were taken on, and the answers, each with what had been stored.
\<close>

record ni_sys =
  ni_core :: loc_st
  ni_threads :: "ni_thread list"
  ni_heard :: "(nat \<times> int) list"
  user_said :: "(nat \<times> int) list"
  ni_taken :: "nat list"
  answers :: "(nat \<times> int \<times> (nat \<times> int) list) list"

text \<open>
  A request that reaches the task, an answer of the user in its two parts, the test and what is done under the lock, and the parts of
  a thread. A thread at \<open>N_take\<close> has the lock. The test, which takes no lock, may come at any time.
\<close>

inductive ni_step :: "ni_sys \<Rightarrow> ni_sys \<Rightarrow> bool" where
  request: "run_state (loc_eng_ni_request_handler notif p) (ni_core y) = (made, c) \<Longrightarrow> p \<noteq> 0 \<Longrightarrow>
    ni_step y (if rawRequest (ni_core y) = 0 \<and> rawRequest c = p
      then y\<lparr>ni_core := c, ni_threads := ni_threads y @ (if made then [N_start] else []), ni_taken := ni_taken y @ [p]\<rparr>
      else y\<lparr>ni_core := c\<rparr>)"
| hear: "run_state (ni_respond_test i) (ni_core y) = (heard, c) \<Longrightarrow>
    ni_step y (y\<lparr>ni_core := c, ni_heard := ni_heard y @ (if heard then [(length (ni_taken y), r)] else [])\<rparr>)"
| respond: "N_take \<notin> set (ni_threads y) \<Longrightarrow> ni_heard y = us @ (n, r) # vs \<Longrightarrow> run_state (ni_respond_set r) (ni_core y) = (u, c) \<Longrightarrow>
    ni_step y (y\<lparr>ni_core := c, ni_heard := us @ vs, user_said := user_said y @ [(n, r)]\<rparr>)"
| start: "i < length (ni_threads y) \<Longrightarrow> ni_threads y ! i = N_start \<Longrightarrow> N_take \<notin> set (ni_threads y) \<Longrightarrow>
    run_state ni_start (ni_core y) = (t, c) \<Longrightarrow>
    ni_step y (y\<lparr>ni_core := c, ni_threads := (ni_threads y)[i := (case t of None \<Rightarrow> N_take | Some t \<Rightarrow> N_wait t)]\<rparr>)"
| wake: "i < length (ni_threads y) \<Longrightarrow> ni_threads y ! i = N_wait w \<Longrightarrow> N_take \<notin> set (ni_threads y) \<Longrightarrow>
    run_state (ni_wake timed_out w) (ni_core y) = (t, c) \<Longrightarrow>
    ni_step y (y\<lparr>ni_core := c, ni_threads := (ni_threads y)[i := (case t of None \<Rightarrow> N_take | Some t \<Rightarrow> N_wait t)]\<rparr>)"
| take: "i < length (ni_threads y) \<Longrightarrow> ni_threads y ! i = N_take \<Longrightarrow> run_state ni_take (ni_core y) = (msg, c) \<Longrightarrow>
    ni_step y (y\<lparr>ni_core := c, ni_threads := (ni_threads y)[i := N_leave msg], user_said := [],
      answers := answers y @ (case msg of None \<Rightarrow> [] | Some (r, p) \<Rightarrow> [(p, r, user_said y)])\<rparr>)"
| leave: "i < length (ni_threads y) \<Longrightarrow> ni_threads y ! i = N_leave msg \<Longrightarrow> run_state (ni_leave msg) (ni_core y) = (u, c) \<Longrightarrow>
    ni_step y (y\<lparr>ni_core := c, ni_threads := (ni_threads y)[i := N_gone]\<rparr>)"

inductive_cases ni_stepE: "ni_step y y'"

text \<open>A thread that still is to answer the pending request.\<close>

definition at_work :: "ni_thread \<Rightarrow> bool" where
  "at_work t \<longleftrightarrow> t = N_start \<or> t = N_take \<or> (\<exists>w. t = N_wait w)"

lemma at_work_simps [simp]: "at_work N_start" "at_work N_take" "at_work (N_wait w)" "\<not> at_work (N_leave m)" "\<not> at_work N_gone"
  by (simp_all add: at_work_def)

text \<open>
  The answer to the request of a number is one the user gave to it or to an earlier one, or says that there was none.
\<close>

definition answer_ok :: "nat \<Rightarrow> nat \<times> int \<times> (nat \<times> int) list \<Rightarrow> bool" where
  "answer_ok k = (\<lambda>(p, r, said). r = GPS_NI_RESPONSE_NORESP \<or> (\<exists>n. 0 < n \<and> n \<le> k \<and> (n, r) \<in> set said))"

definition answers_ok :: "(nat \<times> int \<times> (nat \<times> int) list) list \<Rightarrow> bool" where
  "answers_ok as \<longleftrightarrow> (\<forall>k < length as. answer_ok (Suc k) (as ! k))"

lemma answers_ok_append [simp]: "answers_ok (as @ [a]) \<longleftrightarrow> answers_ok as \<and> answer_ok (Suc (length as)) a"
  by (auto simp: answers_ok_def nth_append less_Suc_eq)

definition ni_inv :: "ni_sys \<Rightarrow> bool" where
  "ni_inv y \<longleftrightarrow> (let c = ni_core y; ts = ni_threads y in
     ni_taken y = map fst (answers y) @ (if rawRequest c \<noteq> 0 then [rawRequest c] else []) \<and>
     (rawRequest c = 0 \<longrightarrow> (\<forall>t \<in> set ts. \<not> at_work t)) \<and>
     (\<forall>i j. i < length ts \<longrightarrow> j < length ts \<longrightarrow> at_work (ts ! i) \<longrightarrow> at_work (ts ! j) \<longrightarrow> i = j) \<and>
     (respRecvd c \<and> N_take \<notin> set ts \<longrightarrow> resp c \<in> snd ` set (user_said y)) \<and>
     (N_take \<in> set ts \<longrightarrow> resp c = GPS_NI_RESPONSE_NORESP \<or> resp c \<in> snd ` set (user_said y)) \<and>
     (\<forall>n r. (n, r) \<in> set (ni_heard y) \<union> set (user_said y) \<longrightarrow> 0 < n \<and> n \<le> length (ni_taken y)) \<and>
     answers_ok (answers y))"

end
