(* ===== verification/Loc_Api_Base.thy ===== *)
theory Loc_Api_Base
  imports Loc_Adapter
begin

text \<open>
  \<open>gps/core/LocApiBase.cpp\<close>: the array of adapters and the calls that go up to them. The engine's adapter is number 1; the
  functions of any other adapter are events.
\<close>

definition MAX_ADAPTERS :: nat where "MAX_ADAPTERS = 10"
definition ENG_ADAPTER :: nat where "ENG_ADAPTER = 1"

text \<open>The bytes as hexadecimal digits and how many of them, and the telephone number in the bytes.\<close>

definition hex_digit :: "nat \<Rightarrow> char" where
  "hex_digit d = char_of (if d < 10 then 48 + d else 55 + d)"

definition hex_byte :: "char \<Rightarrow> string" where
  "hex_byte c = (let n = (of_char c :: nat) in [hex_digit (n div 16), hex_digit (n mod 16)])"

definition hexcode :: "nat \<Rightarrow> string \<Rightarrow> string \<times> nat" where
  "hexcode string_size bytes = (let n = min (length bytes) ((string_size - 1) div 2) in (concat (map hex_byte (take n bytes)), n))"

fun decode_digits :: "nat \<Rightarrow> string \<Rightarrow> string \<Rightarrow> string" where
  "decode_digits string_size [] out = out"
| "decode_digits string_size (c # cs) out = (let ch = (of_char c :: nat); low = ch mod 16; hi = ch div 16;
     out = (if low \<le> 9 \<and> length out + 1 < string_size then out @ [digit_chr low] else out);
     out = (if hi \<le> 9 \<and> length out + 1 < string_size then out @ [digit_chr hi] else out)
   in decode_digits string_size cs out)"

text \<open>The prefix is a \<open>char\<close>, unsigned on ARM.\<close>

definition decodeAddress :: "nat \<Rightarrow> string \<Rightarrow> ('a world_scheme, string) state" where
  "decodeAddress string_size bytes = do {
     must (bytes \<noteq> [] \<and> 0 < string_size);
     ret (if (of_char (bytes ! 0) :: nat) \<noteq> 0x91 then [] else decode_digits string_size (drop 1 bytes) [])
   }"

section \<open>The adapters\<close>

text \<open>The slots up to the first \<open>NULL\<close>.\<close>

definition live :: "nat list \<Rightarrow> nat list" where
  "live arr = takeWhile (\<lambda>a. a \<noteq> 0) arr"

definition ext_call :: "string \<Rightarrow> nat \<Rightarrow> int list \<Rightarrow> ('a world_scheme, bool) state" where
  "ext_call f a xs = do { r \<leftarrow> call (E_hook f (int a # xs)); ret (rv r \<noteq> 0) }"

definition to_all :: "(nat \<Rightarrow> ('a loc_st_scheme, unit) state) \<Rightarrow> ('a loc_st_scheme, unit) state" where
  "to_all f = do { as \<leftarrow> gets (\<lambda>s. live (mLocAdapters s)); for_each as f }"

primrec first_handling :: "nat list \<Rightarrow> (nat \<Rightarrow> ('s, bool) state) \<Rightarrow> ('s, unit) state" where
  "first_handling [] f = ret ()"
| "first_handling (a # as) f = do { b \<leftarrow> f a; if b then ret () else first_handling as f }"

definition to_1st_handling :: "(nat \<Rightarrow> ('a loc_st_scheme, bool) state) \<Rightarrow> ('a loc_st_scheme, unit) state" where
  "to_1st_handling f = do { as \<leftarrow> gets (\<lambda>s. live (mLocAdapters s)); first_handling as f }"

primrec evt_masks :: "nat list \<Rightarrow> int \<Rightarrow> ('a loc_st_scheme, int) state" where
  "evt_masks [] m = ret m"
| "evt_masks (a # as) m = do {
     k \<leftarrow> (if a = ENG_ADAPTER then gets mEvtMask else do { r \<leftarrow> call (E_hook ''getEvtMask'' [int a]); ret (rv r) });
     evt_masks as (or m k)
   }"

definition getEvtMask :: "('a loc_st_scheme, int) state" where
  "getEvtMask = do {
     as \<leftarrow> gets (\<lambda>s. live (mLocAdapters s));
     m \<leftarrow> evt_masks as 0;
     ex \<leftarrow> gets mExcludedMask;
     ret (and m (uwrap 32 (not ex)))
   }"

primrec any_in_session :: "nat list \<Rightarrow> ('a loc_st_scheme, bool) state" where
  "any_in_session [] = ret False"
| "any_in_session (a # as) = do {
     b \<leftarrow> (if a = ENG_ADAPTER then isInSession else ext_call ''isInSession'' a []);
     if b then ret True else any_in_session as
   }"

definition api_isInSession :: "('a loc_st_scheme, bool) state" where
  "api_isInSession = do { as \<leftarrow> gets (\<lambda>s. live (mLocAdapters s)); any_in_session as }"

text \<open>The array with the adapter in the first free slot, \<open>None\<close> if it is there before that slot or there is none.\<close>

fun add_slot :: "nat \<Rightarrow> nat list \<Rightarrow> nat list option" where
  "add_slot a [] = None"
| "add_slot a (x # xs) = (if x = a then None else if x = 0 then Some (a # xs) else map_option ((#) x) (add_slot a xs))"

definition addAdapter :: "nat \<Rightarrow> ('a loc_st_scheme, unit) state" where
  "addAdapter a = do {
     arr \<leftarrow> gets mLocAdapters;
     (case add_slot a arr of
        None \<Rightarrow> ret ()
      | Some arr' \<Rightarrow> do {
          modify (\<lambda>s. s\<lparr>mLocAdapters := arr'\<rparr>);
          k \<leftarrow> (if a = ENG_ADAPTER then gets mEvtMask else do { r \<leftarrow> call (E_hook ''getEvtMask'' [int a]); ret (rv r) });
          eng_send (LocOpenMsg k)
        })
   }"

text \<open>
  The slot \<open>j\<close> of the adapter is filled with the last one. The index then is that of the last one, and the next slot is
  \<open>NULL\<close> or past the end, which ends the loop.
\<close>

definition last_from :: "nat \<Rightarrow> nat list \<Rightarrow> nat" where
  "last_from j arr = j + length (takeWhile (\<lambda>a. a \<noteq> 0) (drop (Suc j) arr))"

definition take_out :: "nat \<Rightarrow> nat list \<Rightarrow> nat list" where
  "take_out j arr = (let arr1 = arr[j := 0]; k = last_from j arr1; arr2 = arr1[j := arr1 ! k] in arr2[k := 0])"

definition removeAdapter :: "nat \<Rightarrow> ('a loc_st_scheme, unit) state" where
  "removeAdapter a = do {
     arr \<leftarrow> gets mLocAdapters;
     let j = length (takeWhile (\<lambda>x. x \<noteq> a) (live arr));
     if j < length (live arr) then do {
       modify (\<lambda>s. s\<lparr>mLocAdapters := take_out j arr\<rparr>);
       if last_from j arr = 0 then do { _ \<leftarrow> api_call ''close'' []; ret () }
       else do { k \<leftarrow> getEvtMask; eng_send (LocOpenMsg k) }
     } else ret ()
   }"

section \<open>The reports\<close>

definition api_handleEngineUpEvent :: "('a loc_st_scheme, unit) state" where
  "api_handleEngineUpEvent = do {
     eng_send LocSsrMsg;
     to_all (\<lambda>a. if a = ENG_ADAPTER then handleEngineUpEvent else do { _ \<leftarrow> ext_call ''handleEngineUpEvent'' a []; ret () })
   }"

definition api_handleEngineDownEvent :: "('a loc_st_scheme, unit) state" where
  "api_handleEngineDownEvent =
     to_all (\<lambda>a. if a = ENG_ADAPTER then handleEngineDownEvent else do { _ \<leftarrow> ext_call ''handleEngineDownEvent'' a []; ret () })"

definition api_reportPosition :: "ulp_location \<Rightarrow> gps_location_extended \<Rightarrow> nat \<Rightarrow> int \<Rightarrow> int \<Rightarrow> ('a loc_st_scheme, unit) state" where
  "api_reportPosition l lx ext status tech =
     to_all (\<lambda>a. if a = ENG_ADAPTER then reportPosition l lx ext status tech
       else do { _ \<leftarrow> api_callf ''reportPosition'' (int a # location_ints l @ [int ext, status, tech]) (location_rats l); ret () })"

definition api_reportSv :: "sv_status \<Rightarrow> gps_location_extended \<Rightarrow> nat \<Rightarrow> ('a loc_st_scheme, unit) state" where
  "api_reportSv v lx ext =
     to_all (\<lambda>a. if a = ENG_ADAPTER then reportSv v lx ext
       else do { _ \<leftarrow> api_callf ''reportSv'' (int a # int ext # sv_ints v) (sv_rats v); ret () })"

definition api_reportStatus :: "int \<Rightarrow> ('a loc_st_scheme, unit) state" where
  "api_reportStatus status =
     to_all (\<lambda>a. if a = ENG_ADAPTER then reportStatus status else do { _ \<leftarrow> ext_call ''reportStatus'' a [status]; ret () })"

definition api_reportNmea :: "string \<Rightarrow> nat \<Rightarrow> ('a loc_st_scheme, unit) state" where
  "api_reportNmea nmea len =
     to_all (\<lambda>a. if a = ENG_ADAPTER then reportNmea nmea len
       else do { _ \<leftarrow> ext_call ''reportNmea'' a (int len # str_ints nmea); ret () })"

definition api_reportXtraServer :: "string \<Rightarrow> string \<Rightarrow> string \<Rightarrow> int \<Rightarrow> ('a loc_st_scheme, unit) state" where
  "api_reportXtraServer url1 url2 url3 maxlength =
     to_1st_handling (\<lambda>a. if a = ENG_ADAPTER then reportXtraServer url1 url2 url3 maxlength
       else ext_call ''reportXtraServer'' a (maxlength # str_ints (cstr url1)))"

definition api_requestXtraData :: "('a loc_st_scheme, unit) state" where
  "api_requestXtraData =
     to_1st_handling (\<lambda>a. if a = ENG_ADAPTER then requestXtraData else ext_call ''requestXtraData'' a [])"

definition api_requestTime :: "('a loc_st_scheme, unit) state" where
  "api_requestTime = to_1st_handling (\<lambda>a. if a = ENG_ADAPTER then requestTime else ext_call ''requestTime'' a [])"

text \<open>The engine's adapter has the base class' \<open>requestLocation\<close>.\<close>

definition api_requestLocation :: "('a loc_st_scheme, unit) state" where
  "api_requestLocation = to_1st_handling (\<lambda>a. if a = ENG_ADAPTER then ret False else ext_call ''requestLocation'' a [])"

definition api_requestATL :: "int \<Rightarrow> int \<Rightarrow> ('a loc_st_scheme, unit) state" where
  "api_requestATL connHandle agps_type =
     to_1st_handling (\<lambda>a. if a = ENG_ADAPTER then if_agps (LocEngRequestATL connHandle agps_type)
       else ext_call ''requestATL'' a [connHandle, agps_type])"

definition api_releaseATL :: "int \<Rightarrow> ('a loc_st_scheme, unit) state" where
  "api_releaseATL connHandle =
     to_1st_handling (\<lambda>a. if a = ENG_ADAPTER then releaseATL connHandle else ext_call ''releaseATL'' a [connHandle])"

definition api_requestSuplES :: "int \<Rightarrow> ('a loc_st_scheme, unit) state" where
  "api_requestSuplES connHandle =
     to_1st_handling (\<lambda>a. if a = ENG_ADAPTER then if_agps (LocEngRequestSuplEs connHandle)
       else ext_call ''requestSuplES'' a [connHandle])"

definition api_reportDataCallOpened :: "('a loc_st_scheme, unit) state" where
  "api_reportDataCallOpened =
     to_1st_handling (\<lambda>a. if a = ENG_ADAPTER then reportDataCallOpened else ext_call ''reportDataCallOpened'' a [])"

definition api_reportDataCallClosed :: "('a loc_st_scheme, unit) state" where
  "api_reportDataCallClosed =
     to_1st_handling (\<lambda>a. if a = ENG_ADAPTER then reportDataCallClosed else ext_call ''reportDataCallClosed'' a [])"

definition api_requestNiNotify :: "ni_notification \<Rightarrow> nat \<Rightarrow> ('a loc_st_scheme, unit) state" where
  "api_requestNiNotify notify payload =
     to_1st_handling (\<lambda>a. if a = ENG_ADAPTER then requestNiNotify notify payload
       else ext_call ''requestNiNotify'' a [int payload])"

section \<open>The array keeps no holes\<close>

text \<open>The adapters come first, each once, and then only \<open>NULL\<close>.\<close>

definition slots_ok :: "nat list \<Rightarrow> bool" where
  "slots_ok arr \<longleftrightarrow> length arr = MAX_ADAPTERS \<and> distinct (live arr) \<and> arr = live arr @ replicate (MAX_ADAPTERS - length (live arr)) 0"

lemma live_append: "0 \<notin> set as \<Longrightarrow> live (as @ replicate n 0) = as"
  unfolding live_def by (induction as) (simp_all add: takeWhile_eq_Nil_iff)

lemma live_nz: "0 \<notin> set (live arr)"
  unfolding live_def by (auto dest: set_takeWhileD)

lemma slots_okI:
  assumes "distinct as" "0 \<notin> set as" "length as \<le> MAX_ADAPTERS" "arr = as @ replicate (MAX_ADAPTERS - length as) 0"
  shows "slots_ok arr \<and> live arr = as"
  using assms live_append [OF assms(2)] by (simp add: slots_ok_def)

lemma add_slot_spec:
  "0 \<notin> set as \<Longrightarrow> a \<noteq> 0 \<Longrightarrow> add_slot a (as @ replicate n 0) =
     (if a \<in> set as \<or> n = 0 then None else Some (as @ a # replicate (n - 1) 0))"
  by (induction as) (cases n; auto)+

lemma take_out_spec:
  assumes "0 \<notin> set as" "j < length as"
  shows "last_from j (as @ replicate n 0) = length as - 1"
    "take_out j (as @ replicate n 0) = butlast (as[j := last as]) @ replicate (Suc n) 0"
proof -
  let ?arr = "as @ replicate n 0"
  have "takeWhile (\<lambda>a. a \<noteq> 0) (drop (Suc j) as @ replicate n 0) = drop (Suc j) as"
    using live_append [of "drop (Suc j) as" n] assms(1) by (auto simp: live_def dest: in_set_dropD)
  then have l: "last_from j ?arr = length as - 1" "last_from j (?arr[j := 0]) = length as - 1"
    using assms(2) by (simp_all add: last_from_def list_update_append1)
  then show "last_from j ?arr = length as - 1" by simp
  define k where "k = length as - 1"
  have k: "k < length as" "j \<le> k" using assms(2) by (simp_all add: k_def)
  have lst: "last as = as ! k" using assms(2) unfolding k_def by (intro last_conv_nth) auto
  have "take_out j ?arr = (?arr[j := 0, j := (?arr[j := 0]) ! k])[k := 0]"
    by (simp add: take_out_def l k_def Let_def)
  also have "\<dots> = butlast (as[j := last as]) @ replicate (Suc n) 0"
  proof (rule nth_equalityI)
    fix i assume "i < length ((?arr[j := 0, j := (?arr[j := 0]) ! k])[k := 0])"
    then show "((?arr[j := 0, j := (?arr[j := 0]) ! k])[k := 0]) ! i = (butlast (as[j := last as]) @ replicate (Suc n) 0) ! i"
      using assms(2) k lst unfolding k_def
      by (cases "i = k"; cases "i = j") (auto simp: nth_list_update nth_append nth_butlast k_def)
  qed (use assms(2) in simp)
  finally show "take_out j ?arr = butlast (as[j := last as]) @ replicate (Suc n) 0" .
qed

end
