(* ===== verification/Loc_Cfg.thy ===== *)
theory Loc_Cfg
  imports Loc_Adapter
begin

text \<open>
  \<open>gps/utils/loc_cfg.cpp\<close>: the parser of the configuration files. The contents of a file are the answer to \<open>fopen\<close>, from
  which \<open>fgets\<close> takes its lines. A row of a table has functions for the pointers to its variables.
\<close>

definition LOC_MAX_PARAM_LINE :: nat where "LOC_MAX_PARAM_LINE = 80"
definition LOC_MAX_PARAM_STRING :: nat where "LOC_MAX_PARAM_STRING = 80"

section \<open>Library functions\<close>

text \<open>What \<open>fgets\<close> with a buffer of \<open>n + 1\<close> bytes takes, and the lines of a file.\<close>

fun fgets_line :: "nat \<Rightarrow> string \<Rightarrow> string" where
  "fgets_line 0 s = []"
| "fgets_line (Suc n) [] = []"
| "fgets_line (Suc n) (c # s) = (if c = CHR 0x0A then [c] else c # fgets_line n s)"

lemma fgets_line_length: "length (fgets_line n s) \<le> length s"
  by (induction n s rule: fgets_line.induct) auto

lemma fgets_line_pos: "s \<noteq> [] \<Longrightarrow> 0 < length (fgets_line (Suc n) s)"
  by (cases s) auto

function file_lines :: "nat \<Rightarrow> string \<Rightarrow> string list" where
  "file_lines n s = (if s = [] then [] else (let l = fgets_line (Suc n) s in l # file_lines n (drop (length l) s)))"
  by auto
termination
  by (relation "measure (\<lambda>(n, s). length s)") (auto simp: diff_less simp del: fgets_line.simps intro!: diff_less fgets_line_pos)

declare file_lines.simps [simp del]

text \<open>One call of \<open>strtok_r\<close> with the separator \<open>=\<close>: the token, and what is left.\<close>

definition strtok_eq :: "string \<Rightarrow> (string \<times> string) option" where
  "strtok_eq s = (case dropWhile (\<lambda>c. c = CHR ''='') s of
     [] \<Rightarrow> None
   | c # t \<Rightarrow> Some (takeWhile (\<lambda>c. c \<noteq> CHR ''='') (c # t), tl (dropWhile (\<lambda>c. c \<noteq> CHR ''='') (c # t))))"

definition hex_val :: "char \<Rightarrow> nat option" where
  "hex_val c = (let n = (of_char c :: nat) in
     if 48 \<le> n \<and> n \<le> 57 then Some (n - 48) else if 97 \<le> n \<and> n \<le> 102 then Some (n - 87)
     else if 65 \<le> n \<and> n \<le> 70 then Some (n - 55) else None)"

fun hex_digits :: "nat \<Rightarrow> string \<Rightarrow> nat" where
  "hex_digits acc [] = acc"
| "hex_digits acc (c # s) = (case hex_val c of None \<Rightarrow> acc | Some d \<Rightarrow> hex_digits (16 * acc + d) s)"

definition strtol16 :: "string \<Rightarrow> int" where
  "strtol16 s = (let (sg, t) = take_sign (dropWhile is_space s);
       u = (if take 2 t = ''0x'' \<or> take 2 t = ''0X'' then drop 2 t else t); n = int (hex_digits 0 u)
     in clamp_long (if sg < 0 then - n else n))"

text \<open>The number that is written; \<open>atof\<close> rounds it to a double.\<close>

definition written :: "string \<Rightarrow> rat" where
  "written s = (case scan_f (length s) s of None \<Rightarrow> 0 | Some (x, _) \<Rightarrow> x)"

section \<open>A line\<close>

text \<open>The loop of \<open>trim_space\<close>: what it has written, and the length up to the last character that is not a blank (0: none).\<close>

fun trim_loop :: "string \<Rightarrow> string \<Rightarrow> nat \<Rightarrow> string \<times> nat" where
  "trim_loop [] w l = (w, l)"
| "trim_loop (c # s) w l =
     (if is_space c \<and> w = [] then trim_loop s w l
      else trim_loop s (w @ [c]) (if is_space c then l else length w + 1))"

definition trim_space :: "string \<Rightarrow> string" where
  "trim_space s = (let (w, l) = trim_loop s [] 0 in if l = 0 then s else take l w)"

record loc_param_v =
  v_name :: string
  param_str_value :: string
  param_int_value :: int
  param_double_value :: rat

text \<open>\<open>None\<close> for the lines that are skipped; \<open>rnd\<close> rounds to a double.\<close>

definition read_line :: "(rat \<Rightarrow> rat) \<Rightarrow> string \<Rightarrow> loc_param_v option" where
  "read_line rnd input_buf = (case strtok_eq (cstr input_buf) of
     None \<Rightarrow> None
   | Some (name, lasts) \<Rightarrow> (case strtok_eq lasts of
       None \<Rightarrow> None
     | Some (val, _) \<Rightarrow>
         (let name = trim_space name; val = trim_space val in
          if take 2 val = ''0x'' \<or> take 2 val = ''0X''
          then Some \<lparr>v_name = name, param_str_value = val, param_int_value = strtol16 (drop 2 val), param_double_value = 0\<rparr>
          else Some \<lparr>v_name = name, param_str_value = val, param_int_value = atoi val, param_double_value = rnd (written val)\<rparr>)))"

section \<open>Tables\<close>

datatype 's param_ptr = P_s "string \<Rightarrow> 's \<Rightarrow> 's" | P_n "int \<Rightarrow> 's \<Rightarrow> 's" | P_f "rat \<Rightarrow> 's \<Rightarrow> 's"

record 's loc_param =
  param_name :: string
  param_ptr :: "'s param_ptr"
  param_set :: "(bool \<Rightarrow> 's \<Rightarrow> 's) option"

definition put_param :: "'s param_ptr \<Rightarrow> loc_param_v \<Rightarrow> 's \<Rightarrow> 's" where
  "put_param p v = (case p of
     P_s f \<Rightarrow> f (if param_str_value v = ''NULL'' then [] else take LOC_MAX_PARAM_STRING (param_str_value v))
   | P_n f \<Rightarrow> f (param_int_value v)
   | P_f f \<Rightarrow> f (param_double_value v))"

definition set_flag :: "'s loc_param \<Rightarrow> bool \<Rightarrow> 's \<Rightarrow> 's" where
  "set_flag e b = (case param_set e of None \<Rightarrow> (\<lambda>s. s) | Some f \<Rightarrow> f b)"

definition loc_set_config_entry :: "'s loc_param \<Rightarrow> loc_param_v \<Rightarrow> ('s, unit) state" where
  "loc_set_config_entry e v =
     (if param_name e = v_name v then modify (\<lambda>s. set_flag e True (put_param (param_ptr e) v s)) else ret ())"

definition loc_logger_init :: "int \<Rightarrow> int \<Rightarrow> ('a loc_st_scheme, unit) state" where
  "loc_logger_init level stamp = modify (\<lambda>s. s\<lparr>loc_logger := (level, stamp)\<rparr>)"

text \<open>The parser's own table. The variables are of one byte, and a whole \<open>int\<close> is written to them.\<close>

definition own_table :: "'a loc_st_scheme loc_param list" where
  "own_table =
     [\<lparr>param_name = ''DEBUG_LEVEL'', param_ptr = P_n (\<lambda>x s. s\<lparr>ub := True, DEBUG_LEVEL := uwrap 8 x\<rparr>), param_set = None\<rparr>,
      \<lparr>param_name = ''TIMESTAMP'', param_ptr = P_n (\<lambda>x s. s\<lparr>ub := True, TIMESTAMP := uwrap 8 x\<rparr>), param_set = None\<rparr>]"

definition clear_flag :: "'s loc_param \<Rightarrow> ('s, unit) state" where
  "clear_flag e = modify (set_flag e False)"

definition conf_line :: "'a loc_st_scheme loc_param list \<Rightarrow> string \<Rightarrow> ('a loc_st_scheme, unit) state" where
  "conf_line config_table input_buf = do {
     s \<leftarrow> gets id;
     (case read_line (dl s) input_buf of
        None \<Rightarrow> ret ()
      | Some v \<Rightarrow> do {
          for_each config_table (\<lambda>e. loc_set_config_entry e v);
          for_each own_table (\<lambda>e. loc_set_config_entry e v)
        })
   }"

definition loc_read_conf :: "string \<Rightarrow> 'a loc_st_scheme loc_param list \<Rightarrow> ('a loc_st_scheme, unit) state" where
  "loc_read_conf conf_file_name config_table = do {
     r \<leftarrow> call (E_hook ''fopen'' (str_ints conf_file_name));
     (if rv r = 0 then ret ()
      else do {
        for_each config_table clear_flag;
        for_each (file_lines (LOC_MAX_PARAM_LINE - 2) (rbuf r)) (conf_line config_table);
        emit (E_hook ''fclose'' [rv r])
      });
     s \<leftarrow> gets id;
     loc_logger_init (DEBUG_LEVEL s) (TIMESTAMP s)
   }"

section \<open>Trimming\<close>

lemma trim_loop_eq:
  "trim_loop s w l = (if w = [] then (let t = dropWhile is_space s in
       (t, if t = [] then l else length (dropWhile is_space (rev t))))
     else (w @ s, if list_all is_space s then l else length w + length (dropWhile is_space (rev s))))"
proof (induction s arbitrary: w l)
  case (Cons c s)
  have *: "length (dropWhile is_space (rev s @ [c])) =
      (if list_all is_space s then (if is_space c then 0 else 1) else length (dropWhile is_space (rev s)) + 1)"
    by (auto simp: dropWhile_append list_all_iff)
  show ?case
  proof (cases "w = []")
    case True
    then show ?thesis using Cons * by (auto simp: Let_def list_all_iff)
  next
    case False
    then show ?thesis using Cons * by (auto simp: list_all_iff)
  qed
qed simp

lemma trim_space_eq:
  "trim_space s = (if list_all is_space s then s else rev (dropWhile is_space (rev (dropWhile is_space s))))"
proof -
  let ?t = "dropWhile is_space s" and ?l = "length (dropWhile is_space (rev (dropWhile is_space s)))"
  have t: "?t = [] \<longleftrightarrow> list_all is_space s" by (simp add: dropWhile_eq_Nil_conv list_all_iff)
  have "?l \<noteq> 0" if "?t \<noteq> []"
    using that hd_dropWhile [of is_space s] by (metis dropWhile_eq_Nil_conv hd_in_set length_0_conv set_rev)
  moreover have "take ?l ?t = rev (dropWhile is_space (rev ?t))"
    using dropWhile_eq_drop [of is_space "rev ?t"] by (simp add: rev_drop)
  ultimately show ?thesis using t by (auto simp: trim_space_def trim_loop_eq Let_def)
qed

end
