(* ===== verification/Loc_Target.thy ===== *)
theory Loc_Target
  imports Loc_Adapter
begin

text \<open>\<open>gps/utils/loc_target.cpp\<close>: which GPS hardware there is. \<open>gTarget\<close> is \<open>- 1\<close> as an unsigned number until it is known.\<close>

definition GNSS_NONE :: int where "GNSS_NONE = 0"
definition GNSS_MSM :: int where "GNSS_MSM = 1"
definition GNSS_GSS :: int where "GNSS_GSS = 2"
definition GNSS_MDM :: int where "GNSS_MDM = 3"
definition GNSS_QCA1530 :: int where "GNSS_QCA1530 = 4"
definition GNSS_UNKNOWN :: int where "GNSS_UNKNOWN = 5"
definition NO_SSC :: int where "NO_SSC = 0"
definition HAS_SSC :: int where "HAS_SSC = 1"

definition TARGET_SET :: "int \<Rightarrow> int \<Rightarrow> int" where "TARGET_SET gnss ssc = or (gnss * 2) ssc"
definition TARGET_DEFAULT :: int where "TARGET_DEFAULT = TARGET_SET GNSS_MSM HAS_SSC"
definition TARGET_MDM :: int where "TARGET_MDM = TARGET_SET GNSS_MDM HAS_SSC"
definition TARGET_APQ_SA :: int where "TARGET_APQ_SA = TARGET_SET GNSS_GSS NO_SSC"
definition TARGET_MPQ :: int where "TARGET_MPQ = TARGET_SET GNSS_NONE NO_SSC"
definition TARGET_MSM_NO_SSC :: int where "TARGET_MSM_NO_SSC = TARGET_SET GNSS_MSM NO_SSC"
definition TARGET_QCA1530 :: int where "TARGET_QCA1530 = TARGET_SET GNSS_QCA1530 NO_SSC"
definition TARGET_UNKNOWN :: int where "TARGET_UNKNOWN = TARGET_SET GNSS_UNKNOWN NO_SSC"
definition NO_TARGET :: int where "NO_TARGET = 2 ^ 32 - 1"

lemmas gnss_defs = GNSS_NONE_def GNSS_MSM_def GNSS_GSS_def GNSS_MDM_def GNSS_QCA1530_def GNSS_UNKNOWN_def NO_SSC_def HAS_SSC_def

lemmas target_defs = TARGET_SET_def TARGET_DEFAULT_def TARGET_MDM_def TARGET_APQ_SA_def TARGET_MPQ_def TARGET_MSM_NO_SSC_def
  TARGET_QCA1530_def TARGET_UNKNOWN_def NO_TARGET_def

definition getTargetGnssType :: "int \<Rightarrow> int" where
  "getTargetGnssType target = target div 2"

text \<open>A property as a string, and what it is if it is not set.\<close>

definition property_get :: "string \<Rightarrow> string \<Rightarrow> ('a world_scheme, int \<times> string) state" where
  "property_get name default_value = do {
     r \<leftarrow> call (E_hook ''property_get'' (str_ints name));
     ret (rv r, if rv r = 0 then default_value else cstr (rbuf r))
   }"

definition LINE_LEN :: nat where "LINE_LEN = 100"

text \<open>Whether the file could be opened, and its first line; an empty file leaves the empty string.\<close>

definition read_a_line :: "string \<Rightarrow> nat \<Rightarrow> ('a world_scheme, int \<times> string) state" where
  "read_a_line file_path line_size = do {
     r \<leftarrow> call (E_hook ''fopen'' (str_ints file_path));
     if rv r = 0 then ret (- 1, [])
     else do {
       l \<leftarrow> call (E_hook ''fgets'' [rv r, int line_size]);
       emit (E_hook ''fclose'' [rv r]);
       ret (0, if rv l = 0 then [] else take (line_size - 1) (cstr (rbuf l)))
     }
   }"

definition QCA1530_DETECT_TIMEOUT :: nat where "QCA1530_DETECT_TIMEOUT = 30"

text \<open>At most \<open>n\<close> more tries.\<close>

primrec qca1530_loop :: "nat \<Rightarrow> ('a world_scheme, bool) state" where
  "qca1530_loop 0 = ret False"
| "qca1530_loop (Suc n) = do {
     (r, buf) \<leftarrow> property_get ''persist.qca1530'' [];
     if r < 0 then ret False
     else if buf = ''yes'' then ret True
     else if buf = ''detect'' then do { emit (E_time (T_sleep 1)); qca1530_loop n }
     else ret False
   }"

definition is_qca1530 :: "('a world_scheme, bool) state" where
  "is_qca1530 = qca1530_loop QCA1530_DETECT_TIMEOUT"

text \<open>\<open>IS_STR_END\<close> after a prefix: the line is \<open>s\<close>, with its end.\<close>

definition is_line :: "string \<Rightarrow> string \<Rightarrow> bool" where
  "is_line s line \<longleftrightarrow> take (length s) line = s \<and>
     (case drop (length s) line of [] \<Rightarrow> True | c # _ \<Rightarrow> c = CHR 0x0A \<or> c = CHR 0x0D)"

text \<open>The first of the two files that exists is read.\<close>

definition read_first :: "string \<Rightarrow> string \<Rightarrow> ('a world_scheme, string) state" where
  "read_first path path_dep = do {
     a \<leftarrow> call (E_access path);
     (_, line) \<leftarrow> read_a_line (if rv a = 0 then path else path_dep) LINE_LEN;
     ret line
   }"

text \<open>The target of the texts read; \<open>NO_TARGET\<close> where it is not set.\<close>

definition detect_target :: "string \<Rightarrow> string \<Rightarrow> string \<Rightarrow> ('a world_scheme, int) state" where
  "detect_target baseband rd_hw_platform rd_id =
     (if take 3 baseband = ''apq'' then ret (if is_line ''130'' rd_id then TARGET_MPQ else TARGET_APQ_SA)
      else if is_line ''Liquid'' rd_hw_platform \<or> is_line ''Surf'' rd_hw_platform \<or> is_line ''MTP'' rd_hw_platform then do {
        (r, _) \<leftarrow> read_a_line ''/dev/mdm'' LINE_LEN;
        ret (if r = 0 then TARGET_MDM else NO_TARGET)
      }
      else if is_line ''142'' rd_id \<or> is_line ''116'' rd_id then ret TARGET_MSM_NO_SSC
      else ret TARGET_UNKNOWN)"

definition loc_get_target :: "('a loc_st_scheme, int) state" where
  "loc_get_target = do {
     g \<leftarrow> gets gTarget;
     if g \<noteq> NO_TARGET then ret g
     else do {
       b \<leftarrow> is_qca1530;
       t \<leftarrow> (if b then ret TARGET_QCA1530
         else do {
           (_, baseband) \<leftarrow> property_get ''ro.baseband'' [];
           rd_hw_platform \<leftarrow> read_first ''/sys/devices/soc0/hw_platform'' ''/sys/devices/system/soc/soc0/hw_platform'';
           rd_id \<leftarrow> read_first ''/sys/devices/soc0/soc_id'' ''/sys/devices/system/soc/soc0/id'';
           detect_target baseband rd_hw_platform rd_id
         });
       modify (\<lambda>s. s\<lparr>gTarget := t\<rparr>);
       ret t
     }
   }"

definition gnss_type :: "('a loc_st_scheme, int) state" where
  "gnss_type = do { t \<leftarrow> loc_get_target; ret (getTargetGnssType t) }"

section \<open>Its name\<close>

text \<open>\<open>gps/utils/loc_log.cpp\<close>: the first name of a table for a value or for a mask.\<close>

definition UNKNOWN_STR :: string where "UNKNOWN_STR = ''UNKNOWN''"

fun loc_get_name_from_val :: "(string \<times> int) list \<Rightarrow> int \<Rightarrow> string" where
  "loc_get_name_from_val [] v = UNKNOWN_STR"
| "loc_get_name_from_val ((n, x) # t) v = (if x = v then n else loc_get_name_from_val t v)"

fun loc_get_name_from_mask :: "(string \<times> int) list \<Rightarrow> int \<Rightarrow> string" where
  "loc_get_name_from_mask [] m = UNKNOWN_STR"
| "loc_get_name_from_mask ((n, x) # t) m = (if and x m \<noteq> 0 then n else loc_get_name_from_mask t m)"

definition target_name :: "(string \<times> int) list" where
  "target_name = [(''GNSS_NONE'', GNSS_NONE), (''GNSS_MSM'', GNSS_MSM), (''GNSS_GSS'', GNSS_GSS), (''GNSS_MDM'', GNSS_MDM),
     (''GNSS_QCA1530'', GNSS_QCA1530), (''GNSS_UNKNOWN'', GNSS_UNKNOWN)]"

definition loc_get_target_name :: "int \<Rightarrow> string" where
  "loc_get_target_name target = (let n = int (length target_name); index = getTargetGnssType target;
       name = loc_get_name_from_val target_name (if n \<le> index \<or> index < 0 then n - 1 else index)
     in '' '' @ name @ (if and target HAS_SSC = HAS_SSC then '' with SSC'' else ''  without SSC''))"


end
