(* ===== verification/Loc_Eng.thy ===== *)
theory Loc_Eng
  imports Nmea Loc_Ni Loc_Api_Base Loc_Cfg Loc_Target
begin

text \<open>
  \<open>gps/loc_api/libloc_api_50001/loc_eng.cpp\<close> and \<open>loc_eng_xtra.cpp\<close>: the calls of the framework that become messages to the
  task, and \<open>proc\<close> of each of them. The handlers of the resource state machines are in \<open>Agps\<close>.
\<close>

definition LOC_AGPS_CDMA_PDE_SERVER :: int where "LOC_AGPS_CDMA_PDE_SERVER = 0"
definition LOC_AGPS_CUSTOM_PDE_SERVER :: int where "LOC_AGPS_CUSTOM_PDE_SERVER = 1"
definition LOC_AGPS_MPC_SERVER :: int where "LOC_AGPS_MPC_SERVER = 2"
definition LOC_AGPS_SUPL_SERVER :: int where "LOC_AGPS_SUPL_SERVER = 3"

lemmas server_types = LOC_AGPS_CDMA_PDE_SERVER_def LOC_AGPS_CUSTOM_PDE_SERVER_def LOC_AGPS_MPC_SERVER_def LOC_AGPS_SUPL_SERVER_def

definition GPS_CAPABILITY_ON_DEMAND_TIME :: int where "GPS_CAPABILITY_ON_DEMAND_TIME = 0x10"
definition LOC_API_ADAPTER_BIT_NMEA_1HZ_REPORT :: int where "LOC_API_ADAPTER_BIT_NMEA_1HZ_REPORT = 4"
definition NMEA_PROVIDER_AP :: int where "NMEA_PROVIDER_AP = 0"
definition MAX_URL_LEN :: nat where "MAX_URL_LEN = 256"
definition HOST_BUF :: nat where "HOST_BUF = 101"

section \<open>The configuration\<close>

definition upd_gps :: "(gps_cfg \<Rightarrow> gps_cfg) \<Rightarrow> 'a loc_st_scheme \<Rightarrow> 'a loc_st_scheme" where
  "upd_gps f s = s\<lparr>gps_conf := f (gps_conf s)\<rparr>"

definition upd_sap :: "(sap_cfg \<Rightarrow> sap_cfg) \<Rightarrow> 'a loc_st_scheme \<Rightarrow> 'a loc_st_scheme" where
  "upd_sap f s = s\<lparr>sap_conf := f (sap_conf s)\<rparr>"

text \<open>\<open>perf_control\<close> is in the order of \<open>LocEngSensorPerfControlConfig\<close>: the mode, samples and batches, the algorithm.\<close>

definition loc_default_parameters :: "('a loc_st_scheme, unit) state" where
  "loc_default_parameters = do {
     modify (upd_gps (\<lambda>g. g\<lparr>INTERMEDIATE_POS := 0, ACCURACY_THRES := 0, NMEA_PROVIDER := 0, SUPL_VER := 0x10000,
       CAPABILITIES := 7, LPP_PROFILE := 0, A_GLONASS_POS_PROTOCOL_SELECT := 0\<rparr>));
     modify (upd_sap (\<lambda>c. c\<lparr>random_walks := replicate 5 (False, 0), perf_control := [0, 5, 2, 5, 2, 25, 4, 25, 4, 0], SENSOR_USAGE := 0\<rparr>))
   }"

definition num_param :: "string \<Rightarrow> (int \<Rightarrow> 's \<Rightarrow> 's) \<Rightarrow> 's loc_param" where
  "num_param name f = \<lparr>param_name = name, param_ptr = P_n f, param_set = None\<rparr>"

definition long_param :: "string \<Rightarrow> (int \<Rightarrow> gps_cfg \<Rightarrow> gps_cfg) \<Rightarrow> 'a loc_st_scheme loc_param" where
  "long_param name f = num_param name (\<lambda>x. upd_gps (f (uwrap 32 x)))"

definition perf_param :: "string \<Rightarrow> nat \<Rightarrow> 'a loc_st_scheme loc_param" where
  "perf_param name i = num_param name (\<lambda>x. upd_sap (\<lambda>c. c\<lparr>perf_control := (perf_control c)[i := uwrap 32 x]\<rparr>))"

definition walk_param :: "string \<Rightarrow> nat \<Rightarrow> 'a loc_st_scheme loc_param" where
  "walk_param name i = \<lparr>param_name = name,
     param_ptr = P_f (\<lambda>x. upd_sap (\<lambda>c. c\<lparr>random_walks := (random_walks c)[i := (fst (random_walks c ! i), x)]\<rparr>)),
     param_set = Some (\<lambda>b. upd_sap (\<lambda>c. c\<lparr>random_walks := (random_walks c)[i := (b, snd (random_walks c ! i))]\<rparr>))\<rparr>"

text \<open>\<open>NMEA_PROVIDER\<close> is one byte, followed by three of padding.\<close>

definition loc_parameter_table :: "'a loc_st_scheme loc_param list" where
  "loc_parameter_table =
     [long_param ''INTERMEDIATE_POS'' (\<lambda>x g. g\<lparr>INTERMEDIATE_POS := x\<rparr>),
      long_param ''ACCURACY_THRES'' (\<lambda>x g. g\<lparr>ACCURACY_THRES := x\<rparr>),
      long_param ''NMEA_PROVIDER'' (\<lambda>x g. g\<lparr>NMEA_PROVIDER := uwrap 8 x\<rparr>),
      long_param ''SUPL_VER'' (\<lambda>x g. g\<lparr>SUPL_VER := x\<rparr>),
      long_param ''CAPABILITIES'' (\<lambda>x g. g\<lparr>CAPABILITIES := x\<rparr>),
      walk_param ''GYRO_BIAS_RANDOM_WALK'' 0,
      walk_param ''ACCEL_RANDOM_WALK_SPECTRAL_DENSITY'' 1,
      walk_param ''ANGLE_RANDOM_WALK_SPECTRAL_DENSITY'' 2,
      walk_param ''RATE_RANDOM_WALK_SPECTRAL_DENSITY'' 3,
      walk_param ''VELOCITY_RANDOM_WALK_SPECTRAL_DENSITY'' 4,
      perf_param ''SENSOR_ACCEL_BATCHES_PER_SEC'' 2,
      perf_param ''SENSOR_ACCEL_SAMPLES_PER_BATCH'' 1,
      perf_param ''SENSOR_GYRO_BATCHES_PER_SEC'' 4,
      perf_param ''SENSOR_GYRO_SAMPLES_PER_BATCH'' 3,
      perf_param ''SENSOR_ACCEL_BATCHES_PER_SEC_HIGH'' 6,
      perf_param ''SENSOR_ACCEL_SAMPLES_PER_BATCH_HIGH'' 5,
      perf_param ''SENSOR_GYRO_BATCHES_PER_SEC_HIGH'' 8,
      perf_param ''SENSOR_GYRO_SAMPLES_PER_BATCH_HIGH'' 7,
      perf_param ''SENSOR_CONTROL_MODE'' 0,
      num_param ''SENSOR_USAGE'' (\<lambda>x. upd_sap (\<lambda>c. c\<lparr>SENSOR_USAGE := uwrap 32 x\<rparr>)),
      perf_param ''SENSOR_ALGORITHM_CONFIG_MASK'' 9,
      long_param ''QUIPC_ENABLED'' (\<lambda>x g. g\<lparr>QUIPC_ENABLED := x\<rparr>),
      long_param ''LPP_PROFILE'' (\<lambda>x g. g\<lparr>LPP_PROFILE := x\<rparr>),
      long_param ''A_GLONASS_POS_PROTOCOL_SELECT'' (\<lambda>x g. g\<lparr>A_GLONASS_POS_PROTOCOL_SELECT := x\<rparr>)]"

definition loc_eng_read_config :: "('a loc_st_scheme, int) state" where
  "loc_eng_read_config = do {
     b \<leftarrow> gets configAlreadyRead;
     (if b then ret ()
      else do {
        loc_default_parameters;
        loc_read_conf ''/etc/gps.conf'' loc_parameter_table;
        loc_read_conf ''/etc/sap.conf'' loc_parameter_table;
        modify (\<lambda>s. s\<lparr>configAlreadyRead := True\<rparr>)
      });
     ret 0
   }"

section \<open>Callbacks\<close>

text \<open>
  The callbacks of the HAL (\<open>loc.cpp\<close>) are functions of the program, number 1 here; any other one is an event. The position is
  \<open>None\<close> for \<open>NULL\<close>.
\<close>

definition HAL_CB :: nat where "HAL_CB = 1"

definition local_loc_cb :: "ulp_location option \<Rightarrow> ('a loc_st_scheme, unit) state" where
  "local_loc_cb l = (case l of
     None \<Rightarrow> ret ()
   | Some l \<Rightarrow> do {
       cb \<leftarrow> gets gps_loc_cb;
       (if cb \<noteq> 0 then emit (E_bsc ''gps_loc_cb'' [gl_flags (gpsLocation l), timestamp (gpsLocation l)] (location_rats l)) else ret ())
     })"

definition local_sv_cb :: "sv_status \<Rightarrow> ('a loc_st_scheme, unit) state" where
  "local_sv_cb v = do {
     cb \<leftarrow> gets gps_sv_cb;
     (if cb \<noteq> 0 then emit (E_bsc ''gps_sv_cb'' (sv_ints v) (sv_rats v)) else ret ())
   }"

definition call_location_cb :: "ulp_location option \<Rightarrow> nat \<Rightarrow> ('a loc_st_scheme, unit) state" where
  "call_location_cb l ext = do {
     cb \<leftarrow> gets location_cb;
     if cb = HAL_CB then local_loc_cb l
     else emit (case l of
       None \<Rightarrow> E_bsc ''location_cb'' [] []
     | Some l \<Rightarrow> E_bsc ''location_cb'' (int ext # location_ints l) (location_rats l))
   }"

definition call_sv_cb :: "sv_status \<Rightarrow> nat \<Rightarrow> ('a loc_st_scheme, unit) state" where
  "call_sv_cb v ext = do {
     cb \<leftarrow> gets sv_status_cb;
     if cb = HAL_CB then local_sv_cb v else emit (E_bsc ''sv_status_cb'' (int ext # sv_ints v) (sv_rats v))
   }"

definition loc_inform_gps_status :: "int \<Rightarrow> ('a loc_st_scheme, unit) state" where
  "loc_inform_gps_status status = do {
     cb \<leftarrow> gets status_cb;
     (if cb \<noteq> 0 then emit (E_hook ''status_cb'' [status]) else ret ())
   }"

section \<open>Sessions\<close>

definition loc_eng_start_handler :: "('a loc_st_scheme, int) state" where
  "loc_eng_start_handler = do {
     b \<leftarrow> isInSession;
     if b then ret LOC_API_ADAPTER_ERR_SUCCESS
     else do {
       r \<leftarrow> startFix;
       (if r = LOC_API_ADAPTER_ERR_SUCCESS \<or> r = LOC_API_ADAPTER_ERR_ENGINE_DOWN then do {
          setInSession True;
          loc_inform_gps_status GPS_STATUS_SESSION_BEGIN
        } else ret ());
       ret r
     }
   }"

definition loc_eng_stop_handler :: "('a loc_st_scheme, int) state" where
  "loc_eng_stop_handler = do {
     b \<leftarrow> isInSession;
     if b then do {
       r \<leftarrow> stopFix;
       (if r = LOC_API_ADAPTER_ERR_SUCCESS then loc_inform_gps_status GPS_STATUS_SESSION_END else ret ());
       setInSession False;
       ret r
     } else ret LOC_API_ADAPTER_ERR_SUCCESS
   }"

definition loc_eng_start :: "('a loc_st_scheme, int) state" where
  "loc_eng_start = do {
     a \<leftarrow> gets eng_adapter;
     if \<not> a then ret (- 1)
     else do {
       b \<leftarrow> ulp_call ''sendStartFix'' [] [];
       (if b then ret () else eng_send LocEngStartFix);
       ret 0
     }
   }"

definition loc_eng_stop :: "('a loc_st_scheme, int) state" where
  "loc_eng_stop = do {
     a \<leftarrow> gets eng_adapter;
     if \<not> a then ret (- 1)
     else do {
       b \<leftarrow> ulp_call ''sendStopFix'' [] [];
       (if b then ret () else eng_send LocEngStopFix);
       ret 0
     }
   }"

definition loc_eng_cleanup :: "('a loc_st_scheme, unit) state" where
  "loc_eng_cleanup = do {
     a \<leftarrow> gets eng_adapter;
     if a then do {
       b \<leftarrow> isInSession;
       (if b then do { _ \<leftarrow> loc_eng_stop; ret () } else ret ())
     } else ret ()
   }"

definition loc_eng_set_position_mode :: "loc_pos_mode \<Rightarrow> ('a loc_st_scheme, int) state" where
  "loc_eng_set_position_mode params = do {
     a \<leftarrow> gets eng_adapter;
     if \<not> a then ret (- 1)
     else do {
       g \<leftarrow> gnss_type;
       let params = (if (g = GNSS_GSS \<or> g = GNSS_QCA1530) \<and> pm_mode params \<noteq> LOC_POSITION_MODE_STANDALONE
         then params\<lparr>pm_mode := LOC_POSITION_MODE_STANDALONE\<rparr> else params);
       b \<leftarrow> ulp_call ''sendFixMode'' (pos_mode_ints params) [];
       (if b then ret () else eng_send (LocEngPositionMode params));
       ret 0
     }
   }"

definition loc_eng_inject_time :: "int \<Rightarrow> int \<Rightarrow> int \<Rightarrow> ('a loc_st_scheme, int) state" where
  "loc_eng_inject_time time timeReference uncertainty = do {
     a \<leftarrow> gets eng_adapter;
     if \<not> a then ret (- 1) else do { eng_send (LocEngSetTime time timeReference uncertainty); ret 0 }
   }"

definition loc_eng_inject_location :: "rat \<Rightarrow> rat \<Rightarrow> rat \<Rightarrow> ('a loc_st_scheme, int) state" where
  "loc_eng_inject_location lat long accu = do {
     s \<leftarrow> gets id;
     if \<not> eng_adapter s then ret (- 1)
     else do {
       (if \<not> mCPIEnabled s then eng_send (LocEngInjectLocation lat long accu) else ret ());
       ret 0
     }
   }"

definition loc_eng_delete_aiding_data :: "int \<Rightarrow> ('a loc_st_scheme, unit) state" where
  "loc_eng_delete_aiding_data f = do {
     a \<leftarrow> gets eng_adapter;
     (if a then eng_send (LocEngDelAidData f) else ret ())
   }"

definition update_aiding_data_for_deletion :: "('a loc_st_scheme, unit) state" where
  "update_aiding_data_for_deletion = do {
     s \<leftarrow> gets id;
     if engine_status s \<noteq> GPS_STATUS_ENGINE_ON \<and> aiding_data_for_deletion s \<noteq> 0 then do {
       _ \<leftarrow> api_call ''deleteAidingData'' [aiding_data_for_deletion s];
       modify (\<lambda>s. s\<lparr>aiding_data_for_deletion := 0\<rparr>)
     } else ret ()
   }"

section \<open>Reports\<close>

text \<open>Whether a position is given to the callback: a final one by satellites or sensors, or one that is accurate enough.\<close>

definition wanted_fix :: "'a loc_st_scheme \<Rightarrow> ulp_location \<Rightarrow> int \<Rightarrow> int \<Rightarrow> bool" where
  "wanted_fix s l status tech \<longleftrightarrow>
     status = LOC_SESS_SUCCESS \<and>
       has_bit (or LOC_POS_TECH_MASK_SATELLITE (or LOC_POS_TECH_MASK_SENSORS LOC_POS_TECH_MASK_HYBRID)) tech \<or>
     intermediateFix s = LOC_SESS_INTERMEDIATE \<and>
       \<not> (has_bit (gl_flags (gpsLocation l)) GPS_LOCATION_HAS_ACCURACY \<and> ACCURACY_THRES (gps_conf s) \<noteq> 0 \<and>
          accuracy (gpsLocation l) > fl s (of_int (ACCURACY_THRES (gps_conf s))))"

definition proc_report_position :: "ulp_location \<Rightarrow> gps_location_extended \<Rightarrow> nat \<Rightarrow> int \<Rightarrow> int \<Rightarrow> ('a loc_st_scheme, unit) state" where
  "proc_report_position l lx ext status tech = do {
     s \<leftarrow> gets id;
     if mute_session_state s = LOC_MUTE_SESS_IN_SESSION then ret ()
     else do {
       reported \<leftarrow>
         (if location_cb s = 0 then ret False
          else if status = LOC_SESS_FAILURE then do { call_location_cb None 0; ret True }
          else if wanted_fix s l status tech then do { call_location_cb (Some l) ext; ret True }
          else ret False);
       p \<leftarrow> gets mFixCriteria;
       (if reported \<and> recurrence p = GPS_POSITION_RECURRENCE_SINGLE then do {
          (if status = LOC_SESS_INTERMEDIATE then do { _ \<leftarrow> stopFix; ret () } else ret ());
          setInSession False
        } else ret ());
       (if generateNmea s \<and> position_source l = ULP_LOCATION_IS_FROM_GNSS
        then loc_eng_nmea_generate_pos l lx (reported \<and> status \<noteq> LOC_SESS_FAILURE) else ret ());
       (if rawData l \<noteq> 0 then emit (E_free (rawData l)) else ret ())
     }
   }"

definition proc_report_sv :: "sv_status \<Rightarrow> gps_location_extended \<Rightarrow> nat \<Rightarrow> ('a loc_st_scheme, unit) state" where
  "proc_report_sv v lx ext = do {
     s \<leftarrow> gets id;
     if mute_session_state s = LOC_MUTE_SESS_IN_SESSION then ret ()
     else do {
       (if sv_status_cb s \<noteq> 0 then call_sv_cb v ext else ret ());
       (if generateNmea s then loc_eng_nmea_generate_sv v lx else ret ())
     }
   }"

definition mute_step :: "int \<Rightarrow> int \<Rightarrow> int" where
  "mute_step status m =
     (let m = (if (status = GPS_STATUS_SESSION_BEGIN \<or> status = GPS_STATUS_ENGINE_ON) \<and> m = LOC_MUTE_SESS_WAIT
        then LOC_MUTE_SESS_IN_SESSION else m) in
      if m = LOC_MUTE_SESS_IN_SESSION \<and> (status = GPS_STATUS_SESSION_END \<or> status = GPS_STATUS_ENGINE_OFF)
      then LOC_MUTE_SESS_NONE else m)"

definition loc_eng_report_status :: "int \<Rightarrow> ('a loc_st_scheme, unit) state" where
  "loc_eng_report_status status = do {
     modify (\<lambda>s. s\<lparr>mute_session_state := mute_step status (mute_session_state s)\<rparr>);
     navigating \<leftarrow> isInSession;
     m \<leftarrow> gets mute_session_state;
     (if status \<noteq> GPS_STATUS_NONE \<and> \<not> (status = GPS_STATUS_SESSION_END \<and> navigating) \<and>
         \<not> (status = GPS_STATUS_SESSION_BEGIN \<and> \<not> navigating) \<and> m \<noteq> LOC_MUTE_SESS_IN_SESSION
      then loc_inform_gps_status status else ret ());
     (if status = GPS_STATUS_ENGINE_ON \<or> status = GPS_STATUS_ENGINE_OFF
      then modify (\<lambda>s. s\<lparr>engine_status := status\<rparr>) else ret ());
     (if status = GPS_STATUS_SESSION_BEGIN \<or> status = GPS_STATUS_SESSION_END
      then modify (\<lambda>s. s\<lparr>fix_session_status := status\<rparr>) else ret ())
   }"

definition proc_report_status :: "int \<Rightarrow> ('a loc_st_scheme, unit) state" where
  "proc_report_status status = do { loc_eng_report_status status; update_aiding_data_for_deletion }"

definition proc_report_nmea :: "string \<Rightarrow> ('a loc_st_scheme, unit) state" where
  "proc_report_nmea nmea = do {
     r \<leftarrow> call (E_time T_gettimeofday);
     let now = num r 0 * 1000 + num r 1 div 1000;
     cb \<leftarrow> gets nmea_cb;
     (if cb \<noteq> 0 then emit (E_hook ''nmea_cb'' (now # int (length nmea) # str_ints nmea)) else ret ())
   }"

definition proc_report_xtra_server :: "string \<Rightarrow> string \<Rightarrow> string \<Rightarrow> ('a loc_st_scheme, unit) state" where
  "proc_report_xtra_server url1 url2 url3 = do {
     cb \<leftarrow> gets report_xtra_server_cb;
     (if cb \<noteq> 0 then emit (E_hook ''report_xtra_server_cb'' (str_ints url1 @ 0 # str_ints url2 @ 0 # str_ints url3)) else ret ())
   }"

definition proc_request_xtra :: "('a loc_st_scheme, unit) state" where
  "proc_request_xtra = do {
     cb \<leftarrow> gets download_request_cb;
     (if cb \<noteq> 0 then emit (E_hook ''download_request_cb'' []) else ret ())
   }"

definition proc_request_time :: "('a loc_st_scheme, unit) state" where
  "proc_request_time = do {
     s \<leftarrow> gets id;
     (if has_bit (CAPABILITIES (gps_conf s)) GPS_CAPABILITY_ON_DEMAND_TIME \<and> request_utc_time_cb s \<noteq> 0
      then emit (E_hook ''request_utc_time_cb'' []) else ret ())
   }"

section \<open>Servers\<close>

text \<open>The address as a number in the order of the network; the answer of \<open>gethostbyname\<close> has the bytes and their number.\<close>

definition resolve_in_addr :: "string \<Rightarrow> ('a world_scheme, int option) state" where
  "resolve_in_addr host_addr = do {
     h \<leftarrow> call (E_hook ''gethostbyname'' (str_ints host_addr));
     if rv h \<noteq> 0 then do { must (length (rbuf h) = 4); ret (Some (ule32_at (rbuf h) 0)) }
     else do {
       a \<leftarrow> call (E_hook ''inet_aton'' (str_ints host_addr));
       ret (if rv a = 0 then None else Some (num a 0))
     }
   }"

definition htonl :: "int \<Rightarrow> int" where
  "htonl x = x mod 256 * 2 ^ 24 + x div 2 ^ 8 mod 256 * 2 ^ 16 + x div 2 ^ 16 mod 256 * 2 ^ 8 + x div 2 ^ 24 mod 256"

definition loc_eng_set_server :: "int \<Rightarrow> string \<Rightarrow> int \<Rightarrow> ('a loc_st_scheme, int) state" where
  "loc_eng_set_server ty hostname port =
     (if ty = LOC_AGPS_SUPL_SERVER then do {
        let url = hostname @ '':'' @ nat_str (nat (uwrap 32 port));
        (if length url < MAX_URL_LEN then eng_send (LocEngSetServerUrl url) else ret ());
        ret 0
      } else if ty = LOC_AGPS_CDMA_PDE_SERVER \<or> ty = LOC_AGPS_CUSTOM_PDE_SERVER \<or> ty = LOC_AGPS_MPC_SERVER then do {
        addr \<leftarrow> resolve_in_addr hostname;
        (case addr of
           None \<Rightarrow> ret (- 2)
         | Some a \<Rightarrow> do { eng_send (LocEngSetServerIpv4 (htonl a) port ty); ret 0 })
      } else ret 0)"

definition loc_eng_set_server_proxy :: "int \<Rightarrow> string \<Rightarrow> int \<Rightarrow> ('a loc_st_scheme, int) state" where
  "loc_eng_set_server_proxy ty hostname port = do {
     a \<leftarrow> gets eng_adapter;
     if a then loc_eng_set_server ty hostname port
     else do {
       let kept = Some (take (HOST_BUF - 1) hostname, port);
       (if ty = LOC_AGPS_SUPL_SERVER then modify (\<lambda>s. s\<lparr>supl_server := kept\<rparr>)
        else if ty = LOC_AGPS_CDMA_PDE_SERVER then modify (\<lambda>s. s\<lparr>c2k_server := kept\<rparr>)
        else ret ());
       ret 0
     }
   }"

definition set_kept :: "int \<Rightarrow> (string \<times> int) option \<Rightarrow> ('a loc_st_scheme, unit) state" where
  "set_kept ty kept = (case kept of None \<Rightarrow> ret () | Some (h, p) \<Rightarrow> do { _ \<leftarrow> loc_eng_set_server ty h p; ret () })"

definition loc_eng_agps_reinit :: "('a loc_st_scheme, unit) state" where
  "loc_eng_agps_reinit = do {
     supl \<leftarrow> gets supl_server;
     set_kept LOC_AGPS_SUPL_SERVER supl;
     c2k \<leftarrow> gets c2k_server;
     set_kept LOC_AGPS_CDMA_PDE_SERVER c2k
   }"

text \<open>\<open>agpsStatus\<close> is kept even if there is no engine.\<close>

definition loc_eng_agps_ril_update_network_availability :: "int \<Rightarrow> string option \<Rightarrow> ('a loc_st_scheme, unit) state" where
  "loc_eng_agps_ril_update_network_availability available apn = do {
     modify (\<lambda>s. s\<lparr>agpsStatus := uwrap 32 available\<rparr>);
     a \<leftarrow> gets eng_adapter;
     (if a then (case apn of
        None \<Rightarrow> ret ()
      | Some x \<Rightarrow> eng_send (LocEngEnableData available (Some (take MAX_APN_LEN (cstr x))))) else ret ())
   }"

section \<open>Start and restart\<close>

definition any_walk_valid :: "sap_cfg \<Rightarrow> bool" where
  "any_walk_valid c \<longleftrightarrow> list_ex fst (random_walks c)"

definition loc_eng_reinit :: "('a loc_st_scheme, int) state" where
  "loc_eng_reinit = do {
     g \<leftarrow> gets gps_conf;
     c \<leftarrow> gets sap_conf;
     s \<leftarrow> gets id;
     eng_send (LocEngSuplVer (swrap 32 (SUPL_VER g)));
     eng_send (LocEngLppConfig (swrap 32 (LPP_PROFILE g)));
     eng_send (LocEngSensorControlConfig (swrap 32 (SENSOR_USAGE c)));
     eng_send (LocEngAGlonassProtocol (A_GLONASS_POS_PROTOCOL_SELECT g));
     (if any_walk_valid c then eng_send (LocEngSensorProperties (map (\<lambda>(b, x). (b, fl s x)) (random_walks c))) else ret ());
     eng_send (LocEngSensorPerfControlConfig (map (swrap 32) (perf_control c)));
     st \<leftarrow> gets agpsStatus;
     eng_send (LocEngEnableData (of_cbool (st \<noteq> 0)) None);
     ret LOC_API_ADAPTER_ERR_SUCCESS
   }"

text \<open>\<open>LocCallbacks\<close>\<close>

record loc_callbacks =
  lc_location_cb :: nat
  lc_status_cb :: nat
  lc_sv_status_cb :: nat
  lc_nmea_cb :: nat
  lc_set_capabilities_cb :: nat
  lc_acquire_wakelock_cb :: nat
  lc_release_wakelock_cb :: nat
  lc_create_thread_cb :: nat
  lc_location_ext_parser :: nat
  lc_sv_ext_parser :: nat
  lc_request_utc_time_cb :: nat

text \<open>\<open>memset(&loc_eng_data, 0, sizeof (loc_eng_data))\<close>\<close>

definition clear_eng_data :: "'a loc_st_scheme \<Rightarrow> 'a loc_st_scheme" where
  "clear_eng_data s = s\<lparr>eng_adapter := False, agps_status_cb := 0, agnss_nif := 0, internet_nif := 0, wifi_nif := 0, ds_nif := 0,
     location_cb := 0, status_cb := 0, sv_status_cb := 0, nmea_cb := 0, ni_notify_cb := 0, request_utc_time_cb := 0,
     acquire_wakelock_cb := 0, release_wakelock_cb := 0, location_ext_parser := 0, sv_ext_parser := 0, intermediateFix := 0,
     download_request_cb := 0, report_xtra_server_cb := 0, respTimeLeft := 0, respRecvd := False, rawRequest := 0, reqID := 0,
     resp := 0, engine_status := GPS_STATUS_NONE, fix_session_status := GPS_STATUS_NONE, aiding_data_for_deletion := 0,
     mute_session_state := LOC_MUTE_SESS_NONE, generateNmea := False, sv_used_mask := 0, hdop := 0, pdop := 0, vdop := 0,
     supl_server := None, c2k_server := None\<rparr>"

text \<open>\<open>LocDualContext::getLocFgContext\<close> with \<open>ContextBase\<close>: 0 stands for the proxy and the location API of the base classes.\<close>

definition dl_getter :: "string \<Rightarrow> string \<Rightarrow> ('a world_scheme, bool) state" where
  "dl_getter libName name = do {
     lib \<leftarrow> call (E_hook ''dlopen'' (str_ints libName));
     if rv lib = 0 then ret False
     else do { f \<leftarrow> call (E_hook ''dlsym'' (rv lib # str_ints name)); ret (rv f \<noteq> 0) }
   }"

definition getLBSProxy :: "string \<Rightarrow> ('a world_scheme, nat) state" where
  "getLBSProxy libName = do {
     b \<leftarrow> dl_getter libName ''getLBSProxy'';
     if b then do { p \<leftarrow> call (E_hook ''getLBSProxy'' []); ret (nat (rv p)) } else ret 0
   }"

definition createLocApi :: "nat \<Rightarrow> int \<Rightarrow> ('a loc_st_scheme, nat) state" where
  "createLocApi proxy exMask = do {
     t \<leftarrow> loc_get_target;
     if t = TARGET_MPQ then ret 0
     else do {
       r \<leftarrow> (if proxy = 0 then ret 0 else do { r \<leftarrow> call (E_hook ''getLocApi'' [int proxy, exMask]); ret (nat (rv r)) });
       if r \<noteq> 0 then ret r
       else do {
         b \<leftarrow> dl_getter ''libloc_api-rpc-qc.so'' ''getLocApi'';
         if b then do { r \<leftarrow> call (E_hook ''getLocApi'' [exMask]); ret (nat (rv r)) } else ret 0
       }
     }
   }"

definition mFgExclMask :: int where "mFgExclMask = 0"

definition getMsgTask :: "nat \<Rightarrow> ('a loc_st_scheme, unit) state" where
  "getMsgTask tCreator = do {
     b \<leftarrow> gets mMsgTask;
     if b then ret ()
     else do {
       (if tCreator \<noteq> 0 then emit (E_hook ''create_thread_cb'' [int tCreator]) else emit (E_thread Th_create 0));
       modify (\<lambda>s. s\<lparr>mMsgTask := True\<rparr>)
     }
   }"

definition getLocFgContext :: "nat \<Rightarrow> ('a loc_st_scheme, unit) state" where
  "getLocFgContext tCreator = do {
     b \<leftarrow> gets mFgContext;
     if b then ret ()
     else do {
       getMsgTask tCreator;
       p \<leftarrow> getLBSProxy ''liblbs_core.so'';
       a \<leftarrow> createLocApi p mFgExclMask;
       modify (\<lambda>s. s\<lparr>mFgContext := True, mLBSProxy := p, mLocApi := a, mExcludedMask := mFgExclMask,
         mLocAdapters := replicate MAX_ADAPTERS 0\<rparr>)
     }
   }"

text \<open>The constructor of \<open>LocEngAdapter\<close>.\<close>

definition new_adapter :: "int \<Rightarrow> nat \<Rightarrow> ('a loc_st_scheme, unit) state" where
  "new_adapter mask_event tCreator = do {
     getLocFgContext tCreator;
     modify (\<lambda>s. s\<lparr>mEvtMask := mask_event\<rparr>);
     addAdapter ENG_ADAPTER;
     modify (\<lambda>s. s\<lparr>mUlp := 0, mNavigating := False, mAgpsEnabled := False, mCPIEnabled := False,
       mFixCriteria := \<lparr>pm_mode = LOC_POSITION_MODE_INVALID, recurrence = 0, min_interval = 0, preferred_accuracy = 0,
         preferred_time = 0, credentials = [], provider = []\<rparr>\<rparr>)
   }"

text \<open>What follows the \<open>memset\<close>.\<close>

definition set_up_engine :: "loc_callbacks \<Rightarrow> int \<Rightarrow> ('a loc_st_scheme, unit) state" where
  "set_up_engine c event = do {
     g \<leftarrow> gets gps_conf;
     (if lc_set_capabilities_cb c \<noteq> 0 then emit (E_hook ''set_capabilities_cb'' [CAPABILITIES g]) else ret ());
     modify (\<lambda>s. s\<lparr>location_cb := lc_location_cb c, sv_status_cb := lc_sv_status_cb c, status_cb := lc_status_cb c,
       nmea_cb := lc_nmea_cb c, acquire_wakelock_cb := lc_acquire_wakelock_cb c,
       release_wakelock_cb := lc_release_wakelock_cb c, request_utc_time_cb := lc_request_utc_time_cb c,
       location_ext_parser := lc_location_ext_parser c, sv_ext_parser := lc_sv_ext_parser c,
       intermediateFix := uwrap 8 (INTERMEDIATE_POS g)\<rparr>);
     let ap = (has_bit event LOC_API_ADAPTER_BIT_NMEA_1HZ_REPORT \<and> NMEA_PROVIDER g = NMEA_PROVIDER_AP);
     modify (\<lambda>s. s\<lparr>generateNmea := ap\<rparr>);
     new_adapter (if ap then xor event LOC_API_ADAPTER_BIT_NMEA_1HZ_REPORT else event) (lc_create_thread_cb c);
     modify (\<lambda>s. s\<lparr>eng_adapter := True\<rparr>);
     eng_send LocEngInit
   }"

definition loc_eng_init :: "loc_callbacks option \<Rightarrow> int \<Rightarrow> ('a loc_st_scheme, int) state" where
  "loc_eng_init cbs event = (case cbs of
     None \<Rightarrow> ret (- 1)
   | Some c \<Rightarrow>
       if event = 0 then ret (- 1)
       else do {
         a \<leftarrow> gets eng_adapter;
         if a then ret 0
         else do { modify clear_eng_data; set_up_engine c event; ret 0 }
       })"

text \<open>
  The status callback and the one that makes threads; \<open>None\<close> for \<open>NULL\<close>. The last arguments are those of the launch of the
  server's thread in \<open>Dmn_Server\<close>.
\<close>

definition loc_eng_agps_init ::
  "(nat \<times> nat) option \<Rightarrow> nat \<Rightarrow> ('a loc_st_scheme, unit) state \<Rightarrow> ('a loc_st_scheme, unit) state \<Rightarrow> ('a loc_st_scheme, unit) state" where
  "loc_eng_agps_init cbs ctxt early other = do {
     s \<leftarrow> gets id;
     if \<not> eng_adapter s \<or> agps_status_cb s \<noteq> 0 then ret ()
     else (case cbs of
       None \<Rightarrow> ret ()
     | Some (cb, create) \<Rightarrow> do {
         modify (\<lambda>s. s\<lparr>agps_status_cb := cb\<rparr>);
         m \<leftarrow> new_machine servicerTypeAgps cb AGPS_TYPE_WWAN_ANY False False;
         modify (\<lambda>s. s\<lparr>internet_nif := m\<rparr>);
         m \<leftarrow> new_machine servicerTypeAgps cb AGPS_TYPE_WIFI True False;
         modify (\<lambda>s. s\<lparr>wifi_nif := m\<rparr>);
         g \<leftarrow> gnss_type;
         (if g \<noteq> GNSS_GSS \<and> g \<noteq> GNSS_QCA1530 then do {
            m \<leftarrow> new_machine servicerTypeAgps cb AGPS_TYPE_SUPL False False;
            modify (\<lambda>s. s\<lparr>agnss_nif := m\<rparr>);
            on \<leftarrow> gets mAgpsEnabled;
            (if on then do {
               send_msg LocEngDataClientInit;
               _ \<leftarrow> loc_eng_dmn_conn_loc_api_server_launch create None None 1 ctxt early other;
               ret ()
             } else ret ());
            loc_eng_agps_reinit
          } else ret ())
       })
   }"

definition loc_eng_handle_engine_down :: "('a loc_st_scheme, unit) state" where
  "loc_eng_handle_engine_down = do {
     loc_eng_ni_reset_on_engine_restart;
     loc_eng_report_status GPS_STATUS_ENGINE_OFF
   }"

definition drop_if :: "nat \<Rightarrow> ('a agps_st_scheme, unit) state" where
  "drop_if m = (if m \<noteq> 0 then dropAllSubscribers m else ret ())"

definition loc_eng_handle_engine_up :: "('a loc_st_scheme, unit) state" where
  "loc_eng_handle_engine_up = do {
     _ \<leftarrow> loc_eng_reinit;
     cb \<leftarrow> gets agps_status_cb;
     (if cb \<noteq> 0 then do {
        m \<leftarrow> gets agnss_nif;
        drop_if m;
        m \<leftarrow> gets internet_nif;
        drop_if m;
        loc_eng_agps_reinit
      } else ret ());
     loc_eng_report_status GPS_STATUS_ENGINE_ON;
     b \<leftarrow> isInSession;
     (if b then do {
        _ \<leftarrow> setPositionMode None;
        setInSession False;
        _ \<leftarrow> loc_eng_start_handler;
        ret ()
      } else ret ())
   }"

section \<open>XTRA\<close>

definition loc_eng_xtra_init :: "(nat \<times> nat) option \<Rightarrow> ('a loc_st_scheme, int) state" where
  "loc_eng_xtra_init cbs = (case cbs of
     None \<Rightarrow> ret (- 1)
   | Some (d, r) \<Rightarrow> do { modify (\<lambda>s. s\<lparr>download_request_cb := d, report_xtra_server_cb := r\<rparr>); ret 0 })"

text \<open>The adapter is not tested.\<close>

definition loc_eng_xtra_inject_data :: "string \<Rightarrow> nat \<Rightarrow> ('a loc_st_scheme, int) state" where
  "loc_eng_xtra_inject_data data len = do {
     a \<leftarrow> gets eng_adapter;
     must (a \<and> len \<le> length data);
     eng_send (LocEngInjectXtraData (take len data));
     ret 0
   }"

definition loc_eng_xtra_request_server :: "('a loc_st_scheme, int) state" where
  "loc_eng_xtra_request_server = do { a \<leftarrow> gets eng_adapter; must a; eng_send LocEngRequestXtraServer; ret 0 }"

section \<open>The task\<close>

definition api_do :: "string \<Rightarrow> int list \<Rightarrow> ('a world_scheme, unit) state" where
  "api_do f xs = do { _ \<leftarrow> api_call f xs; ret () }"

fun proc_eng :: "eng_msg \<Rightarrow> ('a loc_st_scheme, unit) state" where
  "proc_eng (LocEngRequestNi notif payload) = do { _ \<leftarrow> loc_eng_ni_request_handler notif payload; ret () }"
| "proc_eng (LocEngInformNiResponse r payload) = proc_inform_ni_response r payload"
| "proc_eng LocEngStartFix = do { _ \<leftarrow> loc_eng_start_handler; ret () }"
| "proc_eng LocEngStopFix = do { _ \<leftarrow> loc_eng_stop_handler; ret () }"
| "proc_eng (LocEngPositionMode p) = do { _ \<leftarrow> setPositionMode (Some p); ret () }"
| "proc_eng (LocEngSetTime t tf unc) = api_do ''setTime'' [t, tf, unc]"
| "proc_eng (LocEngInjectLocation lat long accu) = do { _ \<leftarrow> api_callf ''injectPosition'' [] [lat, long, accu]; ret () }"
| "proc_eng (LocEngSetServerIpv4 ip port ty) = api_do ''setServer'' [ip, port, ty]"
| "proc_eng (LocEngSetServerUrl url) = api_do ''setServer'' (int (length url) # str_ints url)"
| "proc_eng (LocEngAGlonassProtocol p) = api_do ''setAGLONASSProtocol'' [p]"
| "proc_eng (LocEngSuplVer v) = api_do ''setSUPLVersion'' [uwrap 32 v]"
| "proc_eng (LocEngLppConfig p) = api_do ''setLPPConfig'' [uwrap 32 p]"
| "proc_eng (LocEngSensorControlConfig d) = api_do ''setSensorControlConfig'' [d]"
| "proc_eng (LocEngSensorProperties ws) =
     do { _ \<leftarrow> api_callf ''setSensorProperties'' (map (\<lambda>w. of_cbool (fst w)) ws) (map snd ws); ret () }"
| "proc_eng (LocEngSensorPerfControlConfig xs) = api_do ''setSensorPerfControlConfig'' xs"
| "proc_eng (LocEngExtPowerConfig b) = api_do ''setExtPowerConfig'' [b]"
| "proc_eng (LocEngReportPosition l lx ext status tech) = proc_report_position l lx ext status tech"
| "proc_eng (LocEngReportSv v lx ext) = proc_report_sv v lx ext"
| "proc_eng (LocEngReportStatus status) = proc_report_status status"
| "proc_eng (LocEngReportNmea nmea) = proc_report_nmea nmea"
| "proc_eng (LocEngReportXtraServer u1 u2 u3) = proc_report_xtra_server u1 u2 u3"
| "proc_eng LocEngRequestXtra = proc_request_xtra"
| "proc_eng LocEngRequestTime = proc_request_time"
| "proc_eng (LocEngDelAidData f) = do {
     modify (\<lambda>s. s\<lparr>aiding_data_for_deletion := f\<rparr>);
     update_aiding_data_for_deletion
   }"
| "proc_eng (LocEngEnableData en apn) = do {
     api_do ''enableData'' [en];
     (case apn of None \<Rightarrow> ret () | Some a \<Rightarrow> api_do ''setAPN'' (int (length a) # str_ints a))
   }"
| "proc_eng LocEngInit = do { _ \<leftarrow> loc_eng_reinit; ret () }"
| "proc_eng (LocEngInjectXtraData data) = api_do ''setXtraData'' (int (length data) # str_ints data)"
| "proc_eng LocEngRequestXtraServer = api_do ''requestXtraServer'' []"
| "proc_eng LocEngDown = loc_eng_handle_engine_down"
| "proc_eng LocEngUp = loc_eng_handle_engine_up"
| "proc_eng (LocSetUlpProxy ulp) = setUlpProxy ulp"
| "proc_eng LocSsrMsg = do { api_do ''close'' []; m \<leftarrow> getEvtMask; api_do ''open'' [m] }"
| "proc_eng (LocOpenMsg m) = api_do ''open'' [m]"

text \<open>One turn of the task, and \<open>n\<close> of them.\<close>

definition eng_turn :: "('a loc_st_scheme, unit) state" where
  "eng_turn = task_turn proc_eng"

primrec eng_turns :: "nat \<Rightarrow> ('a loc_st_scheme, unit) state" where
  "eng_turns 0 = ret ()"
| "eng_turns (Suc n) = do { eng_turn; eng_turns n }"

end
