(* ===== verification/Loc_Hal.thy ===== *)
theory Loc_Hal
  imports Loc_Eng
begin

text \<open>
  \<open>gps/loc_api/libloc_api_50001/loc.cpp\<close>: the interface of the GPS HAL over the one engine there is. An interface
  is whether it is given.
\<close>

definition GPS_CAPABILITY_MSB :: int where "GPS_CAPABILITY_MSB = 2"
definition GPS_CAPABILITY_MSA :: int where "GPS_CAPABILITY_MSA = 4"
definition GPS_CAPABILITY_GEOFENCING :: int where "GPS_CAPABILITY_GEOFENCING = 0x20"
definition GPS_POSITION_MODE_MS_BASED :: int where "GPS_POSITION_MODE_MS_BASED = 1"
definition GPS_POSITION_MODE_MS_ASSISTED :: int where "GPS_POSITION_MODE_MS_ASSISTED = 2"
definition AGPS_TYPE_C2K :: int where "AGPS_TYPE_C2K = 2"
definition AGPS_APN_BEARER_IPV4 :: int where "AGPS_APN_BEARER_IPV4 = 0"

definition gps_get_hardware_interface :: "('a loc_st_scheme, bool) state" where
  "gps_get_hardware_interface = do {
     _ \<leftarrow> loc_eng_read_config;
     (_, buf) \<leftarrow> property_get ''gps.disable'' [];
     _ \<leftarrow> loc_eng_read_config;
     ret (\<not> (buf \<noteq> [] \<and> hd buf = CHR ''1''))
   }"

definition no_assistance :: "('a loc_st_scheme, unit) state" where
  "no_assistance = modify (upd_gps (\<lambda>g. g\<lparr>CAPABILITIES :=
     and (CAPABILITIES g) (uwrap 32 (not (or GPS_CAPABILITY_MSA GPS_CAPABILITY_MSB)))\<rparr>))"

definition get_gps_interface :: "('a loc_st_scheme, bool) state" where
  "get_gps_interface = do {
     _ \<leftarrow> loc_eng_read_config;
     g \<leftarrow> gnss_type;
     if g = GNSS_GSS then do {
       no_assistance;
       r \<leftarrow> call (E_open ''/dev/gss'' [O_RDONLY]);
       modify (\<lambda>s. s\<lparr>gss_fd := rv r\<rparr>);
       ret True
     }
     else if g = GNSS_NONE then ret False
     else if g = GNSS_QCA1530 then do { no_assistance; ret True }
     else ret True
   }"

text \<open>\<open>GpsCallbacks\<close>\<close>

record gps_callbacks =
  g_location_cb :: nat
  g_status_cb :: nat
  g_sv_status_cb :: nat
  g_nmea_cb :: nat
  g_set_capabilities_cb :: nat
  g_acquire_wakelock_cb :: nat
  g_release_wakelock_cb :: nat
  g_create_thread_cb :: nat
  g_request_utc_time_cb :: nat

text \<open>The events: position, satellites, NMEA, notifications, assistance data, servers, control, status.\<close>

definition LOC_INIT_EVENTS :: int where "LOC_INIT_EVENTS = 0x1F7"

definition client_callbacks :: "gps_callbacks \<Rightarrow> loc_callbacks" where
  "client_callbacks c = \<lparr>lc_location_cb = HAL_CB, lc_status_cb = g_status_cb c, lc_sv_status_cb = HAL_CB, lc_nmea_cb = g_nmea_cb c,
     lc_set_capabilities_cb = g_set_capabilities_cb c, lc_acquire_wakelock_cb = g_acquire_wakelock_cb c,
     lc_release_wakelock_cb = g_release_wakelock_cb c, lc_create_thread_cb = g_create_thread_cb c, lc_location_ext_parser = 0,
     lc_sv_ext_parser = 0, lc_request_utc_time_cb = g_request_utc_time_cb c\<rparr>"

text \<open>A question to the proxy; the base class has no extension.\<close>

definition proxy_has :: "string \<Rightarrow> ('a loc_st_scheme, bool) state" where
  "proxy_has f = do {
     p \<leftarrow> gets mLBSProxy;
     if p = 0 then ret False else do { r \<leftarrow> call (E_hook f [int p]); ret (rv r \<noteq> 0) }
   }"

definition requestUlp :: "int \<Rightarrow> ('a loc_st_scheme, unit) state" where
  "requestUlp capabilities = do {
     p \<leftarrow> gets mLBSProxy;
     (if p = 0 then ret () else emit (E_hook ''requestUlp'' [int p, capabilities]))
   }"

definition loc_init :: "gps_callbacks option \<Rightarrow> ('a loc_st_scheme, int) state" where
  "loc_init cbs = (case cbs of
     None \<Rightarrow> ret (- 1)
   | Some c \<Rightarrow> do {
       modify (\<lambda>s. s\<lparr>gps_loc_cb := g_location_cb c, gps_sv_cb := g_sv_status_cb c\<rparr>);
       r \<leftarrow> loc_eng_init (Some (client_callbacks c)) LOC_INIT_EVENTS;
       g \<leftarrow> gets gps_conf;
       requestUlp (CAPABILITIES g);
       a \<leftarrow> proxy_has ''hasAgpsExt'';
       modify (\<lambda>s. s\<lparr>mAgpsEnabled := \<not> a\<rparr>);
       c \<leftarrow> proxy_has ''hasCPIExt'';
       modify (\<lambda>s. s\<lparr>mCPIEnabled := \<not> c\<rparr>);
       ret r
     })"

definition loc_cleanup :: "('a loc_st_scheme, unit) state" where
  "loc_cleanup = do { loc_eng_cleanup; modify (\<lambda>s. s\<lparr>gps_loc_cb := 0, gps_sv_cb := 0\<rparr>) }"

definition loc_start :: "('a loc_st_scheme, int) state" where "loc_start = loc_eng_start"

definition loc_stop :: "('a loc_st_scheme, int) state" where "loc_stop = loc_eng_stop"

definition loc_set_position_mode :: "int \<Rightarrow> int \<Rightarrow> int \<Rightarrow> int \<Rightarrow> int \<Rightarrow> ('a loc_st_scheme, int) state" where
  "loc_set_position_mode mode recr interval accu time =
     (let locMode = (if mode = GPS_POSITION_MODE_MS_BASED then LOC_POSITION_MODE_MS_BASED
        else if mode = GPS_POSITION_MODE_MS_ASSISTED then LOC_POSITION_MODE_MS_ASSISTED else LOC_POSITION_MODE_STANDALONE)
      in loc_eng_set_position_mode (mk_pos_mode locMode recr interval accu time))"

definition loc_inject_time :: "int \<Rightarrow> int \<Rightarrow> int \<Rightarrow> ('a loc_st_scheme, int) state" where
  "loc_inject_time time timeReference uncertainty = loc_eng_inject_time time timeReference uncertainty"

text \<open>The accuracy that is given is not used.\<close>

definition loc_inject_location :: "rat \<Rightarrow> rat \<Rightarrow> rat \<Rightarrow> ('a loc_st_scheme, int) state" where
  "loc_inject_location lat long accu = do {
     known \<leftarrow> gets cpi_initialized;
     (if known then ret ()
      else do {
        (_, v) \<leftarrow> property_get ''persist.gps.qc_nlp_in_use'' ''0'';
        (if v = ''1'' then modify (\<lambda>s. s\<lparr>enable_cpi := False\<rparr>) else ret ());
        modify (\<lambda>s. s\<lparr>cpi_initialized := True\<rparr>)
      });
     b \<leftarrow> gets enable_cpi;
     (if b then loc_eng_inject_location lat long 1000 else ret 0)
   }"

definition loc_delete_aiding_data :: "int \<Rightarrow> ('a loc_st_scheme, unit) state" where
  "loc_delete_aiding_data f = loc_eng_delete_aiding_data f"

text \<open>The function that \<open>dlsym\<close> does not find is called all the same.\<close>

definition get_geofence_interface :: "('a loc_st_scheme, nat) state" where
  "get_geofence_interface = do {
     emit (E_hook ''dlerror'' []);
     h \<leftarrow> call (E_hook ''dlopen'' (str_ints ''libgeofence.so''));
     (if rv h = 0 then do { emit (E_hook ''dlerror'' []); ret () }
      else do {
        emit (E_hook ''dlerror'' []);
        f \<leftarrow> call (E_hook ''dlsym'' (rv h # str_ints ''gps_geofence_get_interface''));
        e \<leftarrow> call (E_hook ''dlerror'' []);
        (if rv e \<noteq> 0 \<and> rv f \<noteq> 0 then ret ()
         else do {
           must (rv f \<noteq> 0);
           g \<leftarrow> call (E_hook ''gps_geofence_get_interface'' []);
           modify (\<lambda>s. s\<lparr>geofence_interface := nat (rv g)\<rparr>)
         })
      });
     gets geofence_interface
   }"

datatype extension = No_ext | LocEngXTRAInterface | LocEngAGpsInterface | LocEngNiInterface | LocEngAGpsRilInterface | Geofence nat

definition loc_get_extension :: "string \<Rightarrow> ('a loc_st_scheme, extension) state" where
  "loc_get_extension name =
     (if name = ''gps-xtra'' then ret LocEngXTRAInterface
      else if name = ''agps'' then ret LocEngAGpsInterface
      else if name = ''gps-ni'' then ret LocEngNiInterface
      else if name = ''agps_ril'' then do {
        (_, baseband) \<leftarrow> property_get ''ro.baseband'' ''msm'';
        ret (if baseband = ''csfb'' then LocEngAGpsRilInterface else No_ext)
      }
      else if name = ''gps_geofencing'' then do {
        g \<leftarrow> gets gps_conf;
        if or (CAPABILITIES g) GPS_CAPABILITY_GEOFENCING = CAPABILITIES g then do {
          i \<leftarrow> get_geofence_interface;
          ret (if i = 0 then No_ext else Geofence i)
        } else ret No_ext
      }
      else ret No_ext)"

definition loc_agps_init ::
  "(nat \<times> nat) option \<Rightarrow> nat \<Rightarrow> ('a loc_st_scheme, unit) state \<Rightarrow> ('a loc_st_scheme, unit) state \<Rightarrow> ('a loc_st_scheme, unit) state" where
  "loc_agps_init cbs ctxt early other = loc_eng_agps_init cbs ctxt early other"

definition loc_agps_open :: "string option \<Rightarrow> ('a loc_st_scheme, int) state" where
  "loc_agps_open apn = loc_eng_agps_open AGPS_TYPE_SUPL apn AGPS_APN_BEARER_IPV4"

definition loc_agps_closed :: "('a loc_st_scheme, int) state" where
  "loc_agps_closed = loc_eng_agps_closed AGPS_TYPE_SUPL"

definition loc_agps_open_failed :: "('a loc_st_scheme, int) state" where
  "loc_agps_open_failed = loc_eng_agps_open_failed AGPS_TYPE_SUPL"

definition loc_agps_set_server :: "int \<Rightarrow> string \<Rightarrow> int \<Rightarrow> ('a loc_st_scheme, int) state" where
  "loc_agps_set_server ty hostname port =
     loc_eng_set_server_proxy (if ty = AGPS_TYPE_C2K then LOC_AGPS_CDMA_PDE_SERVER else LOC_AGPS_SUPL_SERVER) hostname port"

definition loc_xtra_init :: "(nat \<times> nat) option \<Rightarrow> ('a loc_st_scheme, int) state" where
  "loc_xtra_init cbs = loc_eng_xtra_init cbs"

definition loc_xtra_inject_data :: "string \<Rightarrow> nat \<Rightarrow> ('a loc_st_scheme, int) state" where
  "loc_xtra_inject_data data len = loc_eng_xtra_inject_data data len"

definition loc_ni_init :: "nat option \<Rightarrow> ('a loc_st_scheme, unit) state" where
  "loc_ni_init cbs = loc_eng_ni_init cbs"

definition loc_ni_respond :: "int \<Rightarrow> int \<Rightarrow> ('a loc_st_scheme, unit) state" where
  "loc_ni_respond notif_id user_response = do { _ \<leftarrow> loc_eng_ni_respond notif_id user_response; ret () }"

definition loc_agps_ril_update_network_availability :: "int \<Rightarrow> string option \<Rightarrow> ('a loc_st_scheme, unit) state" where
  "loc_agps_ril_update_network_availability available apn = loc_eng_agps_ril_update_network_availability available apn"

end
