(* ===== verification/Loc_Ni_Inv.thy ===== *)
theory Loc_Ni_Inv
  imports Loc_Ni
begin

text \<open>Every request that is taken on is answered once, by the user or for want of an answer.\<close>

lemma ni_invD:
  assumes "ni_inv y"
  shows "ni_taken y = map fst (answers y) @ (if rawRequest (ni_core y) \<noteq> 0 then [rawRequest (ni_core y)] else [])"
    "rawRequest (ni_core y) = 0 \<Longrightarrow> t \<in> set (ni_threads y) \<Longrightarrow> \<not> at_work t"
    "i < length (ni_threads y) \<Longrightarrow> j < length (ni_threads y) \<Longrightarrow> at_work (ni_threads y ! i) \<Longrightarrow> at_work (ni_threads y ! j) \<Longrightarrow> i = j"
    "respRecvd (ni_core y) \<Longrightarrow> N_take \<notin> set (ni_threads y) \<Longrightarrow> resp (ni_core y) \<in> snd ` set (user_said y)"
    "N_take \<in> set (ni_threads y) \<Longrightarrow> resp (ni_core y) = GPS_NI_RESPONSE_NORESP \<or> resp (ni_core y) \<in> snd ` set (user_said y)"
    "(n, r) \<in> set (ni_heard y) \<union> set (user_said y) \<Longrightarrow> 0 < n \<and> n \<le> length (ni_taken y)"
    "answers_ok (answers y)"
  using assms unfolding ni_inv_def Let_def by blast+

lemma at_work_update:
  assumes "\<And>i j. i < length ts \<Longrightarrow> j < length ts \<Longrightarrow> at_work (ts ! i) \<Longrightarrow> at_work (ts ! j) \<Longrightarrow> i = j"
    "k < length ts" "at_work (ts ! k) \<or> \<not> at_work t"
    "i < length (ts[k := t])" "j < length (ts[k := t])" "at_work (ts[k := t] ! i)" "at_work (ts[k := t] ! j)"
  shows "i = j"
  using assms by (cases "i = k"; cases "j = k") (auto simp: nth_list_update)

lemma ni_request_inv:
  assumes inv: "ni_inv y" and run: "run_state (loc_eng_ni_request_handler notif p) (ni_core y) = (made, c)" and p: "p \<noteq> 0"
  shows "ni_inv (if rawRequest (ni_core y) = 0 \<and> rawRequest c = p
      then y\<lparr>ni_core := c, ni_threads := ni_threads y @ (if made then [N_start] else []), ni_taken := ni_taken y @ [p]\<rparr>
      else y\<lparr>ni_core := c\<rparr>)"
proof (cases "rawRequest (ni_core y) = 0 \<and> ni_notify_cb (ni_core y) \<noteq> 0")
  case True
  then have c: "rawRequest c = p" "respRecvd c = respRecvd (ni_core y)" "resp c = resp (ni_core y)"
    using run by (cases "notify_flags notif = GPS_NI_PRIVACY_OVERRIDE"; auto simp: loc_eng_ni_request_handler_def loc_eng_mute_one_session_def)+
  note i = ni_invD [OF inv]
  have none: "\<not> at_work t" if "t \<in> set (ni_threads y)" for t using i(2) True that by blast
  then have take: "N_take \<notin> set (ni_threads y)" by (metis at_work_simps(2))
  have "i = j" if "i < length (ni_threads y @ ts)" "j < length (ni_threads y @ ts)" "at_work ((ni_threads y @ ts) ! i)"
      "at_work ((ni_threads y @ ts) ! j)" "ts = (if made then [N_start] else [])" for i j ts
    using that none by (auto simp: nth_append split: if_splits)
  moreover have "0 < n \<and> n \<le> Suc (length (ni_taken y))" if "(n, r) \<in> set (ni_heard y) \<union> set (user_said y)" for n r
    using i(6) [OF that] by simp
  ultimately show ?thesis
    using True c p i(1,4,7) take unfolding ni_inv_def Let_def by auto
next
  case False
  then have c: "rawRequest c = rawRequest (ni_core y)" "respRecvd c = respRecvd (ni_core y)" "resp c = resp (ni_core y)"
    using run p by (auto simp: loc_eng_ni_request_handler_def split: if_splits)
  have "\<not> (rawRequest (ni_core y) = 0 \<and> rawRequest c = p)" using c p by auto
  then show ?thesis using inv c unfolding ni_inv_def Let_def by (auto split: if_splits)
qed

lemma ni_step_inv:
  assumes "ni_step y y'" "ni_inv y"
  shows "ni_inv y'"
  using assms(1)
proof (cases rule: ni_step.cases)
  case (request notif p made c)
  then show ?thesis using ni_request_inv [OF assms(2)] by blast
next
  case (hear i heard c r)
  note I = ni_invD [OF assms(2)]
  have "c = ni_core y" "heard \<Longrightarrow> rawRequest (ni_core y) \<noteq> 0" using hear(2) by (auto simp: ni_respond_test_def)
  moreover from this I(1) have "heard \<Longrightarrow> 0 < length (ni_taken y)" by simp
  ultimately show ?thesis using I hear(1) unfolding ni_inv_def Let_def by (cases heard) auto
next
  case (respond us n r vs u c)
  note I = ni_invD [OF assms(2)]
  have "rawRequest c = rawRequest (ni_core y)" "resp c = r" using respond(4) by (auto simp: ni_respond_set_def)
  then show ?thesis using I respond(1-3) unfolding ni_inv_def Let_def by auto
next
  case (start i t c)
  note I = ni_invD [OF assms(2)]
  define w where "w = (case t of None \<Rightarrow> N_take | Some t \<Rightarrow> N_wait t)"
  have c: "rawRequest c = rawRequest (ni_core y)" "respRecvd c = respRecvd (ni_core y)" "resp c = resp (ni_core y)"
    and w: "w = N_take \<Longrightarrow> respRecvd (ni_core y)"
    using start(5) by (auto simp: ni_start_def ni_test_def w_def Let_def split: if_splits option.splits)
  have raw: "rawRequest (ni_core y) \<noteq> 0" using I(2) [of N_start] start(2,3) by (metis at_work_simps(1) nth_mem)
  have "w \<noteq> N_take \<Longrightarrow> N_take \<notin> set ((ni_threads y)[i := w])"
    using start(4) by (auto dest!: set_update_subset_insert [THEN subsetD])
  moreover have "i' = j" if "i' < length ((ni_threads y)[i := w])" "j < length ((ni_threads y)[i := w])"
      "at_work ((ni_threads y)[i := w] ! i')" "at_work ((ni_threads y)[i := w] ! j)" for i' j
    by (rule at_work_update [OF I(3) start(2) _ that]) (use start(3) in simp_all)
  moreover have "N_take \<in> set ((ni_threads y)[i := N_take])" using start(2) by (simp add: set_update_memI)
  ultimately show ?thesis
    using I(1,2,4,6,7) start(1,4) c w raw w_def [symmetric] unfolding ni_inv_def Let_def by auto
next
  case (wake i v timed_out t c)
  note I = ni_invD [OF assms(2)]
  define w where "w = (case t of None \<Rightarrow> N_take | Some t \<Rightarrow> N_wait t)"
  have c: "rawRequest c = rawRequest (ni_core y)" "respRecvd c = respRecvd (ni_core y)"
    "resp c = (if timed_out then GPS_NI_RESPONSE_NORESP else resp (ni_core y))"
    and w: "timed_out \<Longrightarrow> w = N_take" "w = N_take \<Longrightarrow> \<not> timed_out \<Longrightarrow> respRecvd (ni_core y)"
    using wake(5) by (auto simp: ni_wake_def ni_test_def w_def split: if_splits option.splits)
  have raw: "rawRequest (ni_core y) \<noteq> 0" using I(2) [of "N_wait v"] wake(2,3) by (metis at_work_simps(3) nth_mem)
  have "w \<noteq> N_take \<Longrightarrow> N_take \<notin> set ((ni_threads y)[i := w])"
    using wake(4) by (auto dest!: set_update_subset_insert [THEN subsetD])
  moreover have "i' = j" if "i' < length ((ni_threads y)[i := w])" "j < length ((ni_threads y)[i := w])"
      "at_work ((ni_threads y)[i := w] ! i')" "at_work ((ni_threads y)[i := w] ! j)" for i' j
    by (rule at_work_update [OF I(3) wake(2) _ that]) (use wake(3) in simp_all)
  moreover have "N_take \<in> set ((ni_threads y)[i := N_take])" using wake(2) by (simp add: set_update_memI)
  ultimately show ?thesis
    using I(1,2,4,6,7) wake(1,4) c w raw w_def [symmetric] unfolding ni_inv_def Let_def by (cases "w = N_take") auto
next
  case (take i msg c)
  note I = ni_invD [OF assms(2)]
  have c: "rawRequest c = 0" "\<not> respRecvd c" "msg = (if rawRequest (ni_core y) \<noteq> 0 then Some (resp (ni_core y), rawRequest (ni_core y)) else None)"
    using take(4) by (auto simp: ni_take_def Let_def)
  have mem: "N_take \<in> set (ni_threads y)" using take(2,3) by (metis nth_mem)
  have raw: "rawRequest (ni_core y) \<noteq> 0" using I(2) [of N_take] mem by (metis at_work_simps(2))
  have none: "\<not> at_work ((ni_threads y)[i := N_leave msg] ! j)" if "j < length (ni_threads y)" for j
    using I(3) [OF that take(2)] take(2,3) that by (cases "j = i") auto
  then have none': "\<forall>t \<in> set ((ni_threads y)[i := N_leave msg]). \<not> at_work t" by (metis in_set_conv_nth length_list_update)
  then have "N_take \<notin> set ((ni_threads y)[i := N_leave msg])" by (metis at_work_simps(2))
  moreover have "answer_ok (Suc (length (answers y))) (rawRequest (ni_core y), resp (ni_core y), user_said y)"
    using I(1) I(5) [OF mem] I(6) raw by (fastforce simp: answer_ok_def)
  ultimately show ?thesis
    using I(1,6,7) take(1) c raw mem none none' unfolding ni_inv_def Let_def by auto
next
  case (leave i msg v c)
  note I = ni_invD [OF assms(2)]
  have c: "rawRequest c = rawRequest (ni_core y)" "respRecvd c = respRecvd (ni_core y)" "resp c = resp (ni_core y)"
    using leave(4) by (auto simp: ni_leave_def eng_send_def send_msg_def split: option.splits)
  have sub: "set ((ni_threads y)[i := N_gone]) \<subseteq> insert N_gone (set (ni_threads y))" by (rule set_update_subset_insert)
  have mem: "N_take \<in> set ((ni_threads y)[i := N_gone]) \<longleftrightarrow> N_take \<in> set (ni_threads y)"
  proof
    assume "N_take \<in> set (ni_threads y)"
    then obtain j where "j < length (ni_threads y)" "ni_threads y ! j = N_take" by (metis in_set_conv_nth)
    then show "N_take \<in> set ((ni_threads y)[i := N_gone])" using leave(3)
      by (metis length_list_update ni_thread.distinct(15) nth_list_update_neq nth_mem)
  qed (use sub in auto)
  have "i' = j" if "i' < length ((ni_threads y)[i := N_gone])" "j < length ((ni_threads y)[i := N_gone])"
      "at_work ((ni_threads y)[i := N_gone] ! i')" "at_work ((ni_threads y)[i := N_gone] ! j)" for i' j
    by (rule at_work_update [OF I(3) leave(2) _ that]) simp_all
  moreover have "\<not> at_work t" if "rawRequest (ni_core y) = 0" "t \<in> set ((ni_threads y)[i := N_gone])" for t
    using I(2) that sub by (metis at_work_simps(5) insertE subsetD)
  ultimately show ?thesis
    using I(1,2,4,5,6,7) leave(1) c mem unfolding ni_inv_def Let_def by auto
qed

lemma ni_reach_inv: "ni_step\<^sup>*\<^sup>* y y' \<Longrightarrow> ni_inv y \<Longrightarrow> ni_inv y'"
  by (induction rule: rtranclp_induct) (auto intro: ni_step_inv)

definition ni_begin :: "loc_st \<Rightarrow> ni_sys" where
  "ni_begin s = \<lparr>ni_core = s, ni_threads = [], ni_heard = [], user_said = [], ni_taken = [], answers = []\<rparr>"

lemma ni_begin_inv: "rawRequest s = 0 \<Longrightarrow> \<not> respRecvd s \<Longrightarrow> ni_inv (ni_begin s)"
  by (simp add: ni_inv_def ni_begin_def answers_ok_def)

end
