(* ===== verification/Loc_Examples.thy ===== *)
theory Loc_Examples
  imports Loc_Hal Loc_Ni_Inv
begin

text \<open>The state of the location engine when the program starts, in a world \<open>e\<close>, and one in which it is set up.\<close>

definition loc_boot :: "(event list \<Rightarrow> event \<Rightarrow> reply) \<Rightarrow> loc_st" where
  "loc_boot e = \<lparr>env = e, tr = [], ub = False, fl = id, ll_lists = (\<lambda>_. None), ll_elems = (\<lambda>_. None), tms = (\<lambda>_. None),
     th = \<lparr>th_exit = 0, th_ready = 0, th_context = 0, proc_init = 0, proc_pre = 0, proc_main = 0, proc_post = 0\<rparr>,
     loc_api_server_msgqid = 0, loc_api_resp_msgqid = 0, quipc_msgqid = 0, msapm_msgqid = 0, msapu_msgqid = 0,
     global_loc_api_q_path = [], global_loc_api_resp_q_path = [], loc_api_handle = 0, task_q = [], subs = (\<lambda>_. None),
     sms = (\<lambda>_. None), agnss_nif = 0, internet_nif = 0, wifi_nif = 0, ds_nif = 0, eng_adapter = False, agps_status_cb = 0,
     mAgpsEnabled = False, dl = id,
     gps_conf = \<lparr>INTERMEDIATE_POS = 0, ACCURACY_THRES = 0, NMEA_PROVIDER = 0, SUPL_VER = 0, CAPABILITIES = 0, QUIPC_ENABLED = 0,
       LPP_PROFILE = 0, A_GLONASS_POS_PROTOCOL_SELECT = 0\<rparr>,
     sap_conf = \<lparr>random_walks = replicate 5 (False, 0), perf_control = replicate 10 0, SENSOR_USAGE = 0\<rparr>,
     configAlreadyRead = False, agpsStatus = 0, mLocAdapters = replicate MAX_ADAPTERS 0, mEvtMask = 0, mExcludedMask = 0, mUlp = 0,
     mFixCriteria = \<lparr>pm_mode = LOC_POSITION_MODE_INVALID, recurrence = 0, min_interval = 0, preferred_accuracy = 0,
       preferred_time = 0, credentials = [], provider = []\<rparr>,
     mNavigating = False, mCPIEnabled = False, location_cb = 0, status_cb = 0, sv_status_cb = 0, nmea_cb = 0, ni_notify_cb = 0,
     request_utc_time_cb = 0, location_ext_parser = 0, sv_ext_parser = 0, intermediateFix = 0, download_request_cb = 0,
     report_xtra_server_cb = 0, respTimeLeft = 0, respRecvd = False, rawRequest = 0, reqID = 0, resp = 0, engine_status = 0,
     fix_session_status = 0, aiding_data_for_deletion = 0, mute_session_state = 0, generateNmea = False, sv_used_mask = 0,
     hdop = 0, pdop = 0, vdop = 0, supl_server = None, c2k_server = None, acquire_wakelock_cb = 0, release_wakelock_cb = 0,
     DEBUG_LEVEL = 255, TIMESTAMP = 0, loc_logger = (0, 0), gTarget = NO_TARGET, mMsgTask = False, mFgContext = False,
     mLBSProxy = 0, mLocApi = 0, gps_loc_cb = 0, gps_sv_cb = 0, gss_fd = - 1, cpi_initialized = False, enable_cpi = True,
     geofence_interface = 0\<rparr>"

text \<open>A world in which calls answer 0, with no bytes and no numbers, and \<open>malloc\<close> answers 64.\<close>

definition zeros :: "event list \<Rightarrow> event \<Rightarrow> reply" where
  "zeros t e = \<lparr>rv = (case e of E_proc (Pr_malloc n) \<Rightarrow> 64 | _ \<Rightarrow> 0), rerr = 0, rbuf = [], rnum = [], rflt = []\<rparr>"

text \<open>The engine is there; every callback is there, and those of the position and the satellites are the HAL's.\<close>

definition loc_ready :: "loc_st" where
  "loc_ready = (loc_boot zeros)\<lparr>eng_adapter := True, location_cb := HAL_CB, sv_status_cb := HAL_CB, status_cb := 2, nmea_cb := 3,
     gps_loc_cb := 4, gps_sv_cb := 5, ni_notify_cb := 6, mLocAdapters := ENG_ADAPTER # replicate 9 0\<rparr>"

end
