(* ===== verification/Loc_Frames.thy ===== *)
theory Loc_Frames
  imports Loc_Hal
begin

text \<open>What the operations of the location engine leave alone.\<close>

section \<open>The operations of the machines\<close>

lemma keeps_more_flush: "keeps (\<lambda>s. agps_st.more s = v) (linked_list_flush l)"
  by (auto simp: linked_list_flush_def get_list_def upd_list_def intro!: keeps_rules)

lemma keeps_more_drop: "keeps (\<lambda>s. agps_st.more s = v) (dropAllSubscribers m)"
  by (auto simp: dropAllSubscribers_def get_sm_def delete_sub_def get_sub_def intro!: keeps_rules keeps_more_flush)

lemma more_fields:
  assumes "agps_st.more s = agps_st.more (t :: 'a loc_st_scheme)"
  shows "engine_status s = engine_status t" "aiding_data_for_deletion s = aiding_data_for_deletion t" "mNavigating s = mNavigating t"
    "mFixCriteria s = mFixCriteria t"
  using assms by (cases s; cases t; simp)+

text \<open>Calls of \<open>startFix\<close> in a trace.\<close>

definition fix_start :: "event \<Rightarrow> bool" where
  "fix_start e \<longleftrightarrow> (case e of E_hook f xs \<Rightarrow> f = ''startFix'' | _ \<Rightarrow> False)"

definition fix_starts :: "event list \<Rightarrow> event list" where
  "fix_starts es = filter fix_start es"

lemma fix_starts_Cons [simp]: "fix_starts (e # es) = (if fix_start e then e # fix_starts es else fix_starts es)"
  by (simp add: fix_starts_def)

lemma fix_start_simps [simp]: "\<not> fix_start (E_path a b)" "\<not> fix_start (E_fd c d)" "\<not> fix_start (E_time t)" "\<not> fix_start (E_thread h n)"
  "\<not> fix_start (E_proc q)" "\<not> fix_start (E_lock l)" "\<not> fix_start (E_unlock l)" "\<not> fix_start (E_bsc x ns qs)"
  "fix_start (E_hook f xs) \<longleftrightarrow> f = ''startFix''"
  by (simp_all add: fix_start_def)

lemma keeps_starts_emits: "(\<And>e. e \<in> set es \<Longrightarrow> \<not> fix_start e) \<Longrightarrow> keeps (\<lambda>s. fix_starts (tr s) = k) (for_each es emit)"
  by (auto intro!: keeps_rules)

lemma flush_no_start:
  assumes "flush_loop h p es = Some r" "\<And>e. e \<in> set es \<Longrightarrow> quiet e" "\<And>x e. e \<in> set (dealloc_event x) \<Longrightarrow> quiet e"
    "\<And>a. quiet (E_free a)" "e \<in> set (snd r)"
  shows "quiet e"
proof -
  have "(\<forall>e \<in> set es. quiet e) \<longrightarrow> (\<forall>e \<in> set (snd r). quiet e)"
  proof (rule flush_loop.raw_induct [OF _ assms(1)])
    fix go h p es r
    assume IH: "\<And>h p es r. go h p es = Some r \<Longrightarrow> (\<forall>e \<in> set es. quiet e) \<longrightarrow> (\<forall>e \<in> set (snd r). quiet e)"
      and body: "(if p = 0 then Some (h, es) else case h p of None \<Rightarrow> None
        | Some x \<Rightarrow> go (h(p := None)) (le_next x) (es @ dealloc_event x @ [E_free p])) = Some r"
    show "(\<forall>e \<in> set es. quiet e) \<longrightarrow> (\<forall>e \<in> set (snd r). quiet e)"
      using body assms(3,4) by (auto dest!: IH split: if_splits option.splits)
  qed
  then show ?thesis using assms(2,5) by blast
qed

lemma keeps_starts_flush: "keeps (\<lambda>s. fix_starts (tr s) = k) (linked_list_flush l)"
  by (auto simp: linked_list_flush_def get_list_def upd_list_def dealloc_event_def
      intro!: keeps_rules keeps_starts_emits dest!: flush_no_start [where quiet = "\<lambda>e. \<not> fix_start e"] split: if_splits)

lemma keeps_starts_drop: "keeps (\<lambda>s. fix_starts (tr s) = k) (dropAllSubscribers m)"
  by (auto simp: dropAllSubscribers_def get_sm_def delete_sub_def get_sub_def intro!: keeps_rules keeps_starts_flush)

section \<open>The session\<close>

text \<open>The starts so far, whether there is a session, and its mode.\<close>

definition sess :: "event list \<Rightarrow> bool \<Rightarrow> loc_pos_mode \<Rightarrow> 'a loc_st_scheme \<Rightarrow> bool" where
  "sess k b p s \<longleftrightarrow> fix_starts (tr s) = k \<and> mNavigating s = b \<and> mFixCriteria s = p"

lemma sess_tr [simp]: "\<not> fix_start e \<Longrightarrow> sess k b p (s\<lparr>tr := e # tr s\<rparr>) = sess k b p s"
  by (simp add: sess_def)

lemma sess_other [simp]: "sess k b p (s\<lparr>task_q := q\<rparr>) = sess k b p s" "sess k b p (s\<lparr>ub := u\<rparr>) = sess k b p s"
  "sess k b p (s\<lparr>mute_session_state := m\<rparr>) = sess k b p s" "sess k b p (s\<lparr>engine_status := m\<rparr>) = sess k b p s"
  "sess k b p (s\<lparr>fix_session_status := m\<rparr>) = sess k b p s"
  by (simp_all add: sess_def)

lemma keeps_sess_drop: "keeps (sess k b p) (drop_if m)"
proof -
  have "sess k b p (snd (run_state (dropAllSubscribers m) s))" if "sess k b p s" for s :: "'a loc_st_scheme"
    using keepsD [OF keeps_starts_drop, of s k m] keepsD [OF keeps_more_drop [where v = "agps_st.more s"], of s m] that
      more_fields(3,4) [of "snd (run_state (dropAllSubscribers m) s)" s]
    by (simp add: sess_def)
  then show ?thesis by (auto simp: drop_if_def keeps_def)
qed

lemma keeps_sess_send: "keeps (sess k b p) (eng_send m)"
  by (auto simp: eng_send_def send_msg_def intro!: keeps_rules)

lemma keeps_sess_resolve: "keeps (sess k b p) (resolve_in_addr h)"
  by (auto simp: resolve_in_addr_def intro!: keeps_rules)

lemma keeps_sess_server: "keeps (sess k b p) (set_kept ty kept)"
  by (auto simp: set_kept_def loc_eng_set_server_def intro!: keeps_rules keeps_sess_send keeps_sess_resolve)

lemma keeps_sess_restart:
  "keeps (sess k b p) loc_eng_reinit" "keeps (sess k b p) loc_eng_agps_reinit" "keeps (sess k b p) (loc_eng_report_status st)"
  by (auto simp: loc_eng_reinit_def loc_eng_agps_reinit_def loc_eng_report_status_def isInSession_def loc_inform_gps_status_def
      intro!: keeps_rules keeps_sess_send keeps_sess_server)

section \<open>What reaches the framework\<close>

text \<open>Positions, satellites and status; the NMEA sentences are made of them.\<close>

definition to_framework :: "event \<Rightarrow> bool" where
  "to_framework e \<longleftrightarrow> (case e of
     E_hook f _ \<Rightarrow> f = ''status_cb'' \<or> f = ''nmea_cb''
   | E_bsc f _ _ \<Rightarrow> f \<in> {''location_cb'', ''gps_loc_cb'', ''sv_status_cb'', ''gps_sv_cb''}
   | _ \<Rightarrow> False)"

definition heard :: "event list \<Rightarrow> event list" where
  "heard es = filter to_framework es"

lemma heard_Cons [simp]: "heard (e # es) = (if to_framework e then e # heard es else heard es)"
  by (simp add: heard_def)

lemma to_framework_simps [simp]: "\<not> to_framework (E_path a b)" "\<not> to_framework (E_fd c d)" "\<not> to_framework (E_time t)"
  "\<not> to_framework (E_thread h n)" "\<not> to_framework (E_proc q)" "\<not> to_framework (E_lock l)" "\<not> to_framework (E_unlock l)"
  "to_framework (E_hook f xs) \<longleftrightarrow> f = ''status_cb'' \<or> f = ''nmea_cb''"
  "to_framework (E_bsc f xs rs) \<longleftrightarrow> f \<in> {''location_cb'', ''gps_loc_cb'', ''sv_status_cb'', ''gps_sv_cb''}"
  by (simp_all add: to_framework_def)

text \<open>The reports of positions, satellites and status during a session, up to its end.\<close>

fun during_session :: "eng_msg \<Rightarrow> bool" where
  "during_session (LocEngReportPosition l lx ext status tech) = True"
| "during_session (LocEngReportSv v lx ext) = True"
| "during_session (LocEngReportStatus st) = (st \<noteq> GPS_STATUS_SESSION_END \<and> st \<noteq> GPS_STATUS_ENGINE_OFF)"
| "during_session _ = False"

definition silent :: "event list \<Rightarrow> 'a loc_st_scheme \<Rightarrow> bool" where
  "silent k s \<longleftrightarrow> heard (tr s) = k \<and> mute_session_state s = LOC_MUTE_SESS_IN_SESSION"

lemmas mute_defs = LOC_MUTE_SESS_NONE_def LOC_MUTE_SESS_WAIT_def LOC_MUTE_SESS_IN_SESSION_def

lemma silent_status:
  assumes "heard (tr s) = k" "mute_step st (mute_session_state s) = LOC_MUTE_SESS_IN_SESSION" "run_state (proc_report_status st) s = (u, s')"
  shows "silent k s'"
  using assms
  by (auto simp: proc_report_status_def loc_eng_report_status_def isInSession_def update_aiding_data_for_deletion_def api_call_def
      silent_def split: if_splits)

lemma silent_report:
  assumes "during_session m" "silent k s" "run_state (proc_eng m) s = (u, s')"
  shows "silent k s'"
proof (cases m)
  case (LocEngReportStatus st)
  have "mute_step st (mute_session_state s) = LOC_MUTE_SESS_IN_SESSION"
    using assms(1,2) LocEngReportStatus by (simp add: mute_step_def silent_def Let_def mute_defs)
  from silent_status [OF _ this, of k] show ?thesis using assms(2,3) LocEngReportStatus by (simp add: silent_def)
qed (use assms in \<open>auto simp: proc_report_position_def proc_report_sv_def silent_def\<close>)

lemma silent_reports:
  assumes "\<forall>m \<in> set ms. during_session m" "silent k s" "run_state (for_each ms proc_eng) s = (u, s')"
  shows "silent k s'"
  using assms
proof (induction ms arbitrary: s)
  case (Cons m ms)
  obtain v t where t: "run_state (proc_eng m) s = (v, t)" by (metis surj_pair)
  then have "silent k t" using Cons.prems silent_report by auto
  then show ?case using Cons t by simp
qed simp

section \<open>The deletion of aiding data\<close>

text \<open>No deletion waits while the engine is not on.\<close>

definition aid_ok :: "'a loc_st_scheme \<Rightarrow> bool" where
  "aid_ok s \<longleftrightarrow> (engine_status s \<noteq> GPS_STATUS_ENGINE_ON \<longrightarrow> aiding_data_for_deletion s = 0)"

lemma aid_update: "aid_ok (snd (run_state update_aiding_data_for_deletion s))"
  by (auto simp: update_aiding_data_for_deletion_def api_call_def aid_ok_def)

lemma aid_emit: "keeps aid_ok (emit e)" "keeps aid_ok (call e)" "keeps aid_ok (must b)"
  by (simp_all add: keeps_def aid_ok_def)

lemma aid_modify: "(\<And>s. engine_status (f s) = engine_status s \<and> aiding_data_for_deletion (f s) = aiding_data_for_deletion s) \<Longrightarrow>
  keeps aid_ok (modify f)"
  by (simp add: keeps_def aid_ok_def)

lemmas aid_rules = aid_emit aid_modify keeps_ret keeps_gets keeps_bind keeps_if keeps_Let keeps_case_option keeps_case_prod keeps_for_each

lemma aid_calls [intro]: "keeps aid_ok (api_call f xs)" "keeps aid_ok (api_callf f xs rs)" "keeps aid_ok (eng_send m)" "keeps aid_ok (ulp_call f xs rs)"
  "keeps aid_ok (api_do f xs)"
  by (auto simp: api_call_def api_callf_def eng_send_def send_msg_def ulp_call_def api_do_def intro!: aid_rules)

lemma aid_drop: "keeps aid_ok (drop_if m)"
proof -
  have "aid_ok (snd (run_state (dropAllSubscribers m) s))" if "aid_ok s" for s :: "'a loc_st_scheme"
    using keepsD [OF keeps_more_drop [where v = "agps_st.more s"], of s m] that
      more_fields(1,2) [of "snd (run_state (dropAllSubscribers m) s)" s]
    by (simp add: aid_ok_def)
  then show ?thesis by (auto simp: drop_if_def keeps_def)
qed

lemma aid_report: "st \<noteq> GPS_STATUS_ENGINE_OFF \<Longrightarrow> keeps aid_ok (loc_eng_report_status st)"
  by (auto simp: keeps_def loc_eng_report_status_def isInSession_def loc_inform_gps_status_def aid_ok_def gps_status_defs)

lemma aid_session: "keeps aid_ok startFix" "keeps aid_ok stopFix" "keeps aid_ok (setInSession b)" "keeps aid_ok (setPositionMode p)"
  "keeps aid_ok loc_eng_start_handler" "keeps aid_ok loc_eng_stop_handler" "keeps aid_ok (setUlpProxy u)" "keeps aid_ok (loc_inform_gps_status st)"
  by (auto simp: startFix_def stopFix_def setInSession_def setPositionMode_def loc_eng_start_handler_def loc_eng_stop_handler_def
      setUlpProxy_def isInSession_def loc_inform_gps_status_def intro!: aid_rules)

lemma aid_ni: "keeps aid_ok (loc_eng_ni_request_handler n p)" "keeps aid_ok (proc_inform_ni_response r p)"
  by (auto simp: loc_eng_ni_request_handler_def loc_eng_mute_one_session_def proc_inform_ni_response_def intro!: aid_rules)

lemma aid_sentence: "keeps aid_ok (send_sentence x)"
  by (auto simp: send_sentence_def loc_eng_nmea_send_def intro!: aid_rules)

lemma aid_sentences: "keeps aid_ok (sentences xs)"
  by (induction xs) (auto intro!: aid_rules aid_sentence)

lemma aid_pos: "keeps aid_ok (loc_eng_nmea_generate_pos l lx g)"
  by (auto simp: loc_eng_nmea_generate_pos_def send_blanks_def intro!: aid_rules aid_sentence aid_sentences)

lemma aid_fill: "keeps aid_ok (gsv_fill sys i vs acc)"
  by (induction sys i vs acc rule: gsv_fill.induct) (auto simp: nearest_def intro!: aid_rules)

lemma aid_loop: "keeps aid_ok (gsv_loop head sys c cnt n vs)"
  by (induction n arbitrary: vs) (auto intro!: aid_rules aid_fill aid_sentence)

lemma aid_sv: "keeps aid_ok (loc_eng_nmea_generate_sv v lx)"
  by (auto simp: loc_eng_nmea_generate_sv_def gsv_def send_blanks_def intro!: aid_rules aid_loop aid_sentence)

lemma aid_server: "keeps aid_ok (set_kept ty kept)" "keeps aid_ok loc_eng_reinit"
  by (auto simp: set_kept_def loc_eng_set_server_def resolve_in_addr_def loc_eng_reinit_def intro!: aid_rules)

lemma aid_up: "keeps aid_ok loc_eng_handle_engine_up"
  by (auto simp: loc_eng_handle_engine_up_def loc_eng_agps_reinit_def isInSession_def gps_status_defs
      intro!: aid_rules aid_drop aid_report aid_session aid_server)

lemma aid_masks: "keeps aid_ok (evt_masks as m)"
  by (induction as arbitrary: m) (auto intro!: aid_rules)

lemma aid_position: "keeps aid_ok (proc_report_position l lx ext st tech)"
  by (auto simp: proc_report_position_def call_location_cb_def local_loc_cb_def intro!: aid_rules aid_pos aid_session)

lemma aid_sv_report: "keeps aid_ok (proc_report_sv v lx ext)"
  by (auto simp: proc_report_sv_def call_sv_cb_def local_sv_cb_def intro!: aid_rules aid_sv)

lemma aid_msg:
  assumes "m \<noteq> LocEngDown"
  shows "keeps aid_ok (proc_eng m)"
proof (cases m)
  case (LocEngReportStatus st)
  have "keeps aid_ok (do { loc_eng_report_status st; update_aiding_data_for_deletion })"
    by (simp add: keeps_def split_beta aid_update)
  then show ?thesis using LocEngReportStatus by (simp add: proc_report_status_def)
next
  case (LocEngDelAidData f)
  then show ?thesis by (simp add: keeps_def split_beta aid_update)
qed (use assms in \<open>auto simp: proc_report_nmea_def proc_report_xtra_server_def proc_request_xtra_def proc_request_time_def getEvtMask_def
    intro!: aid_rules aid_ni aid_session aid_position aid_sv_report aid_up aid_server aid_masks\<close>)

lemma aid_msgs: "\<forall>m \<in> set ms. m \<noteq> LocEngDown \<Longrightarrow> keeps aid_ok (for_each ms proc_eng)"
  by (auto intro!: keeps_for_each aid_msg)

section \<open>The servers that are kept\<close>

definition none_kept :: "'a loc_st_scheme \<Rightarrow> bool" where
  "none_kept s \<longleftrightarrow> supl_server s = None \<and> c2k_server s = None"

lemma none_kept_basic: "keeps none_kept (emit e)" "keeps none_kept (call e)" "keeps none_kept (must b)"
  by (simp_all add: keeps_def none_kept_def)

lemma none_kept_modify: "(\<And>s. supl_server (f s) = supl_server s \<and> c2k_server (f s) = c2k_server s) \<Longrightarrow> keeps none_kept (modify f)"
  by (simp add: keeps_def none_kept_def)

lemmas none_kept_rules = none_kept_basic none_kept_modify keeps_ret keeps_gets keeps_bind keeps_if keeps_Let keeps_case_option keeps_case_prod

lemma none_kept_qca: "keeps none_kept (qca1530_loop n)"
  by (induction n) (auto simp: property_get_def intro!: none_kept_rules)

lemma none_kept_target: "keeps none_kept loc_get_target"
  by (auto simp: loc_get_target_def is_qca1530_def property_get_def read_first_def read_a_line_def detect_target_def
      intro!: none_kept_rules none_kept_qca)

lemma none_kept_context: "keeps none_kept (getLocFgContext c)"
  by (auto simp: getLocFgContext_def getMsgTask_def getLBSProxy_def dl_getter_def createLocApi_def
      intro!: none_kept_rules none_kept_target)

lemma none_kept_send: "keeps none_kept (eng_send m)"
  by (auto simp: eng_send_def send_msg_def intro!: none_kept_rules)

lemma none_kept_adapter: "keeps none_kept (new_adapter ev c)"
  by (auto simp: new_adapter_def addAdapter_def intro!: none_kept_rules none_kept_context none_kept_send split: option.splits)

text \<open>\<open>memset\<close> clears what was kept.\<close>

lemma none_kept_set_up: "keeps none_kept (set_up_engine c ev)"
  unfolding set_up_engine_def by (intro none_kept_rules none_kept_adapter none_kept_send) simp_all

lemma init_keeps_none:
  assumes "ev \<noteq> 0" "\<not> eng_adapter s" "run_state (loc_eng_init (Some c) ev) s = (r, s')"
  shows "none_kept s'" "r = 0"
proof -
  have "none_kept (clear_eng_data s)" by (simp add: none_kept_def clear_eng_data_def)
  from keepsD [OF none_kept_set_up this, of c ev] show "none_kept s'" "r = 0"
    using assms by (auto simp: loc_eng_init_def split: prod.splits)
qed

end
