(* ===== verification/Props_Loc.thy ===== *)
theory Props_Loc
  imports Loc_Examples Loc_Frames
begin

text \<open>The properties of the location engine.\<close>

section \<open>Network-initiated requests\<close>

definition ex_notif :: ni_notification where
  "ex_notif = \<lparr>ni_size = 0, notification_id = 0, ni_type = 0, notify_flags = 0, timeout = 20, default_response = 0,
     requestor_id = [], ni_text = [], requestor_id_encoding = 0, text_encoding = 0, extras = []\<rparr>"


lemmas ni_example_defs = loc_ready_def loc_boot_def zeros_def ex_notif_def loc_eng_ni_request_handler_def ni_respond_test_def
  ni_respond_set_def ni_start_def ni_wake_def ni_test_def ni_take_def GPS_NI_PRIVACY_OVERRIDE_def Let_def num_def



text \<open>Such a late answer: the call for the first request has passed the test when the time of that is over, and what it stores then
  is the answer to the second request.\<close>

lemma ni_late_answer:
  "\<exists>y. ni_step\<^sup>*\<^sup>* (ni_begin loc_ready) y \<and> answers y = [(7, GPS_NI_RESPONSE_NORESP, []), (8, 1, [(1, 1)])]"
proof -
  define c1 where "c1 = snd (run_state (loc_eng_ni_request_handler ex_notif 7) loc_ready)"
  define c2 where "c2 = snd (run_state ni_start c1)"
  define c3 where "c3 = snd (run_state (ni_wake True (25, 0)) c2)"
  define c4 where "c4 = snd (run_state ni_take c3)"
  define c5 where "c5 = snd (run_state (ni_respond_set 1) c4)"
  define c6 where "c6 = snd (run_state (loc_eng_ni_request_handler ex_notif 8) c5)"
  define c7 where "c7 = snd (run_state ni_start c6)"
  define c8 where "c8 = snd (run_state ni_take c7)"
  note defs = ni_example_defs c1_def c2_def c3_def c4_def c5_def c6_def c7_def c8_def
  have runs: "run_state (loc_eng_ni_request_handler ex_notif 7) loc_ready = (True, c1)" "rawRequest c1 = 7" "rawRequest loc_ready = 0"
    "run_state (ni_respond_test 0) c1 = (True, c1)" "run_state ni_start c1 = (Some (25, 0), c2)" "run_state (ni_wake True (25, 0)) c2 = (None, c3)"
    "run_state ni_take c3 = (Some (GPS_NI_RESPONSE_NORESP, 7), c4)" "run_state (ni_respond_set 1) c4 = ((), c5)"
    "run_state (loc_eng_ni_request_handler ex_notif 8) c5 = (True, c6)" "rawRequest c6 = 8" "rawRequest c5 = 0"
    "run_state ni_start c6 = (None, c7)" "run_state ni_take c7 = (Some (1, 8), c8)"
    by (simp_all add: defs)
  define y where "y c ts he sa ta an = \<lparr>ni_core = c, ni_threads = ts, ni_heard = he, user_said = sa, ni_taken = ta, answers = an\<rparr>"
    for c ts he sa ta an
  let ?a = "[(7, GPS_NI_RESPONSE_NORESP, [])]" and ?g = "N_leave (Some (GPS_NI_RESPONSE_NORESP, 7))"
  have "ni_step (ni_begin loc_ready) (y c1 [N_start] [] [] [7] [])"
    using ni_step.request [of ex_notif 7 "ni_begin loc_ready" True c1] runs by (simp add: ni_begin_def y_def)
  moreover have "ni_step (y c1 [N_start] [] [] [7] []) (y c1 [N_start] [(1, 1)] [] [7] [])"
    using ni_step.hear [of 0 "y c1 [N_start] [] [] [7] []" True c1 1] runs by (simp add: y_def)
  moreover have "ni_step (y c1 [N_start] [(1, 1)] [] [7] []) (y c2 [N_wait (25, 0)] [(1, 1)] [] [7] [])"
    using ni_step.start [of 0 "y c1 [N_start] [(1, 1)] [] [7] []" "Some (25, 0)" c2] runs by (simp add: y_def)
  moreover have "ni_step (y c2 [N_wait (25, 0)] [(1, 1)] [] [7] []) (y c3 [N_take] [(1, 1)] [] [7] [])"
    using ni_step.wake [of 0 "y c2 [N_wait (25, 0)] [(1, 1)] [] [7] []" "(25, 0)" True None c3] runs by (simp add: y_def)
  moreover have "ni_step (y c3 [N_take] [(1, 1)] [] [7] []) (y c4 [?g] [(1, 1)] [] [7] ?a)"
    using ni_step.take [of 0 "y c3 [N_take] [(1, 1)] [] [7] []" "Some (GPS_NI_RESPONSE_NORESP, 7)" c4] runs by (simp add: y_def)
  moreover have "ni_step (y c4 [?g] [(1, 1)] [] [7] ?a) (y c5 [?g] [] [(1, 1)] [7] ?a)"
    using ni_step.respond [of "y c4 [?g] [(1, 1)] [] [7] ?a" "[]" 1 1 "[]" "()" c5] runs by (simp add: y_def)
  moreover have "ni_step (y c5 [?g] [] [(1, 1)] [7] ?a) (y c6 [?g, N_start] [] [(1, 1)] [7, 8] ?a)"
    using ni_step.request [of ex_notif 8 "y c5 [?g] [] [(1, 1)] [7] ?a" True c6] runs by (simp add: y_def)
  moreover have "ni_step (y c6 [?g, N_start] [] [(1, 1)] [7, 8] ?a) (y c7 [?g, N_take] [] [(1, 1)] [7, 8] ?a)"
    using ni_step.start [of 1 "y c6 [?g, N_start] [] [(1, 1)] [7, 8] ?a" None c7] runs by (simp add: y_def)
  moreover have "ni_step (y c7 [?g, N_take] [] [(1, 1)] [7, 8] ?a) (y c8 [?g, N_leave (Some (1, 8))] [] [] [7, 8] (?a @ [(8, 1, [(1, 1)])]))"
    using ni_step.take [of 1 "y c7 [?g, N_take] [] [(1, 1)] [7, 8] ?a" "Some (1, 8)" c8] runs by (simp add: y_def)
  ultimately have "ni_step\<^sup>*\<^sup>* (ni_begin loc_ready) (y c8 [?g, N_leave (Some (1, 8))] [] [] [7, 8] (?a @ [(8, 1, [(1, 1)])]))"
    by (meson rtranclp.rtrancl_into_rtrancl rtranclp.rtrancl_refl)
  then show ?thesis by (intro exI) (auto simp: y_def)
qed

text \<open>C30: when the engine restarts while a request is pending, its thread is told to stop; a request that arrives before this
  thread runs is answered by it, with whatever the last answer was and without the user.\<close>

theorem ni_restart_stale:
  assumes "ni_notify_cb s \<noteq> 0" "rawRequest s \<noteq> 0" "p \<noteq> 0"
    and "run_state loc_eng_ni_reset_on_engine_restart s = (u, s1)"
    and "run_state (loc_eng_ni_request_handler notif p) s1 = (made, s2)"
    and "run_state (ni_wake False w) s2 = (t, s3)" and "run_state ni_take s3 = (msg, s4)"
  shows "t = None \<and> msg = Some (resp s, p)"
proof -
  have 1: "ni_notify_cb s1 \<noteq> 0 \<and> rawRequest s1 = 0 \<and> respRecvd s1 \<and> resp s1 = resp s"
    using assms(1,2,4) by (auto simp: loc_eng_ni_reset_on_engine_restart_def)
  have 2: "rawRequest s2 = p \<and> respRecvd s2 \<and> resp s2 = resp s"
    using 1 assms(5) by (cases "notify_flags notif = GPS_NI_PRIVACY_OVERRIDE")
      (auto simp: loc_eng_ni_request_handler_def loc_eng_mute_one_session_def)
  have "t = None \<and> s3 = s2" using 2 assms(6) by (auto simp: ni_wake_def ni_test_def)
  then show ?thesis using 2 assms(3,7) by (auto simp: ni_take_def Let_def)
qed

theorem ni_restart_stale_witness:
  "fst (run_state ni_take (snd (run_state (ni_wake False (10, 0)) (snd (run_state (loc_eng_ni_request_handler ex_notif 8)
     (snd (run_state loc_eng_ni_reset_on_engine_restart (loc_ready\<lparr>rawRequest := 7, resp := 1\<rparr>)))))))) = Some (1, 8)"
proof -
  let ?s = "loc_ready\<lparr>rawRequest := 7, resp := 1\<rparr>"
  have "ni_notify_cb ?s \<noteq> 0" "rawRequest ?s \<noteq> 0" "(8::nat) \<noteq> 0" by (simp_all add: loc_ready_def)
  from ni_restart_stale [OF this prod.collapse [symmetric] prod.collapse [symmetric] prod.collapse [symmetric] prod.collapse [symmetric]]
  show ?thesis by simp
qed

section \<open>A restart of the engine\<close>

text \<open>C29: if the engine comes back during a session, the code starts a fix again, but with the position mode set to invalid: ending
  the old session overwrites the mode before the new one starts.\<close>

theorem restart_fix_invalid:
  assumes "mNavigating s" and run: "run_state loc_eng_handle_engine_up s = (u, s')"
  shows "fix_starts (tr s') =
      E_hook ''startFix'' (pos_mode_ints ((mFixCriteria s)\<lparr>pm_mode := LOC_POSITION_MODE_INVALID\<rparr>)) # fix_starts (tr s) \<and>
    pm_mode (mFixCriteria s') = LOC_POSITION_MODE_INVALID"
proof -
  let ?p = "mFixCriteria s" let ?k = "fix_starts (tr s)"
  let ?E = "E_hook ''startFix'' (pos_mode_ints (?p\<lparr>pm_mode := LOC_POSITION_MODE_INVALID\<rparr>))"
  let ?Q = "\<lambda>_ :: unit. \<lambda>s :: 'a loc_st_scheme. fix_starts (tr s) = ?E # ?k \<and> pm_mode (mFixCriteria s) = LOC_POSITION_MODE_INVALID"
  have k: "hoare (sess ?k True ?p) m (\<lambda>_. sess ?k True ?p)" if "keeps (sess ?k True ?p) m" for m :: "('a loc_st_scheme, 'b) state"
    using that by (simp add: keeps_hoare)
  have last: "hoare (sess ?k True ?p) (do { b \<leftarrow> isInSession; (if b then do { _ \<leftarrow> setPositionMode None; setInSession False;
      _ \<leftarrow> loc_eng_start_handler; ret () } else ret ()) }) ?Q"
    by (rule hoareI) (auto simp: isInSession_def setPositionMode_def setInSession_def loc_eng_start_handler_def startFix_def api_call_def
        loc_inform_gps_status_def sess_def split: if_splits)
  have "hoare (sess ?k True ?p) loc_eng_handle_engine_up ?Q"
    unfolding loc_eng_handle_engine_up_def
    by (intro hoare_bind [OF k] keeps_sess_restart last) (auto intro!: keeps_rules keeps_sess_drop keeps_sess_restart)
  then show ?thesis using run assms(1) by (auto simp: sess_def dest: hoareD)
qed

theorem restart_fix_invalid_witness:
  "fix_starts (tr (snd (run_state loc_eng_handle_engine_up
     (loc_ready\<lparr>mNavigating := True, mFixCriteria := mk_pos_mode LOC_POSITION_MODE_MS_BASED 0 1000 0 0\<rparr>)))) =
   [E_hook ''startFix'' [- 1, 0, 1000, 0, 0, 0]]"
proof -
  let ?s = "loc_ready\<lparr>mNavigating := True, mFixCriteria := mk_pos_mode LOC_POSITION_MODE_MS_BASED 0 1000 0 0\<rparr>"
  have "mNavigating ?s" "fix_starts (tr ?s) = []" by (simp_all add: loc_ready_def loc_boot_def fix_starts_def)
  with restart_fix_invalid [OF _ prod.collapse [symmetric], of ?s] show ?thesis
    by (simp add: pos_mode_ints_def str_ints_def mk_pos_mode_def MIN_POSSIBLE_FIX_INTERVAL_def LOC_POSITION_MODE_INVALID_def)
qed

section \<open>A muted session\<close>





text \<open>A fix that is started in a muted session is announced.\<close>

lemma start_not_muted:
  assumes "\<not> mNavigating s" "status_cb s \<noteq> 0" "run_state loc_eng_start_handler s = (LOC_API_ADAPTER_ERR_SUCCESS, s')"
  shows "heard (tr s') \<noteq> heard (tr s)"
  using assms by (auto simp: loc_eng_start_handler_def isInSession_def startFix_def setInSession_def loc_inform_gps_status_def api_call_def
      setPositionMode_def split: if_splits)

text \<open>The sentences that the engine itself makes are passed on all the same.\<close>

lemma nmea_not_muted:
  "nmea_cb s \<noteq> 0 \<Longrightarrow> heard (tr (snd (run_state (proc_eng (LocEngReportNmea x)) s))) \<noteq> heard (tr s)"
  by (simp add: proc_report_nmea_def Let_def)

text \<open>And the data of a position that is not reported are not freed.\<close>

lemma muted_leak:
  "mute_session_state s = LOC_MUTE_SESS_IN_SESSION \<Longrightarrow> run_state (proc_eng (LocEngReportPosition l lx ext st tech)) s = ((), s)"
  by (simp add: proc_report_position_def)

section \<open>The deletion of aiding data\<close>

text \<open>C28: whatever messages the task processes, but for the one that the engine is down, no deletion of aiding data is left waiting
  while the engine is not on.\<close>

theorem deletion_not_left:
  assumes "engine_status s \<noteq> GPS_STATUS_ENGINE_ON \<longrightarrow> aiding_data_for_deletion s = 0" "\<forall>m \<in> set ms. m \<noteq> LocEngDown"
    and "run_state (for_each ms proc_eng) s = (u, s')"
  shows "engine_status s' \<noteq> GPS_STATUS_ENGINE_ON \<longrightarrow> aiding_data_for_deletion s' = 0"
  using keepsD [OF aid_msgs [OF assms(2)], of s] assms(1,3) by (simp add: aid_ok_def)

theorem deletion_not_left_witness:
  "aiding_data_for_deletion (snd (run_state (for_each [LocEngDelAidData 3, LocEngReportStatus GPS_STATUS_ENGINE_OFF] proc_eng)
     (loc_ready\<lparr>engine_status := GPS_STATUS_ENGINE_ON\<rparr>))) = 0"
proof -
  let ?s = "loc_ready\<lparr>engine_status := GPS_STATUS_ENGINE_ON\<rparr>"
  let ?ms = "[LocEngDelAidData 3, LocEngReportStatus GPS_STATUS_ENGINE_OFF]"
  let ?t = "snd (run_state (for_each ?ms proc_eng) ?s)"
  have "engine_status ?s \<noteq> GPS_STATUS_ENGINE_ON \<longrightarrow> aiding_data_for_deletion ?s = 0" "\<forall>m \<in> set ?ms. m \<noteq> LocEngDown" by simp_all
  from deletion_not_left [OF this prod.collapse [symmetric]]
  have "engine_status ?t \<noteq> GPS_STATUS_ENGINE_ON \<longrightarrow> aiding_data_for_deletion ?t = 0" .
  moreover have "engine_status ?t = GPS_STATUS_ENGINE_OFF"
    by (simp add: proc_report_status_def loc_eng_report_status_def isInSession_def loc_inform_gps_status_def loc_ready_def loc_boot_def
        update_aiding_data_for_deletion_def api_call_def gps_status_defs mute_step_def mute_defs)
  ultimately show ?thesis by (simp add: gps_status_defs)
qed

text \<open>When the engine is down, the deletion goes on waiting.\<close>

lemma down_leaves_deletion:
  assumes "run_state (proc_eng LocEngDown) s = (u, s')"
  shows "aiding_data_for_deletion s' = aiding_data_for_deletion s \<and> engine_status s' = GPS_STATUS_ENGINE_OFF"
  using assms
  by (auto simp: loc_eng_handle_engine_down_def loc_eng_ni_reset_on_engine_restart_def loc_eng_report_status_def isInSession_def
      loc_inform_gps_status_def gps_status_defs split: if_splits)

text \<open>A second request replaces the first one.\<close>

lemma deletion_overwritten:
  assumes "engine_status s = GPS_STATUS_ENGINE_ON" "run_state (for_each [LocEngDelAidData f, LocEngDelAidData g] proc_eng) s = (u, s')"
  shows "s' = s\<lparr>aiding_data_for_deletion := g\<rparr>"
  using assms by (simp add: update_aiding_data_for_deletion_def)

section \<open>Servers\<close>

text \<open>C31: the address of a server that is set before the engine is there is kept, but the start of the engine forgets it, so that no
  message about it is ever sent.\<close>

theorem kept_server_lost:
  assumes "\<not> eng_adapter s" "ty = LOC_AGPS_SUPL_SERVER \<or> ty = LOC_AGPS_CDMA_PDE_SERVER" "ev \<noteq> 0"
    and "run_state (loc_eng_set_server_proxy ty host port) s = (r1, s1)" "run_state (loc_eng_init (Some c) ev) s1 = (r2, s2)"
  shows "r1 = 0 \<and> r2 = 0 \<and> (supl_server s1 = Some (take 100 host, port) \<or> c2k_server s1 = Some (take 100 host, port)) \<and>
    run_state loc_eng_agps_reinit s2 = ((), s2)"
proof -
  have "\<not> eng_adapter s1" "r1 = 0" "supl_server s1 = Some (take 100 host, port) \<or> c2k_server s1 = Some (take 100 host, port)"
    using assms(1,2,4) by (auto simp: loc_eng_set_server_proxy_def HOST_BUF_def Let_def server_types split: if_splits)
  moreover from init_keeps_none [OF assms(3) this(1) assms(5)] have "run_state loc_eng_agps_reinit s2 = ((), s2)" "r2 = 0"
    by (simp_all add: none_kept_def loc_eng_agps_reinit_def set_kept_def)
  ultimately show ?thesis by simp
qed

definition ex_callbacks :: loc_callbacks where
  "ex_callbacks = \<lparr>lc_location_cb = 1, lc_status_cb = 2, lc_sv_status_cb = 1, lc_nmea_cb = 3, lc_set_capabilities_cb = 4,
     lc_acquire_wakelock_cb = 5, lc_release_wakelock_cb = 6, lc_create_thread_cb = 7, lc_location_ext_parser = 0, lc_sv_ext_parser = 0,
     lc_request_utc_time_cb = 8\<rparr>"

theorem kept_server_lost_witness:
  "\<exists>(s1 :: loc_st) s2. supl_server s1 = Some (''supl.host.com'', 7275) \<and>
     snd (run_state (loc_eng_init (Some ex_callbacks) 5) s1) = s2 \<and> run_state loc_eng_agps_reinit s2 = ((), s2)"
proof -
  let ?s1 = "snd (run_state (loc_eng_set_server_proxy LOC_AGPS_SUPL_SERVER ''supl.host.com'' 7275) (loc_boot zeros))"
  have "\<not> eng_adapter (loc_boot zeros)" "(5::int) \<noteq> 0" by (simp_all add: loc_boot_def)
  from kept_server_lost [OF this(1) disjI1 [OF refl] this(2) prod.collapse [symmetric] prod.collapse [symmetric],
      of "''supl.host.com''" 7275 ex_callbacks]
  have "run_state loc_eng_agps_reinit (snd (run_state (loc_eng_init (Some ex_callbacks) 5) ?s1)) =
      ((), snd (run_state (loc_eng_init (Some ex_callbacks) 5) ?s1))" by blast
  moreover have "supl_server ?s1 = Some (''supl.host.com'', 7275)"
    by (simp add: loc_eng_set_server_proxy_def loc_boot_def HOST_BUF_def Let_def)
  ultimately show ?thesis by blast
qed

end
