(* ===== verification/Nmea_Spec.thy ===== *)
theory Nmea_Spec
  imports Loc_Cfg Nmea
begin

text \<open>What the sentences of \<open>loc_eng_nmea.cpp\<close> say to a reader.\<close>

section \<open>The checksum\<close>

text \<open>A reader takes what is between the dollar and the asterisk, and compares its checksum with the two digits that follow.\<close>

definition nmea_ok :: "string \<Rightarrow> bool" where
  "nmea_ok s \<longleftrightarrow> (case s of
     [] \<Rightarrow> False
   | d # r \<Rightarrow> d = CHR ''$'' \<and>
       (case dropWhile (\<lambda>c. c \<noteq> CHR ''*'') r of
          [_, a, b, x, y] \<Rightarrow> x = CHR 0x0D \<and> y = CHR 0x0A \<and>
            (case (hex_val a, hex_val b) of
               (Some h, Some l) \<Rightarrow> 16 * h + l = xor_bytes (takeWhile (\<lambda>c. c \<noteq> CHR ''*'') r)
             | _ \<Rightarrow> False)
        | _ \<Rightarrow> False))"

lemma xor_byte: "(x::nat) < 256 \<Longrightarrow> y < 256 \<Longrightarrow> xor x y < 256"
proof -
  assume "x < 256" "y < 256"
  then have "take_bit 8 (xor x y) = xor x y" by (simp add: take_bit_xor take_bit_nat_eq_self)
  with take_bit_nat_less_exp [of 8 "xor x y"] show ?thesis by simp
qed

lemma xor_bytes_less: "xor_bytes s < 256"
proof -
  have "of_char c < (256::nat)" for c :: char by (metis nat_of_char_less_256)
  then have "fold (\<lambda>c k. xor k (of_char c)) s k < (256::nat)" if "k < 256" for k
    using that by (induction s arbitrary: k) (simp_all add: xor_byte)
  from this [of 0] show ?thesis by (simp add: xor_bytes_def)
qed

lemma hex_val_chr: "d < 16 \<Longrightarrow> hex_val (hex_chr d) = Some d"
  by (auto simp: hex_val_def hex_chr_def Let_def)

lemma put_checksum_eq:
  assumes "length body \<le> 193"
  shows "loc_eng_nmea_put_checksum (CHR ''$'' # body) NMEA_SENTENCE_MAX_LENGTH =
    (CHR ''$'' # body @ CHR ''*'' # hex2 (xor_bytes body) @ [CHR 0x0D, CHR 0x0A], int (length body) + 5)"
  using assms by (simp add: loc_eng_nmea_put_checksum_def NMEA_SENTENCE_MAX_LENGTH_def hex2_def Let_def)

lemma checksum_ok:
  assumes "length body \<le> 193" "CHR ''*'' \<notin> set body"
    and "loc_eng_nmea_put_checksum (CHR ''$'' # body) NMEA_SENTENCE_MAX_LENGTH = (s, len)"
  shows "nmea_ok s \<and> takeWhile (\<lambda>c. c \<noteq> CHR ''*'') s = CHR ''$'' # body \<and> len = int (length s) - 1"
proof -
  have "16 * (xor_bytes body div 16) + xor_bytes body mod 16 = xor_bytes body" "xor_bytes body div 16 < 16"
    using xor_bytes_less [of body] by simp_all
  moreover have "takeWhile (\<lambda>c. c \<noteq> CHR ''*'') (body @ CHR ''*'' # r) = body"
    "dropWhile (\<lambda>c. c \<noteq> CHR ''*'') (body @ CHR ''*'' # r) = CHR ''*'' # r" for r
    using assms(2) by (auto simp: takeWhile_append dropWhile_append)
  ultimately show ?thesis
    using assms(1,3) put_checksum_eq by (auto simp: nmea_ok_def hex2_def hex_val_chr)
qed

section \<open>Satellites in view\<close>

definition sat_num :: "'a loc_st_scheme \<Rightarrow> rat \<Rightarrow> int" where
  "sat_num s x = trunc (dl s (1 / 2 + x))"

definition sat_text :: "'a loc_st_scheme \<Rightarrow> sv_info \<Rightarrow> string" where
  "sat_text s v = '','' @ print_0d 2 (prn v) @ '','' @ print_0d 2 (sat_num s (elevation v)) @ '','' @ print_0d 3 (sat_num s (azimuth v)) @
     '','' @ (if 0 < snr v then print_0d 2 (sat_num s (snr v)) else [])"

text \<open>Numbers that fit into their fields.\<close>

definition sat_ok :: "'a loc_st_scheme \<Rightarrow> sv_info \<Rightarrow> bool" where
  "sat_ok s v \<longleftrightarrow> 0 \<le> prn v \<and> prn v < 100 \<and> 0 \<le> sat_num s (elevation v) \<and> sat_num s (elevation v) < 100 \<and>
     0 \<le> sat_num s (azimuth v) \<and> sat_num s (azimuth v) < 1000 \<and> (0 < snr v \<longrightarrow> 0 \<le> sat_num s (snr v) \<and> sat_num s (snr v) < 100)"

text \<open>At most four to a sentence.\<close>

fun chunks :: "'a list \<Rightarrow> 'a list list" where
  "chunks [] = []"
| "chunks (x # xs) = take 4 (x # xs) # chunks (drop 3 xs)"

text \<open>The \<open>i\<close>-th sentence of \<open>cnt\<close>, for the satellites \<open>c\<close>, where \<open>n\<close> are said to be in view.\<close>

definition gsv_sentence :: "'a loc_st_scheme \<Rightarrow> string \<Rightarrow> int \<Rightarrow> nat \<Rightarrow> nat \<times> sv_info list \<Rightarrow> string" where
  "gsv_sentence s head n cnt x = (case x of (i, c) \<Rightarrow>
     head @ int_str (int cnt) @ '','' @ int_str (int i) @ '','' @ print_0d 2 n @ concat (map (sat_text s) c))"

definition gsv_ref :: "'a loc_st_scheme \<Rightarrow> string \<Rightarrow> (int \<Rightarrow> bool) \<Rightarrow> int \<Rightarrow> sv_info list \<Rightarrow> string list" where
  "gsv_ref s head sys n vs = (let cs = chunks (filter (\<lambda>v. sys (prn v)) vs) in
     if cs = [] then [head @ ''1,1,0,''] else map (gsv_sentence s head n (length cs)) (enumerate 1 cs))"

lemma print_0d_length: "0 \<le> x \<Longrightarrow> x < 10 ^ w \<Longrightarrow> 0 < w \<Longrightarrow> length (print_0d w x) = w"
proof -
  assume x: "0 \<le> x" "x < 10 ^ w" "0 < w"
  then have "nat x < 10 ^ w" by (simp add: nat_less_iff)
  from nat_str_length [OF this x(3)] show ?thesis using x by (simp add: print_0d_def pad0_def)
qed

lemma sat_text_length: "sat_ok s v \<Longrightarrow> length (sat_text s v) \<le> 13"
  using print_0d_length [of "prn v" 2] print_0d_length [of "sat_num s (elevation v)" 2] print_0d_length [of "sat_num s (azimuth v)" 3]
    print_0d_length [of "sat_num s (snr v)" 2]
  by (simp add: sat_text_def sat_ok_def)

lemma nearest_run: "0 \<le> sat_num s x \<Longrightarrow> sat_num s x < 1000 \<Longrightarrow> run_state (nearest x) s = (sat_num s x, s)"
  by (simp add: nearest_def sat_num_def Let_def)

lemma gsv_fill_spec:
  assumes "\<forall>v \<in> set vs. sys (prn v) \<longrightarrow> sat_ok s v" "i \<le> 4" "length acc + 13 * (4 - i) < 200"
  shows "\<exists>rest. run_state (gsv_fill sys i vs acc) s =
      ((Some (acc @ concat (map (sat_text s) (take (4 - i) (filter (\<lambda>v. sys (prn v)) vs)))), rest), s) \<and>
    filter (\<lambda>v. sys (prn v)) rest = drop (4 - i) (filter (\<lambda>v. sys (prn v)) vs) \<and> set rest \<subseteq> set vs"
  using assms
proof (induction vs arbitrary: i acc)
  case (Cons v vs)
  show ?case
  proof (cases "4 \<le> i \<or> \<not> sys (prn v)")
    case True
    then show ?thesis using Cons.IH [of i acc] Cons.prems by auto
  next
    case False
    then have ok: "sat_ok s v" and i: "i < 4" using Cons.prems by auto
    note len = sat_text_length [OF ok]
    have near: "run_state (nearest (elevation v)) s = (sat_num s (elevation v), s)" "run_state (nearest (azimuth v)) s = (sat_num s (azimuth v), s)"
      "0 < snr v \<Longrightarrow> run_state (nearest (snr v)) s = (sat_num s (snr v), s)"
      using ok by (auto simp: sat_ok_def intro!: nearest_run)
    have fits: "length acc + length (sat_text s v) < 200" using Cons.prems(3) len i by simp
    have "run_state (gsv_fill sys i (v # vs) acc) s = run_state (gsv_fill sys (i + 1) vs (acc @ sat_text s v)) s"
      using False i near fits by (auto simp: sat_text_def sn_put_def NMEA_SENTENCE_MAX_LENGTH_def)
    moreover have "length (acc @ sat_text s v) + 13 * (4 - (i + 1)) < 200" using Cons.prems(3) len i by simp
    moreover have "4 - i = Suc (4 - (i + 1))" using i by simp
    ultimately show ?thesis using Cons.IH [of "i + 1" "acc @ sat_text s v"] Cons.prems(1) False i by auto
  qed
qed simp

lemma int_str_less: "x < 100 \<Longrightarrow> length (int_str (int x)) \<le> 2"
  using nat_str_length [of x 2] by (simp add: int_str_def)

lemma sentence_keeps_dl: "run_state (send_sentence x) s = ((), s') \<Longrightarrow> dl s' = dl s"
  by (auto simp: send_sentence_def loc_eng_nmea_send_def Let_def split: if_splits prod.splits)

lemma sat_dl: "dl s' = dl s \<Longrightarrow> sat_text s' = sat_text s \<and> sat_ok s' = sat_ok s"
  by (auto simp: sat_text_def sat_ok_def sat_num_def fun_eq_iff)

lemma gsv_loop_spec:
  assumes "\<forall>v \<in> set vs. sys (prn v) \<longrightarrow> sat_ok s v" "length head \<le> 20" "0 \<le> c" "c < 100" "cnt < 100" "n \<le> cnt"
    and "n = length (chunks (filter (\<lambda>v. sys (prn v)) vs))"
  shows "run_state (gsv_loop head sys c cnt n vs) s =
    run_state (do { for_each (map (gsv_sentence s head c cnt) (enumerate (cnt - n + 1) (chunks (filter (\<lambda>v. sys (prn v)) vs)))) send_sentence;
      ret True }) s"
  using assms
proof (induction n arbitrary: vs s)
  case (Suc n)
  let ?ks = "filter (\<lambda>v. sys (prn v)) vs" and ?a = "head @ int_str (int cnt) @ '','' @ int_str (int (cnt - n)) @ '','' @ print_0d 2 c"
  have "length (int_str (int cnt)) \<le> 2" "length (int_str (int (cnt - n))) \<le> 2" "length (print_0d 2 c) = 2"
    using int_str_less [of cnt] int_str_less [of "cnt - n"] Suc.prems(3-5) print_0d_length [of c 2] by simp_all
  then have a: "length ?a \<le> 28" using Suc.prems(2) by (simp del: of_nat_diff)
  obtain k ks where ks: "?ks = k # ks" using Suc.prems(7) by (cases ?ks) auto
  obtain rest where fill: "run_state (gsv_fill sys 0 vs ?a) s = ((Some (?a @ concat (map (sat_text s) (take 4 ?ks))), rest), s)"
      and rest: "filter (\<lambda>v. sys (prn v)) rest = drop 4 ?ks" "set rest \<subseteq> set vs"
    using gsv_fill_spec [of vs sys s 0 ?a] Suc.prems(1) a by auto
  let ?x = "?a @ concat (map (sat_text s) (take 4 ?ks))"
  obtain s' where s': "run_state (send_sentence ?x) s = ((), s')" by (metis surj_pair unit.exhaust)
  note dl = sat_dl [OF sentence_keeps_dl [OF s']]
  have n: "n = length (chunks (filter (\<lambda>v. sys (prn v)) rest))" using Suc.prems(7) rest(1) ks by simp
  have IH: "run_state (gsv_loop head sys c cnt n rest) s' =
      run_state (do { for_each (map (gsv_sentence s' head c cnt) (enumerate (cnt - n + 1) (chunks (filter (\<lambda>v. sys (prn v)) rest)))) send_sentence;
        ret True }) s'"
    by (rule Suc.IH) (use Suc.prems rest(2) n dl in auto)
  have sent: "gsv_sentence s' head c cnt = gsv_sentence s head c cnt" by (rule ext) (simp add: gsv_sentence_def dl)
  have "sn_put [] ?a = Some ?a" using a by (simp add: sn_put_def NMEA_SENTENCE_MAX_LENGTH_def)
  then have "run_state (gsv_loop head sys c cnt (Suc n) vs) s = run_state (gsv_loop head sys c cnt n rest) s'"
    using fill s' by simp
  moreover have "cnt - Suc n + 1 = cnt - n" using Suc.prems(6) by simp
  moreover have "?x = gsv_sentence s head c cnt (cnt - n, take 4 ?ks)" by (simp add: gsv_sentence_def)
  moreover have "chunks ?ks = take 4 ?ks # chunks (drop 4 ?ks)" using ks by simp
  ultimately show ?case using IH sent rest(1) s' by (simp add: enumerate_Suc_eq)
qed simp

lemma chunks_count: "length (chunks xs) = length xs div 4 + (if length xs mod 4 \<noteq> 0 then 1 else 0)"
proof (induction xs rule: chunks.induct)
  case (2 x xs)
  show ?case
  proof (cases "length xs < 3")
    case False
    then obtain m where m: "length xs = m + 3" by (metis add.commute le_Suc_ex not_less)
    have "(m + 4) div 4 = m div 4 + 1" "(m + 4) mod 4 = m mod 4" by simp_all
    moreover have "length (x # xs) = m + 4" "length (drop 3 xs) = m" using m by simp_all
    ultimately show ?thesis using 2 by (simp only: chunks.simps list.size)
  next
    case True
    then have "drop 3 xs = []" "Suc (length xs) < 4" by simp_all
    then show ?thesis by simp
  qed
qed simp

lemma concat_chunks: "concat (chunks xs) = xs"
  by (induction xs rule: chunks.induct) (simp_all add: append_take_drop_id)

lemma chunks_sizes: "c \<in> set (chunks xs) \<Longrightarrow> 0 < length c \<and> length c \<le> 4"
  by (induction xs rule: chunks.induct) auto

end
