(* ===== verification/Props_Nmea.thy ===== *)
theory Props_Nmea
  imports Nmea_Spec Loc_Examples
begin

text \<open>Properties of the NMEA sentences, with their witnesses.\<close>

lemma gsv_run:
  assumes "\<forall>v \<in> set vs. sys (prn v) \<longrightarrow> sat_ok s v" "length head \<le> 20" "0 \<le> c" "c < 100" "length vs \<le> 32"
  shows "run_state (gsv head sys c vs) s = run_state (do { for_each (gsv_ref s head sys c vs) send_sentence; ret True }) s"
proof (cases "filter (\<lambda>v. sys (prn v)) vs")
  case Nil
  then show ?thesis by (simp add: gsv_def gsv_ref_def Let_def)
next
  case (Cons k ks)
  let ?ks = "filter (\<lambda>v. sys (prn v)) vs" and ?n = "length (chunks (filter (\<lambda>v. sys (prn v)) vs))"
  have "length ?ks \<le> 32" using assms(5) length_filter_le order_trans by blast
  then have "?n < 100" using chunks_count [of ?ks] div_le_mono [of "length ?ks" 32 4] by (simp split: if_splits)
  moreover have "run_state (gsv head sys c vs) s = run_state (gsv_loop head sys c ?n ?n vs) s"
    unfolding gsv_def Let_def chunks_count [of ?ks, symmetric] using Cons by (simp only: list.size) simp
  moreover have "gsv_ref s head sys c vs = map (gsv_sentence s head c ?n) (enumerate 1 (chunks ?ks))"
    using Cons by (simp add: gsv_ref_def Let_def)
  ultimately show ?thesis using gsv_loop_spec [OF assms(1-4), of ?n ?n] by simp
qed

lemma sentences_keep_dl: "run_state (for_each xs send_sentence) s = (u, s') \<Longrightarrow> dl s' = dl s"
proof (induction xs arbitrary: s)
  case (Cons x xs)
  obtain t where "run_state (send_sentence x) s = ((), t)" by (metis surj_pair unit.exhaust)
  then show ?case using Cons sentence_keeps_dl [of x s t] by simp
qed simp

text \<open>What is kept of the satellites for the sentences of the next position, or the blanks where none was used.\<close>

definition keep_used :: "sv_status \<Rightarrow> gps_location_extended \<Rightarrow> ('a loc_st_scheme, unit) state" where
  "keep_used v lx = (if used_in_fix_mask v = 0 then send_blanks
     else modify (\<lambda>s. s\<lparr>sv_used_mask := used_in_fix_mask v,
       pdop := if has_bit (gx_flags lx) GPS_LOCATION_EXTENDED_HAS_DOP then gx_pdop lx else 0,
       hdop := if has_bit (gx_flags lx) GPS_LOCATION_EXTENDED_HAS_DOP then gx_hdop lx else 0,
       vdop := if has_bit (gx_flags lx) GPS_LOCATION_EXTENDED_HAS_DOP then gx_vdop lx else 0\<rparr>))"

text \<open>C2: a report of satellites becomes the sentences of the GPS ones and then those of the GLONASS ones, each system split into
  runs of four in order, numbered from 1 and complete, with the four fields of every satellite; then what the sentences of the
  next position need is kept.\<close>

theorem satellites_in_view:
  assumes "num_svs v = int (length (sv_list v))" "num_svs v \<le> 32"
    and "\<forall>x \<in> set (sv_list v). is_gps (prn x) \<or> is_glonass (prn x) \<longrightarrow> sat_ok s x"
  shows "run_state (loc_eng_nmea_generate_sv v lx) s =
    run_state (do {
      for_each (gsv_ref s ''$GPGSV,'' is_gps (num_svs v) (sv_list v) @ gsv_ref s ''$GLGSV,'' is_glonass (num_svs v) (sv_list v)) send_sentence;
      keep_used v lx }) s"
proof -
  let ?A = "gsv_ref s ''$GPGSV,'' is_gps (num_svs v) (sv_list v)" and ?B = "gsv_ref s ''$GLGSV,'' is_glonass (num_svs v) (sv_list v)"
  obtain s' where s': "run_state (for_each ?A send_sentence) s = ((), s')" by (metis surj_pair unit.exhaust)
  note dl = sat_dl [OF sentences_keep_dl [OF s']]
  have A: "run_state (gsv ''$GPGSV,'' is_gps (num_svs v) (sv_list v)) s = (True, s')"
    using gsv_run [of "sv_list v" is_gps s "''$GPGSV,''" "num_svs v"] assms s' by simp
  have "gsv_ref s' ''$GLGSV,'' is_glonass (num_svs v) (sv_list v) = ?B"
    by (simp add: gsv_ref_def gsv_sentence_def dl Let_def split_def)
  moreover have "run_state (gsv ''$GLGSV,'' is_glonass (num_svs v) (sv_list v)) s' =
      run_state (do { for_each (gsv_ref s' ''$GLGSV,'' is_glonass (num_svs v) (sv_list v)) send_sentence; ret True }) s'"
    by (rule gsv_run) (use assms dl in auto)
  moreover obtain s2 where "run_state (for_each ?B send_sentence) s' = ((), s2)" by (metis surj_pair unit.exhaust)
  ultimately show ?thesis using A s' assms(1)
    by (simp add: loc_eng_nmea_generate_sv_def must_def keep_used_def run_for_each_append Let_def)
qed

definition no_extended :: gps_location_extended where
  "no_extended = \<lparr>gx_flags = 0, altitudeMeanSeaLevel = 0, gx_pdop = 0, gx_hdop = 0, gx_vdop = 0, magneticDeviation = 0\<rparr>"

theorem satellites_in_view_witness:
  "run_state (loc_eng_nmea_generate_sv
     \<lparr>num_svs = 2, sv_list = [\<lparr>prn = 66, snr = 0, elevation = 7, azimuth = 300\<rparr>, \<lparr>prn = 5, snr = 30, elevation = 45, azimuth = 12\<rparr>],
       ephemeris_mask = 0, almanac_mask = 0, used_in_fix_mask = 16\<rparr> no_extended) loc_ready =
   run_state (do {
     for_each [''$GPGSV,1,1,02,05,45,012,30'', ''$GLGSV,1,1,02,66,07,300,''] send_sentence;
     keep_used \<lparr>num_svs = 2, sv_list = [\<lparr>prn = 66, snr = 0, elevation = 7, azimuth = 300\<rparr>, \<lparr>prn = 5, snr = 30, elevation = 45, azimuth = 12\<rparr>],
       ephemeris_mask = 0, almanac_mask = 0, used_in_fix_mask = 16\<rparr> no_extended }) loc_ready"
proof -
  let ?v = "\<lparr>num_svs = 2, sv_list = [\<lparr>prn = 66, snr = 0, elevation = 7, azimuth = 300\<rparr>, \<lparr>prn = 5, snr = 30, elevation = 45, azimuth = 12\<rparr>],
       ephemeris_mask = 0, almanac_mask = 0, used_in_fix_mask = 16\<rparr>"
  have "gsv_ref loc_ready ''$GPGSV,'' is_gps 2 (sv_list ?v) = [''$GPGSV,1,1,02,05,45,012,30'']" by code_simp
  moreover have "gsv_ref loc_ready ''$GLGSV,'' is_glonass 2 (sv_list ?v) = [''$GLGSV,1,1,02,66,07,300,'']" by code_simp
  moreover have "\<forall>x \<in> set (sv_list ?v). is_gps (prn x) \<or> is_glonass (prn x) \<longrightarrow> sat_ok loc_ready x" by code_simp
  ultimately show ?thesis using satellites_in_view [of ?v loc_ready no_extended] by simp
qed

text \<open>C27: what is between the dollar and the asterisk of a sentence that is sent is what was made, and its two digits are the
  checksum a reader computes; the length handed on leaves out the last byte.\<close>

theorem checksum_read:
  assumes "length body \<le> 193" "CHR ''*'' \<notin> set body"
    and "loc_eng_nmea_put_checksum (CHR ''$'' # body) NMEA_SENTENCE_MAX_LENGTH = (s, len)"
  shows "nmea_ok s \<and> takeWhile (\<lambda>c. c \<noteq> CHR ''*'') s = CHR ''$'' # body \<and> len = int (length s) - 1"
  using checksum_ok [OF assms] .

theorem checksum_read_witness:
  "nmea_ok (fst (loc_eng_nmea_put_checksum ''$GPVTG,,T,,M,,N,,K,N'' NMEA_SENTENCE_MAX_LENGTH))"
  using checksum_read [of "''GPVTG,,T,,M,,N,,K,N''", OF _ _ prod.collapse [symmetric]] by simp

end
