(* ===== verification/Props_Cfg.thy ===== *)
theory Props_Cfg
  imports Loc_Cfg
begin

text \<open>What the parser of the configuration files reads back.\<close>

section \<open>Lines\<close>

lemma fgets_line_whole:
  "\<forall>c \<in> set l. c \<noteq> CHR 0x0A \<Longrightarrow> length l < n \<Longrightarrow> fgets_line n (l @ CHR 0x0A # s) = l @ [CHR 0x0A]"
proof (induction l arbitrary: n)
  case Nil
  then show ?case by (cases n) auto
next
  case (Cons c l)
  then show ?case by (cases n) auto
qed

lemma file_lines_concat:
  assumes "\<forall>l \<in> set ls. (\<forall>c \<in> set l. c \<noteq> CHR 0x0A) \<and> length l \<le> n"
  shows "file_lines n (concat (map (\<lambda>l. l @ [CHR 0x0A]) ls)) = map (\<lambda>l. l @ [CHR 0x0A]) ls"
  using assms
proof (induction ls)
  case (Cons l ls)
  let ?rest = "concat (map (\<lambda>l. l @ [CHR 0x0A]) ls)"
  have "fgets_line (Suc n) (l @ CHR 0x0A # ?rest) = l @ [CHR 0x0A]" using Cons.prems by (intro fgets_line_whole) auto
  then have "file_lines n (l @ CHR 0x0A # ?rest) = (l @ [CHR 0x0A]) # file_lines n ?rest"
    by (subst file_lines.simps) (simp add: Let_def)
  then show ?case using Cons by simp
qed (simp add: file_lines.simps)

section \<open>One line\<close>

text \<open>A name: no blank at its ends, no equals sign, no end of a line in it.\<close>

definition conf_name :: "string \<Rightarrow> bool" where
  "conf_name k \<longleftrightarrow> k \<noteq> [] \<and> \<not> is_space (hd k) \<and> \<not> is_space (last k) \<and> list_all (\<lambda>c. c \<noteq> CHR ''='' \<and> c \<noteq> CHR 0x0A \<and> c \<noteq> CHR 0x00) k"

text \<open>The line of a name and a number.\<close>

definition conf_text :: "string \<times> int \<Rightarrow> string" where
  "conf_text kx = fst kx @ '' = '' @ int_str (snd kx)"

lemma trim_ends:
  assumes "k \<noteq> []" "\<not> is_space (hd k)" "\<not> is_space (last k)" "list_all is_space a" "list_all is_space b"
  shows "trim_space (a @ k @ b) = k"
proof -
  obtain c t where k: "k = c # t" using assms(1) by (cases k) auto
  obtain u d where k': "k = u @ [d]" using assms(1) by (metis append_butlast_last_id)
  have "dropWhile is_space (a @ k @ b) = k @ b" using assms(2,4) k by (simp add: dropWhile_append1 list_all_iff)
  moreover have "dropWhile is_space (rev b @ rev k) = rev k" using assms(3,5) k' by (simp add: dropWhile_append list_all_iff)
  moreover have "\<not> list_all is_space (a @ k @ b)" using assms(2) k by simp
  ultimately show ?thesis by (auto simp: trim_space_eq)
qed

lemma int_str_chars: "c \<in> set (int_str x) \<Longrightarrow> is_digit c \<or> c = CHR ''-''"
  using nat_str_digits [of "nat x"] nat_str_digits [of "nat (- x)"] by (auto simp: int_str_def split: if_splits)

lemma plain_char: "is_digit c \<or> c = CHR ''-'' \<Longrightarrow> \<not> is_space c \<and> c \<noteq> CHR ''='' \<and> c \<noteq> CHR 0x0A \<and> c \<noteq> CHR 0x00 \<and> c \<noteq> CHR ''x'' \<and> c \<noteq> CHR ''X''"
  by (auto simp: is_digit_def is_space_def Let_def)

lemma read_conf_text:
  assumes k: "conf_name k" and x: "- (2 ^ 31) \<le> x" "x < 2 ^ 31"
  shows "read_line rnd (conf_text (k, x) @ [CHR 0x0A]) =
    Some \<lparr>v_name = k, param_str_value = int_str x, param_int_value = x, param_double_value = rnd (written (int_str x))\<rparr>"
proof -
  have plain: "\<forall>c \<in> set (int_str x). \<not> is_space c \<and> c \<noteq> CHR ''='' \<and> c \<noteq> CHR 0x0A \<and> c \<noteq> CHR 0x00 \<and> c \<noteq> CHR ''x'' \<and> c \<noteq> CHR ''X''"
    using int_str_chars plain_char by blast
  have ne: "int_str x \<noteq> []" by (simp add: int_str_def)
  have kc: "\<forall>c \<in> set k. c \<noteq> CHR ''='' \<and> c \<noteq> CHR 0x00" using k by (auto simp: conf_name_def list_all_iff)
  have "cstr (conf_text (k, x) @ [CHR 0x0A]) = k @ '' = '' @ int_str x @ [CHR 0x0A]"
    using kc plain by (auto simp: conf_text_def cstr_def takeWhile_eq_all_conv)
  moreover have "strtok_eq (k @ '' = '' @ int_str x @ [CHR 0x0A]) = Some (k @ '' '', '' '' @ int_str x @ [CHR 0x0A])"
    using kc k by (cases k) (auto simp: strtok_eq_def conf_name_def takeWhile_append2 dropWhile_append2)
  moreover have "strtok_eq ('' '' @ int_str x @ [CHR 0x0A]) = Some ('' '' @ int_str x @ [CHR 0x0A], [])"
    using plain by (auto simp: strtok_eq_def takeWhile_append2 dropWhile_append2)
  moreover have "trim_space (k @ '' '') = k"
    using trim_ends [of k "[]" "'' ''"] k by (simp add: conf_name_def is_space_def)
  moreover have "trim_space ('' '' @ int_str x @ [CHR 0x0A]) = int_str x"
    using trim_ends [of "int_str x" "'' ''" "[CHR 0x0A]"] plain ne by (simp add: is_space_def)
  moreover have "take 2 (int_str x) \<noteq> ''0x''" "take 2 (int_str x) \<noteq> ''0X''"
  proof -
    have "CHR ''x'' \<notin> set (int_str x)" "CHR ''X'' \<notin> set (int_str x)" using plain by blast+
    then have "CHR ''x'' \<notin> set (take 2 (int_str x))" "CHR ''X'' \<notin> set (take 2 (int_str x))" by (blast dest: in_set_takeD)+
    then show "take 2 (int_str x) \<noteq> ''0x''" "take 2 (int_str x) \<noteq> ''0X''"
      by (metis list.set_intros(1) list.set_intros(2))+
  qed
  moreover have "atoi (int_str x) = x" using atoi_int_str [OF x, of "[]"] by simp
  ultimately show ?thesis by (simp add: read_line_def Let_def)
qed

text \<open>C26: a configuration file of lines that fit, each a name, an equals sign and a number, is read back line by line: the names
  without blanks, the numbers as they were written.\<close>

theorem conf_read_back:
  assumes "\<forall>(k, x) \<in> set kvs. conf_name k \<and> - (2 ^ 31) \<le> x \<and> x < 2 ^ 31 \<and> length (conf_text (k, x)) \<le> LOC_MAX_PARAM_LINE - 2"
  shows "map (read_line rnd) (file_lines (LOC_MAX_PARAM_LINE - 2) (concat (map (\<lambda>kx. conf_text kx @ [CHR 0x0A]) kvs))) =
    map (\<lambda>(k, x). Some \<lparr>v_name = k, param_str_value = int_str x, param_int_value = x, param_double_value = rnd (written (int_str x))\<rparr>) kvs"
proof -
  have one: "\<forall>c \<in> set (conf_text kx). c \<noteq> CHR 0x0A" if "conf_name (fst kx)" for kx
    using that int_str_chars plain_char by (auto simp: conf_text_def conf_name_def list_all_iff)
  have "file_lines (LOC_MAX_PARAM_LINE - 2) (concat (map (\<lambda>l. l @ [CHR 0x0A]) (map conf_text kvs))) = map (\<lambda>l. l @ [CHR 0x0A]) (map conf_text kvs)"
    by (rule file_lines_concat) (use assms one in fastforce)
  then show ?thesis using assms read_conf_text by (fastforce simp: o_def)
qed

theorem conf_read_back_witness:
  "map (read_line id) (file_lines (LOC_MAX_PARAM_LINE - 2) (''INTERMEDIATE_POS = 1'' @ [CHR 0x0A] @ ''ACCURACY_THRES = -20'' @ [CHR 0x0A])) =
   [Some \<lparr>v_name = ''INTERMEDIATE_POS'', param_str_value = ''1'', param_int_value = 1, param_double_value = 1\<rparr>,
    Some \<lparr>v_name = ''ACCURACY_THRES'', param_str_value = ''-20'', param_int_value = - 20, param_double_value = - 20\<rparr>]"
proof -
  have "int_str 1 = ''1''" "int_str (- 20) = ''-20''" by code_simp+
  moreover have "written ''1'' = 1" "written ''-20'' = - 20" by code_simp+
  moreover have "conf_name ''INTERMEDIATE_POS''" "conf_name ''ACCURACY_THRES''" by code_simp+
  ultimately show ?thesis
    using conf_read_back [of "[(''INTERMEDIATE_POS'', 1), (''ACCURACY_THRES'', - 20)]" id]
    by (simp add: conf_text_def LOC_MAX_PARAM_LINE_def)
qed

end
