(* ===== verification/Lights.thy ===== *)
theory Lights
  imports World C_Strings "HOL-Library.Signed_Division"
begin

text \<open>
  \<open>liblights/lights.cpp\<close>: the backlight and the notification light, and the wrapper of the vendor's module for the buttons.
  \<open>g_lock\<close> is \<open>L_light\<close>, \<open>gLightWrapperLock\<close> is \<open>L_light_wrapper\<close>. \<open>pow\<close> of the C library is answered by \<open>env\<close>.
\<close>

datatype set_light = Set_backlight | Set_led | Set_vendor

record light_device =
  set_light :: set_light
  vendor :: nat

text \<open>\<open>gamma\<close> is the option \<open>ENABLE_GAMMA_CORRECTION\<close>, \<open>dround\<close> the rounding to a double, a device an address.\<close>

record light_st = world +
  gamma :: bool
  dround :: "rat \<Rightarrow> rat"
  gVendorModule :: nat
  light_devs :: "nat \<Rightarrow> light_device option"

text \<open>\<open>struct light_state_t\<close>\<close>

record light_state =
  color :: int
  flashMode :: int
  flashOnMS :: int
  flashOffMS :: int

definition LIGHT_FLASH_TIMED :: int where "LIGHT_FLASH_TIMED = 1"
definition LIGHT_FLASH_HARDWARE :: int where "LIGHT_FLASH_HARDWARE = 2"
definition LCD_BRIGHTNESS_MIN :: int where "LCD_BRIGHTNESS_MIN = 20"
definition ENOMEM :: int where "ENOMEM = 12"

definition LCD_BACKLIGHT_FILE :: string where "LCD_BACKLIGHT_FILE = ''/sys/class/leds/lcd-backlight/brightness''"
definition LCD_BACKLIGHT2_FILE :: string where "LCD_BACKLIGHT2_FILE = ''/dev/null''"
definition MAX_BRIGHTNESS_FILE :: string where "MAX_BRIGHTNESS_FILE = ''/sys/class/leds/lcd-backlight/max_brightness''"
definition LED_CONTROL_FILE :: string where "LED_CONTROL_FILE = ''/sys/class/led/fih_led/control''"

section \<open>Files\<close>

text \<open>\<open>errno\<close> is looked at after \<open>close\<close>, which leaves it if it succeeds.\<close>

definition write_close :: "int \<Rightarrow> string \<Rightarrow> ('a world_scheme, int) state" where
  "write_close fd bytes = do {
     w \<leftarrow> call (E_write fd bytes);
     c \<leftarrow> call (E_close fd);
     ret (if rv w = - 1 then - (if rv c < 0 then rerr c else rerr w) else 0)
   }"

definition light_write_int :: "string \<Rightarrow> int \<Rightarrow> ('a world_scheme, int) state" where
  "light_write_int path value = do {
     fd \<leftarrow> call (E_open path [O_RDWR]);
     if rv fd < 0 then ret (- rerr fd) else write_close (rv fd) (int_str value @ [CHR 0x0A])
   }"

text \<open>A string that does not fit is written with what follows the buffer.\<close>

definition light_write_string :: "string \<Rightarrow> string \<Rightarrow> ('a world_scheme, int) state" where
  "light_write_string path value = do {
     fd \<leftarrow> call (E_open path [O_RDWR]);
     if rv fd < 0 then ret (- rerr fd)
     else do {
       let text = value @ [CHR 0x0A];
       must (length text \<le> 20);
       write_close (rv fd) (if length text = 20 then take 19 text @ [CHR 0x00] else text)
     }
   }"

section \<open>The backlight\<close>

definition rgb_to_brightness :: "light_state \<Rightarrow> int" where
  "rgb_to_brightness st = (let c = and (color st) 0x00ffffff in
     (77 * (and (c div 2 ^ 16) 0xff) + 150 * (and (c div 2 ^ 8) 0xff) + 29 * (and c 0xff)) div 2 ^ 8)"

definition brightness_apply_gamma :: "int \<Rightarrow> ('a light_st_scheme, int) state" where
  "brightness_apply_gamma brightness = do {
     rnd \<leftarrow> gets dround;
     r \<leftarrow> call (E_bsc ''pow'' [] [rnd (of_int brightness / 255), rnd (22 / 10)]);
     let x = rnd ((case rflt r of [] \<Rightarrow> 0 | p # _ \<Rightarrow> p) * 255);
     let n = (if x < 0 then - \<lfloor>- x\<rfloor> else \<lfloor>x\<rfloor>);
     must (- (2 ^ 31) \<le> n \<and> n < 2 ^ 31);
     ret (swrap 32 n)
   }"

text \<open>The bytes read have no terminator; one that is not a digit must be among them.\<close>

definition get_max_brightness :: "('a world_scheme, int) state" where
  "get_max_brightness = do {
     fd \<leftarrow> call (E_open MAX_BRIGHTNESS_FILE [O_RDONLY]);
     if rv fd < 0 then ret 255
     else do {
       r \<leftarrow> call (E_read (rv fd) 6);
       if rv r \<le> 1 then do { emit (E_close (rv fd)); ret 255 }
       else do {
         let value = take (min 6 (nat (rv r))) (rbuf r);
         must (list_ex (\<lambda>c. \<not> is_digit c) (snd (take_sign (dropWhile is_space value))));
         emit (E_close (rv fd));
         ret (atoi value)
       }
     }
   }"

definition lights_set_light_backlight :: "light_state \<Rightarrow> ('a light_st_scheme, int) state" where
  "lights_set_light_backlight st = do {
     let brightness = rgb_to_brightness st;
     max_brightness \<leftarrow> get_max_brightness;
     g \<leftarrow> gets gamma;
     b \<leftarrow> (if brightness > 0 then do {
         b \<leftarrow> (if g then brightness_apply_gamma brightness else ret brightness);
         must (- (2 ^ 31) \<le> max_brightness * b \<and> max_brightness * b < 2 ^ 31);
         let b = swrap 32 (max_brightness * b) sdiv 255;
         ret (if b < LCD_BRIGHTNESS_MIN then LCD_BRIGHTNESS_MIN else b)
       } else ret brightness);
     emit (E_lock L_light);
     e1 \<leftarrow> light_write_int LCD_BACKLIGHT_FILE b;
     e2 \<leftarrow> light_write_int LCD_BACKLIGHT2_FILE b;
     emit (E_unlock L_light);
     ret (or e1 e2)
   }"

section \<open>The notification light\<close>

definition led_ctl :: "string \<Rightarrow> ('a world_scheme, unit) state" where
  "led_ctl cmd = do {
     fd \<leftarrow> call (E_open LED_CONTROL_FILE [O_WRONLY]);
     if rv fd < 0 then ret ()
     else do { emit (E_write (rv fd) (cmd @ [CHR 0x0A])); emit (E_close (rv fd)) }
   }"

text \<open>The numbers of a command, with blanks between.\<close>

fun led_cmd :: "int list \<Rightarrow> string" where
  "led_cmd [] = []"
| "led_cmd [x] = int_str x"
| "led_cmd (x # y # xs) = int_str x @ '' '' @ led_cmd (y # xs)"

definition led_cmds :: "int \<Rightarrow> int \<Rightarrow> bool \<Rightarrow> int \<Rightarrow> int \<Rightarrow> int list list" where
  "led_cmds led_id brightness blink onMS offMS =
     (if brightness \<le> 0 then [[2, led_id, 0], [1, led_id, 0]]
      else [4, led_id, brightness] #
        (if blink \<and> onMS > 0 \<and> offMS > 0 then [[7, led_id, onMS, offMS], [2, led_id, 1]]
         else [[2, led_id, 0], [1, led_id, 1]]))"

definition set_led_channel :: "int \<Rightarrow> int \<Rightarrow> bool \<Rightarrow> int \<Rightarrow> int \<Rightarrow> ('a world_scheme, unit) state" where
  "set_led_channel led_id brightness blink onMS offMS =
     for_each (led_cmds led_id brightness blink onMS offMS) (\<lambda>c. led_ctl (led_cmd c))"

definition lights_set_light_led :: "light_state \<Rightarrow> ('a world_scheme, int) state" where
  "lights_set_light_led st = do {
     let c = and (color st) 0x00ffffff;
     let blink = (flashMode st = LIGHT_FLASH_TIMED \<or> flashMode st = LIGHT_FLASH_HARDWARE);
     let onMS = (if blink then flashOnMS st else 0);
     let offMS = (if blink then flashOffMS st else 0);
     emit (E_lock L_light);
     set_led_channel 0 (and (c div 2 ^ 16) 0xff) blink onMS offMS;
     set_led_channel 1 (and (c div 2 ^ 8) 0xff) blink onMS offMS;
     set_led_channel 2 (and c 0xff) blink onMS offMS;
     emit (E_unlock L_light);
     ret 0
   }"

section \<open>Devices\<close>

definition check_vendor_module :: "('a light_st_scheme, int) state" where
  "check_vendor_module = do {
     m \<leftarrow> gets gVendorModule;
     if m \<noteq> 0 then ret 0
     else do {
       r \<leftarrow> call (E_hook ''hw_get_module_by_class'' []);
       modify (\<lambda>s. s\<lparr>gVendorModule := (if rv r = 0 then nat (num r 0) else 0)\<rparr>);
       ret (rv r)
     }
   }"

definition get_light :: "nat \<Rightarrow> ('a light_st_scheme, light_device) state" where
  "get_light d = do {
     x \<leftarrow> gets (\<lambda>s. light_devs s d);
     (case x of None \<Rightarrow> do { must False; ret \<lparr>set_light = Set_vendor, vendor = 0\<rparr> } | Some x \<Rightarrow> ret x)
   }"

definition lights_set_light :: "nat \<Rightarrow> light_state \<Rightarrow> ('a light_st_scheme, int) state" where
  "lights_set_light dev st =
     (if dev = 0 then ret (- EINVAL)
      else do {
        x \<leftarrow> get_light dev;
        must (vendor x \<noteq> 0);
        r \<leftarrow> call (E_hook ''vendor_set_light''
          [int (vendor x), and (color st) 0x00ffffff, flashMode st, flashOnMS st, flashOffMS st]);
        ret (rv r)
      })"

text \<open>The function of an open device.\<close>

definition call_set_light :: "nat \<Rightarrow> light_state \<Rightarrow> ('a light_st_scheme, int) state" where
  "call_set_light dev st = do {
     x \<leftarrow> get_light dev;
     (case set_light x of
        Set_backlight \<Rightarrow> lights_set_light_backlight st
      | Set_led \<Rightarrow> lights_set_light_led st
      | Set_vendor \<Rightarrow> lights_set_light dev st)
   }"

definition lights_device_close :: "nat \<Rightarrow> ('a light_st_scheme, int) state" where
  "lights_device_close dev = do {
     emit (E_lock L_light_wrapper);
     r \<leftarrow> (if dev = 0 then ret (- EINVAL)
       else do {
         x \<leftarrow> get_light dev;
         (if vendor x \<noteq> 0 then emit (E_hook ''vendor_close'' [int (vendor x)]) else ret ());
         emit (E_free dev);
         modify (\<lambda>s. s\<lparr>light_devs := (light_devs s)(dev := None)\<rparr>);
         ret 0
       });
     emit (E_unlock L_light_wrapper);
     ret r
   }"

text \<open>
  Which function a light gets, with the vendor's device, or the error with which the opening fails; \<open>None\<close> for an unknown name.
\<close>

definition choose_light :: "string \<Rightarrow> ('a light_st_scheme, (int + light_device) option) state" where
  "choose_light name =
     (if name = ''backlight'' then ret (Some (Inr \<lparr>set_light = Set_backlight, vendor = 0\<rparr>))
      else if name = ''notifications'' \<or> name = ''battery'' \<or> name = ''attention''
      then ret (Some (Inr \<lparr>set_light = Set_led, vendor = 0\<rparr>))
      else if name = ''buttons'' then do {
        e \<leftarrow> check_vendor_module;
        if e \<noteq> 0 then ret (Some (Inl (- EINVAL)))
        else do {
          m \<leftarrow> gets gVendorModule;
          must (m \<noteq> 0);
          r \<leftarrow> call (E_hook ''vendor_open'' (int m # map of_char name));
          ret (Some (if rv r \<noteq> 0 then Inl (rv r) else Inr \<lparr>set_light = Set_vendor, vendor = nat (num r 0)\<rparr>))
        }
      } else ret None)"

text \<open>The result, and what \<open>*device\<close> is set to (\<open>None\<close>: it is not set).\<close>

definition open_lights :: "string option \<Rightarrow> ('a light_st_scheme, int \<times> nat option) state" where
  "open_lights name = do {
     emit (E_lock L_light_wrapper);
     r \<leftarrow> (case name of
       None \<Rightarrow> ret (0, None)
     | Some n \<Rightarrow> do {
         a \<leftarrow> call (E_malloc 72);
         if rv a = 0 then ret (- ENOMEM, Some 0)
         else do {
           c \<leftarrow> choose_light n;
           (case c of
              None \<Rightarrow> do { emit (E_free (nat (rv a))); ret (- EINVAL, None) }
            | Some (Inl e) \<Rightarrow> do { emit (E_free (nat (rv a))); ret (e, Some 0) }
            | Some (Inr x) \<Rightarrow> do {
                modify (\<lambda>s. s\<lparr>light_devs := (light_devs s)(nat (rv a) := Some x)\<rparr>);
                ret (0, Some (nat (rv a)))
              })
         }
       });
     emit (E_unlock L_light_wrapper);
     ret r
   }"

section \<open>The commands undo\<close>

text \<open>What the comment of the code says of the kernel's commands: a light is on with a brightness, and it blinks or not.\<close>

record led =
  led_bright :: int
  led_on :: bool
  led_blink :: bool
  led_times :: "int \<times> int"

definition led_do :: "int list \<Rightarrow> led \<Rightarrow> led" where
  "led_do c x = (case c of
     [k, _, v] \<Rightarrow> if k = 4 then x\<lparr>led_bright := v\<rparr> else if k = 1 then x\<lparr>led_on := v \<noteq> 0\<rparr>
       else if k = 2 then x\<lparr>led_blink := v \<noteq> 0\<rparr> else x
   | [k, _, v, w] \<Rightarrow> if k = 7 then x\<lparr>led_times := (v, w)\<rparr> else x
   | _ \<Rightarrow> x)"

text \<open>The numbers of a line that is written.\<close>

fun split_blank :: "string \<Rightarrow> string list" where
  "split_blank [] = [[]]"
| "split_blank (c # s) = (if is_space c then [] # split_blank s
     else case split_blank s of [] \<Rightarrow> [[c]] | w # ws \<Rightarrow> (c # w) # ws)"

definition led_line :: "string \<Rightarrow> int list" where
  "led_line l = map atoi (filter (\<lambda>w. w \<noteq> []) (split_blank l))"

definition led_of :: "int list \<Rightarrow> int" where
  "led_of c = (case c of _ # i # _ \<Rightarrow> i | _ \<Rightarrow> - 1)"

text \<open>The lights after the calls \<open>es\<close>, the ones to the control file being the writes.\<close>

definition leds_step :: "(int \<Rightarrow> led) \<Rightarrow> event \<Rightarrow> int \<Rightarrow> led" where
  "leds_step f e = (case e of
     E_fd (F_write l) fd \<Rightarrow> (let c = led_line l in f(led_of c := led_do c (f (led_of c))))
   | _ \<Rightarrow> f)"

definition leds :: "(int \<Rightarrow> led) \<Rightarrow> event list \<Rightarrow> int \<Rightarrow> led" where
  "leds f es = foldl leds_step f es"

end
