(* ===== verification/Props_Lights.thy ===== *)
theory Props_Lights
  imports Lights
begin

text \<open>What the lights of the notification light show after it was set.\<close>

section \<open>A command is read back\<close>

lemma no_blank: "is_digit c \<Longrightarrow> \<not> is_space c"
  by (auto simp: is_digit_def is_space_def Let_def)

lemma int_str_no_blank: "c \<in> set (int_str x) \<Longrightarrow> \<not> is_space c"
  using nat_str_digits [of "nat x"] nat_str_digits [of "nat (- x)"] no_blank
  by (auto simp: int_str_def is_space_def Let_def split: if_splits)

lemma split_blank_word:
  "\<forall>c \<in> set w. \<not> is_space c \<Longrightarrow> is_space b \<Longrightarrow> split_blank (w @ b # s) = w # split_blank s"
  by (induction w) simp_all

lemma led_line_cmd:
  assumes "\<forall>x \<in> set c. - (2 ^ 31) \<le> x \<and> x < 2 ^ 31" "c \<noteq> []"
  shows "led_line (led_cmd c @ [CHR 0x0A]) = c"
proof -
  have one: "atoi (int_str x) = x" if "- (2 ^ 31) \<le> x" "x < 2 ^ 31" for x using atoi_int_str [OF that, of "[]"] by simp
  have blank: "is_space (CHR '' '')" "is_space (CHR 0x0A)" by (simp_all add: is_space_def)
  have "split_blank (led_cmd c @ [CHR 0x0A]) = map int_str c @ [[]]"
    using assms(2)
    by (induction c rule: led_cmd.induct) (auto simp: split_blank_word int_str_no_blank blank)
  moreover have "int_str x \<noteq> []" for x by (simp add: int_str_def)
  then have "filter (\<lambda>w. w \<noteq> []) (map int_str c) = map int_str c" by (simp add: filter_id_conv)
  ultimately show ?thesis using assms(1) one by (simp add: led_line_def o_def map_idI)
qed

section \<open>A channel\<close>

definition led_apply :: "(int \<Rightarrow> led) \<Rightarrow> int list \<Rightarrow> int \<Rightarrow> led" where
  "led_apply f c = f(led_of c := led_do c (f (led_of c)))"

text \<open>The control file can be opened.\<close>

definition led_opens :: "'a world_scheme \<Rightarrow> bool" where
  "led_opens s \<longleftrightarrow> (\<forall>t. 0 \<le> rv (env s t (E_open LED_CONTROL_FILE [O_WRONLY])))"

lemma leds_append: "leds f (xs @ ys) = leds (leds f xs) ys"
  by (simp add: leds_def)

lemma led_ctl_run:
  assumes "led_opens s" "\<forall>x \<in> set c. - (2 ^ 31) \<le> x \<and> x < 2 ^ 31" "c \<noteq> []"
  shows "\<exists>es. run_state (led_ctl (led_cmd c)) s = ((), s\<lparr>tr := rev es @ tr s\<rparr>) \<and> (\<forall>f. leds f es = led_apply f c)"
proof -
  define fd where "fd = rv (env s (tr s) (E_open LED_CONTROL_FILE [O_WRONLY]))"
  have "0 \<le> fd" using assms(1) by (simp add: led_opens_def fd_def)
  then have "run_state (led_ctl (led_cmd c)) s = ((), s\<lparr>tr := rev [E_open LED_CONTROL_FILE [O_WRONLY],
      E_write fd (led_cmd c @ [CHR 0x0A]), E_close fd] @ tr s\<rparr>)"
    by (simp add: led_ctl_def fd_def)
  moreover have "leds f [E_open LED_CONTROL_FILE [O_WRONLY], E_write fd (led_cmd c @ [CHR 0x0A]), E_close fd] = led_apply f c" for f
    using led_line_cmd [OF assms(2,3)] by (simp add: leds_def leds_step_def led_apply_def Let_def)
  ultimately show ?thesis by blast
qed

lemma led_ctls_run:
  assumes "led_opens s" "\<forall>c \<in> set cs. c \<noteq> [] \<and> (\<forall>x \<in> set c. - (2 ^ 31) \<le> x \<and> x < 2 ^ 31)"
  shows "\<exists>es. run_state (for_each cs (\<lambda>c. led_ctl (led_cmd c))) s = ((), s\<lparr>tr := rev es @ tr s\<rparr>) \<and>
    (\<forall>f. leds f es = foldl led_apply f cs)"
  using assms
proof (induction cs arbitrary: s)
  case Nil
  show ?case by (rule exI [of _ "[]"]) (simp add: leds_def)
next
  case (Cons c cs)
  obtain es where es: "run_state (led_ctl (led_cmd c)) s = ((), s\<lparr>tr := rev es @ tr s\<rparr>)" "\<forall>f. leds f es = led_apply f c"
    using led_ctl_run [of s c] Cons.prems by auto
  have "led_opens (s\<lparr>tr := rev es @ tr s\<rparr>)" using Cons.prems(1) by (simp add: led_opens_def)
  from Cons.IH [OF this] Cons.prems(2) obtain fs where
    "run_state (for_each cs (\<lambda>c. led_ctl (led_cmd c))) (s\<lparr>tr := rev es @ tr s\<rparr>) = ((), s\<lparr>tr := rev fs @ rev es @ tr s\<rparr>)"
    "\<forall>f. leds f fs = foldl led_apply f cs" by auto
  then have "run_state (for_each (c # cs) (\<lambda>c. led_ctl (led_cmd c))) s = ((), s\<lparr>tr := rev (es @ fs) @ tr s\<rparr>) \<and>
      (\<forall>f. leds f (es @ fs) = foldl led_apply f (c # cs))"
    using es by (simp add: leds_append)
  then show ?case by blast
qed

text \<open>A channel shows the brightness \<open>v\<close>, blinking in these times if asked to.\<close>

definition led_shows :: "int \<Rightarrow> (int \<times> int) option \<Rightarrow> led \<Rightarrow> bool" where
  "led_shows v blink x = (if v = 0 then \<not> led_on x \<and> \<not> led_blink x
     else led_bright x = v \<and> (case blink of Some ts \<Rightarrow> led_blink x \<and> led_times x = ts | None \<Rightarrow> led_on x \<and> \<not> led_blink x))"

definition blink_of :: "light_state \<Rightarrow> (int \<times> int) option" where
  "blink_of st = (if (flashMode st = LIGHT_FLASH_TIMED \<or> flashMode st = LIGHT_FLASH_HARDWARE) \<and> 0 < flashOnMS st \<and> 0 < flashOffMS st
     then Some (flashOnMS st, flashOffMS st) else None)"

definition channel_of :: "light_state \<Rightarrow> int \<Rightarrow> int" where
  "channel_of st i = color st div 2 ^ nat (16 - 8 * i) mod 256"

lemma led_channel:
  assumes "0 \<le> v" "b = (blink \<and> 0 < on \<and> 0 < off)"
  shows "\<exists>x. foldl led_apply f (led_cmds i v blink on off) = f(i := x) \<and> led_shows v (if b then Some (on, off) else None) x"
  using assms
  by (cases "v = 0"; cases b) (auto simp: led_cmds_def led_apply_def led_of_def led_do_def led_shows_def)

lemma channel_of_eqs: "and (and (color st) 0x00ffffff div 2 ^ 16) 0xff = channel_of st 0"
  "and (and (color st) 0x00ffffff div 2 ^ 8) 0xff = channel_of st 1" "and (and (color st) 0x00ffffff) 0xff = channel_of st 2"
proof -
  have mask: "and x 0xff = x mod 256" "and x 0x00ffffff = x mod 16777216" for x :: int
    using take_bit_eq_mask [of 8 x] take_bit_eq_mask [of 24 x] by (simp_all add: take_bit_eq_mod mask_eq_exp_minus_1)
  have nums: "(2::int) ^ 16 = 65536" "(2::int) ^ 8 = 256" "(2::int) ^ nat (16 - 8 * 0) = 65536" "(2::int) ^ nat (16 - 8 * 1) = 256"
    "(2::int) ^ nat (16 - 8 * 2) = 1" by simp_all
  have "color st mod 16777216 div 65536 = color st div 65536 mod 256" using zmod_zmult2_eq [of 256 "color st" 65536] by simp
  then show "and (and (color st) 0x00ffffff div 2 ^ 16) 0xff = channel_of st 0" by (simp only: mask channel_of_def nums mod_mod_trivial)
  have "color st mod 16777216 div 256 = color st div 256 mod 65536" using zmod_zmult2_eq [of 65536 "color st" 256] by simp
  moreover have "x mod 65536 mod 256 = x mod 256" "x mod 16777216 mod 256 = x mod 256" for x :: int by (rule mod_mod_cancel; simp)+
  ultimately show "and (and (color st) 0x00ffffff div 2 ^ 8) 0xff = channel_of st 1" "and (and (color st) 0x00ffffff) 0xff = channel_of st 2"
    by (simp_all only: mask channel_of_def nums div_by_1)
qed

text \<open>C25: once the light was set, each of the three channels shows its byte of the color: off without a trace of a blink,
  steady, or blinking in the times that were asked for; whatever it showed before, and no other light changes.\<close>

theorem led_shows_color:
  assumes "led_opens s" "flashOnMS st < 2 ^ 31" "flashOffMS st < 2 ^ 31"
    and "run_state (lights_set_light_led st) s = (r, s')"
  shows "r = 0 \<and> (\<exists>es. tr s' = rev es @ tr s \<and>
    (\<forall>f. (\<forall>i \<in> {0, 1, 2}. led_shows (channel_of st i) (blink_of st) (leds f es i)) \<and> (\<forall>i. i \<notin> {0, 1, 2} \<longrightarrow> leds f es i = f i)))"
proof -
  let ?blink = "flashMode st = LIGHT_FLASH_TIMED \<or> flashMode st = LIGHT_FLASH_HARDWARE"
  let ?on = "if ?blink then flashOnMS st else 0" and ?off = "if ?blink then flashOffMS st else 0"
  let ?cs = "\<lambda>i. led_cmds i (channel_of st i) ?blink ?on ?off" and ?s0 = "s\<lparr>tr := E_lock L_light # tr s\<rparr>"
  have byte: "0 \<le> channel_of st i" "channel_of st i < 256" for i by (simp_all add: channel_of_def)
  have small: "\<forall>c \<in> set (?cs i). c \<noteq> [] \<and> (\<forall>x \<in> set c. - (2 ^ 31) \<le> x \<and> x < 2 ^ 31)" if "i \<in> {0, 1, 2}" for i
    using that byte [of i] assms(2,3) by (auto simp: led_cmds_def)
  have "led_opens ?s0" using assms(1) by (simp add: led_opens_def)
  from led_ctls_run [OF this, of "?cs 0 @ ?cs 1 @ ?cs 2"] small obtain es where
    es: "run_state (for_each (?cs 0 @ ?cs 1 @ ?cs 2) (\<lambda>c. led_ctl (led_cmd c))) ?s0 = ((), ?s0\<lparr>tr := rev es @ tr ?s0\<rparr>)"
    "\<forall>f. leds f es = foldl led_apply f (?cs 0 @ ?cs 1 @ ?cs 2)" by auto
  have "run_state (lights_set_light_led st) s = run_state (do {
      emit (E_lock L_light);
      set_led_channel 0 (channel_of st 0) ?blink ?on ?off; set_led_channel 1 (channel_of st 1) ?blink ?on ?off;
      set_led_channel 2 (channel_of st 2) ?blink ?on ?off;
      emit (E_unlock L_light); ret 0 }) s"
    by (simp only: lights_set_light_led_def channel_of_eqs Let_def)
  then have "r = 0 \<and> tr s' = rev ([E_lock L_light] @ es @ [E_unlock L_light]) @ tr s"
    using assms(4) es(1)
    by (auto simp: set_led_channel_def run_for_each_append simp del: for_each.simps split: prod.splits)
  moreover have "leds f ([E_lock L_light] @ es @ [E_unlock L_light]) = foldl led_apply f (?cs 0 @ ?cs 1 @ ?cs 2)" for f
    using es(2) by (simp add: leds_def leds_step_def)
  moreover have "\<exists>g0 g1 g2. foldl led_apply f (?cs 0 @ ?cs 1 @ ?cs 2) = f(0 := g0, 1 := g1, 2 := g2) \<and>
      led_shows (channel_of st 0) (blink_of st) g0 \<and> led_shows (channel_of st 1) (blink_of st) g1 \<and> led_shows (channel_of st 2) (blink_of st) g2" for f
  proof -
    have ch: "\<exists>x. foldl led_apply f (?cs i) = f(i := x) \<and> led_shows (channel_of st i) (blink_of st) x" for f i
      using led_channel [OF byte(1) [of i] refl, of f i ?blink ?on ?off] by (auto simp: blink_of_def split: if_splits)
    show ?thesis using ch [of f 0] ch [of _ 1] ch [of _ 2] by (metis foldl_append)
  qed
  ultimately have "r = 0 \<and> tr s' = rev ([E_lock L_light] @ es @ [E_unlock L_light]) @ tr s"
    and leds: "\<exists>g0 g1 g2. leds f ([E_lock L_light] @ es @ [E_unlock L_light]) = f(0 := g0, 1 := g1, 2 := g2) \<and>
      led_shows (channel_of st 0) (blink_of st) g0 \<and> led_shows (channel_of st 1) (blink_of st) g1 \<and> led_shows (channel_of st 2) (blink_of st) g2"
    for f by metis+
  moreover have "(\<forall>i \<in> {0, 1, 2}. led_shows (channel_of st i) (blink_of st) (leds f ([E_lock L_light] @ es @ [E_unlock L_light]) i)) \<and>
      (\<forall>i. i \<notin> {0, 1, 2} \<longrightarrow> leds f ([E_lock L_light] @ es @ [E_unlock L_light]) i = f i)" for f
    using leds [of f] by (elim exE conjE) simp
  ultimately show ?thesis by blast
qed

text \<open>Red that blinks, no green, blue at 7, in a world that answers 0.\<close>

definition light_boot :: light_st where
  "light_boot = \<lparr>env = (\<lambda>_ _. \<lparr>rv = 0, rerr = 0, rbuf = [], rnum = [], rflt = []\<rparr>), tr = [], ub = False, fl = id, gamma = True, dround = id,
     gVendorModule = 0, light_devs = (\<lambda>_. None)\<rparr>"

theorem led_shows_color_witness:
  "\<exists>es. tr (snd (run_state (lights_set_light_led \<lparr>color = 0xff110007, flashMode = 1, flashOnMS = 500, flashOffMS = 100\<rparr>) light_boot)) = rev es \<and>
    led_shows 17 (Some (500, 100)) (leds (\<lambda>_. \<lparr>led_bright = 0, led_on = True, led_blink = False, led_times = (0, 0)\<rparr>) es 0)"
proof -
  let ?st = "\<lparr>color = 0xff110007, flashMode = 1, flashOnMS = 500, flashOffMS = 100\<rparr>"
  have "led_opens light_boot" by (simp add: led_opens_def light_boot_def)
  moreover have "channel_of ?st 0 = 17" "blink_of ?st = Some (500, 100)" "tr light_boot = []"
    by (simp_all add: channel_of_def blink_of_def LIGHT_FLASH_TIMED_def light_boot_def)
  ultimately show ?thesis
    using led_shows_color [OF _ _ _ prod.collapse [symmetric], of light_boot ?st] by fastforce
qed

end
