(* ===== verification/Camera.thy ===== *)
theory Camera
  imports World C_Strings "HOL-Library.Sublist"
begin

text \<open>
  \<open>camera/CameraWrapper.cpp\<close>: the wrapper of the vendor's camera module, which translates the parameters between the names of
  Android and those of the vendor. \<open>CameraParameters\<close> of the framework is an argument \<open>ops\<close> of the definitions.
\<close>

section \<open>Parameters\<close>

text \<open>The functions of \<open>CameraParameters\<close>; \<open>get\<close> answers \<open>None\<close> for \<open>NULL\<close>.\<close>

record 'p params_ops =
  unflatten :: "string \<Rightarrow> 'p"
  flatten :: "'p \<Rightarrow> string"
  get_param :: "'p \<Rightarrow> string \<Rightarrow> string option"
  set_param :: "'p \<Rightarrow> string \<Rightarrow> string \<Rightarrow> 'p"

definition KEY_SUPPORTED_ISO_MODES :: string where "KEY_SUPPORTED_ISO_MODES = ''iso-values''"
definition KEY_ISO_MODE :: string where "KEY_ISO_MODE = ''iso''"
definition KEY_SONY_IMAGE_STABILISER_VALUES :: string where "KEY_SONY_IMAGE_STABILISER_VALUES = ''sony-is-values''"
definition KEY_SONY_IMAGE_STABILISER :: string where "KEY_SONY_IMAGE_STABILISER = ''sony-is''"
definition KEY_SONY_VIDEO_STABILISER :: string where "KEY_SONY_VIDEO_STABILISER = ''sony-vs''"
definition KEY_SONY_VIDEO_STABILISER_VALUES :: string where "KEY_SONY_VIDEO_STABILISER_VALUES = ''sony-vs-values''"
definition KEY_SONY_VIDEO_HDR :: string where "KEY_SONY_VIDEO_HDR = ''sony-video-hdr''"
definition KEY_SONY_VIDEO_HDR_VALUES :: string where "KEY_SONY_VIDEO_HDR_VALUES = ''sony-video-hdr-values''"
definition KEY_SONY_ISO_AVAIL_MODES :: string where "KEY_SONY_ISO_AVAIL_MODES = ''sony-iso-values''"
definition KEY_SONY_ISO_MODE :: string where "KEY_SONY_ISO_MODE = ''sony-iso''"
definition KEY_SONY_AE_MODE_VALUES :: string where "KEY_SONY_AE_MODE_VALUES = ''sony-ae-mode-values''"
definition KEY_SONY_AE_MODE :: string where "KEY_SONY_AE_MODE = ''sony-ae-mode''"

definition VALUE_SONY_ON :: string where "VALUE_SONY_ON = ''on''"
definition VALUE_SONY_OFF :: string where "VALUE_SONY_OFF = ''off''"
definition VALUE_SONY_STILL_HDR :: string where "VALUE_SONY_STILL_HDR = ''on-still-hdr''"
definition VALUE_SONY_INTELLIGENT_ACTIVE :: string where "VALUE_SONY_INTELLIGENT_ACTIVE = ''on-intelligent-active''"

text \<open>Android's.\<close>

definition KEY_SUPPORTED_SCENE_MODES :: string where "KEY_SUPPORTED_SCENE_MODES = ''scene-mode-values''"
definition KEY_SCENE_MODE :: string where "KEY_SCENE_MODE = ''scene-mode''"
definition KEY_RECORDING_HINT :: string where "KEY_RECORDING_HINT = ''recording-hint''"

text \<open>A pointer that is read; \<open>strstr\<close> finds something; a text is written into a buffer of \<open>n\<close> bytes; \<open>strdup\<close>.\<close>

definition need :: "string option \<Rightarrow> ('a world_scheme, string) state" where
  "need x = (case x of None \<Rightarrow> do { must False; ret [] } | Some s \<Rightarrow> ret s)"

definition strstr :: "string \<Rightarrow> string \<Rightarrow> bool" where
  "strstr s t = sublist t s"

definition fits :: "nat \<Rightarrow> string \<Rightarrow> ('a world_scheme, unit) state" where
  "fits n s = must (length s + 1 \<le> n)"

definition strdup :: "string \<Rightarrow> ('a world_scheme, (nat \<times> string) option) state" where
  "strdup s = do { r \<leftarrow> call (E_malloc (length s + 1)); ret (if rv r = 0 then None else Some (nat (rv r), s)) }"

definition camera_fixup_capability :: "'p params_ops \<Rightarrow> 'p \<Rightarrow> ('a world_scheme, 'p) state" where
  "camera_fixup_capability ops p = (case get_param ops p KEY_SONY_IMAGE_STABILISER_VALUES of
     None \<Rightarrow> ret p
   | Some supportedIsModes \<Rightarrow>
       if strstr supportedIsModes VALUE_SONY_STILL_HDR then do {
         supportedSceneModes \<leftarrow> need (get_param ops p KEY_SUPPORTED_SCENE_MODES);
         fits 512 (supportedSceneModes @ '',hdr'');
         ret (set_param ops p KEY_SUPPORTED_SCENE_MODES (supportedSceneModes @ '',hdr''))
       } else ret p)"

text \<open>The list of ISO modes: the position in the buffer is its length.\<close>

fun iso_loop :: "string \<Rightarrow> string \<Rightarrow> string" where
  "iso_loop [] buffer = buffer"
| "iso_loop (c # cs) buffer = iso_loop cs (buffer @ (if c \<noteq> CHR '','' then [c] else '',ISO''))"

definition fix_iso_values :: "'p params_ops \<Rightarrow> 'p \<Rightarrow> ('a world_scheme, 'p) state" where
  "fix_iso_values ops p = (case get_param ops p KEY_SONY_ISO_AVAIL_MODES of
     None \<Rightarrow> ret p
   | Some isoModeList \<Rightarrow> do {
       let buffer = iso_loop isoModeList ''ISO'' @ '',auto'';
       fits 255 buffer;
       ret (set_param ops p KEY_SUPPORTED_ISO_MODES buffer)
     })"

definition get_scene_mode :: "'p params_ops \<Rightarrow> 'p \<Rightarrow> 'p" where
  "get_scene_mode ops p = (if get_param ops p KEY_SONY_IMAGE_STABILISER = Some VALUE_SONY_STILL_HDR
     then set_param ops p KEY_SCENE_MODE ''hdr'' else p)"

definition get_video_hdr :: "'p params_ops \<Rightarrow> 'p \<Rightarrow> ('a world_scheme, 'p) state" where
  "get_video_hdr ops p =
     (if get_param ops p KEY_SONY_VIDEO_HDR \<noteq> None \<and> get_param ops p KEY_SONY_VIDEO_HDR_VALUES \<noteq> None then do {
        vs \<leftarrow> need (get_param ops p KEY_SONY_VIDEO_HDR_VALUES);
        let p = set_param ops p ''video-hdr-values'' vs;
        v \<leftarrow> need (get_param ops p KEY_SONY_VIDEO_HDR);
        ret (set_param ops p ''video-hdr'' v)
      } else ret p)"

text \<open>The mode with the letters before it, in a block that has no room for the terminator and is not freed.\<close>

definition set_iso_name :: "'p params_ops \<Rightarrow> 'p \<Rightarrow> ('a world_scheme, 'p) state" where
  "set_iso_name ops p = do {
     iso \<leftarrow> need (get_param ops p KEY_SONY_ISO_MODE);
     a \<leftarrow> call (E_malloc (3 + length iso));
     must (rv a \<noteq> 0);
     fits (3 + length iso) (''ISO'' @ iso);
     ret (set_param ops p KEY_ISO_MODE (''ISO'' @ iso))
   }"

definition copy_shutter :: "'p params_ops \<Rightarrow> 'p \<Rightarrow> 'p" where
  "copy_shutter ops p = (case get_param ops p ''sony-shutter-speed'' of
     None \<Rightarrow> p
   | Some shutterSpeed \<Rightarrow> set_param ops p ''shutter-speed'' shutterSpeed)"

definition get_iso_mode :: "'p params_ops \<Rightarrow> 'p \<Rightarrow> ('a world_scheme, 'p) state" where
  "get_iso_mode ops p =
     (if get_param ops p KEY_SONY_ISO_MODE \<noteq> None \<and> get_param ops p KEY_SONY_AE_MODE_VALUES \<noteq> None then do {
        aeMode \<leftarrow> need (get_param ops p KEY_SONY_AE_MODE);
        (if aeMode = ''auto'' then ret (set_param ops (set_param ops p KEY_ISO_MODE ''auto'') ''shutter-speed'' ''auto'')
         else if aeMode = ''iso-prio'' then do { p \<leftarrow> set_iso_name ops p; ret (set_param ops p ''shutter-speed'' ''auto'') }
         else if aeMode = ''shutter-prio'' then ret (copy_shutter ops (set_param ops p KEY_ISO_MODE ''auto''))
         else if aeMode = ''manual'' then set_iso_name ops (copy_shutter ops p)
         else ret (set_param ops (set_param ops p KEY_ISO_MODE ''auto'') ''shutter-speed'' ''auto''))
      } else ret p)"

definition camera_fixup_getparams :: "'p params_ops \<Rightarrow> string \<Rightarrow> ('a world_scheme, (nat \<times> string) option) state" where
  "camera_fixup_getparams ops settings = do {
     p \<leftarrow> camera_fixup_capability ops (unflatten ops settings);
     p \<leftarrow> fix_iso_values ops p;
     let p = get_scene_mode ops p;
     p \<leftarrow> get_video_hdr ops p;
     p \<leftarrow> get_iso_mode ops p;
     strdup (flatten ops p)
   }"

definition set_shutter :: "'p params_ops \<Rightarrow> 'p \<Rightarrow> ('a world_scheme, 'p) state" where
  "set_shutter ops p = (case get_param ops p ''shutter-speed'' of
     None \<Rightarrow> ret p
   | Some shutterSpeed \<Rightarrow>
       if shutterSpeed \<noteq> ''auto''
       then ret (set_param ops (set_param ops p ''sony-shutter-speed'' shutterSpeed) KEY_SONY_AE_MODE ''shutter-prio'')
       else do {
         aeModes \<leftarrow> need (get_param ops p KEY_SONY_AE_MODE_VALUES);
         ret (if strstr aeModes ''auto'' then set_param ops p KEY_SONY_AE_MODE ''auto'' else p)
       })"

definition set_iso :: "'p params_ops \<Rightarrow> 'p \<Rightarrow> ('a world_scheme, 'p) state" where
  "set_iso ops p = (case get_param ops p KEY_ISO_MODE of
     None \<Rightarrow> ret p
   | Some isoMode \<Rightarrow> do {
       p \<leftarrow> (if isoMode \<noteq> ''auto''
         then do { must (3 \<le> length isoMode); ret (set_param ops p KEY_SONY_ISO_MODE (drop 3 isoMode)) }
         else ret p);
       (case get_param ops p KEY_SONY_AE_MODE_VALUES of
          None \<Rightarrow> ret p
        | Some aeModes \<Rightarrow>
            if isoMode = ''auto'' then
              if strstr aeModes ''auto'' then do {
                aeMode \<leftarrow> need (get_param ops p KEY_SONY_AE_MODE);
                ret (if aeMode \<noteq> ''shutter-prio'' then set_param ops p KEY_SONY_AE_MODE ''auto'' else p)
              } else ret p
            else if strstr aeModes ''iso-prio'' then do {
              aeMode \<leftarrow> need (get_param ops p KEY_SONY_AE_MODE);
              ret (set_param ops p KEY_SONY_AE_MODE (if aeMode = ''shutter-prio'' then ''manual'' else ''iso-prio''))
            } else ret p)
     })"

definition set_scene :: "'p params_ops \<Rightarrow> 'p \<Rightarrow> 'p" where
  "set_scene ops p = (case get_param ops p KEY_SCENE_MODE of
     None \<Rightarrow> p
   | Some sceneMode \<Rightarrow>
       if sceneMode = ''hdr''
       then set_param ops (set_param ops p KEY_SONY_IMAGE_STABILISER VALUE_SONY_STILL_HDR) KEY_SCENE_MODE ''auto''
       else set_param ops p KEY_SONY_IMAGE_STABILISER VALUE_SONY_ON)"

definition set_video_hdr :: "'p params_ops \<Rightarrow> 'p \<Rightarrow> 'p" where
  "set_video_hdr ops p = (case (get_param ops p KEY_SONY_VIDEO_HDR, get_param ops p ''video-hdr'') of
     (Some _, Some v) \<Rightarrow> set_param ops p KEY_SONY_VIDEO_HDR v
   | _ \<Rightarrow> p)"

definition set_recording :: "'p params_ops \<Rightarrow> 'p \<Rightarrow> 'p" where
  "set_recording ops p =
     (if get_param ops p KEY_RECORDING_HINT = Some ''true'' then
        set_param ops (set_param ops p KEY_SONY_VIDEO_STABILISER
          (case get_param ops p KEY_SONY_VIDEO_STABILISER_VALUES of
             Some v \<Rightarrow> if strstr v VALUE_SONY_INTELLIGENT_ACTIVE then VALUE_SONY_INTELLIGENT_ACTIVE else VALUE_SONY_ON
           | None \<Rightarrow> VALUE_SONY_ON)) KEY_SONY_IMAGE_STABILISER VALUE_SONY_OFF
      else p)"

definition camera_fixup_setparams :: "'p params_ops \<Rightarrow> string \<Rightarrow> ('a world_scheme, (nat \<times> string) option) state" where
  "camera_fixup_setparams ops settings = do {
     p \<leftarrow> set_shutter ops (unflatten ops settings);
     p \<leftarrow> set_iso ops p;
     strdup (flatten ops (set_recording ops (set_video_hdr ops (set_scene ops p))))
   }"

section \<open>The module and its devices\<close>

record camera_device =
  cam_id :: int
  cam_vendor :: nat
  cam_ops :: nat

text \<open>\<open>cam_module\<close> is \<open>gVendorModule\<close>, a device an address.\<close>

record camera_st = world +
  cam_module :: nat
  cam_devs :: "nat \<Rightarrow> camera_device option"

definition NO_INIT :: int where "NO_INIT = - 19"
definition cam_ENOMEM :: int where "cam_ENOMEM = 12"

definition camera_check_vendor_module :: "('a camera_st_scheme, int) state" where
  "camera_check_vendor_module = do {
     m \<leftarrow> gets cam_module;
     if m \<noteq> 0 then ret 0
     else do {
       r \<leftarrow> call (E_hook ''hw_get_module_by_class'' []);
       modify (\<lambda>s. s\<lparr>cam_module := (if rv r = 0 then nat (num r 0) else 0)\<rparr>);
       ret (rv r)
     }
   }"

definition cam_dev :: "nat \<Rightarrow> ('a camera_st_scheme, camera_device) state" where
  "cam_dev device = do {
     x \<leftarrow> gets (\<lambda>s. cam_devs s device);
     (case x of None \<Rightarrow> do { must False; ret \<lparr>cam_id = 0, cam_vendor = 0, cam_ops = 0\<rparr> } | Some d \<Rightarrow> ret d)
   }"

text \<open>\<open>VENDOR_CALL\<close>, and the functions that do nothing else, with what they answer for \<open>NULL\<close>.\<close>

definition vendor_call :: "nat \<Rightarrow> string \<Rightarrow> int list \<Rightarrow> ('a camera_st_scheme, reply) state" where
  "vendor_call device f args = do {
     d \<leftarrow> cam_dev device;
     must (cam_vendor d \<noteq> 0);
     call (E_hook f (int (cam_vendor d) # args))
   }"

definition forward :: "int \<Rightarrow> nat \<Rightarrow> string \<Rightarrow> int list \<Rightarrow> ('a camera_st_scheme, int) state" where
  "forward err device f args =
     (if device = 0 then ret err else do { r \<leftarrow> vendor_call device f args; ret (rv r) })"

definition forward_void :: "nat \<Rightarrow> string \<Rightarrow> int list \<Rightarrow> ('a camera_st_scheme, unit) state" where
  "forward_void device f args = do { _ \<leftarrow> forward 0 device f args; ret () }"

definition camera_set_preview_window :: "nat \<Rightarrow> nat \<Rightarrow> ('a camera_st_scheme, int) state" where
  "camera_set_preview_window device window = forward (- EINVAL) device ''set_preview_window'' [int window]"

definition camera_set_callbacks :: "nat \<Rightarrow> nat \<Rightarrow> nat \<Rightarrow> nat \<Rightarrow> nat \<Rightarrow> nat \<Rightarrow> ('a camera_st_scheme, unit) state" where
  "camera_set_callbacks device notify_cb data_cb data_cb_timestamp get_memory user =
     forward_void device ''set_callbacks'' (map int [notify_cb, data_cb, data_cb_timestamp, get_memory, user])"

definition camera_enable_msg_type :: "nat \<Rightarrow> int \<Rightarrow> ('a camera_st_scheme, unit) state" where
  "camera_enable_msg_type device msg_type = forward_void device ''enable_msg_type'' [msg_type]"

definition camera_disable_msg_type :: "nat \<Rightarrow> int \<Rightarrow> ('a camera_st_scheme, unit) state" where
  "camera_disable_msg_type device msg_type = forward_void device ''disable_msg_type'' [msg_type]"

definition camera_msg_type_enabled :: "nat \<Rightarrow> int \<Rightarrow> ('a camera_st_scheme, int) state" where
  "camera_msg_type_enabled device msg_type = forward 0 device ''msg_type_enabled'' [msg_type]"

definition camera_start_preview :: "nat \<Rightarrow> ('a camera_st_scheme, int) state" where
  "camera_start_preview device = forward (- EINVAL) device ''start_preview'' []"

definition camera_stop_preview :: "nat \<Rightarrow> ('a camera_st_scheme, unit) state" where
  "camera_stop_preview device = forward_void device ''stop_preview'' []"

definition camera_preview_enabled :: "nat \<Rightarrow> ('a camera_st_scheme, int) state" where
  "camera_preview_enabled device = forward (- EINVAL) device ''preview_enabled'' []"

definition camera_store_meta_data_in_buffers :: "nat \<Rightarrow> int \<Rightarrow> ('a camera_st_scheme, int) state" where
  "camera_store_meta_data_in_buffers device enable = forward (- EINVAL) device ''store_meta_data_in_buffers'' [enable]"

definition camera_start_recording :: "nat \<Rightarrow> ('a camera_st_scheme, int) state" where
  "camera_start_recording device = forward EINVAL device ''start_recording'' []"

definition camera_stop_recording :: "nat \<Rightarrow> ('a camera_st_scheme, unit) state" where
  "camera_stop_recording device = forward_void device ''stop_recording'' []"

definition camera_recording_enabled :: "nat \<Rightarrow> ('a camera_st_scheme, int) state" where
  "camera_recording_enabled device = forward (- EINVAL) device ''recording_enabled'' []"

definition camera_release_recording_frame :: "nat \<Rightarrow> nat \<Rightarrow> ('a camera_st_scheme, unit) state" where
  "camera_release_recording_frame device frame = forward_void device ''release_recording_frame'' [int frame]"

definition camera_auto_focus :: "nat \<Rightarrow> ('a camera_st_scheme, int) state" where
  "camera_auto_focus device = forward (- EINVAL) device ''auto_focus'' []"

definition camera_cancel_auto_focus :: "nat \<Rightarrow> ('a camera_st_scheme, int) state" where
  "camera_cancel_auto_focus device = forward (- EINVAL) device ''cancel_auto_focus'' []"

definition camera_take_picture :: "nat \<Rightarrow> ('a camera_st_scheme, int) state" where
  "camera_take_picture device = forward (- EINVAL) device ''take_picture'' []"

definition camera_cancel_picture :: "nat \<Rightarrow> ('a camera_st_scheme, int) state" where
  "camera_cancel_picture device = forward (- EINVAL) device ''cancel_picture'' []"

definition text_ints :: "string \<Rightarrow> int list" where
  "text_ints s = map of_char s"

text \<open>The string that the vendor is given is not freed.\<close>

definition camera_set_parameters :: "'p params_ops \<Rightarrow> nat \<Rightarrow> string \<Rightarrow> ('a camera_st_scheme, int) state" where
  "camera_set_parameters ops device params =
     (if device = 0 then ret (- EINVAL)
      else do {
        tmp \<leftarrow> camera_fixup_setparams ops params;
        r \<leftarrow> vendor_call device ''set_parameters'' (case tmp of None \<Rightarrow> [0] | Some (a, s) \<Rightarrow> int a # text_ints s);
        ret (rv r)
      })"

definition camera_get_parameters :: "'p params_ops \<Rightarrow> nat \<Rightarrow> ('a camera_st_scheme, (nat \<times> string) option) state" where
  "camera_get_parameters ops device =
     (if device = 0 then ret None
      else do {
        r \<leftarrow> vendor_call device ''get_parameters'' [];
        must (rv r \<noteq> 0);
        tmp \<leftarrow> camera_fixup_getparams ops (cstr (rbuf r));
        _ \<leftarrow> vendor_call device ''put_parameters'' [rv r];
        ret tmp
      })"

definition camera_put_parameters :: "nat \<Rightarrow> nat \<Rightarrow> ('a camera_st_scheme, unit) state" where
  "camera_put_parameters device params = (if params \<noteq> 0 then emit (E_free params) else ret ())"

definition camera_send_command :: "nat \<Rightarrow> int \<Rightarrow> int \<Rightarrow> int \<Rightarrow> ('a camera_st_scheme, int) state" where
  "camera_send_command device cmd arg1 arg2 = forward (- EINVAL) device ''send_command'' [cmd, arg1, arg2]"

definition camera_release :: "nat \<Rightarrow> ('a camera_st_scheme, unit) state" where
  "camera_release device = forward_void device ''release'' []"

definition camera_dump :: "nat \<Rightarrow> int \<Rightarrow> ('a camera_st_scheme, int) state" where
  "camera_dump device fd = forward (- EINVAL) device ''dump'' [fd]"

section \<open>Opening and closing\<close>

definition camera_device_close :: "nat \<Rightarrow> ('a camera_st_scheme, int) state" where
  "camera_device_close device = do {
     emit (E_lock L_camera);
     r \<leftarrow> (if device = 0 then ret (- EINVAL)
       else do {
         d \<leftarrow> cam_dev device;
         must (cam_vendor d \<noteq> 0);
         emit (E_hook ''vendor_close'' [int (cam_vendor d)]);
         (if cam_ops d \<noteq> 0 then emit (E_free (cam_ops d)) else ret ());
         emit (E_free device);
         modify (\<lambda>s. s\<lparr>cam_devs := (cam_devs s)(device := None)\<rparr>);
         ret 0
       });
     emit (E_unlock L_camera);
     ret r
   }"

text \<open>The list of the sensor manager can be had.\<close>

definition can_talk_to_sensormanager :: "('a world_scheme, bool) state" where
  "can_talk_to_sensormanager = do { r \<leftarrow> call (E_hook ''getSensorList'' []); ret (0 \<le> rv r) }"

text \<open>The device that was allocated, from its identifier on; the result, and what \<open>*device\<close> is set to.\<close>

definition open_vendor :: "string \<Rightarrow> int \<Rightarrow> nat \<Rightarrow> ('a camera_st_scheme, int \<times> nat option) state" where
  "open_vendor name cameraid dev = do {
     m \<leftarrow> gets cam_module;
     r \<leftarrow> call (E_hook ''vendor_open'' (int m # text_ints name));
     if rv r \<noteq> 0 then do { emit (E_free dev); ret (rv r, Some 0) }
     else do {
       c \<leftarrow> call (E_malloc 92);
       if rv c = 0 then do { emit (E_free dev); ret (- cam_ENOMEM, Some 0) }
       else do {
         modify (\<lambda>s. s\<lparr>cam_devs := (cam_devs s)(dev \<mapsto> \<lparr>cam_id = cameraid, cam_vendor = nat (num r 0), cam_ops = nat (rv c)\<rparr>)\<rparr>);
         ret (0, Some dev)
       }
     }
   }"

definition camera_device_open :: "string option \<Rightarrow> ('a camera_st_scheme, int \<times> nat option) state" where
  "camera_device_open name = do {
     emit (E_lock L_camera);
     r \<leftarrow> (case name of
       None \<Rightarrow> ret (- EINVAL, None)
     | Some name \<Rightarrow> do {
         e \<leftarrow> camera_check_vendor_module;
         if e \<noteq> 0 then ret (- EINVAL, None)
         else do {
           b \<leftarrow> can_talk_to_sensormanager;
           if \<not> b then ret (NO_INIT, None)
           else do {
             let cameraid = swrap 32 (atoi name);
             m \<leftarrow> gets cam_module;
             must (m \<noteq> 0);
             num_cameras \<leftarrow> call (E_hook ''get_number_of_cameras'' [int m]);
             if cameraid > rv num_cameras then ret (- EINVAL, Some 0)
             else do {
               a \<leftarrow> call (E_malloc 80);
               if rv a = 0 then ret (- cam_ENOMEM, Some 0) else open_vendor name cameraid (nat (rv a))
             }
           }
         }
       });
     emit (E_unlock L_camera);
     ret r
   }"

definition camera_get_number_of_cameras :: "('a camera_st_scheme, int) state" where
  "camera_get_number_of_cameras = do {
     e \<leftarrow> camera_check_vendor_module;
     if e \<noteq> 0 then ret 0
     else do {
       m \<leftarrow> gets cam_module;
       must (m \<noteq> 0);
       r \<leftarrow> call (E_hook ''get_number_of_cameras'' [int m]);
       ret (rv r)
     }
   }"

definition camera_get_camera_info :: "int \<Rightarrow> nat \<Rightarrow> ('a camera_st_scheme, int) state" where
  "camera_get_camera_info camera_id info = do {
     e \<leftarrow> camera_check_vendor_module;
     if e \<noteq> 0 then ret 0
     else do {
       m \<leftarrow> gets cam_module;
       must (m \<noteq> 0);
       r \<leftarrow> call (E_hook ''get_camera_info'' [int m, camera_id, int info]);
       ret (rv r)
     }
   }"

end
