(* ===== verification/Props_Camera.thy ===== *)
theory Props_Camera
  imports Camera
begin

text \<open>What the wrapper of the camera keeps of the parameters, and a concrete \<open>CameraParameters\<close>.\<close>

section \<open>What the wrapper relies on\<close>

text \<open>Names and values without the two characters that separate them.\<close>

definition plain :: "string \<Rightarrow> bool" where
  "plain s \<longleftrightarrow> list_all (\<lambda>c. c \<noteq> CHR '';'' \<and> c \<noteq> CHR ''='') s"

text \<open>
  Android's \<open>CameraParameters\<close>: \<open>set\<close> sets the value of a key, unless one of the two has a separator, when it does nothing; \<open>get\<close> gets
  the value unless it is empty; \<open>unflatten\<close> makes parameters of the string that \<open>flatten\<close> made.
\<close>

definition params_ok :: "'p params_ops \<Rightarrow> bool" where
  "params_ok ops \<longleftrightarrow>
     (\<forall>p k v k'. get_param ops (set_param ops p k v) k' =
        (if k' = k \<and> plain k \<and> plain v then if v = [] then None else Some v else get_param ops p k')) \<and>
     (\<forall>p k. get_param ops p k \<noteq> Some []) \<and>
     (\<forall>p. get_param ops (unflatten ops (flatten ops p)) = get_param ops p)"

text \<open>The value of a key in a string of parameters.\<close>

definition view :: "'p params_ops \<Rightarrow> string \<Rightarrow> string \<Rightarrow> string option" where
  "view ops s = get_param ops (unflatten ops s)"

lemma get_set: "params_ok ops \<Longrightarrow> plain k \<Longrightarrow> plain v \<Longrightarrow>
    get_param ops (set_param ops p k v) k' = (if k' = k then if v = [] then None else Some v else get_param ops p k')"
  by (simp add: params_ok_def)

lemma get_set_other: "params_ok ops \<Longrightarrow> k' \<noteq> k \<Longrightarrow> get_param ops (set_param ops p k v) k' = get_param ops p k'"
  by (simp add: params_ok_def)

lemma view_flatten: "params_ok ops \<Longrightarrow> view ops (flatten ops p) k = get_param ops p k"
  by (simp add: params_ok_def view_def)

lemma view_unflatten: "get_param ops (unflatten ops s) k = view ops s k"
  by (simp add: view_def)

lemma plain_append [simp]: "plain (s @ t) \<longleftrightarrow> plain s \<and> plain t"
  by (simp add: plain_def)

lemma plain_simps [simp]: "plain []" "plain (c # s) \<longleftrightarrow> c \<noteq> CHR '';'' \<and> c \<noteq> CHR ''='' \<and> plain s"
  by (simp_all add: plain_def)

lemma plain_drop: "plain s \<Longrightarrow> plain (drop n s)"
  by (auto simp: plain_def list_all_iff dest: in_set_dropD)

lemmas camera_keys = KEY_SUPPORTED_ISO_MODES_def KEY_ISO_MODE_def KEY_SONY_IMAGE_STABILISER_VALUES_def
  KEY_SONY_IMAGE_STABILISER_def KEY_SONY_VIDEO_STABILISER_def KEY_SONY_VIDEO_STABILISER_VALUES_def KEY_SONY_VIDEO_HDR_def
  KEY_SONY_VIDEO_HDR_VALUES_def KEY_SONY_ISO_AVAIL_MODES_def KEY_SONY_ISO_MODE_def KEY_SONY_AE_MODE_VALUES_def
  KEY_SONY_AE_MODE_def VALUE_SONY_ON_def VALUE_SONY_OFF_def VALUE_SONY_STILL_HDR_def VALUE_SONY_INTELLIGENT_ACTIVE_def
  KEY_SUPPORTED_SCENE_MODES_def KEY_SCENE_MODE_def KEY_RECORDING_HINT_def

section \<open>The list of ISO modes\<close>

text \<open>The elements of a list with a separator between.\<close>

fun split_on :: "char \<Rightarrow> string \<Rightarrow> string list" where
  "split_on x [] = [[]]"
| "split_on x (c # s) = (if c = x then [] # split_on x s
     else case split_on x s of [] \<Rightarrow> [[c]] | w # ws \<Rightarrow> (c # w) # ws)"

fun join_with :: "string \<Rightarrow> string list \<Rightarrow> string" where
  "join_with x [] = []"
| "join_with x [w] = w"
| "join_with x (w # ws) = w @ x @ join_with x ws"

lemma split_on_cons: obtains w ws where "split_on x s = w # ws"
  by (cases "split_on x s"; cases s) (auto split: if_splits list.splits)

lemma split_on_ne: "split_on x s \<noteq> []"
  by (metis list.distinct(1) split_on_cons)

lemma iso_loop_eq: "iso_loop s (b @ ''ISO'') = b @ join_with '','' (map ((@) ''ISO'') (split_on (CHR '','') s))"
proof -
  have gen: "iso_loop s b = b @ (case split_on (CHR '','') s of [] \<Rightarrow> [] | w # ws \<Rightarrow>
      w @ (if ws = [] then [] else '','' @ join_with '','' (map ((@) ''ISO'') ws)))" for s b
  proof (induction s arbitrary: b)
    case (Cons c s)
    obtain w ws where "split_on (CHR '','') s = w # ws" by (rule split_on_cons)
    with Cons show ?case by (cases ws) auto
  qed simp
  obtain w ws where "split_on (CHR '','') s = w # ws" by (rule split_on_cons)
  then show ?thesis by (cases ws) (simp_all add: gen)
qed

lemma join_last: "ws \<noteq> [] \<Longrightarrow> join_with x (ws @ [w]) = join_with x ws @ x @ w"
  by (induction x ws rule: join_with.induct) auto

section \<open>A concrete CameraParameters\<close>

definition text_entry :: "string \<times> string \<Rightarrow> string" where
  "text_entry e = fst e @ ''='' @ snd e"

definition text_of :: "(string \<times> string) list \<Rightarrow> string" where
  "text_of es = join_with '';'' (map text_entry es)"

definition entry_of :: "string \<Rightarrow> string \<times> string" where
  "entry_of w = (takeWhile (\<lambda>c. c \<noteq> CHR ''='') w, drop 1 (dropWhile (\<lambda>c. c \<noteq> CHR ''='') w))"

definition entries :: "string \<Rightarrow> (string \<times> string) list" where
  "entries s = filter (\<lambda>e. snd e \<noteq> []) (map entry_of (split_on (CHR '';'') s))"

fun put_entry :: "string \<Rightarrow> string \<Rightarrow> (string \<times> string) list \<Rightarrow> (string \<times> string) list" where
  "put_entry k v [] = [(k, v)]"
| "put_entry k v (e # es) = (if fst e = k then (k, v) # es else e # put_entry k v es)"

text \<open>Parameters are their text.\<close>

definition text_params :: "string params_ops" where
  "text_params = \<lparr>unflatten = id, flatten = id, get_param = (\<lambda>p k. map_of (entries p) k),
     set_param = (\<lambda>p k v. if plain k \<and> plain v
       then text_of (if v = [] then filter (\<lambda>e. fst e \<noteq> k) (entries p) else put_entry k v (entries p)) else p)\<rparr>"

lemma split_on_without: "x \<notin> set w \<Longrightarrow> split_on x w = [w]" "x \<notin> set w \<Longrightarrow> split_on x (w @ x # s) = w # split_on x s"
  by (induction w) auto

lemma split_on_elem: "w \<in> set (split_on x s) \<Longrightarrow> x \<notin> set w"
proof (induction s arbitrary: w)
  case (Cons c s)
  obtain v vs where "split_on x s = v # vs" by (rule split_on_cons)
  with Cons show ?case by (auto split: if_splits)
qed simp

lemma split_join: "ws \<noteq> [] \<Longrightarrow> \<forall>w \<in> set ws. x \<notin> set w \<Longrightarrow> split_on x (join_with [x] ws) = ws"
  by (induction "[x]" ws rule: join_with.induct) (auto simp: split_on_without)

definition entries_ok :: "(string \<times> string) list \<Rightarrow> bool" where
  "entries_ok es \<longleftrightarrow> (\<forall>(k, v) \<in> set es. plain k \<and> CHR '';'' \<notin> set v \<and> v \<noteq> [])"

lemma entry_text: "plain k \<Longrightarrow> CHR '';'' \<notin> set v \<Longrightarrow> entry_of (text_entry (k, v)) = (k, v) \<and> CHR '';'' \<notin> set (text_entry (k, v))"
  by (auto simp: entry_of_def text_entry_def plain_def list_all_iff takeWhile_append2 dropWhile_append2)

lemma entries_text:
  assumes "entries_ok es"
  shows "entries (text_of es) = es"
proof (cases "es = []")
  case False
  have e: "entry_of (text_entry e) = e \<and> CHR '';'' \<notin> set (text_entry e) \<and> snd e \<noteq> []" if "e \<in> set es" for e
    using that assms entry_text [of "fst e" "snd e"] by (auto simp: entries_ok_def)
  then have "split_on (CHR '';'') (text_of es) = map text_entry es"
    using False unfolding text_of_def by (intro split_join) auto
  moreover have "map entry_of (map text_entry es) = es" using e by (simp add: map_idI)
  ultimately show ?thesis using e by (simp add: entries_def filter_id_conv del: map_map)
qed (simp add: entries_def entry_of_def text_of_def)

lemma entries_are_ok: "entries_ok (entries s)"
proof -
  have "plain (fst (entry_of w)) \<and> CHR '';'' \<notin> set (snd (entry_of w))" if "w \<in> set (split_on (CHR '';'') s)" for w
    using split_on_elem [OF that] by (auto simp: entry_of_def plain_def list_all_iff dest: set_takeWhileD set_dropWhileD in_set_dropD)
  moreover have "\<exists>w \<in> set (split_on (CHR '';'') s). e = entry_of w \<and> snd e \<noteq> []" if "e \<in> set (entries s)" for e
    using that by (auto simp: entries_def)
  ultimately show ?thesis unfolding entries_ok_def split_beta by metis
qed

lemma put_entry_ok: "entries_ok es \<Longrightarrow> plain k \<Longrightarrow> plain v \<Longrightarrow> v \<noteq> [] \<Longrightarrow> entries_ok (put_entry k v es)"
  by (induction es) (auto simp: entries_ok_def plain_def list_all_iff)

lemma map_of_put: "map_of (put_entry k v es) k' = (if k' = k then Some v else map_of es k')"
  by (induction es) auto

lemma map_of_drop: "map_of (filter (\<lambda>e. fst e \<noteq> k) es) k' = (if k' = k then None else map_of es k')"
  by (induction es) auto

lemma text_set: "get_param text_params (set_param text_params p k v) k' =
    (if k' = k \<and> plain k \<and> plain v then if v = [] then None else Some v else get_param text_params p k')"
proof (cases "plain k \<and> plain v")
  case False
  then show ?thesis by (auto simp: text_params_def)
next
  case plain: True
  show ?thesis
  proof (cases "v = []")
    case True
    have "entries_ok (filter (\<lambda>e. fst e \<noteq> k) (entries p))" using entries_are_ok [of p] by (auto simp: entries_ok_def)
    from entries_text [OF this] True plain show ?thesis by (simp add: text_params_def map_of_drop)
  next
    case False
    with entries_text [OF put_entry_ok [OF entries_are_ok], of k v p] plain show ?thesis by (simp add: text_params_def map_of_put)
  qed
qed

lemma text_params_ok: "params_ok text_params"
proof -
  have "map_of (entries p) k \<noteq> Some []" for p k
    using map_of_SomeD [of "entries p" k "[]"] entries_are_ok [of p] by (auto simp: entries_ok_def)
  then show ?thesis unfolding params_ok_def using text_set by (auto simp: text_params_def)
qed

section \<open>What each step changes\<close>

definition changes :: "'p params_ops \<Rightarrow> string set \<Rightarrow> 'p \<Rightarrow> 'p \<Rightarrow> bool" where
  "changes ops K p q \<longleftrightarrow> (\<forall>k. k \<notin> K \<longrightarrow> get_param ops q k = get_param ops p k)"

lemma changes_refl [simp]: "changes ops K p p"
  by (simp add: changes_def)

lemma changes_set: "params_ok ops \<Longrightarrow> k \<in> K \<Longrightarrow> changes ops K p q \<Longrightarrow> changes ops K p (set_param ops q k v)"
  unfolding changes_def by (metis get_set_other)

lemma hoare_need:
  assumes "\<And>v. get_param ops p k = Some v \<or> get_param ops p k = None \<and> v = [] \<Longrightarrow> hoare (\<lambda>_. True) (f v) Q"
  shows "hoare (\<lambda>_. True) (do { v \<leftarrow> need (get_param ops p k); f v }) Q"
proof (rule hoareI)
  fix s a s' assume *: "run_state (do { v \<leftarrow> need (get_param ops p k); f v }) s = (a, s')"
  obtain v t where v: "run_state (need (get_param ops p k)) s = (v, t)" by (metis surj_pair)
  then have "get_param ops p k = Some v \<or> get_param ops p k = None \<and> v = []" by (auto simp: need_def split: option.splits)
  then show "Q a s'" using assms * v by (auto dest: hoareD)
qed

lemma hoare_get:
  assumes "get_param ops p k = None \<Longrightarrow> hoare (\<lambda>_. True) m Q" "\<And>v. get_param ops p k = Some v \<Longrightarrow> hoare (\<lambda>_. True) (f v) Q"
  shows "hoare (\<lambda>_. True) (case get_param ops p k of None \<Rightarrow> m | Some v \<Rightarrow> f v) Q"
  using assms by (auto split: option.splits)

lemma hoare_unit: "hoare (\<lambda>_. True) (f ()) Q \<Longrightarrow> hoare (\<lambda>_. True) (do { m; f () }) Q"
  by (rule hoare_bind_any) simp

lemma hoare_any_call: "(\<And>r. hoare (\<lambda>_. True) (f r) Q) \<Longrightarrow> hoare (\<lambda>_. True) (do { r \<leftarrow> call e; f r }) Q"
  by (rule hoare_bind_any)

lemma hoare_result:
  "hoare (\<lambda>_. True) m (\<lambda>x _. R x) \<Longrightarrow> (\<And>x. R x \<Longrightarrow> hoare (\<lambda>_. True) (f x) Q) \<Longrightarrow> hoare (\<lambda>_. True) (State_Monad.bind m f) Q"
  by (fastforce simp: hoare_def split: prod.splits)

lemmas step_rules = hoare_get hoare_need hoare_unit hoare_any_call hoare_ret hoare_if

lemma plain_keys [simp]: "plain KEY_SUPPORTED_ISO_MODES" "plain KEY_ISO_MODE" "plain KEY_SONY_IMAGE_STABILISER"
  "plain KEY_SONY_VIDEO_STABILISER" "plain KEY_SONY_VIDEO_HDR" "plain KEY_SONY_ISO_MODE" "plain KEY_SONY_AE_MODE"
  "plain KEY_SUPPORTED_SCENE_MODES" "plain KEY_SCENE_MODE"
  "plain VALUE_SONY_ON" "plain VALUE_SONY_OFF" "plain VALUE_SONY_STILL_HDR" "plain VALUE_SONY_INTELLIGENT_ACTIVE"
  by (simp_all add: camera_keys)

lemma plain_join: "plain x \<Longrightarrow> \<forall>w \<in> set ws. plain w \<Longrightarrow> plain (join_with x ws)"
  by (induction x ws rule: join_with.induct) auto

lemma plain_split: "plain s \<Longrightarrow> w \<in> set (split_on x s) \<Longrightarrow> plain w"
proof (induction s arbitrary: w)
  case (Cons c s)
  obtain v vs where "split_on x s = v # vs" by (rule split_on_cons)
  with Cons show ?case by (auto split: if_splits)
qed simp

lemma iso_list_plain: "plain l \<Longrightarrow> plain (iso_loop l ''ISO'')"
  using iso_loop_eq [of l "[]"] plain_split [of l] by (auto intro!: plain_join)

lemma capability_changes:
  "params_ok ops \<Longrightarrow> hoare (\<lambda>_. True) (camera_fixup_capability ops p) (\<lambda>q _. changes ops {KEY_SUPPORTED_SCENE_MODES} p q)"
  unfolding camera_fixup_capability_def by (intro step_rules) (auto intro!: changes_set)

lemma video_hdr_changes:
  "params_ok ops \<Longrightarrow> hoare (\<lambda>_. True) (get_video_hdr ops p) (\<lambda>q _. changes ops {''video-hdr-values'', ''video-hdr''} p q)"
  unfolding get_video_hdr_def Let_def by (intro step_rules) (auto intro!: changes_set)

lemma iso_name_changes:
  "params_ok ops \<Longrightarrow> changes ops K p q \<Longrightarrow> KEY_ISO_MODE \<in> K \<Longrightarrow> hoare (\<lambda>_. True) (set_iso_name ops q) (\<lambda>r _. changes ops K p r)"
  unfolding set_iso_name_def by (intro step_rules) (auto intro!: changes_set)

lemma copy_shutter_changes: "params_ok ops \<Longrightarrow> changes ops K p q \<Longrightarrow> ''shutter-speed'' \<in> K \<Longrightarrow> changes ops K p (copy_shutter ops q)"
  by (auto simp: copy_shutter_def split: option.splits intro!: changes_set)

lemma get_iso_changes:
  assumes ok: "params_ok ops"
  shows "hoare (\<lambda>_. True) (get_iso_mode ops p) (\<lambda>q _. changes ops {KEY_ISO_MODE, ''shutter-speed''} p q)"
  unfolding get_iso_mode_def
  by (intro step_rules hoare_result [OF iso_name_changes [OF ok, of "{KEY_ISO_MODE, ''shutter-speed''}" p]] iso_name_changes [OF ok])
    (auto intro!: changes_set copy_shutter_changes ok)

lemma set_shutter_changes:
  "params_ok ops \<Longrightarrow> hoare (\<lambda>_. True) (set_shutter ops p) (\<lambda>q _. changes ops {''sony-shutter-speed'', KEY_SONY_AE_MODE} p q)"
  unfolding set_shutter_def by (intro step_rules) (auto intro!: changes_set)

lemma set_iso_changes:
  assumes ok: "params_ok ops"
  shows "hoare (\<lambda>_. True) (set_iso ops p) (\<lambda>q _. changes ops {KEY_SONY_ISO_MODE, KEY_SONY_AE_MODE} p q)"
proof -
  let ?K = "{KEY_SONY_ISO_MODE, KEY_SONY_AE_MODE}"
  have 1: "hoare (\<lambda>_. True) (if iso \<noteq> ''auto'' then do { must (3 \<le> length iso); ret (set_param ops p KEY_SONY_ISO_MODE (drop 3 iso)) } else ret p)
      (\<lambda>q _. changes ops ?K p q)" for iso
    by (intro step_rules) (auto intro!: changes_set ok)
  show ?thesis
    unfolding set_iso_def by (intro step_rules hoare_result [OF 1]) (auto intro!: changes_set ok)
qed

section \<open>Setting and getting\<close>

definition recording :: "'p params_ops \<Rightarrow> 'p \<Rightarrow> bool" where
  "recording ops p \<longleftrightarrow> get_param ops p KEY_RECORDING_HINT = Some ''true''"

definition scene_sent :: "'p params_ops \<Rightarrow> 'p \<Rightarrow> 'p \<Rightarrow> bool" where
  "scene_sent ops p q \<longleftrightarrow> (\<forall>m. get_param ops p KEY_SCENE_MODE = Some m \<longrightarrow>
     get_param ops q KEY_SCENE_MODE = Some (if m = ''hdr'' then ''auto'' else m) \<and>
     get_param ops q KEY_SONY_IMAGE_STABILISER =
       Some (if recording ops p then VALUE_SONY_OFF else if m = ''hdr'' then VALUE_SONY_STILL_HDR else VALUE_SONY_ON))"

lemma stabiliser_names: "KEY_SONY_IMAGE_STABILISER \<noteq> KEY_SCENE_MODE" "KEY_SCENE_MODE \<noteq> KEY_SONY_IMAGE_STABILISER"
  "KEY_SONY_VIDEO_STABILISER \<noteq> KEY_SCENE_MODE" "KEY_SCENE_MODE \<noteq> KEY_SONY_VIDEO_STABILISER"
  "VALUE_SONY_ON \<noteq> VALUE_SONY_STILL_HDR" "VALUE_SONY_OFF \<noteq> VALUE_SONY_STILL_HDR" "VALUE_SONY_ON \<noteq> []" "VALUE_SONY_OFF \<noteq> []"
  "VALUE_SONY_STILL_HDR \<noteq> []"
  by (simp_all add: camera_keys)

lemma set_scene_gets:
  "params_ok ops \<Longrightarrow> get_param ops p KEY_SCENE_MODE = Some m \<Longrightarrow>
    get_param ops (set_scene ops p) KEY_SCENE_MODE = Some (if m = ''hdr'' then ''auto'' else m) \<and>
    get_param ops (set_scene ops p) KEY_SONY_IMAGE_STABILISER = Some (if m = ''hdr'' then VALUE_SONY_STILL_HDR else VALUE_SONY_ON)"
  by (simp add: set_scene_def get_set stabiliser_names)

lemma set_recording_gets:
  assumes "params_ok ops"
  shows "get_param ops (set_recording ops p) KEY_SCENE_MODE = get_param ops p KEY_SCENE_MODE"
    "get_param ops (set_recording ops p) KEY_SONY_IMAGE_STABILISER =
      (if recording ops p then Some VALUE_SONY_OFF else get_param ops p KEY_SONY_IMAGE_STABILISER)"
  using assms by (simp_all add: set_recording_def recording_def get_set get_set_other stabiliser_names)

lemma set_scene_changes: "params_ok ops \<Longrightarrow> changes ops {KEY_SONY_IMAGE_STABILISER, KEY_SCENE_MODE} p (set_scene ops p)"
  by (auto simp: set_scene_def split: option.splits intro!: changes_set)

lemma set_video_hdr_changes: "params_ok ops \<Longrightarrow> changes ops {KEY_SONY_VIDEO_HDR} p (set_video_hdr ops p)"
  by (auto simp: set_video_hdr_def split: option.splits intro!: changes_set)

lemma changes_trans: "changes ops K p q \<Longrightarrow> changes ops K' q r \<Longrightarrow> changes ops (K \<union> K') p r"
  by (simp add: changes_def)

lemma changes_get: "changes ops K p q \<Longrightarrow> k \<notin> K \<Longrightarrow> get_param ops q k = get_param ops p k"
  by (simp add: changes_def)

text \<open>What a function leaves is the text of parameters with a property.\<close>

definition leaves :: "'p params_ops \<Rightarrow> ('p \<Rightarrow> bool) \<Rightarrow> ('a world_scheme, (nat \<times> string) option) state \<Rightarrow> bool" where
  "leaves ops R m \<longleftrightarrow> hoare (\<lambda>_. True) m (\<lambda>r _. \<forall>a s. r = Some (a, s) \<longrightarrow> (\<exists>q. s = flatten ops q \<and> R q))"

lemma leaves_strdup: "R q \<Longrightarrow> leaves ops R (strdup (flatten ops q))"
  unfolding leaves_def strdup_def by (intro hoare_any_call hoare_ret) auto

lemma leaves_view:
  "leaves ops R m \<Longrightarrow> params_ok ops \<Longrightarrow> run_state m s = (Some (a, t), s') \<Longrightarrow> \<exists>q. R q \<and> (\<forall>k. view ops t k = get_param ops q k)"
  unfolding leaves_def by (drule hoareD) (simp, blast, metis view_flatten)

lemma setparams_leaves:
  assumes ok: "params_ok ops"
  shows "leaves ops (scene_sent ops (unflatten ops app)) (camera_fixup_setparams ops app)"
proof -
  let ?p = "unflatten ops app" and ?K = "{''sony-shutter-speed'', KEY_SONY_AE_MODE} \<union> {KEY_SONY_ISO_MODE, KEY_SONY_AE_MODE}"
  have ne: "KEY_SCENE_MODE \<notin> ?K" "KEY_RECORDING_HINT \<notin> ?K \<union> {KEY_SONY_IMAGE_STABILISER, KEY_SCENE_MODE} \<union> {KEY_SONY_VIDEO_HDR}"
    "KEY_SCENE_MODE \<notin> {KEY_SONY_VIDEO_HDR}" "KEY_SONY_IMAGE_STABILISER \<notin> {KEY_SONY_VIDEO_HDR}"
    by (simp_all add: camera_keys)
  have sent: "scene_sent ops ?p (set_recording ops (set_video_hdr ops (set_scene ops q)))" if c: "changes ops ?K ?p q" for q
  proof -
    let ?s = "set_scene ops q" and ?r = "set_video_hdr ops (set_scene ops q)"
    note hdr = set_video_hdr_changes [OF ok, of ?s]
    have "recording ops ?r = recording ops ?p"
      using changes_get [OF changes_trans [OF changes_trans [OF c set_scene_changes [OF ok]] hdr] ne(2)] by (simp add: recording_def)
    then show ?thesis
      using set_scene_gets [OF ok, of q] changes_get [OF c ne(1)] changes_get [OF hdr ne(3)] changes_get [OF hdr ne(4)]
      by (auto simp: scene_sent_def set_recording_gets [OF ok])
  qed
  have 1: "leaves ops (scene_sent ops ?p) (strdup (flatten ops (set_recording ops (set_video_hdr ops (set_scene ops r)))))"
    if "changes ops {''sony-shutter-speed'', KEY_SONY_AE_MODE} ?p q" "changes ops {KEY_SONY_ISO_MODE, KEY_SONY_AE_MODE} q r" for q r
    by (rule leaves_strdup, rule sent, rule changes_trans [OF that])
  show ?thesis
    unfolding leaves_def camera_fixup_setparams_def
    by (rule hoare_result [OF set_shutter_changes [OF ok]], rule hoare_result [OF set_iso_changes [OF ok]], rule 1 [unfolded leaves_def])
qed

definition got :: "'p params_ops \<Rightarrow> 'p \<Rightarrow> 'p \<Rightarrow> bool" where
  "got ops p q \<longleftrightarrow>
     (\<forall>m. get_param ops p KEY_SCENE_MODE = Some m \<longrightarrow> get_param ops q KEY_SCENE_MODE =
        Some (if get_param ops p KEY_SONY_IMAGE_STABILISER = Some VALUE_SONY_STILL_HDR then ''hdr'' else m)) \<and>
     (\<forall>l. get_param ops p KEY_SONY_ISO_AVAIL_MODES = Some l \<and> plain l \<longrightarrow>
        get_param ops q KEY_SUPPORTED_ISO_MODES = Some (iso_loop l ''ISO'' @ '',auto''))"

definition iso_listed :: "'p params_ops \<Rightarrow> 'p \<Rightarrow> 'p \<Rightarrow> bool" where
  "iso_listed ops p q \<longleftrightarrow> changes ops {KEY_SUPPORTED_ISO_MODES} p q \<and>
     (\<forall>l. get_param ops p KEY_SONY_ISO_AVAIL_MODES = Some l \<and> plain l \<longrightarrow>
        get_param ops q KEY_SUPPORTED_ISO_MODES = Some (iso_loop l ''ISO'' @ '',auto''))"

lemma iso_values_listed: "params_ok ops \<Longrightarrow> hoare (\<lambda>_. True) (fix_iso_values ops p) (\<lambda>q _. iso_listed ops p q)"
  unfolding fix_iso_values_def Let_def by (intro step_rules) (auto simp: iso_listed_def get_set iso_list_plain intro!: changes_set)

lemma get_scene_mode_got: "params_ok ops \<Longrightarrow> get_param ops (get_scene_mode ops p) k =
    (if k = KEY_SCENE_MODE \<and> get_param ops p KEY_SONY_IMAGE_STABILISER = Some VALUE_SONY_STILL_HDR then Some ''hdr'' else get_param ops p k)"
  by (simp add: get_scene_mode_def get_set)

lemma getparams_leaves:
  assumes ok: "params_ok ops"
  shows "leaves ops (got ops (unflatten ops settings)) (camera_fixup_getparams ops settings)"
proof -
  let ?p = "unflatten ops settings" and ?K = "{''video-hdr-values'', ''video-hdr''} \<union> {KEY_ISO_MODE, ''shutter-speed''}"
  have ne: "KEY_SCENE_MODE \<notin> {KEY_SUPPORTED_SCENE_MODES}" "KEY_SONY_IMAGE_STABILISER \<notin> {KEY_SUPPORTED_SCENE_MODES}"
    "KEY_SONY_ISO_AVAIL_MODES \<notin> {KEY_SUPPORTED_SCENE_MODES}" "KEY_SCENE_MODE \<notin> {KEY_SUPPORTED_ISO_MODES}"
    "KEY_SONY_IMAGE_STABILISER \<notin> {KEY_SUPPORTED_ISO_MODES}" "KEY_SCENE_MODE \<notin> ?K" "KEY_SUPPORTED_ISO_MODES \<notin> ?K"
    "KEY_SUPPORTED_ISO_MODES \<noteq> KEY_SCENE_MODE"
    by (simp_all add: camera_keys)
  have 1: "leaves ops (got ops ?p) (strdup (flatten ops r))" if "changes ops {KEY_SUPPORTED_SCENE_MODES} ?p q" "iso_listed ops q q'"
    "changes ops {''video-hdr-values'', ''video-hdr''} (get_scene_mode ops q') u" "changes ops {KEY_ISO_MODE, ''shutter-speed''} u r" for q q' u r
  proof (rule leaves_strdup)
    note late = changes_trans [OF that(3,4)]
    have l: "changes ops {KEY_SUPPORTED_ISO_MODES} q q'" using that(2) by (simp add: iso_listed_def)
    show "got ops ?p r"
      using that(2) ne(8) changes_get [OF that(1) ne(1)] changes_get [OF that(1) ne(2)] changes_get [OF that(1) ne(3)] changes_get [OF l ne(4)]
        changes_get [OF l ne(5)] changes_get [OF late ne(6)] changes_get [OF late ne(7)]
      by (simp add: got_def iso_listed_def get_scene_mode_got [OF ok])
  qed
  show ?thesis
    unfolding leaves_def camera_fixup_getparams_def Let_def
    by (rule hoare_result [OF capability_changes [OF ok]], rule hoare_result [OF iso_values_listed [OF ok]],
      rule hoare_result [OF video_hdr_changes [OF ok]], rule hoare_result [OF get_iso_changes [OF ok]],
      rule 1 [unfolded leaves_def])
qed

section \<open>Overflows\<close>

lemma keeps_ub_basic [keeps_rules]: "keeps ub (need x)" "keeps ub (fits n t)" "keeps ub (strdup t)"
  unfolding need_def fits_def strdup_def by (auto intro!: keeps_rules split: option.split)

lemma keeps_ub_hdr [keeps_rules]: "keeps ub (get_video_hdr ops p)"
  unfolding get_video_hdr_def Let_def by (intro keeps_rules)

lemma keeps_ub_name [keeps_rules]: "keeps ub (set_iso_name ops p)"
  unfolding set_iso_name_def by (intro keeps_rules) simp_all

lemma keeps_ub_iso [keeps_rules]: "keeps ub (get_iso_mode ops p)"
  unfolding get_iso_mode_def by (intro keeps_rules)

lemma list_too_long:
  assumes ok: "params_ok ops" and l: "view ops settings KEY_SONY_ISO_AVAIL_MODES = Some l" "254 < length (iso_loop l ''ISO'' @ '',auto'')"
  shows "hoare (\<lambda>_. True) (camera_fixup_getparams ops settings) (\<lambda>_ s. ub s)"
  unfolding camera_fixup_getparams_def
proof (rule hoare_result [OF capability_changes [OF ok]])
  fix q assume c: "changes ops {KEY_SUPPORTED_SCENE_MODES} (unflatten ops settings) q"
  have "get_param ops q KEY_SONY_ISO_AVAIL_MODES = Some l"
    using changes_get [OF c, of KEY_SONY_ISO_AVAIL_MODES] l(1) by (simp add: view_def camera_keys)
  then have 1: "hoare (\<lambda>_. True) (fix_iso_values ops q) (\<lambda>_ s. ub s)"
    using l(2) by (intro hoareI) (auto simp: fix_iso_values_def fits_def Let_def)
  have 2: "hoare ub (do { p \<leftarrow> get_video_hdr ops (get_scene_mode ops p); p \<leftarrow> get_iso_mode ops p; strdup (flatten ops p) }) (\<lambda>_ s. ub s)" for p
    unfolding keeps_hoare [symmetric] by (intro keeps_rules)
  show "hoare (\<lambda>_. True) (do { p \<leftarrow> fix_iso_values ops q; let p = get_scene_mode ops p; p \<leftarrow> get_video_hdr ops p;
      p \<leftarrow> get_iso_mode ops p; strdup (flatten ops p) }) (\<lambda>_ s. ub s)"
    unfolding Let_def by (rule hoare_bind [OF 1 2])
qed

section \<open>Properties\<close>

text \<open>C20: the scene mode that an application set is the one it gets back from parameters that the vendor kept as they were: the mode of
  HDR, which the vendor does not know, travels as its image stabiliser. If recording is hinted at, the stabiliser is turned off,
  and the mode of HDR comes back as the automatic one.\<close>

theorem scene_mode_kept:
  assumes "params_ok ops" "view ops app KEY_SCENE_MODE = Some m" "hint = (view ops app KEY_RECORDING_HINT = Some ''true'')"
    and "run_state (camera_fixup_setparams ops app) s = (Some (a, sent), s')"
    and "run_state (camera_fixup_getparams ops sent) t = (Some (b, back), t')"
  shows "view ops sent KEY_SCENE_MODE = Some (if m = ''hdr'' then ''auto'' else m) \<and>
    view ops sent KEY_SONY_IMAGE_STABILISER = Some (if hint then VALUE_SONY_OFF else if m = ''hdr'' then VALUE_SONY_STILL_HDR else VALUE_SONY_ON) \<and>
    view ops back KEY_SCENE_MODE = Some (if m = ''hdr'' \<and> hint then ''auto'' else m)"
proof -
  from leaves_view [OF setparams_leaves [OF assms(1)] assms(1,4)] assms(2,3)
  have sent: "view ops sent KEY_SCENE_MODE = Some (if m = ''hdr'' then ''auto'' else m)"
    "view ops sent KEY_SONY_IMAGE_STABILISER = Some (if hint then VALUE_SONY_OFF else if m = ''hdr'' then VALUE_SONY_STILL_HDR else VALUE_SONY_ON)"
    unfolding scene_sent_def recording_def view_unflatten by auto
  from leaves_view [OF getparams_leaves [OF assms(1)] assms(1,5)] sent stabiliser_names(5,6)
  have "view ops back KEY_SCENE_MODE = Some (if m = ''hdr'' \<and> hint then ''auto'' else m)"
    unfolding got_def view_unflatten by (auto split: if_splits)
  with sent show ?thesis by blast
qed

text \<open>A world where each block that is allocated is at 4096.\<close>

definition cam_boot :: world where
  "cam_boot = \<lparr>env = (\<lambda>_ _. \<lparr>rv = 4096, rerr = 0, rbuf = [], rnum = [], rflt = []\<rparr>), tr = [], ub = False, fl = id\<rparr>"

definition hdr_sent :: string where
  "hdr_sent = ''scene-mode=auto;sony-is=on-still-hdr''"

lemma hdr_is_sent: "fst (run_state (camera_fixup_setparams text_params ''scene-mode=hdr'') cam_boot) = Some (4096, hdr_sent)"
  by code_simp

lemma hdr_is_got: "fst (run_state (camera_fixup_getparams text_params hdr_sent) cam_boot) = Some (4096, ''scene-mode=hdr;sony-is=on-still-hdr'')"
  by code_simp

lemma hdr_views: "view text_params ''scene-mode=hdr'' KEY_SCENE_MODE = Some ''hdr''" "view text_params ''scene-mode=hdr'' KEY_RECORDING_HINT = None"
  by code_simp+

theorem scene_mode_kept_witness:
  "view text_params hdr_sent KEY_SONY_IMAGE_STABILISER = Some VALUE_SONY_STILL_HDR \<and>
   view text_params ''scene-mode=hdr;sony-is=on-still-hdr'' KEY_SCENE_MODE = Some ''hdr''"
proof -
  obtain s' where 1: "run_state (camera_fixup_setparams text_params ''scene-mode=hdr'') cam_boot = (Some (4096, hdr_sent), s')"
    using hdr_is_sent by (metis prod.collapse)
  obtain t' where 2: "run_state (camera_fixup_getparams text_params hdr_sent) cam_boot = (Some (4096, ''scene-mode=hdr;sony-is=on-still-hdr''), t')"
    using hdr_is_got by (metis prod.collapse)
  show ?thesis
    using scene_mode_kept [OF text_params_ok hdr_views(1) refl 1 2] by (simp add: hdr_views(2))
qed

text \<open>C21: the ISO modes that the wrapper lists are the vendor's, each with the letters before it, and \<open>auto\<close>, if the vendor's list has no
  separator of parameters in it. A list of more than 254 characters is written past the end of the buffer.\<close>

theorem iso_modes_listed:
  assumes "params_ok ops" "view ops settings KEY_SONY_ISO_AVAIL_MODES = Some l" "plain l"
    and "run_state (camera_fixup_getparams ops settings) s = (Some (a, back), s')"
    and "listed = join_with '','' (map ((@) ''ISO'') (split_on (CHR '','') l) @ [''auto''])"
  shows "view ops back KEY_SUPPORTED_ISO_MODES = Some listed \<and> (254 < length listed \<longrightarrow> ub s')"
proof -
  have l: "iso_loop l ''ISO'' @ '',auto'' = listed"
    using iso_loop_eq [of l "[]"] join_last [of "map ((@) ''ISO'') (split_on (CHR '','') l)" "'',''" "''auto''"] assms(5) by (simp add: split_on_ne)
  have "view ops back KEY_SUPPORTED_ISO_MODES = Some listed"
    using leaves_view [OF getparams_leaves [OF assms(1)] assms(1,4)] assms(2,3) l unfolding got_def view_unflatten by auto
  moreover have "ub s'" if "254 < length listed"
    using hoareD [OF list_too_long [OF assms(1,2)] TrueI assms(4)] l that by simp
  ultimately show ?thesis by blast
qed

lemma isos_got: "fst (run_state (camera_fixup_getparams text_params ''sony-iso-values=100,200'') cam_boot) =
    Some (4096, ''sony-iso-values=100,200;iso-values=ISO100,ISO200,auto'')"
  by code_simp

lemma isos_view: "view text_params ''sony-iso-values=100,200'' KEY_SONY_ISO_AVAIL_MODES = Some ''100,200''"
  by code_simp

theorem iso_modes_listed_witness:
  "view text_params ''sony-iso-values=100,200;iso-values=ISO100,ISO200,auto'' KEY_SUPPORTED_ISO_MODES =
   Some (join_with '','' [''ISO100'', ''ISO200'', ''auto''])"
proof -
  obtain s' where "run_state (camera_fixup_getparams text_params ''sony-iso-values=100,200'') cam_boot =
      (Some (4096, ''sony-iso-values=100,200;iso-values=ISO100,ISO200,auto''), s')"
    using isos_got by (metis prod.collapse)
  moreover have "map ((@) ''ISO'') (split_on (CHR '','') ''100,200'') @ [''auto''] = [''ISO100'', ''ISO200'', ''auto'']" by simp
  moreover have "plain ''100,200''" by simp
  ultimately show ?thesis using iso_modes_listed [OF text_params_ok isos_view _ _ refl] by metis
qed

lemma set_iso_name_writes_past:
  "get_param ops p KEY_SONY_ISO_MODE = Some v \<Longrightarrow> hoare (\<lambda>_. True) (set_iso_name ops p) (\<lambda>_ s. ub s)"
  by (rule hoareI) (auto simp: set_iso_name_def need_def fits_def)

text \<open>C22: getting the parameters of a sensor whose sensitivity is set by hand writes past the block that was allocated for its name, which
  has no byte for the terminator.\<close>

theorem iso_name_overflows:
  assumes "params_ok ops" "view ops settings KEY_SONY_ISO_MODE \<noteq> None" "view ops settings KEY_SONY_AE_MODE_VALUES \<noteq> None"
    and "view ops settings KEY_SONY_AE_MODE \<in> {Some ''iso-prio'', Some ''manual''}"
  shows "ub (snd (run_state (camera_fixup_getparams ops settings) s))"
proof -
  let ?p = "unflatten ops settings" and ?K = "{KEY_SUPPORTED_SCENE_MODES} \<union> {KEY_SUPPORTED_ISO_MODES} \<union> {KEY_SCENE_MODE} \<union> {''video-hdr-values'', ''video-hdr''}"
  have ne: "KEY_SONY_ISO_MODE \<notin> ?K" "KEY_SONY_AE_MODE_VALUES \<notin> ?K" "KEY_SONY_AE_MODE \<notin> ?K" "KEY_SONY_ISO_MODE \<noteq> ''shutter-speed''"
    by (simp_all add: camera_keys)
  have scene: "changes ops {KEY_SCENE_MODE} q (get_scene_mode ops q)" for q by (simp add: changes_def get_scene_mode_got [OF assms(1)])
  have past: "hoare (\<lambda>_. True) (get_iso_mode ops q) (\<lambda>_ s. ub s)" if c: "changes ops ?K ?p q" for q
  proof -
    obtain v w where v: "get_param ops q KEY_SONY_ISO_MODE = Some v" and w: "get_param ops q KEY_SONY_AE_MODE_VALUES = Some w"
      using assms(2,3) changes_get [OF c ne(1)] changes_get [OF c ne(2)] unfolding view_def by auto
    have "get_param ops (copy_shutter ops q) KEY_SONY_ISO_MODE = Some v"
      using changes_get [OF copy_shutter_changes [OF assms(1) changes_refl, of "{''shutter-speed''}" q]] ne(4) v by simp
    note man = set_iso_name_writes_past [OF this]
    have prio: "hoare (\<lambda>_. True) (do { u \<leftarrow> set_iso_name ops q; ret (set_param ops u ''shutter-speed'' ''auto'') }) (\<lambda>_ s. ub s)"
      by (rule hoare_bind [OF set_iso_name_writes_past [OF v]]) (rule hoare_ret)
    consider "get_param ops q KEY_SONY_AE_MODE = Some ''iso-prio''" | "get_param ops q KEY_SONY_AE_MODE = Some ''manual''"
      using assms(4) changes_get [OF c ne(3)] unfolding view_def by auto
    then show ?thesis using v w man prio by cases (simp_all add: get_iso_mode_def need_def)
  qed
  have "hoare (\<lambda>_. True) (camera_fixup_getparams ops settings) (\<lambda>_ s. ub s)"
    unfolding camera_fixup_getparams_def Let_def
  proof (rule hoare_result [OF capability_changes [OF assms(1)]], rule hoare_result [OF iso_values_listed [OF assms(1)]],
      rule hoare_result [OF video_hdr_changes [OF assms(1)]], rule hoare_bind [OF past])
    fix q r u
    assume "changes ops {KEY_SUPPORTED_SCENE_MODES} ?p q" "iso_listed ops q r"
      "changes ops {''video-hdr-values'', ''video-hdr''} (get_scene_mode ops r) u"
    moreover from this(2) have "changes ops {KEY_SUPPORTED_ISO_MODES} q r" by (simp add: iso_listed_def)
    ultimately show "changes ops ?K ?p u" using changes_trans [OF changes_trans [OF changes_trans [OF _ _] scene]] by blast
  next
    show "hoare (\<lambda>s. ub s) (strdup (flatten ops q)) (\<lambda>_ s. ub s)" for q by (rule hoareI) (auto simp: strdup_def)
  qed
  from hoareD [OF this TrueI] show ?thesis by (metis prod.collapse)
qed

theorem iso_name_overflows_witness:
  "ub (snd (run_state (camera_fixup_getparams text_params ''sony-iso=100;sony-ae-mode-values=auto,iso-prio;sony-ae-mode=iso-prio'') cam_boot)) \<and> \<not> ub cam_boot"
proof -
  let ?t = "''sony-iso=100;sony-ae-mode-values=auto,iso-prio;sony-ae-mode=iso-prio''"
  have "view text_params ?t KEY_SONY_ISO_MODE \<noteq> None" "view text_params ?t KEY_SONY_AE_MODE_VALUES \<noteq> None"
    "view text_params ?t KEY_SONY_AE_MODE = Some ''iso-prio''" "\<not> ub cam_boot"
    by code_simp+
  then show ?thesis using iso_name_overflows [OF text_params_ok, of ?t cam_boot] by simp
qed

section \<open>Devices\<close>

lemmas open_defs = camera_device_open_def camera_check_vendor_module_def can_talk_to_sensormanager_def

lemma open_vendor_result:
  assumes "run_state (open_vendor name i dev) s = ((r, d), s')"
  shows "r = 0 \<and> d = Some dev \<and> (\<exists>x. cam_devs s' = (cam_devs s)(dev \<mapsto> x) \<and> cam_id x = i) \<or> r \<noteq> 0 \<and> d = Some 0 \<and> cam_devs s' = cam_devs s"
proof -
  have "\<exists>x. (cam_devs s)(dev \<mapsto> \<lparr>cam_id = i, cam_vendor = v, cam_ops = c\<rparr>) = (cam_devs s)(dev \<mapsto> x) \<and> cam_id x = i" for v c
    by (intro exI conjI, rule refl, simp)
  then show ?thesis using assms by (auto simp: open_vendor_def cam_ENOMEM_def split: if_splits)
qed

text \<open>An opened device has the identifier its name says.\<close>

lemma open_result:
  assumes "run_state (camera_device_open (Some name)) s = ((0, d), s')"
  shows "\<exists>a x. d = Some a \<and> cam_devs s' = (cam_devs s)(a \<mapsto> x) \<and> cam_id x = swrap 32 (atoi name)"
  using assms by (auto simp: open_defs Let_def NO_INIT_def cam_ENOMEM_def split: if_splits prod.splits dest!: open_vendor_result)

text \<open>A device that was not opened is not kept, and its memory is freed.\<close>

lemma open_fails:
  assumes "run_state (camera_device_open name) s = ((r, d), s')" "r \<noteq> 0"
  shows "cam_devs s' = cam_devs s \<and> (d = None \<or> d = Some 0)"
  using assms by (auto simp: open_defs Let_def split: if_splits option.splits prod.splits dest!: open_vendor_result)

text \<open>The vendor's device stays open if there is no memory for the table of functions: nothing but the lock is called after the block is freed.\<close>

lemma vendor_left_open:
  assumes "run_state (open_vendor name i dev) s = ((r, d), s')" "r = - cam_ENOMEM" "\<forall>n. rv (env s (tr s) (E_hook ''vendor_open'' n)) = 0"
  shows "\<exists>n. tr s' = [E_free dev, E_malloc 92, E_hook ''vendor_open'' n] @ tr s"
  using assms by (auto simp: open_vendor_def cam_ENOMEM_def split: if_splits)

lemma close_forgets:
  assumes "cam_devs s d = Some x" "d \<noteq> 0" "cam_vendor x \<noteq> 0" "cam_ops x \<noteq> 0"
  shows "run_state (camera_device_close d) s = (0, s\<lparr>cam_devs := (cam_devs s)(d := None),
    tr := [E_unlock L_camera, E_free d, E_free (cam_ops x), E_hook ''vendor_close'' [int (cam_vendor x)], E_lock L_camera] @ tr s\<rparr>)"
  using assms by (simp add: camera_device_close_def cam_dev_def)

end
