(* ===== verification/Adapters.thy ===== *)
theory Adapters
  imports Loc_Examples
begin

text \<open>The adapters of \<open>LocApiBase\<close> as a set.\<close>

section \<open>The adapters of the location API\<close>

datatype adapter_op = Add_adapter nat | Remove_adapter nat

fun adapter_do :: "adapter_op \<Rightarrow> ('a loc_st_scheme, unit) state" where
  "adapter_do (Add_adapter a) = addAdapter a"
| "adapter_do (Remove_adapter a) = removeAdapter a"

text \<open>What it does to the set of adapters, of which there are at most ten.\<close>

fun adapter_spec :: "nat set \<Rightarrow> adapter_op \<Rightarrow> nat set" where
  "adapter_spec S (Add_adapter a) = (if card S < MAX_ADAPTERS then insert a S else S)"
| "adapter_spec S (Remove_adapter a) = S - {a}"

fun op_adapter :: "adapter_op \<Rightarrow> nat" where
  "op_adapter (Add_adapter a) = a"
| "op_adapter (Remove_adapter a) = a"

lemma keeps_arr_masks: "keeps (\<lambda>s. mLocAdapters s = v) (evt_masks as m)"
  by (induction as arbitrary: m) (auto intro!: keeps_rules)

lemma keeps_arr: "keeps (\<lambda>s. mLocAdapters s = v) getEvtMask" "keeps (\<lambda>s. mLocAdapters s = v) (eng_send m)"
  by (auto simp: getEvtMask_def eng_send_def send_msg_def intro!: keeps_rules keeps_arr_masks)

lemma add_adapter_arr:
  assumes "run_state (addAdapter a) s = (u, s')"
  shows "mLocAdapters s' = (case add_slot a (mLocAdapters s) of None \<Rightarrow> mLocAdapters s | Some arr \<Rightarrow> arr)"
proof (cases "add_slot a (mLocAdapters s)")
  case (Some arr)
  have "keeps (\<lambda>s. mLocAdapters s = arr) (do { k \<leftarrow> (if a = ENG_ADAPTER then gets mEvtMask
      else do { r \<leftarrow> call (E_hook ''getEvtMask'' [int a]); ret (rv r) }); eng_send (LocOpenMsg k) })"
    by (intro keeps_rules keeps_arr) simp
  from keepsD [OF this, of "s\<lparr>mLocAdapters := arr\<rparr>"] show ?thesis using assms Some by (simp add: addAdapter_def split_beta)
qed (use assms in \<open>simp add: addAdapter_def\<close>)

lemma remove_adapter_arr:
  assumes "run_state (removeAdapter a) s = (u, s')"
  shows "mLocAdapters s' = (let j = length (takeWhile (\<lambda>x. x \<noteq> a) (live (mLocAdapters s))) in
    if j < length (live (mLocAdapters s)) then take_out j (mLocAdapters s) else mLocAdapters s)"
proof -
  define T :: "bool \<Rightarrow> ('a loc_st_scheme, unit) state" where
    "T b = (if b then do { _ \<leftarrow> api_call ''close'' []; ret () } else do { k \<leftarrow> getEvtMask; eng_send (LocOpenMsg k) })" for b
  have "keeps (\<lambda>s. mLocAdapters s = v) (T b)" for v b
    unfolding T_def api_call_def by (intro keeps_rules keeps_arr) simp_all
  from keepsD [OF this refl] have T: "mLocAdapters (snd (run_state (T b) s)) = mLocAdapters s" for b s .
  have "run_state (removeAdapter a) s = (let arr = mLocAdapters s; j = length (takeWhile (\<lambda>x. x \<noteq> a) (live arr)) in
    if j < length (live arr) then run_state (T (last_from j arr = 0)) (s\<lparr>mLocAdapters := take_out j arr\<rparr>) else ((), s))"
    by (simp add: removeAdapter_def T_def Let_def)
  moreover have "s' = snd (run_state (removeAdapter a) s)" using assms by simp
  ultimately show ?thesis by (simp add: Let_def T)
qed

lemma index_takeWhile: "j = length (takeWhile (\<lambda>x. x \<noteq> a) as) \<Longrightarrow> (j < length as \<longleftrightarrow> a \<in> set as) \<and> (j < length as \<longrightarrow> as ! j = a)"
  by (metis (mono_tags, lifting) length_takeWhile_le linorder_not_less nth_length_takeWhile nth_mem order_le_less takeWhile_eq_all_conv
      takeWhile_eq_take take_all)

lemma set_butlast_update:
  assumes "distinct as" "j < length as"
  shows "set (butlast (as[j := last as])) = set as - {as ! j} \<and> distinct (butlast (as[j := last as]))"
proof -
  obtain bs l where as: "as = bs @ [l]" using assms(2) by (metis append_butlast_last_id list.size(3) not_less_zero)
  show ?thesis
  proof (cases "j = length bs")
    case False
    then have "j < length bs" using assms(2) as by simp
    then show ?thesis using assms as
      by (auto simp: list_update_append1 nth_append set_update_distinct butlast_append distinct_list_update)
  qed (use assms as in auto)
qed

lemma adapter_step:
  assumes "slots_ok (mLocAdapters s)" "op_adapter p \<noteq> 0" "run_state (adapter_do p) s = (u, s')"
  shows "slots_ok (mLocAdapters s') \<and> set (live (mLocAdapters s')) = adapter_spec (set (live (mLocAdapters s))) p"
proof -
  let ?as = "live (mLocAdapters s)"
  have ok: "distinct ?as" "0 \<notin> set ?as" "length ?as \<le> MAX_ADAPTERS" "mLocAdapters s = ?as @ replicate (MAX_ADAPTERS - length ?as) 0"
    using assms(1) live_nz by (auto simp: slots_ok_def dest: arg_cong [where f = length])
  note card = distinct_card [OF ok(1)]
  show ?thesis
  proof (cases p)
    case (Add_adapter a)
    then have arr: "mLocAdapters s' = (case add_slot a (?as @ replicate (MAX_ADAPTERS - length ?as) 0) of
        None \<Rightarrow> mLocAdapters s | Some arr \<Rightarrow> arr)"
      using add_adapter_arr assms(3) ok(4) by simp
    show ?thesis
    proof (cases "a \<in> set ?as \<or> MAX_ADAPTERS - length ?as = 0")
      case True
      then show ?thesis using arr add_slot_spec [OF ok(2), of a] assms(1,2) ok(3) card Add_adapter by (auto simp: insert_absorb)
    next
      case False
      then have "mLocAdapters s' = (?as @ [a]) @ replicate (MAX_ADAPTERS - length (?as @ [a])) 0"
        using arr add_slot_spec [OF ok(2), of a] assms(2) Add_adapter by simp
      from slots_okI [OF _ _ _ this] show ?thesis using False ok assms(2) card Add_adapter by auto
    qed
  next
    case (Remove_adapter a)
    define j where "j = length (takeWhile (\<lambda>x. x \<noteq> a) ?as)"
    note j = index_takeWhile [OF j_def]
    have arr: "mLocAdapters s' = (if a \<in> set ?as then take_out j (mLocAdapters s) else mLocAdapters s)"
      using remove_adapter_arr [of a s u s'] assms(3) Remove_adapter j unfolding j_def [symmetric] Let_def by simp
    show ?thesis
    proof (cases "a \<in> set ?as")
      case True
      let ?bs = "butlast (?as[j := last ?as])"
      have J: "j < length ?as" using True j by blast
      have "mLocAdapters s' = ?bs @ replicate (MAX_ADAPTERS - length ?bs) 0"
        using arr True ok(3) take_out_spec(2) [OF ok(2) J, of "MAX_ADAPTERS - length ?as"] ok(4) J
        by (simp add: Suc_diff_le [symmetric])
      from slots_okI [OF _ _ _ this] show ?thesis
        using set_butlast_update [OF ok(1) J] J j ok Remove_adapter by auto
    qed (use arr assms(1) Remove_adapter in simp)
  qed
qed

text \<open>C24: the array of adapters has no holes and no adapter twice whatever is added and removed, and it has those that were added and not
  removed since, as long as there is room.\<close>

theorem adapters_set:
  assumes "slots_ok (mLocAdapters s)" "\<forall>p \<in> set ps. op_adapter p \<noteq> 0" "run_state (for_each ps adapter_do) s = (u, s')"
  shows "slots_ok (mLocAdapters s') \<and> set (live (mLocAdapters s')) = foldl adapter_spec (set (live (mLocAdapters s))) ps"
  using assms
proof (induction ps arbitrary: s)
  case (Cons p ps)
  obtain v t where t: "run_state (adapter_do p) s = (v, t)" by (metis surj_pair)
  with adapter_step [of s p v t] Cons show ?case by auto
qed simp

theorem adapters_set_witness:
  "set (live (mLocAdapters (snd (run_state (for_each [Add_adapter 1, Add_adapter 5, Add_adapter 7, Remove_adapter 1] adapter_do)
     (loc_boot zeros))))) = {5, 7}"
proof -
  let ?ps = "[Add_adapter 1, Add_adapter 5, Add_adapter 7, Remove_adapter 1]"
  have "slots_ok (mLocAdapters (loc_boot zeros))" and none: "live (mLocAdapters (loc_boot zeros)) = []"
    by (simp_all add: slots_ok_def live_def loc_boot_def MAX_ADAPTERS_def)
  then have "set (live (mLocAdapters (snd (run_state (for_each ?ps adapter_do) (loc_boot zeros))))) = foldl adapter_spec {} ?ps"
    using adapters_set [OF _ _ prod.collapse [symmetric], of "loc_boot zeros" ?ps] by (simp del: for_each.simps foldl.simps)
  also have "foldl adapter_spec {} ?ps = {5, 7}" by (auto simp: MAX_ADAPTERS_def card_insert_if)
  finally show ?thesis .
qed

end
