(* ===== verification/Loc_Findings.thy ===== *)
theory Loc_Findings
  imports Loc_Hal
begin

text \<open>Where the location engine does something else than it means to.\<close>

text \<open>With a proxy that has no position injection of its own, what \<open>loc_init\<close> sets makes the engine drop every injected location.\<close>

lemma no_proxy_no_injection:
  assumes "mCPIEnabled s" "eng_adapter s"
  shows "run_state (loc_eng_inject_location la lo ac) s = (0, s)"
  using assms by (simp add: loc_eng_inject_location_def)

text \<open>The level that the configuration file sets is written over four bytes of a variable of one.\<close>

lemma debug_level_overflows:
  "ub (snd (run_state (conf_line [] (''DEBUG_LEVEL = 3'' @ [CHR 0x0A])) s))"
proof -
  have "read_line (dl s) (''DEBUG_LEVEL = 3'' @ [CHR 0x0A]) =
      Some \<lparr>v_name = ''DEBUG_LEVEL'', param_str_value = ''3'', param_int_value = 3, param_double_value = dl s (written ''3'')\<rparr>"
    by code_simp
  then show ?thesis
    by (simp add: conf_line_def own_table_def loc_set_config_entry_def put_param_def set_flag_def)
qed

text \<open>Reading a second file with the same table clears what says that the first one set a value.\<close>

lemma second_file_clears:
  assumes "param_set e = Some f"
  shows "run_state (clear_flag e) s = ((), f False s)"
  using assms by (simp add: clear_flag_def set_flag_def)

text \<open>A library without the function: a null pointer is called.\<close>

lemma geofence_calls_null:
  assumes "\<And>t x. rv (env s t (E_hook ''dlopen'' x)) \<noteq> 0" "\<And>t x. rv (env s t (E_hook ''dlsym'' x)) = 0"
  shows "ub (snd (run_state get_geofence_interface s))"
  using assms by (simp add: get_geofence_interface_def must_def)

end
