(* ===== verification/Spec2Isabelle.thy ===== *)
theory Spec2Isabelle
  imports Props_Hw Props_Algo Props_Gps Props_Sp Props_Agps Props_Hal Props_Loc Props_Nmea Props_Cfg Props_Lights Props_Camera Adapters Loc_Findings Loc_Target
begin

text \<open>
  Verification library of the native code of the Sony nicki device tree (\<open>src/device/sony/nicki\<close>): the sensor daemon
  (\<open>sensors/daemon\<close>), the sensor HAL above it (\<open>sensors\<close>), the GPS library (\<open>gps/utils\<close>, \<open>gps/core\<close>,
  \<open>gps/loc_api/libloc_api_50001\<close>), the lights HAL (\<open>liblights\<close>) and the wrapper of the camera (\<open>camera\<close>).

  The program. The daemon reads two sensor chips through files of the kernel, feeds a prebuilt fusion library and writes one
  packet for each active channel to its client. A command on a fifo (\<open>event_handler.c\<close>) reaches a channel (\<open>channel_cntl.c\<close>),
  which links itself into the client list of its provider (\<open>sensor_provider.c\<close>); the provider tells the fusion
  (\<open>sensor_fusion.c\<close>), which counts the algorithm modules and devices needed (\<open>algo_adapter.c\<close>), and the devices themselves
  (\<open>hw_cntl.c\<close>, \<open>hw_cntl_a.c\<close>, \<open>hw_cntl_m.c\<close>) are counted and switched. The thread of a provider (\<open>re_proc\<close>) sleeps while it
  has no client, and otherwise collects data, reports it and sleeps for the common interval. In the GPS library a linked list
  (\<open>linked_list.c\<close>) carries a message queue (\<open>msg_q.c\<close>) and the subscribers of the resource state machines
  (\<open>loc_eng_agps.cpp\<close>), timers run in threads of their own (\<open>loc_timer.c\<close>), and messages go through named pipes served by a
  helper thread (\<open>loc_eng_dmn_conn_*.c\<close>).

  The location engine is above them. A call of the framework (\<open>loc.cpp\<close>) is passed to \<open>loc_eng.cpp\<close>, which sends a message to
  its task; the task takes one message after the other (\<open>proc_eng\<close>, \<open>eng_turns\<close>) and calls the modem's library through the
  adapter (\<open>LocEngAdapter.cpp\<close>). What the modem reports comes to \<open>LocApiBase.cpp\<close>, is handed to the adapters and becomes a message
  again, which reaches the callbacks of the framework, or is turned into sentences (\<open>loc_eng_nmea.cpp\<close>). A request of the network
  waits in a thread of its own for the user (\<open>loc_eng_ni.cpp\<close>). Configuration files are read by \<open>loc_cfg.cpp\<close>, the target is
  found by \<open>loc_target.cpp\<close>. The HALs of the lights and the camera stand alone: the first writes to files of the kernel or calls the
  vendor's module, the second changes the parameters that go to the vendor's camera and come from it.

  The world. \<open>World\<close> has the state of everything outside: \<open>env\<close> maps the trace of all earlier calls and a call to its answer, so
  a theorem about an arbitrary \<open>env\<close> holds for every behaviour of the operating system, the allocator and the fusion library;
  \<open>tr\<close> is the trace, the latest call first; \<open>ub\<close> is set where the code would run into undefined behaviour (a null or freed
  pointer, an index out of bounds, an uninitialised variable, a loop that does not end). Locks are calls \<open>E_lock\<close> and
  \<open>E_unlock\<close>; locks are ordered (display, provider, channel, device, counts of the adapter, fifo, queue, timer) and \<open>held\<close>
  accepts a trace only if each lock taken is above those held. State is a record extended from theory to theory, code is
  the state monad of the library over it, a C integer an \<open>int\<close> with \<open>swrap\<close> and \<open>uwrap\<close> where the code may leave its
  width, a float a rational number rounded by \<open>fl\<close>.

  Theories and the code they model.
  \<^item> \<open>Prelude\<close>, \<open>World\<close>, \<open>C_Strings\<close>: the monad, the wrapped integers, the C library functions that the code uses.
  \<^item> \<open>Util_Misc\<close>, \<open>Util_Time\<close>, \<open>Util_Sysfs\<close>: \<open>lib/util_*.c\<close>.
  \<^item> \<open>Axis_Remap\<close>, \<open>Hw_Types\<close>, \<open>Hw_A\<close>, \<open>Hw_M\<close>, \<open>Hw_Cntl\<close>: the devices; placements, readings, bandwidth and range, counts.
  \<^item> \<open>Fusion_Products\<close>, \<open>Algo_Adapter\<close>, \<open>Algo_Data\<close>, \<open>Algo_Init\<close>, \<open>Sensor_Fusion\<close>: products, modules, data rates, the data path.
  \<^item> \<open>Channels\<close>, \<open>Sensor_Provider\<close>, \<open>Re_Proc\<close>, \<open>Channel_Cntl\<close>: channels, providers and their threads.
  \<^item> \<open>Event_Handler\<close>, \<open>Daemon\<close>: fifo, signals, trace, start-up, composition of a run.
  \<^item> \<open>Linked_List\<close>, \<open>Msg_Q\<close>, \<open>Loc_Timer\<close>, \<open>Dmn_Conn\<close>: the GPS utilities.
  \<^item> \<open>Algo_Refs\<close> (counts under sequences of operations), \<open>Sp_Frame\<close> (which operations touch the client lists and locks),
    \<open>Sp_Inv\<close> (the invariant of the client lists, one lemma for each operation), \<open>Sp_Threads\<close> (commands and threads
    interleaved, with the critical sections under the lock of the provider as steps), \<open>Examples\<close> (concrete states).
  \<^item> \<open>List_Callback\<close> (the search of the list with a callback that has effects), \<open>Dmn_Server\<close> (\<open>loc_eng_dmn_conn.cpp\<close>,
    \<open>loc_eng_dmn_conn_handler.cpp\<close>), \<open>Agps\<close> (\<open>loc_eng_agps.cpp\<close> and the messages of \<open>loc_eng.cpp\<close> that drive the machines). A C++
    object is an address into \<open>subs\<close> or \<open>sms\<close>, a virtual method a case distinction on its kind, a local object is at \<open>LOCAL\<close>,
    memory nobody has written is answered by \<open>env\<close>, and a message to the task is appended to \<open>task_q\<close>, which the property of
    the queue justifies.
  \<^item> \<open>Agps_Inv\<close> (what each operation does to the list of subscribers), \<open>Agps_Spec\<close> (the abstract machine and the refinement of
    one operation), \<open>Agps_Ub\<close> (the use of a deleted subscriber), \<open>Agps_Seq\<close> (sequences, invariant, requests), \<open>Agps_Chain\<close> (from
    the bytes of a request to the operation of the machine).
  \<^item> \<open>Event_Queue\<close> (\<open>sensors/SensorEventQueue.cpp\<close>), \<open>Multihal\<close> (\<open>sensors/multihal.cpp\<close>), \<open>Multihal_Inv\<close> (writers and
    reader interleaved), \<open>Multihal_Handles\<close> (the handles), \<open>Multihal_Wake\<close> (waiting, and libraries that do not open).
  \<^item> \<open>Loc_Msg\<close> (the messages of the engine as one datatype, and its constants), \<open>Loc_Adapter\<close> (\<open>LocEngAdapter.cpp\<close>, the state of
    the engine), \<open>Loc_Api_Base\<close> (\<open>LocApiBase.cpp\<close>), \<open>Loc_Ni\<close> (\<open>loc_eng_ni.cpp\<close>, the thread in the pieces between which others can
    run), \<open>Nmea\<close> (\<open>loc_eng_nmea.cpp\<close>), \<open>Loc_Cfg\<close> (\<open>loc_cfg.cpp\<close>), \<open>Loc_Target\<close> (\<open>loc_target.cpp\<close>), \<open>Loc_Eng\<close>
    (\<open>loc_eng.cpp\<close>, \<open>loc_eng_xtra.cpp\<close>, the contexts of \<open>gps/core\<close>), \<open>Loc_Hal\<close> (\<open>loc.cpp\<close>).
  \<^item> \<open>Loc_Ni_Inv\<close> (requests, answers and threads interleaved), \<open>Nmea_Spec\<close> (the sentences as a list of satellites in fours),
    \<open>Loc_Frames\<close> (what the messages leave as it is), \<open>Adapters\<close> (the array of adapters as a set), \<open>Loc_Examples\<close> (concrete
    states), \<open>Loc_Findings\<close> (what smaller pieces do where it is not what they mean to do).
  \<^item> \<open>Lights\<close> (\<open>liblights/lights.cpp\<close>), \<open>Camera\<close> (\<open>camera/CameraWrapper.cpp\<close>; the parameters of the framework are the
    argument \<open>ops\<close>, with the laws \<open>params_ok\<close> and an instance, \<open>text_params\<close>, that has them).
  \<^item> \<open>Props_Hw\<close>, \<open>Props_Algo\<close>, \<open>Props_Sp\<close>, \<open>Props_Gps\<close>, \<open>Props_Agps\<close>, \<open>Props_Hal\<close>, \<open>Props_Loc\<close>, \<open>Props_Nmea\<close>, \<open>Props_Cfg\<close>,
    \<open>Props_Lights\<close>, \<open>Props_Camera\<close>, and \<open>Adapters\<close>: the properties C1, C2, and so on, each with a concrete instance.

  What the properties show. For the devices and modules: the counts follow the acquisitions and releases and the switch,
  as long as it can be set, follows the count (\<open>ref_count\<close> is the interface, interpreted on both); readings survive printing, parsing and remapping;
  data rates and intervals are the extrema they are meant to be. For the providers: client lists are exactly the active
  channels, commands refine the set of active channels, locks are taken in order, no wake-up is lost. For the GPS utilities:
  the queue refines a list, the timer fires at most once and is freed, the helper thread's loop ends, messages are
  transported. For the resource state machines: the code refines a machine over a list of subscribers, whose invariant holds from
  the start on, and its requests follow its state, as long as no operation goes on to use a subscriber it has deleted; a
  client's request takes effect. For the sensor HAL: its queues lose and repeat
  nothing, its handles lead back to the library they came from, its reader is woken. For the location engine: each network request is
  answered once (though a late answer to an earlier one may be taken for it), the reports of a muted session are not passed on, a deletion of aiding data does not stay behind, the sentences have every satellite once, a
  checksum is accepted, a configuration file is read as it was written. For the lights and the camera: the channels show the color, the
  scene mode comes back as it was set, unless recording is hinted at. Some properties state what the code does where that is not what it means to do.

  Bounds. Everything under an \<open>#if\<close> is modelled, with the options in \<open>build_opts\<close>; \<open>nicki_build\<close> is the phone's. Loops that end
  only if the kernel makes them have fuel and set \<open>ub\<close> when it runs out: \<open>INPUT_EV_FUEL\<close> (64 events per reading; a reading
  takes at most four), \<open>READN_FUEL\<close> (1000 reads for a command of 56 bytes), \<open>PURGE_FUEL\<close> (4097 reads of an old fifo,
  which holds at most 65536 bytes); \<open>notify_loop\<close> has one turn more than the list has elements. Loops over pointers are partial functions whose undefinedness is \<open>ub\<close>. Counts have the
  width of their bit fields; properties that need them in range say so.

  In the location engine the adapter functions that only pass their arguments on to the modem's library are calls (\<open>api_call\<close>),
  with \<open>E_bsc\<close> where an argument is a float; the contents of a configuration file are the bytes of the answer to its opening; the
  callbacks of \<open>loc.cpp\<close> are the address \<open>HAL_CB\<close>, and 0 is the base class of a proxy; \<open>gmtime\<close> is the civil calendar.

  Not modelled: log texts and dumps, \<open>algo_data_log.c\<close> (debug output of samples), the display thread of
  \<open>event_handler.c\<close>, the fusion library and its header (binary only), the background context of \<open>LocDualContext.cpp\<close>, which nothing
  uses, the implementations in \<open>LocApiBase\<close> that the modem's library replaces, the library shims (copies of Android code), the NFC
  firmware (data).
\<close>

end
